(* ===== verification/Prelude.thy ===== *)
theory Prelude
  imports
    Main
    "HOL-Library.AList"
    "HOL-Library.Sublist"
    "HOL-Library.Char_ord"
    "HOL-Library.List_Lexorder"
    "HOL-Library.Product_Lexorder"
    "HOL-Library.Multiset"
    "HOL-Library.Word"
begin

section \<open>Shared vocabulary of the development\<close>

text \<open>
  Go functions of the shape \<^verbatim>\<open>func f(x) (T, error)\<close> are modelled by functions into a
  sum: \<^term>\<open>Inl e\<close> is the error return, \<^term>\<open>Inr v\<close> the value.  This theory holds
  the combinators that sequence such calls (\<open>rbind\<close>, \<open>ensure\<close>, \<open>mapM\<close>), the
  characterisations of their successful runs that carry the component proofs, and the
  generic list facts the components share.
\<close>

type_synonym ('e, 'a) result = "'e + 'a"

text \<open>
  \<open>res_simps\<close> collects the rewrite rules that take a successful run of a sequence of
  fallible calls apart; \<open>go_string_simps\<close> those that compute with the string functions
  of the Go library.
\<close>

named_theorems res_simps
named_theorems go_string_simps

subsection \<open>Sequencing fallible calls\<close>

definition rbind :: "('e, 'a) result \<Rightarrow> ('a \<Rightarrow> ('e, 'b) result) \<Rightarrow> ('e, 'b) result" where
  "rbind r f = (case r of Inl e \<Rightarrow> Inl e | Inr x \<Rightarrow> f x)"

definition ensure :: "bool \<Rightarrow> 'e \<Rightarrow> ('e, unit) result" where
  "ensure b e = (if b then Inr () else Inl e)"

definition map_err :: "('e \<Rightarrow> 'f) \<Rightarrow> ('e, 'a) result \<Rightarrow> ('f, 'a) result" where
  "map_err g r = (case r of Inl e \<Rightarrow> Inl (g e) | Inr x \<Rightarrow> Inr x)"

definition map_result :: "('a \<Rightarrow> 'b) \<Rightarrow> ('e, 'a) result \<Rightarrow> ('e, 'b) result" where
  "map_result f r = (case r of Inl e \<Rightarrow> Inl e | Inr x \<Rightarrow> Inr (f x))"

definition is_ok :: "('e, 'a) result \<Rightarrow> bool" where
  "is_ok r = (case r of Inl _ \<Rightarrow> False | Inr _ \<Rightarrow> True)"

primrec mapM :: "('a \<Rightarrow> ('e, 'b) result) \<Rightarrow> 'a list \<Rightarrow> ('e, 'b list) result" where
  "mapM f [] = Inr []"
| "mapM f (x # xs) = rbind (f x) (\<lambda>y. rbind (mapM f xs) (\<lambda>ys. Inr (y # ys)))"

lemma rbind_Inr [simp]: "rbind (Inr x) f = f x"
  and rbind_Inl [simp]: "rbind (Inl e) f = Inl e"
  by (simp_all add: rbind_def)

text \<open>For evaluation: continuations are entered only with a value.\<close>

lemma rbind_case [code_unfold]: "rbind r f = (case r of Inl e \<Rightarrow> Inl e | Inr x \<Rightarrow> f x)"
  by (simp add: rbind_def)

lemma Let_case [code_unfold]: "Let x f = (case (x, ()) of (y, _) \<Rightarrow> f y)"
  by simp

lemma map_err_simps [simp]: "map_err g (Inr x) = Inr x" "map_err g (Inl e) = Inl (g e)"
  by (simp_all add: map_err_def)

lemma map_result_simps [simp]:
  "map_result f (Inr x) = Inr (f x)" "map_result f (Inl e) = Inl e"
  by (simp_all add: map_result_def)

lemma map_result_eq_Inr [res_simps]: "map_result f r = Inr y \<longleftrightarrow> (\<exists>x. r = Inr x \<and> y = f x)"
  by (cases r) auto

lemma map_result_eq_Inl [res_simps]: "map_result f r = Inl e \<longleftrightarrow> r = Inl e"
  by (cases r) auto

lemma rbind_eq_Inr [res_simps]: "rbind r f = Inr y \<longleftrightarrow> (\<exists>x. r = Inr x \<and> f x = Inr y)"
  by (cases r) auto

lemma rbind_eq_Inl [res_simps]:
  "rbind r f = Inl e \<longleftrightarrow> r = Inl e \<or> (\<exists>x. r = Inr x \<and> f x = Inl e)"
  by (cases r) auto

lemma ensure_eq_Inr [res_simps]: "ensure b e = Inr u \<longleftrightarrow> b"
  by (simp add: ensure_def)

lemma ensure_eq_Inl [res_simps]: "ensure b e = Inl e' \<longleftrightarrow> \<not> b \<and> e' = e"
  by (auto simp: ensure_def)

lemma ensure_True [simp]: "ensure True e = Inr ()"
  and ensure_False [simp]: "ensure False e = Inl e"
  by (simp_all add: ensure_def)

lemma map_err_eq_Inr [res_simps]: "map_err g r = Inr x \<longleftrightarrow> r = Inr x"
  by (cases r) auto

lemma map_err_eq_Inl [res_simps]: "map_err g r = Inl e \<longleftrightarrow> (\<exists>e'. r = Inl e' \<and> e = g e')"
  by (cases r) auto

lemma is_ok_iff [simp]: "is_ok r \<longleftrightarrow> (\<exists>x. r = Inr x)"
  by (cases r) (auto simp: is_ok_def)

text \<open>A successful \<open>mapM\<close> is pointwise success.\<close>

lemma mapM_eq_Inr: "mapM f xs = Inr ys \<longleftrightarrow> list_all2 (\<lambda>x y. f x = Inr y) xs ys"
proof (induction xs arbitrary: ys)
  case Nil
  then show ?case by auto
next
  case (Cons x xs)
  then show ?case by (cases ys) (auto simp: res_simps list_all2_Cons1)
qed

lemma mapM_set:
  assumes "mapM f xs = Inr ys"
  shows "set ys = {y. \<exists>x\<in>set xs. f x = Inr y}"
  using assms
proof (induction xs arbitrary: ys)
  case Nil
  then show ?case by simp
next
  case (Cons x xs)
  then obtain y zs where "f x = Inr y" "mapM f xs = Inr zs" "ys = y # zs"
    by (auto simp: res_simps)
  with Cons.IH [of zs] show ?case by auto
qed

lemma mapM_length: "mapM f xs = Inr ys \<Longrightarrow> length ys = length xs"
  by (simp add: mapM_eq_Inr list_all2_lengthD)

lemma mapM_eq_Inl: "mapM f xs = Inl e \<Longrightarrow> \<exists>x\<in>set xs. f x = Inl e"
  by (induction xs) (auto simp: res_simps)

lemma mapM_ok: "is_ok (mapM f xs) \<longleftrightarrow> (\<forall>x\<in>set xs. is_ok (f x))"
proof (induction xs)
  case (Cons x xs)
  then show ?case by (cases "f x"; cases "mapM f xs") auto
qed simp

lemma mapM_map: "(\<And>x. x \<in> set xs \<Longrightarrow> f x = Inr (g x)) \<Longrightarrow> mapM f xs = Inr (map g xs)"
  by (induction xs) auto

subsection \<open>Lists\<close>

lemma distinct_map_sort_key: "distinct (map f (sort_key g xs)) \<longleftrightarrow> distinct (map f xs)"
proof -
  have "mset (map f (sort_key g xs)) = mset (map f xs)"
    unfolding mset_map by simp
  then show ?thesis by (rule mset_eq_imp_distinct_iff)
qed

text \<open>The element-wise de-duplication loop of the Go sources:
  \<^verbatim>\<open>seen := map[K]struct{}{}; for _, v := range vs { if seen[key(v)] { continue }; ... }\<close>.\<close>

fun dedup_by :: "('a \<Rightarrow> 'k) \<Rightarrow> 'k list \<Rightarrow> 'a list \<Rightarrow> 'a list" where
  "dedup_by key seen [] = []"
| "dedup_by key seen (x # xs) =
     (if key x \<in> set seen then dedup_by key seen xs
      else x # dedup_by key (key x # seen) xs)"

lemma dedup_by_keys:
  "distinct (map key (dedup_by key seen xs)) \<and> key ` set (dedup_by key seen xs) \<inter> set seen = {}"
  by (induction key seen xs rule: dedup_by.induct) auto

lemma dedup_by_set: "key ` set (dedup_by key seen xs) = key ` set xs - set seen"
  by (induction key seen xs rule: dedup_by.induct) auto

lemma dedup_by_subset: "set (dedup_by key seen xs) \<subseteq> set xs"
  by (induction key seen xs rule: dedup_by.induct) auto

lemma dedup_by_distinct_id:
  "distinct (map key xs) \<Longrightarrow> key ` set xs \<inter> set seen = {} \<Longrightarrow> dedup_by key seen xs = xs"
  by (induction key seen xs rule: dedup_by.induct) auto

lemma dedup_by_set_seen:
  "set seen = set seen' \<Longrightarrow> dedup_by key seen xs = dedup_by key seen' xs"
proof (induction xs arbitrary: seen seen')
  case (Cons x xs)
  have "dedup_by key (key x # seen) xs = dedup_by key (key x # seen') xs"
    using Cons.prems by (intro Cons.IH) simp
  moreover have "dedup_by key seen xs = dedup_by key seen' xs"
    using Cons.prems by (rule Cons.IH)
  ultimately show ?case using Cons.prems by simp
qed simp

lemma dedup_by_append:
  "dedup_by key seen (xs @ ys) =
     dedup_by key seen xs @ dedup_by key (seen @ map key (dedup_by key seen xs)) ys"
proof (induction xs arbitrary: seen)
  case Nil
  then show ?case by simp
next
  case (Cons x xs)
  have "dedup_by key (key x # seen @ zs) ys = dedup_by key (seen @ key x # zs) ys" for zs
    by (rule dedup_by_set_seen) auto
  with Cons show ?case by simp
qed

text \<open>Association lists as Go maps.\<close>

lemma set_alist_update: "set (AList.update k v al) \<subseteq> insert (k, v) (set al)"
  by (induction al) auto

text \<open>Sorting by an injective key depends only on the multiset of elements.\<close>

lemma sort_key_perm:
  assumes "mset xs = mset ys" and "inj_on f (set xs)"
  shows "sort_key f xs = sort_key f ys"
proof (rule properties_for_sort_key)
  show "mset (sort_key f ys) = mset xs" using assms(1) by simp
  show "sorted (map f (sort_key f ys))" by simp
next
  fix k
  assume k: "k \<in> set (sort_key f ys)"
  have eq: "set xs = set ys" using assms(1) by (metis set_mset_mset)
  have uniq: "\<And>zs. set zs \<subseteq> set ys \<Longrightarrow> filter (\<lambda>x. f k = f x) zs = filter (\<lambda>x. x = k) zs"
    using k assms(2) eq by (intro filter_cong refl) (auto simp: inj_on_def subset_iff)
  have "filter (\<lambda>x. x = k) zs = replicate (count (mset zs) k) k" for zs :: "'a list"
    by (induction zs) auto
  then show "filter (\<lambda>x. f k = f x) (sort_key f ys) = filter (\<lambda>x. f k = f x) xs"
    using uniq [of "sort_key f ys"] uniq [of xs] assms(1) eq by simp
qed

subsection \<open>Trying alternatives in order\<close>

text \<open>
  A loop that tries alternatives one after the other, returns the first success and collects
  the failures.  \<open>attempt i c\<close> is the outcome of the \<open>i\<close>-th try, on alternative \<open>c\<close>.
\<close>

locale ordered_fallback =
  fixes loop :: "nat \<Rightarrow> 'c list \<Rightarrow> 'a list \<Rightarrow> ('a list, 'r) result"
    and attempt :: "nat \<Rightarrow> 'c \<Rightarrow> ('a, 'r) result"
  assumes loop_Nil: "loop i [] acc = Inl acc"
    and loop_Cons: "loop i (c # cs) acc =
      (case attempt i c of Inr r \<Rightarrow> Inr r | Inl a \<Rightarrow> loop (Suc i) cs (acc @ [a]))"
begin

lemma loop_success:
  "loop i cs acc = Inr r \<longleftrightarrow>
     (\<exists>k<length cs. attempt (i + k) (cs ! k) = Inr r \<and> (\<forall>j<k. \<not> is_ok (attempt (i + j) (cs ! j))))"
proof (induction cs arbitrary: i acc)
  case Nil
  then show ?case by (simp add: loop_Nil)
next
  case (Cons c cs)
  show ?case
  proof (cases "attempt i c")
    case (Inr x)
    have "x = r" if "k < Suc (length cs)" "attempt (i + k) ((c # cs) ! k) = Inr r"
      "\<forall>j<k. \<not> is_ok (attempt (i + j) ((c # cs) ! j))" for k
      using that Inr by (cases k) auto
    with Inr show ?thesis by (auto simp: loop_Cons intro: exI [of _ 0])
  next
    case (Inl e)
    have shift: "(\<exists>k<Suc n. P k) \<longleftrightarrow> P 0 \<or> (\<exists>k<n. P (Suc k))" for P n
      using less_Suc_eq_0_disj by auto
    have all: "(\<forall>j<Suc k. P j) \<longleftrightarrow> P 0 \<and> (\<forall>j<k. P (Suc j))" for P k
      using less_Suc_eq_0_disj by auto
    show ?thesis
      using Inl by (simp add: loop_Cons Cons.IH shift all)
  qed
qed

lemma loop_failure:
  assumes "loop i cs acc = Inl as"
  shows "\<exists>fs. as = acc @ fs \<and> length fs = length cs \<and> (\<forall>k<length cs. attempt (i + k) (cs ! k) = Inl (fs ! k))"
  using assms
proof (induction cs arbitrary: i acc)
  case Nil
  then show ?case by (simp add: loop_Nil)
next
  case (Cons c cs)
  then obtain a where a: "attempt i c = Inl a" "loop (Suc i) cs (acc @ [a]) = Inl as"
    by (auto simp: loop_Cons split: sum.splits)
  from Cons.IH [OF a(2)] obtain fs where "as = (acc @ [a]) @ fs" "length fs = length cs"
    "\<forall>k<length cs. attempt (Suc i + k) (cs ! k) = Inl (fs ! k)" by blast
  with a(1) show ?case
    by (intro exI [of _ "a # fs"]) (auto simp: nth_Cons split: nat.splits)
qed

end

end
