(* ===== verification/GoStrings.thy ===== *)
theory GoStrings
  imports Prelude
begin

section \<open>The Go standard library: strings\<close>

text \<open>
  Go strings are byte sequences, and so is \<^typ>\<open>string\<close> (a list of 8-bit characters).
  The functions of packages \<^verbatim>\<open>strings\<close>, \<^verbatim>\<open>bytes\<close> and \<^verbatim>\<open>strconv\<close>
  that the sources call are defined here on bytes, with the library's results.  Two
  library functions rest on the Unicode tables once a string holds a non-ASCII byte
  (\<^verbatim>\<open>strings.ToLower\<close>, \<^verbatim>\<open>strings.EqualFold\<close>); those branches, the URL
  parser \<^verbatim>\<open>net/url.Parse\<close> and the third-party IDNA conversion
  \<^verbatim>\<open>idna.Lookup.ToASCII\<close> are the fields of the record \<open>golib\<close>, an argument of
  every definition that needs them.
\<close>

record url =
  url_Scheme :: string
  url_Host :: string
  url_User :: "(string \<times> string option) option"

record golib =
  idna_ToASCII :: "string \<Rightarrow> string option"
  url_Parse :: "string \<Rightarrow> url option"
  unicode_ToLower :: "string \<Rightarrow> string"
  unicode_EqualFold :: "string \<Rightarrow> string \<Rightarrow> bool"

subsection \<open>Bytes\<close>

abbreviation byte :: "nat \<Rightarrow> char" where
  "byte n \<equiv> char_of n"

definition isAscii :: "char \<Rightarrow> bool" where
  "isAscii c \<longleftrightarrow> (of_char c :: nat) < 128"

definition lowerAscii :: "char \<Rightarrow> char" where
  "lowerAscii c = (if 65 \<le> (of_char c :: nat) \<and> (of_char c :: nat) \<le> 90
     then char_of ((of_char c :: nat) + 32) else c)"

definition upperAscii :: "char \<Rightarrow> char" where
  "upperAscii c = (if 97 \<le> (of_char c :: nat) \<and> (of_char c :: nat) \<le> 122
     then char_of ((of_char c :: nat) - 32) else c)"

definition CR :: char where "CR = CHR 0x0D"

definition LF :: char where "LF = CHR 0x0A"

subsection \<open>TrimSpace and the other trims\<close>

text \<open>
  The UTF-8 encodings of the runes \<^verbatim>\<open>unicode.IsSpace\<close> accepts.  Each of them is
  recognised at the front of a string by its leading bytes and at the end by its trailing
  bytes, whatever surrounds it, which is how \<^verbatim>\<open>utf8.DecodeRune\<close> and
  \<^verbatim>\<open>utf8.DecodeLastRune\<close> read them.
\<close>

definition spaceRunes :: "string list" where
  "spaceRunes =
     [[CHR '' ''], [CHR 0x09], [CHR 0x0A], [CHR 0x0B], [CHR 0x0C], [CHR 0x0D],
      [CHR 0xC2, CHR 0x85], [CHR 0xC2, CHR 0xA0], [CHR 0xE1, CHR 0x9A, CHR 0x80],
      [CHR 0xE2, CHR 0x80, CHR 0x80], [CHR 0xE2, CHR 0x80, CHR 0x81],
      [CHR 0xE2, CHR 0x80, CHR 0x82], [CHR 0xE2, CHR 0x80, CHR 0x83],
      [CHR 0xE2, CHR 0x80, CHR 0x84], [CHR 0xE2, CHR 0x80, CHR 0x85],
      [CHR 0xE2, CHR 0x80, CHR 0x86], [CHR 0xE2, CHR 0x80, CHR 0x87],
      [CHR 0xE2, CHR 0x80, CHR 0x88], [CHR 0xE2, CHR 0x80, CHR 0x89],
      [CHR 0xE2, CHR 0x80, CHR 0x8A], [CHR 0xE2, CHR 0x80, CHR 0xA8],
      [CHR 0xE2, CHR 0x80, CHR 0xA9], [CHR 0xE2, CHR 0x80, CHR 0xAF],
      [CHR 0xE2, CHR 0x81, CHR 0x9F], [CHR 0xE3, CHR 0x80, CHR 0x80]]"

fun dropRune :: "string list \<Rightarrow> string \<Rightarrow> string option" where
  "dropRune [] s = None"
| "dropRune (r # rs) s =
     (if r \<noteq> [] \<and> prefix r s then Some (drop (length r) s) else dropRune rs s)"

lemma dropRune_shorter: "dropRune rs s = Some t \<Longrightarrow> length t < length s"
  by (induction rs s rule: dropRune.induct)
    (auto split: if_splits simp: neq_Nil_conv dest!: prefix_length_le)

function trimRunes :: "string list \<Rightarrow> string \<Rightarrow> string" where
  "trimRunes rs s = (case dropRune rs s of None \<Rightarrow> s | Some t \<Rightarrow> trimRunes rs t)"
  by pat_completeness auto
termination
  by (relation "measure (\<lambda>(rs, s). length s)") (auto dest: dropRune_shorter)

declare trimRunes.simps [simp del]

definition TrimSpace :: "string \<Rightarrow> string" where
  "TrimSpace s = rev (trimRunes (map rev spaceRunes) (rev (trimRunes spaceRunes s)))"

definition TrimRight :: "string \<Rightarrow> string \<Rightarrow> string" where
  "TrimRight s cutset = rev (dropWhile (\<lambda>c. c \<in> set cutset) (rev s))"

definition TrimCutset :: "string \<Rightarrow> string \<Rightarrow> string" where
  "TrimCutset s cutset = TrimRight (dropWhile (\<lambda>c. c \<in> set cutset) s) cutset"

definition HasPrefix :: "string \<Rightarrow> string \<Rightarrow> bool" where
  "HasPrefix s p = prefix p s"

definition HasSuffix :: "string \<Rightarrow> string \<Rightarrow> bool" where
  "HasSuffix s x = suffix x s"

definition TrimPrefix :: "string \<Rightarrow> string \<Rightarrow> string" where
  "TrimPrefix s p = (if prefix p s then drop (length p) s else s)"

definition TrimSuffix :: "string \<Rightarrow> string \<Rightarrow> string" where
  "TrimSuffix s x = (if suffix x s then take (length s - length x) s else s)"

subsection \<open>Case mapping\<close>

definition ToLower :: "golib \<Rightarrow> string \<Rightarrow> string" where
  "ToLower E s = (if list_all isAscii s then map lowerAscii s else unicode_ToLower E s)"

definition EqualFold :: "golib \<Rightarrow> string \<Rightarrow> string \<Rightarrow> bool" where
  "EqualFold E s t =
     (if list_all isAscii s \<and> list_all isAscii t
      then map lowerAscii s = map lowerAscii t else unicode_EqualFold E s t)"

subsection \<open>Searching, splitting, joining, replacing\<close>

fun Index :: "string \<Rightarrow> string \<Rightarrow> nat option" where
  "Index [] t = (if t = [] then Some 0 else None)"
| "Index (c # s) t = (if prefix t (c # s) then Some 0 else map_option Suc (Index s t))"

definition Contains :: "string \<Rightarrow> string \<Rightarrow> bool" where
  "Contains s t \<longleftrightarrow> Index s t \<noteq> None"

definition ContainsAny :: "string \<Rightarrow> string \<Rightarrow> bool" where
  "ContainsAny s chars \<longleftrightarrow> list_ex (\<lambda>c. c \<in> set chars) s"

definition IndexByte :: "string \<Rightarrow> char \<Rightarrow> nat option" where
  "IndexByte s c = Index s [c]"

definition LastIndexByte :: "string \<Rightarrow> char \<Rightarrow> nat option" where
  "LastIndexByte s c = map_option (\<lambda>k. length s - Suc k) (IndexByte (rev s) c)"

text \<open>\<^verbatim>\<open>strings.Split\<close> with a one-byte separator.\<close>

fun splitByte :: "char \<Rightarrow> string \<Rightarrow> string list" where
  "splitByte c [] = [[]]"
| "splitByte c (x # xs) =
     (if x = c then [] # splitByte c xs
      else (case splitByte c xs of [] \<Rightarrow> [[x]] | y # ys \<Rightarrow> (x # y) # ys))"

fun Join :: "string list \<Rightarrow> string \<Rightarrow> string" where
  "Join [] sep = []"
| "Join [x] sep = x"
| "Join (x # y # ys) sep = x @ sep @ Join (y # ys) sep"

text \<open>\<^verbatim>\<open>strings.FieldsFunc\<close>: the maximal runs of bytes outside the separator set.\<close>

fun fieldsAux :: "(char \<Rightarrow> bool) \<Rightarrow> string \<Rightarrow> string \<Rightarrow> string list" where
  "fieldsAux sep cur [] = (if cur = [] then [] else [rev cur])"
| "fieldsAux sep cur (c # cs) =
     (if sep c then (if cur = [] then fieldsAux sep [] cs else rev cur # fieldsAux sep [] cs)
      else fieldsAux sep (c # cur) cs)"

definition FieldsFunc :: "(char \<Rightarrow> bool) \<Rightarrow> string \<Rightarrow> string list" where
  "FieldsFunc sep s = fieldsAux sep [] s"

text \<open>
  \<^verbatim>\<open>strings.Replace(s, old, new, n)\<close> for a non-empty \<open>old\<close>: the first \<open>n\<close>
  non-overlapping occurrences from the left, all of them when \<open>n < 0\<close>.  The sources
  never call it with an empty \<open>old\<close>.
\<close>

function Replace :: "string \<Rightarrow> string \<Rightarrow> string \<Rightarrow> int \<Rightarrow> string" where
  "Replace s old new n =
     (if n = 0 \<or> s = [] \<or> old = [] then s
      else if prefix old s then new @ Replace (drop (length old) s) old new (n - 1)
      else hd s # Replace (tl s) old new n)"
  by pat_completeness auto
termination
  by (relation "measure (\<lambda>(s, old, new, n). length s)")
    (auto simp: neq_Nil_conv dest: prefix_length_le)

declare Replace.simps [simp del]

definition ReplaceAll :: "string \<Rightarrow> string \<Rightarrow> string \<Rightarrow> string" where
  "ReplaceAll s old new = Replace s old new (-1)"

subsection \<open>strconv\<close>

fun digitsOf :: "nat \<Rightarrow> string" where
  "digitsOf n = (if n < 10 then [char_of (48 + n)]
     else digitsOf (n div 10) @ [char_of (48 + n mod 10)])"

declare digitsOf.simps [simp del]

definition Itoa :: "int \<Rightarrow> string" where
  "Itoa i = (if i < 0 then ''-'' @ digitsOf (nat (- i)) else digitsOf (nat i))"

definition isDigit :: "char \<Rightarrow> bool" where
  "isDigit c \<longleftrightarrow> 48 \<le> (of_char c :: nat) \<and> (of_char c :: nat) \<le> 57"

definition digitVal :: "char \<Rightarrow> nat" where
  "digitVal c = of_char c - 48"

definition decimal :: "string \<Rightarrow> nat" where
  "decimal s = foldl (\<lambda>acc c. 10 * acc + digitVal c) 0 s"

definition Atoi :: "string \<Rightarrow> int option" where
  "Atoi s =
     (let neg = (s \<noteq> [] \<and> hd s = CHR ''-'');
          ds = (if s \<noteq> [] \<and> (hd s = CHR ''-'' \<or> hd s = CHR ''+'') then tl s else s);
          v = (if neg then - int (decimal ds) else int (decimal ds)) in
      if ds = [] \<or> \<not> list_all isDigit ds then None
      else if - (2 ^ 63) \<le> v \<and> v < 2 ^ 63 then Some v else None)"

subsection \<open>A sample library\<close>

text \<open>
  Concrete library functions for evaluating the model on sample inputs: IDNA conversion and
  case mapping restricted to ASCII labels, and a URL parser that reads
  \<^verbatim>\<open>scheme://host[/...]\<close>.
\<close>

definition ldh :: "char \<Rightarrow> bool" where
  "ldh c \<longleftrightarrow> isDigit c \<or> (97 \<le> (of_char (lowerAscii c) :: nat) \<and> (of_char (lowerAscii c) :: nat) \<le> 122)
     \<or> c = CHR ''-'' \<or> c = CHR ''.''"

definition sampleURLParse :: "string \<Rightarrow> url option" where
  "sampleURLParse s =
     (case Index s ''://'' of
        None \<Rightarrow> None
      | Some i \<Rightarrow> Some \<lparr>url_Scheme = map lowerAscii (take i s),
          url_Host = takeWhile (\<lambda>c. c \<noteq> CHR ''/'') (drop (i + 3) s), url_User = None\<rparr>)"

definition sampleLib :: golib where
  "sampleLib =
     \<lparr>idna_ToASCII = (\<lambda>s. if list_all ldh s then Some (map lowerAscii s) else None),
      url_Parse = sampleURLParse, unicode_ToLower = (\<lambda>s. s),
      unicode_EqualFold = (\<lambda>s t. s = t)\<rparr>"

text \<open>The byte classes as functions of the bits, for evaluation.\<close>

lemma isAscii_code [code]: "isAscii (Char b0 b1 b2 b3 b4 b5 b6 b7) \<longleftrightarrow> \<not> b7"
  by (cases b0; cases b1; cases b2; cases b3; cases b4; cases b5; cases b6; cases b7)
    (simp_all add: isAscii_def)

lemma lowerAscii_code [code]:
  "lowerAscii (Char b0 b1 b2 b3 b4 b5 b6 b7) =
     Char b0 b1 b2 b3 b4
       (b5 \<or> \<not> b7 \<and> b6 \<and> (b0 \<or> b1 \<or> b2 \<or> b3 \<or> b4) \<and> \<not> (b4 \<and> b3 \<and> (b2 \<or> b1 \<and> b0))) b6 b7"
  by (cases b0; cases b1; cases b2; cases b3; cases b4; cases b5; cases b6; cases b7)
    (simp_all add: lowerAscii_def char_of_def bit_0)

lemma isDigit_code [code]:
  "isDigit (Char b0 b1 b2 b3 b4 b5 b6 b7) \<longleftrightarrow>
     \<not> b7 \<and> \<not> b6 \<and> b5 \<and> b4 \<and> \<not> (b3 \<and> (b2 \<or> b1))"
  by (cases b0; cases b1; cases b2; cases b3; cases b4; cases b5; cases b6; cases b7)
    (simp_all add: isDigit_def)

lemma ldh_code [code]:
  "ldh (Char b0 b1 b2 b3 b4 b5 b6 b7) \<longleftrightarrow>
     isDigit (Char b0 b1 b2 b3 b4 b5 b6 b7) \<or>
     \<not> b7 \<and> b6 \<and> (b0 \<or> b1 \<or> b2 \<or> b3 \<or> b4) \<and> \<not> (b4 \<and> b3 \<and> (b2 \<or> b1 \<and> b0)) \<or>
     \<not> b7 \<and> \<not> b6 \<and> b5 \<and> \<not> b4 \<and> b3 \<and> b2 \<and> b0 \<noteq> b1"
  by (cases b0; cases b1; cases b2; cases b3; cases b4; cases b5; cases b6; cases b7)
    (simp_all add: ldh_def isDigit_def lowerAscii_code)

subsection \<open>Facts about the trims\<close>

lemma dropRune_None_iff: "dropRune rs s = None \<longleftrightarrow> (\<forall>r\<in>set rs. r \<noteq> [] \<longrightarrow> \<not> prefix r s)"
  by (induction rs s rule: dropRune.induct) auto

lemma dropRune_suffix: "dropRune rs s = Some t \<Longrightarrow> suffix t s"
  by (induction rs s rule: dropRune.induct) (auto split: if_splits simp: suffix_drop)

lemma trimRunes_id: "dropRune rs s = None \<Longrightarrow> trimRunes rs s = s"
  by (simp add: trimRunes.simps)

lemma trimRunes_done: "dropRune rs (trimRunes rs s) = None"
proof (induction rs s rule: trimRunes.induct)
  case (1 rs s)
  then show ?case
    by (cases "dropRune rs s") (simp_all add: trimRunes.simps [of rs s])
qed

lemma trimRunes_suffix: "suffix (trimRunes rs s) s"
proof (induction rs s rule: trimRunes.induct)
  case (1 rs s)
  show ?case
  proof (cases "dropRune rs s")
    case None
    then show ?thesis by (simp add: trimRunes_id)
  next
    case (Some t)
    then have "suffix (trimRunes rs t) s"
      using "1" dropRune_suffix suffix_order.trans by blast
    with Some show ?thesis by (simp add: trimRunes.simps [of rs s])
  qed
qed

lemma TrimSpace_sublist: "sublist (TrimSpace s) s"
proof -
  let ?u = "trimRunes spaceRunes s"
  have "prefix (TrimSpace s) ?u"
    using trimRunes_suffix [of "map rev spaceRunes" "rev ?u"]
    by (simp add: TrimSpace_def suffix_to_prefix)
  moreover have "suffix ?u s" by (rule trimRunes_suffix)
  ultimately show ?thesis
    by (metis prefix_imp_sublist sublist_order.order.trans suffix_imp_sublist)
qed

lemma TrimSpace_set: "set (TrimSpace s) \<subseteq> set s"
  using TrimSpace_sublist set_mono_sublist by blast

lemma TrimSpace_length: "length (TrimSpace s) \<le> length s"
  using TrimSpace_sublist sublist_length_le by blast

text \<open>A string is trimmed when no white-space rune stands at either end.\<close>

definition trimmed :: "string \<Rightarrow> bool" where
  "trimmed s \<longleftrightarrow> dropRune spaceRunes s = None \<and> dropRune (map rev spaceRunes) (rev s) = None"

lemma trimmed_TrimSpace [simp, intro]: "trimmed (TrimSpace s)"
proof -
  let ?u = "trimRunes spaceRunes s"
  have "prefix (TrimSpace s) ?u"
    using trimRunes_suffix [of "map rev spaceRunes" "rev ?u"]
    by (simp add: TrimSpace_def suffix_to_prefix)
  then have "dropRune spaceRunes (TrimSpace s) = None"
    using trimRunes_done [of spaceRunes s] prefix_order.trans
    unfolding dropRune_None_iff by blast
  moreover have "dropRune (map rev spaceRunes) (rev (TrimSpace s)) = None"
    by (simp add: TrimSpace_def trimRunes_done)
  ultimately show ?thesis by (simp add: trimmed_def)
qed

lemma TrimSpace_trimmed [simp]: "trimmed s \<Longrightarrow> TrimSpace s = s"
  by (simp add: trimmed_def TrimSpace_def trimRunes_id)

lemma trimmed_iff: "trimmed s \<longleftrightarrow> TrimSpace s = s"
  using TrimSpace_trimmed trimmed_TrimSpace by metis

lemma TrimSpace_idem [simp]: "TrimSpace (TrimSpace s) = TrimSpace s"
  by simp

text \<open>Printable ASCII bytes are never part of a white-space rune.\<close>

definition plain :: "char \<Rightarrow> bool" where
  "plain c \<longleftrightarrow> 33 \<le> (of_char c :: nat) \<and> (of_char c :: nat) < 128"

lemma plain_not_in_rune: "plain c \<Longrightarrow> r \<in> set spaceRunes \<Longrightarrow> c \<notin> set r"
  by (auto simp: spaceRunes_def plain_def)

lemma trimmed_Nil [simp]: "trimmed []"
  by (simp add: trimmed_def dropRune_None_iff)

lemma trimmed_plain:
  assumes "plain (hd s)" and "plain (last s)"
  shows "trimmed s"
proof (cases "s = []")
  case False
  have "\<not> prefix r s" if "r \<in> set spaceRunes" "r \<noteq> []" for r
  proof
    assume "prefix r s"
    then have "hd s \<in> set r" using that(2) by (auto simp: prefix_def)
    then show False using that assms(1) plain_not_in_rune by blast
  qed
  moreover have "\<not> prefix (rev r) (rev s)" if "r \<in> set spaceRunes" "r \<noteq> []" for r
  proof
    assume "prefix (rev r) (rev s)"
    then obtain t where "s = t @ r"
      by (metis suffix_def suffix_to_prefix)
    then have "last s \<in> set r" using that(2) by simp
    then show False using that assms(2) plain_not_in_rune by blast
  qed
  ultimately show ?thesis by (auto simp: trimmed_def dropRune_None_iff)
qed simp

lemma filter_plain_dropRune:
  "dropRune rs s = Some t \<Longrightarrow> (\<And>r c. r \<in> set rs \<Longrightarrow> c \<in> set r \<Longrightarrow> \<not> plain c) \<Longrightarrow> filter plain t = filter plain s"
  by (induction rs s rule: dropRune.induct) (auto split: if_splits simp: prefix_def filter_empty_conv)

lemma filter_plain_trimRunes:
  "(\<And>r c. r \<in> set rs \<Longrightarrow> c \<in> set r \<Longrightarrow> \<not> plain c) \<Longrightarrow> filter plain (trimRunes rs s) = filter plain s"
proof (induction rs s rule: trimRunes.induct)
  case (1 rs s)
  show ?case
  proof (cases "dropRune rs s")
    case None
    then show ?thesis by (simp add: trimRunes_id)
  next
    case (Some t)
    have "filter plain (trimRunes rs t) = filter plain t" by (rule "1.IH" [OF Some "1.prems"])
    moreover have "filter plain t = filter plain s" by (rule filter_plain_dropRune [OF Some "1.prems"])
    ultimately show ?thesis using Some by (simp add: trimRunes.simps [of rs s])
  qed
qed

lemma filter_plain_TrimSpace: "filter plain (TrimSpace s) = filter plain s"
proof -
  have *: "\<And>r c. r \<in> set spaceRunes \<Longrightarrow> c \<in> set r \<Longrightarrow> \<not> plain c"
    using plain_not_in_rune by blast
  then have "\<And>r c. r \<in> set (map rev spaceRunes) \<Longrightarrow> c \<in> set r \<Longrightarrow> \<not> plain c" by auto
  then have "filter plain (trimRunes (map rev spaceRunes) t) = filter plain t" for t
    by (rule filter_plain_trimRunes)
  moreover have "filter plain (trimRunes spaceRunes s) = filter plain s"
    by (rule filter_plain_trimRunes) (rule *)
  ultimately show ?thesis by (simp add: TrimSpace_def flip: rev_filter)
qed

lemma TrimSpace_not_blank: "c \<in> set s \<Longrightarrow> plain c \<Longrightarrow> TrimSpace s \<noteq> []"
  using filter_plain_TrimSpace [of s] by (metis filter.simps(1) filter_empty_conv)

subsection \<open>Facts about case mapping\<close>

lemma isAscii_lowerAscii [simp]: "isAscii (lowerAscii c) = isAscii c"
  by (auto simp: isAscii_def lowerAscii_def)

lemma lowerAscii_idem [simp]: "lowerAscii (lowerAscii c) = lowerAscii c"
  by (auto simp: lowerAscii_def)

lemma ToLower_ascii: "list_all isAscii s \<Longrightarrow> ToLower E s = map lowerAscii s"
  by (simp add: ToLower_def)

lemma ToLower_lower_id:
  "list_all (\<lambda>c. isAscii c \<and> lowerAscii c = c) s \<Longrightarrow> ToLower E s = s"
  by (simp add: ToLower_def list_all_iff map_idI)

lemma ToLower_idem_ascii:
  "list_all isAscii s \<Longrightarrow> ToLower E (ToLower E s) = ToLower E s"
  by (simp add: ToLower_def list_all_iff)

subsection \<open>Facts about searching and splitting\<close>

lemma Index_Some:
  "Index s t = Some i \<Longrightarrow> prefix t (drop i s) \<and> i + length t \<le> length s"
proof (induction s t arbitrary: i rule: Index.induct)
  case (2 c s t)
  then show ?case
    by (cases i) (auto split: if_splits dest: prefix_length_le)
qed (auto split: if_splits)

lemma Index_None_iff: "Index s t = None \<longleftrightarrow> \<not> sublist t s"
  by (induction s t rule: Index.induct) (auto simp: sublist_Cons_right)

lemma Contains_iff: "Contains s t \<longleftrightarrow> sublist t s"
  by (simp add: Contains_def Index_None_iff)

lemma Contains_byte [simp]: "Contains s [c] \<longleftrightarrow> c \<in> set s"
proof -
  have "sublist [c] s \<longleftrightarrow> c \<in> set s"
    by (induction s) (auto simp: sublist_Cons_right)
  then show ?thesis by (simp add: Contains_iff)
qed

lemma splitByte_not_Nil [simp]: "splitByte c s \<noteq> []"
  by (induction c s rule: splitByte.induct) (auto split: list.splits)

lemma splitByte_append: "splitByte c (a @ c # b) = splitByte c a @ splitByte c b"
  by (induction a) (auto split: list.splits simp: append_eq_Cons_conv)

lemma splitByte_single: "c \<notin> set s \<Longrightarrow> splitByte c s = [s]"
  by (induction s) auto

lemma splitByte_no_sep: "l \<in> set (splitByte c s) \<Longrightarrow> c \<notin> set l"
  by (induction c s arbitrary: l rule: splitByte.induct) (auto split: if_splits list.splits)

lemma splitByte_subset: "l \<in> set (splitByte c s) \<Longrightarrow> set l \<subseteq> set s"
  by (induction c s arbitrary: l rule: splitByte.induct) (fastforce split: if_splits list.splits)+

lemma Join_Cons: "xs \<noteq> [] \<Longrightarrow> Join (x # xs) sep = x @ sep @ Join xs sep"
  by (cases xs) auto

lemma Join_splitByte [simp]: "Join (splitByte c s) [c] = s"
proof (induction c s rule: splitByte.induct)
  case (2 c x xs)
  show ?case
  proof (cases "splitByte c xs")
    case Nil
    then show ?thesis by simp
  next
    case (Cons y ys)
    then show ?thesis using "2" by (cases ys) auto
  qed
qed simp

lemma splitByte_Join:
  "xs \<noteq> [] \<Longrightarrow> (\<And>x. x \<in> set xs \<Longrightarrow> c \<notin> set x) \<Longrightarrow> splitByte c (Join xs [c]) = xs"
proof (induction xs)
  case (Cons x xs)
  then show ?case
    by (cases "xs = []") (auto simp: Join_Cons splitByte_append splitByte_single)
qed simp

lemma Join_append:
  "xs \<noteq> [] \<Longrightarrow> ys \<noteq> [] \<Longrightarrow> Join (xs @ ys) sep = Join xs sep @ sep @ Join ys sep"
proof (induction xs)
  case (Cons x xs)
  then show ?case by (cases "xs = []") (simp_all add: Join_Cons)
qed simp

lemma set_Join: "set (Join xs sep) \<subseteq> \<Union> (set ` set xs) \<union> set sep"
  by (induction xs sep rule: Join.induct) auto

subsection \<open>Facts about replacing\<close>

lemma Replace_Nil [simp]: "Replace [] old new n = []"
  by (simp add: Replace.simps)

lemma Replace_absent: "old \<noteq> [] \<Longrightarrow> hd old \<notin> set s \<Longrightarrow> Replace s old new n = s"
proof (induction s old new n rule: Replace.induct)
  case (1 s old new n)
  then have "\<not> prefix old s" if "s \<noteq> []"
    by (cases old; cases s) auto
  with "1" show ?case
    by (cases s) (auto simp: Replace.simps [of "_ # _"])
qed

lemma Replace_append:
  "old \<noteq> [] \<Longrightarrow> hd old \<notin> set a \<Longrightarrow> Replace (a @ b) old new n = a @ Replace b old new n"
proof (induction a)
  case (Cons x a)
  have "\<not> prefix old (x # a @ b)" using Cons.prems by (cases old) auto
  with Cons show ?case
    by (cases "n = 0") (simp_all add: Replace.simps [of "x # a @ b"] Replace.simps [of b old new 0])
qed simp

subsection \<open>Facts about strconv\<close>

lemma digitsOf_digits: "list_all isDigit (digitsOf n)"
proof (induction n rule: digitsOf.induct)
  case (1 n)
  show ?case
  proof (cases "n < 10")
    case True
    then show ?thesis by (subst digitsOf.simps) (simp add: isDigit_def)
  next
    case False
    have "isDigit (char_of (48 + n mod 10))"
      by (simp add: isDigit_def)
    with False "1" show ?thesis by (subst digitsOf.simps) simp
  qed
qed

lemma digitsOf_not_Nil [simp]: "digitsOf n \<noteq> []"
  by (subst digitsOf.simps) simp

lemma decimal_snoc: "decimal (s @ [c]) = 10 * decimal s + digitVal c"
  by (simp add: decimal_def)

lemma decimal_digitsOf [simp]: "decimal (digitsOf n) = n"
proof (induction n rule: digitsOf.induct)
  case (1 n)
  show ?case
  proof (cases "n < 10")
    case True
    then show ?thesis by (subst digitsOf.simps) (simp add: decimal_def digitVal_def)
  next
    case False
    with "1" show ?thesis
      by (subst digitsOf.simps) (simp add: decimal_snoc digitVal_def)
  qed
qed

end
