(* ===== verification/GoNet.thy ===== *)
theory GoNet
  imports GoStrings
begin

section \<open>The Go standard library: addresses\<close>

text \<open>
  \<^verbatim>\<open>net.SplitHostPort\<close>, \<^verbatim>\<open>net.JoinHostPort\<close>, \<^verbatim>\<open>net.ParseIP\<close> and the
  methods of \<^verbatim>\<open>net.IP\<close> that the sources use.  A \<^verbatim>\<open>net.IP\<close> is a byte slice: the
  empty list is \<^verbatim>\<open>nil\<close>, an address has 4 or 16 bytes, and \<^verbatim>\<open>ParseIP\<close> always
  returns the 16-byte form (an IPv4 address in its \<^verbatim>\<open>::ffff:a.b.c.d\<close> form).
\<close>

subsection \<open>host:port strings\<close>

definition SplitHostPort :: "string \<Rightarrow> (string \<times> string) option" where
  "SplitHostPort hostport =
     (case LastIndexByte hostport CHR '':'' of
        None \<Rightarrow> None
      | Some i \<Rightarrow>
          if HasPrefix hostport ''['' then
            (case IndexByte hostport CHR '']'' of
               None \<Rightarrow> None
             | Some e \<Rightarrow>
                 if e + 1 \<noteq> i then None
                 else if CHR ''['' \<in> set (drop 1 hostport)
                      \<or> CHR '']'' \<in> set (drop (e + 1) hostport) then None
                 else Some (take (e - 1) (drop 1 hostport), drop (i + 1) hostport))
          else
            (let host = take i hostport in
             if CHR '':'' \<in> set host \<or> CHR ''['' \<in> set hostport \<or> CHR '']'' \<in> set hostport
             then None else Some (host, drop (i + 1) hostport)))"

definition JoinHostPort :: "string \<Rightarrow> string \<Rightarrow> string" where
  "JoinHostPort host port =
     (if CHR '':'' \<in> set host then ''['' @ host @ '']:'' @ port else host @ '':'' @ port)"

subsection \<open>Addresses\<close>

type_synonym ip = "8 word list"

definition v4InV6Prefix :: ip where
  "v4InV6Prefix = [0, 0, 0, 0, 0, 0, 0, 0, 0, 0, 0xff, 0xff]"

definition IPv6loopback :: ip where
  "IPv6loopback = [0, 0, 0, 0, 0, 0, 0, 0, 0, 0, 0, 0, 0, 0, 0, 1]"

definition To4 :: "ip \<Rightarrow> ip" where
  "To4 x = (if length x = 4 then x
     else if length x = 16 \<and> take 12 x = v4InV6Prefix then drop 12 x else [])"

definition To16 :: "ip \<Rightarrow> ip" where
  "To16 x = (if length x = 4 then v4InV6Prefix @ x else if length x = 16 then x else [])"

definition IsLoopback :: "ip \<Rightarrow> bool" where
  "IsLoopback x = (if To4 x \<noteq> [] then hd (To4 x) = 127 else x = IPv6loopback)"

subsection \<open>Parsing\<close>

text \<open>One octet of an IPv4 address: decimal, at most 255, no leading zero.\<close>

definition parseOctet :: "string \<Rightarrow> 8 word option" where
  "parseOctet s =
     (if s \<noteq> [] \<and> list_all isDigit s \<and> (hd s = CHR ''0'' \<longrightarrow> s = ''0'') \<and> decimal s \<le> 255
      then Some (of_nat (decimal s)) else None)"

definition parseIPv4 :: "string \<Rightarrow> ip option" where
  "parseIPv4 s =
     (case map parseOctet (splitByte CHR ''.'' s) of
        [Some a, Some b, Some c, Some d] \<Rightarrow> Some [a, b, c, d]
      | _ \<Rightarrow> None)"

definition isHex :: "char \<Rightarrow> bool" where
  "isHex c \<longleftrightarrow> isDigit c \<or> (97 \<le> (of_char (lowerAscii c) :: nat) \<and> (of_char (lowerAscii c) :: nat) \<le> 102)"

definition hexVal :: "char \<Rightarrow> nat" where
  "hexVal c = (if isDigit c then digitVal c else of_char (lowerAscii c) - 87)"

definition hexadecimal :: "string \<Rightarrow> nat" where
  "hexadecimal s = foldl (\<lambda>acc c. 16 * acc + hexVal c) 0 s"

text \<open>
  The group loop of \<^verbatim>\<open>netip.parseIPv6\<close>: \<open>bs\<close> are the bytes parsed so far,
  \<open>ell\<close> the byte position of the \<^verbatim>\<open>::\<close>, if one was seen.  The counter bounds the
  loop (at most eight groups of two bytes).
\<close>

fun parseGroups :: "nat \<Rightarrow> string \<Rightarrow> ip \<Rightarrow> nat option \<Rightarrow> (ip \<times> nat option) option" where
  "parseGroups 0 s bs ell = (if s = [] then Some (bs, ell) else None)"
| "parseGroups (Suc n) s bs ell =
     (let h = takeWhile isHex s; r = drop (length h) s in
      if h = [] \<or> 4 < length h then None
      else if HasPrefix r ''.'' then
        (if (ell = None \<and> length bs \<noteq> 12) \<or> 16 < length bs + 4 then None
         else map_option (\<lambda>v4. (bs @ v4, ell)) (parseIPv4 s))
      else
        (let bs' = bs @ [of_nat (hexadecimal h div 256), of_nat (hexadecimal h mod 256)] in
         case r of
           [] \<Rightarrow> Some (bs', ell)
         | c # r1 \<Rightarrow>
             if c \<noteq> CHR '':'' \<or> r1 = [] then None
             else if HasPrefix r1 '':'' then
               (if ell \<noteq> None then None
                else if drop 1 r1 = [] then Some (bs', Some (length bs'))
                else parseGroups n (drop 1 r1) bs' (Some (length bs')))
             else parseGroups n r1 bs' ell))"

definition parseIPv6 :: "string \<Rightarrow> ip option" where
  "parseIPv6 s =
     (if s = ''::'' then Some (replicate 16 0)
      else
        (case (if HasPrefix s ''::'' then parseGroups 8 (drop 2 s) [] (Some 0)
               else parseGroups 8 s [] None) of
           None \<Rightarrow> None
         | Some (bs, ell) \<Rightarrow>
             if length bs < 16 then
               map_option (\<lambda>e. take e bs @ replicate (16 - length bs) 0 @ drop e bs) ell
             else if ell = None then Some bs else None))"

text \<open>
  \<^verbatim>\<open>ParseIP\<close> looks for the first of \<^verbatim>\<open>.\<close>, \<^verbatim>\<open>:\<close> and \<^verbatim>\<open>%\<close> to decide
  the family, and refuses addresses with a zone.
\<close>

definition ParseIP :: "string \<Rightarrow> ip option" where
  "ParseIP s =
     (case dropWhile (\<lambda>c. c \<notin> set ''.:%'') s of
        [] \<Rightarrow> None
      | c # _ \<Rightarrow>
          if c = CHR ''.'' then map_option (\<lambda>v4. v4InV6Prefix @ v4) (parseIPv4 s)
          else if c = CHR '':'' then (if CHR ''%'' \<in> set s then None else parseIPv6 s)
          else None)"

subsection \<open>Printing\<close>

definition hexDigit :: "nat \<Rightarrow> char" where
  "hexDigit n = (if n < 10 then char_of (48 + n) else char_of (87 + n))"

fun hexOf :: "nat \<Rightarrow> string" where
  "hexOf n = (if n < 16 then [hexDigit n] else hexOf (n div 16) @ [hexDigit (n mod 16)])"

declare hexOf.simps [simp del]

fun ipGroups :: "ip \<Rightarrow> nat list" where
  "ipGroups (a # b # bs) = (256 * unat a + unat b) # ipGroups bs"
| "ipGroups _ = []"

text \<open>The first longest run of at least two zero groups, as (start, length).\<close>

fun zeroRun :: "nat list \<Rightarrow> nat" where
  "zeroRun (0 # gs) = Suc (zeroRun gs)"
| "zeroRun _ = 0"

fun longestRun :: "nat \<Rightarrow> nat list \<Rightarrow> nat \<times> nat \<Rightarrow> nat \<times> nat" where
  "longestRun i [] best = best"
| "longestRun i (g # gs) best =
     (let l = zeroRun (g # gs) in longestRun (Suc i) gs (if snd best < l then (i, l) else best))"

definition v6String :: "ip \<Rightarrow> string" where
  "v6String x =
     (let gs = ipGroups x; (st, l) = longestRun 0 gs (0, 1) in
      if l < 2 then Join (map hexOf gs) '':''
      else Join (map hexOf (take st gs)) '':'' @ ''::'' @ Join (map hexOf (drop (st + l) gs)) '':'')"

definition v4String :: "ip \<Rightarrow> string" where
  "v4String x = Join (map (\<lambda>b. digitsOf (unat b)) x) ''.''"

definition hexByte :: "8 word \<Rightarrow> string" where
  "hexByte b = [hexDigit (unat b div 16), hexDigit (unat b mod 16)]"

definition IPString :: "ip \<Rightarrow> string" where
  "IPString x =
     (if x = [] then ''<nil>''
      else if length x \<noteq> 4 \<and> length x \<noteq> 16 then ''?'' @ concat (map hexByte x)
      else if To4 x \<noteq> [] then v4String (To4 x) else v6String x)"

subsection \<open>Facts about host:port strings\<close>

lemma IndexByte_append: "c \<notin> set a \<Longrightarrow> IndexByte (a @ c # b) c = Some (length a)"
  by (induction a) (auto simp: IndexByte_def)

lemma LastIndexByte_append: "c \<notin> set b \<Longrightarrow> LastIndexByte (a @ c # b) c = Some (length a)"
  using IndexByte_append [of c "rev b" "rev a"] by (simp add: LastIndexByte_def)

lemma LastIndexByte_None: "c \<notin> set s \<Longrightarrow> LastIndexByte s c = None"
  using Index_None_iff [of "rev s" "[c]"] Contains_byte [of "rev s" c]
  by (simp add: LastIndexByte_def IndexByte_def Contains_iff)

lemma SplitHostPort_no_colon: "CHR '':'' \<notin> set s \<Longrightarrow> SplitHostPort s = None"
  by (simp add: SplitHostPort_def LastIndexByte_None)

text \<open>Splitting a joined address gives the parts back.\<close>

lemma SplitHostPort_JoinHostPort:
  assumes "CHR ''['' \<notin> set host" and "CHR '']'' \<notin> set host"
    and "set port \<inter> set '':[]'' = {}"
  shows "SplitHostPort (JoinHostPort host port) = Some (host, port)"
proof (cases "CHR '':'' \<in> set host")
  case True
  let ?s = "(CHR ''['' # host @ [CHR '']'']) @ CHR '':'' # port"
  have i: "LastIndexByte ?s CHR '':'' = Some (length host + 2)"
    using assms(3) by (subst LastIndexByte_append) auto
  have e: "IndexByte ?s CHR '']'' = Some (Suc (length host))"
    using assms(2) IndexByte_append [of "CHR '']''" "CHR ''['' # host" "CHR '':'' # port"] by simp
  have "SplitHostPort ?s = Some (host, port)"
    using assms by (auto simp: SplitHostPort_def i [simplified] e [simplified] HasPrefix_def)
  with True show ?thesis by (simp add: JoinHostPort_def)
next
  case False
  let ?s = "host @ CHR '':'' # port"
  have i: "LastIndexByte ?s CHR '':'' = Some (length host)"
    using assms(3) by (subst LastIndexByte_append) auto
  have "\<not> HasPrefix ?s ''[''"
    using assms(1) by (cases host) (auto simp: HasPrefix_def)
  with i have "SplitHostPort ?s = Some (host, port)"
    using assms False by (auto simp: SplitHostPort_def Let_def)
  with False show ?thesis by (simp add: JoinHostPort_def)
qed

subsection \<open>Facts about addresses\<close>

lemma length_v4InV6Prefix [simp]: "length v4InV6Prefix = 12"
  by (simp add: v4InV6Prefix_def)

lemma length_IPv6loopback [simp]: "length IPv6loopback = 16"
  by (simp add: IPv6loopback_def)

lemma To4_length: "To4 x \<noteq> [] \<Longrightarrow> length (To4 x) = 4"
  by (auto simp: To4_def split: if_splits)

lemma To4_mapped [simp]: "length v = 4 \<Longrightarrow> To4 (v4InV6Prefix @ v) = v"
  by (simp add: To4_def)

lemma To4_idem [simp]: "To4 (To4 x) = To4 x"
  by (simp add: To4_def)

lemma To16_length: "To16 x \<noteq> [] \<Longrightarrow> length (To16 x) = 16"
  by (auto simp: To16_def split: if_splits)

lemma parseIPv4_length: "parseIPv4 s = Some v \<Longrightarrow> length v = 4"
  by (auto simp: parseIPv4_def split: list.splits option.splits)

lemma parseGroups_length:
  "parseGroups n s bs ell = Some (bs', ell') \<Longrightarrow> length bs + 2 * n \<le> 16 \<Longrightarrow>
   (\<forall>e. ell = Some e \<longrightarrow> e \<le> length bs) \<Longrightarrow>
   length bs' \<le> 16 \<and> (\<forall>e. ell' = Some e \<longrightarrow> e \<le> length bs')"
proof (induction n s bs ell arbitrary: bs' ell' rule: parseGroups.induct)
  case (1 s bs ell)
  then show ?case by (auto split: if_splits)
next
  case (2 n s bs ell)
  let ?h = "takeWhile isHex s"
  let ?r = "drop (length ?h) s"
  let ?bs = "bs @ [of_nat (hexadecimal ?h div 256), of_nat (hexadecimal ?h mod 256)]"
  have bnd: "length ?bs + 2 * n \<le> 16" using "2.prems"(2) by simp
  have ok: "\<not> (?h = [] \<or> 4 < length ?h)" using "2.prems"(1) by (auto simp: Let_def)
  show ?case
  proof (cases "HasPrefix ?r ''.''")
    case True
    with ok "2.prems" show ?thesis
      by (force simp: Let_def dest: parseIPv4_length split: if_splits)
  next
    case nodot: False
    show ?thesis
    proof (cases ?r)
      case Nil
      with ok nodot "2.prems" show ?thesis by (auto simp: Let_def)
    next
      case (Cons c r1)
      with ok nodot "2.prems"(1) have r1: "c = CHR '':''" "r1 \<noteq> []"
        by (auto simp: Let_def split: if_splits)
      show ?thesis
      proof (cases "HasPrefix r1 '':''")
        case True
        with ok nodot Cons r1 "2.prems"(1) have "ell = None" by (auto simp: Let_def split: if_splits)
        show ?thesis
        proof (cases "drop 1 r1 = []")
          case True
          with ok nodot Cons r1 \<open>HasPrefix r1 '':''\<close> \<open>ell = None\<close> "2.prems" bnd show ?thesis
            by (auto simp: Let_def)
        next
          case False
          have "parseGroups n (drop 1 r1) ?bs (Some (length ?bs)) = Some (bs', ell')"
            using ok nodot Cons r1 \<open>HasPrefix r1 '':''\<close> \<open>ell = None\<close> False "2.prems"(1)
            by (simp add: Let_def)
          from "2.IH"(1) [OF refl refl ok nodot refl Cons _ True _ False this bnd]
          show ?thesis using r1 \<open>ell = None\<close> by auto
        qed
      next
        case False
        have "parseGroups n r1 ?bs ell = Some (bs', ell')"
          using ok nodot Cons r1 False "2.prems"(1) by (simp add: Let_def)
        from "2.IH"(2) [OF refl refl ok nodot refl Cons _ False this bnd]
        show ?thesis using r1 "2.prems"(3) by fastforce
      qed
    qed
  qed
qed

lemma parseIPv6_length:
  assumes "parseIPv6 s = Some x"
  shows "length x = 16"
proof (cases "s = ''::''")
  case True
  with assms show ?thesis by (auto simp: parseIPv6_def)
next
  case False
  with assms obtain bs ell where
    g: "(if HasPrefix s ''::'' then parseGroups 8 (drop 2 s) [] (Some 0)
         else parseGroups 8 s [] None) = Some (bs, ell)"
    and x: "(if length bs < 16 then
               map_option (\<lambda>e. take e bs @ replicate (16 - length bs) 0 @ drop e bs) ell
             else if ell = None then Some bs else None) = Some x"
    by (auto simp: parseIPv6_def split: option.splits)
  from g have "length bs \<le> 16 \<and> (\<forall>e. ell = Some e \<longrightarrow> e \<le> length bs)"
    by (auto split: if_splits dest!: parseGroups_length)
  with x show ?thesis by (auto split: if_splits)
qed

lemma ParseIP_length: "ParseIP s = Some x \<Longrightarrow> length x = 16"
  by (auto simp: ParseIP_def split: list.splits if_splits
      dest: parseIPv4_length parseIPv6_length)

lemma ParseIP_not_Nil [simp]: "ParseIP s \<noteq> Some []"
  using ParseIP_length [of s "[]"] by auto

end
