(* ===== verification/Rules.thy ===== *)
theory Rules
  imports GoNet
begin

section \<open>Package rules: host normalisation and the rule matcher\<close>

text \<open>
  \<^verbatim>\<open>internal/rules/rules.go\<close>.  A \<open>Matcher\<close> holds the exact rules in a map from
  host to rule entry and the wildcard rules in a list, in insertion order.  The Go map is an
  association list with at most one binding per host; what the code reads from it does not
  depend on the order of that list, and for the one operation that iterates over the map
  (\<open>Rules\<close>) this is a theorem.  Errors are the constructors of \<open>rules_error\<close>, one per
  error site.
\<close>

record RuleGroup =
  rg_Name :: string
  rg_Domains :: "string list"

record MatchResult =
  mr_Host :: string
  mr_GroupName :: string
  mr_Rule :: string

record CompiledRule =
  cr_Host :: string
  cr_GroupName :: string
  cr_Rule :: string

record CompiledRules =
  crs_Exact :: "CompiledRule list"
  crs_Wildcard :: "CompiledRule list"

record RuleSetInfo =
  rsi_Name :: string
  rsi_Version :: string
  rsi_UpdatedAt :: string
  rsi_GroupCount :: int
  rsi_ExactCount :: int
  rsi_WildcardCount :: int

record ruleEntry =
  re_group :: string
  re_rule :: string
  re_host :: string

record Matcher =
  m_exact :: "(string \<times> ruleEntry) list"
  m_wildcard :: "ruleEntry list"

datatype rules_error =
    HostRequired
  | InvalidURL string
  | URLDelimiters string
  | IDNAFailed string
  | GroupNameRequired
  | EmptyRule string
  | WildcardForm string
  | NormalizeRuleFailed string rules_error

subsection \<open>NormalizeHost\<close>

text \<open>The function body in its three stretches: the URL form, the host part, the conversion.\<close>

definition urlHost :: "golib \<Rightarrow> string \<Rightarrow> (rules_error, string) result" where
  "urlHost E host =
     (if Contains host ''://'' then
        (case url_Parse E host of None \<Rightarrow> Inl (InvalidURL host)
         | Some parsed \<Rightarrow> Inr (url_Host parsed))
      else Inr host)"

definition splitHost :: "string \<Rightarrow> string" where
  "splitHost host =
     (case SplitHostPort host of Some (splitHost, _) \<Rightarrow> splitHost | None \<Rightarrow> host)"

definition bareHost :: "golib \<Rightarrow> string \<Rightarrow> string" where
  "bareHost E host =
     ToLower E (TrimSpace (TrimSuffix (TrimSuffix (TrimPrefix (splitHost host) ''['') '']'') ''.''))"

definition hostToASCII :: "golib \<Rightarrow> string \<Rightarrow> string \<Rightarrow> (rules_error, string) result" where
  "hostToASCII E raw host =
     (if host = [] then Inl HostRequired
      else if ContainsAny host ''/?#'' then Inl (URLDelimiters raw)
      else (case idna_ToASCII E host of None \<Rightarrow> Inl (IDNAFailed host)
            | Some ascii \<Rightarrow> Inr (ToLower E ascii)))"

definition NormalizeHost :: "golib \<Rightarrow> string \<Rightarrow> (rules_error, string) result" where
  "NormalizeHost E raw =
     (if TrimSpace raw = [] then Inl HostRequired
      else rbind (urlHost E (TrimSpace raw)) (\<lambda>host. hostToASCII E raw (bareHost E host)))"

lemmas NormalizeHost_unfold =
  NormalizeHost_def urlHost_def splitHost_def bareHost_def hostToASCII_def

subsection \<open>Building a matcher\<close>

definition wildcardRule :: "string \<Rightarrow> string \<Rightarrow> ruleEntry \<times> bool" where
  "wildcardRule grp host = (\<lparr>re_group = grp, re_rule = ''*.'' @ host, re_host = host\<rparr>, True)"

definition exactRule :: "string \<Rightarrow> string \<Rightarrow> ruleEntry \<times> bool" where
  "exactRule grp host = (\<lparr>re_group = grp, re_rule = host, re_host = host\<rparr>, False)"

definition normalizeRule :: "golib \<Rightarrow> string \<Rightarrow> string \<Rightarrow> (rules_error, ruleEntry \<times> bool) result" where
  "normalizeRule E grp rule =
     (let trimmed = TrimSpace rule in
      if trimmed = [] then Inl (EmptyRule grp)
      else if Contains trimmed ''*'' \<and> \<not> HasPrefix trimmed ''*.'' then Inl (WildcardForm rule)
      else if HasPrefix trimmed ''*.'' then
        map_result (wildcardRule grp)
          (map_err (NormalizeRuleFailed rule) (NormalizeHost E (TrimPrefix trimmed ''*.'')))
      else
        map_result (exactRule grp)
          (map_err (NormalizeRuleFailed rule) (NormalizeHost E trimmed)))"

definition addEntry :: "Matcher \<Rightarrow> ruleEntry \<Rightarrow> bool \<Rightarrow> Matcher" where
  "addEntry m entry wildcard =
     (if wildcard then m\<lparr>m_wildcard := m_wildcard m @ [entry]\<rparr>
      else m\<lparr>m_exact := AList.update (re_host entry) entry (m_exact m)\<rparr>)"

primrec addDomains :: "golib \<Rightarrow> Matcher \<Rightarrow> string \<Rightarrow> string list \<Rightarrow> (rules_error, Matcher) result" where
  "addDomains E m grp [] = Inr m"
| "addDomains E m grp (domain # domains) =
     rbind (normalizeRule E grp domain) (\<lambda>(entry, wildcard).
       addDomains E (addEntry m entry wildcard) grp domains)"

definition addGroup :: "golib \<Rightarrow> Matcher \<Rightarrow> RuleGroup \<Rightarrow> (rules_error, Matcher) result" where
  "addGroup E m grp =
     (if TrimSpace (rg_Name grp) = [] then Inl GroupNameRequired
      else addDomains E m (rg_Name grp) (rg_Domains grp))"

primrec addGroups :: "golib \<Rightarrow> Matcher \<Rightarrow> RuleGroup list \<Rightarrow> (rules_error, Matcher) result" where
  "addGroups E m [] = Inr m"
| "addGroups E m (g # gs) = rbind (addGroup E m g) (\<lambda>m. addGroups E m gs)"

definition NewMatcher :: "golib \<Rightarrow> RuleGroup list \<Rightarrow> string list \<Rightarrow> (rules_error, Matcher) result" where
  "NewMatcher E groups customDomains =
     rbind (addGroups E \<lparr>m_exact = [], m_wildcard = []\<rparr> groups) (\<lambda>m.
       if 0 < length customDomains
       then addGroup E m \<lparr>rg_Name = ''custom'', rg_Domains = customDomains\<rparr>
       else Inr m)"

subsection \<open>Matching\<close>

definition wildcardHit :: "string \<Rightarrow> ruleEntry \<Rightarrow> bool" where
  "wildcardHit normalized entry \<longleftrightarrow>
     normalized \<noteq> re_host entry \<and> HasSuffix normalized (''.'' @ re_host entry)"

definition MatchHost :: "golib \<Rightarrow> Matcher \<Rightarrow> string \<Rightarrow> MatchResult option" where
  "MatchHost E m host =
     (case NormalizeHost E host of
        Inl _ \<Rightarrow> None
      | Inr normalized \<Rightarrow>
          (case map_of (m_exact m) normalized of
             Some entry \<Rightarrow>
               Some \<lparr>mr_Host = normalized, mr_GroupName = re_group entry, mr_Rule = re_rule entry\<rparr>
           | None \<Rightarrow>
               (case find (wildcardHit normalized) (m_wildcard m) of
                  Some entry \<Rightarrow>
                    Some \<lparr>mr_Host = normalized, mr_GroupName = re_group entry,
                          mr_Rule = re_rule entry\<rparr>
                | None \<Rightarrow> None)))"

definition RuleCount :: "Matcher \<Rightarrow> int" where
  "RuleCount m = int (length (m_exact m)) + int (length (m_wildcard m))"

subsection \<open>Exporting the compiled rules\<close>

definition compileEntry :: "ruleEntry \<Rightarrow> CompiledRule" where
  "compileEntry entry =
     \<lparr>cr_Host = re_host entry, cr_GroupName = re_group entry, cr_Rule = re_rule entry\<rparr>"

definition compiledKey :: "CompiledRule \<Rightarrow> string \<times> string \<times> string" where
  "compiledKey r = (cr_Host r, cr_GroupName r, cr_Rule r)"

definition sortCompiledRules :: "CompiledRule list \<Rightarrow> CompiledRule list" where
  "sortCompiledRules entries = sort_key compiledKey entries"

definition Rules :: "Matcher \<Rightarrow> CompiledRules" where
  "Rules m =
     \<lparr>crs_Exact = sortCompiledRules (map (compileEntry \<circ> snd) (m_exact m)),
      crs_Wildcard = sortCompiledRules (map compileEntry (m_wildcard m))\<rparr>"

definition NewRuleSetInfo ::
    "golib \<Rightarrow> string \<Rightarrow> string \<Rightarrow> string \<Rightarrow> RuleGroup list \<Rightarrow> RuleSetInfo" where
  "NewRuleSetInfo E name version updatedAt groups =
     (case NewMatcher E groups [] of
        Inl _ \<Rightarrow>
          \<lparr>rsi_Name = name, rsi_Version = version, rsi_UpdatedAt = updatedAt,
           rsi_GroupCount = 0, rsi_ExactCount = 0, rsi_WildcardCount = 0\<rparr>
      | Inr matcher \<Rightarrow>
          (let compiled = Rules matcher in
           \<lparr>rsi_Name = name, rsi_Version = version, rsi_UpdatedAt = updatedAt,
            rsi_GroupCount = int (length groups),
            rsi_ExactCount = int (length (crs_Exact compiled)),
            rsi_WildcardCount = int (length (crs_Wildcard compiled))\<rparr>))"

subsection \<open>Idempotence of normalisation\<close>

text \<open>
  What the Lookup profile of package \<^verbatim>\<open>idna\<close> documents: its output is a list of
  letter-digit-hyphen labels, and an output in lower case is converted to itself.
\<close>

definition idna_lookup_profile :: "golib \<Rightarrow> bool" where
  "idna_lookup_profile E \<longleftrightarrow>
     (\<forall>s a. idna_ToASCII E s = Some a \<longrightarrow>
        list_all ldh a \<and> idna_ToASCII E (map lowerAscii a) = Some (map lowerAscii a))"

lemma ldh_plain: "ldh c \<Longrightarrow> plain c"
  by (auto simp: ldh_def plain_def isDigit_def lowerAscii_def split: if_splits)

lemma ldh_ascii: "ldh c \<Longrightarrow> isAscii c"
  using ldh_plain by (auto simp: plain_def isAscii_def)

lemma ldh_lower: "ldh c \<Longrightarrow> ldh (lowerAscii c)"
  by (auto simp: ldh_def isDigit_def lowerAscii_def)

lemma ldh_not_special: "ldh c \<Longrightarrow> c \<notin> set '':/?#[]*@''"
  by (auto simp: ldh_def isDigit_def lowerAscii_def)

text \<open>The last stretch of \<open>NormalizeHost\<close>, on a string of label bytes.\<close>

lemma NormalizeHost_labels:
  assumes "list_all ldh n" and "n \<noteq> []" and "last n \<noteq> CHR ''.''"
  shows "NormalizeHost E n =
    (case idna_ToASCII E (map lowerAscii n) of None \<Rightarrow> Inl (IDNAFailed (map lowerAscii n))
     | Some a \<Rightarrow> Inr (ToLower E a))"
proof -
  have special: "set n \<inter> set '':/?#[]*@'' = {}"
    using assms(1) ldh_not_special unfolding list_all_iff by blast
  have "trimmed n"
    using assms(1,2) by (intro trimmed_plain ldh_plain) (auto simp: list_all_iff)
  moreover have "\<not> Contains n ''://''"
    using special by (auto simp: Contains_iff sublist_def)
  moreover have "SplitHostPort n = None"
    using special by (intro SplitHostPort_no_colon) auto
  moreover have "TrimPrefix n ''['' = n"
    using special by (cases n) (auto simp: TrimPrefix_def)
  moreover have "TrimSuffix n '']'' = n" "TrimSuffix n ''.'' = n"
    using special assms(3) by (auto simp: TrimSuffix_def suffix_def)
  moreover have "ToLower E n = map lowerAscii n"
    using assms(1) ldh_ascii by (intro ToLower_ascii) (auto simp: list_all_iff)
  moreover have "\<not> ContainsAny (map lowerAscii n) ''/?#''"
    using assms(1) ldh_lower ldh_not_special
    by (fastforce simp: ContainsAny_def list_all_iff list_ex_iff)
  ultimately show ?thesis
    using assms(2)
    by (cases "idna_ToASCII E (map lowerAscii n)") (simp_all add: NormalizeHost_unfold)
qed

lemma NormalizeHost_output:
  assumes "idna_lookup_profile E" and "NormalizeHost E h = Inr n"
  shows "list_all ldh n" and "map lowerAscii n = n" and "idna_ToASCII E n = Some n"
proof -
  obtain s a where a: "idna_ToASCII E s = Some a" and n: "n = ToLower E a"
    using assms(2)
    by (auto simp: NormalizeHost_unfold res_simps split: if_splits option.splits)
  have ldh: "list_all ldh a" and stable: "idna_ToASCII E (map lowerAscii a) = Some (map lowerAscii a)"
    using assms(1) a by (auto simp: idna_lookup_profile_def)
  have n': "n = map lowerAscii a"
    using n ldh ldh_ascii by (simp add: ToLower_ascii list_all_iff)
  show "list_all ldh n" using ldh ldh_lower by (auto simp: n' list_all_iff)
  show "map lowerAscii n = n" by (simp add: n')
  show "idna_ToASCII E n = Some n" using stable by (simp add: n')
qed

lemma NormalizeHost_fixpoint:
  assumes "idna_lookup_profile E" and "NormalizeHost E h = Inr n"
    and "n \<noteq> []" and "last n \<noteq> CHR ''.''"
  shows "NormalizeHost E n = Inr n"
  using NormalizeHost_labels [OF NormalizeHost_output(1) [OF assms(1,2)] assms(3,4)]
    NormalizeHost_output(2,3) [OF assms(1,2)] NormalizeHost_output(1) [OF assms(1,2)] ldh_ascii
  by (simp add: ToLower_ascii list_all_iff)

subsection \<open>What a matcher holds\<close>

text \<open>The rules of a rule set in the order the matcher adds them, as (group, rule) pairs.\<close>

definition groupRules :: "RuleGroup \<Rightarrow> (string \<times> string) list" where
  "groupRules g = map (Pair (rg_Name g)) (rg_Domains g)"

definition allRules :: "RuleGroup list \<Rightarrow> string list \<Rightarrow> (string \<times> string) list" where
  "allRules groups customDomains =
     concat (map groupRules groups) @ map (Pair ''custom'') customDomains"

text \<open>Reading all rules first, then entering them, is what the nested loops do.\<close>

definition enter :: "Matcher \<Rightarrow> (ruleEntry \<times> bool) list \<Rightarrow> Matcher" where
  "enter m es = foldl (\<lambda>m (e, w). addEntry m e w) m es"

definition normalizeRules :: "golib \<Rightarrow> (string \<times> string) list \<Rightarrow> (rules_error, (ruleEntry \<times> bool) list) result" where
  "normalizeRules E = mapM (\<lambda>(g, r). normalizeRule E g r)"

lemma addDomains_enter:
  "addDomains E m g ds = rbind (normalizeRules E (map (Pair g) ds)) (\<lambda>es. Inr (enter m es))"
proof (induction ds arbitrary: m)
  case Nil
  then show ?case by (simp add: normalizeRules_def enter_def)
next
  case (Cons d ds)
  then show ?case
    by (cases "normalizeRule E g d"; cases "mapM (\<lambda>(g, r). normalizeRule E g r) (map (Pair g) ds)")
      (auto simp: normalizeRules_def enter_def)
qed

lemma addGroup_enter:
  "addGroup E m g =
     (if TrimSpace (rg_Name g) = [] then Inl GroupNameRequired
      else rbind (normalizeRules E (groupRules g)) (\<lambda>es. Inr (enter m es)))"
  by (simp add: addGroup_def addDomains_enter groupRules_def)

lemma normalizeRules_append:
  "normalizeRules E (xs @ ys) =
     rbind (normalizeRules E xs) (\<lambda>a. rbind (normalizeRules E ys) (\<lambda>b. Inr (a @ b)))"
proof (induction xs)
  case Nil
  then show ?case by (cases "normalizeRules E ys") (auto simp: normalizeRules_def)
next
  case (Cons x xs)
  then show ?case
    by (cases "case x of (g, r) \<Rightarrow> normalizeRule E g r"; cases "normalizeRules E xs";
        cases "normalizeRules E ys") (auto simp: normalizeRules_def)
qed

lemma addGroups_enter:
  assumes "addGroups E m gs = Inr m'"
  shows "\<exists>es. normalizeRules E (concat (map groupRules gs)) = Inr es \<and> m' = enter m es"
  using assms
proof (induction gs arbitrary: m)
  case Nil
  then show ?case by (simp add: normalizeRules_def enter_def)
next
  case (Cons g gs)
  then obtain m1 where m1: "addGroup E m g = Inr m1" "addGroups E m1 gs = Inr m'"
    by (auto simp: res_simps)
  then obtain es1 where "normalizeRules E (groupRules g) = Inr es1" "m1 = enter m es1"
    by (auto simp: addGroup_enter res_simps split: if_splits)
  moreover obtain es2 where
    "normalizeRules E (concat (map groupRules gs)) = Inr es2" "m' = enter m1 es2"
    using Cons.IH m1(2) by blast
  ultimately show ?case
    by (auto simp: normalizeRules_append enter_def)
qed

lemma NewMatcher_enter:
  assumes "NewMatcher E gs cs = Inr m"
  shows "\<exists>es. normalizeRules E (allRules gs cs) = Inr es
    \<and> m = enter \<lparr>m_exact = [], m_wildcard = []\<rparr> es"
proof -
  obtain m1 where m1: "addGroups E \<lparr>m_exact = [], m_wildcard = []\<rparr> gs = Inr m1"
    and m: "(if 0 < length cs then addGroup E m1 \<lparr>rg_Name = ''custom'', rg_Domains = cs\<rparr>
             else Inr m1) = Inr m"
    using assms by (auto simp: NewMatcher_def res_simps)
  obtain es where es: "normalizeRules E (concat (map groupRules gs)) = Inr es"
      "m1 = enter \<lparr>m_exact = [], m_wildcard = []\<rparr> es"
    using addGroups_enter [OF m1] by blast
  obtain es2 where "normalizeRules E (map (Pair ''custom'') cs) = Inr es2" "m = enter m1 es2"
  proof (cases "cs = []")
    case True
    with m that [of "[]"] show ?thesis by (simp add: normalizeRules_def enter_def)
  next
    case False
    with m that show ?thesis
      by (auto simp: addGroup_def addDomains_enter res_simps split: if_splits)
  qed
  with es show ?thesis
    by (auto simp: allRules_def normalizeRules_append enter_def)
qed

text \<open>
  The exact map of the matcher after entering \<open>es\<close>: the last non-wildcard entry per host;
  its wildcard list: the wildcard entries in order.
\<close>

lemma enter_exact:
  "map_of (m_exact (enter m es)) =
     map_of (m_exact m) ++ map_of (rev (map (\<lambda>(e, w). (re_host e, e)) (filter (\<lambda>(e, w). \<not> w) es)))"
  unfolding enter_def
  by (induction es arbitrary: m) (auto simp: addEntry_def update_conv' map_add_def fun_eq_iff
      split: option.splits)

lemma enter_wildcard:
  "m_wildcard (enter m es) = m_wildcard m @ map fst (filter snd es)"
  unfolding enter_def by (induction es arbitrary: m) (auto simp: addEntry_def)

lemma enter_distinct:
  "distinct (map fst (m_exact m)) \<Longrightarrow> distinct (map fst (m_exact (enter m es)))"
  unfolding enter_def
  by (induction es arbitrary: m) (auto simp: addEntry_def distinct_update)

lemma enter_keyed:
  assumes "\<And>k e. (k, e) \<in> set (m_exact m) \<Longrightarrow> re_host e = k"
  shows "(k, e) \<in> set (m_exact (enter m es)) \<Longrightarrow> re_host e = k"
  using assms
proof (induction es arbitrary: m)
  case Nil
  then show ?case by (simp add: enter_def)
next
  case (Cons x es)
  let ?m = "addEntry m (fst x) (snd x)"
  have "re_host e' = k'" if "(k', e') \<in> set (m_exact ?m)" for k' e'
  proof -
    have "(k', e') \<in> insert (re_host (fst x), fst x) (set (m_exact m))"
      using that set_alist_update [of "re_host (fst x)" "fst x" "m_exact m"]
      by (auto simp: addEntry_def split: if_splits)
    then show ?thesis using Cons.prems(2) by auto
  qed
  moreover have "(k, e) \<in> set (m_exact (enter ?m es))"
    using Cons.prems(1) by (simp add: enter_def case_prod_beta)
  ultimately show ?case using Cons.IH by blast
qed

lemmas emptyMatcher_enter =
  enter_exact [of "\<lparr>m_exact = [], m_wildcard = []\<rparr>", simplified]
  enter_wildcard [of "\<lparr>m_exact = [], m_wildcard = []\<rparr>", simplified]
  enter_distinct [of "\<lparr>m_exact = [], m_wildcard = []\<rparr>", simplified]
  enter_keyed [of "\<lparr>m_exact = [], m_wildcard = []\<rparr>", simplified]

subsection \<open>Reference semantics of a rule set\<close>

text \<open>
  What a rule means, without any matcher: \<^verbatim>\<open>*.base\<close> covers the proper subdomains of
  the normalised base, any other rule covers exactly its normalised host.
\<close>

definition ruleCovers :: "golib \<Rightarrow> string \<Rightarrow> string \<Rightarrow> bool" where
  "ruleCovers E rule n \<longleftrightarrow>
     (let t = TrimSpace rule in
      if HasPrefix t ''*.''
      then \<exists>base sub. NormalizeHost E (drop 2 t) = Inr base \<and> n = sub @ ''.'' @ base
      else NormalizeHost E t = Inr n)"

text \<open>
  Which rule decides: the last exact rule for the host, otherwise the first wildcard rule
  above it.
\<close>

definition decidingEntry :: "(ruleEntry \<times> bool) list \<Rightarrow> string \<Rightarrow> ruleEntry option" where
  "decidingEntry es n =
     (case rev [e. (e, w) \<leftarrow> es, \<not> w, re_host e = n] of
        e # _ \<Rightarrow> Some e
      | [] \<Rightarrow> (case [e. (e, w) \<leftarrow> es, w, HasSuffix n (''.'' @ re_host e)] of
                 e # _ \<Rightarrow> Some e | [] \<Rightarrow> None))"

lemma wildcardHit_iff: "wildcardHit n e \<longleftrightarrow> HasSuffix n (''.'' @ re_host e)"
  by (auto simp: wildcardHit_def HasSuffix_def suffix_def)

lemma find_filter: "find P xs = (case filter P xs of [] \<Rightarrow> None | x # _ \<Rightarrow> Some x)"
  by (induction xs) auto

lemma map_of_rev_filter:
  "map_of (rev (map (\<lambda>(e, w). (re_host e, e)) es)) n =
     (case rev (map fst (filter (\<lambda>(e, w). re_host e = n) es)) of [] \<Rightarrow> None | e # _ \<Rightarrow> Some e)"
  by (induction es rule: rev_induct) auto

lemma decidingEntry_lookup:
  "decidingEntry es n =
     (case map_of (m_exact (enter \<lparr>m_exact = [], m_wildcard = []\<rparr> es)) n of
        Some e \<Rightarrow> Some e
      | None \<Rightarrow> find (wildcardHit n) (m_wildcard (enter \<lparr>m_exact = [], m_wildcard = []\<rparr> es)))"
proof -
  have exact: "[e. (e, w) \<leftarrow> es, \<not> w, re_host e = n] =
      map fst (filter (\<lambda>(e, w). re_host e = n) (filter (\<lambda>(e, w). \<not> w) es))"
    by (induction es) auto
  have wild: "[e. (e, w) \<leftarrow> es, w, HasSuffix n (''.'' @ re_host e)] =
      filter (wildcardHit n) (map fst (filter snd es))"
    by (induction es) (auto simp: wildcardHit_iff)
  show ?thesis
    unfolding decidingEntry_def exact wild
    by (simp add: emptyMatcher_enter map_of_rev_filter find_filter split: list.splits option.splits)
qed

lemma normalizeRule_covers:
  assumes "normalizeRule E g r = Inr (e, w)"
  shows "ruleCovers E r n \<longleftrightarrow> (if w then HasSuffix n (''.'' @ re_host e) else re_host e = n)"
  using assms
  by (auto simp: normalizeRule_def wildcardRule_def exactRule_def ruleCovers_def Let_def res_simps HasSuffix_def suffix_def
      HasPrefix_def TrimPrefix_def numeral_2_eq_2 split: if_splits)

lemma head_or_None: "(case ys of e # _ \<Rightarrow> Some e | [] \<Rightarrow> q) = None \<longleftrightarrow> ys = [] \<and> q = None"
  by (cases ys) auto

lemma decidingEntry_None:
  "decidingEntry es n = None \<longleftrightarrow>
     (\<forall>(e, w)\<in>set es. \<not> (if w then HasSuffix n (''.'' @ re_host e) else re_host e = n))"
proof -
  have "decidingEntry es n = None \<longleftrightarrow>
      [e. (e, w) \<leftarrow> es, \<not> w, re_host e = n] = [] \<and>
      [e. (e, w) \<leftarrow> es, w, HasSuffix n (''.'' @ re_host e)] = []"
    unfolding decidingEntry_def head_or_None by simp
  also have "\<dots> \<longleftrightarrow> (\<forall>(e, w)\<in>set es. \<not> (if w then HasSuffix n (''.'' @ re_host e) else re_host e = n))"
    by (induction es) auto
  finally show ?thesis .
qed

lemma MatchHost_deciding:
  "MatchHost E (enter \<lparr>m_exact = [], m_wildcard = []\<rparr> es) h =
     (case NormalizeHost E h of
        Inl _ \<Rightarrow> None
      | Inr n \<Rightarrow> map_option (\<lambda>e. \<lparr>mr_Host = n, mr_GroupName = re_group e, mr_Rule = re_rule e\<rparr>)
                   (decidingEntry es n))"
  by (auto simp: MatchHost_def decidingEntry_lookup split: sum.splits option.splits)

lemma decidingEntry_covers:
  assumes "normalizeRules E rs = Inr es"
  shows "decidingEntry es n \<noteq> None \<longleftrightarrow> (\<exists>(g, r)\<in>set rs. ruleCovers E r n)"
  using assms
proof (induction rs arbitrary: es)
  case Nil
  then show ?case by (simp add: normalizeRules_def decidingEntry_def)
next
  case (Cons x rs)
  obtain g r where x: "x = (g, r)" by fastforce
  with Cons.prems obtain e w es' where
    e: "normalizeRule E g r = Inr (e, w)" and es': "normalizeRules E rs = Inr es'"
      and es: "es = (e, w) # es'"
    by (auto simp: normalizeRules_def res_simps)
  show ?case
    using Cons.IH [OF es'] normalizeRule_covers [OF e, of n]
      decidingEntry_None [of es n] decidingEntry_None [of es' n]
    by (auto simp: x es)
qed

lemma NewMatcher_ok:
  "is_ok (NewMatcher E gs cs) \<longleftrightarrow>
     (\<forall>g\<in>set gs. TrimSpace (rg_Name g) \<noteq> []) \<and> is_ok (normalizeRules E (allRules gs cs))"
proof -
  have groups: "is_ok (addGroups E m gs) \<longleftrightarrow> (\<forall>g\<in>set gs. TrimSpace (rg_Name g) \<noteq> [])
      \<and> is_ok (normalizeRules E (concat (map groupRules gs)))" for m
  proof (induction gs arbitrary: m)
    case Nil
    then show ?case by (simp add: normalizeRules_def)
  next
    case (Cons g gs)
    then show ?case
      by (cases "normalizeRules E (groupRules g)"; cases "normalizeRules E (concat (map groupRules gs))")
        (simp_all add: addGroup_enter normalizeRules_append)
  qed
  have custom: "TrimSpace ''custom'' \<noteq> []"
    by (subst TrimSpace_trimmed) (simp_all add: trimmed_plain plain_def)
  have "is_ok (NewMatcher E gs cs) \<longleftrightarrow>
      is_ok (addGroups E \<lparr>m_exact = [], m_wildcard = []\<rparr> gs)
      \<and> is_ok (normalizeRules E (map (Pair ''custom'') cs))"
    using custom
    by (auto simp: NewMatcher_def addGroup_def addDomains_enter res_simps normalizeRules_def)
  also have "\<dots> \<longleftrightarrow> (\<forall>g\<in>set gs. TrimSpace (rg_Name g) \<noteq> [])
      \<and> is_ok (normalizeRules E (allRules gs cs))"
    unfolding groups by (auto simp: allRules_def normalizeRules_append res_simps)
  finally show ?thesis .
qed

subsection \<open>The interface of a host matcher\<close>

text \<open>
  Several components compile a list of domain rules and test hosts against it (the rule
  matcher here, the outbound profiles, the PAC script).  What their clients rely on is that a
  host is hit exactly when a rule covers its normal form.
\<close>

locale host_matcher =
  fixes build :: "golib \<Rightarrow> 'src \<Rightarrow> ('e, 'm) result"
    and hits :: "golib \<Rightarrow> 'm \<Rightarrow> string \<Rightarrow> bool"
    and ruleList :: "'src \<Rightarrow> string list"
  assumes hits_iff: "build E src = Inr m \<Longrightarrow>
    hits E m h \<longleftrightarrow> (\<exists>n. NormalizeHost E h = Inr n \<and> (\<exists>r\<in>set (ruleList src). ruleCovers E r n))"
begin

lemma hits_normal_form:
  assumes "build E src = Inr m" and "NormalizeHost E h = NormalizeHost E h'"
  shows "hits E m h = hits E m h'"
  using assms by (simp add: hits_iff)

lemma hits_mono:
  assumes "build E src = Inr m" and "build E src' = Inr m'"
    and "set (ruleList src) \<subseteq> set (ruleList src')" and "hits E m h"
  shows "hits E m' h"
  using assms by (auto simp: hits_iff)

lemma invalid_host_misses:
  assumes "build E src = Inr m" and "NormalizeHost E h = Inl e"
  shows "\<not> hits E m h"
  using assms by (simp add: hits_iff)

lemma lookalike_misses:
  assumes "build E src = Inr m" and "NormalizeHost E h = Inr n"
    and "\<And>r. r \<in> set (ruleList src) \<Longrightarrow> \<not> ruleCovers E r n"
  shows "\<not> hits E m h"
  using assms by (auto simp: hits_iff)

end

lemma NewMatcher_hits:
  assumes "NewMatcher E gs cs = Inr m"
  shows "MatchHost E m h \<noteq> None \<longleftrightarrow>
    (\<exists>n. NormalizeHost E h = Inr n \<and> (\<exists>r\<in>set (map snd (allRules gs cs)). ruleCovers E r n))"
proof -
  obtain es where es: "normalizeRules E (allRules gs cs) = Inr es"
    and m: "m = enter \<lparr>m_exact = [], m_wildcard = []\<rparr> es"
    using NewMatcher_enter [OF assms] by blast
  show ?thesis
    unfolding m MatchHost_deciding
    using decidingEntry_covers [OF es] by (force split: sum.splits)
qed

interpretation matcher: host_matcher
  "\<lambda>E (gs, cs). NewMatcher E gs cs" "\<lambda>E m h. MatchHost E m h \<noteq> None"
  "\<lambda>(gs, cs). map snd (allRules gs cs)"
  by unfold_locales (clarsimp simp del: not_None_eq simp add: NewMatcher_hits)

lemma compiledKey_inj: "inj compiledKey"
  by (rule injI) (simp add: compiledKey_def)

lemma sortCompiledRules_perm:
  "mset xs = mset ys \<Longrightarrow> sortCompiledRules (map f xs) = sortCompiledRules (map f ys)"
  unfolding sortCompiledRules_def
  by (rule sort_key_perm) (simp_all add: compiledKey_inj [THEN inj_on_subset])

subsection \<open>Properties\<close>

text \<open>
  C10. A matcher built from rule groups and custom domains accepts a host exactly when the
  host normalises and some configured rule covers the normalised host: an exact rule for the
  same host, or a wildcard rule for a proper parent domain.  In particular a host that merely
  ends with the letters of a rule (\<^verbatim>\<open>evilsteamcommunity.com\<close>) is not accepted.
\<close>

theorem NewMatcher_MatchHost_covers:
  assumes "NewMatcher E gs cs = Inr m"
  shows "MatchHost E m h \<noteq> None \<longleftrightarrow>
    (\<exists>n. NormalizeHost E h = Inr n \<and> (\<exists>(g, r)\<in>set (allRules gs cs). ruleCovers E r n))"
  using NewMatcher_hits [OF assms, of h] by fastforce

theorem NewMatcher_MatchHost_covers_witness:
  "\<exists>m. NewMatcher sampleLib
         [\<lparr>rg_Name = ''g'', rg_Domains = [''a.com'', ''*.b.com'']\<rparr>] [] = Inr m
       \<and> MatchHost sampleLib m ''x.B.com:443'' \<noteq> None"
proof -
  let ?gs = "[\<lparr>rg_Name = ''g'', rg_Domains = [''a.com'', ''*.b.com'']\<rparr>]"
  have "is_ok (NewMatcher sampleLib ?gs [])" by code_simp
  then obtain m where m: "NewMatcher sampleLib ?gs [] = Inr m" by auto
  have "NormalizeHost sampleLib ''x.B.com:443'' = Inr ''x.b.com''"
    by code_simp
  moreover have "NormalizeHost sampleLib ''b.com'' = Inr ''b.com''" "TrimSpace ''*.b.com'' = ''*.b.com''"
    by code_simp+
  then have "ruleCovers sampleLib ''*.b.com'' ''x.b.com''"
    by (auto simp: ruleCovers_def HasPrefix_def)
  ultimately show ?thesis
    using m NewMatcher_MatchHost_covers [OF m, of "''x.B.com:443''"]
    by (auto simp: allRules_def groupRules_def)
qed

text \<open>
  C11. Precedence.  A matched host is attributed to the last exact rule for it in the order
  groups-then-custom, so that a custom domain overrides a built-in rule for the same host, and
  otherwise to the first wildcard rule above it; the result carries the normalised host and
  the group and rule of the deciding entry.
\<close>

theorem MatchHost_precedence:
  assumes "NewMatcher E gs cs = Inr m"
  shows "\<exists>es. normalizeRules E (allRules gs cs) = Inr es \<and>
    MatchHost E m h =
     (case NormalizeHost E h of
        Inl _ \<Rightarrow> None
      | Inr n \<Rightarrow> map_option (\<lambda>e. \<lparr>mr_Host = n, mr_GroupName = re_group e, mr_Rule = re_rule e\<rparr>)
                   (decidingEntry es n))"
  using NewMatcher_enter [OF assms] MatchHost_deciding by blast

theorem MatchHost_precedence_witness:
  "\<exists>m. NewMatcher sampleLib
         [\<lparr>rg_Name = ''g'', rg_Domains = [''a.com'', ''*.com'']\<rparr>] [''A.com''] = Inr m
       \<and> MatchHost sampleLib m ''a.com''
         = Some \<lparr>mr_Host = ''a.com'', mr_GroupName = ''custom'', mr_Rule = ''a.com''\<rparr>"
proof -
  let ?gs = "[\<lparr>rg_Name = ''g'', rg_Domains = [''a.com'', ''*.com'']\<rparr>]"
  have "is_ok (NewMatcher sampleLib ?gs [''A.com''])" by code_simp
  then obtain m where m: "NewMatcher sampleLib ?gs [''A.com''] = Inr m" by auto
  have "normalizeRules sampleLib (allRules ?gs [''A.com'']) =
      Inr [(\<lparr>re_group = ''g'', re_rule = ''a.com'', re_host = ''a.com''\<rparr>, False),
           (\<lparr>re_group = ''g'', re_rule = ''*.com'', re_host = ''com''\<rparr>, True),
           (\<lparr>re_group = ''custom'', re_rule = ''a.com'', re_host = ''a.com''\<rparr>, False)]"
    by code_simp
  moreover have "NormalizeHost sampleLib ''a.com'' = Inr ''a.com''"
    by code_simp
  ultimately show ?thesis
    using m MatchHost_precedence [OF m, of "''a.com''"]
    by (auto simp: decidingEntry_def)
qed

text \<open>
  \<open>NewMatcher\<close> fails exactly when a group has a blank name or a rule does not
  normalise: every rule of a valid configuration is entered, none is skipped silently.
\<close>

theorem NewMatcher_ok_iff:
  "is_ok (NewMatcher E gs cs) \<longleftrightarrow>
     (\<forall>g\<in>set gs. TrimSpace (rg_Name g) \<noteq> []) \<and>
     (\<forall>(g, r)\<in>set (allRules gs cs). is_ok (normalizeRule E g r))"
  unfolding NewMatcher_ok normalizeRules_def mapM_ok by auto

theorem NewMatcher_ok_iff_witness:
  "is_ok (NewMatcher sampleLib [\<lparr>rg_Name = ''g'', rg_Domains = [''*.b.com'']\<rparr>] [])
   \<and> \<not> is_ok (NewMatcher sampleLib [\<lparr>rg_Name = '' '', rg_Domains = []\<rparr>] [])"
proof -
  have "TrimSpace ''g'' \<noteq> []" "TrimSpace '' '' = []" "is_ok (normalizeRule sampleLib ''g'' ''*.b.com'')"
    by code_simp+
  then show ?thesis
    using NewMatcher_ok_iff [of sampleLib "[\<lparr>rg_Name = ''g'', rg_Domains = [''*.b.com'']\<rparr>]" "[]"]
      NewMatcher_ok_iff [of sampleLib "[\<lparr>rg_Name = '' '', rg_Domains = []\<rparr>]" "[]"]
    by (simp add: allRules_def groupRules_def)
qed

text \<open>
  A normalised host is a fixed point of normalisation, given the documented output format
  of the IDNA Lookup profile, unless it is empty or still ends in a dot (only one trailing
  dot is removed).  Rules that were exported and re-read therefore match the same hosts.
\<close>

theorem NormalizeHost_idempotent:
  assumes "idna_lookup_profile E" and "NormalizeHost E h = Inr n"
    and "n \<noteq> []" and "last n \<noteq> CHR ''.''"
  shows "NormalizeHost E n = Inr n"
  by (rule NormalizeHost_fixpoint [OF assms])

lemma sampleLib_idna: "idna_lookup_profile sampleLib"
  by (auto simp: idna_lookup_profile_def sampleLib_def list_all_iff ldh_lower split: if_splits)

theorem NormalizeHost_idempotent_witness:
  "NormalizeHost sampleLib ''http://Store.steampowered.com:80/x'' = Inr ''store.steampowered.com''
   \<and> NormalizeHost sampleLib ''store.steampowered.com'' = Inr ''store.steampowered.com''"
proof -
  have "NormalizeHost sampleLib ''http://Store.steampowered.com:80/x'' = Inr ''store.steampowered.com''"
    by code_simp
  from NormalizeHost_idempotent [OF sampleLib_idna this] this show ?thesis by simp
qed



end
