(* ===== verification/Config.thy ===== *)
theory Config
  imports Rules
begin

section \<open>Package config: the configuration and its validation\<close>

text \<open>
  \<^verbatim>\<open>internal/config/config.go\<close>.  The configuration structs are records, durations
  are nanoseconds, and \<open>Validate\<close>, which normalises the configuration in place and
  returns the first error, is a function from configurations to an error or the normalised
  configuration, composed of one definition per stretch of the Go method.  The YAML decoder,
  the file read and the platform's default paths are arguments.
\<close>

abbreviation ModeProxyOnly :: string where "ModeProxyOnly \<equiv> ''proxy_only''"
abbreviation ModePAC :: string where "ModePAC \<equiv> ''pac''"
abbreviation ModeSystem :: string where "ModeSystem \<equiv> ''system''"
abbreviation ModeHosts :: string where "ModeHosts \<equiv> ''hosts''"
abbreviation ModeDNS :: string where "ModeDNS \<equiv> ''dns''"
abbreviation NonTargetReject :: string where "NonTargetReject \<equiv> ''reject''"
abbreviation NonTargetDirect :: string where "NonTargetDirect \<equiv> ''direct''"
abbreviation DNSInterceptManual :: string where "DNSInterceptManual \<equiv> ''manual''"
abbreviation DNSInterceptSystem :: string where "DNSInterceptSystem \<equiv> ''system''"
abbreviation DNSInterceptExternal :: string where "DNSInterceptExternal \<equiv> ''external''"
abbreviation PageEnhancePassThrough :: string where "PageEnhancePassThrough \<equiv> ''pass_through''"
abbreviation PageEnhanceFailClosed :: string where "PageEnhanceFailClosed \<equiv> ''fail_closed''"
abbreviation ResolverSystem :: string where "ResolverSystem \<equiv> ''system''"
abbreviation ResolverUDP :: string where "ResolverUDP \<equiv> ''udp''"
abbreviation ResolverTCP :: string where "ResolverTCP \<equiv> ''tcp''"
abbreviation ResolverDoH :: string where "ResolverDoH \<equiv> ''doh''"
abbreviation UpstreamDirect :: string where "UpstreamDirect \<equiv> ''direct''"
abbreviation UpstreamHTTP :: string where "UpstreamHTTP \<equiv> ''http''"
abbreviation UpstreamSOCKS5 :: string where "UpstreamSOCKS5 \<equiv> ''socks5''"
abbreviation CertStoreMachine :: string where "CertStoreMachine \<equiv> ''machine''"
abbreviation CertStoreUser :: string where "CertStoreUser \<equiv> ''user''"

type_synonym Duration = int

definition Second :: Duration where "Second = 1000000000"
definition Minute :: Duration where "Minute = 60 * Second"

subsection \<open>The configuration structs\<close>

record ProxyConfig =
  px_ListenAddr :: string
  px_NonTargetBehavior :: string
  px_AllowLAN :: bool
  px_ReadHeaderTimeout :: Duration
  px_IdleTimeout :: Duration
  px_DialTimeout :: Duration
  px_ShutdownTimeout :: Duration

record ProvidersConfig =
  pv_Enabled :: "string list option"

record DNSConfig =
  dn_Enabled :: bool
  dn_Strategy :: string
  dn_ListenAddr :: string
  dn_AllowLAN :: bool
  dn_Interfaces :: "string list"
  dn_MapIPv4 :: string
  dn_MapIPv6 :: string
  dn_TTL :: Duration
  dn_BlockHTTPSRecords :: bool

record RulesConfig =
  ru_CustomDomains :: "string list"

record PACConfig =
  pa_ListenAddr :: string
  pa_AllowLAN :: bool

record HostsConfig =
  ho_MapIP :: string
  ho_HTTPListenAddr :: string
  ho_HTTPSListenAddr :: string
  ho_AllowLAN :: bool
  ho_Path :: string
  ho_ExtraDomains :: "string list"

record CertConfig =
  ce_Dir :: string
  ce_AutoInstall :: bool
  ce_StoreScope :: string

record ResolverConfig =
  rs_Mode :: string
  rs_Servers :: "string list"
  rs_PreferIPv4 :: bool
  rs_PreferIPv6 :: bool
  rs_DisableIPv6 :: bool
  rs_CacheTTL :: Duration
  rs_Timeout :: Duration

record OutboundProfileConfig =
  op_MatchDomains :: "string list"
  op_CandidateIPs :: "string list"
  op_ForwardHost :: string
  op_TLSServerName :: string
  op_IgnoreTLSNameMismatch :: bool

record UpstreamConfig =
  up_Type :: string
  up_Address :: string
  up_Username :: string
  up_Password :: string
  up_Profiles :: "OutboundProfileConfig list"

record PageEnhanceAssetConfig =
  as_Path :: string
  as_File :: string
  as_ContentType :: string

record PageEnhanceMatchConfig =
  ma_Providers :: "string list"
  ma_Hosts :: "string list"
  ma_PathPrefixes :: "string list"
  ma_ContentTypes :: "string list"
  ma_StatusCodes :: "int list"

text \<open>The map of headers to set, listed in its iteration order.\<close>

record PageEnhanceHeadersConfig =
  hd_Set :: "(string \<times> string) list"
  hd_Remove :: "string list"

record PageEnhanceReplaceConfig =
  rp_Old :: string
  rp_New :: string
  rp_Count :: int

record PageEnhanceTransformConfig =
  tr_Name :: string
  tr_Match :: PageEnhanceMatchConfig
  tr_Headers :: PageEnhanceHeadersConfig
  tr_InjectHead :: string
  tr_InjectBody :: string
  tr_Replace :: "PageEnhanceReplaceConfig list"

record PageEnhanceConfig =
  pe_Enabled :: bool
  pe_OnError :: string
  pe_MaxBodySize :: int
  pe_Assets :: "PageEnhanceAssetConfig list"
  pe_Transforms :: "PageEnhanceTransformConfig list"

record SystemConfig =
  sy_Services :: "string list"

record RuntimeConfig =
  rt_StatePath :: string
  rt_RollbackPath :: string
  rt_ControlAddr :: string
  rt_StopTimeout :: Duration

record Config =
  c_Mode :: string
  c_Providers :: ProvidersConfig
  c_DNS :: DNSConfig
  c_Proxy :: ProxyConfig
  c_PAC :: PACConfig
  c_Hosts :: HostsConfig
  c_Cert :: CertConfig
  c_Resolver :: ResolverConfig
  c_Upstream :: UpstreamConfig
  c_PageEnhance :: PageEnhanceConfig
  c_System :: SystemConfig
  c_Rules :: RulesConfig
  c_Runtime :: RuntimeConfig

text \<open>Listener errors, and one constructor per kind of configuration error; the strings name the field.\<close>

datatype listen_error = BadHostPort | PortRequired | HostNotIP | NotLoopback string

datatype config_error =
    Unsupported string string
  | Required string
  | InvalidListen string listen_error
  | NotAnIP string
  | MapNotLoopback string
  | WildcardExtraDomain string
  | NotPositive string
  | PreferConflict
  | StrategyRequiresDNSMode string
  | StrategyNotImplemented string
  | EnabledRequiresDNSMode
  | NotIPv4 string
  | NotIPv6 string
  | SystemStrategy string
  | ProfileError nat string
  | ProfileHostError nat nat rules_error
  | ProfileFieldHost nat string rules_error
  | AssetError nat string
  | TransformError nat string
  | TransformHost nat nat rules_error
  | NegativeBodySize
  | HeaderNameRequired
  | HeaderControl
  | TransformHeader nat config_error
  | ReadConfigFailed string
  | LegacyKey string
  | ParseConfigFailed string

subsection \<open>Defaults\<close>

text \<open>The four paths \<open>Default\<close> takes from the environment of the process.\<close>

record DefaultPaths =
  dp_Hosts :: string
  dp_CertDir :: string
  dp_State :: string
  dp_Rollback :: string

definition DefaultDoHServers :: "string list" where
  "DefaultDoHServers =
     [''https://dns.alidns.com/dns-query'', ''https://doh.pub/dns-query'',
      ''https://cloudflare-dns.com/dns-query'', ''https://dns.google/dns-query'']"

definition Default :: "DefaultPaths \<Rightarrow> Config" where
  "Default P =
     \<lparr>c_Mode = ModeProxyOnly,
      c_Providers = \<lparr>pv_Enabled = Some [''steam'']\<rparr>,
      c_DNS = \<lparr>dn_Enabled = False, dn_Strategy = DNSInterceptManual,
        dn_ListenAddr = ''127.0.0.1:53'', dn_AllowLAN = False, dn_Interfaces = [],
        dn_MapIPv4 = ''127.0.0.1'', dn_MapIPv6 = [], dn_TTL = 30 * Second,
        dn_BlockHTTPSRecords = True\<rparr>,
      c_Proxy = \<lparr>px_ListenAddr = ''127.0.0.1:26501'', px_NonTargetBehavior = NonTargetReject,
        px_AllowLAN = False, px_ReadHeaderTimeout = 10 * Second, px_IdleTimeout = 2 * Minute,
        px_DialTimeout = 30 * Second, px_ShutdownTimeout = 5 * Second\<rparr>,
      c_PAC = \<lparr>pa_ListenAddr = ''127.0.0.1:26502'', pa_AllowLAN = False\<rparr>,
      c_Hosts = \<lparr>ho_MapIP = ''127.0.0.1'', ho_HTTPListenAddr = ''127.0.0.1:80'',
        ho_HTTPSListenAddr = ''127.0.0.1:443'', ho_AllowLAN = False, ho_Path = dp_Hosts P,
        ho_ExtraDomains = []\<rparr>,
      c_Cert = \<lparr>ce_Dir = dp_CertDir P, ce_AutoInstall = True, ce_StoreScope = CertStoreMachine\<rparr>,
      c_Resolver = \<lparr>rs_Mode = ResolverSystem, rs_Servers = [], rs_PreferIPv4 = True,
        rs_PreferIPv6 = False, rs_DisableIPv6 = False, rs_CacheTTL = 10 * Minute,
        rs_Timeout = 5 * Second\<rparr>,
      c_Upstream = \<lparr>up_Type = UpstreamDirect, up_Address = [], up_Username = [],
        up_Password = [], up_Profiles = []\<rparr>,
      c_PageEnhance = \<lparr>pe_Enabled = False, pe_OnError = PageEnhancePassThrough,
        pe_MaxBodySize = 1024 * 1024, pe_Assets = [], pe_Transforms = []\<rparr>,
      c_System = \<lparr>sy_Services = []\<rparr>,
      c_Rules = \<lparr>ru_CustomDomains = []\<rparr>,
      c_Runtime = \<lparr>rt_StatePath = dp_State P, rt_RollbackPath = dp_Rollback P,
        rt_ControlAddr = ''127.0.0.1:0'', rt_StopTimeout = 5 * Second\<rparr>\<rparr>"

subsection \<open>Normalising single values\<close>

definition lowerTrim :: "golib \<Rightarrow> string \<Rightarrow> string" where
  "lowerTrim E s = ToLower E (TrimSpace s)"

definition normalizeMode :: "golib \<Rightarrow> string \<Rightarrow> string" where
  "normalizeMode E mode =
     (let m = lowerTrim E mode in
      if m \<in> set ['''', ModeProxyOnly, ''proxy-only''] then ModeProxyOnly
      else if m = ModePAC then ModePAC
      else if m = ModeSystem then ModeSystem
      else if m = ModeHosts then ModeHosts
      else if m \<in> set [ModeDNS, ''dns_intercept'', ''dns-intercept''] then ModeDNS
      else m)"

definition normalizeDNSInterceptStrategy :: "golib \<Rightarrow> string \<Rightarrow> string" where
  "normalizeDNSInterceptStrategy E strategy =
     (let m = lowerTrim E strategy in
      if m \<in> set ['''', DNSInterceptManual] then DNSInterceptManual
      else if m = DNSInterceptSystem then DNSInterceptSystem
      else if m = DNSInterceptExternal then DNSInterceptExternal
      else m)"

definition normalizePageEnhanceOnError :: "golib \<Rightarrow> string \<Rightarrow> string" where
  "normalizePageEnhanceOnError E value =
     (let m = lowerTrim E value in
      if m \<in> set ['''', PageEnhancePassThrough, ''passthrough'', ''pass-through'']
      then PageEnhancePassThrough
      else if m \<in> set [PageEnhanceFailClosed, ''fail-closed''] then PageEnhanceFailClosed
      else m)"

definition normalizeProviderIDs :: "golib \<Rightarrow> string list option \<Rightarrow> string list option" where
  "normalizeProviderIDs E values =
     (case values of None \<Rightarrow> None
      | Some vs \<Rightarrow> Some (filter (\<lambda>v. v \<noteq> []) (map (lowerTrim E) vs)))"

definition normalizeNonTargetBehavior :: "golib \<Rightarrow> string \<Rightarrow> string" where
  "normalizeNonTargetBehavior E behavior =
     (let m = lowerTrim E behavior in
      if m \<in> set ['''', NonTargetReject] then NonTargetReject
      else if m = NonTargetDirect then NonTargetDirect
      else m)"

definition normalizeResolverMode :: "golib \<Rightarrow> string \<Rightarrow> string" where
  "normalizeResolverMode E mode =
     (let m = lowerTrim E mode in
      if m \<in> set ['''', ResolverSystem] then ResolverSystem
      else if m = ResolverUDP then ResolverUDP
      else if m = ResolverTCP then ResolverTCP
      else if m = ResolverDoH then ResolverDoH
      else m)"

definition normalizeCertStoreScope :: "golib \<Rightarrow> string \<Rightarrow> string" where
  "normalizeCertStoreScope E scope =
     (let m = lowerTrim E scope in
      if m \<in> set ['''', CertStoreMachine, ''local_machine'', ''local-machine''] then CertStoreMachine
      else if m \<in> set [CertStoreUser, ''current_user'', ''current-user''] then CertStoreUser
      else m)"

definition normalizeUpstreamType :: "golib \<Rightarrow> string \<Rightarrow> string" where
  "normalizeUpstreamType E upstreamType =
     (let m = lowerTrim E upstreamType in
      if m \<in> set ['''', UpstreamDirect] then UpstreamDirect
      else if m = UpstreamHTTP then UpstreamHTTP
      else if m = UpstreamSOCKS5 then UpstreamSOCKS5
      else m)"

definition trimStrings :: "string list \<Rightarrow> string list" where
  "trimStrings values = filter (\<lambda>v. v \<noteq> []) (map TrimSpace values)"

definition dedupeStrings :: "golib \<Rightarrow> string list \<Rightarrow> string list" where
  "dedupeStrings E values = dedup_by (ToLower E) [] values"

definition validateListenAddr :: "golib \<Rightarrow> string \<Rightarrow> bool \<Rightarrow> (listen_error, unit) result" where
  "validateListenAddr E addr allowLAN =
     (case SplitHostPort addr of
        None \<Rightarrow> Inl BadHostPort
      | Some (host, port) \<Rightarrow>
          if TrimSpace port = [] then Inl PortRequired
          else if EqualFold E host ''localhost'' then Inr ()
          else (case ParseIP host of
                  None \<Rightarrow> Inl HostNotIP
                | Some ip \<Rightarrow> ensure (allowLAN \<or> IsLoopback ip) (NotLoopback host)))"

end
