(* ===== verification/GoHTTP.thy ===== *)
theory GoHTTP
  imports GoNet
begin

section \<open>The Go standard library: header maps\<close>

text \<open>
  \<^verbatim>\<open>textproto.CanonicalMIMEHeaderKey\<close> and the operations of \<^verbatim>\<open>http.Header\<close>,
  a map from canonical names to lists of values, here an association list.
\<close>

type_synonym header = "(string \<times> string list) list"

definition isLetter :: "char \<Rightarrow> bool" where
  "isLetter c \<longleftrightarrow> 97 \<le> (of_char (lowerAscii c) :: nat) \<and> (of_char (lowerAscii c) :: nat) \<le> 122"

definition validHeaderFieldByte :: "char \<Rightarrow> bool" where
  "validHeaderFieldByte c \<longleftrightarrow>
     isDigit c \<or> isLetter c \<or> c \<in> set [CHR ''!'', CHR ''#'', CHR ''$'', CHR ''%'', CHR ''&'',
       CHR 0x27, CHR ''*'', CHR ''+'', CHR ''-'', CHR ''.'', CHR ''^'', CHR ''_'', CHR 0x60,
       CHR ''|'', CHR ''~'']"

primrec canonicalAux :: "bool \<Rightarrow> string \<Rightarrow> string" where
  "canonicalAux upper [] = []"
| "canonicalAux upper (c # cs) =
     (if upper then upperAscii c else lowerAscii c) # canonicalAux (c = CHR ''-'') cs"

definition CanonicalMIMEHeaderKey :: "string \<Rightarrow> string" where
  "CanonicalMIMEHeaderKey s =
     (if list_all validHeaderFieldByte s then canonicalAux True s else s)"

definition HeaderValues :: "header \<Rightarrow> string \<Rightarrow> string list" where
  "HeaderValues h key = (case map_of h (CanonicalMIMEHeaderKey key) of None \<Rightarrow> [] | Some vs \<Rightarrow> vs)"

definition HeaderGet :: "header \<Rightarrow> string \<Rightarrow> string" where
  "HeaderGet h key = (case HeaderValues h key of [] \<Rightarrow> [] | v # _ \<Rightarrow> v)"

definition HeaderSet :: "string \<Rightarrow> string \<Rightarrow> header \<Rightarrow> header" where
  "HeaderSet key value h = AList.update (CanonicalMIMEHeaderKey key) [value] h"

definition HeaderAdd :: "string \<Rightarrow> string \<Rightarrow> header \<Rightarrow> header" where
  "HeaderAdd key value h = AList.update (CanonicalMIMEHeaderKey key) (HeaderValues h key @ [value]) h"

definition HeaderDel :: "string \<Rightarrow> header \<Rightarrow> header" where
  "HeaderDel key h = AList.delete (CanonicalMIMEHeaderKey key) h"

lemma upperAscii_code [code]:
  "upperAscii (Char b0 b1 b2 b3 b4 b5 b6 b7) =
     Char b0 b1 b2 b3 b4
       (b5 \<and> (b7 \<or> \<not> b6 \<or> \<not> (b0 \<or> b1 \<or> b2 \<or> b3 \<or> b4) \<or> b4 \<and> b3 \<and> (b2 \<or> b1 \<and> b0))) b6 b7"
  by (cases b0; cases b1; cases b2; cases b3; cases b4; cases b5; cases b6; cases b7)
    (simp_all add: upperAscii_def char_of_def bit_0)

lemma isLetter_code [code]:
  "isLetter (Char b0 b1 b2 b3 b4 b5 b6 b7) \<longleftrightarrow>
     \<not> b7 \<and> b6 \<and> (b0 \<or> b1 \<or> b2 \<or> b3 \<or> b4) \<and> \<not> (b4 \<and> b3 \<and> (b2 \<or> b1 \<and> b0))"
  by (cases b0; cases b1; cases b2; cases b3; cases b4; cases b5; cases b6; cases b7)
    (simp_all add: isLetter_def lowerAscii_code)

lemma lower_upper [simp]: "lowerAscii (upperAscii c) = lowerAscii c"
  and upper_idem [simp]: "upperAscii (upperAscii c) = upperAscii c"
  by (cases c; simp add: upperAscii_code lowerAscii_code; blast)+

lemma upper_lower [simp]: "upperAscii (lowerAscii c) = upperAscii c"
  by (cases c) (auto simp: upperAscii_code lowerAscii_code)

lemma dash_case [simp]:
  "upperAscii c = CHR ''-'' \<longleftrightarrow> c = CHR ''-''" "lowerAscii c = CHR ''-'' \<longleftrightarrow> c = CHR ''-''"
  by (cases c; auto simp: upperAscii_code lowerAscii_code)+

lemma isDigit_case [simp]: "isDigit (upperAscii c) = isDigit c" "isDigit (lowerAscii c) = isDigit c"
  by (cases c; auto simp: upperAscii_code lowerAscii_code isDigit_code)+

lemma isLetter_case [simp]: "isLetter (upperAscii c) = isLetter c" "isLetter (lowerAscii c) = isLetter c"
  by (simp_all add: isLetter_def)

lemma letter_case_fix: "\<not> isLetter c \<Longrightarrow> upperAscii c = c \<and> lowerAscii c = c"
  by (cases c) (auto simp: upperAscii_code lowerAscii_code isLetter_code)

lemma validHeaderFieldByte_case [simp]:
  "validHeaderFieldByte (upperAscii c) = validHeaderFieldByte c"
  "validHeaderFieldByte (lowerAscii c) = validHeaderFieldByte c"
  using letter_case_fix [of c] by (cases "isLetter c"; simp add: validHeaderFieldByte_def)+

lemma canonicalAux_valid:
  "list_all validHeaderFieldByte (canonicalAux u s) = list_all validHeaderFieldByte s"
  by (induction s arbitrary: u) auto

lemma canonicalAux_idem: "canonicalAux u (canonicalAux u s) = canonicalAux u s"
  by (induction s arbitrary: u) auto

lemma CanonicalMIMEHeaderKey_idem [simp]:
  "CanonicalMIMEHeaderKey (CanonicalMIMEHeaderKey s) = CanonicalMIMEHeaderKey s"
  by (simp add: CanonicalMIMEHeaderKey_def canonicalAux_valid canonicalAux_idem)

lemma canonicalAux_Nil [simp]: "canonicalAux u s = [] \<longleftrightarrow> s = []"
  by (cases s) auto

lemma CanonicalMIMEHeaderKey_Nil [simp]: "CanonicalMIMEHeaderKey s = [] \<longleftrightarrow> s = []"
  by (auto simp: CanonicalMIMEHeaderKey_def)

text \<open>Reading back what was set, added or deleted.\<close>

lemma HeaderGet_Set [simp]:
  "HeaderGet (HeaderSet k v h) k' =
     (if CanonicalMIMEHeaderKey k' = CanonicalMIMEHeaderKey k then v else HeaderGet h k')"
  by (simp add: HeaderGet_def HeaderValues_def HeaderSet_def update_conv')

lemma HeaderValues_Set [simp]:
  "HeaderValues (HeaderSet k v h) k' =
     (if CanonicalMIMEHeaderKey k' = CanonicalMIMEHeaderKey k then [v] else HeaderValues h k')"
  by (simp add: HeaderValues_def HeaderSet_def update_conv')

lemma HeaderValues_Del [simp]:
  "HeaderValues (HeaderDel k h) k' =
     (if CanonicalMIMEHeaderKey k' = CanonicalMIMEHeaderKey k then [] else HeaderValues h k')"
  by (simp add: HeaderValues_def HeaderDel_def delete_conv')

subsection \<open>Requests and responses\<close>

text \<open>
  A response body is what reading it gives: some bytes and then the end or an error.  The URL of
  a request is \<open>None\<close> for nil; \<open>hr_Path\<close> is the path of the URL of the request of the
  response.
\<close>

record bodyStream =
  bs_Data :: string
  bs_Err :: "string option"

record Response =
  hr_StatusCode :: int
  hr_Header :: header
  hr_Body :: "bodyStream option"
  hr_ContentLength :: int
  hr_Path :: "string option"

record requestURL =
  ru_Scheme :: string
  ru_Host :: string
  ru_Path :: string

record httpRequest =
  rq_Method :: string
  rq_URL :: "requestURL option"
  rq_Host :: string
  rq_RequestURI :: string
  rq_Header :: header
  rq_TLS :: bool

subsection \<open>Writing a response\<close>

text \<open>
  An \<^verbatim>\<open>http.ResponseWriter\<close>: the header map, the status once it is written (0 before)
  and the bytes of the body.
\<close>

record respWriter =
  rw_Status :: int
  rw_Header :: header
  rw_Body :: string

definition newWriter :: respWriter where
  "newWriter = \<lparr>rw_Status = 0, rw_Header = [], rw_Body = []\<rparr>"

definition WriteHeader :: "int \<Rightarrow> respWriter \<Rightarrow> respWriter" where
  "WriteHeader code w = (if rw_Status w = 0 then w\<lparr>rw_Status := code\<rparr> else w)"

definition writeBody :: "string \<Rightarrow> respWriter \<Rightarrow> respWriter" where
  "writeBody data w = (let w = WriteHeader 200 w in w\<lparr>rw_Body := rw_Body w @ data\<rparr>)"

definition httpError :: "string \<Rightarrow> int \<Rightarrow> respWriter \<Rightarrow> respWriter" where
  "httpError message code w =
     writeBody (message @ [LF]) (WriteHeader code
       (w\<lparr>rw_Header := HeaderSet ''X-Content-Type-Options'' ''nosniff''
            (HeaderSet ''Content-Type'' ''text/plain; charset=utf-8'' (HeaderDel ''Content-Length'' (rw_Header w)))\<rparr>))"

lemma httpError_newWriter:
  "0 < code \<Longrightarrow> rw_Status (httpError message code newWriter) = code"
  by (simp add: httpError_def writeBody_def WriteHeader_def newWriter_def Let_def)

end
