(* ===== verification/ConfigValidate.thy ===== *)
theory ConfigValidate
  imports Config GoHTTP
begin

section \<open>Package config: Validate, LoadFile and legacy keys\<close>

text \<open>
  \<open>Config.Validate\<close> of \<^verbatim>\<open>internal/config/config.go\<close>, its sub-validators for
  the outbound profiles, the DNS interception and the page enhancement, and the loader with
  its rejection of removed keys.
\<close>

subsection \<open>Outbound profiles\<close>

definition normalizeOptionalProfileHost :: "golib \<Rightarrow> string \<Rightarrow> (rules_error, string) result" where
  "normalizeOptionalProfileHost E host =
     (if TrimSpace host = [] then Inr [] else NormalizeHost E (TrimSpace host))"

definition normalizeMatchDomain :: "golib \<Rightarrow> nat \<Rightarrow> nat \<Rightarrow> string \<Rightarrow> (config_error, string) result" where
  "normalizeMatchDomain E i j domain =
     (if Contains domain ''*'' \<and> \<not> HasPrefix domain ''*.''
      then Inl (ProfileError i ''match_domains must use the *.example.com form'')
      else if HasPrefix domain ''*.'' then
        map_result (\<lambda>normalized. ''*.'' @ normalized)
          (map_err (ProfileHostError i j) (NormalizeHost E (TrimPrefix domain ''*.'')))
      else map_err (ProfileHostError i j) (NormalizeHost E domain))"

primrec normalizeMatchDomains ::
    "golib \<Rightarrow> nat \<Rightarrow> nat \<Rightarrow> string list \<Rightarrow> (config_error, string list) result" where
  "normalizeMatchDomains E i j [] = Inr []"
| "normalizeMatchDomains E i j (d # ds) =
     rbind (normalizeMatchDomain E i j d) (\<lambda>d'.
     rbind (normalizeMatchDomains E i (Suc j) ds) (\<lambda>ds'. Inr (d' # ds')))"

definition validateOutboundProfile ::
    "golib \<Rightarrow> nat \<Rightarrow> OutboundProfileConfig \<Rightarrow> (config_error, OutboundProfileConfig) result" where
  "validateOutboundProfile E i profile =
     (let domains = trimStrings (op_MatchDomains profile);
          ips = trimStrings (op_CandidateIPs profile) in
      rbind (ensure (domains \<noteq> []) (ProfileError i ''match_domains is required'')) (\<lambda>_.
      rbind (normalizeMatchDomains E i 0 domains) (\<lambda>domains.
      rbind (ensure (list_all (\<lambda>ip. ParseIP ip \<noteq> None) ips)
               (ProfileError i ''candidate_ips must be an IP address'')) (\<lambda>_.
      rbind (map_err (ProfileFieldHost i ''forward_host'')
               (normalizeOptionalProfileHost E (op_ForwardHost profile))) (\<lambda>forwardHost.
      rbind (map_err (ProfileFieldHost i ''tls_server_name'')
               (normalizeOptionalProfileHost E (op_TLSServerName profile))) (\<lambda>tlsServerName.
      rbind (ensure (ips \<noteq> [] \<or> forwardHost \<noteq> [] \<or> tlsServerName \<noteq> []
                     \<or> op_IgnoreTLSNameMismatch profile)
               (ProfileError i ''must define an outbound setting'')) (\<lambda>_.
      Inr (profile\<lparr>op_MatchDomains := domains, op_CandidateIPs := ips,
             op_ForwardHost := forwardHost, op_TLSServerName := tlsServerName\<rparr>))))))))"

primrec validateOutboundProfiles ::
    "golib \<Rightarrow> nat \<Rightarrow> OutboundProfileConfig list \<Rightarrow> (config_error, OutboundProfileConfig list) result" where
  "validateOutboundProfiles E i [] = Inr []"
| "validateOutboundProfiles E i (p # ps) =
     rbind (validateOutboundProfile E i p) (\<lambda>p'.
     rbind (validateOutboundProfiles E (Suc i) ps) (\<lambda>ps'. Inr (p' # ps')))"

subsection \<open>DNS interception\<close>

definition validateDNSSystemConfig :: "golib \<Rightarrow> DNSConfig \<Rightarrow> (config_error, unit) result" where
  "validateDNSSystemConfig E cfg =
     (case SplitHostPort (dn_ListenAddr cfg) of
        None \<Rightarrow> Inl (InvalidListen ''dns_intercept'' BadHostPort)
      | Some (host, port) \<Rightarrow>
          if port \<noteq> ''53'' then Inl (SystemStrategy ''port 53'')
          else (case ParseIP (if EqualFold E (TrimSpace host) ''localhost'' then ''127.0.0.1'' else host) of
                  None \<Rightarrow> Inl (SystemStrategy ''loopback'')
                | Some ip \<Rightarrow>
                    if \<not> IsLoopback ip then Inl (SystemStrategy ''loopback'')
                    else if To4 ip = [] then Inl (SystemStrategy ''IPv4 loopback only'')
                    else ensure (dn_Interfaces cfg \<noteq> []) (SystemStrategy ''interfaces'')))"

definition checkDNSStrategy :: "string \<Rightarrow> bool \<Rightarrow> string \<Rightarrow> (config_error, unit) result" where
  "checkDNSStrategy strategy active mode =
     (if strategy = DNSInterceptManual then Inr ()
      else if strategy = DNSInterceptSystem then
        ensure (active \<longrightarrow> mode = ModeDNS) (StrategyRequiresDNSMode strategy)
      else if strategy = DNSInterceptExternal then
        ensure (\<not> active) (StrategyNotImplemented strategy)
      else Inl (Unsupported ''dns_intercept.strategy'' strategy))"

definition checkDNSMapping :: "DNSConfig \<Rightarrow> (config_error, unit) result" where
  "checkDNSMapping cfg =
     rbind (ensure (dn_MapIPv4 cfg \<noteq> [] \<or> dn_MapIPv6 cfg \<noteq> []) (Required ''map_ipv4 or map_ipv6'')) (\<lambda>_.
     rbind (ensure (dn_MapIPv4 cfg \<noteq> [] \<longrightarrow>
              (case ParseIP (dn_MapIPv4 cfg) of None \<Rightarrow> False | Some ip \<Rightarrow> To4 ip \<noteq> []))
              (NotIPv4 (dn_MapIPv4 cfg))) (\<lambda>_.
     ensure (dn_MapIPv6 cfg \<noteq> [] \<longrightarrow>
              (case ParseIP (dn_MapIPv6 cfg) of None \<Rightarrow> False | Some ip \<Rightarrow> To4 ip = []))
              (NotIPv6 (dn_MapIPv6 cfg))))"

definition validateDNSConfig :: "golib \<Rightarrow> DNSConfig \<Rightarrow> string \<Rightarrow> (config_error, DNSConfig) result" where
  "validateDNSConfig E cfg mode =
     (let strategy = normalizeDNSInterceptStrategy E (dn_Strategy cfg);
          cfg = cfg\<lparr>dn_Strategy := strategy,
                    dn_Interfaces := dedupeStrings E (trimStrings (dn_Interfaces cfg))\<rparr>;
          active = (dn_Enabled cfg \<or> mode = ModeDNS) in
      rbind (checkDNSStrategy strategy active mode) (\<lambda>_.
      rbind (ensure (dn_Enabled cfg \<longrightarrow> mode = ModeDNS) EnabledRequiresDNSMode) (\<lambda>_.
      if \<not> active then Inr cfg else
      rbind (ensure (TrimSpace (dn_ListenAddr cfg) \<noteq> []) (Required ''dns_intercept.listen_addr'')) (\<lambda>_.
      rbind (map_err (InvalidListen ''dns_intercept'')
               (validateListenAddr E (dn_ListenAddr cfg) (dn_AllowLAN cfg))) (\<lambda>_.
      let cfg = cfg\<lparr>dn_MapIPv4 := TrimSpace (dn_MapIPv4 cfg), dn_MapIPv6 := TrimSpace (dn_MapIPv6 cfg)\<rparr> in
      rbind (checkDNSMapping cfg) (\<lambda>_.
      rbind (ensure (0 < dn_TTL cfg) (NotPositive ''dns_intercept.ttl'')) (\<lambda>_.
      rbind (if strategy = DNSInterceptSystem then validateDNSSystemConfig E cfg else Inr ()) (\<lambda>_.
      Inr cfg))))))))"

subsection \<open>Page enhancement\<close>

definition normalizeEnhanceHost :: "golib \<Rightarrow> string \<Rightarrow> (rules_error, string) result" where
  "normalizeEnhanceHost E host =
     (if HasPrefix (TrimSpace host) ''*.''
      then map_result (\<lambda>normalized. ''*.'' @ normalized)
             (NormalizeHost E (TrimPrefix (TrimSpace host) ''*.''))
      else NormalizeHost E (TrimSpace host))"

definition containsHeaderControl :: "string \<Rightarrow> bool" where
  "containsHeaderControl value = ContainsAny value [CR, LF]"

definition normalizeHeaderKey :: "string \<Rightarrow> (config_error, string) result" where
  "normalizeHeaderKey key =
     (let key = TrimSpace key in
      if key = [] then Inl HeaderNameRequired
      else if containsHeaderControl key then Inl HeaderControl
      else if CanonicalMIMEHeaderKey key = [] then Inl HeaderNameRequired
      else Inr (CanonicalMIMEHeaderKey key))"

definition validateAsset ::
    "nat \<Rightarrow> PageEnhanceAssetConfig \<Rightarrow> (config_error, PageEnhanceAssetConfig) result" where
  "validateAsset i asset =
     (let asset = asset\<lparr>as_Path := TrimSpace (as_Path asset), as_File := TrimSpace (as_File asset),
                        as_ContentType := TrimSpace (as_ContentType asset)\<rparr> in
      rbind (ensure (as_Path asset \<noteq> [] \<and> HasPrefix (as_Path asset) ''/'') (AssetError i ''path'')) (\<lambda>_.
      rbind (ensure (as_File asset \<noteq> []) (AssetError i ''file'')) (\<lambda>_.
      rbind (ensure (\<not> containsHeaderControl (as_ContentType asset)) (AssetError i ''content_type'')) (\<lambda>_.
      Inr asset))))"

primrec validateAssets ::
    "nat \<Rightarrow> PageEnhanceAssetConfig list \<Rightarrow> (config_error, PageEnhanceAssetConfig list) result" where
  "validateAssets i [] = Inr []"
| "validateAssets i (a # as) =
     rbind (validateAsset i a) (\<lambda>a'. rbind (validateAssets (Suc i) as) (\<lambda>as'. Inr (a' # as')))"

primrec normalizeMatchHosts ::
    "golib \<Rightarrow> nat \<Rightarrow> nat \<Rightarrow> string list \<Rightarrow> (config_error, string list) result" where
  "normalizeMatchHosts E i j [] = Inr []"
| "normalizeMatchHosts E i j (h # hs) =
     rbind (map_err (TransformHost i j) (normalizeEnhanceHost E h)) (\<lambda>h'.
     rbind (normalizeMatchHosts E i (Suc j) hs) (\<lambda>hs'. Inr (h' # hs')))"

definition validateTransformMatch ::
    "golib \<Rightarrow> nat \<Rightarrow> PageEnhanceMatchConfig \<Rightarrow> (config_error, PageEnhanceMatchConfig) result" where
  "validateTransformMatch E i m =
     (let providers = map (ToLower E) (trimStrings (ma_Providers m));
          prefixes = trimStrings (ma_PathPrefixes m);
          types = map (ToLower E) (trimStrings (ma_ContentTypes m)) in
      rbind (ensure (list_all (\<lambda>p. p \<noteq> [] \<and> \<not> containsHeaderControl p) providers)
               (TransformError i ''match.providers'')) (\<lambda>_.
      rbind (normalizeMatchHosts E i 0 (trimStrings (ma_Hosts m))) (\<lambda>hosts.
      rbind (ensure (list_all (\<lambda>p. HasPrefix p ''/'') prefixes)
               (TransformError i ''match.path_prefixes'')) (\<lambda>_.
      rbind (ensure (list_all (\<lambda>t. \<not> containsHeaderControl t) types)
               (TransformError i ''match.content_types'')) (\<lambda>_.
      rbind (ensure (list_all (\<lambda>s. 100 \<le> s \<and> s \<le> 999) (ma_StatusCodes m))
               (TransformError i ''match.status_codes'')) (\<lambda>_.
      Inr (m\<lparr>ma_Providers := providers, ma_Hosts := hosts, ma_PathPrefixes := prefixes,
             ma_ContentTypes := types\<rparr>)))))))"

text \<open>
  \<open>headers.set\<close> is rebuilt by iterating over the decoded map; two names with the same
  canonical form overwrite each other.
\<close>

primrec normalizeHeaderSet ::
    "nat \<Rightarrow> (string \<times> string) list \<Rightarrow> (string \<times> string) list \<Rightarrow>
     (config_error, (string \<times> string) list) result" where
  "normalizeHeaderSet i acc [] = Inr acc"
| "normalizeHeaderSet i acc (kv # kvs) =
     rbind (map_err (TransformHeader i) (normalizeHeaderKey (fst kv))) (\<lambda>canonical.
     rbind (ensure (\<not> containsHeaderControl (snd kv)) (TransformError i ''headers.set'')) (\<lambda>_.
     normalizeHeaderSet i (AList.update canonical (snd kv) acc) kvs))"

definition validateTransformHeaders ::
    "nat \<Rightarrow> PageEnhanceHeadersConfig \<Rightarrow> (config_error, PageEnhanceHeadersConfig) result" where
  "validateTransformHeaders i h =
     rbind (map_err (TransformHeader i) (mapM normalizeHeaderKey (trimStrings (hd_Remove h)))) (\<lambda>remove.
     rbind (if hd_Set h \<noteq> [] then normalizeHeaderSet i [] (hd_Set h) else Inr []) (\<lambda>set.
     Inr (h\<lparr>hd_Remove := remove, hd_Set := set\<rparr>)))"

definition validateTransform ::
    "golib \<Rightarrow> nat \<Rightarrow> PageEnhanceTransformConfig \<Rightarrow> (config_error, PageEnhanceTransformConfig) result" where
  "validateTransform E i t =
     rbind (validateTransformMatch E i (tr_Match t)) (\<lambda>m.
     rbind (validateTransformHeaders i (tr_Headers t)) (\<lambda>h.
     let t = t\<lparr>tr_Name := TrimSpace (tr_Name t), tr_Match := m, tr_Headers := h,
               tr_InjectHead := TrimSpace (tr_InjectHead t), tr_InjectBody := TrimSpace (tr_InjectBody t)\<rparr> in
     rbind (ensure (list_all (\<lambda>r. rp_Old r \<noteq> []) (tr_Replace t)) (TransformError i ''replace.old'')) (\<lambda>_.
     rbind (ensure (hd_Set (tr_Headers t) \<noteq> [] \<or> hd_Remove (tr_Headers t) \<noteq> [] \<or>
                    tr_InjectHead t \<noteq> [] \<or> tr_InjectBody t \<noteq> [] \<or> tr_Replace t \<noteq> [])
              (TransformError i ''must define at least one operation'')) (\<lambda>_.
     Inr t))))"

primrec validateTransforms ::
    "golib \<Rightarrow> nat \<Rightarrow> PageEnhanceTransformConfig list \<Rightarrow> (config_error, PageEnhanceTransformConfig list) result" where
  "validateTransforms E i [] = Inr []"
| "validateTransforms E i (t # ts) =
     rbind (validateTransform E i t) (\<lambda>t'. rbind (validateTransforms E (Suc i) ts) (\<lambda>ts'. Inr (t' # ts')))"

definition validatePageEnhanceConfig :: "golib \<Rightarrow> PageEnhanceConfig \<Rightarrow> (config_error, PageEnhanceConfig) result" where
  "validatePageEnhanceConfig E cfg =
     (let onError = normalizePageEnhanceOnError E (pe_OnError cfg) in
      rbind (ensure (onError \<in> set [PageEnhancePassThrough, PageEnhanceFailClosed])
               (Unsupported ''page_enhance.on_error'' onError)) (\<lambda>_.
      rbind (ensure (0 \<le> pe_MaxBodySize cfg) NegativeBodySize) (\<lambda>_.
      let cfg = cfg\<lparr>pe_OnError := onError,
                    pe_MaxBodySize := (if pe_MaxBodySize cfg = 0 then 1024 * 1024 else pe_MaxBodySize cfg)\<rparr> in
      if \<not> pe_Enabled cfg then Inr cfg else
      rbind (validateAssets 0 (pe_Assets cfg)) (\<lambda>assets.
      rbind (validateTransforms E 0 (pe_Transforms cfg)) (\<lambda>transforms.
      Inr (cfg\<lparr>pe_Assets := assets, pe_Transforms := transforms\<rparr>))))))"

subsection \<open>Validate\<close>

definition validateMode :: "golib \<Rightarrow> Config \<Rightarrow> (config_error, Config) result" where
  "validateMode E c =
     (let mode = normalizeMode E (c_Mode c);
          dns = (if mode = ModeDNS then (c_DNS c)\<lparr>dn_Enabled := True\<rparr> else c_DNS c) in
      rbind (ensure (mode \<in> set [ModeProxyOnly, ModePAC, ModeSystem, ModeHosts, ModeDNS])
               (Unsupported ''mode'' mode)) (\<lambda>_.
      rbind (validateDNSConfig E dns mode) (\<lambda>dns.
      Inr (c\<lparr>c_Mode := mode, c_DNS := dns\<rparr>))))"

definition validateProviders :: "golib \<Rightarrow> Config \<Rightarrow> Config" where
  "validateProviders E c =
     (let enabled = normalizeProviderIDs E (pv_Enabled (c_Providers c)) in
      c\<lparr>c_Providers := (c_Providers c)\<lparr>pv_Enabled :=
          (if enabled = None then Some [''steam''] else enabled)\<rparr>\<rparr>)"

definition requireListen :: "golib \<Rightarrow> string \<Rightarrow> string \<Rightarrow> bool \<Rightarrow> (config_error, unit) result" where
  "requireListen E field addr allowLAN =
     rbind (ensure (addr \<noteq> []) (Required field)) (\<lambda>_.
     map_err (InvalidListen field) (validateListenAddr E addr allowLAN))"

definition validateProxyPAC :: "golib \<Rightarrow> Config \<Rightarrow> (config_error, Config) result" where
  "validateProxyPAC E c =
     (let px = c_Proxy c; behavior = normalizeNonTargetBehavior E (px_NonTargetBehavior px) in
      rbind (ensure (behavior \<in> set [NonTargetReject, NonTargetDirect])
               (Unsupported ''non_target_behavior'' behavior)) (\<lambda>_.
      rbind (requireListen E ''proxy.listen_addr'' (px_ListenAddr px) (px_AllowLAN px)) (\<lambda>_.
      rbind (requireListen E ''pac.listen_addr'' (pa_ListenAddr (c_PAC c)) (pa_AllowLAN (c_PAC c))) (\<lambda>_.
      Inr (c\<lparr>c_Proxy := px\<lparr>px_NonTargetBehavior := behavior\<rparr>\<rparr>)))))"

definition validateHosts :: "golib \<Rightarrow> Config \<Rightarrow> (config_error, Config) result" where
  "validateHosts E c =
     (let ho = c_Hosts c; extra = trimStrings (ho_ExtraDomains ho) in
      rbind (ensure (ho_MapIP ho \<noteq> []) (Required ''hosts.map_ip'')) (\<lambda>_.
      rbind (case ParseIP (ho_MapIP ho) of None \<Rightarrow> Inl (NotAnIP ''hosts.map_ip'')
             | Some ip \<Rightarrow> ensure (ho_AllowLAN ho \<or> IsLoopback ip) (MapNotLoopback (ho_MapIP ho))) (\<lambda>_.
      rbind (requireListen E ''hosts.http_listen_addr'' (ho_HTTPListenAddr ho) (ho_AllowLAN ho)) (\<lambda>_.
      rbind (requireListen E ''hosts.https_listen_addr'' (ho_HTTPSListenAddr ho) (ho_AllowLAN ho)) (\<lambda>_.
      rbind (ensure (TrimSpace (ho_Path ho) \<noteq> []) (Required ''hosts.path'')) (\<lambda>_.
      rbind (case find (\<lambda>d. Contains d ''*'') extra of Some d \<Rightarrow> Inl (WildcardExtraDomain d)
             | None \<Rightarrow> Inr ()) (\<lambda>_.
      Inr (c\<lparr>c_Hosts := ho\<lparr>ho_ExtraDomains := extra\<rparr>\<rparr>))))))))"

definition validateCertRuntime :: "golib \<Rightarrow> Config \<Rightarrow> (config_error, Config) result" where
  "validateCertRuntime E c =
     (let ce = c_Cert c; rt = c_Runtime c; scope = normalizeCertStoreScope E (ce_StoreScope ce);
          control = (if rt_ControlAddr rt = [] then ''127.0.0.1:0'' else rt_ControlAddr rt) in
      rbind (ensure (TrimSpace (ce_Dir ce) \<noteq> []) (Required ''cert.dir'')) (\<lambda>_.
      rbind (ensure (scope \<in> set [CertStoreMachine, CertStoreUser])
               (Unsupported ''cert.store_scope'' scope)) (\<lambda>_.
      rbind (map_err (InvalidListen ''runtime.control_addr'')
               (validateListenAddr E control False)) (\<lambda>_.
      rbind (ensure (TrimSpace (rt_StatePath rt) \<noteq> []) (Required ''runtime.state_path'')) (\<lambda>_.
      rbind (ensure (TrimSpace (rt_RollbackPath rt) \<noteq> []) (Required ''runtime.rollback_path'')) (\<lambda>_.
      Inr (c\<lparr>c_Cert := ce\<lparr>ce_StoreScope := scope\<rparr>,
             c_Runtime := rt\<lparr>rt_ControlAddr := control\<rparr>\<rparr>)))))))"

definition validateResolver :: "golib \<Rightarrow> Config \<Rightarrow> (config_error, Config) result" where
  "validateResolver E c =
     (let rs = c_Resolver c; mode = normalizeResolverMode E (rs_Mode rs);
          servers = trimStrings (rs_Servers rs);
          servers = (if mode = ResolverDoH \<and> servers = [] then DefaultDoHServers else servers) in
      rbind (ensure (mode \<in> set [ResolverSystem, ResolverUDP, ResolverTCP, ResolverDoH])
               (Unsupported ''resolver.mode'' mode)) (\<lambda>_.
      rbind (ensure (mode = ResolverSystem \<or> servers \<noteq> []) (Required ''resolver.servers'')) (\<lambda>_.
      rbind (ensure (\<not> (rs_PreferIPv4 rs \<and> rs_PreferIPv6 rs)) PreferConflict) (\<lambda>_.
      Inr (c\<lparr>c_Resolver := rs\<lparr>rs_Mode := mode, rs_Servers := servers\<rparr>\<rparr>)))))"

definition validateUpstream :: "golib \<Rightarrow> Config \<Rightarrow> (config_error, Config) result" where
  "validateUpstream E c =
     (let up = c_Upstream c; type = normalizeUpstreamType E (up_Type up);
          addr = TrimSpace (up_Address up) in
      rbind (ensure (type \<in> set [UpstreamDirect, UpstreamHTTP, UpstreamSOCKS5])
               (Unsupported ''upstream.type'' type)) (\<lambda>_.
      rbind (ensure (type = UpstreamDirect \<or> addr \<noteq> []) (Required ''upstream.address'')) (\<lambda>_.
      rbind (validateOutboundProfiles E 0 (up_Profiles up)) (\<lambda>profiles.
      Inr (c\<lparr>c_Upstream := up\<lparr>up_Type := type, up_Address := addr,
             up_Username := TrimSpace (up_Username up), up_Profiles := profiles\<rparr>\<rparr>)))))"

definition validatePageAndSystem :: "golib \<Rightarrow> Config \<Rightarrow> (config_error, Config) result" where
  "validatePageAndSystem E c =
     rbind (validatePageEnhanceConfig E (c_PageEnhance c)) (\<lambda>pe.
     Inr (c\<lparr>c_PageEnhance := pe,
            c_System := (c_System c)\<lparr>sy_Services := trimStrings (sy_Services (c_System c))\<rparr>\<rparr>))"

definition validateTimeouts :: "Config \<Rightarrow> (config_error, unit) result" where
  "validateTimeouts c =
     rbind (ensure (0 < px_ReadHeaderTimeout (c_Proxy c)) (NotPositive ''proxy.read_header_timeout'')) (\<lambda>_.
     rbind (ensure (0 < px_IdleTimeout (c_Proxy c)) (NotPositive ''proxy.idle_timeout'')) (\<lambda>_.
     rbind (ensure (0 < px_DialTimeout (c_Proxy c)) (NotPositive ''proxy.dial_timeout'')) (\<lambda>_.
     rbind (ensure (0 < px_ShutdownTimeout (c_Proxy c)) (NotPositive ''proxy.shutdown_timeout'')) (\<lambda>_.
     rbind (ensure (0 < rs_CacheTTL (c_Resolver c)) (NotPositive ''resolver.cache_ttl'')) (\<lambda>_.
     rbind (ensure (0 < rs_Timeout (c_Resolver c)) (NotPositive ''resolver.timeout'')) (\<lambda>_.
     ensure (0 < rt_StopTimeout (c_Runtime c)) (NotPositive ''runtime.stop_timeout'')))))))"

definition Validate :: "golib \<Rightarrow> Config \<Rightarrow> (config_error, Config) result" where
  "Validate E c =
     rbind (validateMode E c) (\<lambda>c.
     rbind (validateProxyPAC E (validateProviders E c)) (\<lambda>c.
     rbind (validateHosts E c) (\<lambda>c.
     rbind (validateCertRuntime E c) (\<lambda>c.
     rbind (validateResolver E c) (\<lambda>c.
     rbind (validateUpstream E c) (\<lambda>c.
     rbind (validatePageAndSystem E c) (\<lambda>c.
     rbind (validateTimeouts c) (\<lambda>_. Inr c))))))))"

subsection \<open>Loading a file\<close>

text \<open>
  A YAML node as \<^verbatim>\<open>yaml.v3\<close> presents it: its kind, its scalar value and its content
  (for a mapping, keys and values alternating).
\<close>

datatype yaml_kind = DocumentNode | SequenceNode | MappingNode | ScalarNode | AliasNode

datatype yaml_node = Node (yn_Kind: yaml_kind) (yn_Value: string) (yn_Content: "yaml_node list")

definition legacyKeys :: "(string \<times> string) list" where
  "legacyKeys =
     [(''proxy.non_steam_behavior'',
       ''proxy.non_steam_behavior was removed in v0.7; use proxy.non_target_behavior''),
      (''rules.enable_default_steam_rules'',
       ''rules.enable_default_steam_rules was removed in v0.7; use providers.enabled''),
      (''upstream.enable_default_steam_profiles'',
       ''upstream.enable_default_steam_profiles was removed in v0.7; provider outbound profiles now come from providers.enabled'')]"

lemma yaml_content_size: "Suc (2 * size_list size (yn_Content n)) < 2 * size n"
  by (cases n) simp

function findLegacyConfigKey :: "yaml_node \<Rightarrow> string list \<Rightarrow> (string \<times> string) list \<Rightarrow> string"
  and findLegacyInPairs :: "yaml_node list \<Rightarrow> string list \<Rightarrow> (string \<times> string) list \<Rightarrow> string" where
  "findLegacyConfigKey node path legacy =
     (if yn_Kind node \<noteq> MappingNode then [] else findLegacyInPairs (yn_Content node) path legacy)"
| "findLegacyInPairs (keyNode # valueNode # rest) path legacy =
     (let nextPath = path @ [TrimSpace (yn_Value keyNode)] in
      case map_of legacy (Join nextPath ''.'') of
        Some message \<Rightarrow> message
      | None \<Rightarrow>
          (let message = findLegacyConfigKey valueNode nextPath legacy in
           if message \<noteq> [] then message else findLegacyInPairs rest path legacy))"
| "findLegacyInPairs [keyNode] path legacy = []"
| "findLegacyInPairs [] path legacy = []"
  by pat_completeness auto
termination
  by (relation "measure (\<lambda>x. case x of Inl (n, _) \<Rightarrow> 2 * size n
        | Inr (ns, _) \<Rightarrow> Suc (2 * size_list size ns))")
    (simp_all add: yaml_content_size)

declare findLegacyConfigKey.simps [simp del] findLegacyInPairs.simps [simp del]

definition rejectLegacyConfigKeys :: "yaml_node option \<Rightarrow> (config_error, unit) result" where
  "rejectLegacyConfigKeys root =
     (case root of
        None \<Rightarrow> Inr ()
      | Some root \<Rightarrow>
          (let node = (if yn_Kind root = DocumentNode \<and> yn_Content root \<noteq> []
                       then hd (yn_Content root) else root) in
           if yn_Kind node \<noteq> MappingNode then Inr ()
           else (let message = findLegacyConfigKey node [] legacyKeys in
                 if message \<noteq> [] then Inl (LegacyKey message) else Inr ())))"

text \<open>
  \<open>LoadFile\<close>: reading the file, parsing it to a node and decoding it over the defaults are
  the functions of the record \<open>yaml_lib\<close>.
\<close>

record yaml_lib =
  os_ReadFile :: "string \<Rightarrow> string option"
  yaml_Node :: "string \<Rightarrow> yaml_node option"
  yaml_Unmarshal :: "string \<Rightarrow> Config \<Rightarrow> Config option"

definition LoadFile :: "golib \<Rightarrow> yaml_lib \<Rightarrow> DefaultPaths \<Rightarrow> string \<Rightarrow> (config_error, Config) result" where
  "LoadFile E Y P path =
     (if TrimSpace path = [] then Validate E (Default P)
      else (case os_ReadFile Y path of
              None \<Rightarrow> Inl (ReadConfigFailed path)
            | Some data \<Rightarrow>
                rbind (rejectLegacyConfigKeys (yaml_Node Y data)) (\<lambda>_.
                case yaml_Unmarshal Y data (Default P) of
                  None \<Rightarrow> Inl (ParseConfigFailed path)
                | Some cfg \<Rightarrow> Validate E cfg)))"

subsection \<open>What a validated configuration guarantees\<close>

text \<open>
  A listen address is confined when it names localhost or an IP address, and that address is a
  loopback address unless the section allows the LAN.
\<close>

definition listenConfined :: "golib \<Rightarrow> string \<Rightarrow> bool \<Rightarrow> bool" where
  "listenConfined E addr allowLAN \<longleftrightarrow>
     (\<exists>host port. SplitHostPort addr = Some (host, port) \<and> TrimSpace port \<noteq> [] \<and>
        (EqualFold E host ''localhost'' \<or>
         (\<exists>ip. ParseIP host = Some ip \<and> (allowLAN \<or> IsLoopback ip))))"

definition dnsSafe :: "golib \<Rightarrow> string \<Rightarrow> DNSConfig \<Rightarrow> bool" where
  "dnsSafe E mode d \<longleftrightarrow>
     (dn_Enabled d \<longleftrightarrow> mode = ModeDNS) \<and>
     (mode = ModeDNS \<longrightarrow>
        listenConfined E (dn_ListenAddr d) (dn_AllowLAN d) \<and> 0 < dn_TTL d \<and>
        dn_Strategy d \<in> {DNSInterceptManual, DNSInterceptSystem} \<and>
        (dn_MapIPv4 d \<noteq> [] \<or> dn_MapIPv6 d \<noteq> []) \<and>
        (dn_MapIPv4 d \<noteq> [] \<longrightarrow> (\<exists>ip. ParseIP (dn_MapIPv4 d) = Some ip \<and> To4 ip \<noteq> [])) \<and>
        (dn_MapIPv6 d \<noteq> [] \<longrightarrow> (\<exists>ip. ParseIP (dn_MapIPv6 d) = Some ip \<and> To4 ip = [])) \<and>
        (dn_Strategy d = DNSInterceptSystem \<longrightarrow>
           dn_Interfaces d \<noteq> [] \<and> (\<exists>host. SplitHostPort (dn_ListenAddr d) = Some (host, ''53''))))"

definition listenersSafe :: "golib \<Rightarrow> Config \<Rightarrow> bool" where
  "listenersSafe E c \<longleftrightarrow>
     listenConfined E (px_ListenAddr (c_Proxy c)) (px_AllowLAN (c_Proxy c)) \<and>
     listenConfined E (pa_ListenAddr (c_PAC c)) (pa_AllowLAN (c_PAC c)) \<and>
     listenConfined E (ho_HTTPListenAddr (c_Hosts c)) (ho_AllowLAN (c_Hosts c)) \<and>
     listenConfined E (ho_HTTPSListenAddr (c_Hosts c)) (ho_AllowLAN (c_Hosts c)) \<and>
     listenConfined E (rt_ControlAddr (c_Runtime c)) False \<and>
     (\<exists>ip. ParseIP (ho_MapIP (c_Hosts c)) = Some ip \<and> (ho_AllowLAN (c_Hosts c) \<or> IsLoopback ip))"

definition settingsSafe :: "Config \<Rightarrow> bool" where
  "settingsSafe c \<longleftrightarrow>
     c_Mode c \<in> {ModeProxyOnly, ModePAC, ModeSystem, ModeHosts, ModeDNS} \<and>
     px_NonTargetBehavior (c_Proxy c) \<in> {NonTargetReject, NonTargetDirect} \<and>
     pv_Enabled (c_Providers c) \<noteq> None \<and>
     ce_StoreScope (c_Cert c) \<in> {CertStoreMachine, CertStoreUser} \<and>
     (rs_Mode (c_Resolver c) = ResolverSystem \<or> rs_Servers (c_Resolver c) \<noteq> []) \<and>
     \<not> (rs_PreferIPv4 (c_Resolver c) \<and> rs_PreferIPv6 (c_Resolver c)) \<and>
     (up_Type (c_Upstream c) = UpstreamDirect \<or> up_Address (c_Upstream c) \<noteq> []) \<and>
     pe_OnError (c_PageEnhance c) \<in> {PageEnhancePassThrough, PageEnhanceFailClosed} \<and>
     0 < pe_MaxBodySize (c_PageEnhance c) \<and>
     0 < px_ReadHeaderTimeout (c_Proxy c) \<and> 0 < px_IdleTimeout (c_Proxy c) \<and>
     0 < px_DialTimeout (c_Proxy c) \<and> 0 < px_ShutdownTimeout (c_Proxy c) \<and>
     0 < rs_CacheTTL (c_Resolver c) \<and> 0 < rs_Timeout (c_Resolver c) \<and>
     0 < rt_StopTimeout (c_Runtime c)"

lemma validateListenAddr_confined:
  "validateListenAddr E addr lan = Inr u \<longleftrightarrow> listenConfined E addr lan"
  by (auto simp: validateListenAddr_def listenConfined_def res_simps split: option.splits prod.splits)

lemma requireListen_confined: "requireListen E f addr lan = Inr u \<Longrightarrow> listenConfined E addr lan"
  by (simp add: requireListen_def res_simps validateListenAddr_confined)

lemma checkDNSStrategy_ok:
  "checkDNSStrategy strategy True mode = Inr u \<Longrightarrow> strategy \<in> {DNSInterceptManual, DNSInterceptSystem}"
  by (auto simp: checkDNSStrategy_def res_simps split: if_splits)

lemma checkDNSMapping_ok:
  "checkDNSMapping d = Inr u \<longleftrightarrow>
     (dn_MapIPv4 d \<noteq> [] \<or> dn_MapIPv6 d \<noteq> []) \<and>
     (dn_MapIPv4 d \<noteq> [] \<longrightarrow> (\<exists>ip. ParseIP (dn_MapIPv4 d) = Some ip \<and> To4 ip \<noteq> [])) \<and>
     (dn_MapIPv6 d \<noteq> [] \<longrightarrow> (\<exists>ip. ParseIP (dn_MapIPv6 d) = Some ip \<and> To4 ip = []))"
  by (auto simp: checkDNSMapping_def res_simps split: option.splits)

lemma validateDNSSystemConfig_ok:
  "validateDNSSystemConfig E d = Inr u \<Longrightarrow>
     dn_Interfaces d \<noteq> [] \<and> (\<exists>host. SplitHostPort (dn_ListenAddr d) = Some (host, ''53''))"
  by (auto simp: validateDNSSystemConfig_def res_simps split: if_splits option.splits)

lemma validateDNSConfig_safe:
  assumes d': "validateDNSConfig E d mode = Inr d'" and on: "mode = ModeDNS \<longrightarrow> dn_Enabled d"
  shows "dnsSafe E mode d'"
proof (cases "dn_Enabled d \<or> mode = ModeDNS")
  case False
  with d' show ?thesis
    by (auto simp: validateDNSConfig_def Let_def res_simps dnsSafe_def)
next
  case True
  with d' on have "mode = ModeDNS" "dn_Enabled d'"
    "checkDNSStrategy (dn_Strategy d') True mode = Inr ()"
    "validateListenAddr E (dn_ListenAddr d') (dn_AllowLAN d') = Inr ()"
    "checkDNSMapping d' = Inr ()" "0 < dn_TTL d'"
    "dn_Strategy d' = DNSInterceptSystem \<longrightarrow> validateDNSSystemConfig E d' = Inr ()"
    by (auto simp: validateDNSConfig_def Let_def res_simps split: if_splits)
  then show ?thesis
    by (simp add: dnsSafe_def validateListenAddr_confined checkDNSMapping_ok)
      (auto dest: checkDNSStrategy_ok validateDNSSystemConfig_ok)
qed

text \<open>Each stage changes its own sections only, and establishes its part of the guarantee.\<close>

lemma validateMode_ok:
  assumes "validateMode E c = Inr c'"
  obtains m d where "c' = c\<lparr>c_Mode := m, c_DNS := d\<rparr>" and "dnsSafe E m d"
    and "m \<in> {ModeProxyOnly, ModePAC, ModeSystem, ModeHosts, ModeDNS}"
proof -
  obtain d where d: "validateDNSConfig E (if normalizeMode E (c_Mode c) = ModeDNS
        then (c_DNS c)\<lparr>dn_Enabled := True\<rparr> else c_DNS c) (normalizeMode E (c_Mode c)) = Inr d"
    and "normalizeMode E (c_Mode c) \<in> {ModeProxyOnly, ModePAC, ModeSystem, ModeHosts, ModeDNS}"
    and "c' = c\<lparr>c_Mode := normalizeMode E (c_Mode c), c_DNS := d\<rparr>"
    using assms unfolding validateMode_def Let_def by (auto simp only: res_simps list.set)
  moreover from d have "dnsSafe E (normalizeMode E (c_Mode c)) d"
    by (rule validateDNSConfig_safe) simp
  ultimately show ?thesis using that by blast
qed

lemma validateProviders_ok:
  obtains p where "validateProviders E c = c\<lparr>c_Providers := p\<rparr>" and "pv_Enabled p \<noteq> None"
proof
  show "validateProviders E c = c\<lparr>c_Providers := c_Providers (validateProviders E c)\<rparr>"
    "pv_Enabled (c_Providers (validateProviders E c)) \<noteq> None"
    by (simp_all add: validateProviders_def Let_def)
qed

lemma validateProxyPAC_ok:
  assumes "validateProxyPAC E c = Inr c'"
  obtains b where "c' = c\<lparr>c_Proxy := (c_Proxy c)\<lparr>px_NonTargetBehavior := b\<rparr>\<rparr>"
    and "b \<in> {NonTargetReject, NonTargetDirect}"
    and "listenConfined E (px_ListenAddr (c_Proxy c)) (px_AllowLAN (c_Proxy c))"
    and "listenConfined E (pa_ListenAddr (c_PAC c)) (pa_AllowLAN (c_PAC c))"
  using assms unfolding validateProxyPAC_def Let_def
  by (simp only: res_simps list.set) (blast dest: requireListen_confined)

lemma validateHosts_ok:
  assumes "validateHosts E c = Inr c'"
  obtains x ip where "c' = c\<lparr>c_Hosts := (c_Hosts c)\<lparr>ho_ExtraDomains := x\<rparr>\<rparr>"
    and "listenConfined E (ho_HTTPListenAddr (c_Hosts c)) (ho_AllowLAN (c_Hosts c))"
    and "listenConfined E (ho_HTTPSListenAddr (c_Hosts c)) (ho_AllowLAN (c_Hosts c))"
    and "ParseIP (ho_MapIP (c_Hosts c)) = Some ip" "ho_AllowLAN (c_Hosts c) \<or> IsLoopback ip"
  using assms unfolding validateHosts_def Let_def
  by (cases "ParseIP (ho_MapIP (c_Hosts c))")
    (simp_all only: res_simps option.case sum.simps option.inject, (blast dest: requireListen_confined)+)

lemma validateCertRuntime_ok:
  assumes "validateCertRuntime E c = Inr c'"
  obtains s a where "c' = c\<lparr>c_Cert := (c_Cert c)\<lparr>ce_StoreScope := s\<rparr>,
      c_Runtime := (c_Runtime c)\<lparr>rt_ControlAddr := a\<rparr>\<rparr>"
    and "s \<in> {CertStoreMachine, CertStoreUser}" and "listenConfined E a False"
  using assms unfolding validateCertRuntime_def Let_def
  by (simp only: res_simps list.set validateListenAddr_confined) blast

lemma validateResolver_ok:
  assumes "validateResolver E c = Inr c'"
  obtains m ss where "c' = c\<lparr>c_Resolver := (c_Resolver c)\<lparr>rs_Mode := m, rs_Servers := ss\<rparr>\<rparr>"
    and "m = ResolverSystem \<or> ss \<noteq> []"
    and "\<not> (rs_PreferIPv4 (c_Resolver c) \<and> rs_PreferIPv6 (c_Resolver c))"
  using assms unfolding validateResolver_def Let_def by (simp only: res_simps) blast

lemma validateUpstream_ok:
  assumes "validateUpstream E c = Inr c'"
  obtains u where "c' = c\<lparr>c_Upstream := u\<rparr>"
    and "up_Type u = UpstreamDirect \<or> up_Address u \<noteq> []"
  using assms unfolding validateUpstream_def Let_def by (simp only: res_simps) fastforce

lemma validatePageEnhanceConfig_ok:
  assumes "validatePageEnhanceConfig E p = Inr p'"
  shows "pe_OnError p' \<in> {PageEnhancePassThrough, PageEnhanceFailClosed}" and "0 < pe_MaxBodySize p'"
  using assms by (auto simp: validatePageEnhanceConfig_def Let_def res_simps split: if_splits)

lemma validatePageAndSystem_ok:
  assumes "validatePageAndSystem E c = Inr c'"
  obtains p s where "c' = c\<lparr>c_PageEnhance := p, c_System := s\<rparr>"
    and "pe_OnError p \<in> {PageEnhancePassThrough, PageEnhanceFailClosed}" and "0 < pe_MaxBodySize p"
  using assms unfolding validatePageAndSystem_def
  by (simp only: res_simps) (blast dest: validatePageEnhanceConfig_ok)

lemma Validate_stages:
  assumes "Validate E c = Inr c'"
  obtains c1 c2 c3 c4 c5 c6 where
    "validateMode E c = Inr c1" "validateProxyPAC E (validateProviders E c1) = Inr c2"
    "validateHosts E c2 = Inr c3" "validateCertRuntime E c3 = Inr c4"
    "validateResolver E c4 = Inr c5" "validateUpstream E c5 = Inr c6"
    "validatePageAndSystem E c6 = Inr c'" "validateTimeouts c' = Inr ()"
  using assms unfolding Validate_def by (simp only: res_simps sum.inject) auto

lemma Validate_resolver:
  assumes "Validate E c = Inr c'"
  shows "rs_Mode (c_Resolver c') \<in> {ResolverSystem, ResolverUDP, ResolverTCP, ResolverDoH}"
    and "rs_Mode (c_Resolver c') = ResolverSystem \<or> rs_Servers (c_Resolver c') \<noteq> []"
proof -
  obtain c1 c2 c3 c4 c5 c6 where
    s: "validateResolver E c4 = Inr c5" "validateUpstream E c5 = Inr c6" "validatePageAndSystem E c6 = Inr c'"
    using Validate_stages [OF assms] by metis
  have "c_Resolver c' = c_Resolver c5"
    by (rule validateUpstream_ok [OF s(2)], rule validatePageAndSystem_ok [OF s(3)]) simp
  moreover have "rs_Mode (c_Resolver c5) \<in> {ResolverSystem, ResolverUDP, ResolverTCP, ResolverDoH}
      \<and> (rs_Mode (c_Resolver c5) = ResolverSystem \<or> rs_Servers (c_Resolver c5) \<noteq> [])"
    using s(1) unfolding validateResolver_def Let_def by (simp only: res_simps) auto
  ultimately show "rs_Mode (c_Resolver c') \<in> {ResolverSystem, ResolverUDP, ResolverTCP, ResolverDoH}"
    "rs_Mode (c_Resolver c') = ResolverSystem \<or> rs_Servers (c_Resolver c') \<noteq> []" by simp_all
qed

subsection \<open>The default configuration\<close>

lemma lowerTrim_plain:
  assumes "list_all (\<lambda>c. plain c \<and> lowerAscii c = c) s"
  shows "lowerTrim E s = s"
proof (cases "s = []")
  case True
  then show ?thesis by (simp add: lowerTrim_def ToLower_def)
next
  case False
  then have "trimmed s" using assms by (intro trimmed_plain) (auto simp: list_all_iff)
  moreover have "ToLower E s = s"
    using assms by (intro ToLower_lower_id) (auto simp: list_all_iff plain_def isAscii_def)
  ultimately show ?thesis by (simp add: lowerTrim_def)
qed

lemma config_constants [simp]:
  "lowerTrim E ''proxy_only'' = ''proxy_only''"
  "lowerTrim E ''manual'' = ''manual''"
  "lowerTrim E ''reject'' = ''reject''"
  "lowerTrim E ''machine'' = ''machine''"
  "lowerTrim E ''system'' = ''system''"
  "lowerTrim E ''direct'' = ''direct''"
  "lowerTrim E ''pass_through'' = ''pass_through''"
  "lowerTrim E ''steam'' = ''steam''"
  by (rule lowerTrim_plain, simp add: plain_def lowerAscii_def)+

lemma loopbackListen:
  "SplitHostPort addr = Some (''127.0.0.1'', port) \<Longrightarrow> TrimSpace port \<noteq> [] \<Longrightarrow> addr \<noteq> [] \<Longrightarrow>
     validateListenAddr E addr lan = Inr () \<and> requireListen E f addr lan = Inr ()"
proof -
  assume a: "SplitHostPort addr = Some (''127.0.0.1'', port)" "TrimSpace port \<noteq> []" "addr \<noteq> []"
  have "ParseIP ''127.0.0.1'' = Some (v4InV6Prefix @ [127, 0, 0, 1])"
    "IsLoopback (v4InV6Prefix @ [127, 0, 0, 1])" by code_simp+
  with a show ?thesis by (simp add: validateListenAddr_def requireListen_def)
qed

lemma default_listens:
  "SplitHostPort ''127.0.0.1:53'' = Some (''127.0.0.1'', ''53'') \<and> TrimSpace ''53'' \<noteq> []"
  "SplitHostPort ''127.0.0.1:26501'' = Some (''127.0.0.1'', ''26501'') \<and> TrimSpace ''26501'' \<noteq> []"
  "SplitHostPort ''127.0.0.1:26502'' = Some (''127.0.0.1'', ''26502'') \<and> TrimSpace ''26502'' \<noteq> []"
  "SplitHostPort ''127.0.0.1:80'' = Some (''127.0.0.1'', ''80'') \<and> TrimSpace ''80'' \<noteq> []"
  "SplitHostPort ''127.0.0.1:443'' = Some (''127.0.0.1'', ''443'') \<and> TrimSpace ''443'' \<noteq> []"
  "SplitHostPort ''127.0.0.1:0'' = Some (''127.0.0.1'', ''0'') \<and> TrimSpace ''0'' \<noteq> []"
  by code_simp+

lemma Default_ok:
  assumes "TrimSpace (dp_Hosts P) \<noteq> []" "TrimSpace (dp_CertDir P) \<noteq> []"
    "TrimSpace (dp_State P) \<noteq> []" "TrimSpace (dp_Rollback P) \<noteq> []"
  shows "Validate E (Default P) = Inr (Default P)"
proof -
  let ?c = "Default P"
  have "validateMode E ?c = Inr ?c"
    by (simp add: Let_def validateMode_def Default_def normalizeMode_def validateDNSConfig_def
        normalizeDNSInterceptStrategy_def checkDNSStrategy_def dedupeStrings_def trimStrings_def)
  moreover have "validateProxyPAC E (validateProviders E ?c) = Inr ?c"
    using loopbackListen [of "''127.0.0.1:26501''" "''26501''"] loopbackListen [of "''127.0.0.1:26502''" "''26502''"] default_listens
    by (simp add: Let_def validateProviders_def validateProxyPAC_def Default_def normalizeProviderIDs_def
        normalizeNonTargetBehavior_def)
  moreover have "validateHosts E ?c = Inr ?c"
  proof -
    have "ParseIP ''127.0.0.1'' = Some (v4InV6Prefix @ [127, 0, 0, 1])"
      "IsLoopback (v4InV6Prefix @ [127, 0, 0, 1])" by code_simp+
    then show ?thesis
      using loopbackListen [of "''127.0.0.1:80''" "''80''"] loopbackListen [of "''127.0.0.1:443''" "''443''"]
        default_listens assms
      by (simp add: Let_def validateHosts_def Default_def trimStrings_def)
  qed
  moreover have "validateCertRuntime E ?c = Inr ?c"
    using loopbackListen [of "''127.0.0.1:0''" "''0''"] default_listens assms
    by (simp add: Let_def validateCertRuntime_def Default_def normalizeCertStoreScope_def)
  moreover have "validateResolver E ?c = Inr ?c"
    by (simp add: Let_def validateResolver_def Default_def normalizeResolverMode_def trimStrings_def)
  moreover have "validateUpstream E ?c = Inr ?c"
    by (simp add: Let_def validateUpstream_def Default_def normalizeUpstreamType_def)
  moreover have "validatePageAndSystem E ?c = Inr ?c"
    by (simp add: Let_def validatePageAndSystem_def validatePageEnhanceConfig_def Default_def
        normalizePageEnhanceOnError_def trimStrings_def)
  moreover have "validateTimeouts ?c = Inr ()"
    by (simp add: Let_def validateTimeouts_def Default_def Second_def Minute_def)
  ultimately show ?thesis by (simp add: Let_def Validate_def)
qed

subsection \<open>Removed keys\<close>

text \<open>The key paths of a YAML mapping, independent of how the loader walks it.\<close>

fun mappingPairs :: "yaml_node list \<Rightarrow> (yaml_node \<times> yaml_node) list" where
  "mappingPairs (k # v # rest) = (k, v) # mappingPairs rest"
| "mappingPairs _ = []"

inductive hasKeyPath :: "yaml_node \<Rightarrow> string list \<Rightarrow> bool" where
  key: "yn_Kind n = MappingNode \<Longrightarrow> (k, v) \<in> set (mappingPairs (yn_Content n)) \<Longrightarrow>
    hasKeyPath n [TrimSpace (yn_Value k)]"
| nested: "yn_Kind n = MappingNode \<Longrightarrow> (k, v) \<in> set (mappingPairs (yn_Content n)) \<Longrightarrow>
    hasKeyPath v p \<Longrightarrow> hasKeyPath n (TrimSpace (yn_Value k) # p)"

definition pairsKeyPath :: "yaml_node list \<Rightarrow> string list \<Rightarrow> bool" where
  "pairsKeyPath ns p \<longleftrightarrow> (\<exists>(k, v)\<in>set (mappingPairs ns).
     p = [TrimSpace (yn_Value k)] \<or> (\<exists>q. p = TrimSpace (yn_Value k) # q \<and> hasKeyPath v q))"

lemma hasKeyPath_pairs:
  "hasKeyPath n p \<longleftrightarrow> yn_Kind n = MappingNode \<and> pairsKeyPath (yn_Content n) p"
  by (subst hasKeyPath.simps) (auto simp: pairsKeyPath_def)

lemma findLegacy_iff:
  assumes "\<And>m. m \<in> ran (map_of legacy) \<Longrightarrow> m \<noteq> []"
  shows "findLegacyConfigKey n path legacy \<noteq> [] \<longleftrightarrow>
      (\<exists>p. hasKeyPath n p \<and> Join (path @ p) ''.'' \<in> dom (map_of legacy))"
    and "findLegacyInPairs ns path legacy \<noteq> [] \<longleftrightarrow>
      (\<exists>p. pairsKeyPath ns p \<and> Join (path @ p) ''.'' \<in> dom (map_of legacy))"
  using assms
proof (induction n path legacy and ns path legacy rule: findLegacyConfigKey_findLegacyInPairs.induct)
  case (1 node path legacy)
  then show ?case by (auto simp: findLegacyConfigKey.simps hasKeyPath_pairs)
next
  case (2 k v rest path legacy)
  let ?k = "TrimSpace (yn_Value k)"
  have pk: "pairsKeyPath (k # v # rest) p \<longleftrightarrow>
      p = [?k] \<or> (\<exists>q. p = ?k # q \<and> hasKeyPath v q) \<or> pairsKeyPath rest p" for p
    by (auto simp: pairsKeyPath_def)
  show ?case
  proof (cases "map_of legacy (Join (path @ [?k]) ''.'')")
    case (Some m)
    then have "m \<noteq> []" using "2.prems" by (auto simp: ran_def)
    with Some show ?thesis by (auto simp: findLegacyInPairs.simps pk)
  next
    case None
    note IH = "2.IH"(1) [OF refl None "2.prems"] "2.IH"(2) [OF refl None refl _ "2.prems"]
    show ?thesis
      using None IH by (auto simp: findLegacyInPairs.simps pk Let_def)
  qed
qed (auto simp: findLegacyInPairs.simps pairsKeyPath_def)

lemma legacy_messages: "m \<in> ran (map_of legacyKeys) \<Longrightarrow> m \<noteq> []"
  by (auto simp: ran_def legacyKeys_def split: if_splits)

subsection \<open>Properties\<close>

text \<open>
  C15. Every configuration \<open>Validate\<close> accepts is safe: each listener is bound to a
  loopback address unless its own section sets \<open>allow_lan\<close> (the control server in any
  case), the DNS interceptor is enabled exactly in DNS mode and then has a usable mapping and a
  positive TTL, system DNS takes port 53 on named interfaces, every enumeration holds one of
  its constants and every timeout is positive.
\<close>

theorem Validate_safe:
  assumes "Validate E c = Inr c'"
  shows "listenersSafe E c' \<and> dnsSafe E (c_Mode c') (c_DNS c') \<and> settingsSafe c'"
proof -
  obtain c1 c2 c3 c4 c5 c6 where
    s: "validateMode E c = Inr c1" "validateProxyPAC E (validateProviders E c1) = Inr c2"
      "validateHosts E c2 = Inr c3" "validateCertRuntime E c3 = Inr c4"
      "validateResolver E c4 = Inr c5" "validateUpstream E c5 = Inr c6"
      "validatePageAndSystem E c6 = Inr c'" "validateTimeouts c' = Inr ()"
    using Validate_stages [OF assms] .
  from s(1) show ?thesis
  proof (rule validateMode_ok)
    fix m d assume 1: "c1 = c\<lparr>c_Mode := m, c_DNS := d\<rparr>" "dnsSafe E m d"
      "m \<in> {ModeProxyOnly, ModePAC, ModeSystem, ModeHosts, ModeDNS}"
    obtain p where p: "validateProviders E c1 = c1\<lparr>c_Providers := p\<rparr>" "pv_Enabled p \<noteq> None"
      by (rule validateProviders_ok)
    note s2 = s(2) [unfolded p(1)]
    show ?thesis
      by (rule validateProxyPAC_ok [OF s2], rule validateHosts_ok [OF s(3)],
          rule validateCertRuntime_ok [OF s(4)], rule validateResolver_ok [OF s(5)],
          rule validateUpstream_ok [OF s(6)], rule validatePageAndSystem_ok [OF s(7)])
        (use 1 p s(8) in \<open>simp add: listenersSafe_def settingsSafe_def validateTimeouts_def res_simps\<close>)
  qed
qed

definition samplePaths :: DefaultPaths where
  "samplePaths = \<lparr>dp_Hosts = ''/etc/hosts'', dp_CertDir = ''/c'', dp_State = ''/s'', dp_Rollback = ''/r''\<rparr>"

lemma samplePaths_set:
  "TrimSpace (dp_Hosts samplePaths) \<noteq> []" "TrimSpace (dp_CertDir samplePaths) \<noteq> []"
  "TrimSpace (dp_State samplePaths) \<noteq> []" "TrimSpace (dp_Rollback samplePaths) \<noteq> []"
  by code_simp+

theorem Validate_safe_witness:
  "Validate sampleLib (Default samplePaths) = Inr (Default samplePaths)
   \<and> listenersSafe sampleLib (Default samplePaths) \<and> settingsSafe (Default samplePaths)"
  using Validate_safe [OF Default_ok [OF samplePaths_set]] Default_ok [OF samplePaths_set] by simp

text \<open>
  The built-in default configuration is valid and already in normal form, for every choice
  of non-blank default paths.
\<close>

theorem Default_validates:
  assumes "TrimSpace (dp_Hosts P) \<noteq> []" and "TrimSpace (dp_CertDir P) \<noteq> []"
    and "TrimSpace (dp_State P) \<noteq> []" and "TrimSpace (dp_Rollback P) \<noteq> []"
  shows "Validate E (Default P) = Inr (Default P)"
  by (rule Default_ok [OF assms])

theorem Default_validates_witness:
  "Validate sampleLib (Default samplePaths) = Inr (Default samplePaths)"
  by (rule Default_validates [OF samplePaths_set])

text \<open>
  C16. A configuration document is rejected exactly when one of the keys removed in v0.7 occurs
  at its path, however the document is nested; every other document passes this check.
\<close>

theorem rejectLegacyConfigKeys_iff:
  "rejectLegacyConfigKeys (Some (Node DocumentNode v [root])) = Inr () \<longleftrightarrow>
     \<not> (\<exists>p. hasKeyPath root p \<and> Join p ''.'' \<in> set (map fst legacyKeys))"
proof -
  have "dom (map_of legacyKeys) = set (map fst legacyKeys)"
    by (simp add: dom_map_of_conv_image_fst)
  with findLegacy_iff(1) [of legacyKeys root "[]"] legacy_messages show ?thesis
    by (auto simp: rejectLegacyConfigKeys_def Let_def hasKeyPath_pairs)
qed

text \<open>
  Two header names with the same canonical form: which value \<open>headers.set\<close> keeps depends
  on the iteration order of the map.
\<close>

lemma normalizeHeaderSet_order:
  "normalizeHeaderSet 0 [] [(''x-a'', ''1''), (''X-A'', ''2'')] = Inr [(''X-A'', ''2'')]"
  "normalizeHeaderSet 0 [] [(''X-A'', ''2''), (''x-a'', ''1'')] = Inr [(''X-A'', ''1'')]"
  by code_simp+
end
