(* ===== verification/UpstreamProfile.thy ===== *)
theory UpstreamProfile
  imports Rules
begin

section \<open>Package upstream: outbound profiles\<close>

text \<open>
  \<^verbatim>\<open>internal/upstream/profile.go\<close>: compiling the outbound profiles of the providers
  and of the configuration, and finding the profile of a host.
\<close>

record Profile =
  pf_MatchDomains :: "string list"
  pf_CandidateIPs :: "string list"
  pf_ForwardHost :: string
  pf_TLSServerName :: string
  pf_IgnoreTLSNameMismatch :: bool

record ProbeTarget =
  pt_ProviderID :: string
  pt_Host :: string
  pt_Port :: string
  pt_Path :: string

record compiledProfileDomain =
  pd_host :: string
  pd_wildcard :: bool

record compiledProfile =
  cp_matchDomains :: "compiledProfileDomain list"
  cp_candidateIPs :: "ip list"
  cp_forwardHost :: string
  cp_tlsServerName :: string
  cp_ignoreTLSNameMismatch :: bool

datatype profile_error =
    DomainForm nat nat
  | DomainHost nat nat rules_error
  | DomainsRequired nat
  | CandidateNotIP nat nat
  | ForwardHostError nat rules_error
  | TLSServerNameError nat rules_error
  | NothingDefined nat

primrec compileDomains ::
    "golib \<Rightarrow> nat \<Rightarrow> nat \<Rightarrow> string list \<Rightarrow> (profile_error, compiledProfileDomain list) result" where
  "compileDomains E i j [] = Inr []"
| "compileDomains E i j (d # ds) =
     (let domain = TrimSpace d; wildcard = HasPrefix domain ''*.'' in
      if domain = [] then compileDomains E i (Suc j) ds
      else if Contains domain ''*'' \<and> \<not> wildcard then Inl (DomainForm i j)
      else rbind (map_err (DomainHost i j)
             (NormalizeHost E (if wildcard then TrimPrefix domain ''*.'' else domain))) (\<lambda>host.
           rbind (compileDomains E i (Suc j) ds) (\<lambda>rest.
           Inr (\<lparr>pd_host = host, pd_wildcard = wildcard\<rparr> # rest))))"

primrec compileIPs :: "nat \<Rightarrow> nat \<Rightarrow> string list \<Rightarrow> (profile_error, ip list) result" where
  "compileIPs i j [] = Inr []"
| "compileIPs i j (raw # raws) =
     (if TrimSpace raw = [] then compileIPs i (Suc j) raws
      else (case ParseIP (TrimSpace raw) of
              None \<Rightarrow> Inl (CandidateNotIP i j)
            | Some ip \<Rightarrow> rbind (compileIPs i (Suc j) raws) (\<lambda>ips. Inr (ip # ips))))"

definition normalizeProfileHost :: "golib \<Rightarrow> string \<Rightarrow> (rules_error, string) result" where
  "normalizeProfileHost E host =
     (if TrimSpace host = [] then Inr [] else NormalizeHost E (TrimSpace host))"

definition compileProfile :: "golib \<Rightarrow> nat \<Rightarrow> Profile \<Rightarrow> (profile_error, compiledProfile) result" where
  "compileProfile E i profile =
     rbind (compileDomains E i 0 (pf_MatchDomains profile)) (\<lambda>domains.
     rbind (ensure (domains \<noteq> []) (DomainsRequired i)) (\<lambda>_.
     rbind (compileIPs i 0 (pf_CandidateIPs profile)) (\<lambda>ips.
     rbind (map_err (ForwardHostError i) (normalizeProfileHost E (pf_ForwardHost profile))) (\<lambda>forwardHost.
     rbind (map_err (TLSServerNameError i) (normalizeProfileHost E (pf_TLSServerName profile))) (\<lambda>tlsServerName.
     rbind (ensure (ips \<noteq> [] \<or> forwardHost \<noteq> [] \<or> tlsServerName \<noteq> [] \<or> pf_IgnoreTLSNameMismatch profile)
              (NothingDefined i)) (\<lambda>_.
     Inr \<lparr>cp_matchDomains = domains, cp_candidateIPs = ips, cp_forwardHost = forwardHost,
          cp_tlsServerName = tlsServerName,
          cp_ignoreTLSNameMismatch = pf_IgnoreTLSNameMismatch profile\<rparr>))))))"

primrec compileProfilesFrom :: "golib \<Rightarrow> nat \<Rightarrow> Profile list \<Rightarrow> (profile_error, compiledProfile list) result" where
  "compileProfilesFrom E i [] = Inr []"
| "compileProfilesFrom E i (p # ps) =
     rbind (compileProfile E i p) (\<lambda>c. rbind (compileProfilesFrom E (Suc i) ps) (\<lambda>cs. Inr (c # cs)))"

definition compileProfiles :: "golib \<Rightarrow> Profile list \<Rightarrow> (profile_error, compiledProfile list) result" where
  "compileProfiles E profiles = compileProfilesFrom E 0 profiles"

definition domainHit :: "string \<Rightarrow> compiledProfileDomain \<Rightarrow> bool" where
  "domainHit normalized domain =
     (if pd_wildcard domain
      then normalized \<noteq> pd_host domain \<and> HasSuffix normalized (''.'' @ pd_host domain)
      else normalized = pd_host domain)"

definition matchProfile :: "golib \<Rightarrow> compiledProfile list \<Rightarrow> string \<Rightarrow> compiledProfile option" where
  "matchProfile E profiles host =
     (if profiles = [] then None
      else (case NormalizeHost E host of
              Inl _ \<Rightarrow> None
            | Inr normalized \<Rightarrow>
                find (\<lambda>profile. list_ex (domainHit normalized) (cp_matchDomains profile)) profiles))"

subsection \<open>Matching is the rule semantics\<close>

lemma ruleCovers_blank: "TrimSpace d = [] \<Longrightarrow> \<not> ruleCovers E d n"
  by (simp add: ruleCovers_def HasPrefix_def NormalizeHost_def)

lemma compileDomains_hit:
  assumes "compileDomains E i j ds = Inr cs"
  shows "list_ex (domainHit n) cs \<longleftrightarrow> (\<exists>d\<in>set ds. ruleCovers E d n)"
  using assms
proof (induction ds arbitrary: j cs)
  case Nil
  then show ?case by simp
next
  case (Cons d ds)
  show ?case
  proof (cases "TrimSpace d = []")
    case True
    with Cons show ?thesis by (simp add: ruleCovers_blank)
  next
    case False
    with Cons.prems obtain host rest where
      h: "NormalizeHost E (if HasPrefix (TrimSpace d) ''*.'' then TrimPrefix (TrimSpace d) ''*.''
            else TrimSpace d) = Inr host"
      and r: "compileDomains E i (Suc j) ds = Inr rest"
      and cs: "cs = \<lparr>pd_host = host, pd_wildcard = HasPrefix (TrimSpace d) ''*.''\<rparr> # rest"
      by (auto simp: Let_def res_simps split: if_splits)
    have "domainHit n \<lparr>pd_host = host, pd_wildcard = HasPrefix (TrimSpace d) ''*.''\<rparr> \<longleftrightarrow> ruleCovers E d n"
      using h by (auto simp: domainHit_def ruleCovers_def Let_def HasSuffix_def suffix_def
          TrimPrefix_def HasPrefix_def numeral_2_eq_2 split: if_splits)
    with Cons.IH [OF r] show ?thesis by (simp add: cs)
  qed
qed

lemma compileProfilesFrom_domains:
  assumes "compileProfilesFrom E i ps = Inr cs"
  shows "list_all2 (\<lambda>p c. \<forall>n. list_ex (domainHit n) (cp_matchDomains c) \<longleftrightarrow>
           (\<exists>d\<in>set (pf_MatchDomains p). ruleCovers E d n)) ps cs"
  using assms
proof (induction ps arbitrary: i cs)
  case Nil
  then show ?case by simp
next
  case (Cons p ps)
  then obtain c cs' where c: "compileProfile E i p = Inr c"
    and cs': "compileProfilesFrom E (Suc i) ps = Inr cs'" and cs: "cs = c # cs'"
    by (auto simp: res_simps)
  obtain k where "compileDomains E k 0 (pf_MatchDomains p) = Inr (cp_matchDomains c)"
    using c by (auto simp: compileProfile_def res_simps)
  with Cons.IH [OF cs'] compileDomains_hit show ?case by (simp add: cs)
qed

text \<open>The profile that applies: the first in configuration order with a covering domain.\<close>

primrec firstCovering :: "golib \<Rightarrow> string \<Rightarrow> Profile list \<Rightarrow> 'a list \<Rightarrow> 'a option" where
  "firstCovering E n [] cs = None"
| "firstCovering E n (p # ps) cs =
     (if \<exists>d\<in>set (pf_MatchDomains p). ruleCovers E d n then Some (hd cs)
      else firstCovering E n ps (tl cs))"

lemma find_firstCovering:
  assumes "list_all2 (\<lambda>p c. P c \<longleftrightarrow> (\<exists>d\<in>set (pf_MatchDomains p). ruleCovers E d n)) ps cs"
  shows "find P cs = firstCovering E n ps cs"
  using assms by (induction rule: list_all2_induct) auto

lemma matchProfile_first:
  assumes "compileProfiles E ps = Inr cs"
  shows "matchProfile E cs h =
    (case NormalizeHost E h of Inl _ \<Rightarrow> None | Inr n \<Rightarrow> firstCovering E n ps cs)"
proof -
  have all2: "list_all2 (\<lambda>p c. list_ex (domainHit n) (cp_matchDomains c) \<longleftrightarrow>
           (\<exists>d\<in>set (pf_MatchDomains p). ruleCovers E d n)) ps cs" for n
    using compileProfilesFrom_domains [OF assms [unfolded compileProfiles_def]]
    by (rule list_all2_mono) blast
  show ?thesis
  proof (cases "NormalizeHost E h")
    case (Inr n)
    have "cs = [] \<Longrightarrow> firstCovering E n ps cs = None"
      using all2 [of n] by simp
    with Inr find_firstCovering [OF all2, of n] show ?thesis by (simp add: matchProfile_def)
  qed (simp add: matchProfile_def)
qed

lemma firstCovering_None:
  "firstCovering E n ps cs = None \<longleftrightarrow> (\<forall>p\<in>set ps. \<forall>d\<in>set (pf_MatchDomains p). \<not> ruleCovers E d n)"
  by (induction ps arbitrary: cs) auto

lemma matchProfile_hits:
  assumes "compileProfiles E ps = Inr cs"
  shows "matchProfile E cs h \<noteq> None \<longleftrightarrow>
    (\<exists>n. NormalizeHost E h = Inr n \<and> (\<exists>r\<in>set (concat (map pf_MatchDomains ps)). ruleCovers E r n))"
  unfolding matchProfile_first [OF assms]
  by (simp add: firstCovering_None del: not_None_eq split: sum.splits)

interpretation profiles: host_matcher
  compileProfiles "\<lambda>E cs h. matchProfile E cs h \<noteq> None" "\<lambda>ps. concat (map pf_MatchDomains ps)"
  by unfold_locales (rule matchProfile_hits)

subsection \<open>Properties\<close>

text \<open>
  The outbound profile of a host is the first one, in configuration order, with a match
  domain that covers the normalised host, in the same sense in which the rule matcher accepts
  hosts; a host that does not normalise has no profile.
\<close>

theorem matchProfile_first_covering:
  assumes "compileProfiles E ps = Inr cs"
  shows "matchProfile E cs h =
    (case NormalizeHost E h of Inl _ \<Rightarrow> None | Inr n \<Rightarrow> firstCovering E n ps cs)"
  by (rule matchProfile_first [OF assms])

theorem matchProfile_first_covering_witness:
  "\<exists>cs. compileProfiles sampleLib
       [\<lparr>pf_MatchDomains = [''a.com''], pf_CandidateIPs = [''1.2.3.4''], pf_ForwardHost = [],
         pf_TLSServerName = [], pf_IgnoreTLSNameMismatch = False\<rparr>] = Inr cs
     \<and> matchProfile sampleLib cs ''A.com'' = Some (hd cs)"
proof -
  let ?ps = "[\<lparr>pf_MatchDomains = [''a.com''], pf_CandidateIPs = [''1.2.3.4''], pf_ForwardHost = [],
         pf_TLSServerName = [], pf_IgnoreTLSNameMismatch = False\<rparr>]"
  have "is_ok (compileProfiles sampleLib ?ps)" by code_simp
  then obtain cs where cs: "compileProfiles sampleLib ?ps = Inr cs" by auto
  have "NormalizeHost sampleLib ''A.com'' = Inr ''a.com''" "NormalizeHost sampleLib ''a.com'' = Inr ''a.com''"
    "TrimSpace ''a.com'' = ''a.com''"
    by code_simp+
  with cs matchProfile_first_covering [OF cs, of "''A.com''"] show ?thesis
    by (auto simp: ruleCovers_def HasPrefix_def)
qed

end
