(* ===== verification/Provider.thy ===== *)
theory Provider
  imports UpstreamProfile
begin

section \<open>Package provider: the built-in providers\<close>

text \<open>
  \<^verbatim>\<open>internal/provider\<close>: the data of the two built-in providers, enabling providers by
  identifier, and what the engine collects from the enabled ones.  The cloning helpers of the
  package copy slices; on values they are identities and are composed as such.
\<close>

record Provider =
  p_ID :: string
  p_Name :: string
  p_Status :: string
  p_RuleSetName :: string
  p_RuleSetVersion :: string
  p_RuleSetUpdatedAt :: string
  p_Rules :: "RuleGroup list"
  p_OutboundProfiles :: "Profile list"
  p_ProbeTargets :: "ProbeTarget list"

record Summary =
  sm_ID :: string
  sm_Name :: string
  sm_Status :: string
  sm_RuleSetName :: string
  sm_RuleSetVersion :: string
  sm_RuleSetUpdatedAt :: string
  sm_RuleCount :: int
  sm_OutboundProfiles :: int
  sm_ProbeTargets :: int

abbreviation IDSteam :: string where "IDSteam \<equiv> ''steam''"
abbreviation IDGitHub :: string where "IDGitHub \<equiv> ''github''"
abbreviation StatusStable :: string where "StatusStable \<equiv> ''stable''"
abbreviation StatusExperimental :: string where "StatusExperimental \<equiv> ''experimental''"

datatype provider_error = UnknownProvider string

definition probeTarget :: "string \<Rightarrow> string \<Rightarrow> string \<Rightarrow> ProbeTarget" where
  "probeTarget host port path =
     \<lparr>pt_ProviderID = [], pt_Host = host, pt_Port = port, pt_Path = path\<rparr>"

subsection \<open>Built-in data\<close>

definition Steam :: Provider where
  "Steam =
     \<lparr>p_ID = IDSteam, p_Name = ''Steam'', p_Status = StatusStable,
      p_RuleSetName = ''steam-web'', p_RuleSetVersion = ''2026.06.23'',
      p_RuleSetUpdatedAt = ''2026-06-23'',
      p_Rules =
      [\<lparr>rg_Name = ''steam/store'',
         rg_Domains = [''store.steampowered.com'', ''checkout.steampowered.com'', ''help.steampowered.com'',
          ''login.steampowered.com'', ''media.steampowered.com'']\<rparr>,
       \<lparr>rg_Name = ''steam/community'',
         rg_Domains = [''steamcommunity.com'', ''*.steamcommunity.com'']\<rparr>,
       \<lparr>rg_Name = ''steam/api'',
         rg_Domains = [''api.steampowered.com'', ''partner.steam-api.com'']\<rparr>,
       \<lparr>rg_Name = ''steam/chat'',
         rg_Domains = [''steam-chat.com'', ''*.steam-chat.com'']\<rparr>,
       \<lparr>rg_Name = ''steam/static'',
         rg_Domains = [''community.steamstatic.com'', ''steamstatic.com'', ''*.steamstatic.com'',
          ''akamai.steamstatic.com'', ''*.akamai.steamstatic.com'']\<rparr>,
       \<lparr>rg_Name = ''steam/cdn'',
         rg_Domains = [''steamcdn-a.akamaihd.net'']\<rparr>],
      p_OutboundProfiles =
      [\<lparr>pf_MatchDomains = [''steamcommunity.com'', ''*.steamcommunity.com''],
         pf_CandidateIPs = [], pf_ForwardHost = ''steamcommunity-a.akamaihd.net'',
         pf_TLSServerName = ''steamcommunity-a.akamaihd.net'', pf_IgnoreTLSNameMismatch = False\<rparr>,
       \<lparr>pf_MatchDomains = [''store.steampowered.com'', ''checkout.steampowered.com'', ''help.steampowered.com'',
          ''login.steampowered.com'', ''media.steampowered.com''],
         pf_CandidateIPs = [], pf_ForwardHost = ''cdn-a.akamaihd.net'',
         pf_TLSServerName = ''cdn-a.akamaihd.net'', pf_IgnoreTLSNameMismatch = False\<rparr>,
       \<lparr>pf_MatchDomains = [''api.steampowered.com''],
         pf_CandidateIPs = [], pf_ForwardHost = ''steamstore.rmbgame.net'',
         pf_TLSServerName = '''', pf_IgnoreTLSNameMismatch = True\<rparr>,
       \<lparr>pf_MatchDomains = [''community.steamstatic.com''],
         pf_CandidateIPs = [], pf_ForwardHost = ''community.steamstatic.com'',
         pf_TLSServerName = ''community.steamstatic.com'', pf_IgnoreTLSNameMismatch = False\<rparr>,
       \<lparr>pf_MatchDomains = [''steamcdn-a.akamaihd.net''],
         pf_CandidateIPs = [], pf_ForwardHost = ''steamcdn-a.akamaihd.net'',
         pf_TLSServerName = ''steamcdn-a.akamaihd.net'', pf_IgnoreTLSNameMismatch = False\<rparr>],
      p_ProbeTargets =
      [probeTarget ''steamcommunity.com'' ''443'' ''/'',
       probeTarget ''store.steampowered.com'' ''443'' ''/'',
       probeTarget ''api.steampowered.com'' ''443'' ''/ISteamWebAPIUtil/GetSupportedAPIList/v1/?format=json'',
       probeTarget ''help.steampowered.com'' ''443'' ''/'',
       probeTarget ''media.steampowered.com'' ''443'' ''/'',
       probeTarget ''community.steamstatic.com'' ''443'' ''/'',
       probeTarget ''steamcdn-a.akamaihd.net'' ''443'' ''/'']\<rparr>"

definition GitHub :: Provider where
  "GitHub =
     \<lparr>p_ID = IDGitHub, p_Name = ''GitHub'', p_Status = StatusExperimental,
      p_RuleSetName = ''github-web'', p_RuleSetVersion = ''2026.06.23'',
      p_RuleSetUpdatedAt = ''2026-06-23'',
      p_Rules =
      [\<lparr>rg_Name = ''github/web'',
         rg_Domains = [''github.com'', ''gist.github.com'', ''*.github.com'']\<rparr>,
       \<lparr>rg_Name = ''github/api'',
         rg_Domains = [''api.github.com'']\<rparr>,
       \<lparr>rg_Name = ''github/raw'',
         rg_Domains = [''raw.githubusercontent.com'', ''*.githubusercontent.com'']\<rparr>,
       \<lparr>rg_Name = ''github/assets'',
         rg_Domains = [''github.githubassets.com'', ''assets-cdn.github.com'',
          ''objects.githubusercontent.com'', ''codeload.github.com'',
          ''avatars.githubusercontent.com'', ''user-images.githubusercontent.com'']\<rparr>],
      p_OutboundProfiles = [],
      p_ProbeTargets =
      [probeTarget ''github.com'' ''443'' ''/'',
       probeTarget ''api.github.com'' ''443'' ''/'',
       probeTarget ''raw.githubusercontent.com'' ''443'' ''/'']\<rparr>"

subsection \<open>Enabling providers\<close>

definition DefaultEnabled :: "string list" where
  "DefaultEnabled = [IDSteam]"

definition Builtins :: "Provider list" where
  "Builtins = [Steam, GitHub]"

definition normalizeID :: "golib \<Rightarrow> string \<Rightarrow> string" where
  "normalizeID E pid = ToLower E (TrimSpace pid)"

definition cloneRuleGroups :: "RuleGroup list \<Rightarrow> RuleGroup list" where
  "cloneRuleGroups groups = map (\<lambda>g. \<lparr>rg_Name = rg_Name g, rg_Domains = rg_Domains g\<rparr>) groups"

definition cloneProfiles :: "Profile list \<Rightarrow> Profile list" where
  "cloneProfiles profiles =
     map (\<lambda>p. \<lparr>pf_MatchDomains = pf_MatchDomains p, pf_CandidateIPs = pf_CandidateIPs p,
                pf_ForwardHost = pf_ForwardHost p, pf_TLSServerName = pf_TLSServerName p,
                pf_IgnoreTLSNameMismatch = pf_IgnoreTLSNameMismatch p\<rparr>) profiles"

definition cloneProvider :: "Provider \<Rightarrow> Provider" where
  "cloneProvider p =
     p\<lparr>p_Rules := cloneRuleGroups (p_Rules p), p_OutboundProfiles := cloneProfiles (p_OutboundProfiles p)\<rparr>"

definition Lookup :: "golib \<Rightarrow> string \<Rightarrow> Provider option" where
  "Lookup E pid = map_option cloneProvider (find (\<lambda>p. p_ID p = normalizeID E pid) Builtins)"

primrec resolveIDs ::
    "golib \<Rightarrow> string list \<Rightarrow> string list \<Rightarrow> (provider_error, Provider list) result" where
  "resolveIDs E seen [] = Inr []"
| "resolveIDs E seen (rawID # ids) =
     (let pid = normalizeID E rawID in
      if pid = [] \<or> pid \<in> set seen then resolveIDs E seen ids
      else (case Lookup E pid of
              None \<Rightarrow> Inl (UnknownProvider rawID)
            | Some p \<Rightarrow> map_result (Cons p) (resolveIDs E (pid # seen) ids)))"

definition ResolveEnabled :: "golib \<Rightarrow> string list option \<Rightarrow> (provider_error, Provider list) result" where
  "ResolveEnabled E ids =
     resolveIDs E [] (case ids of None \<Rightarrow> DefaultEnabled | Some xs \<Rightarrow> xs)"

subsection \<open>What the engine collects\<close>

definition RuleGroups :: "Provider list \<Rightarrow> RuleGroup list" where
  "RuleGroups providers = concat (map (\<lambda>p. cloneRuleGroups (p_Rules p)) providers)"

definition OutboundProfiles :: "Provider list \<Rightarrow> Profile list" where
  "OutboundProfiles providers = concat (map (\<lambda>p. cloneProfiles (p_OutboundProfiles p)) providers)"

definition ProbeTargets :: "Provider list \<Rightarrow> ProbeTarget list" where
  "ProbeTargets providers =
     concat (map (\<lambda>p. map (\<lambda>target. target\<lparr>pt_ProviderID := p_ID p\<rparr>) (p_ProbeTargets p)) providers)"

definition ruleSetInfo :: "golib \<Rightarrow> Provider \<Rightarrow> RuleSetInfo" where
  "ruleSetInfo E p =
     NewRuleSetInfo E (p_RuleSetName p) (p_RuleSetVersion p) (p_RuleSetUpdatedAt p) (p_Rules p)"

definition summarize :: "golib \<Rightarrow> Provider \<Rightarrow> Summary" where
  "summarize E p =
     (let info = ruleSetInfo E p in
      \<lparr>sm_ID = p_ID p, sm_Name = p_Name p, sm_Status = p_Status p,
       sm_RuleSetName = rsi_Name info, sm_RuleSetVersion = rsi_Version info,
       sm_RuleSetUpdatedAt = rsi_UpdatedAt info,
       sm_RuleCount = rsi_ExactCount info + rsi_WildcardCount info,
       sm_OutboundProfiles = int (length (p_OutboundProfiles p)),
       sm_ProbeTargets = int (length (p_ProbeTargets p))\<rparr>)"

definition Summaries :: "golib \<Rightarrow> Provider list \<Rightarrow> Summary list" where
  "Summaries E providers = sort_key sm_ID (map (summarize E) providers)"

subsection \<open>Enabling by identifier\<close>

lemma clone_ids [simp]:
  "cloneRuleGroups gs = gs" "cloneProfiles ps = ps" "cloneProvider p = p"
proof -
  have g: "\<lparr>rg_Name = rg_Name g, rg_Domains = rg_Domains g\<rparr> = g" for g :: RuleGroup
    by (cases g) simp
  have q: "\<lparr>pf_MatchDomains = pf_MatchDomains q, pf_CandidateIPs = pf_CandidateIPs q,
      pf_ForwardHost = pf_ForwardHost q, pf_TLSServerName = pf_TLSServerName q,
      pf_IgnoreTLSNameMismatch = pf_IgnoreTLSNameMismatch q\<rparr> = q" for q :: Profile
    by (cases q) simp
  show "cloneRuleGroups gs = gs" "cloneProfiles ps = ps" for gs ps
    by (simp_all add: cloneRuleGroups_def cloneProfiles_def g q)
  then show "cloneProvider p = p" by (simp add: cloneProvider_def)
qed

lemma spaceRune_bytes:
  "r \<in> set spaceRunes \<Longrightarrow> c \<in> set r \<Longrightarrow> lowerAscii b = c \<Longrightarrow> b = c"
  by (cases b) (auto simp: spaceRunes_def lowerAscii_code)

lemma map_lowerAscii_rune:
  assumes "map lowerAscii t = r" and "\<And>b c. c \<in> set r \<Longrightarrow> lowerAscii b = c \<Longrightarrow> b = c"
  shows "t = r"
proof -
  have "lowerAscii b = b" if "b \<in> set t" for b
    using that assms(2) [of "lowerAscii b" b] by (auto simp: assms(1) [symmetric])
  then have "map lowerAscii t = t" by (rule map_idI)
  with assms(1) show ?thesis by simp
qed

lemma prefix_map_lowerAscii:
  assumes "prefix r (map lowerAscii s)" and "\<And>b c. c \<in> set r \<Longrightarrow> lowerAscii b = c \<Longrightarrow> b = c"
  shows "prefix r s"
proof -
  have "map lowerAscii (take (length r) s) = r"
    using assms(1) by (auto simp: prefix_def take_map [symmetric])
  with assms(2) have "take (length r) s = r"
    using map_lowerAscii_rune by blast
  then show ?thesis by (metis take_is_prefix)
qed

lemma trimmed_lower: "trimmed s \<Longrightarrow> trimmed (map lowerAscii s)"
  using prefix_map_lowerAscii [of _ s] prefix_map_lowerAscii [of _ "rev s"] spaceRune_bytes
  unfolding trimmed_def dropRune_None_iff by (force simp: rev_map)

lemma normalizeID_idem:
  assumes "list_all isAscii s"
  shows "normalizeID E (normalizeID E s) = normalizeID E s"
proof -
  have "list_all isAscii (TrimSpace s)"
    using assms TrimSpace_set [of s] by (auto simp: list_all_iff)
  then show ?thesis
    by (simp add: normalizeID_def ToLower_def trimmed_lower list_all_iff)
qed

lemma Lookup_Some: "Lookup E pid = Some p \<Longrightarrow> p \<in> set Builtins \<and> p_ID p = normalizeID E pid"
  by (auto simp: Lookup_def find_Some_iff)

lemma resolveIDs_ids:
  assumes "resolveIDs E seen ids = Inr ps" and "\<forall>i\<in>set ids. list_all isAscii i"
  shows "set ps \<subseteq> set Builtins \<and>
    map p_ID ps = dedup_by (\<lambda>i. i) seen (filter (\<lambda>i. i \<noteq> []) (map (normalizeID E) ids))"
  using assms
proof (induction ids arbitrary: seen ps)
  case Nil
  then show ?case by simp
next
  case (Cons i ids)
  show ?case
  proof (cases "normalizeID E i = [] \<or> normalizeID E i \<in> set seen")
    case True
    with Cons show ?thesis by (auto simp: Let_def)
  next
    case False
    with Cons.prems obtain p qs where p: "Lookup E (normalizeID E i) = Some p"
      and qs: "resolveIDs E (normalizeID E i # seen) ids = Inr qs" and ps: "ps = p # qs"
      by (auto simp: Let_def res_simps split: option.splits)
    have "p_ID p = normalizeID E i"
      using Lookup_Some [OF p] Cons.prems(2) by (simp add: normalizeID_idem)
    with Cons.IH [OF qs] Cons.prems(2) False Lookup_Some [OF p] show ?thesis by (simp add: ps)
  qed
qed

lemma ResolveEnabled_builtin:
  assumes "resolveIDs E seen ids = Inr ps"
  shows "set ps \<subseteq> set Builtins"
  using assms
  by (induction ids arbitrary: seen ps)
    (auto simp: Let_def res_simps split: if_splits option.splits dest!: Lookup_Some, blast+)

definition ruleDomains :: "Provider \<Rightarrow> string list" where
  "ruleDomains p = concat (map rg_Domains (p_Rules p))"

lemma builtin_domains:
  "list_all (\<lambda>p. list_all (\<lambda>q. list_all (\<lambda>d. d \<in> set (ruleDomains p)) (pf_MatchDomains q))
     (p_OutboundProfiles p)) Builtins"
  by code_simp

subsection \<open>Properties\<close>

text \<open>
  Enabling providers: for ASCII identifiers the enabled providers are built-in ones, their
  identifiers are the given ones, trimmed, in lower case and without blanks and repetitions,
  in the order of first occurrence.
\<close>

theorem ResolveEnabled_ids:
  assumes "ResolveEnabled E (Some ids) = Inr ps" and "\<forall>i\<in>set ids. list_all isAscii i"
  shows "set ps \<subseteq> set Builtins \<and> distinct (map p_ID ps) \<and>
    map p_ID ps = dedup_by (\<lambda>i. i) [] (filter (\<lambda>i. i \<noteq> []) (map (normalizeID E) ids))"
  using resolveIDs_ids [of E "[]" ids ps] assms
    dedup_by_keys [of "\<lambda>i. i" "[]" "filter (\<lambda>i. i \<noteq> []) (map (normalizeID E) ids)"]
  by (simp add: ResolveEnabled_def)

theorem ResolveEnabled_ids_witness:
  "\<exists>ps. ResolveEnabled sampleLib (Some ['' GitHub'', ''steam'', ''github'']) = Inr ps
    \<and> map p_ID ps = [''github'', ''steam'']"
proof -
  let ?ids = "['' GitHub'', ''steam'', ''github'']"
  have "is_ok (ResolveEnabled sampleLib (Some ?ids))" by code_simp
  then obtain ps where ps: "ResolveEnabled sampleLib (Some ?ids) = Inr ps" by auto
  have "\<forall>i\<in>set ?ids. list_all isAscii i" by code_simp
  from ResolveEnabled_ids [OF ps this]
  have "map p_ID ps = dedup_by (\<lambda>i. i) [] (filter (\<lambda>i. i \<noteq> []) (map (normalizeID sampleLib) ?ids))"
    by blast
  moreover have "dedup_by (\<lambda>i. i) [] (filter (\<lambda>i. i \<noteq> []) (map (normalizeID sampleLib) ?ids)) =
      [''github'', ''steam'']" by code_simp
  ultimately show ?thesis using ps by metis
qed

text \<open>
  C17. Outbound profiles stay inside the rules: whatever providers are enabled and whatever
  custom domains are added, a host that a built-in outbound profile redirects is a host the
  rule matcher accepts, so that no non-target host is ever rerouted by a built-in profile.
\<close>

theorem builtin_profiles_within_rules:
  assumes "ResolveEnabled E ids = Inr ps"
    and "compileProfiles E (OutboundProfiles ps) = Inr cs"
    and "NewMatcher E (RuleGroups ps) custom = Inr m"
    and "matchProfile E cs h \<noteq> None"
  shows "MatchHost E m h \<noteq> None"
proof -
  have ps: "set ps \<subseteq> set Builtins"
    using assms(1) unfolding ResolveEnabled_def by (rule ResolveEnabled_builtin)
  obtain n r where n: "NormalizeHost E h = Inr n"
    and r: "r \<in> set (concat (map pf_MatchDomains (OutboundProfiles ps)))" "ruleCovers E r n"
    using assms(2,4) profiles.hits_iff by blast
  obtain p q where p: "p \<in> set ps" "q \<in> set (p_OutboundProfiles p)" "r \<in> set (pf_MatchDomains q)"
    using r(1) by (auto simp: OutboundProfiles_def)
  have "r \<in> set (ruleDomains p)"
    using builtin_domains ps p unfolding list_all_iff by blast
  with p(1) have "r \<in> set (map snd (allRules (RuleGroups ps) custom))"
    by (auto simp: ruleDomains_def RuleGroups_def allRules_def groupRules_def image_iff)
  with n r(2) show ?thesis
    using matcher.hits_iff [of E "(RuleGroups ps, custom)" m h] assms(3) by auto
qed

theorem builtin_profiles_within_rules_witness:
  "\<exists>cs m. compileProfiles sampleLib (OutboundProfiles [Steam]) = Inr cs
     \<and> NewMatcher sampleLib (RuleGroups [Steam]) [] = Inr m
     \<and> MatchHost sampleLib m ''api.steampowered.com'' \<noteq> None"
proof -
  have 1: "ResolveEnabled sampleLib None = Inr [Steam]" by code_simp
  have "is_ok (compileProfiles sampleLib (OutboundProfiles [Steam]))" by code_simp
  then obtain cs where 2: "compileProfiles sampleLib (OutboundProfiles [Steam]) = Inr cs" by auto
  have "is_ok (NewMatcher sampleLib (RuleGroups [Steam]) [])" by code_simp
  then obtain m where 3: "NewMatcher sampleLib (RuleGroups [Steam]) [] = Inr m" by auto
  have "\<not> Option.is_none (matchProfile sampleLib
      (case compileProfiles sampleLib (OutboundProfiles [Steam]) of Inr cs \<Rightarrow> cs | Inl _ \<Rightarrow> [])
      ''api.steampowered.com'')" by code_simp
  then have 4: "matchProfile sampleLib cs ''api.steampowered.com'' \<noteq> None"
    by (simp add: 2 Option.is_none_def)
  from builtin_profiles_within_rules [OF 1 2 3 4] 2 3 show ?thesis by blast
qed

end
