(* ===== verification/Upstream.thy ===== *)
theory Upstream
  imports UpstreamProfile Config
begin

section \<open>Package upstream: the dialers\<close>

text \<open>
  \<^verbatim>\<open>internal/upstream/upstream.go\<close>.  The resolver, the TCP dials and the TLS
  handshakes are the environment: functions of the number of the call and its arguments, so
  that the same address may fail once and succeed later.  A connection handle is a number; for
  the proxy handshakes a connection is a pair of byte streams.
\<close>

type_synonym neterr = string

record DialEnv =
  nv_resolve :: "nat \<Rightarrow> string \<Rightarrow> (neterr, ip list) result"
  nv_dial :: "nat \<Rightarrow> string \<Rightarrow> string \<Rightarrow> (neterr, nat) result"

record UpConfig =
  uc_Type :: string
  uc_Address :: string
  uc_Username :: string
  uc_Password :: string
  uc_Timeout :: int
  uc_Profiles :: "Profile list"

record DirectDialer =
  dd_timeout :: int
  dd_profiles :: "compiledProfile list"

record DirectDialAttempt =
  da_Stage :: string
  da_IP :: ip
  da_Address :: string
  da_Target :: string
  da_Err :: "neterr option"

record DirectDialError =
  de_Network :: string
  de_Host :: string
  de_Port :: string
  de_ResolveErr :: "neterr option"
  de_Attempts :: "DirectDialAttempt list"

record dialCandidate =
  dc_ip :: ip
  dc_address :: string
  dc_target :: string
  dc_tlsServerName :: string
  dc_ignoreTLSNameMismatch :: bool

record ProxyDialer =
  pd_proxyAddr :: string
  pd_username :: string
  pd_password :: string
  pd_timeout :: int

datatype upstream_error =
    ResolverRequired
  | UnsupportedUpstream string
  | ProfilesError profile_error
  | SplitTarget
  | DirectFailed DirectDialError
  | AddressRequired
  | InvalidProxyURL
  | ProxyHostRequired
  | OnlyTCP
  | DialProxy neterr
  | SetDeadlineFailed
  | WriteFailed string
  | ReadFailed string
  | ConnectStatus string
  | SocksVersion "8 word"
  | SocksMethodRejected
  | SocksCredentialsTooLong
  | SocksAuthFailed
  | SocksPort
  | SocksHostTooLong
  | SocksReplyVersion "8 word"
  | SocksReplyCode "8 word"
  | SocksAddressType "8 word"

subsection \<open>Configuration\<close>

definition profileFromConfig :: "OutboundProfileConfig \<Rightarrow> Profile" where
  "profileFromConfig p =
     \<lparr>pf_MatchDomains = op_MatchDomains p, pf_CandidateIPs = op_CandidateIPs p,
      pf_ForwardHost = op_ForwardHost p, pf_TLSServerName = op_TLSServerName p,
      pf_IgnoreTLSNameMismatch = op_IgnoreTLSNameMismatch p\<rparr>"

definition ConfigFromApp :: "Config \<Rightarrow> Profile list \<Rightarrow> UpConfig" where
  "ConfigFromApp cfg providerProfiles =
     \<lparr>uc_Type = up_Type (c_Upstream cfg), uc_Address = up_Address (c_Upstream cfg),
      uc_Username = up_Username (c_Upstream cfg), uc_Password = up_Password (c_Upstream cfg),
      uc_Timeout = px_DialTimeout (c_Proxy cfg),
      uc_Profiles = providerProfiles @ map profileFromConfig (up_Profiles (c_Upstream cfg))\<rparr>"

definition NewDirectDialerWithProfiles ::
    "golib \<Rightarrow> int \<Rightarrow> Profile list \<Rightarrow> (upstream_error, DirectDialer) result" where
  "NewDirectDialerWithProfiles E timeout profiles =
     rbind (map_err ProfilesError (compileProfiles E profiles)) (\<lambda>compiled.
     Inr \<lparr>dd_timeout = timeout, dd_profiles = compiled\<rparr>)"

definition defaultPortForScheme :: "string \<Rightarrow> string" where
  "defaultPortForScheme scheme =
     (if scheme = ''http'' then ''8080'' else if scheme = ''socks5'' then ''1080'' else ''0'')"

definition parseProxyAddress ::
    "golib \<Rightarrow> string \<Rightarrow> string \<Rightarrow> string \<Rightarrow> string \<Rightarrow>
     (upstream_error, string \<times> string \<times> string) result" where
  "parseProxyAddress E address defaultScheme username password =
     (let address = TrimSpace address in
      if address = [] then Inl AddressRequired else
      case url_Parse E (if Contains address ''://'' then address else defaultScheme @ ''://'' @ address) of
        None \<Rightarrow> Inl InvalidProxyURL
      | Some parsed \<Rightarrow>
          if url_Host parsed = [] then Inl ProxyHostRequired else
          (let user = (case url_User parsed of
                 Some (u, _) \<Rightarrow> if username = [] then u else username | None \<Rightarrow> username);
               pass = (case url_User parsed of
                 Some (_, Some pw) \<Rightarrow> if password = [] then pw else password | _ \<Rightarrow> password);
               host = (case SplitHostPort (url_Host parsed) of
                 None \<Rightarrow> JoinHostPort (url_Host parsed) (defaultPortForScheme defaultScheme)
               | Some _ \<Rightarrow> url_Host parsed)
           in Inr (host, user, pass)))"

definition newProxyDialer :: "golib \<Rightarrow> UpConfig \<Rightarrow> string \<Rightarrow> (upstream_error, ProxyDialer) result" where
  "newProxyDialer E cfg scheme =
     (let timeout = (if uc_Timeout cfg \<le> 0 then 30 * Second else uc_Timeout cfg) in
      rbind (parseProxyAddress E (uc_Address cfg) scheme (uc_Username cfg) (uc_Password cfg))
        (\<lambda>(addr, username, password).
      Inr \<lparr>pd_proxyAddr = addr, pd_username = username, pd_password = password, pd_timeout = timeout\<rparr>))"

definition NewHTTPDialer :: "golib \<Rightarrow> UpConfig \<Rightarrow> (upstream_error, ProxyDialer) result" where
  "NewHTTPDialer E cfg = newProxyDialer E cfg ''http''"

definition NewSOCKS5Dialer :: "golib \<Rightarrow> UpConfig \<Rightarrow> (upstream_error, ProxyDialer) result" where
  "NewSOCKS5Dialer E cfg = newProxyDialer E cfg ''socks5''"

datatype Dialer = Direct DirectDialer | HTTPProxy ProxyDialer | SOCKS5Proxy ProxyDialer

definition NewDialer :: "golib \<Rightarrow> UpConfig \<Rightarrow> bool \<Rightarrow> (upstream_error, Dialer) result" where
  "NewDialer E cfg hasResolver =
     (let cfg = cfg\<lparr>uc_Timeout := (if uc_Timeout cfg \<le> 0 then 30 * Second else uc_Timeout cfg)\<rparr> in
      if uc_Type cfg = [] \<or> uc_Type cfg = UpstreamDirect then
        if \<not> hasResolver then Inl ResolverRequired
        else map_result Direct (NewDirectDialerWithProfiles E (uc_Timeout cfg) (uc_Profiles cfg))
      else if uc_Type cfg = UpstreamHTTP then map_result HTTPProxy (NewHTTPDialer E cfg)
      else if uc_Type cfg = UpstreamSOCKS5 then map_result SOCKS5Proxy (NewSOCKS5Dialer E cfg)
      else Inl (UnsupportedUpstream (uc_Type cfg)))"

subsection \<open>Candidates\<close>

text \<open>The variables the two closures of \<open>candidates\<close> share, with the number of resolver calls.\<close>

record candState =
  cs_seen :: "string list"
  cs_candidates :: "dialCandidate list"
  cs_attempts :: "DirectDialAttempt list"
  cs_calls :: nat

definition profileTLSServerName :: "compiledProfile \<Rightarrow> string \<Rightarrow> string" where
  "profileTLSServerName profile host =
     (if cp_tlsServerName profile \<noteq> [] then cp_tlsServerName profile else host)"

definition candidateKey :: "dialCandidate \<Rightarrow> string" where
  "candidateKey c = dc_address c @ [CHR 0x00] @ dc_target c @ [CHR 0x00] @ dc_tlsServerName c"

definition addCandidate ::
    "string \<Rightarrow> string \<Rightarrow> string \<Rightarrow> string \<Rightarrow> bool \<Rightarrow> ip \<Rightarrow> candState \<Rightarrow> candState" where
  "addCandidate host port target sni ignoreMismatch ip st =
     (if ip = [] then st
      else (let c = \<lparr>dc_ip = ip, dc_address = JoinHostPort (IPString ip) port, dc_target = target,
                     dc_tlsServerName = (if sni = [] then host else sni),
                     dc_ignoreTLSNameMismatch = ignoreMismatch\<rparr> in
            if candidateKey c \<in> set (cs_seen st) then st
            else st\<lparr>cs_seen := candidateKey c # cs_seen st,
                    cs_candidates := cs_candidates st @ [c]\<rparr>))"

definition addResolved ::
    "DialEnv \<Rightarrow> string \<Rightarrow> string \<Rightarrow> string \<Rightarrow> string \<Rightarrow> bool \<Rightarrow> candState \<Rightarrow> candState" where
  "addResolved N host port resolveHost sni ignoreMismatch st =
     (case nv_resolve N (cs_calls st) resolveHost of
        Inl e \<Rightarrow>
          st\<lparr>cs_calls := Suc (cs_calls st),
             cs_attempts := cs_attempts st @
               [\<lparr>da_Stage = ''resolve'', da_IP = [], da_Address = JoinHostPort resolveHost port,
                 da_Target = [], da_Err = Some e\<rparr>]\<rparr>
      | Inr ips \<Rightarrow>
          fold (addCandidate host port resolveHost sni ignoreMismatch) ips
            (st\<lparr>cs_calls := Suc (cs_calls st)\<rparr>))"

definition profileCandidates ::
    "DialEnv \<Rightarrow> compiledProfile \<Rightarrow> string \<Rightarrow> string \<Rightarrow> dialCandidate list \<times> DirectDialAttempt list" where
  "profileCandidates N profile host port =
     (let sni = profileTLSServerName profile host; ign = cp_ignoreTLSNameMismatch profile;
          st = \<lparr>cs_seen = [], cs_candidates = [], cs_attempts = [], cs_calls = 0\<rparr>;
          st = fold (addCandidate host port ''profile-ip'' sni ign) (cp_candidateIPs profile) st;
          st = (if cp_forwardHost profile \<noteq> []
                then addResolved N host port (cp_forwardHost profile) sni ign st else st);
          st = addResolved N host port host host ign st
      in (cs_candidates st, cs_attempts st))"

definition candidates ::
    "golib \<Rightarrow> DialEnv \<Rightarrow> DirectDialer \<Rightarrow> string \<Rightarrow> string \<Rightarrow>
     (neterr, dialCandidate list \<times> DirectDialAttempt list) result" where
  "candidates E N d host port =
     (case matchProfile E (dd_profiles d) host of
        None \<Rightarrow>
          rbind (nv_resolve N 0 host) (\<lambda>ips.
          Inr (map (\<lambda>ip. \<lparr>dc_ip = ip, dc_address = JoinHostPort (IPString ip) port, dc_target = host,
                          dc_tlsServerName = host, dc_ignoreTLSNameMismatch = False\<rparr>) ips, []))
      | Some profile \<Rightarrow> Inr (profileCandidates N profile host port))"

subsection \<open>Dialling the candidates in order\<close>

definition failedAttempt :: "string \<Rightarrow> dialCandidate \<Rightarrow> neterr \<Rightarrow> DirectDialAttempt" where
  "failedAttempt stage c e =
     \<lparr>da_Stage = stage, da_IP = dc_ip c, da_Address = dc_address c, da_Target = dc_target c,
      da_Err = Some e\<rparr>"

primrec dialLoop ::
    "DialEnv \<Rightarrow> string \<Rightarrow> nat \<Rightarrow> dialCandidate list \<Rightarrow> DirectDialAttempt list \<Rightarrow>
     (DirectDialAttempt list, nat) result" where
  "dialLoop N network i [] attempts = Inl attempts"
| "dialLoop N network i (c # cs) attempts =
     (case nv_dial N i network (dc_address c) of
        Inr conn \<Rightarrow> Inr conn
      | Inl e \<Rightarrow> dialLoop N network (Suc i) cs (attempts @ [failedAttempt ''tcp'' c e]))"

definition DialContext ::
    "golib \<Rightarrow> DialEnv \<Rightarrow> DirectDialer \<Rightarrow> string \<Rightarrow> string \<Rightarrow> (upstream_error, nat) result" where
  "DialContext E N d network address =
     (case SplitHostPort address of
        None \<Rightarrow> Inl SplitTarget
      | Some (host, port) \<Rightarrow>
          (case candidates E N d host port of
             Inl e \<Rightarrow> Inl (DirectFailed \<lparr>de_Network = network, de_Host = host, de_Port = port,
                        de_ResolveErr = Some e, de_Attempts = []\<rparr>)
           | Inr (cs, attempts) \<Rightarrow>
               map_err (\<lambda>attempts. DirectFailed \<lparr>de_Network = network, de_Host = host, de_Port = port,
                        de_ResolveErr = None, de_Attempts = attempts\<rparr>)
                 (dialLoop N network 0 cs attempts)))"

subsection \<open>TLS configuration\<close>

text \<open>
  The part of \<^verbatim>\<open>crypto/tls\<close> that decides whether a handshake is accepted, over the
  certificate checks of \<^verbatim>\<open>crypto/x509\<close>: \<open>x_chain\<close> verifies a leaf against
  roots and intermediates for server authentication, \<open>x_name\<close> its host name.
\<close>

record x509 =
  x_chain :: "nat option \<Rightarrow> string list \<Rightarrow> string \<Rightarrow> bool"
  x_name :: "string \<Rightarrow> string \<Rightarrow> bool"

type_synonym peerCertificates = "string list"

record TLSConfig =
  tc_ServerName :: string
  tc_InsecureSkipVerify :: bool
  tc_RootCAs :: "nat option"
  tc_VerifyConnection :: "(peerCertificates \<Rightarrow> bool) option"

definition tlsAccepts :: "x509 \<Rightarrow> TLSConfig \<Rightarrow> peerCertificates \<Rightarrow> bool" where
  "tlsAccepts X cfg certs \<longleftrightarrow>
     (tc_InsecureSkipVerify cfg \<or>
        (certs \<noteq> [] \<and> x_chain X (tc_RootCAs cfg) (tl certs) (hd certs) \<and>
         x_name X (hd certs) (tc_ServerName cfg))) \<and>
     (case tc_VerifyConnection cfg of None \<Rightarrow> True | Some verify \<Rightarrow> verify certs)"

definition verifyWithoutName ::
    "x509 \<Rightarrow> nat option \<Rightarrow> (peerCertificates \<Rightarrow> bool) option \<Rightarrow> peerCertificates \<Rightarrow> bool" where
  "verifyWithoutName X rootCAs verifyConnection certs \<longleftrightarrow>
     (if certs = [] then False
      else if \<not> x_chain X rootCAs (tl certs) (hd certs) then False
      else (case verifyConnection of None \<Rightarrow> True | Some verify \<Rightarrow> verify certs))"

definition cloneTLSConfig :: "x509 \<Rightarrow> TLSConfig option \<Rightarrow> string \<Rightarrow> bool \<Rightarrow> TLSConfig" where
  "cloneTLSConfig X cfg serverName ignoreNameMismatch =
     (let cloned = (case cfg of
            None \<Rightarrow> \<lparr>tc_ServerName = [], tc_InsecureSkipVerify = False, tc_RootCAs = None,
                     tc_VerifyConnection = None\<rparr>
          | Some c \<Rightarrow> c);
          cloned = (if tc_ServerName cloned = [] then cloned\<lparr>tc_ServerName := serverName\<rparr> else cloned)
      in if ignoreNameMismatch \<and> \<not> tc_InsecureSkipVerify cloned
         then cloned\<lparr>tc_InsecureSkipVerify := True,
                tc_VerifyConnection :=
                  Some (verifyWithoutName X (tc_RootCAs cloned) (tc_VerifyConnection cloned))\<rparr>
         else cloned)"

text \<open>
  \<open>DialTLSContext\<close>: \<open>hs i\<close> is what the \<open>i\<close>-th handshake yields, the certificates
  the server presents or a transport error.
\<close>

primrec dialTLSLoop ::
    "x509 \<Rightarrow> DialEnv \<Rightarrow> (nat \<Rightarrow> (neterr, peerCertificates) result) \<Rightarrow> TLSConfig option \<Rightarrow> string \<Rightarrow>
     nat \<Rightarrow> dialCandidate list \<Rightarrow> DirectDialAttempt list \<Rightarrow>
     (DirectDialAttempt list, nat \<times> dialCandidate \<times> peerCertificates) result" where
  "dialTLSLoop X N hs tlsConfig network i [] attempts = Inl attempts"
| "dialTLSLoop X N hs tlsConfig network i (c # cs) attempts =
     (case nv_dial N i network (dc_address c) of
        Inl e \<Rightarrow> dialTLSLoop X N hs tlsConfig network (Suc i) cs (attempts @ [failedAttempt ''tcp'' c e])
      | Inr conn \<Rightarrow>
          (case hs i of
             Inl e \<Rightarrow> dialTLSLoop X N hs tlsConfig network (Suc i) cs (attempts @ [failedAttempt ''tls'' c e])
           | Inr certs \<Rightarrow>
               if tlsAccepts X (cloneTLSConfig X tlsConfig (dc_tlsServerName c)
                                  (dc_ignoreTLSNameMismatch c)) certs
               then Inr (conn, c, certs)
               else dialTLSLoop X N hs tlsConfig network (Suc i) cs
                      (attempts @ [failedAttempt ''tls'' c ''certificate verification failed''])))"

definition DialTLSContext ::
    "golib \<Rightarrow> x509 \<Rightarrow> DialEnv \<Rightarrow> (nat \<Rightarrow> (neterr, peerCertificates) result) \<Rightarrow> DirectDialer \<Rightarrow>
     string \<Rightarrow> string \<Rightarrow> TLSConfig option \<Rightarrow>
     (upstream_error, nat \<times> dialCandidate \<times> peerCertificates) result" where
  "DialTLSContext E X N hs d network address tlsConfig =
     (case SplitHostPort address of
        None \<Rightarrow> Inl SplitTarget
      | Some (host, port) \<Rightarrow>
          (case candidates E N d host port of
             Inl e \<Rightarrow> Inl (DirectFailed \<lparr>de_Network = network, de_Host = host, de_Port = port,
                        de_ResolveErr = Some e, de_Attempts = []\<rparr>)
           | Inr (cs, attempts) \<Rightarrow>
               map_err (\<lambda>attempts. DirectFailed \<lparr>de_Network = network, de_Host = host, de_Port = port,
                        de_ResolveErr = None, de_Attempts = attempts\<rparr>)
                 (dialTLSLoop X N hs tlsConfig network 0 cs attempts)))"

subsection \<open>Error texts\<close>

definition attemptError :: "DirectDialAttempt \<Rightarrow> string" where
  "attemptError a =
     (let stage = (if da_Stage a = [] then ''tcp'' else da_Stage a);
          target = (if da_Target a \<noteq> [] \<and> da_Target a \<noteq> da_Address a
                    then da_Address a @ '' ('' @ da_Target a @ '')'' else da_Address a)
      in case da_Err a of
           None \<Rightarrow> stage @ '' '' @ target @ '' failed''
         | Some e \<Rightarrow> stage @ '' '' @ target @ '' failed: '' @ e)"

definition dialErrorText :: "DirectDialError \<Rightarrow> string" where
  "dialErrorText e =
     (let target = JoinHostPort (de_Host e) (de_Port e); n = length (de_Attempts e); limit = min n 5 in
      case de_ResolveErr e of
        Some err \<Rightarrow> ''direct upstream resolve '' @ target @ '' failed: '' @ err
      | None \<Rightarrow>
          if de_Attempts e = [] then ''direct upstream dial '' @ target @ '' failed: no target IPs''
          else ''direct upstream dial '' @ target @ '' failed after '' @ digitsOf n @ '' attempt(s): '' @
            Join (map attemptError (take limit (de_Attempts e))) ''; '' @
            (if 0 < n - limit then ''; '' @ digitsOf (n - limit) @ '' more attempt(s) omitted'' else []))"

definition unwrapDialError :: "DirectDialError \<Rightarrow> neterr option" where
  "unwrapDialError e =
     (if de_ResolveErr e \<noteq> None then de_ResolveErr e
      else (case de_Attempts e of [a] \<Rightarrow> da_Err a | _ \<Rightarrow> None))"

subsection \<open>Dialling: facts\<close>

definition dialAttempt :: "DialEnv \<Rightarrow> string \<Rightarrow> nat \<Rightarrow> dialCandidate \<Rightarrow> (DirectDialAttempt, nat) result" where
  "dialAttempt N network i c = map_err (failedAttempt ''tcp'' c) (nv_dial N i network (dc_address c))"

interpretation tcp: ordered_fallback "dialLoop N network" "dialAttempt N network" for N network
  by unfold_locales (simp_all add: dialAttempt_def map_err_def split: sum.splits)

definition tlsAttempt ::
    "x509 \<Rightarrow> DialEnv \<Rightarrow> (nat \<Rightarrow> (neterr, peerCertificates) result) \<Rightarrow> TLSConfig option \<Rightarrow> string \<Rightarrow>
     nat \<Rightarrow> dialCandidate \<Rightarrow> (DirectDialAttempt, nat \<times> dialCandidate \<times> peerCertificates) result" where
  "tlsAttempt X N hs cfg network i c =
     rbind (map_err (failedAttempt ''tcp'' c) (nv_dial N i network (dc_address c))) (\<lambda>conn.
     rbind (map_err (failedAttempt ''tls'' c) (hs i)) (\<lambda>certs.
     rbind (ensure (tlsAccepts X (cloneTLSConfig X cfg (dc_tlsServerName c) (dc_ignoreTLSNameMismatch c)) certs)
              (failedAttempt ''tls'' c ''certificate verification failed'')) (\<lambda>_.
     Inr (conn, c, certs))))"

interpretation tls: ordered_fallback
  "dialTLSLoop X N hs cfg network" "tlsAttempt X N hs cfg network" for X N hs cfg network
  by unfold_locales (simp_all add: tlsAttempt_def map_err_def ensure_def split: sum.splits)

lemma DialContext_eq:
  "DialContext E N d network address = Inr conn \<longleftrightarrow>
     (\<exists>host port cs at. SplitHostPort address = Some (host, port) \<and>
        candidates E N d host port = Inr (cs, at) \<and> dialLoop N network 0 cs at = Inr conn)"
  by (auto simp: DialContext_def res_simps split: option.splits sum.splits)

lemma cloneTLSConfig_accepts:
  assumes "tlsAccepts X (cloneTLSConfig X cfg sni ign) certs"
    and "cfg = None \<or> \<not> tc_InsecureSkipVerify (the cfg)"
  shows "certs \<noteq> [] \<and>
    x_chain X (case cfg of None \<Rightarrow> None | Some c \<Rightarrow> tc_RootCAs c) (tl certs) (hd certs) \<and>
    (\<not> ign \<longrightarrow> x_name X (hd certs)
       (case cfg of None \<Rightarrow> sni | Some c \<Rightarrow> if tc_ServerName c = [] then sni else tc_ServerName c)) \<and>
    (\<forall>c verify. cfg = Some c \<longrightarrow> tc_VerifyConnection c = Some verify \<longrightarrow> verify certs)"
  using assms
  by (auto simp: tlsAccepts_def cloneTLSConfig_def verifyWithoutName_def Let_def
      split: if_splits option.splits)

subsection \<open>Candidates: facts\<close>

definition mkCandidate :: "string \<Rightarrow> string \<Rightarrow> string \<Rightarrow> string \<Rightarrow> bool \<Rightarrow> ip \<Rightarrow> dialCandidate" where
  "mkCandidate host port target sni ign ip =
     \<lparr>dc_ip = ip, dc_address = JoinHostPort (IPString ip) port, dc_target = target,
      dc_tlsServerName = (if sni = [] then host else sni), dc_ignoreTLSNameMismatch = ign\<rparr>"

definition mkCandidates :: "string \<Rightarrow> string \<Rightarrow> string \<Rightarrow> string \<Rightarrow> bool \<Rightarrow> ip list \<Rightarrow> dialCandidate list" where
  "mkCandidates host port target sni ign ips =
     map (mkCandidate host port target sni ign) (filter (\<lambda>ip. ip \<noteq> []) ips)"

text \<open>Adding candidates one by one keeps the first of each key.\<close>

definition candInv :: "candState \<Rightarrow> bool" where
  "candInv st \<longleftrightarrow> set (cs_seen st) = candidateKey ` set (cs_candidates st)"

lemma fold_addCandidate:
  assumes "candInv st"
  shows "let st' = fold (addCandidate host port target sni ign) ips st in
    candInv st' \<and> cs_attempts st' = cs_attempts st \<and> cs_calls st' = cs_calls st \<and>
    cs_candidates st' = cs_candidates st @
      dedup_by candidateKey (map candidateKey (cs_candidates st)) (mkCandidates host port target sni ign ips)"
  using assms
proof (induction ips arbitrary: st)
  case Nil
  then show ?case by (simp add: mkCandidates_def)
next
  case (Cons ip ips)
  let ?c = "mkCandidate host port target sni ign ip"
  let ?st = "addCandidate host port target sni ign ip st"
  have step: "?st = (if ip = [] \<or> candidateKey ?c \<in> set (map candidateKey (cs_candidates st)) then st
      else st\<lparr>cs_seen := candidateKey ?c # cs_seen st, cs_candidates := cs_candidates st @ [?c]\<rparr>)"
    using Cons.prems by (auto simp: addCandidate_def mkCandidate_def candInv_def Let_def)
  have inv: "candInv ?st" using Cons.prems by (auto simp: step candInv_def)
  have cand: "cs_candidates ?st = cs_candidates st @
      (if ip = [] \<or> candidateKey ?c \<in> set (map candidateKey (cs_candidates st)) then [] else [?c])"
    by (simp add: step)
  have rest: "cs_attempts ?st = cs_attempts st" "cs_calls ?st = cs_calls st"
    by (simp_all add: step)
  have perm: "dedup_by candidateKey (map candidateKey (cs_candidates st) @ [candidateKey ?c]) xs =
      dedup_by candidateKey (candidateKey ?c # map candidateKey (cs_candidates st)) xs" for xs
    by (rule dedup_by_set_seen) auto
  show ?case
    using Cons.IH [OF inv] by (auto simp: Let_def cand rest mkCandidates_def perm)
qed

definition resolvedOr :: "(neterr, ip list) result \<Rightarrow> ip list" where
  "resolvedOr r = (case r of Inl _ \<Rightarrow> [] | Inr ips \<Rightarrow> ips)"

definition resolveFailures :: "string \<Rightarrow> string \<Rightarrow> (neterr, ip list) result \<Rightarrow> DirectDialAttempt list" where
  "resolveFailures host port r =
     (case r of Inr _ \<Rightarrow> []
      | Inl e \<Rightarrow> [\<lparr>da_Stage = ''resolve'', da_IP = [], da_Address = JoinHostPort host port,
                  da_Target = [], da_Err = Some e\<rparr>])"

lemma addResolved_dedup:
  assumes "candInv st"
  shows "let st' = addResolved N host port rh sni ign st; r = nv_resolve N (cs_calls st) rh in
    candInv st' \<and> cs_calls st' = Suc (cs_calls st) \<and>
    cs_attempts st' = cs_attempts st @ resolveFailures rh port r \<and>
    cs_candidates st' = cs_candidates st @
      dedup_by candidateKey (map candidateKey (cs_candidates st))
        (mkCandidates host port rh sni ign (resolvedOr r))"
proof (cases "nv_resolve N (cs_calls st) rh")
  case (Inl e)
  with assms show ?thesis
    by (simp add: addResolved_def candInv_def resolveFailures_def resolvedOr_def mkCandidates_def)
next
  case (Inr ips)
  have "candInv (st\<lparr>cs_calls := Suc (cs_calls st)\<rparr>)" using assms by (simp add: candInv_def)
  from fold_addCandidate [OF this, of host port rh sni ign ips] Inr show ?thesis
    by (simp add: addResolved_def resolveFailures_def resolvedOr_def Let_def)
qed

text \<open>
  What the profile asks for, in its order of preference: the configured addresses, those of
  the forward host, then those of the host itself.
\<close>

definition preferredCandidates :: "DialEnv \<Rightarrow> compiledProfile \<Rightarrow> string \<Rightarrow> string \<Rightarrow> dialCandidate list" where
  "preferredCandidates N p host port =
     (let sni = profileTLSServerName p host; ign = cp_ignoreTLSNameMismatch p;
          fwd = cp_forwardHost p \<noteq> [] in
      mkCandidates host port ''profile-ip'' sni ign (cp_candidateIPs p) @
      (if fwd then mkCandidates host port (cp_forwardHost p) sni ign
         (resolvedOr (nv_resolve N 0 (cp_forwardHost p))) else []) @
      mkCandidates host port host host ign (resolvedOr (nv_resolve N (if fwd then 1 else 0) host)))"

lemma profileCandidates_dedup:
  "fst (profileCandidates N p host port) = dedup_by candidateKey [] (preferredCandidates N p host port)"
proof -
  let ?sni = "profileTLSServerName p host" and ?ign = "cp_ignoreTLSNameMismatch p"
  define s0 where "s0 = \<lparr>cs_seen = [], cs_candidates = [], cs_attempts = [], cs_calls = 0\<rparr>"
  define s1 where "s1 = fold (addCandidate host port ''profile-ip'' ?sni ?ign) (cp_candidateIPs p) s0"
  define s2 where "s2 = (if cp_forwardHost p \<noteq> []
      then addResolved N host port (cp_forwardHost p) ?sni ?ign s1 else s1)"
  have "candInv s0" by (simp add: s0_def candInv_def)
  from fold_addCandidate [OF this, of host port "''profile-ip''" ?sni ?ign "cp_candidateIPs p", folded s1_def]
  have s1: "candInv s1" "cs_calls s1 = 0"
    "cs_candidates s1 = dedup_by candidateKey [] (mkCandidates host port ''profile-ip'' ?sni ?ign (cp_candidateIPs p))"
    by (simp_all add: Let_def s0_def)
  define A where "A = mkCandidates host port ''profile-ip'' ?sni ?ign (cp_candidateIPs p) @
      (if cp_forwardHost p \<noteq> [] then mkCandidates host port (cp_forwardHost p) ?sni ?ign
         (resolvedOr (nv_resolve N 0 (cp_forwardHost p))) else [])"
  have s2: "candInv s2" "cs_calls s2 = (if cp_forwardHost p \<noteq> [] then 1 else 0)"
    "cs_candidates s2 = dedup_by candidateKey [] A"
    using addResolved_dedup [OF s1(1), of N host port "cp_forwardHost p" ?sni ?ign] s1
    by (auto simp: s2_def A_def Let_def dedup_by_append)
  have "fst (profileCandidates N p host port) = cs_candidates (addResolved N host port host host ?ign s2)"
    by (simp add: profileCandidates_def Let_def s2_def s1_def s0_def)
  also have "\<dots> = dedup_by candidateKey []
      (A @ mkCandidates host port host host ?ign (resolvedOr (nv_resolve N (cs_calls s2) host)))"
    using addResolved_dedup [OF s2(1), of N host port host host ?ign] s2(3)
    unfolding dedup_by_append by (simp add: Let_def)
  also have "\<dots> = dedup_by candidateKey [] (preferredCandidates N p host port)"
    by (simp add: preferredCandidates_def A_def s2(2) Let_def)
  finally show ?thesis .
qed

subsection \<open>Properties\<close>

text \<open>
  With an outbound profile the dial candidates are the profile's own addresses, then
  those its forward host resolves to, then those of the requested host, without repetitions;
  each carries a TLS server name, the profile's one when it has one (for the host's own
  addresses the host itself), and without a profile the resolver's answers are used unchanged.
\<close>

theorem candidates_order:
  "candidates E N d host port =
     (case matchProfile E (dd_profiles d) host of
        None \<Rightarrow> map_result (\<lambda>ips. (map (mkCandidate host port host host False) ips, [])) (nv_resolve N 0 host)
      | Some p \<Rightarrow> Inr (dedup_by candidateKey [] (preferredCandidates N p host port),
                        snd (profileCandidates N p host port)))"
  by (auto simp: candidates_def profileCandidates_dedup [symmetric] mkCandidate_def [abs_def]
      rbind_def map_result_def split: option.splits sum.splits)

text \<open>
  C18. \<open>DialContext\<close> connects to the first candidate that accepts the connection and tries
  the candidates strictly in order; it fails only after every candidate has been tried, and
  the error then lists one attempt per candidate after the resolve failures.
\<close>

theorem DialContext_first_success:
  assumes "SplitHostPort address = Some (host, port)" and "candidates E N d host port = Inr (cs, at)"
  shows "(DialContext E N d network address = Inr conn \<longleftrightarrow>
      (\<exists>k<length cs. nv_dial N k network (dc_address (cs ! k)) = Inr conn \<and>
         (\<forall>j<k. \<not> is_ok (nv_dial N j network (dc_address (cs ! j)))))) \<and>
    (\<forall>e. DialContext E N d network address = Inl e \<longrightarrow>
      (\<exists>fs. e = DirectFailed \<lparr>de_Network = network, de_Host = host, de_Port = port,
              de_ResolveErr = None, de_Attempts = at @ fs\<rparr> \<and> length fs = length cs))"
proof -
  have dial: "DialContext E N d network address =
      map_err (\<lambda>as. DirectFailed \<lparr>de_Network = network, de_Host = host, de_Port = port,
              de_ResolveErr = None, de_Attempts = as\<rparr>) (dialLoop N network 0 cs at)"
    using assms by (simp add: DialContext_def)
  show ?thesis
  proof (intro conjI allI impI)
    show "DialContext E N d network address = Inr conn \<longleftrightarrow>
      (\<exists>k<length cs. nv_dial N k network (dc_address (cs ! k)) = Inr conn \<and>
         (\<forall>j<k. \<not> is_ok (nv_dial N j network (dc_address (cs ! j)))))"
      unfolding dial map_err_eq_Inr tcp.loop_success by (simp add: dialAttempt_def res_simps)
  next
    fix e assume "DialContext E N d network address = Inl e"
    with tcp.loop_failure [of N network 0 cs at]
    show "\<exists>fs. e = DirectFailed \<lparr>de_Network = network, de_Host = host, de_Port = port,
              de_ResolveErr = None, de_Attempts = at @ fs\<rparr> \<and> length fs = length cs"
      unfolding dial map_err_eq_Inl by blast
  qed
qed

text \<open>A resolver with one answer of two addresses, the first of which refuses connections.\<close>

definition sampleEnv :: DialEnv where
  "sampleEnv = \<lparr>nv_resolve = (\<lambda>_ _. Inr [[1, 2, 3, 4], [5, 6, 7, 8]]),
     nv_dial = (\<lambda>i _ _. if i = 0 then Inl ''refused'' else Inr 7)\<rparr>"

theorem DialContext_first_success_witness:
  "DialContext sampleLib sampleEnv \<lparr>dd_timeout = 0, dd_profiles = []\<rparr> ''tcp'' ''a.com:443'' = Inr 7"
proof -
  have 1: "SplitHostPort ''a.com:443'' = Some (''a.com'', ''443'')" by code_simp
  have 2: "candidates sampleLib sampleEnv \<lparr>dd_timeout = 0, dd_profiles = []\<rparr> ''a.com'' ''443'' =
      Inr (map (mkCandidate ''a.com'' ''443'' ''a.com'' ''a.com'' False) [[1, 2, 3, 4], [5, 6, 7, 8]], [])"
    by (simp add: candidates_def matchProfile_def sampleEnv_def mkCandidate_def)
  show ?thesis
    unfolding DialContext_first_success [OF 1 2, THEN conjunct1]
    by (intro exI [of _ 1]) (simp add: sampleEnv_def)
qed


definition sampleX509 :: x509 where
  "sampleX509 = \<lparr>x_chain = (\<lambda>_ _ leaf. leaf = ''good''), x_name = (\<lambda>_ name. name = ''a.com'')\<rparr>"


text \<open>
  An IPv6 proxy address without a port, given in the bracketed form a URL requires: the
  default port is joined to the host with its brackets, which brackets it twice, and the
  result is not an address that can be split (and so dialled).
\<close>

lemma parseProxyAddress_ipv6:
  "parseProxyAddress sampleLib ''http://[::1]'' ''http'' [] [] = Inr (''[[::1]]:8080'', [], [])"
  "SplitHostPort ''[[::1]]:8080'' = None"
  by code_simp+

end
