(* ===== verification/Socks5.thy ===== *)
theory Socks5
  imports Upstream
begin

section \<open>Package upstream: proxy handshakes and probes\<close>

text \<open>
  The SOCKS5 and HTTP CONNECT dialers of \<^verbatim>\<open>internal/upstream/upstream.go\<close> and the
  probes of \<^verbatim>\<open>internal/upstream/probe.go\<close>.  A connection is the bytes still to be read
  from the peer, the bytes written so far and a bound on the writes that succeed.
\<close>

type_synonym bytes = "8 word list"

record stream =
  k_in :: bytes
  k_out :: bytes
  k_writes :: "nat option"
  k_deadline :: "int option"

definition connWrite :: "bytes \<Rightarrow> stream \<Rightarrow> stream option" where
  "connWrite bs st =
     (case k_writes st of
        None \<Rightarrow> Some (st\<lparr>k_out := k_out st @ bs\<rparr>)
      | Some 0 \<Rightarrow> None
      | Some (Suc n) \<Rightarrow> Some (st\<lparr>k_out := k_out st @ bs, k_writes := Some n\<rparr>))"

definition readFull :: "nat \<Rightarrow> stream \<Rightarrow> (bytes \<times> stream) option" where
  "readFull n st =
     (if n \<le> length (k_in st) then Some (take n (k_in st), st\<lparr>k_in := drop n (k_in st)\<rparr>) else None)"

definition bytesOf :: "string \<Rightarrow> bytes" where
  "bytesOf s = map (\<lambda>c. word_of_nat (of_char c)) s"

definition write' :: "string \<Rightarrow> bytes \<Rightarrow> stream \<Rightarrow> (upstream_error, stream) result" where
  "write' what bs st = (case connWrite bs st of None \<Rightarrow> Inl (WriteFailed what) | Some st \<Rightarrow> Inr st)"

definition read' :: "string \<Rightarrow> nat \<Rightarrow> stream \<Rightarrow> (upstream_error, bytes \<times> stream) result" where
  "read' what n st = (case readFull n st of None \<Rightarrow> Inl (ReadFailed what) | Some r \<Rightarrow> Inr r)"

subsection \<open>SOCKS5\<close>

definition authenticate :: "ProxyDialer \<Rightarrow> stream \<Rightarrow> (upstream_error, stream) result" where
  "authenticate d st =
     (if 255 < length (pd_username d) \<or> 255 < length (pd_password d) then Inl SocksCredentialsTooLong
      else
        rbind (write' ''auth'' ([0x01, word_of_nat (length (pd_username d))] @ bytesOf (pd_username d) @
                 [word_of_nat (length (pd_password d))] @ bytesOf (pd_password d)) st) (\<lambda>st.
        rbind (read' ''auth'' 2 st) (\<lambda>(resp, st).
        if resp ! 0 \<noteq> 0x01 \<or> resp ! 1 \<noteq> 0x00 then Inl SocksAuthFailed else Inr st)))"

definition socks5ConnectRequest :: "string \<Rightarrow> (upstream_error, bytes) result" where
  "socks5ConnectRequest target =
     (case SplitHostPort target of
        None \<Rightarrow> Inl SplitTarget
      | Some (host, portString) \<Rightarrow>
          (case Atoi portString of
             None \<Rightarrow> Inl SocksPort
           | Some port \<Rightarrow>
               if port < 1 \<or> port > 65535 then Inl SocksPort
               else
                 rbind (case ParseIP host of
                          Some ip \<Rightarrow>
                            if To4 ip \<noteq> [] then Inr (0x01 # To4 ip) else Inr (0x04 # To16 ip)
                        | None \<Rightarrow>
                            if 255 < length host then Inl SocksHostTooLong
                            else Inr ([0x03, word_of_nat (length host)] @ bytesOf host)) (\<lambda>addr.
                 Inr ([0x05, 0x01, 0x00] @ addr @ [word_of_int (port div 256), word_of_int port]))))"

definition replyDiscard :: "8 word \<Rightarrow> stream \<Rightarrow> (upstream_error, nat \<times> stream) result" where
  "replyDiscard atyp st =
     (if atyp = 0x01 then Inr (4, st)
      else if atyp = 0x03 then
        rbind (read' ''domain length'' 1 st) (\<lambda>(l, st). Inr (unat (l ! 0), st))
      else if atyp = 0x04 then Inr (16, st)
      else Inl (SocksAddressType atyp))"

definition readBindAddress :: "nat \<Rightarrow> stream \<Rightarrow> (upstream_error, stream) result" where
  "readBindAddress discard st =
     rbind (if 0 < discard then read' ''bind address'' discard st else Inr ([], st)) (\<lambda>(_, st).
     rbind (read' ''bind port'' 2 st) (\<lambda>(_, st). Inr st))"

definition readSOCKS5Reply :: "stream \<Rightarrow> (upstream_error, stream) result" where
  "readSOCKS5Reply st =
     rbind (read' ''reply'' 4 st) (\<lambda>(header, st).
     if header ! 0 \<noteq> 0x05 then Inl (SocksReplyVersion (header ! 0))
     else if header ! 1 \<noteq> 0x00 then Inl (SocksReplyCode (header ! 1))
     else rbind (replyDiscard (header ! 3) st) (\<lambda>(discard, st). readBindAddress discard st))"

definition socksGreeting :: "ProxyDialer \<Rightarrow> bytes" where
  "socksGreeting d =
     (if pd_username d \<noteq> [] \<or> pd_password d \<noteq> [] then [0x05, 0x02, 0x00, 0x02] else [0x05, 0x01, 0x00])"

definition handshake :: "ProxyDialer \<Rightarrow> string \<Rightarrow> stream \<Rightarrow> (upstream_error, stream) result" where
  "handshake d target st =
     rbind (write' ''greeting'' (socksGreeting d) st) (\<lambda>st.
     rbind (read' ''greeting'' 2 st) (\<lambda>(greeting, st).
     if greeting ! 0 \<noteq> 0x05 then Inl (SocksVersion (greeting ! 0))
     else
       rbind (if greeting ! 1 = 0x00 then Inr st
              else if greeting ! 1 = 0x02 then authenticate d st
              else Inl SocksMethodRejected) (\<lambda>st.
       rbind (socks5ConnectRequest target) (\<lambda>request.
       rbind (write' ''connect'' request st) (\<lambda>st.
       readSOCKS5Reply st)))))"

text \<open>
  The dial of the proxy, the handshake and the cleanup: the connection handed out, or the
  error and whether the opened connection was closed.
\<close>

definition handshakeDeadline :: "int \<Rightarrow> int option \<Rightarrow> int \<Rightarrow> int" where
  "handshakeDeadline now ctxDeadline timeout =
     (let deadline = now + timeout in
      case ctxDeadline of Some cd \<Rightarrow> if cd < deadline then cd else deadline | None \<Rightarrow> deadline)"

record ProxyEnv =
  py_dial :: "string \<Rightarrow> (neterr, stream) result"
  py_setDeadlineOK :: bool
  py_now :: int
  py_ctxDeadline :: "int option"

datatype dial_outcome = Connected stream | NotOpened upstream_error | ClosedAfter upstream_error

definition proxyDial ::
    "ProxyEnv \<Rightarrow> ProxyDialer \<Rightarrow> string \<Rightarrow> (stream \<Rightarrow> (upstream_error, stream) result) \<Rightarrow> dial_outcome" where
  "proxyDial V d network exchange =
     (if network \<noteq> ''tcp'' \<and> network \<noteq> ''tcp4'' \<and> network \<noteq> ''tcp6'' then NotOpened OnlyTCP
      else (case py_dial V (pd_proxyAddr d) of
              Inl e \<Rightarrow> NotOpened (DialProxy e)
            | Inr st \<Rightarrow>
                if \<not> py_setDeadlineOK V then ClosedAfter SetDeadlineFailed
                else (case exchange (st\<lparr>k_deadline :=
                              Some (handshakeDeadline (py_now V) (py_ctxDeadline V) (pd_timeout d))\<rparr>) of
                        Inl e \<Rightarrow> ClosedAfter e
                      | Inr st \<Rightarrow> Connected (st\<lparr>k_deadline := None\<rparr>))))"

definition socks5DialContext :: "ProxyEnv \<Rightarrow> ProxyDialer \<Rightarrow> string \<Rightarrow> string \<Rightarrow> dial_outcome" where
  "socks5DialContext V d network address = proxyDial V d network (handshake d address)"

text \<open>
  The CONNECT exchange: \<open>w_connect\<close> is how \<^verbatim>\<open>net/http\<close> writes the request for an
  address with an optional \<^verbatim>\<open>Proxy-Authorization\<close> value, \<open>w_response\<close> how it
  reads the status code, status line and the remaining bytes of a response.
\<close>

record httpWire =
  w_connect :: "string \<Rightarrow> string option \<Rightarrow> bytes"
  w_response :: "bytes \<Rightarrow> (int \<times> string \<times> bytes) option"
  w_base64 :: "string \<Rightarrow> string"

definition connectAuthorization :: "httpWire \<Rightarrow> ProxyDialer \<Rightarrow> string option" where
  "connectAuthorization W d =
     (if pd_username d \<noteq> [] \<or> pd_password d \<noteq> []
      then Some (''Basic '' @ w_base64 W (pd_username d @ '':'' @ pd_password d)) else None)"

definition httpConnect :: "httpWire \<Rightarrow> ProxyDialer \<Rightarrow> string \<Rightarrow> stream \<Rightarrow> (upstream_error, stream) result" where
  "httpConnect W d address st =
     rbind (write' ''HTTP CONNECT'' (w_connect W address (connectAuthorization W d)) st) (\<lambda>st.
     case w_response W (k_in st) of
       None \<Rightarrow> Inl (ReadFailed ''HTTP CONNECT response'')
     | Some (code, status, rest) \<Rightarrow>
         if code \<noteq> 200 then Inl (ConnectStatus status) else Inr (st\<lparr>k_in := rest\<rparr>))"

definition httpDialContext :: "httpWire \<Rightarrow> ProxyEnv \<Rightarrow> ProxyDialer \<Rightarrow> string \<Rightarrow> string \<Rightarrow> dial_outcome" where
  "httpDialContext W V d network address = proxyDial V d network (httpConnect W d address)"

subsection \<open>The protocol as a server sees it\<close>

datatype socks_addr = AddrIPv4 ip | AddrDomain string | AddrIPv6 ip

definition stringOf :: "bytes \<Rightarrow> string" where
  "stringOf bs = map (\<lambda>b. char_of (unat b)) bs"

definition decodePort :: "socks_addr \<Rightarrow> bytes \<Rightarrow> (socks_addr \<times> nat \<times> bytes) option" where
  "decodePort a bs =
     (case bs of hi # lo # rest \<Rightarrow> Some (a, 256 * unat hi + unat lo, rest) | _ \<Rightarrow> None)"

definition decodeConnect :: "bytes \<Rightarrow> (socks_addr \<times> nat \<times> bytes) option" where
  "decodeConnect bs =
     (if take 3 bs \<noteq> [0x05, 0x01, 0x00] then None
      else (case drop 3 bs of
              [] \<Rightarrow> None
            | t # bs \<Rightarrow>
                if t = 0x01 then decodePort (AddrIPv4 (take 4 bs)) (drop 4 bs)
                else if t = 0x04 then decodePort (AddrIPv6 (take 16 bs)) (drop 16 bs)
                else if t = 0x03 then
                  (case bs of [] \<Rightarrow> None
                   | l # bs \<Rightarrow> decodePort (AddrDomain (stringOf (take (unat l) bs))) (drop (unat l) bs))
                else None))"

definition successReply :: "bytes \<Rightarrow> bool" where
  "successReply r \<longleftrightarrow>
     (\<exists>rsv bnd. r = [0x05, 0x00, rsv, 0x01] @ bnd \<and> length bnd = 6) \<or>
     (\<exists>rsv l bnd. r = [0x05, 0x00, rsv, 0x03, l] @ bnd \<and> length bnd = unat l + 2) \<or>
     (\<exists>rsv bnd. r = [0x05, 0x00, rsv, 0x04] @ bnd \<and> length bnd = 18)"

definition authMessage :: "ProxyDialer \<Rightarrow> bytes" where
  "authMessage d =
     [0x01, word_of_nat (length (pd_username d))] @ bytesOf (pd_username d) @
     [word_of_nat (length (pd_password d))] @ bytesOf (pd_password d)"

subsection \<open>Facts about the streams\<close>

lemma length_bytesOf [simp]: "length (bytesOf s) = length s"
  by (simp add: bytesOf_def)

lemma of_char_bound: "(of_char c :: nat) < 256"
  by (rule nat_of_char_less_256)

lemma stringOf_bytesOf [simp]: "stringOf (bytesOf s) = s"
proof -
  have "char_of (unat (word_of_nat (of_char c) :: 8 word)) = c" for c :: char
  proof -
    have "(of_char c :: nat) < 2 ^ LENGTH(8)" using of_char_bound [of c] by simp
    then have "unat (word_of_nat (of_char c) :: 8 word) = of_char c" by (simp add: unat_of_nat take_bit_nat_eq_self)
    then show ?thesis by simp
  qed
  then show ?thesis by (simp add: stringOf_def bytesOf_def comp_def map_idI)
qed

lemma read'_eq:
  "read' what n st = Inr (bs, st') \<longleftrightarrow>
     (\<exists>rest. k_in st = bs @ rest \<and> length bs = n \<and> st' = st\<lparr>k_in := rest\<rparr>)"
proof
  assume "read' what n st = Inr (bs, st')"
  then show "\<exists>rest. k_in st = bs @ rest \<and> length bs = n \<and> st' = st\<lparr>k_in := rest\<rparr>"
    by (intro exI [of _ "drop n (k_in st)"])
      (auto simp: read'_def readFull_def split: option.splits if_splits)
qed (auto simp: read'_def readFull_def)

lemma write'_eq:
  "k_writes st = None \<Longrightarrow> write' what bs st = Inr st' \<longleftrightarrow> st' = st\<lparr>k_out := k_out st @ bs\<rparr>"
  by (auto simp: write'_def connWrite_def)

lemma write'_frame:
  "write' what bs st = Inr st' \<Longrightarrow>
     k_in st' = k_in st \<and> k_out st' = k_out st @ bs \<and> k_deadline st' = k_deadline st"
  by (auto simp: write'_def connWrite_def split: option.splits nat.splits)

lemma length2: "length bs = 2 \<longleftrightarrow> (\<exists>a b. bs = [a, b])"
  by (auto simp: numeral_2_eq_2 length_Suc_conv)

lemma length4: "length bs = 4 \<longleftrightarrow> (\<exists>a b c d. bs = [a, b, c, d])"
  by (auto simp: eval_nat_numeral length_Suc_conv)

lemma readBindAddress_eq:
  "readBindAddress n st = Inr st' \<longleftrightarrow>
     (\<exists>bnd rest. k_in st = bnd @ rest \<and> length bnd = n + 2 \<and> st' = st\<lparr>k_in := rest\<rparr>)"
proof
  assume L: "readBindAddress n st = Inr st'"
  have "\<exists>a b rest. k_in st = a @ b @ rest \<and> length a = n \<and> length b = 2 \<and> st' = st\<lparr>k_in := rest\<rparr>"
  proof (cases "n = 0")
    case True
    with L show ?thesis by (simp add: readBindAddress_def res_simps read'_eq)
  next
    case False
    with L obtain a st1 b where "read' ''bind address'' n st = Inr (a, st1)"
      and "read' ''bind port'' 2 st1 = Inr (b, st')"
      by (auto simp: readBindAddress_def res_simps)
    then show ?thesis by (auto simp: read'_eq) blast
  qed
  then show "\<exists>bnd rest. k_in st = bnd @ rest \<and> length bnd = n + 2 \<and> st' = st\<lparr>k_in := rest\<rparr>"
    by (metis append.assoc length_append)
next
  assume "\<exists>bnd rest. k_in st = bnd @ rest \<and> length bnd = n + 2 \<and> st' = st\<lparr>k_in := rest\<rparr>"
  then obtain bnd rest where b: "k_in st = bnd @ rest" "length bnd = n + 2" "st' = st\<lparr>k_in := rest\<rparr>"
    by blast
  have "read' ''bind address'' n st = Inr (take n bnd, st\<lparr>k_in := drop n bnd @ rest\<rparr>)"
    using b by (simp add: read'_def readFull_def)
  moreover have "read' ''bind port'' 2 (st\<lparr>k_in := drop n bnd @ rest\<rparr>) = Inr (drop n bnd, st')"
    using b by (simp add: read'_eq)
  moreover have "read' ''bind port'' 2 st = Inr (bnd, st')" if "n = 0"
    using b that by (simp add: read'_eq)
  ultimately show "readBindAddress n st = Inr st'"
    by (cases "n = 0") (simp_all add: readBindAddress_def)
qed

text \<open>The part of a reply after its header, by address type.\<close>

definition replyTail :: "8 word \<Rightarrow> bytes \<Rightarrow> bool" where
  "replyTail atyp bs \<longleftrightarrow>
     atyp = 0x01 \<and> length bs = 6 \<or> atyp = 0x04 \<and> length bs = 18 \<or>
     atyp = 0x03 \<and> (\<exists>l bnd. bs = l # bnd \<and> length bnd = unat l + 2)"

lemma replyTail_eq:
  "rbind (replyDiscard t st) (\<lambda>(n, st). readBindAddress n st) = Inr st' \<longleftrightarrow>
     (\<exists>bs rest. replyTail t bs \<and> k_in st = bs @ rest \<and> st' = st\<lparr>k_in := rest\<rparr>)"
proof (cases "t = 0x03")
  case True
  show ?thesis
  proof (cases "k_in st")
    case Nil
    with True show ?thesis
      by (auto simp: replyDiscard_def replyTail_def read'_def readFull_def)
  next
    case (Cons l xs)
    have rt: "replyTail t bs \<longleftrightarrow> (\<exists>l bnd. bs = l # bnd \<and> length bnd = unat l + 2)" for bs
      using True by (simp add: replyTail_def)
    have "rbind (replyDiscard t st) (\<lambda>(n, st). readBindAddress n st) = Inr st' \<longleftrightarrow>
        (\<exists>bnd rest. xs = bnd @ rest \<and> length bnd = unat l + 2 \<and> st' = st\<lparr>k_in := rest\<rparr>)"
      using True Cons by (simp add: replyDiscard_def read'_def readFull_def readBindAddress_eq)
    also have "\<dots> \<longleftrightarrow> (\<exists>l' bnd rest. l # xs = (l' # bnd) @ rest \<and> length bnd = unat l' + 2 \<and>
        st' = st\<lparr>k_in := rest\<rparr>)"
      by auto
    also have "\<dots> \<longleftrightarrow> (\<exists>bs rest. replyTail t bs \<and> k_in st = bs @ rest \<and> st' = st\<lparr>k_in := rest\<rparr>)"
      unfolding rt Cons by blast
    finally show ?thesis .
  qed
next
  case False
  then show ?thesis
    by (cases "t = 0x01"; cases "t = 0x04")
      (simp_all add: replyDiscard_def replyTail_def readBindAddress_eq conj_ac)
qed

lemma successReply_tail:
  "successReply r \<longleftrightarrow> (\<exists>rsv t bs. r = [0x05, 0x00, rsv, t] @ bs \<and> replyTail t bs)"
  unfolding successReply_def replyTail_def by auto

lemma readSOCKS5Reply_eq:
  "readSOCKS5Reply st = Inr st' \<longleftrightarrow>
     (\<exists>r rest. successReply r \<and> k_in st = r @ rest \<and> st' = st\<lparr>k_in := rest\<rparr>)"
proof (cases "4 \<le> length (k_in st)")
  case False
  then show ?thesis
    by (auto simp: readSOCKS5Reply_def read'_def readFull_def successReply_tail)
next
  case True
  then obtain a b c t xs where k: "k_in st = a # b # c # t # xs"
    by (auto simp: eval_nat_numeral Suc_le_length_iff)
  have "readSOCKS5Reply st = Inr st' \<longleftrightarrow> a = 5 \<and> b = 0 \<and>
      rbind (replyDiscard t (st\<lparr>k_in := xs\<rparr>)) (\<lambda>(n, st). readBindAddress n st) = Inr st'"
    by (simp add: readSOCKS5Reply_def read'_def readFull_def k)
  also have "\<dots> \<longleftrightarrow> (\<exists>bs rest. a = 5 \<and> b = 0 \<and> replyTail t bs \<and> xs = bs @ rest \<and> st' = st\<lparr>k_in := rest\<rparr>)"
    unfolding replyTail_eq by auto
  also have "\<dots> \<longleftrightarrow> (\<exists>rsv t' bs rest. replyTail t' bs \<and> k_in st = ([5, 0, rsv, t'] @ bs) @ rest \<and>
      st' = st\<lparr>k_in := rest\<rparr>)"
    unfolding k by auto
  also have "\<dots> \<longleftrightarrow> (\<exists>r rest. successReply r \<and> k_in st = r @ rest \<and> st' = st\<lparr>k_in := rest\<rparr>)"
    unfolding successReply_tail by blast
  finally show ?thesis .
qed

lemma read2:
  "read' what 2 st = Inr (bs, st') \<longleftrightarrow> (\<exists>a b rest. bs = [a, b] \<and> k_in st = a # b # rest \<and> st' = st\<lparr>k_in := rest\<rparr>)"
  by (auto simp: read'_eq length2)

lemma rbind_read2:
  "rbind (read' what 2 st) f = Inr x \<longleftrightarrow>
     (\<exists>a b rest. k_in st = a # b # rest \<and> f ([a, b], st\<lparr>k_in := rest\<rparr>) = Inr x)"
  unfolding rbind_eq_Inr split_paired_Ex read2 by blast

lemma rbind_write:
  "k_writes st = None \<Longrightarrow> rbind (write' what bs st) f = f (st\<lparr>k_out := k_out st @ bs\<rparr>)"
  by (simp add: write'_def connWrite_def)

lemma authenticate_eq:
  assumes "k_writes st = None"
  shows "authenticate d st = Inr st' \<longleftrightarrow>
    length (pd_username d) \<le> 255 \<and> length (pd_password d) \<le> 255 \<and>
    (\<exists>rest. k_in st = 0x01 # 0x00 # rest \<and>
       st' = st\<lparr>k_out := k_out st @ authMessage d, k_in := rest\<rparr>)"
  using assms
  by (auto simp: authenticate_def authMessage_def rbind_write rbind_read2)

subsection \<open>The request\<close>

lemma port_bytes:
  assumes "1 \<le> p" and "p \<le> 65535"
  shows "256 * unat (word_of_int (p div 256) :: 8 word) + unat (word_of_int p :: 8 word) = nat p"
proof -
  have "0 \<le> p div 256" "p div 256 < 2 ^ 8" using assms by auto
  then have "unat (word_of_int (p div 256) :: 8 word) = nat (p div 256)"
    by (simp add: unsigned_of_int take_bit_int_eq_self)
  moreover have "unat (word_of_int p :: 8 word) = nat (p mod 256)"
    using assms by (simp add: unsigned_of_int take_bit_int_def)
  ultimately show ?thesis
    using assms by (simp add: nat_div_distrib nat_mod_distrib)
qed

definition targetAddr :: "string \<Rightarrow> socks_addr" where
  "targetAddr host =
     (case ParseIP host of
        None \<Rightarrow> AddrDomain host
      | Some ip \<Rightarrow> if To4 ip \<noteq> [] then AddrIPv4 (To4 ip) else AddrIPv6 (To16 ip))"

lemma decode_request:
  assumes "socks5ConnectRequest target = Inr bs"
  shows "\<exists>host ps p. SplitHostPort target = Some (host, ps) \<and> Atoi ps = Some p \<and> 1 \<le> p \<and> p \<le> 65535 \<and>
    decodeConnect (bs @ rest) = Some (targetAddr host, nat p, rest)"
proof -
  obtain host ps p addr where h: "SplitHostPort target = Some (host, ps)" "Atoi ps = Some p"
    "1 \<le> p" "p \<le> 65535"
    and addr: "(case ParseIP host of
         Some ip \<Rightarrow> if To4 ip \<noteq> [] then Inr (0x01 # To4 ip) else Inr (0x04 # To16 ip)
       | None \<Rightarrow> if 255 < length host then Inl SocksHostTooLong
                 else Inr ([0x03, word_of_nat (length host)] @ bytesOf host)) = Inr addr"
    and bs: "bs = [0x05, 0x01, 0x00] @ addr @ [word_of_int (p div 256), word_of_int p]"
    using assms by (auto simp: socks5ConnectRequest_def res_simps split: option.splits if_splits)
  have port: "decodePort a ([word_of_int (p div 256), word_of_int p] @ rest) = Some (a, nat p, rest)" for a
    using port_bytes [OF h(3,4)] by (simp add: decodePort_def)
  have "decodeConnect (bs @ rest) = Some (targetAddr host, nat p, rest)"
  proof (cases "ParseIP host")
    case None
    with addr have len: "length host \<le> 255" and a: "addr = [0x03, word_of_nat (length host)] @ bytesOf host"
      by (auto split: if_splits)
    have "unat (word_of_nat (length host) :: 8 word) = length host"
      using len by (simp add: unat_of_nat take_bit_nat_eq_self)
    then show ?thesis
      using None port [simplified] by (simp add: bs a decodeConnect_def targetAddr_def)
  next
    case (Some ip)
    have 16: "length (To16 ip) = 16" using ParseIP_length [OF Some] by (simp add: To16_def)
    show ?thesis
    proof (cases "To4 ip = []")
      case True
      with addr Some have "addr = 0x04 # To16 ip" by simp
      with True Some 16 port [simplified] show ?thesis
        by (simp add: bs decodeConnect_def targetAddr_def)
    next
      case False
      with addr Some have "addr = 0x01 # To4 ip" by simp
      with False Some To4_length [OF False] port [simplified] show ?thesis
        by (simp add: bs decodeConnect_def targetAddr_def)
    qed
  qed
  with h show ?thesis by blast
qed

subsection \<open>The whole handshake\<close>

definition methodExchange :: "ProxyDialer \<Rightarrow> 8 word \<Rightarrow> bytes \<Rightarrow> bytes \<Rightarrow> bool" where
  "methodExchange d m received sent \<longleftrightarrow>
     m = 0x00 \<and> received = [] \<and> sent = [] \<or>
     m = 0x02 \<and> received = [0x01, 0x00] \<and> sent = authMessage d \<and>
       length (pd_username d) \<le> 255 \<and> length (pd_password d) \<le> 255"

lemma method_eq:
  assumes "k_writes st = None"
  shows "(if m = 0x00 then Inr st else if m = 0x02 then authenticate d st else Inl SocksMethodRejected) = Inr st' \<longleftrightarrow>
    (\<exists>a b rest. methodExchange d m a b \<and> k_in st = a @ rest \<and>
       st' = st\<lparr>k_in := rest, k_out := k_out st @ b\<rparr>)"
  using assms by (auto simp: methodExchange_def authenticate_eq)

lemma handshake_eq:
  assumes "k_writes st = None"
  shows "handshake d target st = Inr st' \<longleftrightarrow>
    (\<exists>req m a b r rest. socks5ConnectRequest target = Inr req \<and> successReply r \<and>
       methodExchange d m a b \<and> k_in st = [0x05, m] @ a @ r @ rest \<and>
       st' = st\<lparr>k_in := rest, k_out := k_out st @ socksGreeting d @ b @ req\<rparr>)"
proof -
  let ?st1 = "st\<lparr>k_out := k_out st @ socksGreeting d\<rparr>"
  have "handshake d target st = Inr st' \<longleftrightarrow>
      (\<exists>m xs st2 req. k_in st = 0x05 # m # xs \<and>
        (if m = 0x00 then Inr (?st1\<lparr>k_in := xs\<rparr>) else if m = 0x02 then authenticate d (?st1\<lparr>k_in := xs\<rparr>)
         else Inl SocksMethodRejected) = Inr st2 \<and>
        socks5ConnectRequest target = Inr req \<and>
        rbind (write' ''connect'' req st2) readSOCKS5Reply = Inr st')"
    using assms
    by (auto simp: handshake_def rbind_write rbind_read2 rbind_eq_Inr [of "socks5ConnectRequest target"]
        rbind_eq_Inr [of "if _ then _ else _"] simp del: if_split_asm)
  also have "\<dots> \<longleftrightarrow> (\<exists>m xs a b ys req. k_in st = 0x05 # m # xs \<and> methodExchange d m a b \<and> xs = a @ ys \<and>
        socks5ConnectRequest target = Inr req \<and>
        readSOCKS5Reply (st\<lparr>k_in := ys, k_out := k_out st @ socksGreeting d @ b @ req\<rparr>) = Inr st')"
  proof -
    have w: "readSOCKS5Reply (st\<lparr>k_in := ys, k_out := k_out st @ socksGreeting d @ b @ req\<rparr>) =
        rbind (write' ''connect'' req (?st1\<lparr>k_in := ys, k_out := k_out ?st1 @ b\<rparr>)) readSOCKS5Reply"
      for b ys req using assms by (simp add: rbind_write)
    have m: "(if m = 0x00 then Inr (?st1\<lparr>k_in := xs\<rparr>) else if m = 0x02 then authenticate d (?st1\<lparr>k_in := xs\<rparr>)
         else Inl SocksMethodRejected) = Inr st2 \<longleftrightarrow>
        (\<exists>a b ys. methodExchange d m a b \<and> xs = a @ ys \<and>
           st2 = ?st1\<lparr>k_in := ys, k_out := k_out ?st1 @ b\<rparr>)" for m xs st2
      using method_eq [of "?st1\<lparr>k_in := xs\<rparr>"] assms by simp
    show ?thesis unfolding w m by blast
  qed
  also have "\<dots> \<longleftrightarrow> (\<exists>req m a b r rest. socks5ConnectRequest target = Inr req \<and> successReply r \<and>
       methodExchange d m a b \<and> k_in st = [0x05, m] @ a @ r @ rest \<and>
       st' = st\<lparr>k_in := rest, k_out := k_out st @ socksGreeting d @ b @ req\<rparr>)"
  proof -
    have "readSOCKS5Reply (st\<lparr>k_in := ys, k_out := out\<rparr>) = Inr st' \<longleftrightarrow>
        (\<exists>r rest. successReply r \<and> ys = r @ rest \<and> st' = st\<lparr>k_in := rest, k_out := out\<rparr>)" for ys out
    proof -
      have "st\<lparr>k_in := ys, k_out := out\<rparr>\<lparr>k_in := rest\<rparr> = st\<lparr>k_in := rest, k_out := out\<rparr>" for rest
        by (cases st) simp
      moreover have "k_in (st\<lparr>k_in := ys, k_out := out\<rparr>) = ys" by simp
      ultimately show ?thesis unfolding readSOCKS5Reply_eq by presburger
    qed
    then show ?thesis by (simp only: append_Cons append_Nil) blast
  qed
  finally show ?thesis .
qed

subsection \<open>Properties\<close>

text \<open>
  C20. The SOCKS5 CONNECT request carries the target: a server decoding it reads back the
  host of the target (as an IPv4 or IPv6 address when it is one, as the same domain name
  otherwise) and its port, and nothing of the bytes that follow is consumed.
\<close>

theorem socks5ConnectRequest_roundtrip:
  assumes "socks5ConnectRequest target = Inr bs"
  shows "\<exists>host ps p. SplitHostPort target = Some (host, ps) \<and> Atoi ps = Some p \<and> 1 \<le> p \<and> p \<le> 65535 \<and>
    decodeConnect (bs @ rest) = Some (targetAddr host, nat p, rest)"
  by (rule decode_request [OF assms])

theorem socks5ConnectRequest_roundtrip_witness:
  "\<exists>bs. socks5ConnectRequest ''a.com:443'' = Inr bs \<and>
     decodeConnect bs = Some (AddrDomain ''a.com'', 443, [])"
proof -
  have "is_ok (socks5ConnectRequest ''a.com:443'')" by code_simp
  then obtain bs where bs: "socks5ConnectRequest ''a.com:443'' = Inr bs" by auto
  have "SplitHostPort ''a.com:443'' = Some (''a.com'', ''443'')" "Atoi ''443'' = Some 443"
    "targetAddr ''a.com'' = AddrDomain ''a.com''" by code_simp+
  with socks5ConnectRequest_roundtrip [OF bs, of "[]"] bs show ?thesis by auto
qed

text \<open>
  The SOCKS5 handshake succeeds exactly when the server chooses a method of version 5,
  accepts the credentials if it asks for them, and answers the request with a success reply;
  it then has written the greeting, the credentials only if asked for, and the request, and
  has consumed exactly the server's replies, so that the first byte the caller reads is the
  first byte of the tunnelled connection.
\<close>

theorem socks5_handshake_iff:
  assumes "k_writes st = None"
  shows "handshake d target st = Inr st' \<longleftrightarrow>
    (\<exists>req m a b r rest. socks5ConnectRequest target = Inr req \<and> successReply r \<and>
       methodExchange d m a b \<and> k_in st = [0x05, m] @ a @ r @ rest \<and>
       st' = st\<lparr>k_in := rest, k_out := k_out st @ socksGreeting d @ b @ req\<rparr>)"
  by (rule handshake_eq [OF assms])

theorem socks5_handshake_iff_witness:
  "\<exists>st'. handshake \<lparr>pd_proxyAddr = [], pd_username = [], pd_password = [], pd_timeout = 0\<rparr> ''a.com:443''
       \<lparr>k_in = [5, 0, 5, 0, 0, 1, 0, 0, 0, 0, 0, 0, 42], k_out = [], k_writes = None, k_deadline = None\<rparr> = Inr st'
     \<and> k_in st' = [42]"
proof -
  let ?d = "\<lparr>pd_proxyAddr = [], pd_username = [], pd_password = [], pd_timeout = 0\<rparr>"
  let ?st = "\<lparr>k_in = [5, 0, 5, 0, 0, 1, 0, 0, 0, 0, 0, 0, 42], k_out = [], k_writes = None, k_deadline = None\<rparr> :: stream"
  let ?r = "[5, 0, 0, 1, 0, 0, 0, 0, 0, 0] :: bytes"
  have "is_ok (socks5ConnectRequest ''a.com:443'')" by code_simp
  then obtain req where req: "socks5ConnectRequest ''a.com:443'' = Inr req" by auto
  have "successReply ?r" by (auto simp: successReply_def)
  moreover have "methodExchange ?d 0 [] []" by (simp add: methodExchange_def)
  moreover have "k_in ?st = [0x05, 0] @ [] @ ?r @ [42]" by simp
  ultimately have "handshake ?d ''a.com:443'' ?st =
      Inr (?st\<lparr>k_in := [42], k_out := k_out ?st @ socksGreeting ?d @ [] @ req\<rparr>)"
    using socks5_handshake_iff [of ?st ?d "''a.com:443''"] req by fastforce
  then show ?thesis by auto
qed

end
