(* ===== verification/Probe.thy ===== *)
theory Probe
  imports Upstream
begin

section \<open>Package upstream: probes\<close>

text \<open>
  \<^verbatim>\<open>internal/upstream/probe.go\<close>: an HTTPS probe walks the dial candidates of a target
  through the stages tcp, tls and http.  The environment of the dialers is extended by the
  outcome of the \<open>i\<close>-th HEAD request; the measured duration is left out.
\<close>

record ProbeResult =
  pr_ProviderID :: string
  pr_Host :: string
  pr_Target :: string
  pr_TLSServerName :: string
  pr_OK :: bool
  pr_Stage :: string
  pr_HTTPStatus :: string
  pr_Error :: string

definition normalizeProbeTarget :: "ProbeTarget \<Rightarrow> ProbeTarget" where
  "normalizeProbeTarget target =
     (let port = TrimSpace (pt_Port target); path = TrimSpace (pt_Path target) in
      target\<lparr>pt_Host := TrimSpace (pt_Host target),
             pt_Port := (if port = [] then ''443'' else port),
             pt_Path := (if path = [] \<or> \<not> HasPrefix path ''/'' then ''/'' else path)\<rparr>)"

definition appendProbeFailure :: "string list \<Rightarrow> string \<Rightarrow> string list" where
  "appendProbeFailure failures failure =
     (let failure = TrimSpace failure in
      if failure = [] then failures
      else if 3 \<le> length failures then failures
      else failures @ [failure])"

definition probeAttemptsError :: "DirectDialAttempt list \<Rightarrow> string" where
  "probeAttemptsError attempts =
     (if attempts = [] then []
      else Join (foldl (\<lambda>fs a. appendProbeFailure fs (attemptError a)) [] attempts) ''; '')"

record ProbeEnv' =
  pb_dial :: DialEnv
  pb_handshake :: "nat \<Rightarrow> (neterr, peerCertificates) result"
  pb_head :: "nat \<Rightarrow> (neterr, string) result"

definition finishProbe :: "DirectDialAttempt list \<Rightarrow> string list \<Rightarrow> ProbeResult \<Rightarrow> ProbeResult" where
  "finishProbe attempts failures r =
     (let e = Join failures ''; '';
          e = (if e = [] then probeAttemptsError attempts else e)
      in r\<lparr>pr_Error := (if e = [] then ''all probe candidates failed'' else e)\<rparr>)"

primrec probeLoop ::
    "x509 \<Rightarrow> ProbeEnv' \<Rightarrow> TLSConfig option \<Rightarrow> ProbeTarget \<Rightarrow> DirectDialAttempt list \<Rightarrow>
     nat \<Rightarrow> dialCandidate list \<Rightarrow> string list \<Rightarrow> ProbeResult \<Rightarrow> ProbeResult" where
  "probeLoop X B cfg target attempts i [] failures r = finishProbe attempts failures r"
| "probeLoop X B cfg target attempts i (c # cs) failures r =
     (let r = r\<lparr>pr_Target := dc_target c, pr_TLSServerName := dc_tlsServerName c, pr_Stage := ''tcp''\<rparr>;
          again = (\<lambda>f r. probeLoop X B cfg target attempts (Suc i) cs (appendProbeFailure failures f) r)
      in case nv_dial (pb_dial B) i ''tcp'' (dc_address c) of
           Inl e \<Rightarrow> again (attemptError (failedAttempt ''tcp'' c e)) r
         | Inr conn \<Rightarrow>
             (case rbind (pb_handshake B i) (\<lambda>certs.
                    if tlsAccepts X (cloneTLSConfig X cfg (dc_tlsServerName c) (dc_ignoreTLSNameMismatch c)) certs
                    then Inr () else Inl ''certificate verification failed'') of
                Inl e \<Rightarrow> again (attemptError (failedAttempt ''tls'' c e)) (r\<lparr>pr_Stage := ''tls''\<rparr>)
              | Inr _ \<Rightarrow>
                  (case pb_head B i of
                     Inl e \<Rightarrow> again (''http '' @ JoinHostPort (pt_Host target) (pt_Port target) @ '' failed: '' @ e)
                               (r\<lparr>pr_Stage := ''http''\<rparr>)
                   | Inr status \<Rightarrow> r\<lparr>pr_Stage := ''http'', pr_OK := True, pr_HTTPStatus := status, pr_Error := []\<rparr>)))"

definition probeHTTPS ::
    "golib \<Rightarrow> x509 \<Rightarrow> ProbeEnv' \<Rightarrow> TLSConfig option \<Rightarrow> DirectDialer \<Rightarrow> ProbeTarget \<Rightarrow> ProbeResult" where
  "probeHTTPS E X B cfg d target =
     (let r = \<lparr>pr_ProviderID = pt_ProviderID target, pr_Host = pt_Host target, pr_Target = [],
               pr_TLSServerName = [], pr_OK = False, pr_Stage = ''resolve'', pr_HTTPStatus = [], pr_Error = []\<rparr>
      in case candidates E (pb_dial B) d (pt_Host target) (pt_Port target) of
           Inl e \<Rightarrow> r\<lparr>pr_Error := e\<rparr>
         | Inr (cs, attempts) \<Rightarrow>
             if cs = [] then
               r\<lparr>pr_Error := (if probeAttemptsError attempts = [] then ''no probe candidates''
                              else probeAttemptsError attempts)\<rparr>
             else probeLoop X B cfg target attempts 0 cs
                    (foldl (\<lambda>fs a. appendProbeFailure fs (attemptError a)) [] attempts) r)"

text \<open>The goroutines of \<open>ProbeHTTPS\<close> write disjoint entries of the result slice.\<close>

definition ProbeHTTPS ::
    "golib \<Rightarrow> x509 \<Rightarrow> (nat \<Rightarrow> ProbeEnv') \<Rightarrow> TLSConfig option \<Rightarrow> DirectDialer \<Rightarrow> ProbeTarget list \<Rightarrow> ProbeResult list" where
  "ProbeHTTPS E X B cfg d targets =
     map (\<lambda>(i, target). probeHTTPS E X (B i) cfg d (normalizeProbeTarget target)) (enumerate 0 targets)"

subsection \<open>Facts\<close>

lemma appendProbeFailure_length: "length fs \<le> 3 \<Longrightarrow> length (appendProbeFailure fs f) \<le> 3"
  by (simp add: appendProbeFailure_def Let_def)

text \<open>The candidate that passes all three stages of a probe.\<close>

definition probePasses :: "x509 \<Rightarrow> ProbeEnv' \<Rightarrow> TLSConfig option \<Rightarrow> nat \<Rightarrow> dialCandidate \<Rightarrow> bool" where
  "probePasses X B cfg i c \<longleftrightarrow>
     is_ok (nv_dial (pb_dial B) i ''tcp'' (dc_address c)) \<and>
     (\<exists>certs. pb_handshake B i = Inr certs \<and>
        tlsAccepts X (cloneTLSConfig X cfg (dc_tlsServerName c) (dc_ignoreTLSNameMismatch c)) certs) \<and>
     is_ok (pb_head B i)"

lemma ex_less_Suc: "(\<exists>k<Suc n. P k) \<longleftrightarrow> P 0 \<or> (\<exists>k<n. P (Suc k))"
  using less_Suc_eq_0_disj by auto

lemma probeLoop_OK:
  "\<not> pr_OK r \<Longrightarrow>
   (pr_OK (probeLoop X B cfg t at i cs fs r) \<longleftrightarrow> (\<exists>k<length cs. probePasses X B cfg (i + k) (cs ! k))) \<and>
   (pr_Error (probeLoop X B cfg t at i cs fs r) = [] \<longleftrightarrow> (\<exists>k<length cs. probePasses X B cfg (i + k) (cs ! k)))"
proof (induction cs arbitrary: i fs r)
  case Nil
  then show ?case by (simp add: finishProbe_def Let_def)
next
  case (Cons c cs)
  let ?r = "r\<lparr>pr_Target := dc_target c, pr_TLSServerName := dc_tlsServerName c, pr_Stage := ''tcp''\<rparr>"
  have IH: "(pr_OK (probeLoop X B cfg t at (Suc i) cs fs' r') \<longleftrightarrow> (\<exists>k<length cs. probePasses X B cfg (i + Suc k) (cs ! k))) \<and>
   (pr_Error (probeLoop X B cfg t at (Suc i) cs fs' r') = [] \<longleftrightarrow> (\<exists>k<length cs. probePasses X B cfg (i + Suc k) (cs ! k)))"
    if "\<not> pr_OK r'" for fs' r'
    using Cons.IH [OF that, of "Suc i" fs'] by simp
  have ex: "(\<exists>k<length (c # cs). probePasses X B cfg (i + k) ((c # cs) ! k)) \<longleftrightarrow>
      probePasses X B cfg i c \<or> (\<exists>k<length cs. probePasses X B cfg (i + Suc k) (cs ! k))"
    by (simp add: ex_less_Suc)
  show ?case
    unfolding ex using IH Cons.prems
    by (auto simp: probePasses_def Let_def rbind_def split: sum.splits)
qed

subsection \<open>Property\<close>

text \<open>
  A probe reports success exactly when some candidate passes the TCP, TLS and HTTP stages
  in turn, and then exactly with an empty error text: a failed probe always carries an error.
\<close>

theorem probeHTTPS_OK_iff:
  assumes "candidates E (pb_dial B) d (pt_Host t) (pt_Port t) = Inr (cs, at)"
  shows "(pr_OK (probeHTTPS E X B cfg d t) \<longleftrightarrow> (\<exists>k<length cs. probePasses X B cfg k (cs ! k))) \<and>
    (pr_OK (probeHTTPS E X B cfg d t) \<longleftrightarrow> pr_Error (probeHTTPS E X B cfg d t) = [])"
  using assms probeLoop_OK [where i = 0 and cs = cs]
  by (simp add: probeHTTPS_def Let_def)

theorem probeHTTPS_OK_iff_witness:
  "pr_OK (probeHTTPS sampleLib sampleX509
     \<lparr>pb_dial = sampleEnv, pb_handshake = (\<lambda>_. Inr [''good'']), pb_head = (\<lambda>_. Inr ''200 OK'')\<rparr> None
     \<lparr>dd_timeout = 0, dd_profiles = []\<rparr>
     \<lparr>pt_ProviderID = [], pt_Host = ''a.com'', pt_Port = ''443'', pt_Path = ''/''\<rparr>)"
proof -
  let ?B = "\<lparr>pb_dial = sampleEnv, pb_handshake = (\<lambda>_. Inr [''good'']), pb_head = (\<lambda>_. Inr ''200 OK'')\<rparr>"
  let ?t = "\<lparr>pt_ProviderID = [], pt_Host = ''a.com'', pt_Port = ''443'', pt_Path = ''/''\<rparr>"
  let ?d = "\<lparr>dd_timeout = 0, dd_profiles = []\<rparr>"
  have 1: "candidates sampleLib (pb_dial ?B) ?d (pt_Host ?t) (pt_Port ?t) =
      Inr (map (mkCandidate ''a.com'' ''443'' ''a.com'' ''a.com'' False) [[1, 2, 3, 4], [5, 6, 7, 8]], [])"
    by (simp add: candidates_def matchProfile_def sampleEnv_def mkCandidate_def)
  show ?thesis
    unfolding probeHTTPS_OK_iff [OF 1, THEN conjunct1]
    by (intro exI [of _ 1])
      (simp add: probePasses_def sampleEnv_def mkCandidate_def tlsAccepts_def cloneTLSConfig_def sampleX509_def)
qed

end
