(* ===== verification/Json.thy ===== *)
theory Json
  imports GoStrings
begin

section \<open>State files as JSON values\<close>

text \<open>
  The runtime and rollback state files are JSON documents written and read by
  \<^verbatim>\<open>encoding/json\<close>.  They are modelled at the level of JSON values: an encoder per
  state struct, and decoders that read a field as the Go decoder does (a missing or null field
  is the zero value, a field of the wrong type is an error).  A number that is no integer literal
  is kept as its text.
\<close>

datatype json =
    JNull
  | JBool bool
  | JNum int
  | JReal string
  | JStr string
  | JArr "json list"
  | JObj "(string \<times> json) list"

definition jfield :: "string \<Rightarrow> json \<Rightarrow> json" where
  "jfield key j =
     (case j of JObj kvs \<Rightarrow> (case map_of kvs key of None \<Rightarrow> JNull | Some v \<Rightarrow> v) | _ \<Rightarrow> JNull)"

definition asStr :: "json \<Rightarrow> string option" where
  "asStr j = (case j of JStr s \<Rightarrow> Some s | JNull \<Rightarrow> Some [] | _ \<Rightarrow> None)"

definition asInt :: "json \<Rightarrow> int option" where
  "asInt j = (case j of JNum i \<Rightarrow> Some i | JNull \<Rightarrow> Some 0 | _ \<Rightarrow> None)"

definition asBool :: "json \<Rightarrow> bool option" where
  "asBool j = (case j of JBool b \<Rightarrow> Some b | JNull \<Rightarrow> Some False | _ \<Rightarrow> None)"

definition asList :: "(json \<Rightarrow> 'a option) \<Rightarrow> json \<Rightarrow> 'a list option" where
  "asList f j = (case j of JArr js \<Rightarrow> those (map f js) | JNull \<Rightarrow> Some [] | _ \<Rightarrow> None)"

definition isObj :: "json \<Rightarrow> bool" where
  "isObj j = (case j of JObj _ \<Rightarrow> True | JNull \<Rightarrow> True | _ \<Rightarrow> False)"

lemma as_simps [simp]:
  "asStr (JStr s) = Some s" "asInt (JNum i) = Some i" "asBool (JBool b) = Some b"
  "isObj (JObj fs)" "jfield k (JObj ((k', v) # fs)) = (if k = k' then v else jfield k (JObj fs))"
  "jfield k (JObj []) = JNull" "asStr JNull = Some []" "asInt JNull = Some 0" "asBool JNull = Some False"
  by (simp_all add: asStr_def asInt_def asBool_def isObj_def jfield_def)

lemma those_map_Some: "(\<And>x. x \<in> set xs \<Longrightarrow> f x = Some (g x)) \<Longrightarrow> those (map f xs) = Some (map g xs)"
  by (induction xs) auto

lemma asList_map [simp]:
  "(\<And>x. x \<in> set xs \<Longrightarrow> f (enc x) = Some x) \<Longrightarrow> asList f (JArr (map enc xs)) = Some xs"
  using those_map_Some [of xs "f \<circ> enc" "\<lambda>x. x"] by (simp add: asList_def comp_def)

lemma asList_Nil [simp]: "asList f JNull = Some []"
  by (simp add: asList_def)

text \<open>Fields tagged \<open>omitempty\<close> are left out when they have the zero value.\<close>

definition optField :: "string \<Rightarrow> bool \<Rightarrow> json \<Rightarrow> (string \<times> json) list" where
  "optField k present v = (if present then [(k, v)] else [])"

lemma jfield_optField:
  "jfield k (JObj (optField k' p v @ fs)) = (if k = k' \<and> p then v else jfield k (JObj fs))"
  by (simp add: optField_def)

lemma jfield_optField_last: "jfield k (JObj (optField k' p v)) = (if k = k' \<and> p then v else JNull)"
  by (simp add: optField_def)

lemmas optField_simps = jfield_optField jfield_optField_last

end
