(* ===== verification/Hosts.thy ===== *)
theory Hosts
  imports Config Json
begin

section \<open>Package hosts: the managed block of the hosts file\<close>

text \<open>
  \<^verbatim>\<open>internal/hosts/hosts.go\<close>.  The file system is two maps: the hosts files with their
  bytes, and the rollback files with their JSON values.  Which writes succeed is part of the
  platform record, and every operation returns its error together with the file system it
  leaves behind.  File modes and the time stamp of the state are left out.
\<close>

abbreviation markerStart :: string where "markerStart \<equiv> ''# BEGIN steam-accelerator-core''"
abbreviation markerEnd :: string where "markerEnd \<equiv> ''# END steam-accelerator-core''"
abbreviation managedComment :: string where
  "managedComment \<equiv> ''# Managed by steam-accelerator-core. Do not edit this block manually.''"
abbreviation hostsStateKind :: string where "hostsStateKind \<equiv> ''hosts''"

record Entry =
  en_IP :: string
  en_Host :: string

record HostsApply =
  ha_Path :: string
  ha_RollbackPath :: string
  ha_MapIP :: string
  ha_Entries :: "Entry list"

record HostsState =
  hs_Kind :: string
  hs_Version :: int
  hs_OS :: string
  hs_Mode :: string
  hs_Path :: string
  hs_MapIP :: string
  hs_Entries :: "Entry list"

record HostsPlatform =
  hp_Name :: string
  hp_Cancelled :: bool
  hp_Writable :: "string \<Rightarrow> bool"
  hp_StateWritable :: "string \<Rightarrow> bool"

record HostsFS =
  hf_text :: "string \<Rightarrow> string option"
  hf_json :: "string \<Rightarrow> json option"

datatype hosts_error =
    MapIPRequired
  | WildcardDomain string
  | NormalizeDomain string rules_error
  | UnsupportedPlatform string
  | HostsRequired string
  | ContextCancelled
  | ReadHostsFailed
  | WriteHostsFailed
  | WriteStateFailed
  | ParseStateFailed
  | NoState
  | WrongPlatform string string
  | RollbackNotWritable

subsection \<open>Entries\<close>

definition ConfigFromApp :: "Config \<Rightarrow> Entry list \<Rightarrow> HostsApply" where
  "ConfigFromApp cfg entries =
     \<lparr>ha_Path = ho_Path (c_Hosts cfg), ha_RollbackPath = rt_RollbackPath (c_Runtime cfg),
      ha_MapIP = ho_MapIP (c_Hosts cfg), ha_Entries = entries\<rparr>"

primrec collectEntries ::
    "golib \<Rightarrow> string \<Rightarrow> string list \<Rightarrow> string list \<Rightarrow> (hosts_error, Entry list) result" where
  "collectEntries E mapIP seen [] = Inr []"
| "collectEntries E mapIP seen (d # ds) =
     (let domain = TrimSpace d in
      if domain = [] then collectEntries E mapIP seen ds
      else if Contains domain ''*'' then Inl (WildcardDomain domain)
      else rbind (map_err (NormalizeDomain domain) (NormalizeHost E domain)) (\<lambda>host.
           if host \<in> set seen then collectEntries E mapIP seen ds
           else map_result (Cons \<lparr>en_IP = mapIP, en_Host = host\<rparr>)
                  (collectEntries E mapIP (host # seen) ds)))"

definition entryKey :: "Entry \<Rightarrow> string \<times> string" where
  "entryKey e = (en_Host e, en_IP e)"

definition EntriesFromDomains :: "golib \<Rightarrow> string list \<Rightarrow> string \<Rightarrow> (hosts_error, Entry list) result" where
  "EntriesFromDomains E domains mapIP =
     (if TrimSpace mapIP = [] then Inl MapIPRequired
      else map_result (sort_key entryKey) (collectEntries E mapIP [] domains))"

definition EntriesFromRules ::
    "golib \<Rightarrow> CompiledRules \<Rightarrow> string \<Rightarrow> (hosts_error, Entry list) result \<times> string list" where
  "EntriesFromRules E compiled mapIP =
     (EntriesFromDomains E (map cr_Host (crs_Exact compiled)) mapIP, map cr_Rule (crs_Wildcard compiled))"

subsection \<open>The managed block\<close>

definition entryLine :: "Entry \<Rightarrow> string" where
  "entryLine entry = en_IP entry @ '' '' @ en_Host entry"

definition renderBlock :: "Entry list \<Rightarrow> string" where
  "renderBlock entries =
     markerStart @ [LF] @ managedComment @ [LF] @
     concat (map (\<lambda>entry. entryLine entry @ [LF]) entries) @ markerEnd @ [LF]"

primrec stripLines :: "bool \<Rightarrow> string list \<Rightarrow> string list" where
  "stripLines inBlock [] = []"
| "stripLines inBlock (line # lines) =
     (let trimmed = TrimSpace line in
      if trimmed = markerStart then stripLines True lines
      else if inBlock then stripLines (trimmed \<noteq> markerEnd) lines
      else line # stripLines False lines)"

definition removeManagedBlock :: "string \<Rightarrow> string" where
  "removeManagedBlock body =
     (let lines = splitByte LF (ReplaceAll body [CR, LF] [LF]);
          joined = TrimRight (Join (stripLines False lines) [LF]) [LF]
      in if joined = [] then [] else joined @ [LF])"

definition appendManagedBlock :: "string \<Rightarrow> Entry list \<Rightarrow> string" where
  "appendManagedBlock original entries =
     (let base = TrimRight (removeManagedBlock original) [CR, LF]; block = renderBlock entries in
      if base = [] then block else base @ [LF, LF] @ block)"

subsection \<open>The rollback state\<close>

definition encodeEntry :: "Entry \<Rightarrow> json" where
  "encodeEntry e = JObj [(''ip'', JStr (en_IP e)), (''host'', JStr (en_Host e))]"

definition decodeEntry :: "json \<Rightarrow> Entry option" where
  "decodeEntry j =
     (case (isObj j, asStr (jfield ''ip'' j), asStr (jfield ''host'' j)) of
        (True, Some i, Some h) \<Rightarrow> Some \<lparr>en_IP = i, en_Host = h\<rparr> | _ \<Rightarrow> None)"

definition encodeState :: "HostsState \<Rightarrow> json" where
  "encodeState s =
     JObj [(''kind'', JStr (hs_Kind s)), (''version'', JNum (hs_Version s)), (''os'', JStr (hs_OS s)),
           (''mode'', JStr (hs_Mode s)), (''path'', JStr (hs_Path s)), (''map_ip'', JStr (hs_MapIP s)),
           (''entries'', JArr (map encodeEntry (hs_Entries s)))]"

definition decodeState :: "json \<Rightarrow> HostsState option" where
  "decodeState j =
     (case (isObj j, asStr (jfield ''kind'' j), asInt (jfield ''version'' j), asStr (jfield ''os'' j),
            asStr (jfield ''mode'' j), asStr (jfield ''path'' j), asStr (jfield ''map_ip'' j),
            asList decodeEntry (jfield ''entries'' j)) of
        (True, Some k, Some v, Some os, Some m, Some p, Some i, Some es) \<Rightarrow>
          Some \<lparr>hs_Kind = k, hs_Version = v, hs_OS = os, hs_Mode = m, hs_Path = p, hs_MapIP = i,
                hs_Entries = es\<rparr>
      | _ \<Rightarrow> None)"

definition WriteState :: "HostsPlatform \<Rightarrow> string \<Rightarrow> HostsState \<Rightarrow> HostsFS \<Rightarrow> (hosts_error, unit) result \<times> HostsFS" where
  "WriteState V path state fs =
     (if TrimSpace path = [] then (Inl (HostsRequired ''rollback path''), fs)
      else if \<not> hp_StateWritable V path then (Inl WriteStateFailed, fs)
      else (Inr (), fs\<lparr>hf_json := (hf_json fs)(path \<mapsto> encodeState state)\<rparr>))"

definition ReadState :: "string \<Rightarrow> HostsFS \<Rightarrow> (hosts_error, HostsState) result" where
  "ReadState path fs =
     (case hf_json fs path of
        None \<Rightarrow> Inl NoState
      | Some j \<Rightarrow> (case decodeState j of None \<Rightarrow> Inl ParseStateFailed | Some s \<Rightarrow> Inr s))"

definition RemoveState :: "string \<Rightarrow> HostsFS \<Rightarrow> HostsFS" where
  "RemoveState path fs = fs\<lparr>hf_json := (hf_json fs)(path := None)\<rparr>"

definition HasState :: "string \<Rightarrow> HostsFS \<Rightarrow> bool" where
  "HasState path fs =
     (if TrimSpace path = [] then False
      else (case ReadState path fs of
              Inl _ \<Rightarrow> False
            | Inr s \<Rightarrow> hs_Kind s = hostsStateKind \<or> hs_Mode s = ModeHosts))"

subsection \<open>Apply and restore\<close>

definition validateApply :: "HostsApply \<Rightarrow> (hosts_error, unit) result" where
  "validateApply cfg =
     rbind (ensure (TrimSpace (ha_Path cfg) \<noteq> []) (HostsRequired ''path'')) (\<lambda>_.
     rbind (ensure (TrimSpace (ha_RollbackPath cfg) \<noteq> []) (HostsRequired ''rollback path'')) (\<lambda>_.
     rbind (ensure (TrimSpace (ha_MapIP cfg) \<noteq> []) (HostsRequired ''map IP'')) (\<lambda>_.
     ensure (ha_Entries cfg \<noteq> []) (HostsRequired ''entries''))))"

definition writeText :: "HostsPlatform \<Rightarrow> string \<Rightarrow> string \<Rightarrow> HostsFS \<Rightarrow> HostsFS option" where
  "writeText V path data fs =
     (if hp_Writable V path then Some (fs\<lparr>hf_text := (hf_text fs)(path \<mapsto> data)\<rparr>) else None)"

definition PreflightWithPlatform :: "HostsApply \<Rightarrow> HostsPlatform \<Rightarrow> HostsFS \<Rightarrow> (hosts_error, unit) result" where
  "PreflightWithPlatform cfg V fs =
     rbind (ensure (hp_Name V = ''windows'') (UnsupportedPlatform (hp_Name V))) (\<lambda>_.
     rbind (validateApply cfg) (\<lambda>_.
     rbind (ensure (\<not> hp_Cancelled V) ContextCancelled) (\<lambda>_.
     rbind (ensure (hf_text fs (ha_Path cfg) \<noteq> None) ReadHostsFailed) (\<lambda>_.
     rbind (ensure (hp_Writable V (ha_Path cfg)) WriteHostsFailed) (\<lambda>_.
     ensure (hp_StateWritable V (ha_RollbackPath cfg)) RollbackNotWritable)))))"

definition applyState :: "HostsApply \<Rightarrow> HostsPlatform \<Rightarrow> HostsState" where
  "applyState cfg V =
     \<lparr>hs_Kind = hostsStateKind, hs_Version = 1, hs_OS = hp_Name V, hs_Mode = ModeHosts,
      hs_Path = ha_Path cfg, hs_MapIP = ha_MapIP cfg, hs_Entries = ha_Entries cfg\<rparr>"

definition ApplyWithPlatform ::
    "HostsApply \<Rightarrow> HostsPlatform \<Rightarrow> HostsFS \<Rightarrow> (hosts_error, unit) result \<times> HostsFS" where
  "ApplyWithPlatform cfg V fs =
     (if hp_Name V \<noteq> ''windows'' then (Inl (UnsupportedPlatform (hp_Name V)), fs)
      else (case validateApply cfg of
        Inl e \<Rightarrow> (Inl e, fs)
      | Inr _ \<Rightarrow>
          if hp_Cancelled V then (Inl ContextCancelled, fs)
          else (case hf_text fs (ha_Path cfg) of
                  None \<Rightarrow> (Inl ReadHostsFailed, fs)
                | Some original \<Rightarrow>
                    (let next = appendManagedBlock original (ha_Entries cfg) in
                     case WriteState V (ha_RollbackPath cfg) (applyState cfg V) fs of
                       (Inl e, fs) \<Rightarrow> (Inl e, fs)
                     | (Inr _, fs) \<Rightarrow>
                         (case writeText V (ha_Path cfg) next fs of
                            None \<Rightarrow> (Inl WriteHostsFailed, RemoveState (ha_RollbackPath cfg) fs)
                          | Some fs \<Rightarrow> (Inr (), fs))))))"

definition RestoreWithPlatform ::
    "string \<Rightarrow> HostsPlatform \<Rightarrow> HostsFS \<Rightarrow> (hosts_error, unit) result \<times> HostsFS" where
  "RestoreWithPlatform rollbackPath V fs =
     (case ReadState rollbackPath fs of
        Inl e \<Rightarrow> (Inl e, fs)
      | Inr state \<Rightarrow>
          if hs_Kind state \<noteq> hostsStateKind \<and> hs_Mode state \<noteq> ModeHosts then (Inl NoState, fs)
          else if hp_Name V \<noteq> ''windows'' then (Inl (UnsupportedPlatform (hp_Name V)), fs)
          else if hs_OS state \<noteq> [] \<and> hs_OS state \<noteq> hp_Name V
               then (Inl (WrongPlatform (hs_OS state) (hp_Name V)), fs)
          else if hp_Cancelled V then (Inl ContextCancelled, fs)
          else (case hf_text fs (hs_Path state) of
                  None \<Rightarrow> (Inl ReadHostsFailed, fs)
                | Some body \<Rightarrow>
                    (case writeText V (hs_Path state) (removeManagedBlock body) fs of
                       None \<Rightarrow> (Inl WriteHostsFailed, fs)
                     | Some fs \<Rightarrow> (Inr (), RemoveState rollbackPath fs))))"

subsection \<open>Facts about the managed block\<close>

definition isStart :: "string \<Rightarrow> bool" where
  "isStart line \<longleftrightarrow> TrimSpace line = markerStart"

lemma stripLines_plain: "\<forall>l\<in>set ls. \<not> isStart l \<Longrightarrow> stripLines False (ls @ ms) = ls @ stripLines False ms"
  by (induction ls) (auto simp: isStart_def)

lemma stripLines_no_start: "l \<in> set (stripLines b ls) \<Longrightarrow> \<not> isStart l"
  by (induction ls arbitrary: b) (auto simp: Let_def isStart_def split: if_splits)

lemma stripLines_subset: "set (stripLines b ls) \<subseteq> set ls"
  by (induction ls arbitrary: b) (auto simp: Let_def split: if_splits)

lemma stripLines_inside:
  "\<forall>l\<in>set ls. \<not> isStart l \<and> TrimSpace l \<noteq> markerEnd \<Longrightarrow> stripLines True (ls @ ms) = stripLines True ms"
  by (induction ls) (auto simp: isStart_def Let_def)

lemma TrimRight_snoc: "TrimRight (s @ [c]) cs = (if c \<in> set cs then TrimRight s cs else s @ [c])"
  by (simp add: TrimRight_def)

lemma TrimRight_id: "s = [] \<or> last s \<notin> set cs \<Longrightarrow> TrimRight s cs = s"
  by (cases s rule: rev_cases) (auto simp: TrimRight_snoc, simp add: TrimRight_def)

lemma TrimRight_last: "TrimRight s cs = [] \<or> last (TrimRight s cs) \<notin> set cs"
proof -
  have "dropWhile (\<lambda>c. c \<in> set cs) (rev s) = [] \<or> hd (dropWhile (\<lambda>c. c \<in> set cs) (rev s)) \<notin> set cs"
    using hd_dropWhile [of "\<lambda>c. c \<in> set cs" "rev s"] by blast
  then show ?thesis by (auto simp: TrimRight_def last_rev)
qed

lemma TrimRight_prefix: "prefix (TrimRight s cs) s"
proof -
  have "suffix (dropWhile (\<lambda>c. c \<in> set cs) (rev s)) (rev s)" by (rule suffix_dropWhile)
  then show ?thesis by (simp add: TrimRight_def suffix_to_prefix)
qed

lemma TrimRight_append_lf: "TrimRight (s @ replicate n LF) [LF] = TrimRight s [LF]"
  by (induction n) (simp_all add: TrimRight_snoc flip: append_assoc replicate_append_same)

text \<open>Every line end of the text is a line feed, alone or after a carriage return.\<close>

definition normalEOL :: "string \<Rightarrow> bool" where
  "normalEOL body \<longleftrightarrow> CR \<notin> set (ReplaceAll body [CR, LF] [LF])"

lemma ReplaceAll_no_CR: "CR \<notin> set s \<Longrightarrow> ReplaceAll s [CR, LF] [LF] = s"
  by (simp add: ReplaceAll_def Replace_absent)

lemma CR_LF [simp]: "CR \<noteq> LF" "LF \<noteq> CR"
  by (simp_all add: CR_def LF_def)

text \<open>The text of a file without its managed block and its trailing line feeds.\<close>

definition baseText :: "string \<Rightarrow> string" where
  "baseText body =
     TrimRight (Join (stripLines False (splitByte LF (ReplaceAll body [CR, LF] [LF]))) [LF]) [LF]"

lemma removeManagedBlock_base:
  "removeManagedBlock body = (if baseText body = [] then [] else baseText body @ [LF])"
  by (simp add: removeManagedBlock_def baseText_def Let_def)

lemma baseText_last: "baseText body = [] \<or> last (baseText body) \<noteq> LF"
  using TrimRight_last [of _ "[LF]"] by (auto simp: baseText_def)

lemma splitByte_TrimRight:
  "l \<in> set (splitByte LF (TrimRight (Join ls [LF]) [LF])) \<Longrightarrow> \<forall>x\<in>set ls. LF \<notin> set x \<Longrightarrow> l \<in> set ls \<or> l = []"
proof (induction ls rule: rev_induct)
  case Nil
  then show ?case by (simp add: TrimRight_def)
next
  case (snoc x ls)
  show ?case
  proof (cases "ls = []")
    case True
    have "TrimRight x [LF] = x"
      using snoc.prems(2) by (cases x rule: rev_cases) (auto intro!: TrimRight_id)
    with True snoc.prems show ?thesis by (simp add: splitByte_single)
  next
    case False
    have j: "Join (ls @ [x]) [LF] = Join ls [LF] @ [LF] @ x" using False by (simp add: Join_append)
    show ?thesis
    proof (cases "x = []")
      case True
      with j have "TrimRight (Join (ls @ [x]) [LF]) [LF] = TrimRight (Join ls [LF]) [LF]"
        by (simp add: TrimRight_snoc)
      with snoc show ?thesis by auto
    next
      case nonempty: False
      then have "TrimRight (Join (ls @ [x]) [LF]) [LF] = Join (ls @ [x]) [LF]"
        using snoc.prems(2) unfolding j
        by (cases x rule: rev_cases) (auto intro!: TrimRight_id)
      moreover have "splitByte LF (Join (ls @ [x]) [LF]) = ls @ [x]"
        using snoc.prems(2) by (intro splitByte_Join) auto
      ultimately show ?thesis using snoc.prems(1) by auto
    qed
  qed
qed

lemma baseText_lines: "\<forall>l\<in>set (splitByte LF (baseText body)). \<not> isStart l"
proof
  fix l assume l: "l \<in> set (splitByte LF (baseText body))"
  let ?ls = "stripLines False (splitByte LF (ReplaceAll body [CR, LF] [LF]))"
  have "\<forall>x\<in>set ?ls. LF \<notin> set x"
    using stripLines_subset splitByte_no_sep by blast
  from splitByte_TrimRight [OF l [unfolded baseText_def] this] have "l \<in> set ?ls \<or> l = []" .
  moreover have "\<not> isStart []" unfolding isStart_def by code_simp
  ultimately show "\<not> isStart l" using stripLines_no_start by auto
qed

lemma baseText_no_CR:
  assumes "normalEOL body"
  shows "CR \<notin> set (baseText body)"
proof -
  let ?ls = "splitByte LF (ReplaceAll body [CR, LF] [LF])"
  have "CR \<notin> set l" if "l \<in> set (stripLines False ?ls)" for l
    using that assms splitByte_subset stripLines_subset unfolding normalEOL_def by blast
  then have "CR \<notin> set (Join (stripLines False ?ls) [LF])"
    using set_Join [of "stripLines False ?ls" "[LF]"] by auto
  then show ?thesis
    unfolding baseText_def using set_mono_prefix [OF TrimRight_prefix] by blast
qed

lemma appendManagedBlock_base:
  assumes "normalEOL body"
  shows "appendManagedBlock body es =
    (if baseText body = [] then renderBlock es else baseText body @ [LF, LF] @ renderBlock es)"
proof -
  have "last (baseText body) \<noteq> CR" if "baseText body \<noteq> []"
    using baseText_no_CR [OF assms] that last_in_set by metis
  with baseText_last [of body]
  have "TrimRight (removeManagedBlock body) [CR, LF] = baseText body"
    by (auto simp: removeManagedBlock_base TrimRight_snoc TrimRight_id)
  then show ?thesis by (simp add: appendManagedBlock_def Let_def)
qed

text \<open>Entries whose lines cannot be mistaken for a marker.\<close>

definition entryOK :: "Entry \<Rightarrow> bool" where
  "entryOK e \<longleftrightarrow> en_IP e \<noteq> [] \<and> en_Host e \<noteq> [] \<and> hd (en_IP e) \<noteq> CHR ''#'' \<and>
     list_all plain (en_IP e) \<and> list_all plain (en_Host e)"

lemma plain_not_eol: "plain c \<Longrightarrow> c \<noteq> LF \<and> c \<noteq> CR"
  by (auto simp: plain_def LF_def CR_def)

lemma entryLine_ok:
  assumes "entryOK e"
  shows "LF \<notin> set (entryLine e)" and "CR \<notin> set (entryLine e)" and "TrimSpace (entryLine e) = entryLine e"
    and "\<not> isStart (entryLine e)" and "entryLine e \<noteq> markerEnd"
proof -
  have mem: "c = CHR '' '' \<or> plain c" if "c \<in> set (entryLine e)" for c
    using that assms by (auto simp: entryLine_def entryOK_def list_all_iff)
  have sp: "CHR '' '' \<noteq> LF" "CHR '' '' \<noteq> CR" by (simp_all add: LF_def CR_def)
  show "LF \<notin> set (entryLine e)" "CR \<notin> set (entryLine e)"
    using mem plain_not_eol sp by metis+
  have hd: "hd (entryLine e) = hd (en_IP e)" and last: "last (entryLine e) = last (en_Host e)"
    using assms by (simp_all add: entryLine_def entryOK_def)
  then show trim: "TrimSpace (entryLine e) = entryLine e"
    using assms by (intro TrimSpace_trimmed trimmed_plain) (auto simp: entryOK_def list_all_iff)
  have "hd (entryLine e) \<noteq> CHR ''#''" using hd assms by (simp add: entryOK_def)
  then show "\<not> isStart (entryLine e)" "entryLine e \<noteq> markerEnd"
    by (auto simp: isStart_def trim)
qed

lemma marker_facts:
  "isStart markerStart" "TrimSpace markerEnd = markerEnd" "\<not> isStart markerEnd"
  "\<not> isStart managedComment" "TrimSpace managedComment \<noteq> markerEnd" "\<not> isStart []"
  "LF \<notin> set markerStart" "LF \<notin> set markerEnd" "LF \<notin> set managedComment"
  "CR \<notin> set markerStart" "CR \<notin> set markerEnd" "CR \<notin> set managedComment"
  unfolding isStart_def by code_simp+

lemma splitByte_lines:
  "\<forall>l\<in>set ls. LF \<notin> set l \<Longrightarrow> splitByte LF (concat (map (\<lambda>l. l @ [LF]) ls)) = ls @ [[]]"
proof (induction ls)
  case (Cons l ls)
  then show ?case
    using splitByte_append [of LF l "concat (map (\<lambda>l. l @ [LF]) ls)"]
    by (simp add: splitByte_single)
qed simp

definition blockLines :: "Entry list \<Rightarrow> string list" where
  "blockLines es = markerStart # managedComment # map entryLine es @ [markerEnd]"

lemma renderBlock_lines: "renderBlock es = concat (map (\<lambda>l. l @ [LF]) (blockLines es))"
  by (simp add: renderBlock_def blockLines_def comp_def)

lemma splitByte_renderBlock:
  assumes "\<forall>e\<in>set es. entryOK e"
  shows "splitByte LF (renderBlock es) = blockLines es @ [[]]" and "CR \<notin> set (renderBlock es)"
proof -
  have "\<forall>l\<in>set (blockLines es). LF \<notin> set l \<and> CR \<notin> set l"
    using assms entryLine_ok(1,2) marker_facts by (auto simp: blockLines_def)
  then show "splitByte LF (renderBlock es) = blockLines es @ [[]]" "CR \<notin> set (renderBlock es)"
    by (auto simp: renderBlock_lines splitByte_lines)
qed

lemma stripLines_block:
  assumes "\<forall>e\<in>set es. entryOK e"
  shows "stripLines False (blockLines es @ ms) = stripLines False ms"
proof -
  have "\<forall>l\<in>set (managedComment # map entryLine es). \<not> isStart l \<and> TrimSpace l \<noteq> markerEnd"
    using assms entryLine_ok marker_facts by auto
  from stripLines_inside [OF this, of "markerEnd # ms"] marker_facts show ?thesis
    by (simp add: blockLines_def isStart_def)
qed

lemma baseText_append:
  assumes "normalEOL body" and "\<forall>e\<in>set es. entryOK e"
  shows "baseText (appendManagedBlock body es) = baseText body"
proof (cases "baseText body = []")
  case True
  have "ReplaceAll (renderBlock es) [CR, LF] [LF] = renderBlock es"
    by (rule ReplaceAll_no_CR [OF splitByte_renderBlock(2) [OF assms(2)]])
  with True show ?thesis
    using marker_facts(6) appendManagedBlock_base [OF assms(1)]
    by (simp add: baseText_def [of "renderBlock es"] splitByte_renderBlock [OF assms(2)]
        stripLines_block [OF assms(2)] isStart_def TrimRight_def)
next
  case False
  let ?b = "baseText body"
  have noCR: "CR \<notin> set (?b @ [LF, LF] @ renderBlock es)"
    using baseText_no_CR [OF assms(1)] splitByte_renderBlock(2) [OF assms(2)] by auto
  have lines: "splitByte LF (?b @ [LF, LF] @ renderBlock es) = splitByte LF ?b @ [[]] @ blockLines es @ [[]]"
    using splitByte_append [of LF ?b "LF # renderBlock es"] splitByte_renderBlock(1) [OF assms(2)] by simp
  have start: "\<forall>l\<in>set (splitByte LF ?b). \<not> isStart l" by (rule baseText_lines)
  have "stripLines False (splitByte LF (?b @ [LF, LF] @ renderBlock es)) = splitByte LF ?b @ [[], []]"
    unfolding lines stripLines_plain [OF start]
    using stripLines_block [OF assms(2), of "[[]]"] marker_facts(6) by (simp add: isStart_def)
  then have "Join (stripLines False (splitByte LF (?b @ [LF, LF] @ renderBlock es))) [LF] = ?b @ replicate 2 LF"
    using Join_append [of "splitByte LF ?b" "[[], []]" "[LF]"] by (simp add: numeral_2_eq_2)
  then have "baseText (?b @ [LF, LF] @ renderBlock es) = TrimRight ?b [LF]"
    unfolding baseText_def [of "?b @ [LF, LF] @ renderBlock es"] ReplaceAll_no_CR [OF noCR]
    by (simp only: TrimRight_append_lf)
  with False show ?thesis
    using baseText_last [of body] appendManagedBlock_base [OF assms(1)] by (simp add: TrimRight_id)
qed

lemma normalEOL_append:
  assumes "normalEOL body" and "\<forall>e\<in>set es. entryOK e"
  shows "normalEOL (appendManagedBlock body es)"
proof -
  have "CR \<notin> set (appendManagedBlock body es)"
    using baseText_no_CR [OF assms(1)] splitByte_renderBlock(2) [OF assms(2)]
    by (simp add: appendManagedBlock_base [OF assms(1)])
  then show ?thesis by (simp add: normalEOL_def ReplaceAll_no_CR)
qed

lemma removeManagedBlock_clean:
  assumes "CR \<notin> set t" and "t \<noteq> []" and "last t \<noteq> LF" and "\<forall>l\<in>set (splitByte LF t). \<not> isStart l"
  shows "removeManagedBlock (t @ [LF]) = t @ [LF]"
proof -
  have "stripLines False (splitByte LF (t @ [LF])) = splitByte LF t @ [[]]"
    using splitByte_append [of LF t "[]"] stripLines_plain [OF assms(4), of "[[]]"] marker_facts(6)
    by (simp add: isStart_def)
  moreover have "Join (splitByte LF t @ [[]]) [LF] = t @ [LF]"
    using Join_append [of "splitByte LF t" "[[]]" "[LF]"] by simp
  ultimately have "baseText (t @ [LF]) = t"
    using assms(1-3) by (simp add: baseText_def ReplaceAll_no_CR TrimRight_snoc TrimRight_id)
  with assms(2) show ?thesis by (simp add: removeManagedBlock_base)
qed

subsection \<open>Facts about entries and states\<close>

lemma decode_encode_state: "decodeState (encodeState st) = Some st"
proof -
  have "decodeEntry (encodeEntry e) = Some e" for e
    by (simp add: decodeEntry_def encodeEntry_def)
  then show ?thesis by (simp add: decodeState_def encodeState_def)
qed

lemma collectEntries_hosts:
  assumes "collectEntries E ip seen ds = Inr es"
  shows "(\<forall>e\<in>set es. en_IP e = ip) \<and> distinct (map en_Host es) \<and> set (map en_Host es) \<inter> set seen = {} \<and>
    set (map en_Host es) \<union> set seen =
      {h. \<exists>d\<in>set ds. TrimSpace d \<noteq> [] \<and> NormalizeHost E (TrimSpace d) = Inr h} \<union> set seen"
  using assms
proof (induction ds arbitrary: seen es)
  case Nil
  then show ?case by simp
next
  case (Cons d ds)
  show ?case
  proof (cases "TrimSpace d = []")
    case True
    with Cons.IH [of seen es] Cons.prems show ?thesis by simp
  next
    case False
    with Cons.prems obtain h where h: "NormalizeHost E (TrimSpace d) = Inr h"
      by (auto simp: Let_def res_simps split: if_splits)
    show ?thesis
    proof (cases "h \<in> set seen")
      case True
      with False h Cons.prems have "collectEntries E ip seen ds = Inr es"
        by (auto simp: Let_def split: if_splits)
      from Cons.IH [OF this] False h True show ?thesis by (simp add: insert_absorb) blast
    next
      case new: False
      with False h Cons.prems obtain es' where es': "collectEntries E ip (h # seen) ds = Inr es'"
        and es: "es = \<lparr>en_IP = ip, en_Host = h\<rparr> # es'"
        by (auto simp: Let_def res_simps split: if_splits)
      from Cons.IH [OF es'] False h new show ?thesis by (simp add: es) blast
    qed
  qed
qed

lemma ApplyWithPlatform_ok:
  assumes "ApplyWithPlatform cfg V fs = (Inr (), fs')"
  obtains original where "hf_text fs (ha_Path cfg) = Some original" and "hp_Name V = ''windows''"
    and "\<not> hp_Cancelled V" and "hp_Writable V (ha_Path cfg)"
    and "fs' = fs\<lparr>hf_json := (hf_json fs)(ha_RollbackPath cfg \<mapsto> encodeState (applyState cfg V)),
           hf_text := (hf_text fs)(ha_Path cfg \<mapsto> appendManagedBlock original (ha_Entries cfg))\<rparr>"
  using assms
  by (auto simp: ApplyWithPlatform_def WriteState_def writeText_def Let_def
      split: if_splits sum.splits option.splits prod.splits)

subsection \<open>Properties\<close>

text \<open>
  Apply then restore: after the managed block has been written, a restore that reaches the
  file leaves exactly the text that removing an old block from the original would have left,
  whatever block the original already contained, and removes the rollback state.
\<close>

theorem hosts_apply_restore:
  assumes "ApplyWithPlatform cfg V fs = (Inr (), fs')" and "hf_text fs (ha_Path cfg) = Some original"
    and "normalEOL original" and "\<forall>e\<in>set (ha_Entries cfg). entryOK e"
  shows "RestoreWithPlatform (ha_RollbackPath cfg) V fs' =
    (Inr (), fs'\<lparr>hf_text := (hf_text fs)(ha_Path cfg \<mapsto> removeManagedBlock original),
                 hf_json := (hf_json fs)(ha_RollbackPath cfg := None)\<rparr>)"
proof -
  obtain fs'_eq: "fs' = fs\<lparr>hf_json := (hf_json fs)(ha_RollbackPath cfg \<mapsto> encodeState (applyState cfg V)),
           hf_text := (hf_text fs)(ha_Path cfg \<mapsto> appendManagedBlock original (ha_Entries cfg))\<rparr>"
    and V: "hp_Name V = ''windows''" "\<not> hp_Cancelled V" "hp_Writable V (ha_Path cfg)"
    using ApplyWithPlatform_ok [OF assms(1)] assms(2) by auto
  have "removeManagedBlock (appendManagedBlock original (ha_Entries cfg)) = removeManagedBlock original"
    using baseText_append [OF assms(3,4)] by (simp add: removeManagedBlock_base)
  with V show ?thesis
    by (simp add: RestoreWithPlatform_def ReadState_def fs'_eq decode_encode_state applyState_def
        writeText_def RemoveState_def)
qed

text \<open>
  Writing the managed block is idempotent and never stacks: whatever was managed before,
  applying again leaves one block with the new entries after the same unmanaged text, as if the
  earlier block had never been there.
\<close>

theorem appendManagedBlock_replaces:
  assumes "normalEOL original" and "\<forall>e\<in>set es. entryOK e"
  shows "appendManagedBlock (appendManagedBlock original es) es' = appendManagedBlock original es'"
  unfolding appendManagedBlock_base [OF normalEOL_append [OF assms]] baseText_append [OF assms]
  by (rule appendManagedBlock_base [OF assms(1), symmetric])

text \<open>
  The hosts entries generated from a list of domains: one entry per normalised host, all
  with the mapping address, sorted by host; wildcard domains are refused.
\<close>

theorem EntriesFromDomains_ok:
  assumes "EntriesFromDomains E domains ip = Inr es"
  shows "sorted (map entryKey es) \<and> distinct (map en_Host es) \<and> (\<forall>e\<in>set es. en_IP e = ip) \<and>
    set (map en_Host es) = {h. \<exists>d\<in>set domains. TrimSpace d \<noteq> [] \<and> NormalizeHost E (TrimSpace d) = Inr h}"
proof -
  obtain es' where es': "collectEntries E ip [] domains = Inr es'" and es: "es = sort_key entryKey es'"
    using assms by (auto simp: EntriesFromDomains_def res_simps split: if_splits)
  from collectEntries_hosts [OF es'] show ?thesis
    by (simp add: es distinct_map_sort_key)
qed


subsection \<open>Witnesses\<close>

definition sampleApply :: HostsApply where
  "sampleApply = \<lparr>ha_Path = ''h'', ha_RollbackPath = ''r'', ha_MapIP = ''127.0.0.1'',
     ha_Entries = [\<lparr>en_IP = ''127.0.0.1'', en_Host = ''a.com''\<rparr>]\<rparr>"

definition samplePlatform :: HostsPlatform where
  "samplePlatform = \<lparr>hp_Name = ''windows'', hp_Cancelled = False, hp_Writable = (\<lambda>_. True),
     hp_StateWritable = (\<lambda>_. True)\<rparr>"

definition sampleFS :: HostsFS where
  "sampleFS = \<lparr>hf_text = (\<lambda>_. Some (''1.1.1.1 x'' @ [LF])), hf_json = (\<lambda>_. None)\<rparr>"

lemma sampleApply_ok:
  "\<exists>fs'. ApplyWithPlatform sampleApply samplePlatform sampleFS = (Inr (), fs')"
proof -
  have "validateApply sampleApply = Inr ()" "TrimSpace ''r'' \<noteq> []" by code_simp+
  then show ?thesis
    by (simp add: ApplyWithPlatform_def samplePlatform_def sampleFS_def WriteState_def
        sampleApply_def writeText_def)
qed

lemma sample_facts:
  "\<forall>e\<in>set (ha_Entries sampleApply). entryOK e" "normalEOL (''1.1.1.1 x'' @ [LF])"
  "CR \<notin> set ''1.1.1.1 x''" "last ''1.1.1.1 x'' \<noteq> LF" "\<forall>l\<in>set (splitByte LF ''1.1.1.1 x''). \<not> isStart l"
  unfolding normalEOL_def isStart_def entryOK_def plain_def list_all_iff sampleApply_def
  by code_simp+

theorem hosts_apply_restore_witness:
  "\<exists>fs' fs''. ApplyWithPlatform sampleApply samplePlatform sampleFS = (Inr (), fs')
     \<and> RestoreWithPlatform ''r'' samplePlatform fs' = (Inr (), fs'')"
proof -
  obtain fs' where fs': "ApplyWithPlatform sampleApply samplePlatform sampleFS = (Inr (), fs')"
    using sampleApply_ok by blast
  have "hf_text sampleFS (ha_Path sampleApply) = Some (''1.1.1.1 x'' @ [LF])" by (simp add: sampleFS_def)
  from hosts_apply_restore [OF fs' this sample_facts(2,1)] fs' show ?thesis
    by (auto simp: sampleApply_def)
qed

theorem appendManagedBlock_replaces_witness:
  "appendManagedBlock (appendManagedBlock (''1.1.1.1 x'' @ [LF]) (ha_Entries sampleApply)) [] =
   appendManagedBlock (''1.1.1.1 x'' @ [LF]) []"
  by (rule appendManagedBlock_replaces [OF sample_facts(2,1)])

theorem EntriesFromDomains_ok_witness:
  "\<exists>es. EntriesFromDomains sampleLib [''b.com'', '' A.com'', ''b.com''] ''127.0.0.1'' = Inr es
     \<and> distinct (map en_Host es) \<and> length es = 2"
proof -
  have es: "EntriesFromDomains sampleLib [''b.com'', '' A.com'', ''b.com''] ''127.0.0.1'' =
      Inr [\<lparr>en_IP = ''127.0.0.1'', en_Host = ''a.com''\<rparr>, \<lparr>en_IP = ''127.0.0.1'', en_Host = ''b.com''\<rparr>]"
    by code_simp
  from EntriesFromDomains_ok [OF es] es show ?thesis by auto
qed


text \<open>
  A block whose end marker is missing swallows the rest of the file; and a restore writes to
  whatever path the rollback file names.
\<close>

lemma unterminated_block:
  "removeManagedBlock (markerStart @ [LF] @ ''1.1.1.1 x'' @ [LF]) = []"
  by code_simp

lemma restore_follows_state_path:
  assumes "hf_json fs rb = Some (encodeState (st\<lparr>hs_Kind := hostsStateKind, hs_OS := [], hs_Path := any\<rparr>))"
    and "hp_Name V = ''windows''" and "\<not> hp_Cancelled V" and "hp_Writable V any" and "hf_text fs any = Some body"
  shows "\<exists>fs'. RestoreWithPlatform rb V fs = (Inr (), fs') \<and> hf_text fs' any = Some (removeManagedBlock body)"
  using assms
  by (simp add: RestoreWithPlatform_def ReadState_def decode_encode_state writeText_def RemoveState_def)

end
