(* ===== verification/Dns.thy ===== *)
theory Dns
  imports Config
begin

section \<open>DNS messages and caches with expiry\<close>

text \<open>
  The fields of the messages of package \<^verbatim>\<open>miekg/dns\<close> that the resolver and the
  interceptor read and write, and the interface of a cache whose entries expire, which both
  components implement.  TTLs are 32-bit words.  Times are nanoseconds.
\<close>

record Question =
  q_Name :: string
  q_Qtype :: nat
  q_Qclass :: nat

text \<open>A resource record: its header and, for A and AAAA records, the address.\<close>

record RR =
  rr_Name :: string
  rr_Type :: nat
  rr_Class :: nat
  rr_Ttl :: "32 word"
  rr_IP :: ip

record Msg =
  dm_Id :: "16 word"
  dm_Rcode :: nat
  dm_Authoritative :: bool
  dm_RecursionAvailable :: bool
  dm_Question :: "Question list"
  dm_Answer :: "RR list"
  dm_Ns :: "RR list"
  dm_Extra :: "RR list"

abbreviation (input) TypeA :: nat where "TypeA \<equiv> 1"
abbreviation (input) TypeAAAA :: nat where "TypeAAAA \<equiv> 28"
abbreviation (input) TypeOPT :: nat where "TypeOPT \<equiv> 41"
abbreviation (input) TypeSVCB :: nat where "TypeSVCB \<equiv> 64"
abbreviation (input) TypeHTTPS :: nat where "TypeHTTPS \<equiv> 65"
abbreviation (input) ClassINET :: nat where "ClassINET \<equiv> 1"
abbreviation (input) RcodeSuccess :: nat where "RcodeSuccess \<equiv> 0"
abbreviation (input) RcodeServerFailure :: nat where "RcodeServerFailure \<equiv> 2"

subsection \<open>Caches with expiry\<close>

datatype ('k, 'v) cache_op = CachePut int int 'k 'v | CacheGet int 'k

text \<open>
  A cache stores a value under a key until a time; reading an expired entry removes it.
  \<open>entry\<close> is the value and the expiry time stored under a key, \<open>live now e\<close> says
  that an entry expiring at \<open>e\<close> may still be served at time \<open>now\<close>.
\<close>

locale ttl_cache =
  fixes get :: "int \<Rightarrow> 'k \<Rightarrow> 'c \<Rightarrow> 'v option \<times> 'c"
    and put :: "int \<Rightarrow> int \<Rightarrow> 'k \<Rightarrow> 'v \<Rightarrow> 'c \<Rightarrow> 'c"
    and live :: "int \<Rightarrow> int \<Rightarrow> bool"
    and entry :: "'c \<Rightarrow> 'k \<Rightarrow> ('v \<times> int) option"
  assumes get_value: "fst (get now k c) =
      (case entry c k of None \<Rightarrow> None | Some (v, e) \<Rightarrow> if live now e then Some v else None)"
    and get_entry: "entry (snd (get now k c)) k' =
      (if k' = k \<and> (\<forall>v e. entry c k = Some (v, e) \<longrightarrow> \<not> live now e) then None else entry c k')"
    and put_entry: "entry (put now ttl k v c) k' = (if k' = k then Some (v, now + ttl) else entry c k')"
    and live_antimono: "live now e \<Longrightarrow> now' \<le> now \<Longrightarrow> live now' e"
begin

lemma get_after_put: "live now' (now + ttl) \<Longrightarrow> fst (get now' k (put now ttl k v c)) = Some v"
  by (simp add: get_value put_entry)

lemma get_expired:
  "\<not> live now' (now + ttl) \<Longrightarrow> now' \<le> now'' \<Longrightarrow> fst (get now'' k (put now ttl k v c)) = None"
  using live_antimono by (auto simp: get_value put_entry)

lemma get_other: "k' \<noteq> k \<Longrightarrow> fst (get now' k' (put now ttl k v c)) = fst (get now' k' c)"
  by (simp add: get_value put_entry)

primrec runOp :: "('k, 'v) cache_op \<Rightarrow> 'c \<Rightarrow> 'c" where
  "runOp (CachePut now ttl k v) c = put now ttl k v c"
| "runOp (CacheGet now k) c = snd (get now k c)"

text \<open>Whatever is stored was put there, under its key and with its lifetime.\<close>

lemma entry_provenance:
  assumes "\<And>k. entry c k = None" and "entry (fold runOp ops c) k = Some (v, e)"
  shows "\<exists>now ttl. CachePut now ttl k v \<in> set ops \<and> e = now + ttl"
  using assms(2)
proof (induction ops arbitrary: k v e rule: rev_induct)
  case Nil
  then show ?case using assms(1) by simp
next
  case (snoc op ops)
  then show ?case
    by (cases op) (auto simp: put_entry get_entry split: if_splits)
qed

lemma hit_provenance:
  assumes "\<And>k. entry c k = None" and "fst (get now' k (fold runOp ops c)) = Some v"
  shows "\<exists>now ttl. CachePut now ttl k v \<in> set ops \<and> live now' (now + ttl)"
  using assms(2) entry_provenance [OF assms(1)]
  by (fastforce simp: get_value split: option.splits if_splits)

end

end
