(* ===== verification/Resolver.thy ===== *)
theory Resolver
  imports Dns
begin

section \<open>Package resolver: resolving target hosts\<close>

text \<open>
  \<^verbatim>\<open>internal/resolver/resolver.go\<close>.  The system resolver, the exchange of a DNS message
  with a server and the DoH exchange are the environment record; the queries, the fallback
  over the servers, the address policy and the cache are modelled.  Contexts are left out.
\<close>

record resolverConfig =
  rc_Mode :: string
  rc_Servers :: "string list"
  rc_PreferIPv4 :: bool
  rc_PreferIPv6 :: bool
  rc_DisableIPv6 :: bool
  rc_CacheTTL :: int
  rc_Timeout :: int

record cacheEntry =
  ce_ips :: "ip list"
  ce_expire :: int

record Client =
  cl_cfg :: resolverConfig
  cl_cache :: "(string \<times> cacheEntry) list"

text \<open>The outside world of a resolution.\<close>

record resolveEnv =
  rv_LookupIPAddr :: "string \<Rightarrow> (string, ip list) result"
  rv_Exchange :: "string \<Rightarrow> string \<Rightarrow> string \<Rightarrow> nat \<Rightarrow> (string, Msg option) result"
  rv_PostDoH :: "string \<Rightarrow> string \<Rightarrow> nat \<Rightarrow> (string, Msg) result"

datatype resolver_error =
    NormalizeFailed rules_error
  | NoUsableIPs string
  | SystemResolve string string
  | ResolveFailed string "string list"
  | UnsupportedResolverMode string

definition ConfigFromApp :: "Config \<Rightarrow> resolverConfig" where
  "ConfigFromApp cfg =
     (let r = c_Resolver cfg in
      \<lparr>rc_Mode = rs_Mode r, rc_Servers = rs_Servers r, rc_PreferIPv4 = rs_PreferIPv4 r,
       rc_PreferIPv6 = rs_PreferIPv6 r, rc_DisableIPv6 = rs_DisableIPv6 r,
       rc_CacheTTL = rs_CacheTTL r, rc_Timeout = rs_Timeout r\<rparr>)"

definition New :: "resolverConfig \<Rightarrow> Client" where
  "New cfg =
     \<lparr>cl_cfg = cfg\<lparr>rc_Mode := (if rc_Mode cfg = [] then ResolverSystem else rc_Mode cfg),
                    rc_CacheTTL := (if rc_CacheTTL cfg \<le> 0 then 10 * Minute else rc_CacheTTL cfg),
                    rc_Timeout := (if rc_Timeout cfg \<le> 0 then 5 * Second else rc_Timeout cfg)\<rparr>,
      cl_cache = []\<rparr>"

subsection \<open>Reading a response\<close>

definition minDuration :: "int \<Rightarrow> int \<Rightarrow> int" where
  "minDuration a b = (if a \<le> 0 then b else if b \<le> 0 then a else if a < b then a else b)"

definition minPositiveTTL :: "int \<Rightarrow> 32 word \<Rightarrow> int" where
  "minPositiveTTL current ttl =
     (let next = int (unat ttl) * Second in
      if current = 0 \<or> next < current then next else current)"

primrec collectRecords :: "nat \<Rightarrow> RR list \<Rightarrow> ip list \<times> int \<Rightarrow> ip list \<times> int" where
  "collectRecords qtype [] acc = acc"
| "collectRecords qtype (rr # rrs) acc =
     collectRecords qtype rrs
       (if rr_Type rr = TypeA \<and> qtype = TypeA \<or> rr_Type rr = TypeAAAA \<and> qtype = TypeAAAA
        then (fst acc @ [rr_IP rr], minPositiveTTL (snd acc) (rr_Ttl rr))
        else acc)"

definition parseDNSResponse :: "Msg option \<Rightarrow> nat \<Rightarrow> (string, ip list \<times> int) result" where
  "parseDNSResponse resp qtype =
     (case resp of
        None \<Rightarrow> Inl ''empty DNS response''
      | Some m \<Rightarrow>
          if dm_Rcode m \<noteq> RcodeSuccess then Inl ''DNS response code''
          else (case collectRecords qtype (dm_Answer m) ([], 0) of
                  (ips, ttl) \<Rightarrow> if ips = [] then Inl ''DNS response has no records'' else Inr (ips, ttl)))"

definition normalizeDNSServer :: "string \<Rightarrow> string" where
  "normalizeDNSServer server =
     (case SplitHostPort server of
        Some _ \<Rightarrow> server
      | None \<Rightarrow> JoinHostPort (TrimCutset server ''[]'') ''53'')"

subsection \<open>Queries\<close>

primrec dnsServers ::
    "resolveEnv \<Rightarrow> string \<Rightarrow> string \<Rightarrow> nat \<Rightarrow> string list \<Rightarrow> string option \<Rightarrow> (string, ip list \<times> int) result" where
  "dnsServers W network host qtype [] lastErr =
     Inl (case lastErr of None \<Rightarrow> ''no DNS servers configured'' | Some e \<Rightarrow> e)"
| "dnsServers W network host qtype (server # servers) lastErr =
     (case rbind (rv_Exchange W network (normalizeDNSServer server) host qtype)
                 (\<lambda>resp. parseDNSResponse resp qtype) of
        Inl e \<Rightarrow> dnsServers W network host qtype servers (Some e)
      | Inr r \<Rightarrow> Inr r)"

definition queryDoH :: "golib \<Rightarrow> resolveEnv \<Rightarrow> string \<Rightarrow> string \<Rightarrow> nat \<Rightarrow> (string, ip list \<times> int) result" where
  "queryDoH E W server host qtype =
     (case url_Parse E server of
        None \<Rightarrow> Inl ''parse''
      | Some endpoint \<Rightarrow>
          if url_Scheme endpoint \<noteq> ''http'' \<and> url_Scheme endpoint \<noteq> ''https'' then Inl ''scheme''
          else rbind (rv_PostDoH W server host qtype) (\<lambda>m. parseDNSResponse (Some m) qtype))"

primrec dohServers ::
    "golib \<Rightarrow> resolveEnv \<Rightarrow> string \<Rightarrow> nat \<Rightarrow> string list \<Rightarrow> string option \<Rightarrow> (string, ip list \<times> int) result" where
  "dohServers E W host qtype [] lastErr =
     Inl (case lastErr of None \<Rightarrow> ''no DoH servers configured'' | Some e \<Rightarrow> e)"
| "dohServers E W host qtype (server # servers) lastErr =
     (case queryDoH E W server host qtype of
        Inl e \<Rightarrow> dohServers E W host qtype servers (Some e)
      | Inr r \<Rightarrow> Inr r)"

definition resolveByQueries ::
    "resolverConfig \<Rightarrow> string \<Rightarrow> (nat \<Rightarrow> (string, ip list \<times> int) result) \<Rightarrow>
     (resolver_error, ip list \<times> int) result" where
  "resolveByQueries cfg host query =
     (let a = query TypeA;
          q4 = (case a of Inl e \<Rightarrow> ([], rc_CacheTTL cfg, [e])
                | Inr (ips, t) \<Rightarrow> (ips, minDuration (rc_CacheTTL cfg) t, []));
          q6 = (if rc_DisableIPv6 cfg then q4
                else (case query TypeAAAA of
                        Inl e \<Rightarrow> (fst q4, fst (snd q4), snd (snd q4) @ [e])
                      | Inr (ips, t) \<Rightarrow> (fst q4 @ ips, minDuration (fst (snd q4)) t, snd (snd q4))))
      in if fst q6 = [] then Inl (ResolveFailed host (snd (snd q6)))
         else Inr (fst q6, fst (snd q6)))"

definition resolveFresh ::
    "golib \<Rightarrow> resolveEnv \<Rightarrow> resolverConfig \<Rightarrow> string \<Rightarrow> (resolver_error, ip list \<times> int) result" where
  "resolveFresh E W cfg host =
     (if rc_Mode cfg = ResolverSystem then
        (case rv_LookupIPAddr W host of
           Inl e \<Rightarrow> Inl (SystemResolve host e)
         | Inr addrs \<Rightarrow> Inr (addrs, rc_CacheTTL cfg))
      else if rc_Mode cfg = ResolverUDP \<or> rc_Mode cfg = ResolverTCP then
        resolveByQueries cfg host (\<lambda>qtype. dnsServers W (rc_Mode cfg) host qtype (rc_Servers cfg) None)
      else if rc_Mode cfg = ResolverDoH then
        resolveByQueries cfg host (\<lambda>qtype. dohServers E W host qtype (rc_Servers cfg) None)
      else Inl (UnsupportedResolverMode (rc_Mode cfg)))"

subsection \<open>Policy and cache\<close>

definition isV4 :: "ip \<Rightarrow> bool" where
  "isV4 x \<longleftrightarrow> To4 x \<noteq> []"

definition applyPolicy :: "resolverConfig \<Rightarrow> ip list \<Rightarrow> ip list" where
  "applyPolicy cfg ips =
     (let usable = filter (\<lambda>x. x \<noteq> [] \<and> \<not> (rc_DisableIPv6 cfg \<and> \<not> isV4 x)) ips;
          filtered = dedup_by IPString [] usable;
          filtered = (if rc_PreferIPv4 cfg then sort_key (\<lambda>x. if isV4 x then 0 else 1 :: nat) filtered
                      else filtered)
      in if rc_PreferIPv6 cfg then sort_key (\<lambda>x. if isV4 x then 1 else 0 :: nat) filtered else filtered)"

definition getCache :: "int \<Rightarrow> string \<Rightarrow> (string \<times> cacheEntry) list \<Rightarrow> ip list option \<times> (string \<times> cacheEntry) list" where
  "getCache now host cache =
     (case map_of cache host of
        None \<Rightarrow> (None, cache)
      | Some e \<Rightarrow>
          if ce_expire e < now then (None, AList.delete host cache) else (Some (ce_ips e), cache))"

definition putCache ::
    "int \<Rightarrow> int \<Rightarrow> string \<Rightarrow> ip list \<Rightarrow> (string \<times> cacheEntry) list \<Rightarrow> (string \<times> cacheEntry) list" where
  "putCache now ttl host ips cache =
     AList.update host \<lparr>ce_ips = ips, ce_expire = now + ttl\<rparr> cache"

text \<open>\<open>Resolve\<close>, with the clock at the cache lookup and at the cache update.\<close>

definition Resolve ::
    "golib \<Rightarrow> resolveEnv \<Rightarrow> int \<Rightarrow> int \<Rightarrow> string \<Rightarrow> Client \<Rightarrow> (resolver_error, ip list) result \<times> Client" where
  "Resolve E W t1 t2 host c =
     (case NormalizeHost E host of
        Inl e \<Rightarrow> (Inl (NormalizeFailed e), c)
      | Inr normalized \<Rightarrow>
          (case ParseIP normalized of
             Some ip \<Rightarrow>
               (let ips = applyPolicy (cl_cfg c) [ip] in
                (if ips = [] then Inl (NoUsableIPs normalized) else Inr ips, c))
           | None \<Rightarrow>
               (case getCache t1 normalized (cl_cache c) of
                  (Some ips, cache) \<Rightarrow> (Inr ips, c\<lparr>cl_cache := cache\<rparr>)
                | (None, cache) \<Rightarrow>
                    (let c = c\<lparr>cl_cache := cache\<rparr> in
                     case resolveFresh E W (cl_cfg c) normalized of
                       Inl e \<Rightarrow> (Inl e, c)
                     | Inr (ips, ttl) \<Rightarrow>
                         (let ips = applyPolicy (cl_cfg c) ips;
                              ttl = (if ttl \<le> 0 then rc_CacheTTL (cl_cfg c) else ttl);
                              ttl = (if ttl > rc_CacheTTL (cl_cfg c) then rc_CacheTTL (cl_cfg c) else ttl)
                          in if ips = [] then (Inl (NoUsableIPs normalized), c)
                             else (Inr ips, c\<lparr>cl_cache := putCache t2 ttl normalized ips cache\<rparr>))))))"

text \<open>A session: resolutions one after the other, each at its own times.\<close>

fun resolveAll ::
    "golib \<Rightarrow> resolveEnv \<Rightarrow> (int \<times> int \<times> string) list \<Rightarrow> Client \<Rightarrow> (resolver_error, ip list) result list \<times> Client" where
  "resolveAll E W [] c = ([], c)"
| "resolveAll E W ((t1, t2, host) # reqs) c =
     (let (r, c) = Resolve E W t1 t2 host c; (rs, c) = resolveAll E W reqs c in (r # rs, c))"

lemma Resolve_cfg: "Resolve E W t1 t2 host c = (r, c') \<Longrightarrow> cl_cfg c' = cl_cfg c"
  by (auto simp: Resolve_def Let_def split: sum.splits option.splits prod.splits if_splits)

subsection \<open>Queries do not ask the system\<close>

lemma servers_blind:
  "dnsServers (W\<lparr>rv_LookupIPAddr := f\<rparr>) network host qtype servers err = dnsServers W network host qtype servers err"
  "dohServers E (W\<lparr>rv_LookupIPAddr := f\<rparr>) host qtype servers err = dohServers E W host qtype servers err"
proof -
  have "queryDoH E (W\<lparr>rv_LookupIPAddr := f\<rparr>) server host qtype = queryDoH E W server host qtype" for server
    by (simp add: queryDoH_def split: option.split)
  then show "dohServers E (W\<lparr>rv_LookupIPAddr := f\<rparr>) host qtype servers err = dohServers E W host qtype servers err"
    by (induction servers arbitrary: err) (simp_all split: sum.split)
  show "dnsServers (W\<lparr>rv_LookupIPAddr := f\<rparr>) network host qtype servers err = dnsServers W network host qtype servers err"
    by (induction servers arbitrary: err) (simp_all split: sum.split)
qed

lemma resolveFresh_blind:
  "rc_Mode cfg \<noteq> ResolverSystem \<Longrightarrow> resolveFresh E (W\<lparr>rv_LookupIPAddr := f\<rparr>) cfg host = resolveFresh E W cfg host"
  by (simp add: resolveFresh_def servers_blind)

lemma Resolve_blind:
  "rc_Mode (cl_cfg c) \<noteq> ResolverSystem \<Longrightarrow> Resolve E (W\<lparr>rv_LookupIPAddr := f\<rparr>) t1 t2 host c = Resolve E W t1 t2 host c"
  by (simp add: Resolve_def Let_def resolveFresh_blind split: sum.split option.split prod.split)

lemma resolveAll_blind:
  "rc_Mode (cl_cfg c) \<noteq> ResolverSystem \<Longrightarrow> resolveAll E (W\<lparr>rv_LookupIPAddr := f\<rparr>) reqs c = resolveAll E W reqs c"
  by (induction E W reqs c rule: resolveAll.induct)
    (auto simp: Resolve_blind Resolve_cfg split: prod.splits dest: Resolve_cfg)

subsection \<open>The cache\<close>

definition cacheLookup :: "(string \<times> cacheEntry) list \<Rightarrow> string \<Rightarrow> (ip list \<times> int) option" where
  "cacheLookup cache k = map_option (\<lambda>e. (ce_ips e, ce_expire e)) (map_of cache k)"

interpretation rcache: ttl_cache getCache putCache "\<lambda>now e. now \<le> e" cacheLookup
  by unfold_locales
    (auto simp: getCache_def putCache_def cacheLookup_def update_conv' delete_conv'
      split: option.splits if_splits)

subsection \<open>The policy\<close>

lemma if_not_swap: "(if \<not> b then x else y) = (if b then y else x)"
  by simp

lemma sort_key_partition:
  "sort_key (\<lambda>x. if P x then 0 else 1 :: nat) xs = filter P xs @ filter (\<lambda>x. \<not> P x) xs"
proof (rule properties_for_sort_key)
  show "mset (filter P xs @ filter (\<lambda>x. \<not> P x) xs) = mset xs"
    by (induction xs) auto
  show "sorted (map (\<lambda>x. if P x then 0 else 1 :: nat) (filter P xs @ filter (\<lambda>x. \<not> P x) xs))"
  proof -
    have "map (\<lambda>x. if P x then 0 else 1 :: nat) (filter P xs) = replicate (length (filter P xs)) 0"
      "map (\<lambda>x. if P x then 0 else 1 :: nat) (filter (\<lambda>x. \<not> P x) xs) =
       replicate (length (filter (\<lambda>x. \<not> P x) xs)) 1"
      by (induction xs) auto
    then show ?thesis by (simp add: sorted_append)
  qed
next
  fix k assume "k \<in> set (filter P xs @ filter (\<lambda>x. \<not> P x) xs)"
  show "filter (\<lambda>x. (if P k then 0 else 1 :: nat) = (if P x then 0 else 1)) (filter P xs @ filter (\<lambda>x. \<not> P x) xs) =
      filter (\<lambda>x. (if P k then 0 else 1 :: nat) = (if P x then 0 else 1)) xs"
    by (cases "P k") (auto simp: filter_empty_conv intro!: filter_cong)
qed

definition usableIPs :: "resolverConfig \<Rightarrow> ip list \<Rightarrow> ip list" where
  "usableIPs cfg ips = dedup_by IPString [] (filter (\<lambda>x. x \<noteq> [] \<and> \<not> (rc_DisableIPv6 cfg \<and> \<not> isV4 x)) ips)"

lemma applyPolicy_eq:
  assumes "\<not> (rc_PreferIPv4 cfg \<and> rc_PreferIPv6 cfg)"
  shows "applyPolicy cfg ips =
    (let u = usableIPs cfg ips in
     if rc_PreferIPv4 cfg then filter isV4 u @ filter (\<lambda>x. \<not> isV4 x) u
     else if rc_PreferIPv6 cfg then filter (\<lambda>x. \<not> isV4 x) u @ filter isV4 u
     else u)"
proof -
  have v4: "sort_key (\<lambda>x. if isV4 x then 0 else 1 :: nat) u = filter isV4 u @ filter (\<lambda>x. \<not> isV4 x) u" for u
    by (rule sort_key_partition)
  have "sort_key (\<lambda>x. if isV4 x then 1 else 0 :: nat) u = filter (\<lambda>x. \<not> isV4 x) u @ filter isV4 u" for u
    using sort_key_partition [of "\<lambda>x. \<not> isV4 x" u] by (simp add: if_not_swap)
  with v4 assms show ?thesis by (simp add: applyPolicy_def usableIPs_def Let_def)
qed

lemma applyPolicy_set: "set (applyPolicy cfg ips) = set (usableIPs cfg ips)"
  by (simp add: applyPolicy_def usableIPs_def Let_def)

subsection \<open>Resolving\<close>

text \<open>A resolution that is answered neither by an address literal nor by the cache.\<close>

lemma Resolve_fresh:
  assumes "NormalizeHost E h = Inr n" and "ParseIP n = None"
    and "fst (getCache t1 n (cl_cache c)) = None" and "fst (Resolve E W t1 t2 h c) = Inr ips"
    and "0 < rc_CacheTTL (cl_cfg c)"
  obtains raw ttl0 ttl where "resolveFresh E W (cl_cfg c) n = Inr (raw, ttl0)"
    and "ips = applyPolicy (cl_cfg c) raw" and "0 < ttl" and "ttl \<le> rc_CacheTTL (cl_cfg c)"
    and "0 < ttl0 \<Longrightarrow> ttl \<le> ttl0"
    and "snd (Resolve E W t1 t2 h c) =
      c\<lparr>cl_cache := putCache t2 ttl n ips (snd (getCache t1 n (cl_cache c)))\<rparr>"
proof -
  let ?max = "rc_CacheTTL (cl_cfg c)"
  obtain cache where g: "getCache t1 n (cl_cache c) = (None, cache)"
    using assms(3) by (cases "getCache t1 n (cl_cache c)") auto
  obtain raw ttl0 where r: "resolveFresh E W (cl_cfg c) n = Inr (raw, ttl0)"
    and ips: "ips = applyPolicy (cl_cfg c) raw" "ips \<noteq> []"
    using assms(1,2,4) g
    by (auto simp: Resolve_def Let_def split: sum.splits if_splits)
  define ttl where "ttl = (let t = (if ttl0 \<le> 0 then ?max else ttl0) in if t > ?max then ?max else t)"
  have "snd (Resolve E W t1 t2 h c) = c\<lparr>cl_cache := putCache t2 ttl n ips cache\<rparr>"
    using assms(1,2) g r ips by (simp add: Resolve_def ttl_def Let_def)
  moreover have "0 < ttl" "ttl \<le> ?max" "0 < ttl0 \<Longrightarrow> ttl \<le> ttl0"
    using assms(5) by (simp_all add: ttl_def Let_def)
  ultimately show ?thesis using that r ips(1) g by simp
qed

subsection \<open>Properties\<close>

text \<open>
  The address policy: unusable addresses are dropped (IPv6 ones when IPv6 is disabled),
  addresses with the same text are kept once, and the preferred family is moved to the front
  without disturbing the order inside a family.
\<close>

theorem applyPolicy_partition:
  assumes "\<not> (rc_PreferIPv4 cfg \<and> rc_PreferIPv6 cfg)"
  shows "applyPolicy cfg ips =
    (let u = usableIPs cfg ips in
     if rc_PreferIPv4 cfg then filter isV4 u @ filter (\<lambda>x. \<not> isV4 x) u
     else if rc_PreferIPv6 cfg then filter (\<lambda>x. \<not> isV4 x) u @ filter isV4 u
     else u) \<and>
    distinct (map IPString (usableIPs cfg ips)) \<and>
    (rc_DisableIPv6 cfg \<longrightarrow> (\<forall>x\<in>set (applyPolicy cfg ips). isV4 x))"
proof -
  have "isV4 x" if "rc_DisableIPv6 cfg" "x \<in> set (applyPolicy cfg ips)" for x
    using that dedup_by_subset [of IPString "[]" "filter (\<lambda>x. x \<noteq> [] \<and> isV4 x) ips"]
    by (auto simp: applyPolicy_set usableIPs_def)
  moreover have "distinct (map IPString (usableIPs cfg ips))"
    using dedup_by_keys [of IPString "[]"] by (simp add: usableIPs_def)
  ultimately show ?thesis using applyPolicy_eq [OF assms] by blast
qed

definition sampleResolver :: resolverConfig where
  "sampleResolver = \<lparr>rc_Mode = ResolverSystem, rc_Servers = [], rc_PreferIPv4 = True,
     rc_PreferIPv6 = False, rc_DisableIPv6 = False, rc_CacheTTL = 10 * Minute, rc_Timeout = 5 * Second\<rparr>"

theorem applyPolicy_partition_witness:
  "applyPolicy sampleResolver [IPv6loopback, [1, 2, 3, 4], IPv6loopback] = [[1, 2, 3, 4], IPv6loopback]"
proof -
  have "usableIPs sampleResolver [IPv6loopback, [1, 2, 3, 4], IPv6loopback] = [IPv6loopback, [1, 2, 3, 4]]"
    "isV4 [1, 2, 3, 4]" "\<not> isV4 IPv6loopback" by code_simp+
  with applyPolicy_partition [of sampleResolver "[IPv6loopback, [1, 2, 3, 4], IPv6loopback]"]
  show ?thesis by (simp add: sampleResolver_def)
qed


definition sampleResolveEnv :: resolveEnv where
  "sampleResolveEnv = \<lparr>rv_LookupIPAddr = (\<lambda>_. Inr [[1, 2, 3, 4]]),
     rv_Exchange = (\<lambda>_ _ _ _. Inl ''x''), rv_PostDoH = (\<lambda>_ _ _. Inl ''x'')\<rparr>"


text \<open>
  An answer whose records all have TTL 0 is cached for the whole configured lifetime, and with
  records of TTL 300 and TTL 0 the lifetime depends on their order.
\<close>

lemma zero_TTL_cached:
  "minDuration (10 * Minute) (minPositiveTTL 0 0) = 10 * Minute"
  "minPositiveTTL (minPositiveTTL 0 0) 300 = 300 * Second"
  "minPositiveTTL (minPositiveTTL 0 300) 0 = 0"
  by code_simp+

end
