(* ===== verification/DnsIntercept.thy ===== *)
theory DnsIntercept
  imports Resolver
begin

section \<open>Package dnsintercept: the intercepting DNS server\<close>

text \<open>
  \<^verbatim>\<open>internal/dnsintercept/server.go\<close>.  \<open>handle\<close> is a function from a request
  and the server state to a response and the new state; the forwarder, the reply constructors
  of \<^verbatim>\<open>miekg/dns\<close> and the readings of the clock are arguments.  The counters are
  64-bit words.  A decoded message holds no nil records.
\<close>

record interceptConfig =
  ic_Strategy :: string
  ic_ListenAddr :: string
  ic_MapIPv4 :: ip
  ic_MapIPv6 :: ip
  ic_TTL :: int
  ic_CacheTTL :: int
  ic_BlockHTTPSRecords :: bool
  ic_ForwardTimeout :: int

record cachedMsg =
  cm_resp :: Msg
  cm_expires :: int

record Server =
  sv_cfg :: interceptConfig
  sv_matcher :: Matcher
  sv_udpServer :: "string option"
  sv_tcpServer :: "string option"
  sv_listenAddr :: string
  sv_cache :: "(string \<times> cachedMsg) list"
  sv_targetQueries :: "64 word"
  sv_forwardedQueries :: "64 word"
  sv_cacheHits :: "64 word"
  sv_blockedQueries :: "64 word"
  sv_errorQueries :: "64 word"

record Status =
  ss_Strategy :: string
  ss_ListenAddr :: string
  ss_SystemDNS :: bool
  ss_TargetQueries :: "64 word"
  ss_ForwardedQueries :: "64 word"
  ss_CacheHits :: "64 word"
  ss_BlockedQueries :: "64 word"
  ss_ErrorQueries :: "64 word"

datatype intercept_error =
    MatcherRequired
  | ForwarderRequired
  | ListenAddressRequired
  | MapAddressRequired
  | ParseListenAddr string
  | ListenTCP string string
  | ListenUnexpected string
  | ListenUDP string string
  | ListenRetries string string
  | ForwarderServersRequired string

text \<open>
  The reply constructors, with what their documentation promises: a reply carries the id of the
  request, its first question and no records, and the given code.
\<close>

record dnslib =
  dl_SetReply :: "Msg \<Rightarrow> Msg"
  dl_SetRcode :: "Msg \<Rightarrow> nat \<Rightarrow> Msg"

definition dnslib_replies :: "dnslib \<Rightarrow> bool" where
  "dnslib_replies L \<longleftrightarrow>
     (\<forall>req. dm_Id (dl_SetReply L req) = dm_Id req \<and> dm_Rcode (dl_SetReply L req) = RcodeSuccess \<and>
        dm_Answer (dl_SetReply L req) = [] \<and> dm_Question (dl_SetReply L req) = take 1 (dm_Question req)) \<and>
     (\<forall>req rcode. dm_Id (dl_SetRcode L req rcode) = dm_Id req \<and> dm_Rcode (dl_SetRcode L req rcode) = rcode \<and>
        dm_Answer (dl_SetRcode L req rcode) = [])"

subsection \<open>Construction\<close>

definition ConfigFromApp :: "Config \<Rightarrow> interceptConfig" where
  "ConfigFromApp cfg =
     (let d = c_DNS cfg in
      \<lparr>ic_Strategy = dn_Strategy d, ic_ListenAddr = TrimSpace (dn_ListenAddr d),
       ic_MapIPv4 = (if dn_MapIPv4 d \<noteq> [] then (case ParseIP (dn_MapIPv4 d) of None \<Rightarrow> [] | Some x \<Rightarrow> To4 x) else []),
       ic_MapIPv6 = (if dn_MapIPv6 d \<noteq> [] then (case ParseIP (dn_MapIPv6 d) of None \<Rightarrow> [] | Some x \<Rightarrow> To16 x) else []),
       ic_TTL = (if dn_TTL d \<le> 0 then 30 * Second else dn_TTL d),
       ic_CacheTTL = rs_CacheTTL (c_Resolver cfg),
       ic_BlockHTTPSRecords = dn_BlockHTTPSRecords d,
       ic_ForwardTimeout = (if rs_Timeout (c_Resolver cfg) \<le> 0 then 5 * Second else rs_Timeout (c_Resolver cfg))\<rparr>)"

text \<open>The forwarder is not part of the state: \<open>forwarder\<close> says whether one was given.\<close>

definition New :: "interceptConfig \<Rightarrow> Matcher option \<Rightarrow> bool \<Rightarrow> (intercept_error, Server) result" where
  "New cfg matcher forwarder =
     (if matcher = None then Inl MatcherRequired
      else if \<not> forwarder then Inl ForwarderRequired
      else if TrimSpace (ic_ListenAddr cfg) = [] then Inl ListenAddressRequired
      else if ic_MapIPv4 cfg = [] \<and> ic_MapIPv6 cfg = [] then Inl MapAddressRequired
      else Inr \<lparr>sv_cfg = cfg\<lparr>ic_TTL := (if ic_TTL cfg \<le> 0 then 30 * Second else ic_TTL cfg),
                              ic_ForwardTimeout := (if ic_ForwardTimeout cfg \<le> 0 then 5 * Second else ic_ForwardTimeout cfg),
                              ic_CacheTTL := (if ic_CacheTTL cfg \<le> 0 then 10 * Minute else ic_CacheTTL cfg)\<rparr>,
                sv_matcher = the matcher, sv_udpServer = None, sv_tcpServer = None, sv_listenAddr = [], sv_cache = [],
                sv_targetQueries = 0, sv_forwardedQueries = 0, sv_cacheHits = 0, sv_blockedQueries = 0,
                sv_errorQueries = 0\<rparr>)"

text \<open>
  Opening the pair of sockets.  The environment answers the listen calls of each attempt: the
  port of a TCP listener (None when its address is not a TCP address) or an error.  \<open>socks\<close>
  is the list of open sockets, by network and address.
\<close>

record listenEnv =
  le_ListenTCP :: "nat \<Rightarrow> string \<Rightarrow> (string, nat option) result"
  le_ListenUDP :: "nat \<Rightarrow> string \<Rightarrow> (string, unit) result"

type_synonym sockets = "(string \<times> string) list"

definition closeSocket :: "string \<times> string \<Rightarrow> sockets \<Rightarrow> sockets" where
  "closeSocket = remove1"

fun listenAnyPort ::
    "listenEnv \<Rightarrow> string \<Rightarrow> string \<Rightarrow> nat \<Rightarrow> nat \<Rightarrow> string \<Rightarrow> sockets \<Rightarrow>
     (intercept_error, string) result \<times> sockets" where
  "listenAnyPort W addr host i 0 lastErr socks = (Inl (ListenRetries addr lastErr), socks)"
| "listenAnyPort W addr host i (Suc n) lastErr socks =
     (case le_ListenTCP W i (JoinHostPort host ''0'') of
        Inl e \<Rightarrow> (Inl (ListenTCP addr e), socks)
      | Inr None \<Rightarrow>
          (let tcp = (''tcp'', JoinHostPort host ''0'') in
           (Inl (ListenUnexpected addr), closeSocket tcp (tcp # socks)))
      | Inr (Some port) \<Rightarrow>
          (let actualAddr = JoinHostPort host (digitsOf port); socks = (''tcp'', actualAddr) # socks in
           case le_ListenUDP W i actualAddr of
             Inr _ \<Rightarrow> (Inr actualAddr, (''udp'', actualAddr) # socks)
           | Inl e \<Rightarrow> listenAnyPort W addr host (Suc i) n e (closeSocket (''tcp'', actualAddr) socks)))"

definition listenPair ::
    "listenEnv \<Rightarrow> string \<Rightarrow> sockets \<Rightarrow> (intercept_error, string) result \<times> sockets" where
  "listenPair W addr socks =
     (case SplitHostPort addr of
        None \<Rightarrow> (Inl (ParseListenAddr addr), socks)
      | Some (host, port) \<Rightarrow>
          if port = ''0'' then listenAnyPort W addr host 0 200 [] socks
          else (case le_ListenUDP W 0 addr of
                  Inl e \<Rightarrow> (Inl (ListenUDP addr e), socks)
                | Inr _ \<Rightarrow>
                    (let socks = (''udp'', addr) # socks in
                     case le_ListenTCP W 0 addr of
                       Inl e \<Rightarrow> (Inl (ListenTCP addr e), closeSocket (''udp'', addr) socks)
                     | Inr _ \<Rightarrow> (Inr addr, (''tcp'', addr) # socks))))"

definition Start :: "listenEnv \<Rightarrow> sockets \<Rightarrow> Server \<Rightarrow> (intercept_error, unit) result \<times> sockets \<times> Server" where
  "Start W socks s =
     (if sv_udpServer s \<noteq> None \<or> sv_tcpServer s \<noteq> None then (Inr (), socks, s)
      else (case listenPair W (ic_ListenAddr (sv_cfg s)) socks of
              (Inl e, socks) \<Rightarrow> (Inl e, socks, s)
            | (Inr addr, socks) \<Rightarrow>
                (Inr (), socks, s\<lparr>sv_udpServer := Some addr, sv_tcpServer := Some addr, sv_listenAddr := addr\<rparr>)))"

text \<open>Stopping; \<open>shutdown\<close> is the outcome of shutting a server down, which closes its socket.\<close>

definition Stop ::
    "(string \<Rightarrow> string option) \<Rightarrow> sockets \<Rightarrow> Server \<Rightarrow> string list \<times> sockets \<times> Server" where
  "Stop shutdown socks s =
     (let stop = (\<lambda>net server (errs, socks).
            case server of
              None \<Rightarrow> (errs, socks)
            | Some addr \<Rightarrow> (case shutdown net of None \<Rightarrow> errs | Some e \<Rightarrow> errs @ [e],
                            closeSocket (net, addr) socks));
          (errs, socks) = stop ''tcp'' (sv_tcpServer s) (stop ''udp'' (sv_udpServer s) ([], socks))
      in (errs, socks, s\<lparr>sv_udpServer := None, sv_tcpServer := None, sv_listenAddr := []\<rparr>))"

definition serverStatus :: "Server \<Rightarrow> Status" where
  "serverStatus s =
     \<lparr>ss_Strategy = ic_Strategy (sv_cfg s),
      ss_ListenAddr = (if sv_listenAddr s = [] then ic_ListenAddr (sv_cfg s) else sv_listenAddr s),
      ss_SystemDNS = False, ss_TargetQueries = sv_targetQueries s,
      ss_ForwardedQueries = sv_forwardedQueries s, ss_CacheHits = sv_cacheHits s,
      ss_BlockedQueries = sv_blockedQueries s, ss_ErrorQueries = sv_errorQueries s\<rparr>"

subsection \<open>TTLs and the cache\<close>

text \<open>Integer division of durations truncates towards zero; the conversion to uint32 wraps.\<close>

definition quotDuration :: "int \<Rightarrow> int \<Rightarrow> int" where
  "quotDuration a b = (if 0 \<le> a then a div b else - ((- a) div b))"

definition seconds32 :: "int \<Rightarrow> 32 word" where
  "seconds32 d = word_of_int (quotDuration d Second)"

definition allRecords :: "Msg \<Rightarrow> RR list" where
  "allRecords resp = dm_Answer resp @ dm_Ns resp @ dm_Extra resp"

primrec lowestTTL :: "32 word option \<Rightarrow> RR list \<Rightarrow> 32 word option" where
  "lowestTTL ttl [] = ttl"
| "lowestTTL ttl (rr # rrs) =
     lowestTTL (case ttl of None \<Rightarrow> Some (rr_Ttl rr)
                | Some t \<Rightarrow> if rr_Ttl rr < t then Some (rr_Ttl rr) else Some t) rrs"

definition responseTTL :: "Msg \<Rightarrow> int \<Rightarrow> int" where
  "responseTTL resp maxTTL =
     (let maxTTL = (if maxTTL \<le> 0 then 10 * Minute else maxTTL) in
      case lowestTTL None (allRecords resp) of
        None \<Rightarrow> maxTTL
      | Some ttl \<Rightarrow>
          (let duration = int (unat ttl) * Second in if duration > maxTTL then maxTTL else duration))"

definition capRR :: "32 word \<Rightarrow> RR \<Rightarrow> RR" where
  "capRR remaining rr = (if rr_Ttl rr > remaining then rr\<lparr>rr_Ttl := remaining\<rparr> else rr)"

definition capResponseTTL :: "32 word \<Rightarrow> Msg \<Rightarrow> Msg" where
  "capResponseTTL remaining resp =
     resp\<lparr>dm_Answer := map (capRR remaining) (dm_Answer resp),
          dm_Ns := map (capRR remaining) (dm_Ns resp),
          dm_Extra := map (capRR remaining) (dm_Extra resp)\<rparr>"

definition questionKey :: "golib \<Rightarrow> Question \<Rightarrow> string" where
  "questionKey E q = ToLower E (q_Name q) @ ''|'' @ digitsOf (q_Qtype q) @ ''|'' @ digitsOf (q_Qclass q)"

definition cacheKey :: "golib \<Rightarrow> Msg \<Rightarrow> string option" where
  "cacheKey E req = (case dm_Question req of [q] \<Rightarrow> Some (questionKey E q) | _ \<Rightarrow> None)"

definition lookupCache :: "int \<Rightarrow> string \<Rightarrow> (string \<times> cachedMsg) list \<Rightarrow> cachedMsg option \<times> (string \<times> cachedMsg) list" where
  "lookupCache now key cache =
     (case map_of cache key of
        None \<Rightarrow> (None, cache)
      | Some entry \<Rightarrow>
          if \<not> now < cm_expires entry then (None, AList.delete key cache) else (Some entry, cache))"

text \<open>\<open>getCache\<close> reads the clock twice, for the expiry check and for the remaining TTL.\<close>

definition getCache :: "golib \<Rightarrow> int \<Rightarrow> int \<Rightarrow> Msg \<Rightarrow> Server \<Rightarrow> Msg option \<times> Server" where
  "getCache E now now' req s =
     (case cacheKey E req of
        None \<Rightarrow> (None, s)
      | Some key \<Rightarrow>
          (case lookupCache now key (sv_cache s) of
             (None, cache) \<Rightarrow> (None, s\<lparr>sv_cache := cache\<rparr>)
           | (Some entry, cache) \<Rightarrow>
               (Some (capResponseTTL (seconds32 (cm_expires entry - now')) ((cm_resp entry)\<lparr>dm_Id := dm_Id req\<rparr>)),
                s\<lparr>sv_cache := cache\<rparr>)))"

definition storeCache :: "int \<Rightarrow> int \<Rightarrow> string \<Rightarrow> Msg \<Rightarrow> (string \<times> cachedMsg) list \<Rightarrow> (string \<times> cachedMsg) list" where
  "storeCache now ttl key resp cache =
     AList.update key \<lparr>cm_resp = resp\<lparr>dm_Id := 0\<rparr>, cm_expires = now + ttl\<rparr> cache"

definition putCache :: "golib \<Rightarrow> int \<Rightarrow> Msg \<Rightarrow> Msg \<Rightarrow> Server \<Rightarrow> Server" where
  "putCache E now req resp s =
     (if dm_Rcode resp \<noteq> RcodeSuccess then s
      else (case cacheKey E req of
              None \<Rightarrow> s
            | Some key \<Rightarrow>
                (let ttl = responseTTL resp (ic_CacheTTL (sv_cfg s)) in
                 if ttl \<le> 0 then s else s\<lparr>sv_cache := storeCache now ttl key resp (sv_cache s)\<rparr>)))"

subsection \<open>Handling a query\<close>

definition shouldForwardTargetQuery :: "Server \<Rightarrow> Question \<Rightarrow> bool" where
  "shouldForwardTargetQuery s q \<longleftrightarrow>
     q_Qclass q = ClassINET \<and> (q_Qtype q = TypeHTTPS \<or> q_Qtype q = TypeSVCB) \<and> \<not> ic_BlockHTTPSRecords (sv_cfg s)"

text \<open>The clock at the two readings of the cache lookup and at the cache update.\<close>

record clocks =
  ck_get :: int
  ck_until :: int
  ck_put :: int

type_synonym forwarder = "Msg \<Rightarrow> (string, Msg option) result"

definition forwardResponse ::
    "golib \<Rightarrow> dnslib \<Rightarrow> forwarder \<Rightarrow> clocks \<Rightarrow> Msg \<Rightarrow> Server \<Rightarrow> Msg \<times> Server" where
  "forwardResponse E L F t req s =
     (case getCache E (ck_get t) (ck_until t) req s of
        (Some resp, s) \<Rightarrow> (resp, s\<lparr>sv_cacheHits := sv_cacheHits s + 1\<rparr>)
      | (None, s) \<Rightarrow>
          (let s = s\<lparr>sv_forwardedQueries := sv_forwardedQueries s + 1\<rparr>;
               failed = (dl_SetRcode L req RcodeServerFailure, s\<lparr>sv_errorQueries := sv_errorQueries s + 1\<rparr>)
           in case F req of
                Inl e \<Rightarrow> failed
              | Inr None \<Rightarrow> failed
              | Inr (Some resp) \<Rightarrow>
                  (let resp = resp\<lparr>dm_Id := dm_Id req\<rparr> in (resp, putCache E (ck_put t) req resp s))))"

definition blocked :: "Server \<Rightarrow> Server" where
  "blocked s = s\<lparr>sv_blockedQueries := sv_blockedQueries s + 1\<rparr>"

definition targetResponse :: "dnslib \<Rightarrow> Msg \<Rightarrow> Question \<Rightarrow> Server \<Rightarrow> Msg \<times> Server" where
  "targetResponse L req q s =
     (let resp = (dl_SetReply L req)\<lparr>dm_Authoritative := True, dm_RecursionAvailable := True\<rparr>;
          ttl = seconds32 (ic_TTL (sv_cfg s));
          answer = (\<lambda>type ip. resp\<lparr>dm_Answer := dm_Answer resp @
                     [\<lparr>rr_Name = q_Name q, rr_Type = type, rr_Class = ClassINET, rr_Ttl = ttl, rr_IP = ip\<rparr>]\<rparr>)
      in if q_Qclass q \<noteq> ClassINET then (resp, blocked s)
         else if q_Qtype q = TypeA then
           (if ic_MapIPv4 (sv_cfg s) = [] then (resp, blocked s)
            else (answer TypeA (To4 (ic_MapIPv4 (sv_cfg s))), s))
         else if q_Qtype q = TypeAAAA then
           (if ic_MapIPv6 (sv_cfg s) = [] then (resp, blocked s)
            else (answer TypeAAAA (To16 (ic_MapIPv6 (sv_cfg s))), s))
         else if q_Qtype q = TypeHTTPS \<or> q_Qtype q = TypeSVCB then
           (if ic_BlockHTTPSRecords (sv_cfg s) then (resp, blocked s) else (resp, s))
         else (resp, blocked s))"

definition handle ::
    "golib \<Rightarrow> dnslib \<Rightarrow> forwarder \<Rightarrow> clocks \<Rightarrow> Msg \<Rightarrow> Server \<Rightarrow> Msg \<times> Server" where
  "handle E L F t req s =
     (case dm_Question req of
        [] \<Rightarrow> (dl_SetReply L req, s)
      | q # _ \<Rightarrow>
          if MatchHost E (sv_matcher s) (TrimSuffix (q_Name q) ''.'') \<noteq> None then
            (let s = s\<lparr>sv_targetQueries := sv_targetQueries s + 1\<rparr> in
             if shouldForwardTargetQuery s q then forwardResponse E L F t req s
             else targetResponse L req q s)
          else forwardResponse E L F t req s)"

definition ServeDNS ::
    "golib \<Rightarrow> dnslib \<Rightarrow> forwarder \<Rightarrow> clocks \<Rightarrow> bool \<Rightarrow> Msg \<Rightarrow> Server \<Rightarrow> Msg \<times> Server" where
  "ServeDNS E L F t writeOK req s =
     (case handle E L F t req s of
        (resp, s) \<Rightarrow> (resp, if writeOK then s else s\<lparr>sv_errorQueries := sv_errorQueries s + 1\<rparr>))"

subsection \<open>Forwarding\<close>

definition withDefaultDNSPort :: "string \<Rightarrow> string" where
  "withDefaultDNSPort server =
     (case SplitHostPort server of Some _ \<Rightarrow> server | None \<Rightarrow> JoinHostPort server ''53'')"

record RawForwarder =
  fw_mode :: string
  fw_servers :: "string list"
  fw_timeout :: int

definition NewRawForwarder :: "resolverConfig \<Rightarrow> (intercept_error, RawForwarder) result" where
  "NewRawForwarder cfg =
     (let system = (rc_Mode cfg = [] \<or> rc_Mode cfg = ResolverSystem);
          mode = (if system then ResolverDoH else rc_Mode cfg);
          servers = (if system then DefaultDoHServers else rc_Servers cfg);
          servers = (if mode = ResolverDoH \<and> servers = [] then DefaultDoHServers else servers)
      in if servers = [] then Inl (ForwarderServersRequired mode)
         else Inr \<lparr>fw_mode = mode,
                    fw_servers = map (\<lambda>server. if mode = ResolverUDP \<or> mode = ResolverTCP
                                               then withDefaultDNSPort (TrimSpace server) else TrimSpace server) servers,
                    fw_timeout = (if rc_Timeout cfg \<le> 0 then 5 * Second else rc_Timeout cfg)\<rparr>)"

text \<open>The transports: a DNS exchange over a network, and a DoH exchange with its status and body.\<close>

record transports =
  tx_exchange :: "string \<Rightarrow> string \<Rightarrow> Msg \<Rightarrow> (string, Msg) result"
  tx_pack :: "Msg \<Rightarrow> string option"
  tx_post :: "string \<Rightarrow> string \<Rightarrow> (string, int \<times> (string, string) result) result"
  tx_unpack :: "string \<Rightarrow> Msg option"

definition forwardDoH :: "transports \<Rightarrow> string \<Rightarrow> Msg \<Rightarrow> (string, Msg) result" where
  "forwardDoH T server req =
     (case tx_pack T req of
        None \<Rightarrow> Inl ''pack''
      | Some wire \<Rightarrow>
          rbind (tx_post T server wire) (\<lambda>(status, body).
          if status < 200 \<or> status \<ge> 300 then Inl ''DoH status''
          else rbind body (\<lambda>data.
            case tx_unpack T (take 65536 data) of None \<Rightarrow> Inl ''unpack'' | Some resp \<Rightarrow> Inr resp)))"

definition forwardOne :: "transports \<Rightarrow> RawForwarder \<Rightarrow> Msg \<Rightarrow> string \<Rightarrow> (string, Msg) result" where
  "forwardOne T f req server =
     (if fw_mode f = ResolverUDP \<or> fw_mode f = ResolverTCP then
        tx_exchange T (if fw_mode f = ResolverTCP then ''tcp'' else ''udp'') server req
      else if fw_mode f = ResolverDoH then forwardDoH T server req
      else Inl ''unsupported resolver mode'')"

primrec forwardLoop ::
    "(nat \<Rightarrow> transports) \<Rightarrow> RawForwarder \<Rightarrow> Msg \<Rightarrow> nat \<Rightarrow> string list \<Rightarrow> (string \<times> string) list \<Rightarrow>
     ((string \<times> string) list, Msg) result" where
  "forwardLoop T f req i [] errs = Inl errs"
| "forwardLoop T f req i (server # servers) errs =
     (case forwardOne (T i) f req server of
        Inr resp \<Rightarrow> Inr resp
      | Inl e \<Rightarrow> forwardLoop T f req (Suc i) servers (errs @ [(server, e)]))"

definition Forward :: "(nat \<Rightarrow> transports) \<Rightarrow> RawForwarder \<Rightarrow> Msg \<Rightarrow> ((string \<times> string) list, Msg) result" where
  "Forward T f req = forwardLoop T f req 0 (fw_servers f) []"

text \<open>The forwarder of a server built with \<open>NewRawForwarder\<close>.\<close>

definition rawForwarder :: "(nat \<Rightarrow> transports) \<Rightarrow> RawForwarder \<Rightarrow> forwarder" where
  "rawForwarder T f req = 
     (case Forward T f req of
        Inl errs \<Rightarrow> Inl (Join (map (\<lambda>(server, e). server @ '': '' @ e) errs) [LF])
      | Inr resp \<Rightarrow> Inr (Some resp))"

subsection \<open>The interfaces implemented\<close>

definition forwardAttempt ::
    "(nat \<Rightarrow> transports) \<Rightarrow> RawForwarder \<Rightarrow> Msg \<Rightarrow> nat \<Rightarrow> string \<Rightarrow> (string \<times> string, Msg) result" where
  "forwardAttempt T f req i server = map_err (Pair server) (forwardOne (T i) f req server)"

interpretation forwarding: ordered_fallback "forwardLoop T f req" "forwardAttempt T f req" for T f req
  by unfold_locales (simp_all add: forwardAttempt_def map_err_def split: sum.splits)

text \<open>The cache of messages, with the copies the code stores.\<close>

definition storedMsg :: "(string \<times> cachedMsg) list \<Rightarrow> string \<Rightarrow> (Msg \<times> int) option" where
  "storedMsg cache k = map_option (\<lambda>e. (cm_resp e, cm_expires e)) (map_of cache k)"

definition lookupMsg :: "int \<Rightarrow> string \<Rightarrow> (string \<times> cachedMsg) list \<Rightarrow> Msg option \<times> (string \<times> cachedMsg) list" where
  "lookupMsg now key cache = map_prod (map_option cm_resp) (\<lambda>c. c) (lookupCache now key cache)"

definition storeMsg :: "int \<Rightarrow> int \<Rightarrow> string \<Rightarrow> Msg \<Rightarrow> (string \<times> cachedMsg) list \<Rightarrow> (string \<times> cachedMsg) list" where
  "storeMsg now ttl key resp cache = AList.update key \<lparr>cm_resp = resp, cm_expires = now + ttl\<rparr> cache"

interpretation icache: ttl_cache lookupMsg storeMsg "(<)" storedMsg
  by unfold_locales
    (auto simp: lookupMsg_def lookupCache_def storeMsg_def storedMsg_def update_conv' delete_conv'
      split: option.splits if_splits)

lemma Forward_success:
  "Forward T f req = Inr resp \<longleftrightarrow>
     (\<exists>k<length (fw_servers f). forwardOne (T k) f req (fw_servers f ! k) = Inr resp \<and>
        (\<forall>j<k. \<not> is_ok (forwardOne (T j) f req (fw_servers f ! j))))"
  using forwarding.loop_success [of T f req 0 "fw_servers f" "[]" resp]
  by (simp add: Forward_def forwardAttempt_def res_simps)

lemma storeCache_storeMsg: "storeCache now ttl key resp = storeMsg now ttl key (resp\<lparr>dm_Id := 0\<rparr>)"
  by (rule ext) (simp add: storeCache_def storeMsg_def)

lemma getCache_lookupMsg:
  "sv_cache (snd (getCache E now now' req s)) =
     (case cacheKey E req of None \<Rightarrow> sv_cache s | Some key \<Rightarrow> snd (lookupMsg now key (sv_cache s)))"
  by (auto simp: getCache_def lookupMsg_def split: option.splits prod.splits)

lemma getCache_hit:
  assumes "getCache E now now' req s = (Some resp, s')"
  shows "\<exists>key m e. cacheKey E req = Some key \<and> storedMsg (sv_cache s) key = Some (m, e) \<and> now < e \<and>
    resp = capResponseTTL (seconds32 (e - now')) (m\<lparr>dm_Id := dm_Id req\<rparr>)"
  using assms
  by (auto simp: getCache_def lookupCache_def storedMsg_def split: option.splits prod.splits if_splits)

lemma getCache_frame: "snd (getCache E now now' req s) = s\<lparr>sv_cache := sv_cache (snd (getCache E now now' req s))\<rparr>"
  by (simp add: getCache_def split: option.splits prod.splits)

text \<open>What a query may add to the cache: the forwarded answer, under the key of the query.\<close>

definition admitted :: "golib \<Rightarrow> forwarder \<Rightarrow> clocks \<Rightarrow> Msg \<Rightarrow> int \<Rightarrow> string \<Rightarrow> Msg \<Rightarrow> int \<Rightarrow> Msg \<Rightarrow> bool" where
  "admitted E F t req maxTTL k m e r \<longleftrightarrow>
     F req = Inr (Some r) \<and> dm_Rcode r = RcodeSuccess \<and> cacheKey E req = Some k \<and>
     m = r\<lparr>dm_Id := 0\<rparr> \<and> e = ck_put t + responseTTL r maxTTL"

lemma responseTTL_Id [simp]: "responseTTL (r\<lparr>dm_Id := i\<rparr>) maxTTL = responseTTL r maxTTL"
  by (simp add: responseTTL_def allRecords_def)

lemma putCache_entry:
  assumes "storedMsg (sv_cache (putCache E now req resp s)) k = Some (m, e)"
  shows "storedMsg (sv_cache s) k = Some (m, e) \<or>
    dm_Rcode resp = RcodeSuccess \<and> cacheKey E req = Some k \<and> m = resp\<lparr>dm_Id := 0\<rparr> \<and>
    e = now + responseTTL resp (ic_CacheTTL (sv_cfg s))"
  using assms
  by (auto simp: putCache_def Let_def storeCache_storeMsg icache.put_entry split: option.splits if_splits)

lemma forwardResponse_entry:
  assumes "storedMsg (sv_cache (snd (forwardResponse E L F t req s))) k = Some (m, e)"
  shows "storedMsg (sv_cache s) k = Some (m, e) \<or>
    (\<exists>r. admitted E F t req (ic_CacheTTL (sv_cfg s)) k m e r)"
proof -
  obtain o1 s1 where g: "getCache E (ck_get t) (ck_until t) req s = (o1, s1)"
    by (cases "getCache E (ck_get t) (ck_until t) req s") auto
  have s1: "s1 = s\<lparr>sv_cache := sv_cache s1\<rparr>" using getCache_frame [of E _ _ req s] g by (metis snd_conv)
  have cfg: "sv_cfg s1 = sv_cfg s" by (subst s1) simp
  have keep: "storedMsg (sv_cache s1) k = Some (m, e) \<Longrightarrow> storedMsg (sv_cache s) k = Some (m, e)"
    using getCache_lookupMsg [of E "ck_get t" "ck_until t" req s] g
    by (auto simp: icache.get_entry split: option.splits if_splits)
  show ?thesis
  proof (cases o1)
    case (Some resp)
    with assms g keep show ?thesis by (simp add: forwardResponse_def)
  next
    case None
    show ?thesis
    proof (cases "\<exists>r. F req = Inr (Some r)")
      case True
      then obtain r where r: "F req = Inr (Some r)" ..
      with None g assms
      have "storedMsg (sv_cache (putCache E (ck_put t) req (r\<lparr>dm_Id := dm_Id req\<rparr>)
          (s1\<lparr>sv_forwardedQueries := sv_forwardedQueries s1 + 1\<rparr>))) k = Some (m, e)"
        by (simp add: forwardResponse_def Let_def)
      from putCache_entry [OF this] r keep show ?thesis by (auto simp: admitted_def cfg)
    next
      case False
      with None g assms keep show ?thesis
        by (auto simp: forwardResponse_def Let_def split: sum.splits option.splits)
    qed
  qed
qed

lemma targetResponse_frame [simp]:
  "sv_cache (snd (targetResponse L req q s)) = sv_cache s"
  "sv_cfg (snd (targetResponse L req q s)) = sv_cfg s"
  "sv_matcher (snd (targetResponse L req q s)) = sv_matcher s"
  "sv_forwardedQueries (snd (targetResponse L req q s)) = sv_forwardedQueries s"
  "sv_targetQueries (snd (targetResponse L req q s)) = sv_targetQueries s"
  "sv_cacheHits (snd (targetResponse L req q s)) = sv_cacheHits s"
  "sv_errorQueries (snd (targetResponse L req q s)) = sv_errorQueries s"
  by (simp_all add: targetResponse_def blocked_def Let_def)

lemma forwardResponse_cfg [simp]: "sv_cfg (snd (forwardResponse E L F t req s)) = sv_cfg s"
  by (simp add: forwardResponse_def getCache_def putCache_def Let_def split: option.splits prod.splits sum.splits)

lemma handle_cfg [simp]: "sv_cfg (snd (handle E L F t req s)) = sv_cfg s"
  by (simp add: handle_def Let_def split: list.splits)

lemma handle_entry:
  assumes "storedMsg (sv_cache (snd (handle E L F t req s))) k = Some (m, e)"
  shows "storedMsg (sv_cache s) k = Some (m, e) \<or>
    (\<exists>r. admitted E F t req (ic_CacheTTL (sv_cfg s)) k m e r)"
  using assms forwardResponse_entry [of E L F t req s k m e]
    forwardResponse_entry [of E L F t req "s\<lparr>sv_targetQueries := sv_targetQueries s + 1\<rparr>" k m e]
  by (auto simp: handle_def Let_def split: list.splits if_splits)

subsection \<open>Keys and lifetimes\<close>

lemma append_digits_inject:
  assumes "xs @ CHR ''|'' # ds = ys @ CHR ''|'' # es" and "list_all isDigit ds" and "list_all isDigit es"
  shows "xs = ys \<and> ds = es"
proof -
  have suffix: "takeWhile isDigit (rev (zs @ CHR ''|'' # fs)) = rev fs" if "list_all isDigit fs" for zs fs
  proof -
    have "takeWhile isDigit (rev fs @ CHR ''|'' # rev zs) = rev fs @ takeWhile isDigit (CHR ''|'' # rev zs)"
      using that by (intro takeWhile_append2) (simp add: list_all_iff)
    then show ?thesis by (simp add: isDigit_def)
  qed
  have "ds = es"
    using suffix [OF assms(2), of xs] suffix [OF assms(3), of ys] assms(1) by (metis rev_rev_ident)
  with assms(1) show ?thesis by simp
qed

lemma digitsOf_inject: "digitsOf m = digitsOf n \<longleftrightarrow> m = n"
  by (metis decimal_digitsOf)

lemma questionKey_inject:
  "questionKey E q = questionKey E q' \<longleftrightarrow>
     ToLower E (q_Name q) = ToLower E (q_Name q') \<and> q_Qtype q = q_Qtype q' \<and> q_Qclass q = q_Qclass q'"
  (is "?l \<longleftrightarrow> ?r")
proof
  assume ?l
  then have "(ToLower E (q_Name q) @ CHR ''|'' # digitsOf (q_Qtype q)) @ CHR ''|'' # digitsOf (q_Qclass q) =
      (ToLower E (q_Name q') @ CHR ''|'' # digitsOf (q_Qtype q')) @ CHR ''|'' # digitsOf (q_Qclass q')"
    by (simp add: questionKey_def)
  from append_digits_inject [OF this digitsOf_digits digitsOf_digits]
  have "ToLower E (q_Name q) @ CHR ''|'' # digitsOf (q_Qtype q) =
      ToLower E (q_Name q') @ CHR ''|'' # digitsOf (q_Qtype q')" and cls: "q_Qclass q = q_Qclass q'"
    by (simp_all add: digitsOf_inject)
  from append_digits_inject [OF this(1) digitsOf_digits digitsOf_digits] cls
  show ?r by (simp add: digitsOf_inject)
qed (simp add: questionKey_def)

text \<open>The same question: the name up to case, the type and the class.\<close>

definition sameQuestion :: "golib \<Rightarrow> Msg \<Rightarrow> Msg \<Rightarrow> bool" where
  "sameQuestion E req req' \<longleftrightarrow>
     (\<exists>q q'. dm_Question req = [q] \<and> dm_Question req' = [q'] \<and>
        ToLower E (q_Name q) = ToLower E (q_Name q') \<and> q_Qtype q = q_Qtype q' \<and> q_Qclass q = q_Qclass q')"

lemma cacheKey_sameQuestion:
  "cacheKey E req = Some k \<Longrightarrow> cacheKey E req' = Some k \<Longrightarrow> sameQuestion E req req'"
  by (auto simp: cacheKey_def sameQuestion_def questionKey_inject split: list.splits)

lemma lowestTTL_le:
  assumes "lowestTTL ttl rrs = Some t"
  shows "(\<forall>t0. ttl = Some t0 \<longrightarrow> t \<le> t0) \<and> (\<forall>rr\<in>set rrs. t \<le> rr_Ttl rr)"
  using assms
proof (induction rrs arbitrary: ttl)
  case Nil
  then show ?case by simp
next
  case (Cons rr rrs)
  from Cons.prems Cons.IH show ?case
    by (fastforce split: option.splits if_splits)
qed

lemma lowestTTL_None: "lowestTTL ttl rrs = None \<longleftrightarrow> ttl = None \<and> rrs = []"
  by (induction rrs arbitrary: ttl) (auto split: option.splits)

lemma responseTTL_le_record:
  assumes "rr \<in> set (allRecords r)"
  shows "responseTTL r maxTTL \<le> int (unat (rr_Ttl rr)) * Second"
proof -
  obtain t where t: "lowestTTL None (allRecords r) = Some t"
    using assms lowestTTL_None [of None "allRecords r"] by (cases "lowestTTL None (allRecords r)") auto
  then have "int (unat t) \<le> int (unat (rr_Ttl rr))"
    using lowestTTL_le [OF t] assms by (simp only: word_le_nat_alt of_nat_le_iff)
  then have "int (unat t) * Second \<le> int (unat (rr_Ttl rr)) * Second"
    by (rule mult_right_mono) (simp add: Second_def)
  moreover have "responseTTL r maxTTL \<le> int (unat t) * Second"
    using t by (simp add: responseTTL_def Let_def)
  ultimately show ?thesis by (rule order_trans [rotated])
qed

lemma responseTTL_le_max: "0 < maxTTL \<Longrightarrow> responseTTL r maxTTL \<le> maxTTL"
  by (simp add: responseTTL_def Let_def split: option.splits)

lemma seconds32_le: "0 \<le> d \<Longrightarrow> int (unat (seconds32 d)) * Second \<le> d"
proof -
  assume d: "0 \<le> d"
  have "int (unat (seconds32 d)) = (d div Second) mod 2 ^ 32"
    using d by (simp add: seconds32_def quotDuration_def uint_word_of_int flip: uint_nat)
  also have "\<dots> \<le> d div Second" using d by (intro zmod_le_nonneg_dividend) (simp add: Second_def)
  finally show ?thesis using d by (simp add: Second_def)
qed

lemma allRecords_cap:
  "allRecords (capResponseTTL remaining (m\<lparr>dm_Id := i\<rparr>)) = map (capRR remaining) (allRecords m)"
  by (simp add: allRecords_def capResponseTTL_def)

lemma allRecords_Id [simp]: "allRecords (m\<lparr>dm_Id := i\<rparr>) = allRecords m"
  by (simp add: allRecords_def)

lemma capRR_le:
  "int (unat (rr_Ttl (capRR remaining rr))) * Second \<le> int (unat remaining) * Second"
proof -
  have "unat (rr_Ttl (capRR remaining rr)) \<le> unat remaining"
    by (simp add: capRR_def word_le_nat_alt word_less_nat_alt)
  then show ?thesis by (intro mult_right_mono) (simp_all only: of_nat_le_iff, simp add: Second_def)
qed

subsection \<open>Sequences of queries\<close>

record query =
  qy_forwarder :: forwarder
  qy_clocks :: clocks
  qy_writeOK :: bool
  qy_req :: Msg

definition serve :: "golib \<Rightarrow> dnslib \<Rightarrow> query \<Rightarrow> Server \<Rightarrow> Server" where
  "serve E L q s = snd (ServeDNS E L (qy_forwarder q) (qy_clocks q) (qy_writeOK q) (qy_req q) s)"

lemma serve_cfg [simp]: "sv_cfg (serve E L q s) = sv_cfg s"
  using handle_cfg [of E L "qy_forwarder q" "qy_clocks q" "qy_req q" s]
  by (auto simp: serve_def ServeDNS_def simp del: handle_cfg split: prod.splits)

lemma fold_serve_cfg [simp]: "sv_cfg (fold (serve E L) qs s) = sv_cfg s"
  by (induction qs arbitrary: s) simp_all

lemma serve_entry:
  assumes "storedMsg (sv_cache (serve E L q s)) k = Some (m, e)"
  shows "storedMsg (sv_cache s) k = Some (m, e) \<or>
    (\<exists>r. admitted E (qy_forwarder q) (qy_clocks q) (qy_req q) (ic_CacheTTL (sv_cfg s)) k m e r)"
  using assms handle_entry [of E L "qy_forwarder q" "qy_clocks q" "qy_req q" s k m e]
  by (auto simp: serve_def ServeDNS_def split: prod.splits if_splits)

lemma fold_serve_entry:
  assumes "sv_cache s0 = []" and "storedMsg (sv_cache (fold (serve E L) qs s0)) k = Some (m, e)"
  shows "\<exists>q\<in>set qs. \<exists>r. admitted E (qy_forwarder q) (qy_clocks q) (qy_req q) (ic_CacheTTL (sv_cfg s0)) k m e r"
  using assms(2)
proof (induction qs rule: rev_induct)
  case Nil
  with assms(1) show ?case by (simp add: storedMsg_def)
next
  case (snoc q qs)
  with serve_entry [of E L q "fold (serve E L) qs s0" k m e] show ?case by auto
qed

lemma New_state:
  assumes "New cfg matcher forwarder = Inr s"
  shows "sv_cache s = []" and "0 < ic_CacheTTL (sv_cfg s)" and "sv_udpServer s = None" and "sv_tcpServer s = None"
  using assms by (auto simp: New_def Minute_def Second_def split: if_splits)

subsection \<open>Sockets\<close>

text \<open>Opening either fails and leaves no socket behind, or opens the pair at one address.\<close>

definition pairOpened :: "sockets \<Rightarrow> (intercept_error, string) result \<Rightarrow> sockets \<Rightarrow> bool" where
  "pairOpened socks r socks' \<longleftrightarrow>
     (case r of Inl _ \<Rightarrow> socks' = socks
      | Inr a \<Rightarrow> mset socks' = mset socks + {#(''udp'', a), (''tcp'', a)#})"

lemma listenAnyPort_pair:
  "listenAnyPort W addr host i n lastErr socks = (r, socks') \<Longrightarrow> pairOpened socks r socks'"
proof (induction n arbitrary: i lastErr)
  case 0
  then show ?case by (auto simp: pairOpened_def)
next
  case (Suc n)
  show ?case
  proof (cases "le_ListenTCP W i (JoinHostPort host ''0'')")
    case (Inr p)
    show ?thesis
    proof (cases p)
      case (Some port)
      with Inr Suc.prems show ?thesis
        by (cases "le_ListenUDP W i (JoinHostPort host (digitsOf port))")
          (auto simp: Let_def closeSocket_def pairOpened_def [of _ "Inr _"] intro: Suc.IH)
    qed (use Inr Suc.prems in \<open>auto simp: pairOpened_def closeSocket_def\<close>)
  qed (use Suc.prems in \<open>auto simp: pairOpened_def\<close>)
qed

lemma listenPair_pair:
  assumes "listenPair W addr socks = (r, socks')"
  shows "pairOpened socks r socks'"
proof (cases "SplitHostPort addr")
  case (Some hp)
  obtain host port where hp: "hp = (host, port)" by (cases hp)
  show ?thesis
  proof (cases "port = ''0''")
    case True
    with assms Some hp show ?thesis by (auto simp: listenPair_def intro: listenAnyPort_pair)
  next
    case False
    with assms Some hp show ?thesis
      by (auto simp: listenPair_def pairOpened_def closeSocket_def Let_def split: sum.splits)
  qed
qed (use assms in \<open>auto simp: listenPair_def pairOpened_def\<close>)

subsection \<open>Answers\<close>

text \<open>The address a target name is mapped to, for the types that have one.\<close>

definition mappedAddress :: "interceptConfig \<Rightarrow> Question \<Rightarrow> ip" where
  "mappedAddress cfg q =
     (if q_Qclass q \<noteq> ClassINET then []
      else if q_Qtype q = TypeA then ic_MapIPv4 cfg
      else if q_Qtype q = TypeAAAA then ic_MapIPv6 cfg
      else [])"

definition mappedRecord :: "interceptConfig \<Rightarrow> Question \<Rightarrow> RR" where
  "mappedRecord cfg q =
     \<lparr>rr_Name = q_Name q, rr_Type = q_Qtype q, rr_Class = ClassINET, rr_Ttl = seconds32 (ic_TTL cfg),
      rr_IP = (if q_Qtype q = TypeA then To4 (ic_MapIPv4 cfg) else To16 (ic_MapIPv6 cfg))\<rparr>"

lemma targetResponse_answer:
  assumes "dnslib_replies L" and "\<not> shouldForwardTargetQuery s q"
  shows "dm_Answer (fst (targetResponse L req q s)) =
      (if mappedAddress (sv_cfg s) q = [] then [] else [mappedRecord (sv_cfg s) q])"
    and "sv_blockedQueries (snd (targetResponse L req q s)) =
      (if mappedAddress (sv_cfg s) q = [] then sv_blockedQueries s + 1 else sv_blockedQueries s)"
    and "dm_Id (fst (targetResponse L req q s)) = dm_Id req"
    and "dm_Rcode (fst (targetResponse L req q s)) = RcodeSuccess"
  using assms
  by (auto simp: targetResponse_def dnslib_replies_def shouldForwardTargetQuery_def mappedAddress_def
      mappedRecord_def blocked_def Let_def)

lemma forwardResponse_cases:
  assumes "dnslib_replies L"
  shows "dm_Id (fst (forwardResponse E L F t req s)) = dm_Id req \<and>
    sv_targetQueries (snd (forwardResponse E L F t req s)) = sv_targetQueries s \<and>
    sv_blockedQueries (snd (forwardResponse E L F t req s)) = sv_blockedQueries s \<and>
    sv_cacheHits (snd (forwardResponse E L F t req s)) + sv_forwardedQueries (snd (forwardResponse E L F t req s)) =
      sv_cacheHits s + sv_forwardedQueries s + 1"
  using assms
  by (auto simp: forwardResponse_def getCache_def putCache_def capResponseTTL_def dnslib_replies_def Let_def
      split: option.splits prod.splits sum.splits)

subsection \<open>Properties\<close>


definition sampleDNS :: dnslib where
  "sampleDNS =
     (let reply = (\<lambda>req rcode. \<lparr>dm_Id = dm_Id req, dm_Rcode = rcode, dm_Authoritative = False,
            dm_RecursionAvailable = False, dm_Question = take 1 (dm_Question req),
            dm_Answer = [], dm_Ns = [], dm_Extra = []\<rparr>)
      in \<lparr>dl_SetReply = (\<lambda>req. reply req RcodeSuccess), dl_SetRcode = reply\<rparr>)"

lemma sampleDNS_replies: "dnslib_replies sampleDNS"
  by (simp add: dnslib_replies_def sampleDNS_def)

definition sampleInterceptConfig :: interceptConfig where
  "sampleInterceptConfig = \<lparr>ic_Strategy = ''local'', ic_ListenAddr = ''127.0.0.1:53'', ic_MapIPv4 = [127, 0, 0, 1],
     ic_MapIPv6 = [], ic_TTL = 30 * Second, ic_CacheTTL = 10 * Minute, ic_BlockHTTPSRecords = True,
     ic_ForwardTimeout = 5 * Second\<rparr>"

definition sampleServer :: Server where
  "sampleServer = (case New sampleInterceptConfig
     (Some \<lparr>m_exact = [(''a.com'', \<lparr>re_group = ''g'', re_rule = ''a.com'', re_host = ''a.com''\<rparr>)], m_wildcard = []\<rparr>) True of
       Inr s \<Rightarrow> s)"

definition sampleQuery :: "string \<Rightarrow> nat \<Rightarrow> Msg" where
  "sampleQuery name type = \<lparr>dm_Id = 7, dm_Rcode = 0, dm_Authoritative = False, dm_RecursionAvailable = False,
     dm_Question = [\<lparr>q_Name = name, q_Qtype = type, q_Qclass = ClassINET\<rparr>], dm_Answer = [], dm_Ns = [], dm_Extra = []\<rparr>"


text \<open>
  Every query with a question is answered with its own id and counted exactly once: as a
  cache hit, as forwarded, or, for a target name that is not forwarded, as neither.  A forwarder
  error yields the code of a server failure.
\<close>

theorem handle_accounting:
  assumes "dnslib_replies L" and "dm_Question req = q # qs" and "handle E L F t req s = (resp, s')"
  shows "dm_Id resp = dm_Id req \<and>
    (let target = (MatchHost E (sv_matcher s) (TrimSuffix (q_Name q) ''.'') \<noteq> None);
         local = (target \<and> \<not> shouldForwardTargetQuery s q)
     in sv_targetQueries s' = sv_targetQueries s + (if target then 1 else 0) \<and>
        sv_cacheHits s' + sv_forwardedQueries s' =
          sv_cacheHits s + sv_forwardedQueries s + (if local then 0 else 1) \<and>
        (\<not> local \<and> fst (getCache E (ck_get t) (ck_until t) req s) = None \<and> \<not> (\<exists>r. F req = Inr (Some r)) \<longrightarrow>
           dm_Rcode resp = RcodeServerFailure \<and> sv_errorQueries s' = sv_errorQueries s + 1))"
proof -
  define s1 where "s1 = s\<lparr>sv_targetQueries := sv_targetQueries s + 1\<rparr>"
  have fail: "dm_Rcode (fst (forwardResponse E L F t req s2)) = RcodeServerFailure \<and>
      sv_errorQueries (snd (forwardResponse E L F t req s2)) = sv_errorQueries s2 + 1"
    if miss: "fst (getCache E (ck_get t) (ck_until t) req s2) = None" and err: "\<not> (\<exists>r. F req = Inr (Some r))" for s2
  proof -
    obtain s3 where g: "getCache E (ck_get t) (ck_until t) req s2 = (None, s3)"
      using miss by (cases "getCache E (ck_get t) (ck_until t) req s2") auto
    then have "sv_errorQueries s3 = sv_errorQueries s2"
      by (auto simp: getCache_def split: option.splits prod.splits)
    with g err assms(1) show ?thesis
      by (auto simp: forwardResponse_def dnslib_replies_def Let_def split: option.splits sum.splits)
  qed
  have "fst (getCache E (ck_get t) (ck_until t) req s1) = fst (getCache E (ck_get t) (ck_until t) req s)"
    by (simp add: s1_def getCache_def split: option.splits prod.splits)
  moreover have "shouldForwardTargetQuery s1 q = shouldForwardTargetQuery s q"
    by (simp add: s1_def shouldForwardTargetQuery_def)
  ultimately show ?thesis
    using assms(2,3) targetResponse_answer(3) [OF assms(1), of s1 q req] targetResponse_frame [of L req q s1]
      forwardResponse_cases [OF assms(1), of E F t req s] forwardResponse_cases [OF assms(1), of E F t req s1]
      fail [of s] fail [of s1]
    by (simp add: handle_def Let_def s1_def del: targetResponse_frame split: if_splits)
qed

definition sampleClocks :: "int \<Rightarrow> clocks" where
  "sampleClocks now = \<lparr>ck_get = now, ck_until = now, ck_put = now\<rparr>"

theorem handle_accounting_witness:
  "dm_Rcode (fst (handle sampleLib sampleDNS (\<lambda>_. Inl ''x'') (sampleClocks 0) (sampleQuery ''b.com.'' TypeA) sampleServer))
     = RcodeServerFailure"
proof -
  let ?req = "sampleQuery ''b.com.'' TypeA" and ?q = "\<lparr>q_Name = ''b.com.'', q_Qtype = TypeA, q_Qclass = ClassINET\<rparr>"
  let ?h = "handle sampleLib sampleDNS (\<lambda>_. Inl ''x'') (sampleClocks 0) ?req sampleServer"
  have "MatchHost sampleLib (sv_matcher sampleServer) (TrimSuffix (q_Name ?q) ''.'') = None"
    "fst (getCache sampleLib 0 0 ?req sampleServer) = None" by code_simp+
  then show ?thesis
    using handle_accounting [OF sampleDNS_replies, of ?req ?q "[]" sampleLib "\<lambda>_. Inl ''x''" "sampleClocks 0"
        sampleServer "fst ?h" "snd ?h"]
    by (simp add: sampleQuery_def sampleClocks_def Let_def)
qed

text \<open>
  C22. What the cache serves is sound: after any sequence of queries on a new server, an answer
  from the cache has the id of the request and the records of an earlier successful upstream
  answer to the same question (name up to case, type and class), younger than its lifetime.  If
  the clock has not passed the expiry between the two readings, no record outlives the
  moment its own TTL set when it was fetched.
\<close>

theorem cached_answer_fresh:
  assumes "New cfg matcher forwarder = Inr s0"
    and "getCache E now now' req (fold (serve E L) qs s0) = (Some resp, s')"
  shows "dm_Id resp = dm_Id req \<and>
    (\<exists>q\<in>set qs. \<exists>r. qy_forwarder q (qy_req q) = Inr (Some r) \<and> dm_Rcode r = RcodeSuccess \<and>
       sameQuestion E (qy_req q) req \<and>
       (let fetched = ck_put (qy_clocks q); expires = fetched + responseTTL r (ic_CacheTTL (sv_cfg s0)) in
        now < expires \<and> expires \<le> fetched + ic_CacheTTL (sv_cfg s0) \<and>
        (now' \<le> expires \<longrightarrow>
           list_all2 (\<lambda>rr rr0. rr\<lparr>rr_Ttl := rr_Ttl rr0\<rparr> = rr0 \<and>
               now' + int (unat (rr_Ttl rr)) * Second \<le> fetched + int (unat (rr_Ttl rr0)) * Second)
             (allRecords resp) (allRecords r))))"
proof -
  obtain k m e where k: "cacheKey E req = Some k" "storedMsg (sv_cache (fold (serve E L) qs s0)) k = Some (m, e)"
    "now < e" and resp: "resp = capResponseTTL (seconds32 (e - now')) (m\<lparr>dm_Id := dm_Id req\<rparr>)"
    using getCache_hit [OF assms(2)] by blast
  obtain q r where q: "q \<in> set qs"
    and ad: "admitted E (qy_forwarder q) (qy_clocks q) (qy_req q) (ic_CacheTTL (sv_cfg s0)) k m e r"
    using fold_serve_entry [OF New_state(1) [OF assms(1)] k(2)] by blast
  then have e: "e = ck_put (qy_clocks q) + responseTTL r (ic_CacheTTL (sv_cfg s0))"
    and r: "qy_forwarder q (qy_req q) = Inr (Some r)" "dm_Rcode r = RcodeSuccess"
    and same: "sameQuestion E (qy_req q) req" and m: "m = r\<lparr>dm_Id := 0\<rparr>"
    using cacheKey_sameQuestion [OF _ k(1)] by (auto simp: admitted_def)
  have life: "(capRR (seconds32 (e - now')) rr)\<lparr>rr_Ttl := rr_Ttl rr\<rparr> = rr \<and>
      now' + int (unat (rr_Ttl (capRR (seconds32 (e - now')) rr))) * Second \<le>
        ck_put (qy_clocks q) + int (unat (rr_Ttl rr)) * Second"
    if "now' \<le> e" "rr \<in> set (allRecords r)" for rr
    using seconds32_le [of "e - now'"] that(1) responseTTL_le_record [OF that(2), of "ic_CacheTTL (sv_cfg s0)"] e
      capRR_le [of "seconds32 (e - now')" rr]
    by (simp add: capRR_def)
  have "list_all2 (\<lambda>rr rr0. rr\<lparr>rr_Ttl := rr_Ttl rr0\<rparr> = rr0 \<and>
      now' + int (unat (rr_Ttl rr)) * Second \<le> ck_put (qy_clocks q) + int (unat (rr_Ttl rr0)) * Second)
      (allRecords resp) (allRecords r)" if "now' \<le> e"
    unfolding resp m allRecords_cap allRecords_Id list_all2_map1 list_all2_same using life [OF that] by blast
  moreover have "dm_Id resp = dm_Id req" by (simp add: resp capResponseTTL_def)
  moreover have "e \<le> ck_put (qy_clocks q) + ic_CacheTTL (sv_cfg s0)"
    using responseTTL_le_max [OF New_state(2) [OF assms(1)]] e by simp
  ultimately show ?thesis using q r same k(3) e by (auto simp: Let_def)
qed

definition sampleAnswer :: "Msg \<Rightarrow> Msg" where
  "sampleAnswer req = req\<lparr>dm_Answer :=
     [\<lparr>rr_Name = ''b.com.'', rr_Type = TypeA, rr_Class = ClassINET, rr_Ttl = 60, rr_IP = [1, 2, 3, 4]\<rparr>]\<rparr>"

definition sampleTraffic :: "query list" where
  "sampleTraffic = [\<lparr>qy_forwarder = (\<lambda>req. Inr (Some (sampleAnswer req))), qy_clocks = sampleClocks 0,
     qy_writeOK = True, qy_req = sampleQuery ''b.com.'' TypeA\<rparr>]"

theorem cached_answer_fresh_witness:
  "\<exists>resp s'. getCache sampleLib (10 * Second) (10 * Second) (sampleQuery ''B.com.'' TypeA)
       (fold (serve sampleLib sampleDNS) sampleTraffic sampleServer) = (Some resp, s') \<and>
     dm_Id resp = 7 \<and> map rr_Ttl (dm_Answer resp) = [50]"
proof -
  let ?g = "getCache sampleLib (10 * Second) (10 * Second) (sampleQuery ''B.com.'' TypeA)
    (fold (serve sampleLib sampleDNS) sampleTraffic sampleServer)"
  have "New sampleInterceptConfig (Some (sv_matcher sampleServer)) True = Inr sampleServer" by code_simp
  note * = cached_answer_fresh [OF this, of sampleLib "10 * Second" "10 * Second" "sampleQuery ''B.com.'' TypeA"
      sampleDNS sampleTraffic]
  have "fst ?g \<noteq> None" "map rr_Ttl (dm_Answer (the (fst ?g))) = [50]" by code_simp+
  then obtain resp where "?g = (Some resp, snd ?g)" "map rr_Ttl (dm_Answer resp) = [50]"
    by (metis option.collapse prod.collapse)
  with * [OF this(1)] show ?thesis by (auto simp: sampleQuery_def)
qed

text \<open>
  Sockets do not leak: a failed start opens nothing and leaves the server stopped; a
  successful start opens one UDP and one TCP socket at the address the server reports, and
  stopping closes exactly these.
\<close>

theorem Start_Stop_sockets:
  assumes "sv_udpServer s = None" and "sv_tcpServer s = None" and "Start W socks s = (r, socks1, s1)"
  shows "(case r of
      Inl _ \<Rightarrow> socks1 = socks \<and> s1 = s
    | Inr _ \<Rightarrow>
        mset socks1 = mset socks + {#(''udp'', sv_listenAddr s1), (''tcp'', sv_listenAddr s1)#} \<and>
        (case Stop shutdown socks1 s1 of (errs, socks2, s2) \<Rightarrow>
           mset socks2 = mset socks \<and> sv_udpServer s2 = None \<and> sv_tcpServer s2 = None))"
proof -
  obtain a socks' where l: "listenPair W (ic_ListenAddr (sv_cfg s)) socks = (a, socks')"
    by (cases "listenPair W (ic_ListenAddr (sv_cfg s)) socks")
  with listenPair_pair have p: "pairOpened socks a socks'" by blast
  show ?thesis
  proof (cases a)
    case (Inl e)
    with l p assms show ?thesis by (auto simp: Start_def pairOpened_def)
  next
    case (Inr addr)
    with l assms have s1: "r = Inr ()" "socks1 = socks'"
      "s1 = s\<lparr>sv_udpServer := Some addr, sv_tcpServer := Some addr, sv_listenAddr := addr\<rparr>"
      by (auto simp: Start_def)
    from Inr p have "mset socks' = mset socks + {#(''udp'', addr), (''tcp'', addr)#}"
      by (simp add: pairOpened_def)
    with s1 show ?thesis by (simp add: Stop_def closeSocket_def)
  qed
qed

theorem Start_Stop_sockets_witness:
  "\<exists>s1. Start \<lparr>le_ListenTCP = (\<lambda>_ _. Inr (Some 53)), le_ListenUDP = (\<lambda>_ _. Inr ())\<rparr> [] sampleServer =
      (Inr (), [(''tcp'', ''127.0.0.1:53''), (''udp'', ''127.0.0.1:53'')], s1) \<and>
    mset (fst (snd (Stop (\<lambda>_. None) [(''tcp'', ''127.0.0.1:53''), (''udp'', ''127.0.0.1:53'')] s1))) = {#}"
proof -
  let ?W = "\<lparr>le_ListenTCP = (\<lambda>_ _. Inr (Some 53)), le_ListenUDP = (\<lambda>_ _. Inr ())\<rparr>"
  let ?socks = "[(''tcp'', ''127.0.0.1:53''), (''udp'', ''127.0.0.1:53'')]"
  have idle: "sv_udpServer sampleServer = None" "sv_tcpServer sampleServer = None" by code_simp+
  have "fst (Start ?W [] sampleServer) = Inr ()" "fst (snd (Start ?W [] sampleServer)) = ?socks" by code_simp+
  then obtain s1 where s1: "Start ?W [] sampleServer = (Inr (), ?socks, s1)" by (metis prod.collapse)
  with Start_Stop_sockets [OF idle s1, of "\<lambda>_. None"] show ?thesis
    by (auto split: prod.splits)
qed

text \<open>
  The pseudo record of EDNS(0) carries flags where other records carry a TTL; it takes part in
  the lifetime of an answer, so that an answer with TTL 300 and such a record is not cached.
\<close>

lemma OPT_record_prevents_caching:
  "responseTTL ((sampleAnswer (sampleQuery ''b.com.'' TypeA))
     \<lparr>dm_Extra := [\<lparr>rr_Name = ''.'', rr_Type = TypeOPT, rr_Class = 1232, rr_Ttl = 0, rr_IP = []\<rparr>]\<rparr>) (10 * Minute) = 0"
  "responseTTL (sampleAnswer (sampleQuery ''b.com.'' TypeA)) (10 * Minute) = 60 * Second"
  by code_simp+

text \<open>A second reading of the clock a second after the expiry wraps to the largest TTL.\<close>

lemma remaining_TTL_wraps: "seconds32 (- Second) = 0xFFFFFFFF"
  by code_simp

text \<open>A server written as a bracketed IPv6 address gets its brackets doubled.\<close>

lemma bracketed_server_port: "withDefaultDNSPort ''[::1]'' = ''[[::1]]:53''"
  by code_simp

end
