(* ===== verification/Lifecycle.thy ===== *)
theory Lifecycle
  imports Prelude
begin

section \<open>Servers that are started and stopped\<close>

text \<open>
  The PAC server, the forward proxy, the reverse proxy and the control server share one contract.
  \<open>bound\<close> lists the addresses a server listens on.  A server that listens refuses to start
  again, a start that fails opens nothing, a start that succeeds listens, and after a stop nothing
  is open, whatever the outcome of the shutdown.
\<close>

locale server_lifecycle =
  fixes start :: "'env \<Rightarrow> 's \<Rightarrow> ('e, unit) result \<times> 's"
    and stop :: "'end \<Rightarrow> 's \<Rightarrow> string option \<times> 's"
    and bound :: "'s \<Rightarrow> string list"
    and inv :: "'s \<Rightarrow> bool"
  assumes start_inv: "inv s \<Longrightarrow> start env s = (r, s') \<Longrightarrow> inv s'"
    and stop_inv: "inv s \<Longrightarrow> stop x s = (e, s') \<Longrightarrow> inv s'"
    and start_running: "inv s \<Longrightarrow> bound s \<noteq> [] \<Longrightarrow> start env s = (r, s') \<Longrightarrow> \<not> is_ok r \<and> bound s' = bound s"
    and start_failed: "inv s \<Longrightarrow> start env s = (r, s') \<Longrightarrow> \<not> is_ok r \<Longrightarrow> bound s' = bound s"
    and start_ok: "inv s \<Longrightarrow> start env s = (r, s') \<Longrightarrow> is_ok r \<Longrightarrow> bound s' \<noteq> []"
    and stop_closes: "inv s \<Longrightarrow> stop x s = (e, s') \<Longrightarrow> bound s' = []"
    and stop_idle: "inv s \<Longrightarrow> bound s = [] \<Longrightarrow> stop x s = (None, s)"
begin

lemma double_start:
  assumes "inv s" and "start env s = (Inr (), s1)" and "start env' s1 = (r, s2)"
  shows "\<not> is_ok r \<and> bound s2 = bound s1"
proof -
  have "bound s1 \<noteq> []" using start_ok [OF assms(1,2)] by (simp add: is_ok_def)
  from start_running [OF start_inv [OF assms(1,2)] this assms(3)] show ?thesis .
qed

lemma stop_twice:
  assumes "inv s" and "stop x s = (e, s1)" and "stop y s1 = (e', s2)"
  shows "e' = None \<and> s2 = s1"
  using stop_idle [OF stop_inv [OF assms(1,2)] stop_closes [OF assms(1,2)], of y] assms(3) by simp

text \<open>
  Any sequence of starts and stops keeps the invariant; one that ends in a stop ends with nothing
  open, and nothing is open unless some start was made.
\<close>

fun steps :: "('env + 'end) list \<Rightarrow> 's \<Rightarrow> 's" where
  "steps [] s = s"
| "steps (Inl env # ops) s = steps ops (snd (start env s))"
| "steps (Inr x # ops) s = steps ops (snd (stop x s))"

lemma steps_append: "steps (ops @ ops') s = steps ops' (steps ops s)"
  by (induction ops s rule: steps.induct) auto

lemma steps_inv: "inv s \<Longrightarrow> inv (steps ops s)"
  by (induction ops s rule: steps.induct) (auto intro: start_inv stop_inv prod.collapse [symmetric])

lemma steps_stop: "inv s \<Longrightarrow> bound (steps (ops @ [Inr x]) s) = []"
  using stop_closes [OF steps_inv, of s x ops] by (cases "stop x (steps ops s)") (simp add: steps_append)

lemma steps_listening:
  assumes "bound (steps ops s) \<noteq> []" and "bound s = []" and "inv s"
  shows "\<exists>env. Inl env \<in> set ops"
  using assms
proof (induction ops s rule: steps.induct)
  case (3 x ops s)
  then show ?case using stop_idle [of s x] by auto
qed auto

end

end
