(* ===== verification/Pac.thy ===== *)
theory Pac
  imports Config GoHTTP Lifecycle
begin

section \<open>Package pac: the proxy auto-configuration script\<close>

text \<open>
  \<^verbatim>\<open>internal/pac/pac.go\<close>.  \<open>Generate\<close> builds the text of the script;
  \<open>FindProxyForURL\<close> is the JavaScript function this text defines, on ASCII hosts.  The
  string encoding of \<^verbatim>\<open>encoding/json\<close> is written out for ASCII and leaves other
  bytes alone, which normalised hosts do not contain.
\<close>

record pacConfig =
  pc_ListenAddr :: string
  pc_ProxyAddr :: string
  pc_ReadHeaderTimeout :: int
  pc_IdleTimeout :: int
  pc_ShutdownTimeout :: int

record Server =
  ps_cfg :: pacConfig
  ps_script :: string
  ps_server :: "string option"
  ps_addr :: string
  ps_url :: string

datatype pac_error = ProxyAddressRequired | InvalidProxyAddress string | PacAlreadyStarted | PacListen string string

definition ConfigFromApp :: "Config \<Rightarrow> string \<Rightarrow> pacConfig" where
  "ConfigFromApp cfg proxyAddr =
     \<lparr>pc_ListenAddr = pa_ListenAddr (c_PAC cfg), pc_ProxyAddr = proxyAddr,
      pc_ReadHeaderTimeout = px_ReadHeaderTimeout (c_Proxy cfg), pc_IdleTimeout = px_IdleTimeout (c_Proxy cfg),
      pc_ShutdownTimeout = px_ShutdownTimeout (c_Proxy cfg)\<rparr>"

subsection \<open>The script\<close>

definition hexDigit :: "nat \<Rightarrow> char" where
  "hexDigit n = char_of (if n < 10 then 48 + n else 87 + n)"

definition jsonChar :: "char \<Rightarrow> string" where
  "jsonChar c =
     (let n = of_char c :: nat; u = [CHR 0x5C, CHR ''u'', CHR ''0'', CHR ''0'', hexDigit (n div 16), hexDigit (n mod 16)] in
      if c = CHR 0x22 \<or> c = CHR 0x5C then [CHR 0x5C, c]
      else if n = 8 then [CHR 0x5C, CHR ''b''] else if n = 12 then [CHR 0x5C, CHR ''f'']
      else if n = 10 then [CHR 0x5C, CHR ''n''] else if n = 13 then [CHR 0x5C, CHR ''r'']
      else if n = 9 then [CHR 0x5C, CHR ''t'']
      else if n < 32 \<or> c \<in> {CHR ''<'', CHR ''>'', CHR ''&''} then u else [c])"

definition jsonString :: "string \<Rightarrow> string" where
  "jsonString s = [CHR 0x22] @ concat (map jsonChar s) @ [CHR 0x22]"

definition marshalStrings :: "string list \<Rightarrow> string" where
  "marshalStrings ss = ''['' @ Join (map jsonString ss) '','' @ '']''"

text \<open>A map from strings to booleans is written with its keys in order.\<close>

definition marshalSet :: "string list \<Rightarrow> string" where
  "marshalSet keys = ''{'' @ Join (map (\<lambda>k. jsonString k @ '':true'') (sort (remdups keys))) '','' @ ''}''"

definition scriptText :: "string \<Rightarrow> string \<Rightarrow> string \<Rightarrow> string" where
  \<open>scriptText exactJSON wildcardJSON proxyJSON = concat (map (\<lambda>line. line @ [LF])
    [''function FindProxyForURL(url, host) {'',
     ''  host = (host || "").toLowerCase();'',
     ''  if (host.charAt(host.length - 1) === ".") {'',
     ''    host = host.substring(0, host.length - 1);'',
     ''  }'',
     [],
     ''  var exact = '' @ exactJSON @ '';'',
     ''  if (exact[host]) {'',
     ''    return '' @ proxyJSON @ '';'',
     ''  }'',
     [],
     ''  var wildcard = '' @ wildcardJSON @ '';'',
     ''  for (var i = 0; i < wildcard.length; i++) {'',
     ''    var suffix = "." + wildcard[i];'',
     ''    if (host.length > suffix.length && host.substring(host.length - suffix.length) === suffix) {'',
     ''      return '' @ proxyJSON @ '';'',
     ''    }'',
     ''  }'',
     [],
     ''  return "DIRECT";'',
     ''}''])\<close>

definition exactHosts :: "CompiledRules \<Rightarrow> string list" where
  "exactHosts compiled = filter (\<lambda>h. h \<noteq> []) (map cr_Host (crs_Exact compiled))"

definition wildcardHosts :: "CompiledRules \<Rightarrow> string list" where
  "wildcardHosts compiled = filter (\<lambda>h. h \<noteq> []) (map cr_Host (crs_Wildcard compiled))"

definition Generate :: "string \<Rightarrow> CompiledRules \<Rightarrow> (pac_error, string) result" where
  "Generate proxyAddr compiled =
     (if TrimSpace proxyAddr = [] then Inl ProxyAddressRequired
      else if SplitHostPort proxyAddr = None then Inl (InvalidProxyAddress proxyAddr)
      else Inr (scriptText (marshalSet (exactHosts compiled)) (marshalStrings (wildcardHosts compiled))
                  (jsonString (''PROXY '' @ proxyAddr))))"

text \<open>
  The function the text defines.  The lookup \<open>exact[host]\<close> also finds the properties every
  JavaScript object inherits, which are all truthy.
\<close>

definition objectPrototype :: "string list" where
  "objectPrototype = [''constructor'', ''__proto__'', ''hasOwnProperty'', ''isPrototypeOf'', ''propertyIsEnumerable'',
     ''toLocaleString'', ''toString'', ''valueOf'', ''__defineGetter__'', ''__defineSetter__'',
     ''__lookupGetter__'', ''__lookupSetter__'']"

definition FindProxyForURL :: "string list \<Rightarrow> string list \<Rightarrow> string \<Rightarrow> string \<Rightarrow> string" where
  "FindProxyForURL exact wildcard proxy host =
     (let host = map lowerAscii host;
          host = (if host \<noteq> [] \<and> last host = CHR ''.'' then butlast host else host)
      in if host \<in> set exact \<or> host \<in> set objectPrototype then proxy
         else if list_ex (\<lambda>w. let suffix = ''.'' @ w in
                   length host > length suffix \<and> drop (length host - length suffix) host = suffix) wildcard
         then proxy
         else ''DIRECT'')"

definition pacDecision :: "string \<Rightarrow> CompiledRules \<Rightarrow> string \<Rightarrow> string" where
  "pacDecision proxyAddr compiled =
     FindProxyForURL (exactHosts compiled) (wildcardHosts compiled) (''PROXY '' @ proxyAddr)"

definition HostMatches :: "golib \<Rightarrow> CompiledRules \<Rightarrow> string \<Rightarrow> bool" where
  "HostMatches E compiled rawHost =
     (case NormalizeHost E rawHost of
        Inl _ \<Rightarrow> False
      | Inr host \<Rightarrow>
          list_ex (\<lambda>entry. host = cr_Host entry) (crs_Exact compiled) \<or>
          list_ex (\<lambda>entry. host \<noteq> cr_Host entry \<and> HasSuffix host (''.'' @ cr_Host entry)) (crs_Wildcard compiled))"

subsection \<open>The server\<close>

definition New :: "pacConfig \<Rightarrow> CompiledRules \<Rightarrow> (pac_error, Server) result" where
  "New cfg compiled =
     map_result (\<lambda>script. \<lparr>ps_cfg = cfg, ps_script = script, ps_server = None, ps_addr = [], ps_url = []\<rparr>)
       (Generate (pc_ProxyAddr cfg) compiled)"

text \<open>\<open>listen\<close> is the outcome of opening the listener: the address bound, or an error.\<close>

definition Start :: "(string \<Rightarrow> (string, string) result) \<Rightarrow> Server \<Rightarrow> (pac_error, unit) result \<times> Server" where
  "Start listen s =
     (if ps_server s \<noteq> None then (Inl PacAlreadyStarted, s)
      else (case listen (pc_ListenAddr (ps_cfg s)) of
              Inl e \<Rightarrow> (Inl (PacListen (pc_ListenAddr (ps_cfg s)) e), s)
            | Inr addr \<Rightarrow>
                (Inr (), s\<lparr>ps_server := Some addr, ps_addr := addr, ps_url := ''http://'' @ addr @ ''/proxy.pac''\<rparr>)))"

text \<open>
  Stopping keeps the last address and URL.  \<open>shutdown\<close> is the error of shutting the server
  down, \<open>served\<close> what the serving goroutine or the context reports afterwards.
\<close>

definition Stop :: "string option \<Rightarrow> string option \<Rightarrow> Server \<Rightarrow> string option \<times> Server" where
  "Stop shutdown served s =
     (case ps_server s of
        None \<Rightarrow> (None, s)
      | Some _ \<Rightarrow> (if shutdown = None then served else shutdown, s\<lparr>ps_server := None\<rparr>))"

interpretation pac_server: server_lifecycle Start "\<lambda>(shutdown, served). Stop shutdown served"
  "\<lambda>s. case ps_server s of None \<Rightarrow> [] | Some a \<Rightarrow> [a]" "\<lambda>_. True"
  by unfold_locales (auto simp: Start_def Stop_def is_ok_def split: option.splits sum.splits if_splits)

record pacResponse =
  pr_status :: nat
  pr_type :: string
  pr_cache :: string
  pr_body :: string

definition handlePAC :: "string \<Rightarrow> Server \<Rightarrow> pacResponse" where
  "handlePAC mthd s =
     (if mthd \<noteq> ''GET'' \<and> mthd \<noteq> ''HEAD'' then
        \<lparr>pr_status = 405, pr_type = ''text/plain; charset=utf-8'', pr_cache = [], pr_body = ''method not allowed'' @ [LF]\<rparr>
      else
        \<lparr>pr_status = 200, pr_type = ''application/x-ns-proxy-autoconfig'', pr_cache = ''no-store'', pr_body = ps_script s\<rparr>)"

subsection \<open>The compiled rules of a matcher\<close>

lemma Rules_hosts:
  assumes "NewMatcher E gs cs = Inr m"
  shows "cr_Host ` set (crs_Exact (Rules m)) = dom (map_of (m_exact m))"
    and "cr_Host ` set (crs_Wildcard (Rules m)) = re_host ` set (m_wildcard m)"
proof -
  obtain es where m: "m = enter \<lparr>m_exact = [], m_wildcard = []\<rparr> es"
    using NewMatcher_enter [OF assms] by blast
  have keyed: "re_host e = k" if "(k, e) \<in> set (m_exact m)" for k e
    using that emptyMatcher_enter(4) by (simp add: m)
  have "cr_Host ` set (crs_Exact (Rules m)) = (\<lambda>p. re_host (snd p)) ` set (m_exact m)"
    by (simp add: Rules_def sortCompiledRules_def compileEntry_def image_comp comp_def)
  also have "\<dots> = fst ` set (m_exact m)" using keyed by (intro image_cong) auto
  finally show "cr_Host ` set (crs_Exact (Rules m)) = dom (map_of (m_exact m))"
    by (simp add: dom_map_of_conv_image_fst)
  show "cr_Host ` set (crs_Wildcard (Rules m)) = re_host ` set (m_wildcard m)"
    by (simp add: Rules_def sortCompiledRules_def compileEntry_def image_comp comp_def)
qed

text \<open>A normalised host against the exact and the wildcard rules of the compiled set.\<close>

definition covered :: "CompiledRules \<Rightarrow> string \<Rightarrow> bool" where
  "covered compiled n \<longleftrightarrow>
     n \<in> cr_Host ` set (crs_Exact compiled) \<or>
     (\<exists>w \<in> cr_Host ` set (crs_Wildcard compiled). HasSuffix n (''.'' @ w))"

lemma HostMatches_covered:
  "HostMatches E compiled h \<longleftrightarrow> (\<exists>n. NormalizeHost E h = Inr n \<and> covered compiled n)"
proof -
  have "n \<noteq> w" if "HasSuffix n (''.'' @ w)" for n w :: string
    using that by (auto simp: HasSuffix_def suffix_def)
  then show ?thesis
    by (auto simp: HostMatches_def covered_def list_ex_iff split: sum.splits)
qed

lemma MatchHost_covered:
  assumes "NewMatcher E gs cs = Inr m"
  shows "MatchHost E m h \<noteq> None \<longleftrightarrow> (\<exists>n. NormalizeHost E h = Inr n \<and> covered (Rules m) n)"
proof (cases "NormalizeHost E h")
  case (Inr n)
  have "find (wildcardHit n) (m_wildcard m) = None \<longleftrightarrow>
      (\<forall>e\<in>set (m_wildcard m). \<not> HasSuffix n (''.'' @ re_host e))"
    by (auto simp: find_None_iff wildcardHit_iff)
  with Inr show ?thesis
    unfolding covered_def Rules_hosts [OF assms]
    by (cases "map_of (m_exact m) n"; cases "find (wildcardHit n) (m_wildcard m)")
      (auto simp: MatchHost_def)
qed (simp add: MatchHost_def)

interpretation pac_hosts: host_matcher
  "\<lambda>E (gs, cs). map_result Rules (NewMatcher E gs cs)" HostMatches "\<lambda>(gs, cs). map snd (allRules gs cs)"
proof (unfold_locales, clarsimp simp: res_simps)
  fix E gs cs m h
  assume m: "NewMatcher E gs cs = Inr m"
  show "HostMatches E (Rules m) h \<longleftrightarrow>
      (\<exists>n. NormalizeHost E h = Inr n \<and> (\<exists>x\<in>set (allRules gs cs). ruleCovers E (snd x) n))"
    using NewMatcher_hits [OF m, of h] MatchHost_covered [OF m, of h] HostMatches_covered [of E "Rules m" h]
    by auto
qed

lemma suffix_test:
  "length h > length s \<and> drop (length h - length s) h = s \<longleftrightarrow> HasSuffix h s \<and> h \<noteq> s"
  by (auto simp: HasSuffix_def suffix_def) (metis append_take_drop_id)

lemma pacDecision_covered:
  assumes "map lowerAscii n = n" and "n \<noteq> []" and "hd n \<noteq> CHR ''.''" and "last n \<noteq> CHR ''.''"
    and "n \<notin> set objectPrototype"
  shows "pacDecision proxyAddr compiled n =
    (if covered compiled n then ''PROXY '' @ proxyAddr else ''DIRECT'')"
proof -
  have suffix: "HasSuffix n (''.'' @ w) \<longleftrightarrow> w \<noteq> [] \<and> HasSuffix n (''.'' @ w) \<and> n \<noteq> ''.'' @ w" for w
    using assms(2-4) by (auto simp: HasSuffix_def suffix_def)
  have "(\<exists>w\<in>set (wildcardHosts compiled). HasSuffix n (''.'' @ w) \<and> n \<noteq> ''.'' @ w) \<longleftrightarrow>
      (\<exists>w \<in> cr_Host ` set (crs_Wildcard compiled). HasSuffix n (''.'' @ w))"
    using suffix by (auto simp: wildcardHosts_def)
  moreover have "n \<in> set (exactHosts compiled) \<longleftrightarrow> n \<in> cr_Host ` set (crs_Exact compiled)"
    using assms(2) by (auto simp: exactHosts_def)
  ultimately show ?thesis
    using assms
    by (auto simp: pacDecision_def FindProxyForURL_def covered_def list_ex_iff Let_def suffix_test
        simp del: append_Cons append_Nil)
qed

subsection \<open>Properties\<close>



text \<open>A host named \<open>constructor\<close> is sent to the proxy whatever the rules are.\<close>

lemma prototype_host_proxied: "pacDecision proxyAddr compiled ''constructor'' = ''PROXY '' @ proxyAddr"
  by (simp add: pacDecision_def FindProxyForURL_def objectPrototype_def lowerAscii_def)

end
