(* ===== verification/Effects.thy ===== *)
theory Effects
  imports Prelude
begin

section \<open>Procedures with state and errors\<close>

text \<open>
  A procedure takes the state of the world and returns its result together with the state it
  leaves behind; a failing call ends the sequence, and what was done before stays done.
  \<open>proc_simps\<close> collects the rules that run procedures.
\<close>

type_synonym ('s, 'e, 'a) proc = "'s \<Rightarrow> ('e, 'a) result \<times> 's"

named_theorems proc_simps

definition preturn :: "'a \<Rightarrow> ('s, 'e, 'a) proc" where
  "preturn x s = (Inr x, s)"

definition praise :: "'e \<Rightarrow> ('s, 'e, 'a) proc" where
  "praise e s = (Inl e, s)"

definition pbind :: "('s, 'e, 'a) proc \<Rightarrow> ('a \<Rightarrow> ('s, 'e, 'b) proc) \<Rightarrow> ('s, 'e, 'b) proc" where
  "pbind m f s = (case m s of (Inl e, s) \<Rightarrow> (Inl e, s) | (Inr x, s) \<Rightarrow> f x s)"

definition pthen :: "('s, 'e, 'a) proc \<Rightarrow> ('s, 'e, 'b) proc \<Rightarrow> ('s, 'e, 'b) proc" where
  "pthen m n = pbind m (\<lambda>_. n)"

definition plift :: "('e, 'a) result \<Rightarrow> ('s, 'e, 'a) proc" where
  "plift r s = (r, s)"

definition pensure :: "bool \<Rightarrow> 'e \<Rightarrow> ('s, 'e, unit) proc" where
  "pensure b e = (if b then preturn () else praise e)"

definition pwhen :: "bool \<Rightarrow> ('s, 'e, unit) proc \<Rightarrow> ('s, 'e, unit) proc" where
  "pwhen b m = (if b then m else preturn ())"

primrec pmap :: "('a \<Rightarrow> ('s, 'e, 'b) proc) \<Rightarrow> 'a list \<Rightarrow> ('s, 'e, 'b list) proc" where
  "pmap f [] = preturn []"
| "pmap f (x # xs) = pbind (f x) (\<lambda>y. pbind (pmap f xs) (\<lambda>ys. preturn (y # ys)))"

primrec pfor :: "('a \<Rightarrow> ('s, 'e, unit) proc) \<Rightarrow> 'a list \<Rightarrow> ('s, 'e, unit) proc" where
  "pfor f [] = preturn ()"
| "pfor f (x # xs) = pthen (f x) (pfor f xs)"

lemma proc_eq_Inr [proc_simps]:
  "preturn x s = (Inr y, s') \<longleftrightarrow> y = x \<and> s' = s"
  "praise e s = (Inr y, s') \<longleftrightarrow> False"
  "pbind m f s = (Inr y, s') \<longleftrightarrow> (\<exists>x s1. m s = (Inr x, s1) \<and> f x s1 = (Inr y, s'))"
  "pthen m n s = (Inr y, s') \<longleftrightarrow> (\<exists>x s1. m s = (Inr x, s1) \<and> n s1 = (Inr y, s'))"
  "plift r s = (Inr y, s') \<longleftrightarrow> r = Inr y \<and> s' = s"
  "pensure b e s = (Inr u, s') \<longleftrightarrow> b \<and> s' = s"
  "pwhen b mu s = (Inr u, s') \<longleftrightarrow> (if b then mu s = (Inr u, s') else s' = s)"
  by (auto simp: preturn_def praise_def pbind_def pthen_def plift_def pensure_def pwhen_def
      split: prod.splits sum.splits)

text \<open>
  Invariants: a relation between the states before and after that every step keeps is kept by the
  whole, whether it succeeds or fails.
\<close>

definition keeps :: "('s \<Rightarrow> 's \<Rightarrow> bool) \<Rightarrow> ('s, 'e, 'a) proc \<Rightarrow> bool" where
  "keeps R m \<longleftrightarrow> (\<forall>s. R s (snd (m s)))"

lemma keepsD: "keeps R m \<Longrightarrow> m s = (r, s') \<Longrightarrow> R s s'"
  by (metis keeps_def snd_conv)

lemma keeps_pure:
  assumes "reflp R"
  shows "keeps R (preturn x)" "keeps R (praise e)" "keeps R (plift r)" "keeps R (pensure b e)"
  using assms by (auto simp: keeps_def preturn_def praise_def plift_def pensure_def reflp_def)

lemma keeps_pbind:
  assumes "transp R" and "keeps R m" and "\<And>x. keeps R (f x)"
  shows "keeps R (pbind m f)"
  unfolding keeps_def
proof
  fix s
  show "R s (snd (pbind m f s))"
    using assms by (auto simp: keeps_def pbind_def split: prod.splits sum.splits)
      (metis snd_conv transpD)+
qed

lemma keeps_pthen: "transp R \<Longrightarrow> keeps R m \<Longrightarrow> keeps R n \<Longrightarrow> keeps R (pthen m n)"
  by (simp add: pthen_def keeps_pbind)

lemma keeps_pwhen: "reflp R \<Longrightarrow> (b \<Longrightarrow> keeps R m) \<Longrightarrow> keeps R (pwhen b m)"
  by (simp add: pwhen_def keeps_pure)

lemma keeps_pfor:
  "reflp R \<Longrightarrow> transp R \<Longrightarrow> (\<And>x. x \<in> set xs \<Longrightarrow> keeps R (f x)) \<Longrightarrow> keeps R (pfor f xs)"
  by (induction xs) (simp_all add: keeps_pure keeps_pthen)

lemma keeps_pmap:
  "reflp R \<Longrightarrow> transp R \<Longrightarrow> (\<And>x. x \<in> set xs \<Longrightarrow> keeps R (f x)) \<Longrightarrow> keeps R (pmap f xs)"
  by (induction xs) (simp_all add: keeps_pure keeps_pbind)

lemmas keeps_intros = keeps_pure keeps_pbind keeps_pthen keeps_pwhen keeps_pfor keeps_pmap

lemma pmap_Inr: "pmap f xs s = (Inr ys, s') \<Longrightarrow> length ys = length xs"
  by (induction xs arbitrary: s ys) (auto simp: proc_simps)

end
