(* ===== verification/Rollback.thy ===== *)
theory Rollback
  imports GoStrings Json Effects
begin

section \<open>Reversible changes of the operating system\<close>

text \<open>
  The packages that change system settings (the proxy, the DNS servers) work the same way: take a
  snapshot, write it to a rollback file, change the settings; and later read the file, restore
  the snapshot and remove the file.  This theory holds the world they share, the operating
  system and the rollback files, and the interface \<open>reversible\<close> they implement.
\<close>

record 'os world =
  wo_os :: 'os
  wo_files :: "string \<Rightarrow> json option"
  wo_writable :: "string \<Rightarrow> bool"
  wo_removable :: "string \<Rightarrow> bool"

definition onOS :: "('os, 'e, 'a) proc \<Rightarrow> ('os world, 'e, 'a) proc" where
  "onOS m w = (case m (wo_os w) of (r, os) \<Rightarrow> (r, w\<lparr>wo_os := os\<rparr>))"

text \<open>Rollback files, with the errors the callers report.\<close>

definition writeFile :: "'e \<Rightarrow> 'e \<Rightarrow> string \<Rightarrow> json \<Rightarrow> ('os world, 'e, unit) proc" where
  "writeFile required failed path j w =
     (if TrimSpace path = [] then (Inl required, w)
      else if \<not> wo_writable w path then (Inl failed, w)
      else (Inr (), w\<lparr>wo_files := (wo_files w)(path \<mapsto> j)\<rparr>))"

definition readFile :: "'e \<Rightarrow> 'e \<Rightarrow> (json \<Rightarrow> 'st option) \<Rightarrow> string \<Rightarrow> ('os world, 'e, 'st) proc" where
  "readFile missing broken decode path w =
     (case wo_files w path of
        None \<Rightarrow> (Inl missing, w)
      | Some j \<Rightarrow> (case decode j of None \<Rightarrow> (Inl broken, w) | Some state \<Rightarrow> (Inr state, w)))"

definition removeFile :: "'e \<Rightarrow> string \<Rightarrow> ('os world, 'e, unit) proc" where
  "removeFile failed path w =
     (if wo_files w path = None then (Inr (), w)
      else if \<not> wo_removable w path then (Inl failed, w)
      else (Inr (), w\<lparr>wo_files := (wo_files w)(path := None)\<rparr>))"

lemmas file_defs = writeFile_def readFile_def removeFile_def

subsection \<open>The interface\<close>

text \<open>
  \<open>view\<close> is what a restore brings back: once a snapshot was taken, restoring it after a
  change, even one that failed half way, yields the same view.
\<close>

locale reversible =
  fixes snapshot :: "'cfg \<Rightarrow> ('os, 'e, 'st) proc"
    and change :: "'cfg \<Rightarrow> 'st \<Rightarrow> ('os, 'e, unit) proc"
    and restore :: "'st \<Rightarrow> ('os, 'e, unit) proc"
    and complete :: "'cfg \<Rightarrow> 'st \<Rightarrow> 'st"
    and guard :: "'st \<Rightarrow> ('e, unit) result"
    and encode :: "'st \<Rightarrow> json" and decode :: "json \<Rightarrow> 'st option"
    and view :: "'cfg \<Rightarrow> 'os \<Rightarrow> 'v"
  assumes snapshot_view: "snapshot cfg os = (rs, os1) \<Longrightarrow> view cfg os1 = view cfg os"
    and restores: "snapshot cfg os = (Inr st, os1) \<Longrightarrow> change cfg (complete cfg st) os1 = (r, os2) \<Longrightarrow>
      restore (complete cfg st) os2 = (Inr (), os3) \<Longrightarrow> view cfg os3 = view cfg os"
    and decode_encode: "snapshot cfg os = (Inr st, os1) \<Longrightarrow> decode (encode (complete cfg st)) = Some (complete cfg st)"
    and guard_complete: "guard (complete cfg st) = Inr ()"
begin

definition applyFlow :: "('e, unit) result \<Rightarrow> 'e \<Rightarrow> 'e \<Rightarrow> string \<Rightarrow> 'cfg \<Rightarrow> ('os world, 'e, 'st) proc" where
  "applyFlow valid required failed path cfg =
     pthen (plift valid)
    (pbind (onOS (snapshot cfg)) (\<lambda>st.
     pthen (writeFile required failed path (encode (complete cfg st)))
    (pthen (onOS (change cfg (complete cfg st)))
           (preturn (complete cfg st)))))"

definition restoreFlow :: "'e \<Rightarrow> 'e \<Rightarrow> 'e \<Rightarrow> string \<Rightarrow> ('os world, 'e, 'st) proc" where
  "restoreFlow missing broken failed path =
     pbind (readFile missing broken decode path) (\<lambda>st.
     pthen (plift (guard st))
    (pthen (onOS (restore st))
    (pthen (removeFile failed path)
           (preturn st))))"

lemmas flow_defs = applyFlow_def restoreFlow_def pthen_def pbind_def plift_def preturn_def onOS_def

text \<open>An apply that did not reach the rollback file changed nothing that can be seen.\<close>

lemma apply_cases:
  assumes "applyFlow valid required failed path cfg w = (r, w1)"
  obtains (unchanged) "wo_files w1 = wo_files w" and "view cfg (wo_os w1) = view cfg (wo_os w)" and "\<not> is_ok r"
  | (written) st os1 r' os2 where "snapshot cfg (wo_os w) = (Inr st, os1)" and "change cfg (complete cfg st) os1 = (r', os2)"
    and "is_ok r = is_ok r'"
    and "w1 = w\<lparr>wo_os := os2, wo_files := (wo_files w)(path \<mapsto> encode (complete cfg st))\<rparr>"
proof (cases valid)
  case (Inl e)
  with assms have "w1 = w" "\<not> is_ok r" by (auto simp: flow_defs is_ok_def)
  with unchanged show ?thesis by simp
next
  case (Inr u)
  obtain rs os1 where snap: "snapshot cfg (wo_os w) = (rs, os1)" by (cases "snapshot cfg (wo_os w)")
  show ?thesis
  proof (cases rs)
    case (Inl e)
    with assms Inr snap have "w1 = w\<lparr>wo_os := os1\<rparr>" "r = Inl e" by (auto simp: flow_defs)
    with unchanged snapshot_view [OF snap] show ?thesis by (simp add: is_ok_def)
  next
    case (Inr st)
    note ok = \<open>valid = Inr u\<close> snap Inr
    show ?thesis
    proof (cases "TrimSpace path = [] \<or> \<not> wo_writable w path")
      case True
      with assms ok have "w1 = w\<lparr>wo_os := os1\<rparr>" "\<not> is_ok r"
        by (auto simp: flow_defs writeFile_def is_ok_def split: if_splits)
      with unchanged snapshot_view [OF snap] show ?thesis by simp
    next
      case False
      obtain r' os2 where app: "change cfg (complete cfg st) os1 = (r', os2)"
        by (cases "change cfg (complete cfg st) os1")
      with assms ok False
      have "w1 = w\<lparr>wo_os := os2, wo_files := (wo_files w)(path \<mapsto> encode (complete cfg st))\<rparr>" "is_ok r = is_ok r'"
        by (auto simp: flow_defs writeFile_def is_ok_def split: sum.splits)
      with written snap Inr app show ?thesis by simp
    qed
  qed
qed

lemma apply_restore:
  assumes "wo_files w path = None"
    and "applyFlow valid required failed path cfg w = (r, w1)"
    and "restoreFlow missing broken failed' path w1 = (Inr st', w2)"
  shows "view cfg (wo_os w2) = view cfg (wo_os w) \<and> wo_files w2 = wo_files w"
  using assms(2)
proof (cases rule: apply_cases)
  case unchanged
  with assms(1,3) show ?thesis by (simp add: restoreFlow_def proc_simps readFile_def)
next
  case (written st os1 r' os2)
  let ?st = "complete cfg st"
  have read: "readFile missing broken decode path w1 = (Inr ?st, w1)"
    using written(4) decode_encode [OF written(1)] by (simp add: readFile_def)
  obtain os3 where res: "restore ?st os2 = (Inr (), os3)"
    and w2: "w2 = w1\<lparr>wo_os := os3, wo_files := (wo_files w1)(path := None)\<rparr>"
    using assms(3) read written(4)
    by (auto simp: restoreFlow_def removeFile_def onOS_def proc_simps split: prod.splits if_splits)
  from restores [OF written(1,2) res] w2 written(4) assms(1) show ?thesis
    by (auto simp: fun_upd_idem_iff)
qed

text \<open>If an apply fails and leaves no rollback file, nothing visible was changed.\<close>

lemma failed_apply:
  assumes "applyFlow valid required failed path cfg w = (r, w1)" and "wo_files w1 path = None"
  shows "view cfg (wo_os w1) = view cfg (wo_os w)"
  using assms(1) by (cases rule: apply_cases) (use assms(2) in auto)

end

end
