(* ===== verification/SystemProxy.thy ===== *)
theory SystemProxy
  imports Config Rollback
begin

section \<open>Package systemproxy: changing and restoring the system proxy\<close>

text \<open>
  \<^verbatim>\<open>internal/systemproxy\<close>.  A platform is a record of procedures on the state of the
  operating system; the rollback files are a map from paths to JSON values.  The Windows backend
  works on a registry whose calls may fail one by one; the macOS platform runs
  \<^verbatim>\<open>networksetup\<close>, which is a parameter.  Contexts and time stamps are left out.
\<close>

subsection \<open>Data\<close>

record proxyConfig =
  yc_Mode :: string
  yc_ProxyAddr :: string
  yc_PACURL :: string
  yc_RollbackPath :: string
  yc_Services :: "string list"

record WindowsDWORD =
  wd_Exists :: bool
  wd_Value :: "64 word"

record WindowsString =
  wt_Exists :: bool
  wt_Value :: string

record WindowsState =
  ws_ProxyEnable :: WindowsDWORD
  ws_ProxyServer :: WindowsString
  ws_AutoConfigURL :: WindowsString

record MacOSProxyState =
  mp_Enabled :: bool
  mp_Server :: string
  mp_Port :: string
  mp_Authenticated :: bool

record MacOSAutoState =
  mu_Enabled :: bool
  mu_URL :: string

record MacOSServiceState =
  ms_Name :: string
  ms_Web :: MacOSProxyState
  ms_Secure :: MacOSProxyState
  ms_Auto :: MacOSAutoState

record MacOSState =
  mo_Services :: "MacOSServiceState list"

record State =
  st_Version :: int
  st_OS :: string
  st_Mode :: string
  st_ProxyAddr :: string
  st_PACURL :: string
  st_Services :: "string list"
  st_Windows :: "WindowsState option"
  st_MacOS :: "MacOSState option"

datatype proxy_error =
    RollbackPathRequired
  | PACURLRequired
  | InvalidPACURL string
  | InvalidProxyAddr string
  | UnsupportedProxyMode string
  | UnsupportedOS string
  | PlatformFailed string
  | WriteStateFailed
  | ParseStateFailed
  | NoState
  | WrongPlatform string string
  | RemoveStateFailed
  | NoWindowsState
  | NoMacOSState
  | NoServices
  | AuthenticatedProxy string

record 'os Platform =
  pf_Name :: string
  pf_Snapshot :: "proxyConfig \<Rightarrow> ('os, proxy_error, State) proc"
  pf_ApplyPAC :: "proxyConfig \<Rightarrow> ('os, proxy_error, unit) proc"
  pf_ApplySystem :: "proxyConfig \<Rightarrow> ('os, proxy_error, unit) proc"
  pf_Restore :: "State \<Rightarrow> ('os, proxy_error, unit) proc"

definition emptyState :: State where
  "emptyState = \<lparr>st_Version = 0, st_OS = [], st_Mode = [], st_ProxyAddr = [], st_PACURL = [],
     st_Services = [], st_Windows = None, st_MacOS = None\<rparr>"

definition ConfigFromApp :: "Config \<Rightarrow> string \<Rightarrow> string \<Rightarrow> proxyConfig" where
  "ConfigFromApp cfg proxyAddr pacURL =
     \<lparr>yc_Mode = c_Mode cfg, yc_ProxyAddr = proxyAddr, yc_PACURL = pacURL,
      yc_RollbackPath = rt_RollbackPath (c_Runtime cfg), yc_Services = sy_Services (c_System cfg)\<rparr>"

subsection \<open>The rollback state as JSON\<close>

definition encodeDWORD :: "WindowsDWORD \<Rightarrow> json" where
  "encodeDWORD d = JObj [(''exists'', JBool (wd_Exists d)), (''value'', JNum (uint (wd_Value d)))]"

definition decodeDWORD :: "json \<Rightarrow> WindowsDWORD option" where
  "decodeDWORD j =
     (case (isObj j, asBool (jfield ''exists'' j), asInt (jfield ''value'' j)) of
        (True, Some b, Some v) \<Rightarrow>
          if 0 \<le> v \<and> v < 2 ^ 64 then Some \<lparr>wd_Exists = b, wd_Value = word_of_int v\<rparr> else None
      | _ \<Rightarrow> None)"

definition encodeWString :: "WindowsString \<Rightarrow> json" where
  "encodeWString d = JObj [(''exists'', JBool (wt_Exists d)), (''value'', JStr (wt_Value d))]"

definition decodeWString :: "json \<Rightarrow> WindowsString option" where
  "decodeWString j =
     (case (isObj j, asBool (jfield ''exists'' j), asStr (jfield ''value'' j)) of
        (True, Some b, Some v) \<Rightarrow> Some \<lparr>wt_Exists = b, wt_Value = v\<rparr> | _ \<Rightarrow> None)"

definition encodeWindows :: "WindowsState \<Rightarrow> json" where
  "encodeWindows w = JObj [(''proxy_enable'', encodeDWORD (ws_ProxyEnable w)),
     (''proxy_server'', encodeWString (ws_ProxyServer w)), (''auto_config_url'', encodeWString (ws_AutoConfigURL w))]"

definition decodeWindows :: "json \<Rightarrow> WindowsState option" where
  "decodeWindows j =
     (case (isObj j, decodeDWORD (jfield ''proxy_enable'' j), decodeWString (jfield ''proxy_server'' j),
            decodeWString (jfield ''auto_config_url'' j)) of
        (True, Some e, Some s, Some u) \<Rightarrow>
          Some \<lparr>ws_ProxyEnable = e, ws_ProxyServer = s, ws_AutoConfigURL = u\<rparr>
      | _ \<Rightarrow> None)"

definition encodeMacProxy :: "MacOSProxyState \<Rightarrow> json" where
  "encodeMacProxy p = JObj ([(''enabled'', JBool (mp_Enabled p))] @
     optField ''server'' (mp_Server p \<noteq> []) (JStr (mp_Server p)) @
     optField ''port'' (mp_Port p \<noteq> []) (JStr (mp_Port p)) @
     optField ''authenticated'' (mp_Authenticated p) (JBool (mp_Authenticated p)))"

definition decodeMacProxy :: "json \<Rightarrow> MacOSProxyState option" where
  "decodeMacProxy j =
     (case (isObj j, asBool (jfield ''enabled'' j), asStr (jfield ''server'' j), asStr (jfield ''port'' j),
            asBool (jfield ''authenticated'' j)) of
        (True, Some e, Some s, Some p, Some a) \<Rightarrow>
          Some \<lparr>mp_Enabled = e, mp_Server = s, mp_Port = p, mp_Authenticated = a\<rparr>
      | _ \<Rightarrow> None)"

definition encodeMacAuto :: "MacOSAutoState \<Rightarrow> json" where
  "encodeMacAuto p = JObj ([(''enabled'', JBool (mu_Enabled p))] @ optField ''url'' (mu_URL p \<noteq> []) (JStr (mu_URL p)))"

definition decodeMacAuto :: "json \<Rightarrow> MacOSAutoState option" where
  "decodeMacAuto j =
     (case (isObj j, asBool (jfield ''enabled'' j), asStr (jfield ''url'' j)) of
        (True, Some e, Some u) \<Rightarrow> Some \<lparr>mu_Enabled = e, mu_URL = u\<rparr> | _ \<Rightarrow> None)"

definition encodeMacService :: "MacOSServiceState \<Rightarrow> json" where
  "encodeMacService s = JObj [(''name'', JStr (ms_Name s)), (''web'', encodeMacProxy (ms_Web s)),
     (''secure'', encodeMacProxy (ms_Secure s)), (''auto'', encodeMacAuto (ms_Auto s))]"

definition decodeMacService :: "json \<Rightarrow> MacOSServiceState option" where
  "decodeMacService j =
     (case (isObj j, asStr (jfield ''name'' j), decodeMacProxy (jfield ''web'' j), decodeMacProxy (jfield ''secure'' j),
            decodeMacAuto (jfield ''auto'' j)) of
        (True, Some n, Some w, Some s, Some a) \<Rightarrow>
          Some \<lparr>ms_Name = n, ms_Web = w, ms_Secure = s, ms_Auto = a\<rparr>
      | _ \<Rightarrow> None)"

definition encodeMac :: "MacOSState \<Rightarrow> json" where
  "encodeMac m = JObj [(''services'', JArr (map encodeMacService (mo_Services m)))]"

definition decodeMac :: "json \<Rightarrow> MacOSState option" where
  "decodeMac j =
     (case (isObj j, asList decodeMacService (jfield ''services'' j)) of
        (True, Some ss) \<Rightarrow> Some \<lparr>mo_Services = ss\<rparr> | _ \<Rightarrow> None)"

text \<open>A pointer field is absent or null for nil.\<close>

definition asPointer :: "(json \<Rightarrow> 'a option) \<Rightarrow> json \<Rightarrow> 'a option option" where
  "asPointer f j = (if j = JNull then Some None else map_option Some (f j))"

definition encodeState :: "State \<Rightarrow> json" where
  "encodeState s = JObj ([(''version'', JNum (st_Version s)), (''os'', JStr (st_OS s)), (''mode'', JStr (st_Mode s))] @
     optField ''proxy_addr'' (st_ProxyAddr s \<noteq> []) (JStr (st_ProxyAddr s)) @
     optField ''pac_url'' (st_PACURL s \<noteq> []) (JStr (st_PACURL s)) @
     optField ''services'' (st_Services s \<noteq> []) (JArr (map JStr (st_Services s))) @
     optField ''windows'' (st_Windows s \<noteq> None) (encodeWindows (the (st_Windows s))) @
     optField ''macos'' (st_MacOS s \<noteq> None) (encodeMac (the (st_MacOS s))))"

definition decodeState :: "json \<Rightarrow> State option" where
  "decodeState j =
     (case (isObj j, asInt (jfield ''version'' j), asStr (jfield ''os'' j), asStr (jfield ''mode'' j),
            asStr (jfield ''proxy_addr'' j), asStr (jfield ''pac_url'' j), asList asStr (jfield ''services'' j),
            asPointer decodeWindows (jfield ''windows'' j), asPointer decodeMac (jfield ''macos'' j)) of
        (True, Some v, Some os, Some m, Some pa, Some pu, Some ss, Some w, Some mac) \<Rightarrow>
          Some \<lparr>st_Version = v, st_OS = os, st_Mode = m, st_ProxyAddr = pa, st_PACURL = pu,
                st_Services = ss, st_Windows = w, st_MacOS = mac\<rparr>
      | _ \<Rightarrow> None)"

subsection \<open>Apply and restore\<close>

definition validateConfig :: "golib \<Rightarrow> proxyConfig \<Rightarrow> (proxy_error, unit) result" where
  "validateConfig E cfg =
     (if TrimSpace (yc_RollbackPath cfg) = [] then Inl RollbackPathRequired
      else if yc_Mode cfg = ModePAC then
        (if TrimSpace (yc_PACURL cfg) = [] then Inl PACURLRequired
         else (case url_Parse E (yc_PACURL cfg) of
                 None \<Rightarrow> Inl (InvalidPACURL (yc_PACURL cfg))
               | Some parsed \<Rightarrow>
                   if url_Scheme parsed \<noteq> ''http'' \<or> url_Host parsed = [] then Inl (InvalidPACURL (yc_PACURL cfg))
                   else Inr ()))
      else if yc_Mode cfg = ModeSystem then
        (if SplitHostPort (yc_ProxyAddr cfg) = None then Inl (InvalidProxyAddr (yc_ProxyAddr cfg)) else Inr ())
      else Inl (UnsupportedProxyMode (yc_Mode cfg)))"

definition WriteState :: "string \<Rightarrow> State \<Rightarrow> ('os world, proxy_error, unit) proc" where
  "WriteState path state = writeFile RollbackPathRequired WriteStateFailed path (encodeState state)"

definition ReadState :: "string \<Rightarrow> ('os world, proxy_error, State) proc" where
  "ReadState path = readFile NoState ParseStateFailed decodeState path"

definition RemoveState :: "string \<Rightarrow> ('os world, proxy_error, unit) proc" where
  "RemoveState path = removeFile RemoveStateFailed path"

definition HasState :: "string \<Rightarrow> 'os world \<Rightarrow> bool" where
  "HasState path w \<longleftrightarrow> TrimSpace path \<noteq> [] \<and> wo_files w path \<noteq> None"

definition completeState :: "'os Platform \<Rightarrow> proxyConfig \<Rightarrow> State \<Rightarrow> State" where
  "completeState P cfg state =
     state\<lparr>st_Version := 1, st_OS := pf_Name P, st_Mode := yc_Mode cfg, st_ProxyAddr := yc_ProxyAddr cfg,
           st_PACURL := yc_PACURL cfg, st_Services := yc_Services cfg\<rparr>"

definition applyMode :: "'os Platform \<Rightarrow> proxyConfig \<Rightarrow> ('os, proxy_error, unit) proc" where
  "applyMode P cfg =
     (if yc_Mode cfg = ModePAC then pf_ApplyPAC P cfg
      else if yc_Mode cfg = ModeSystem then pf_ApplySystem P cfg
      else praise (UnsupportedProxyMode (yc_Mode cfg)))"

definition ApplyWithPlatform :: "golib \<Rightarrow> proxyConfig \<Rightarrow> 'os Platform \<Rightarrow> ('os world, proxy_error, unit) proc" where
  "ApplyWithPlatform E cfg P =
     pthen (plift (validateConfig E cfg))
    (pbind (onOS (pf_Snapshot P cfg)) (\<lambda>state.
     pthen (WriteState (yc_RollbackPath cfg) (completeState P cfg state))
           (onOS (applyMode P cfg))))"

definition RestoreWithPlatform :: "string \<Rightarrow> 'os Platform \<Rightarrow> ('os world, proxy_error, unit) proc" where
  "RestoreWithPlatform rollbackPath P =
     pbind (ReadState rollbackPath) (\<lambda>state.
     pthen (pensure (st_OS state = [] \<or> st_OS state = pf_Name P) (WrongPlatform (st_OS state) (pf_Name P)))
    (pthen (onOS (pf_Restore P state))
           (RemoveState rollbackPath)))"

subsection \<open>The unsupported platform\<close>

definition unsupportedPlatform :: "string \<Rightarrow> 'os Platform" where
  "unsupportedPlatform name =
     \<lparr>pf_Name = name, pf_Snapshot = (\<lambda>_. praise (UnsupportedOS name)), pf_ApplyPAC = (\<lambda>_. praise (UnsupportedOS name)),
      pf_ApplySystem = (\<lambda>_. praise (UnsupportedOS name)), pf_Restore = (\<lambda>_. praise (UnsupportedOS name))\<rparr>"

subsection \<open>The Windows registry\<close>

text \<open>
  Values of the registry key of the internet settings.  \<open>ww_fail\<close> tells for every call
  to the operating system, by its number, whether it fails.
\<close>

datatype regval = RegDword "32 word" | RegQword "64 word" | RegSz string | RegExpandSz string | RegBinary string

record winWorld =
  ww_reg :: "string \<Rightarrow> regval option"
  ww_calls :: nat
  ww_fail :: "nat \<Rightarrow> bool"

type_synonym 'a winproc = "(winWorld, proxy_error, 'a) proc"

definition winCall :: "string \<Rightarrow> 'a winproc \<Rightarrow> 'a winproc" where
  "winCall what act w =
     (let w' = w\<lparr>ww_calls := ww_calls w + 1\<rparr> in
      if ww_fail w (ww_calls w) then (Inl (PlatformFailed what), w') else act w')"

definition openSettings :: "unit winproc" where
  "openSettings = winCall ''open internet settings'' (preturn ())"

definition getDWORDValue :: "string \<Rightarrow> WindowsDWORD winproc" where
  "getDWORDValue name = winCall name (\<lambda>w.
     case ww_reg w name of
       None \<Rightarrow> (Inr \<lparr>wd_Exists = False, wd_Value = 0\<rparr>, w)
     | Some (RegDword v) \<Rightarrow> (Inr \<lparr>wd_Exists = True, wd_Value = ucast v\<rparr>, w)
     | Some (RegQword v) \<Rightarrow> (Inr \<lparr>wd_Exists = True, wd_Value = v\<rparr>, w)
     | Some _ \<Rightarrow> (Inl (PlatformFailed name), w))"

definition getStringValue :: "string \<Rightarrow> WindowsString winproc" where
  "getStringValue name = winCall name (\<lambda>w.
     case ww_reg w name of
       None \<Rightarrow> (Inr \<lparr>wt_Exists = False, wt_Value = []\<rparr>, w)
     | Some (RegSz v) \<Rightarrow> (Inr \<lparr>wt_Exists = True, wt_Value = v\<rparr>, w)
     | Some (RegExpandSz v) \<Rightarrow> (Inr \<lparr>wt_Exists = True, wt_Value = v\<rparr>, w)
     | Some _ \<Rightarrow> (Inl (PlatformFailed name), w))"

definition setValue :: "string \<Rightarrow> regval \<Rightarrow> unit winproc" where
  "setValue name v = winCall name (\<lambda>w. (Inr (), w\<lparr>ww_reg := (ww_reg w)(name \<mapsto> v)\<rparr>))"

text \<open>Deleting a value that does not exist is not an error.\<close>

definition deleteValue :: "string \<Rightarrow> unit winproc" where
  "deleteValue name = winCall name (\<lambda>w. (Inr (), w\<lparr>ww_reg := (ww_reg w)(name := None)\<rparr>))"

definition restoreDWORDValue :: "string \<Rightarrow> WindowsDWORD \<Rightarrow> unit winproc" where
  "restoreDWORDValue name value =
     (if \<not> wd_Exists value then deleteValue name else setValue name (RegDword (ucast (wd_Value value))))"

definition restoreStringValue :: "string \<Rightarrow> WindowsString \<Rightarrow> unit winproc" where
  "restoreStringValue name value =
     (if \<not> wt_Exists value then deleteValue name else setValue name (RegSz (wt_Value value)))"

text \<open>Two WinINet options are notified, then the change is broadcast.\<close>

definition notifyWindowsProxyChanged :: "unit winproc" where
  "notifyWindowsProxyChanged =
     pthen (pfor (\<lambda>option. winCall ''notify WinINet option'' (preturn ())) [39, 37 :: nat])
           (winCall ''broadcast internet settings change'' (preturn ()))"

definition winSnapshot :: "WindowsState winproc" where
  "winSnapshot =
     pthen openSettings
    (pbind (getDWORDValue ''ProxyEnable'') (\<lambda>proxyEnable.
     pbind (getStringValue ''ProxyServer'') (\<lambda>proxyServer.
     pbind (getStringValue ''AutoConfigURL'') (\<lambda>autoConfigURL.
     preturn \<lparr>ws_ProxyEnable = proxyEnable, ws_ProxyServer = proxyServer, ws_AutoConfigURL = autoConfigURL\<rparr>))))"

definition winApplyPAC :: "string \<Rightarrow> unit winproc" where
  "winApplyPAC pacURL =
     pthen openSettings
    (pthen (setValue ''AutoConfigURL'' (RegSz pacURL))
    (pthen (setValue ''ProxyEnable'' (RegDword 0))
           notifyWindowsProxyChanged))"

definition winApplySystem :: "string \<Rightarrow> unit winproc" where
  "winApplySystem proxyAddr =
     pthen openSettings
    (pthen (setValue ''ProxyServer'' (RegSz (''http='' @ proxyAddr @ '';https='' @ proxyAddr)))
    (pthen (setValue ''ProxyEnable'' (RegDword 1))
    (pthen (deleteValue ''AutoConfigURL'')
           notifyWindowsProxyChanged)))"

definition winRestore :: "WindowsState \<Rightarrow> unit winproc" where
  "winRestore state =
     pthen openSettings
    (pthen (restoreDWORDValue ''ProxyEnable'' (ws_ProxyEnable state))
    (pthen (restoreStringValue ''ProxyServer'' (ws_ProxyServer state))
    (pthen (restoreStringValue ''AutoConfigURL'' (ws_AutoConfigURL state))
           notifyWindowsProxyChanged)))"

definition windowsPlatform :: "winWorld Platform" where
  "windowsPlatform =
     \<lparr>pf_Name = ''windows'',
      pf_Snapshot = (\<lambda>_. pbind winSnapshot (\<lambda>state. preturn (emptyState\<lparr>st_Windows := Some state\<rparr>))),
      pf_ApplyPAC = (\<lambda>cfg. winApplyPAC (yc_PACURL cfg)),
      pf_ApplySystem = (\<lambda>cfg. winApplySystem (yc_ProxyAddr cfg)),
      pf_Restore = (\<lambda>state. case st_Windows state of None \<Rightarrow> praise NoWindowsState | Some ws \<Rightarrow> winRestore ws)\<rparr>"

subsection \<open>The rollback state survives the file\<close>

lemma decodeDWORD_encode [simp]: "decodeDWORD (encodeDWORD d) = Some d"
proof -
  have "uint (wd_Value d) < 2 ^ 64" using uint_bounded [of "wd_Value d"] by simp
  then show ?thesis by (simp add: decodeDWORD_def encodeDWORD_def)
qed

lemma decodeWString_encode [simp]: "decodeWString (encodeWString d) = Some d"
  by (simp add: decodeWString_def encodeWString_def)

lemma decodeWindows_encode [simp]: "decodeWindows (encodeWindows w) = Some w"
  by (simp add: decodeWindows_def encodeWindows_def)

lemma decodeMacProxy_encode [simp]: "decodeMacProxy (encodeMacProxy p) = Some p"
  by (cases "mp_Server p = []"; cases "mp_Port p = []"; cases "mp_Authenticated p")
    (simp_all add: decodeMacProxy_def encodeMacProxy_def optField_def)

lemma decodeMacAuto_encode [simp]: "decodeMacAuto (encodeMacAuto p) = Some p"
  by (cases "mu_URL p = []") (simp_all add: decodeMacAuto_def encodeMacAuto_def optField_def)

lemma decodeMacService_encode [simp]: "decodeMacService (encodeMacService s) = Some s"
  by (simp add: decodeMacService_def encodeMacService_def)

lemma decodeMac_encode [simp]: "decodeMac (encodeMac m) = Some m"
  by (simp add: decodeMac_def encodeMac_def)

lemma encode_not_null [simp]: "encodeWindows w \<noteq> JNull" "encodeMac m \<noteq> JNull"
  by (simp_all add: encodeWindows_def encodeMac_def)

lemma decodeState_encode [simp]: "decodeState (encodeState s) = Some s"
proof -
  have plain: "isObj (encodeState s)" "asInt (jfield ''version'' (encodeState s)) = Some (st_Version s)"
    "asStr (jfield ''os'' (encodeState s)) = Some (st_OS s)" "asStr (jfield ''mode'' (encodeState s)) = Some (st_Mode s)"
    by (simp_all add: encodeState_def)
  have strings: "asStr (jfield ''proxy_addr'' (encodeState s)) = Some (st_ProxyAddr s)"
    "asStr (jfield ''pac_url'' (encodeState s)) = Some (st_PACURL s)"
    "asList asStr (jfield ''services'' (encodeState s)) = Some (st_Services s)"
    by (simp_all add: encodeState_def optField_simps)
  have windows: "asPointer decodeWindows (jfield ''windows'' (encodeState s)) = Some (st_Windows s)"
    by (cases "st_Windows s") (simp_all add: encodeState_def optField_simps asPointer_def)
  have mac: "asPointer decodeMac (jfield ''macos'' (encodeState s)) = Some (st_MacOS s)"
    by (cases "st_MacOS s") (simp_all add: encodeState_def optField_simps asPointer_def)
  show ?thesis by (simp add: decodeState_def plain strings windows mac)
qed

subsection \<open>Reversible platforms\<close>

text \<open>
  What apply and restore need of a platform; \<open>view\<close> is what a restore brings back.
\<close>

locale reversible_platform =
  fixes P :: "'os Platform" and view :: "proxyConfig \<Rightarrow> 'os \<Rightarrow> 'v"
  assumes snapshot_view: "pf_Snapshot P cfg os = (rs, os1) \<Longrightarrow> view cfg os1 = view cfg os"
    and restores: "pf_Snapshot P cfg os = (Inr st, os1) \<Longrightarrow> applyMode P cfg os1 = (r, os2) \<Longrightarrow>
      pf_Restore P (completeState P cfg st) os2 = (Inr (), os3) \<Longrightarrow> view cfg os3 = view cfg os"

definition sameOS :: "'os Platform \<Rightarrow> State \<Rightarrow> (proxy_error, unit) result" where
  "sameOS P state = ensure (st_OS state = [] \<or> st_OS state = pf_Name P) (WrongPlatform (st_OS state) (pf_Name P))"

sublocale reversible_platform \<subseteq> flow: reversible "pf_Snapshot P" "\<lambda>cfg _. applyMode P cfg" "pf_Restore P"
  "completeState P" "sameOS P" encodeState decodeState view
proof
  show "pf_Snapshot P cfg os = (rs, os1) \<Longrightarrow> view cfg os1 = view cfg os" for cfg os rs os1
    by (rule snapshot_view)
  show "pf_Snapshot P cfg os = (Inr st, os1) \<Longrightarrow> applyMode P cfg os1 = (r, os2) \<Longrightarrow>
      pf_Restore P (completeState P cfg st) os2 = (Inr (), os3) \<Longrightarrow> view cfg os3 = view cfg os"
    for cfg os st os1 r os2 os3
    by (rule restores)
qed (simp_all add: sameOS_def completeState_def ensure_def)

context reversible_platform
begin

lemma ApplyWithPlatform_flow:
  "ApplyWithPlatform E cfg P w =
     (case flow.applyFlow (validateConfig E cfg) RollbackPathRequired WriteStateFailed (yc_RollbackPath cfg) cfg w of
        (r, w1) \<Rightarrow> (map_result (\<lambda>_. ()) r, w1))"
  by (simp add: ApplyWithPlatform_def flow.applyFlow_def WriteState_def pthen_def pbind_def preturn_def map_result_def
      split: prod.splits sum.splits)

lemma RestoreWithPlatform_flow:
  "RestoreWithPlatform path P w =
     (case flow.restoreFlow NoState ParseStateFailed RemoveStateFailed path w of
        (r, w1) \<Rightarrow> (map_result (\<lambda>_. ()) r, w1))"
  by (auto simp: RestoreWithPlatform_def flow.restoreFlow_def ReadState_def RemoveState_def sameOS_def pthen_def pbind_def
      plift_def pensure_def praise_def preturn_def ensure_def map_result_def split: prod.splits sum.splits)

lemma platform_restores:
  assumes "wo_files w (yc_RollbackPath cfg) = None"
    and "ApplyWithPlatform E cfg P w = (r, w1)" and "RestoreWithPlatform (yc_RollbackPath cfg) P w1 = (Inr (), w2)"
  shows "view cfg (wo_os w2) = view cfg (wo_os w) \<and> wo_files w2 = wo_files w"
proof -
  obtain r' where "flow.applyFlow (validateConfig E cfg) RollbackPathRequired WriteStateFailed (yc_RollbackPath cfg) cfg w = (r', w1)"
    using assms(2) by (auto simp: ApplyWithPlatform_flow split: prod.splits)
  moreover obtain st where "flow.restoreFlow NoState ParseStateFailed RemoveStateFailed (yc_RollbackPath cfg) w1 = (Inr st, w2)"
    using assms(3) by (auto simp: RestoreWithPlatform_flow res_simps split: prod.splits)
  ultimately show ?thesis using flow.apply_restore [OF assms(1)] by blast
qed

end

subsection \<open>Windows is reversible\<close>

definition settingNames :: "string list" where
  "settingNames = [''ProxyEnable'', ''ProxyServer'', ''AutoConfigURL'']"

text \<open>
  What is restored: all values, the three settings up to the width of an integer value and the
  expansion flag of a string value.
\<close>

fun canonical :: "regval \<Rightarrow> regval" where
  "canonical (RegQword v) = RegDword (ucast v)"
| "canonical (RegExpandSz v) = RegSz v"
| "canonical v = v"

definition windowsView :: "proxyConfig \<Rightarrow> winWorld \<Rightarrow> string \<Rightarrow> regval option" where
  "windowsView cfg w name =
     (if name \<in> set settingNames then map_option canonical (ww_reg w name) else ww_reg w name)"

definition winFrame :: "winWorld \<Rightarrow> winWorld \<Rightarrow> bool" where
  "winFrame w w' \<longleftrightarrow> (\<forall>name. name \<notin> set settingNames \<longrightarrow> ww_reg w' name = ww_reg w name)"

lemma winFrame_refl: "reflp winFrame" and winFrame_trans: "transp winFrame"
  by (auto simp: winFrame_def reflp_def transp_def)

lemma winCall_Inr [proc_simps]:
  "winCall what act w = (Inr x, w') \<longleftrightarrow>
     \<not> ww_fail w (ww_calls w) \<and> act (w\<lparr>ww_calls := ww_calls w + 1\<rparr>) = (Inr x, w')"
  by (simp add: winCall_def Let_def)

lemma keeps_winCall:
  assumes "\<And>w. winFrame w (snd (act w))"
  shows "keeps winFrame (winCall what act)"
  unfolding keeps_def
proof
  fix w
  show "winFrame w (snd (winCall what act w))"
    using assms [of "w\<lparr>ww_calls := Suc (ww_calls w)\<rparr>"] by (auto simp: winCall_def winFrame_def Let_def)
qed

lemma keeps_registry:
  "keeps winFrame openSettings"
  "name \<in> set settingNames \<Longrightarrow> keeps winFrame (setValue name v)"
  "name \<in> set settingNames \<Longrightarrow> keeps winFrame (deleteValue name)"
  "name \<in> set settingNames \<Longrightarrow> keeps winFrame (restoreDWORDValue name dw)"
  "name \<in> set settingNames \<Longrightarrow> keeps winFrame (restoreStringValue name ws)"
  "keeps winFrame notifyWindowsProxyChanged"
  by (auto simp: openSettings_def setValue_def deleteValue_def restoreDWORDValue_def restoreStringValue_def
      notifyWindowsProxyChanged_def preturn_def winFrame_def
      intro!: keeps_intros keeps_winCall winFrame_refl winFrame_trans)

lemma keeps_winApply:
  "keeps winFrame (winApplyPAC url)" "keeps winFrame (winApplySystem addr)" "keeps winFrame (winRestore st)"
  by (auto simp: winApplyPAC_def winApplySystem_def winRestore_def settingNames_def
      intro!: keeps_intros keeps_registry winFrame_refl winFrame_trans)

lemma keeps_windows_apply: "keeps winFrame (applyMode windowsPlatform cfg)"
  by (simp add: applyMode_def windowsPlatform_def keeps_winApply keeps_pure winFrame_refl)

text \<open>Reading does not change the registry.\<close>

lemma keeps_reg:
  "keeps (\<lambda>w w'. ww_reg w' = ww_reg w) winSnapshot"
proof -
  have R: "reflp (\<lambda>w w'. ww_reg w' = ww_reg w)" "transp (\<lambda>w w'. ww_reg w' = ww_reg w)"
    by (auto simp: reflp_def transp_def)
  have "keeps (\<lambda>w w'. ww_reg w' = ww_reg w) (getDWORDValue name)"
    "keeps (\<lambda>w w'. ww_reg w' = ww_reg w) (getStringValue name)"
    "keeps (\<lambda>w w'. ww_reg w' = ww_reg w) openSettings" for name
    by (auto simp: keeps_def getDWORDValue_def getStringValue_def openSettings_def winCall_def preturn_def Let_def
        split: option.splits regval.splits)
  with R show ?thesis unfolding winSnapshot_def by (intro keeps_intros) auto
qed

lemma ucast_dword [simp]: "ucast (ucast (v :: 32 word) :: 64 word) = v"
  by (rule bit_word_eqI) (simp add: bit_ucast_iff)

lemma getDWORDValue_Inr:
  assumes "getDWORDValue name w = (Inr d, w')"
  shows "ww_reg w' = ww_reg w \<and> map_option canonical (ww_reg w name) =
      (if wd_Exists d then Some (RegDword (ucast (wd_Value d))) else None)"
  using assms
  by (auto simp: getDWORDValue_def proc_simps split: option.splits regval.splits)

lemma getStringValue_Inr:
  assumes "getStringValue name w = (Inr d, w')"
  shows "ww_reg w' = ww_reg w \<and> map_option canonical (ww_reg w name) =
      (if wt_Exists d then Some (RegSz (wt_Value d)) else None)"
  using assms by (auto simp: getStringValue_def proc_simps split: option.splits regval.splits)

lemma winSnapshot_Inr:
  assumes "winSnapshot w = (Inr st, w')"
  shows "map_option canonical (ww_reg w ''ProxyEnable'') =
      (if wd_Exists (ws_ProxyEnable st) then Some (RegDword (ucast (wd_Value (ws_ProxyEnable st)))) else None)"
    and "map_option canonical (ww_reg w ''ProxyServer'') =
      (if wt_Exists (ws_ProxyServer st) then Some (RegSz (wt_Value (ws_ProxyServer st))) else None)"
    and "map_option canonical (ww_reg w ''AutoConfigURL'') =
      (if wt_Exists (ws_AutoConfigURL st) then Some (RegSz (wt_Value (ws_AutoConfigURL st))) else None)"
proof -
  obtain u w0 d w1 p w2 a w3 where steps: "openSettings w = (Inr u, w0)"
    "getDWORDValue ''ProxyEnable'' w0 = (Inr d, w1)" "getStringValue ''ProxyServer'' w1 = (Inr p, w2)"
    "getStringValue ''AutoConfigURL'' w2 = (Inr a, w3)"
    and st: "st = \<lparr>ws_ProxyEnable = d, ws_ProxyServer = p, ws_AutoConfigURL = a\<rparr>"
    using assms by (auto simp: winSnapshot_def proc_simps)
  have "ww_reg w0 = ww_reg w" using steps(1) by (auto simp: openSettings_def proc_simps)
  with getDWORDValue_Inr [OF steps(2)] getStringValue_Inr [OF steps(3)] getStringValue_Inr [OF steps(4)] st
  show "map_option canonical (ww_reg w ''ProxyEnable'') =
      (if wd_Exists (ws_ProxyEnable st) then Some (RegDword (ucast (wd_Value (ws_ProxyEnable st)))) else None)"
    and "map_option canonical (ww_reg w ''ProxyServer'') =
      (if wt_Exists (ws_ProxyServer st) then Some (RegSz (wt_Value (ws_ProxyServer st))) else None)"
    and "map_option canonical (ww_reg w ''AutoConfigURL'') =
      (if wt_Exists (ws_AutoConfigURL st) then Some (RegSz (wt_Value (ws_AutoConfigURL st))) else None)"
    by simp_all
qed

lemma restoreDWORDValue_Inr:
  "restoreDWORDValue name d w = (Inr u, w') \<Longrightarrow>
     ww_reg w' = (ww_reg w)(name := if wd_Exists d then Some (RegDword (ucast (wd_Value d))) else None)"
  by (auto simp: restoreDWORDValue_def deleteValue_def setValue_def proc_simps split: if_splits)

lemma restoreStringValue_Inr:
  "restoreStringValue name d w = (Inr u, w') \<Longrightarrow>
     ww_reg w' = (ww_reg w)(name := if wt_Exists d then Some (RegSz (wt_Value d)) else None)"
  by (auto simp: restoreStringValue_def deleteValue_def setValue_def proc_simps split: if_splits)

lemma notify_Inr: "notifyWindowsProxyChanged w = (Inr u, w') \<Longrightarrow> ww_reg w' = ww_reg w"
  by (auto simp: notifyWindowsProxyChanged_def proc_simps)

lemma winRestore_Inr:
  assumes "winRestore st w = (Inr u, w')"
  shows "ww_reg w' = (ww_reg w)
    (''ProxyEnable'' := if wd_Exists (ws_ProxyEnable st) then Some (RegDword (ucast (wd_Value (ws_ProxyEnable st)))) else None,
     ''ProxyServer'' := if wt_Exists (ws_ProxyServer st) then Some (RegSz (wt_Value (ws_ProxyServer st))) else None,
     ''AutoConfigURL'' := if wt_Exists (ws_AutoConfigURL st) then Some (RegSz (wt_Value (ws_AutoConfigURL st))) else None)"
proof -
  obtain u0 w0 u1 w1 u2 w2 u3 w3 where steps: "openSettings w = (Inr u0, w0)"
    "restoreDWORDValue ''ProxyEnable'' (ws_ProxyEnable st) w0 = (Inr u1, w1)"
    "restoreStringValue ''ProxyServer'' (ws_ProxyServer st) w1 = (Inr u2, w2)"
    "restoreStringValue ''AutoConfigURL'' (ws_AutoConfigURL st) w2 = (Inr u3, w3)"
    "notifyWindowsProxyChanged w3 = (Inr u, w')"
    using assms unfolding winRestore_def proc_simps by blast
  have "ww_reg w0 = ww_reg w" using steps(1) by (auto simp: openSettings_def proc_simps)
  with restoreDWORDValue_Inr [OF steps(2)] restoreStringValue_Inr [OF steps(3)] restoreStringValue_Inr [OF steps(4)]
    notify_Inr [OF steps(5)]
  show ?thesis by simp
qed

interpretation windows: reversible_platform windowsPlatform windowsView
proof
  fix cfg os rs os1
  assume "pf_Snapshot windowsPlatform cfg os = (rs, os1)"
  then have "ww_reg os1 = ww_reg os"
    using keepsD [OF keeps_reg, of os]
    by (auto simp: windowsPlatform_def pbind_def preturn_def split: prod.splits sum.splits)
  then show "windowsView cfg os1 = windowsView cfg os" by (simp add: windowsView_def fun_eq_iff)
next
  fix cfg os st os1 r os2 os3
  assume snap: "pf_Snapshot windowsPlatform cfg os = (Inr st, os1)"
    and change: "applyMode windowsPlatform cfg os1 = (r, os2)"
    and restore: "pf_Restore windowsPlatform (completeState windowsPlatform cfg st) os2 = (Inr (), os3)"
  obtain ws where ws: "winSnapshot os = (Inr ws, os1)" "st = emptyState\<lparr>st_Windows := Some ws\<rparr>"
    using snap by (auto simp: windowsPlatform_def proc_simps)
  have reg: "ww_reg os1 = ww_reg os" using keepsD [OF keeps_reg ws(1)] by simp
  have "winRestore ws os2 = (Inr (), os3)"
    using restore ws(2) by (simp add: completeState_def windowsPlatform_def)
  from winRestore_Inr [OF this] winSnapshot_Inr [OF ws(1)] keepsD [OF keeps_windows_apply change] reg
  show "windowsView cfg os3 = windowsView cfg os"
    by (auto simp: windowsView_def winFrame_def settingNames_def fun_eq_iff)
qed

subsection \<open>Properties\<close>


definition sampleRegistry :: "nat \<Rightarrow> winWorld world" where
  "sampleRegistry failing =
     \<lparr>wo_os = \<lparr>ww_reg = [''ProxyEnable'' \<mapsto> RegDword 1, ''ProxyServer'' \<mapsto> RegSz ''10.0.0.1:3128''],
              ww_calls = 0, ww_fail = (\<lambda>n. n = failing)\<rparr>,
      wo_files = (\<lambda>_. None), wo_writable = (\<lambda>_. True), wo_removable = (\<lambda>_. True)\<rparr>"

definition sampleSystemConfig :: proxyConfig where
  "sampleSystemConfig = \<lparr>yc_Mode = ModeSystem, yc_ProxyAddr = ''127.0.0.1:8080'', yc_PACURL = [],
     yc_RollbackPath = ''r'', yc_Services = []\<rparr>"

text \<open>The sixth call of the operating system, setting \<open>ProxyEnable\<close>, fails.\<close>

lemmas windows_run = pbind_def pthen_def preturn_def praise_def pensure_def plift_def onOS_def Let_def winCall_def
  openSettings_def getDWORDValue_def getStringValue_def setValue_def deleteValue_def restoreDWORDValue_def
  restoreStringValue_def notifyWindowsProxyChanged_def winSnapshot_def winApplyPAC_def winApplySystem_def winRestore_def
  windowsPlatform_def completeState_def emptyState_def WriteState_def ReadState_def RemoveState_def file_defs applyMode_def

lemma sampleSystemConfig_valid: "validateConfig sampleLib sampleSystemConfig = Inr ()" "TrimSpace ''r'' \<noteq> []"
  by code_simp+


text \<open>
  Applying twice loses the original settings: the second snapshot overwrites the rollback file
  with the settings of the first change.
\<close>

lemma second_apply_overwrites_rollback:
  "\<exists>w1 w2 w3. ApplyWithPlatform sampleLib sampleSystemConfig windowsPlatform (sampleRegistry 100) = (Inr (), w1) \<and>
     ApplyWithPlatform sampleLib sampleSystemConfig windowsPlatform w1 = (Inr (), w2) \<and>
     RestoreWithPlatform ''r'' windowsPlatform w2 = (Inr (), w3) \<and>
     ww_reg (wo_os w3) ''ProxyServer'' = Some (RegSz ''http=127.0.0.1:8080;https=127.0.0.1:8080'')"
proof -
  have cfg: "yc_Mode sampleSystemConfig = ModeSystem" "yc_RollbackPath sampleSystemConfig = ''r''"
    "yc_ProxyAddr sampleSystemConfig = ''127.0.0.1:8080''"
    by (simp_all add: sampleSystemConfig_def)
  show ?thesis
    by (simp add: ApplyWithPlatform_def RestoreWithPlatform_def sampleSystemConfig_valid cfg sampleRegistry_def windows_run)
qed

text \<open>A 64-bit value is restored modulo its lower half.\<close>

lemma qword_truncated: "canonical (RegQword 0x100000001) = RegDword 1"
  by simp

end
