(* ===== verification/MacProxy.thy ===== *)
theory MacProxy
  imports SystemProxy
begin

section \<open>Package systemproxy: the macOS platform\<close>

text \<open>
  \<^verbatim>\<open>internal/systemproxy/macos_platform.go\<close>.  The tool \<^verbatim>\<open>networksetup\<close> is
  the parameter \<open>run\<close>, from the arguments to a procedure that prints its output;
  what the code relies on is the predicate \<open>networksetup\<close>.
\<close>

type_synonym 'os runner = "string list \<Rightarrow> ('os, proxy_error, string) proc"

subsection \<open>Reading the output\<close>

definition cutColon :: "string \<Rightarrow> (string \<times> string) option" where
  "cutColon line = map_option (\<lambda>i. (take i line, drop (Suc i) line)) (IndexByte line CHR '':'')"

primrec parseLines :: "golib \<Rightarrow> string list \<Rightarrow> (string \<times> string) list \<Rightarrow> (string \<times> string) list" where
  "parseLines E [] values = values"
| "parseLines E (line # lines) values =
     parseLines E lines
       (case cutColon line of
          None \<Rightarrow> values
        | Some (key, value) \<Rightarrow> AList.update (ToLower E (TrimSpace key)) (TrimSpace value) values)"

definition parseNetworkSetupOutput :: "golib \<Rightarrow> string \<Rightarrow> (string \<times> string) list" where
  "parseNetworkSetupOutput E out = parseLines E (splitByte LF out) []"

definition valueOf :: "(string \<times> string) list \<Rightarrow> string \<Rightarrow> string" where
  "valueOf values key = (case map_of values key of None \<Rightarrow> [] | Some v \<Rightarrow> v)"

definition parseBool :: "golib \<Rightarrow> string \<Rightarrow> bool" where
  "parseBool E value \<longleftrightarrow> ToLower E (TrimSpace value) \<in> {''yes'', ''on'', ''1'', ''true'', ''enabled''}"

definition onOff :: "bool \<Rightarrow> string" where
  "onOff value = (if value then ''on'' else ''off'')"

subsection \<open>The operations\<close>

definition enabledServices :: "string \<Rightarrow> string list" where
  "enabledServices out =
     filter (\<lambda>line. line \<noteq> [] \<and> \<not> Contains line ''asterisk'' \<and> \<not> HasPrefix line ''*'')
       (map TrimSpace (splitByte LF out))"

definition services :: "'os runner \<Rightarrow> string list \<Rightarrow> ('os, proxy_error, string list) proc" where
  "services run configured =
     (if configured \<noteq> [] then
        (let names = filter (\<lambda>s. s \<noteq> []) (map TrimSpace configured) in
         if names = [] then praise NoServices else preturn names)
      else pbind (run [''-listallnetworkservices'']) (\<lambda>out.
           let names = enabledServices out in
           if names = [] then praise NoServices else preturn names))"

definition getProxy :: "golib \<Rightarrow> 'os runner \<Rightarrow> string \<Rightarrow> string \<Rightarrow> ('os, proxy_error, MacOSProxyState) proc" where
  "getProxy E run command service =
     pbind (run [command, service]) (\<lambda>out.
       let values = parseNetworkSetupOutput E out in
       preturn \<lparr>mp_Enabled = parseBool E (valueOf values ''enabled''), mp_Server = valueOf values ''server'',
                mp_Port = valueOf values ''port'',
                mp_Authenticated = parseBool E (valueOf values ''authenticated proxy enabled'')\<rparr>)"

definition getAuto :: "golib \<Rightarrow> 'os runner \<Rightarrow> string \<Rightarrow> ('os, proxy_error, MacOSAutoState) proc" where
  "getAuto E run service =
     pbind (run [''-getautoproxyurl'', service]) (\<lambda>out.
       let values = parseNetworkSetupOutput E out in
       preturn \<lparr>mu_Enabled = parseBool E (valueOf values ''enabled''), mu_URL = valueOf values ''url''\<rparr>)"

definition snapshotService :: "golib \<Rightarrow> 'os runner \<Rightarrow> string \<Rightarrow> ('os, proxy_error, MacOSServiceState) proc" where
  "snapshotService E run service =
     pbind (getProxy E run ''-getwebproxy'' service) (\<lambda>web.
     pbind (getProxy E run ''-getsecurewebproxy'' service) (\<lambda>secure.
     pthen (pensure (\<not> (mp_Authenticated web \<or> mp_Authenticated secure)) (AuthenticatedProxy service))
    (pbind (getAuto E run service) (\<lambda>auto.
     preturn \<lparr>ms_Name = service, ms_Web = web, ms_Secure = secure, ms_Auto = auto\<rparr>))))"

definition macSnapshot :: "golib \<Rightarrow> 'os runner \<Rightarrow> proxyConfig \<Rightarrow> ('os, proxy_error, State) proc" where
  "macSnapshot E run cfg =
     pbind (services run (yc_Services cfg)) (\<lambda>names.
     pbind (pmap (snapshotService E run) names) (\<lambda>states.
     preturn (emptyState\<lparr>st_MacOS := Some \<lparr>mo_Services = states\<rparr>\<rparr>)))"

definition runAll :: "'os runner \<Rightarrow> string list list \<Rightarrow> ('os, proxy_error, unit) proc" where
  "runAll run cmds = pfor (\<lambda>args. pthen (run args) (preturn ())) cmds"

definition macApplyPAC :: "'os runner \<Rightarrow> proxyConfig \<Rightarrow> ('os, proxy_error, unit) proc" where
  "macApplyPAC run cfg =
     pbind (services run (yc_Services cfg)) (\<lambda>names.
       pfor (\<lambda>service. runAll run
         [[''-setautoproxyurl'', service, yc_PACURL cfg],
          [''-setautoproxystate'', service, ''on''],
          [''-setwebproxystate'', service, ''off''],
          [''-setsecurewebproxystate'', service, ''off'']]) names)"

definition macApplySystem :: "'os runner \<Rightarrow> proxyConfig \<Rightarrow> ('os, proxy_error, unit) proc" where
  "macApplySystem run cfg =
     pbind (services run (yc_Services cfg)) (\<lambda>names.
       case SplitHostPort (yc_ProxyAddr cfg) of
         None \<Rightarrow> praise (InvalidProxyAddr (yc_ProxyAddr cfg))
       | Some (host, port) \<Rightarrow>
           (let host = TrimCutset host ''[]'' in
            pfor (\<lambda>service. runAll run
              [[''-setwebproxy'', service, host, port],
               [''-setsecurewebproxy'', service, host, port],
               [''-setwebproxystate'', service, ''on''],
               [''-setsecurewebproxystate'', service, ''on''],
               [''-setautoproxystate'', service, ''off'']]) names))"

definition restoreWeb :: "'os runner \<Rightarrow> string \<Rightarrow> string \<Rightarrow> string \<Rightarrow> MacOSProxyState \<Rightarrow> ('os, proxy_error, unit) proc" where
  "restoreWeb run setCmd stateCmd service p =
     pthen (pwhen (mp_Server p \<noteq> [] \<and> mp_Port p \<noteq> []) (runAll run [[setCmd, service, mp_Server p, mp_Port p]]))
           (runAll run [[stateCmd, service, onOff (mp_Enabled p)]])"

definition restoreAuto :: "'os runner \<Rightarrow> string \<Rightarrow> MacOSAutoState \<Rightarrow> ('os, proxy_error, unit) proc" where
  "restoreAuto run service a =
     pthen (pwhen (mu_URL a \<noteq> []) (runAll run [[''-setautoproxyurl'', service, mu_URL a]]))
           (runAll run [[''-setautoproxystate'', service, onOff (mu_Enabled a)]])"

definition restoreService :: "'os runner \<Rightarrow> MacOSServiceState \<Rightarrow> ('os, proxy_error, unit) proc" where
  "restoreService run s =
     pthen (restoreWeb run ''-setwebproxy'' ''-setwebproxystate'' (ms_Name s) (ms_Web s))
    (pthen (restoreWeb run ''-setsecurewebproxy'' ''-setsecurewebproxystate'' (ms_Name s) (ms_Secure s))
           (restoreAuto run (ms_Name s) (ms_Auto s)))"

definition macRestore :: "'os runner \<Rightarrow> State \<Rightarrow> ('os, proxy_error, unit) proc" where
  "macRestore run state =
     (case st_MacOS state of
        None \<Rightarrow> praise NoMacOSState
      | Some mac \<Rightarrow> pfor (restoreService run) (mo_Services mac))"

definition macOSPlatform :: "golib \<Rightarrow> 'os runner \<Rightarrow> 'os Platform" where
  "macOSPlatform E run =
     \<lparr>pf_Name = ''darwin'', pf_Snapshot = macSnapshot E run, pf_ApplyPAC = macApplyPAC run,
      pf_ApplySystem = macApplySystem run, pf_Restore = macRestore run\<rparr>"

subsection \<open>What the tool does\<close>

record macService =
  mv_Web :: MacOSProxyState
  mv_Secure :: MacOSProxyState
  mv_Auto :: MacOSAutoState

definition clean :: "string \<Rightarrow> bool" where
  "clean s \<longleftrightarrow> trimmed s \<and> LF \<notin> set s"

definition proxyText :: "MacOSProxyState \<Rightarrow> string" where
  "proxyText p = Join [''Enabled: '' @ (if mp_Enabled p then ''Yes'' else ''No''), ''Server: '' @ mp_Server p,
     ''Port: '' @ mp_Port p, ''Authenticated Proxy Enabled: '' @ (if mp_Authenticated p then ''1'' else ''0''), []] [LF]"

definition autoText :: "MacOSAutoState \<Rightarrow> string" where
  "autoText a = Join [''URL: '' @ mu_URL a, ''Enabled: '' @ (if mu_Enabled a then ''Yes'' else ''No''), []] [LF]"

definition wellFormedService :: "macService \<Rightarrow> bool" where
  "wellFormedService v \<longleftrightarrow>
     (\<forall>p\<in>{mv_Web v, mv_Secure v}. clean (mp_Server p) \<and> clean (mp_Port p) \<and>
        (mp_Enabled p \<longrightarrow> mp_Server p \<noteq> [] \<and> mp_Port p \<noteq> [])) \<and>
     clean (mu_URL (mv_Auto v)) \<and> (mu_Enabled (mv_Auto v) \<longrightarrow> mu_URL (mv_Auto v) \<noteq> [])"

definition proxySet :: "string \<Rightarrow> string \<Rightarrow> MacOSProxyState" where
  "proxySet host port = \<lparr>mp_Enabled = True, mp_Server = host, mp_Port = port, mp_Authenticated = False\<rparr>"

text \<open>
  \<open>view\<close> reads the settings of a service.  Queries print them and change nothing; a
  command changes at most the service it names, and a successful one changes it as the manual
  page of the tool says.
\<close>

definition listsServices :: "'os runner \<Rightarrow> ('os \<Rightarrow> string \<Rightarrow> macService) \<Rightarrow> string \<Rightarrow> bool" where
  "listsServices run view listing \<longleftrightarrow>
     (\<forall>os. view (snd (run [''-listallnetworkservices''] os)) = view os) \<and>
     (\<forall>os out os'. run [''-listallnetworkservices''] os = (Inr out, os') \<longrightarrow> out = listing)"

definition queriesProxies :: "'os runner \<Rightarrow> ('os \<Rightarrow> string \<Rightarrow> macService) \<Rightarrow> bool" where
  "queriesProxies run view \<longleftrightarrow>
     (\<forall>q s os. q \<in> {''-getwebproxy'', ''-getsecurewebproxy'', ''-getautoproxyurl''} \<longrightarrow>
        view (snd (run [q, s] os)) = view os) \<and>
     (\<forall>s os out os'. run [''-getwebproxy'', s] os = (Inr out, os') \<longrightarrow> out = proxyText (mv_Web (view os s))) \<and>
     (\<forall>s os out os'. run [''-getsecurewebproxy'', s] os = (Inr out, os') \<longrightarrow> out = proxyText (mv_Secure (view os s))) \<and>
     (\<forall>s os out os'. run [''-getautoproxyurl'', s] os = (Inr out, os') \<longrightarrow> out = autoText (mv_Auto (view os s)))"

definition commandsLocal :: "'os runner \<Rightarrow> ('os \<Rightarrow> string \<Rightarrow> macService) \<Rightarrow> bool" where
  "commandsLocal run view \<longleftrightarrow>
     (\<forall>cmd s rest os s'. s' \<noteq> s \<longrightarrow> view (snd (run (cmd # s # rest) os)) s' = view os s')"

definition setsWeb :: "'os runner \<Rightarrow> ('os \<Rightarrow> string \<Rightarrow> macService) \<Rightarrow> string \<Rightarrow> string \<Rightarrow>
    (macService \<Rightarrow> MacOSProxyState) \<Rightarrow> (macService \<Rightarrow> MacOSProxyState \<Rightarrow> macService) \<Rightarrow> bool" where
  "setsWeb run view setCmd stateCmd sel upd \<longleftrightarrow>
     (\<forall>s h p os out os'. run [setCmd, s, h, p] os = (Inr out, os') \<longrightarrow>
        view os' s = upd (view os s) (proxySet h p)) \<and>
     (\<forall>s b os out os'. run [stateCmd, s, onOff b] os = (Inr out, os') \<longrightarrow>
        view os' s = upd (view os s) ((sel (view os s))\<lparr>mp_Enabled := b\<rparr>))"

definition setsAuto :: "'os runner \<Rightarrow> ('os \<Rightarrow> string \<Rightarrow> macService) \<Rightarrow> bool" where
  "setsAuto run view \<longleftrightarrow>
     (\<forall>s u os out os'. run [''-setautoproxyurl'', s, u] os = (Inr out, os') \<longrightarrow>
        view os' s = (view os s)\<lparr>mv_Auto := \<lparr>mu_Enabled = True, mu_URL = u\<rparr>\<rparr>) \<and>
     (\<forall>s b os out os'. run [''-setautoproxystate'', s, onOff b] os = (Inr out, os') \<longrightarrow>
        view os' s = (view os s)\<lparr>mv_Auto := (mv_Auto (view os s))\<lparr>mu_Enabled := b\<rparr>\<rparr>)"

definition networksetup :: "'os runner \<Rightarrow> ('os \<Rightarrow> string \<Rightarrow> macService) \<Rightarrow> string \<Rightarrow> bool" where
  "networksetup run view listing \<longleftrightarrow>
     (\<forall>os s. wellFormedService (view os s)) \<and> listsServices run view listing \<and> queriesProxies run view \<and>
     commandsLocal run view \<and> setsAuto run view \<and>
     setsWeb run view ''-setwebproxy'' ''-setwebproxystate'' mv_Web (\<lambda>v p. v\<lparr>mv_Web := p\<rparr>) \<and>
     setsWeb run view ''-setsecurewebproxy'' ''-setsecurewebproxystate'' mv_Secure (\<lambda>v p. v\<lparr>mv_Secure := p\<rparr>)"

subsection \<open>Parsing what the tool prints\<close>

lemma TrimSpace_space: "trimmed v \<Longrightarrow> TrimSpace (CHR '' '' # v) = v"
proof -
  assume v: "trimmed v"
  have "dropRune spaceRunes (CHR '' '' # v) = Some v" by (simp add: spaceRunes_def)
  then have "trimRunes spaceRunes (CHR '' '' # v) = trimRunes spaceRunes v"
    by (subst trimRunes.simps) simp
  then have "TrimSpace (CHR '' '' # v) = TrimSpace v" by (simp add: TrimSpace_def)
  with v show ?thesis by simp
qed

lemma Index_byte: "CHR '':'' \<notin> set key \<Longrightarrow> Index (key @ CHR '':'' # value) '':'' = Some (length key)"
  by (induction key) (auto simp: prefix_def)

lemma parse_field:
  assumes "CHR '':'' \<notin> set key" and "trimmed v"
  shows "parseLines E ((key @ '': '' @ v) # lines) values =
    parseLines E lines (AList.update (ToLower E (TrimSpace key)) v values)"
  using Index_byte [OF assms(1), of "CHR '' '' # v"] TrimSpace_space [OF assms(2)]
  by (simp add: cutColon_def IndexByte_def)

lemma parse_last: "parseLines E [[]] values = values"
  by (simp add: cutColon_def IndexByte_def)

lemma field_names:
  "ToLower E (TrimSpace ''Enabled'') = ''enabled''" "ToLower E (TrimSpace ''Server'') = ''server''"
  "ToLower E (TrimSpace ''Port'') = ''port''" "ToLower E (TrimSpace ''URL'') = ''url''"
  "ToLower E (TrimSpace ''Authenticated Proxy Enabled'') = ''authenticated proxy enabled''"
  by (simp_all add: trimmed_plain plain_def ToLower_ascii isAscii_def lowerAscii_code)

lemma yes_no:
  "trimmed ''Yes'' \<and> trimmed ''No'' \<and> trimmed ''0'' \<and> trimmed ''1''"
  "parseBool E ''Yes''" "\<not> parseBool E ''No''" "parseBool E ''1''" "\<not> parseBool E ''0''"
  by (simp_all add: trimmed_plain plain_def parseBool_def ToLower_ascii isAscii_def lowerAscii_code)

lemma parse_proxyText:
  assumes "clean (mp_Server p)" and "clean (mp_Port p)"
  shows "parseNetworkSetupOutput E (proxyText p) =
    [(''enabled'', if mp_Enabled p then ''Yes'' else ''No''), (''server'', mp_Server p), (''port'', mp_Port p),
     (''authenticated proxy enabled'', if mp_Authenticated p then ''1'' else ''0'')]"
proof -
  let ?e = "if mp_Enabled p then ''Yes'' else ''No''" and ?a = "if mp_Authenticated p then ''1'' else ''0''"
  have "splitByte LF (proxyText p) = [''Enabled'' @ '': '' @ ?e, ''Server'' @ '': '' @ mp_Server p,
      ''Port'' @ '': '' @ mp_Port p, ''Authenticated Proxy Enabled'' @ '': '' @ ?a, []]"
    unfolding proxyText_def using assms by (subst splitByte_Join) (auto simp: clean_def LF_def split: if_splits)
  moreover have "trimmed ?e" "trimmed ?a" using yes_no(1) by simp_all
  ultimately show ?thesis
    using assms
    by (simp add: parseNetworkSetupOutput_def parse_field parse_last field_names clean_def
        del: parseLines.simps append.simps)
qed

lemma parse_autoText:
  assumes "clean (mu_URL a)"
  shows "parseNetworkSetupOutput E (autoText a) =
    [(''url'', mu_URL a), (''enabled'', if mu_Enabled a then ''Yes'' else ''No'')]"
proof -
  let ?e = "if mu_Enabled a then ''Yes'' else ''No''"
  have "splitByte LF (autoText a) = [''URL'' @ '': '' @ mu_URL a, ''Enabled'' @ '': '' @ ?e, []]"
    unfolding autoText_def using assms by (subst splitByte_Join) (auto simp: clean_def LF_def split: if_splits)
  moreover have "trimmed ?e" using yes_no(1) by simp
  ultimately show ?thesis
    using assms
    by (simp add: parseNetworkSetupOutput_def parse_field parse_last field_names clean_def
        del: parseLines.simps append.simps)
qed

subsection \<open>macOS is reversible\<close>

text \<open>The settings that take effect: those of enabled proxies.\<close>

definition effectiveProxy :: "MacOSProxyState \<Rightarrow> (string \<times> string \<times> bool) option" where
  "effectiveProxy p = (if mp_Enabled p then Some (mp_Server p, mp_Port p, mp_Authenticated p) else None)"

definition effectiveAuto :: "MacOSAutoState \<Rightarrow> string option" where
  "effectiveAuto a = (if mu_Enabled a then Some (mu_URL a) else None)"

definition effective :: "macService \<Rightarrow> (string \<times> string \<times> bool) option \<times> (string \<times> string \<times> bool) option \<times> string option" where
  "effective v = (effectiveProxy (mv_Web v), effectiveProxy (mv_Secure v), effectiveAuto (mv_Auto v))"

definition macView :: "('os \<Rightarrow> string \<Rightarrow> macService) \<Rightarrow> proxyConfig \<Rightarrow> 'os \<Rightarrow>
    string \<Rightarrow> (string \<times> string \<times> bool) option \<times> (string \<times> string \<times> bool) option \<times> string option" where
  "macView view cfg os service = effective (view os service)"

text \<open>Procedures that leave the settings alone, or all services outside a set.\<close>

definition sameView :: "('os \<Rightarrow> string \<Rightarrow> macService) \<Rightarrow> 'os \<Rightarrow> 'os \<Rightarrow> bool" where
  "sameView view os os' \<longleftrightarrow> view os' = view os"

definition onlyServices :: "('os \<Rightarrow> string \<Rightarrow> macService) \<Rightarrow> string set \<Rightarrow> 'os \<Rightarrow> 'os \<Rightarrow> bool" where
  "onlyServices view S os os' \<longleftrightarrow> (\<forall>s. s \<notin> S \<longrightarrow> view os' s = view os s)"

lemma view_relations [simp]:
  "reflp (sameView view)" "transp (sameView view)" "reflp (onlyServices view S)" "transp (onlyServices view S)"
  by (auto simp: sameView_def onlyServices_def reflp_def transp_def)

lemma keeps_services: "networksetup run view listing \<Longrightarrow> keeps (sameView view) (services run configured)"
  unfolding services_def Let_def
  by (auto intro!: keeps_intros) (simp add: keeps_def sameView_def networksetup_def listsServices_def)

lemma services_agree:
  assumes "networksetup run view listing" and "services run configured os = (Inr names, os1)"
    and "services run configured os2 = (Inr names', os3)"
  shows "names' = names"
proof (cases "configured = []")
  case True
  have "\<forall>os out os'. run [''-listallnetworkservices''] os = (Inr out, os') \<longrightarrow> out = listing"
    using assms(1) unfolding networksetup_def listsServices_def by blast
  with assms(2,3) True show ?thesis
    by (clarsimp simp: services_def proc_simps Let_def split: if_splits) blast
next
  case False
  with assms(2,3) show ?thesis by (auto simp: services_def proc_simps Let_def split: if_splits)
qed

lemma keeps_runAll:
  assumes "networksetup run view listing" and "\<And>args. args \<in> set cmds \<Longrightarrow> \<exists>cmd rest. args = cmd # s # rest" and "s \<in> S"
  shows "keeps (onlyServices view S) (runAll run cmds)"
proof -
  have "view (snd (run (cmd # s # rest) os)) s' = view os s'" if "s' \<notin> S" for cmd rest os s'
  proof -
    have "commandsLocal run view" using assms(1) by (simp add: networksetup_def)
    moreover have "s' \<noteq> s" using assms(3) that by blast
    ultimately show ?thesis unfolding commandsLocal_def by iprover
  qed
  then have "keeps (onlyServices view S) (run (cmd # s # rest))" for cmd rest
    by (simp add: keeps_def onlyServices_def)
  with assms(2) show ?thesis
    unfolding runAll_def by (intro keeps_pfor keeps_pthen keeps_pure) auto
qed

lemma keeps_macApply:
  assumes "networksetup run view listing" and "services run (yc_Services cfg) os = (Inr names, os1)"
    and "applyMode (macOSPlatform E run) cfg os2 = (r, os3)"
  shows "onlyServices view (set names) os2 os3"
proof -
  have loop: "keeps (onlyServices view (set names)) (pfor (\<lambda>s. runAll run (cmds s)) names)"
    if "\<And>s args. args \<in> set (cmds s) \<Longrightarrow> \<exists>cmd rest. args = cmd # s # rest" for cmds
    using that by (intro keeps_pfor keeps_runAll [OF assms(1)]) auto
  have same: "onlyServices view (set names) a b" if "sameView view a b" for a b
    using that by (simp add: sameView_def onlyServices_def)
  have step: "onlyServices view (set names) os2 os3"
    if "pbind (services run (yc_Services cfg)) f os2 = (r, os3)"
      and "keeps (onlyServices view (set names)) (f names)" for f
  proof (cases "services run (yc_Services cfg) os2")
    case (Pair rs os')
    have k: "sameView view os2 os'" using keepsD [OF keeps_services [OF assms(1)] Pair] .
    show ?thesis
    proof (cases rs)
      case (Inl e)
      with Pair that(1) k same show ?thesis by (simp add: pbind_def)
    next
      case (Inr names')
      then have "names' = names" using services_agree [OF assms(1,2)] Pair by blast
      with Inr Pair that have "onlyServices view (set names) os' os3"
        by (auto simp: pbind_def dest: keepsD)
      with same [OF k] show ?thesis by (simp add: onlyServices_def)
    qed
  qed
  consider (pac) "yc_Mode cfg = ModePAC" | (system) "yc_Mode cfg = ModeSystem" "yc_Mode cfg \<noteq> ModePAC"
    | (other) "applyMode (macOSPlatform E run) cfg = praise (UnsupportedProxyMode (yc_Mode cfg))"
    by (cases "yc_Mode cfg = ModePAC"; cases "yc_Mode cfg = ModeSystem") (auto simp: applyMode_def)
  then show ?thesis
  proof cases
    case pac
    with assms(3) show ?thesis
      by (auto simp: applyMode_def macOSPlatform_def macApplyPAC_def intro!: step loop)
  next
    case system
    with assms(3) show ?thesis
      by (auto simp: applyMode_def macOSPlatform_def macApplySystem_def Let_def
          intro!: step loop keeps_pure split: option.splits prod.splits)
  next
    case other
    with assms(3) show ?thesis by (simp add: praise_def onlyServices_def)
  qed
qed

text \<open>A snapshot shows the settings of the selected services and changes nothing.\<close>

lemma getProxy_Inr:
  assumes "networksetup run view listing" and "(q, sel) \<in> {(''-getwebproxy'', mv_Web), (''-getsecurewebproxy'', mv_Secure)}"
    and "getProxy E run q s os = (Inr p, os')"
  shows "p = sel (view os s) \<and> view os' = view os"
proof -
  obtain out where out: "run [q, s] os = (Inr out, os')"
    and p: "p = \<lparr>mp_Enabled = parseBool E (valueOf (parseNetworkSetupOutput E out) ''enabled''),
      mp_Server = valueOf (parseNetworkSetupOutput E out) ''server'', mp_Port = valueOf (parseNetworkSetupOutput E out) ''port'',
      mp_Authenticated = parseBool E (valueOf (parseNetworkSetupOutput E out) ''authenticated proxy enabled'')\<rparr>"
    using assms(3) by (auto simp: getProxy_def proc_simps Let_def)
  have q: "queriesProxies run view" and wf: "wellFormedService (view os s)"
    using assms(1) by (simp_all add: networksetup_def)
  have "out = proxyText (sel (view os s))"
    using q out assms(2) unfolding queriesProxies_def by auto
  moreover have "view (snd (run [q, s] os)) = view os"
    using q assms(2) unfolding queriesProxies_def by auto
  moreover have "clean (mp_Server (sel (view os s)))" "clean (mp_Port (sel (view os s)))"
    using wf assms(2) by (auto simp: wellFormedService_def)
  ultimately show ?thesis
    using out p by (simp add: parse_proxyText valueOf_def yes_no)
qed

lemma getAuto_Inr:
  assumes "networksetup run view listing" and "getAuto E run s os = (Inr a, os')"
  shows "a = mv_Auto (view os s) \<and> view os' = view os"
proof -
  obtain out where out: "run [''-getautoproxyurl'', s] os = (Inr out, os')"
    and a: "a = \<lparr>mu_Enabled = parseBool E (valueOf (parseNetworkSetupOutput E out) ''enabled''),
      mu_URL = valueOf (parseNetworkSetupOutput E out) ''url''\<rparr>"
    using assms(2) by (auto simp: getAuto_def proc_simps Let_def)
  have q: "queriesProxies run view" and wf: "wellFormedService (view os s)"
    using assms(1) by (simp_all add: networksetup_def)
  have "out = autoText (mv_Auto (view os s))" using q out unfolding queriesProxies_def by auto
  moreover have "view (snd (run [''-getautoproxyurl'', s] os)) = view os" using q unfolding queriesProxies_def by auto
  moreover have "clean (mu_URL (mv_Auto (view os s)))" using wf by (simp add: wellFormedService_def)
  ultimately show ?thesis using out a by (simp add: parse_autoText valueOf_def yes_no)
qed

definition serviceState :: "(string \<Rightarrow> macService) \<Rightarrow> string \<Rightarrow> MacOSServiceState" where
  "serviceState v s = \<lparr>ms_Name = s, ms_Web = mv_Web (v s), ms_Secure = mv_Secure (v s), ms_Auto = mv_Auto (v s)\<rparr>"

lemma snapshotService_Inr:
  assumes "networksetup run view listing" and "snapshotService E run s os = (Inr st, os')"
  shows "st = serviceState (view os) s \<and> view os' = view os \<and>
    \<not> mp_Authenticated (mv_Web (view os s)) \<and> \<not> mp_Authenticated (mv_Secure (view os s))"
proof -
  obtain web os1 secure os2 auto where steps: "getProxy E run ''-getwebproxy'' s os = (Inr web, os1)"
    "getProxy E run ''-getsecurewebproxy'' s os1 = (Inr secure, os2)" "getAuto E run s os2 = (Inr auto, os')"
    and st: "st = \<lparr>ms_Name = s, ms_Web = web, ms_Secure = secure, ms_Auto = auto\<rparr>"
    and noauth: "\<not> (mp_Authenticated web \<or> mp_Authenticated secure)"
    using assms(2) by (auto simp: snapshotService_def proc_simps)
  from getProxy_Inr [OF assms(1) _ steps(1)] getProxy_Inr [OF assms(1) _ steps(2)] getAuto_Inr [OF assms(1) steps(3)]
    st noauth show ?thesis by (simp add: serviceState_def)
qed

lemma snapshotServices_Inr:
  assumes "networksetup run view listing" and "pmap (snapshotService E run) names os = (Inr sts, os')"
  shows "sts = map (serviceState (view os)) names \<and> view os' = view os \<and>
    (\<forall>s\<in>set names. \<not> mp_Authenticated (mv_Web (view os s)) \<and> \<not> mp_Authenticated (mv_Secure (view os s)))"
  using assms(2)
proof (induction names arbitrary: os sts)
  case Nil
  then show ?case by (simp add: proc_simps)
next
  case (Cons s names)
  then obtain st os1 sts' where "snapshotService E run s os = (Inr st, os1)"
    "pmap (snapshotService E run) names os1 = (Inr sts', os')" "sts = st # sts'"
    by (auto simp: proc_simps)
  with snapshotService_Inr [OF assms(1)] Cons.IH show ?case by fastforce
qed

subsection \<open>Restoring\<close>

lemma runAll_one [proc_simps]: "runAll run [args] os = (Inr u, os') \<longleftrightarrow> (\<exists>out. run args os = (Inr out, os'))"
  by (simp add: runAll_def proc_simps)

lemma restoreWeb_Inr:
  assumes "setsWeb run view setCmd stateCmd sel upd" and lens: "\<And>v p. sel (upd v p) = p" "\<And>v p q. upd (upd v p) q = upd v q"
      "\<And>v. upd v (sel v) = v"
    and "restoreWeb run setCmd stateCmd s p os = (Inr u, os')"
    and "mp_Enabled p \<longrightarrow> mp_Server p \<noteq> [] \<and> mp_Port p \<noteq> []" and "\<not> mp_Authenticated p"
  shows "\<exists>p'. view os' s = upd (view os s) p' \<and> effectiveProxy p' = effectiveProxy p"
proof -
  obtain os1 out where mid: "if mp_Server p \<noteq> [] \<and> mp_Port p \<noteq> []
      then \<exists>out. run [setCmd, s, mp_Server p, mp_Port p] os = (Inr out, os1) else os1 = os"
    and last: "run [stateCmd, s, onOff (mp_Enabled p)] os1 = (Inr out, os')"
    using assms(5) unfolding restoreWeb_def proc_simps by blast
  define p1 where "p1 = (if mp_Server p \<noteq> [] \<and> mp_Port p \<noteq> [] then proxySet (mp_Server p) (mp_Port p)
      else sel (view os s))"
  have "view os1 s = upd (view os s) p1"
  proof (cases "mp_Server p \<noteq> [] \<and> mp_Port p \<noteq> []")
    case True
    with mid assms(1) show ?thesis unfolding setsWeb_def p1_def by fastforce
  next
    case False
    with mid lens(3) show ?thesis by (auto simp: p1_def)
  qed
  moreover have "view os' s = upd (view os1 s) ((sel (view os1 s))\<lparr>mp_Enabled := mp_Enabled p\<rparr>)"
    using last assms(1) unfolding setsWeb_def by blast
  ultimately have "view os' s = upd (view os s) (p1\<lparr>mp_Enabled := mp_Enabled p\<rparr>)" by (simp add: lens)
  moreover have "effectiveProxy (p1\<lparr>mp_Enabled := mp_Enabled p\<rparr>) = effectiveProxy p"
    using assms(6,7) by (auto simp: p1_def effectiveProxy_def proxySet_def)
  ultimately show ?thesis by blast
qed

lemma restoreAuto_Inr:
  assumes "networksetup run view listing" and "restoreAuto run s a os = (Inr u, os')"
    and "mu_Enabled a \<longrightarrow> mu_URL a \<noteq> []"
  shows "\<exists>a'. view os' s = (view os s)\<lparr>mv_Auto := a'\<rparr> \<and> effectiveAuto a' = effectiveAuto a"
proof -
  have sets: "setsAuto run view" using assms(1) by (simp add: networksetup_def)
  obtain os1 out where mid: "if mu_URL a \<noteq> [] then \<exists>out. run [''-setautoproxyurl'', s, mu_URL a] os = (Inr out, os1)
      else os1 = os"
    and last: "run [''-setautoproxystate'', s, onOff (mu_Enabled a)] os1 = (Inr out, os')"
    using assms(2) unfolding restoreAuto_def proc_simps by blast
  have "view os1 s = (view os s)\<lparr>mv_Auto := if mu_URL a \<noteq> [] then \<lparr>mu_Enabled = True, mu_URL = mu_URL a\<rparr> else mv_Auto (view os s)\<rparr>"
    using mid sets unfolding setsAuto_def by (auto split: if_splits)
  moreover have "view os' s = (view os1 s)\<lparr>mv_Auto := (mv_Auto (view os1 s))\<lparr>mu_Enabled := mu_Enabled a\<rparr>\<rparr>"
    using last sets unfolding setsAuto_def by auto
  ultimately have "view os' s = (view os s)\<lparr>mv_Auto :=
      (if mu_URL a \<noteq> [] then \<lparr>mu_Enabled = mu_Enabled a, mu_URL = mu_URL a\<rparr>
       else (mv_Auto (view os s))\<lparr>mu_Enabled := mu_Enabled a\<rparr>)\<rparr>" by simp
  with assms(3) show ?thesis by (intro exI conjI) (assumption, auto simp: effectiveAuto_def)
qed

lemma keeps_restoreService:
  assumes "networksetup run view listing"
  shows "keeps (onlyServices view {ms_Name st}) (restoreService run st)"
  unfolding restoreService_def restoreWeb_def restoreAuto_def
  by (intro keeps_pthen keeps_pwhen keeps_runAll [OF assms]) auto

lemma restoreService_Inr:
  assumes "networksetup run view listing" and "restoreService run (serviceState v s) os = (Inr u, os')"
    and "wellFormedService (v s)" and "\<not> mp_Authenticated (mv_Web (v s))" and "\<not> mp_Authenticated (mv_Secure (v s))"
  shows "effective (view os' s) = effective (v s)"
proof -
  obtain os1 os2 u1 u2 where steps:
    "restoreWeb run ''-setwebproxy'' ''-setwebproxystate'' s (mv_Web (v s)) os = (Inr u1, os1)"
    "restoreWeb run ''-setsecurewebproxy'' ''-setsecurewebproxystate'' s (mv_Secure (v s)) os1 = (Inr u2, os2)"
    "restoreAuto run s (mv_Auto (v s)) os2 = (Inr u, os')"
    using assms(2) by (auto simp: restoreService_def serviceState_def proc_simps)
  have wf: "mp_Enabled (mv_Web (v s)) \<longrightarrow> mp_Server (mv_Web (v s)) \<noteq> [] \<and> mp_Port (mv_Web (v s)) \<noteq> []"
    "mp_Enabled (mv_Secure (v s)) \<longrightarrow> mp_Server (mv_Secure (v s)) \<noteq> [] \<and> mp_Port (mv_Secure (v s)) \<noteq> []"
    "mu_Enabled (mv_Auto (v s)) \<longrightarrow> mu_URL (mv_Auto (v s)) \<noteq> []"
    using assms(3) by (auto simp: wellFormedService_def)
  have web: "setsWeb run view ''-setwebproxy'' ''-setwebproxystate'' mv_Web (\<lambda>v p. v\<lparr>mv_Web := p\<rparr>)"
    and secure: "setsWeb run view ''-setsecurewebproxy'' ''-setsecurewebproxystate'' mv_Secure (\<lambda>v p. v\<lparr>mv_Secure := p\<rparr>)"
    using assms(1) by (simp_all add: networksetup_def)
  obtain p1 where p1: "view os1 s = (view os s)\<lparr>mv_Web := p1\<rparr>" "effectiveProxy p1 = effectiveProxy (mv_Web (v s))"
    using restoreWeb_Inr [OF web _ _ _ steps(1) wf(1) assms(4)] by auto
  obtain p2 where p2: "view os2 s = (view os1 s)\<lparr>mv_Secure := p2\<rparr>" "effectiveProxy p2 = effectiveProxy (mv_Secure (v s))"
    using restoreWeb_Inr [OF secure _ _ _ steps(2) wf(2) assms(5)] by auto
  from restoreAuto_Inr [OF assms(1) steps(3) wf(3)] p1 p2 show ?thesis by (auto simp: effective_def)
qed

lemma restoreServices_Inr:
  assumes "networksetup run view listing" and "pfor (restoreService run) (map (serviceState v) names) os = (Inr u, os')"
    and "\<And>s. s \<in> set names \<Longrightarrow>
      wellFormedService (v s) \<and> \<not> mp_Authenticated (mv_Web (v s)) \<and> \<not> mp_Authenticated (mv_Secure (v s))"
  shows "(\<forall>s\<in>set names. effective (view os' s) = effective (v s)) \<and> onlyServices view (set names) os os'"
  using assms(2,3)
proof (induction names arbitrary: os)
  case Nil
  then show ?case by (simp add: proc_simps onlyServices_def)
next
  case (Cons s names)
  then obtain u1 os1 where head: "restoreService run (serviceState v s) os = (Inr u1, os1)"
    and tail: "pfor (restoreService run) (map (serviceState v) names) os1 = (Inr u, os')"
    by (auto simp: proc_simps)
  have "effective (view os1 s) = effective (v s)"
    using restoreService_Inr [OF assms(1) head] Cons.prems(2) [of s] by simp
  moreover have "onlyServices view {s} os os1"
    using keepsD [OF keeps_restoreService [OF assms(1)] head] by (simp add: serviceState_def)
  moreover have "(\<forall>s\<in>set names. effective (view os' s) = effective (v s)) \<and> onlyServices view (set names) os1 os'"
    using Cons.IH [OF tail] Cons.prems(2) by simp
  ultimately show ?case by (auto simp: onlyServices_def)
qed

lemma macOS_reversible:
  assumes "networksetup run view listing"
  shows "reversible_platform (macOSPlatform E run) (macView view)"
proof
  fix cfg os rs os1
  assume "pf_Snapshot (macOSPlatform E run) cfg os = (rs, os1)"
  moreover have "keeps (sameView view) (snapshotService E run s)" for s
  proof -
    have "keeps (sameView view) (run [q, s])" if "q \<in> {''-getwebproxy'', ''-getsecurewebproxy'', ''-getautoproxyurl''}" for q
      using assms that by (auto simp: keeps_def sameView_def networksetup_def queriesProxies_def)
    then show ?thesis
      unfolding snapshotService_def getProxy_def getAuto_def Let_def
      by (intro keeps_pthen keeps_pbind keeps_pure) auto
  qed
  then have "keeps (sameView view) (macSnapshot E run cfg)"
    unfolding macSnapshot_def by (intro keeps_pbind keeps_pmap keeps_pure keeps_services [OF assms]) auto
  ultimately show "macView view cfg os1 = macView view cfg os"
    using keepsD by (fastforce simp: macOSPlatform_def sameView_def macView_def)
next
  fix cfg os st os1 r os2 os3
  assume snap: "pf_Snapshot (macOSPlatform E run) cfg os = (Inr st, os1)"
    and change: "applyMode (macOSPlatform E run) cfg os1 = (r, os2)"
    and restore: "pf_Restore (macOSPlatform E run) (completeState (macOSPlatform E run) cfg st) os2 = (Inr (), os3)"
  obtain names sts os0 where names: "services run (yc_Services cfg) os = (Inr names, os0)"
    and sts: "pmap (snapshotService E run) names os0 = (Inr sts, os1)"
    and st: "st = emptyState\<lparr>st_MacOS := Some \<lparr>mo_Services = sts\<rparr>\<rparr>"
    using snap by (auto simp: macOSPlatform_def macSnapshot_def proc_simps)
  have v0: "view os0 = view os" using keepsD [OF keeps_services [OF assms] names] by (simp add: sameView_def)
  note s = snapshotServices_Inr [OF assms sts, unfolded v0]
  have "pfor (restoreService run) (map (serviceState (view os)) names) os2 = (Inr (), os3)"
    using restore st s by (simp add: completeState_def macOSPlatform_def macRestore_def)
  moreover have "wellFormedService (view os n)" for n using assms by (simp add: networksetup_def)
  ultimately have "(\<forall>n\<in>set names. effective (view os3 n) = effective (view os n)) \<and> onlyServices view (set names) os2 os3"
    using restoreServices_Inr [OF assms] s by blast
  moreover have "onlyServices view (set names) os1 os2" using keeps_macApply [OF assms names change] .
  ultimately show "macView view cfg os3 = macView view cfg os"
    using s by (auto simp: macView_def onlyServices_def fun_eq_iff)
qed

subsection \<open>Properties\<close>


text \<open>A tool that behaves so: it refuses commands that would enable a proxy without an address.\<close>

definition offService :: macService where
  "offService =
     (let off = \<lparr>mp_Enabled = False, mp_Server = [], mp_Port = [], mp_Authenticated = False\<rparr> in
      \<lparr>mv_Web = off, mv_Secure = off, mv_Auto = \<lparr>mu_Enabled = False, mu_URL = []\<rparr>\<rparr>)"

type_synonym macSettings = "string \<Rightarrow> macService"

definition settingsView :: "macSettings \<Rightarrow> string \<Rightarrow> macService" where
  "settingsView os s = (if wellFormedService (os s) then os s else offService)"

definition queryText :: "string \<Rightarrow> macService \<Rightarrow> string option" where
  "queryText c v =
     (if c = ''-getwebproxy'' then Some (proxyText (mv_Web v))
      else if c = ''-getsecurewebproxy'' then Some (proxyText (mv_Secure v))
      else if c = ''-getautoproxyurl'' then Some (autoText (mv_Auto v)) else None)"

definition commanded :: "string \<Rightarrow> string list \<Rightarrow> macService \<Rightarrow> macService option" where
  "commanded c rest v =
     (case rest of
        [a] \<Rightarrow>
          if c = ''-setwebproxystate'' then Some (v\<lparr>mv_Web := (mv_Web v)\<lparr>mp_Enabled := (a = ''on'')\<rparr>\<rparr>)
          else if c = ''-setsecurewebproxystate'' then Some (v\<lparr>mv_Secure := (mv_Secure v)\<lparr>mp_Enabled := (a = ''on'')\<rparr>\<rparr>)
          else if c = ''-setautoproxystate'' then Some (v\<lparr>mv_Auto := (mv_Auto v)\<lparr>mu_Enabled := (a = ''on'')\<rparr>\<rparr>)
          else if c = ''-setautoproxyurl'' then Some (v\<lparr>mv_Auto := \<lparr>mu_Enabled = True, mu_URL = a\<rparr>\<rparr>)
          else None
      | [h, p] \<Rightarrow>
          if c = ''-setwebproxy'' then Some (v\<lparr>mv_Web := proxySet h p\<rparr>)
          else if c = ''-setsecurewebproxy'' then Some (v\<lparr>mv_Secure := proxySet h p\<rparr>)
          else None
      | _ \<Rightarrow> None)"

definition sampleRun :: "macSettings runner" where
  "sampleRun args os =
     (case args of
        [] \<Rightarrow> (Inl (PlatformFailed ''usage''), os)
      | [c] \<Rightarrow> (if c = ''-listallnetworkservices'' then Inr ''Wi-Fi'' else Inl (PlatformFailed ''usage''), os)
      | c # s # rest \<Rightarrow>
          if rest = [] then (case queryText c (settingsView os s) of
              None \<Rightarrow> (Inl (PlatformFailed ''usage''), os) | Some out \<Rightarrow> (Inr out, os))
          else (case commanded c rest (settingsView os s) of
              None \<Rightarrow> (Inl (PlatformFailed ''usage''), os)
            | Some v \<Rightarrow> if wellFormedService v then (Inr [], os(s := v)) else (Inl (PlatformFailed ''refused''), os)))"

lemma wellFormed_offService: "wellFormedService offService"
  by (simp add: wellFormedService_def offService_def clean_def Let_def)

lemma settingsView_upd: "wellFormedService v \<Longrightarrow> settingsView (os(s := v)) s = v"
  by (simp add: settingsView_def)

lemma sampleRun_command:
  assumes "sampleRun (c # s # rest) os = (Inr out, os')" and "rest \<noteq> []"
  shows "commanded c rest (settingsView os s) = Some (settingsView os' s)"
  using assms by (auto simp: sampleRun_def settingsView_upd split: option.splits if_splits list.splits)

lemma onOff_on [simp]: "(onOff b = ''on'') = b"
  by (simp add: onOff_def)

lemma sampleRun_networksetup: "networksetup sampleRun settingsView ''Wi-Fi''"
proof -
  have "listsServices sampleRun settingsView ''Wi-Fi''"
    by (simp add: listsServices_def sampleRun_def)
  moreover have "queriesProxies sampleRun settingsView"
    by (auto simp: queriesProxies_def sampleRun_def queryText_def)
  moreover have "commandsLocal sampleRun settingsView"
    by (auto simp: commandsLocal_def sampleRun_def settingsView_def split: option.splits)
  moreover have "setsAuto sampleRun settingsView"
    unfolding setsAuto_def by (auto dest!: sampleRun_command simp: commanded_def)
  moreover have "setsWeb sampleRun settingsView ''-setwebproxy'' ''-setwebproxystate'' mv_Web (\<lambda>v p. v\<lparr>mv_Web := p\<rparr>)"
    unfolding setsWeb_def by (auto dest!: sampleRun_command simp: commanded_def)
  moreover have "setsWeb sampleRun settingsView ''-setsecurewebproxy'' ''-setsecurewebproxystate'' mv_Secure
      (\<lambda>v p. v\<lparr>mv_Secure := p\<rparr>)"
    unfolding setsWeb_def by (auto dest!: sampleRun_command simp: commanded_def)
  moreover have "wellFormedService (settingsView os s)" for os s
    by (simp add: settingsView_def wellFormed_offService)
  ultimately show ?thesis by (simp add: networksetup_def)
qed

definition sampleMacWorld :: "macSettings world" where
  "sampleMacWorld =
     \<lparr>wo_os = (\<lambda>_. offService\<lparr>mv_Web := proxySet ''10.0.0.1'' ''3128''\<rparr>), wo_files = (\<lambda>_. None),
      wo_writable = (\<lambda>_. True), wo_removable = (\<lambda>_. True)\<rparr>"

definition sampleProxyConfig :: proxyConfig where
  "sampleProxyConfig = \<lparr>yc_Mode = ModeSystem, yc_ProxyAddr = ''127.0.0.1:8080'', yc_PACURL = [],
     yc_RollbackPath = ''r'', yc_Services = []\<rparr>"

lemma clean_samples: "clean []" "clean ''10.0.0.1''" "clean ''3128''" "clean ''127.0.0.1''" "clean ''8080''"
  by (simp_all add: clean_def trimmed_plain plain_def LF_def)

lemma sample_getProxy:
  assumes "(q, sel) \<in> {(''-getwebproxy'', mv_Web), (''-getsecurewebproxy'', mv_Secure)}"
  shows "getProxy E sampleRun q s os = (Inr (sel (settingsView os s)), os)"
proof -
  have "sampleRun [q, s] os = (Inr (proxyText (sel (settingsView os s))), os)"
    using assms by (auto simp: sampleRun_def queryText_def)
  moreover have "wellFormedService (settingsView os s)" by (simp add: settingsView_def wellFormed_offService)
  then have "clean (mp_Server (sel (settingsView os s)))" "clean (mp_Port (sel (settingsView os s)))"
    using assms by (auto simp: wellFormedService_def)
  ultimately show ?thesis by (simp add: getProxy_def pbind_def preturn_def Let_def parse_proxyText valueOf_def yes_no)
qed

lemma sample_getAuto: "getAuto E sampleRun s os = (Inr (mv_Auto (settingsView os s)), os)"
proof -
  have "sampleRun [''-getautoproxyurl'', s] os = (Inr (autoText (mv_Auto (settingsView os s))), os)"
    by (simp add: sampleRun_def queryText_def)
  moreover have "wellFormedService (settingsView os s)" by (simp add: settingsView_def wellFormed_offService)
  then have "clean (mu_URL (mv_Auto (settingsView os s)))" by (simp add: wellFormedService_def)
  ultimately show ?thesis by (simp add: getAuto_def pbind_def preturn_def Let_def parse_autoText valueOf_def yes_no)
qed

lemma sample_command:
  "commanded c (a # rest) (settingsView os s) = Some v \<Longrightarrow> wellFormedService v \<Longrightarrow>
     sampleRun (c # s # a # rest) os = (Inr [], os(s := v))"
  by (simp add: sampleRun_def)

lemma sample_values: "SplitHostPort ''127.0.0.1:8080'' = Some (''127.0.0.1'', ''8080'')"
  "TrimCutset ''127.0.0.1'' ''[]'' = ''127.0.0.1''" "enabledServices ''Wi-Fi'' = [''Wi-Fi'']"
  "validateConfig sampleLib sampleProxyConfig = Inr ()" "TrimSpace ''r'' \<noteq> []"
  by code_simp+

lemmas sample_run = pbind_def pthen_def preturn_def pwhen_def runAll_def

lemma sample_services: "services sampleRun [] os = (Inr [''Wi-Fi''], os)"
  by (simp add: services_def sampleRun_def sample_values sample_run)

lemma sample_macSnapshot:
  assumes "\<not> mp_Authenticated (mv_Web (settingsView os ''Wi-Fi''))" "\<not> mp_Authenticated (mv_Secure (settingsView os ''Wi-Fi''))"
  shows "macSnapshot E sampleRun sampleProxyConfig os =
    (Inr (emptyState\<lparr>st_MacOS := Some \<lparr>mo_Services = [serviceState (settingsView os) ''Wi-Fi'']\<rparr>\<rparr>), os)"
  using assms
  by (simp add: macSnapshot_def sampleProxyConfig_def sample_services sample_run snapshotService_def pensure_def
      sample_getProxy sample_getAuto serviceState_def)

lemmas sampleService_simps = wellFormedService_def offService_def proxySet_def clean_samples Let_def

lemma sampleMacWorld_view:
  "settingsView (wo_os sampleMacWorld) ''Wi-Fi'' = offService\<lparr>mv_Web := proxySet ''10.0.0.1'' ''3128''\<rparr>"
  by (simp add: settingsView_def sampleMacWorld_def sampleService_simps)

lemma sample_macApply:
  assumes "settingsView os ''Wi-Fi'' = offService\<lparr>mv_Web := proxySet ''10.0.0.1'' ''3128''\<rparr>"
  shows "\<exists>os'. macApplySystem sampleRun sampleProxyConfig os = (Inr (), os')"
  using assms
  by (simp add: macApplySystem_def sampleProxyConfig_def sample_services sample_run sample_values
      sampleRun_def commanded_def settingsView_upd sampleService_simps)

lemma sample_macRestore:
  assumes "v ''Wi-Fi'' = offService\<lparr>mv_Web := proxySet ''10.0.0.1'' ''3128''\<rparr>"
  shows "\<exists>os'. pfor (restoreService sampleRun) [serviceState v ''Wi-Fi''] os = (Inr (), os')"
proof -
  have "wellFormedService (settingsView os ''Wi-Fi'')" by (simp add: settingsView_def wellFormed_offService)
  with assms show ?thesis
    by (simp add: restoreService_def restoreWeb_def restoreAuto_def serviceState_def sample_run onOff_def
        sampleRun_def commanded_def settingsView_upd sampleService_simps)
qed


end
