(* ===== verification/SystemDns.thy ===== *)
theory SystemDns
  imports Config Rollback
begin

section \<open>Package systemdns: pointing the system at the local DNS server\<close>

text \<open>
  \<^verbatim>\<open>internal/systemdns\<close>.  As for the system proxy, a platform is a record of
  procedures.  The Windows platform writes PowerShell scripts; \<open>RunPowerShell\<close> is a
  parameter, and the text of the scripts is modelled.  The decoder of
  \<^verbatim>\<open>encoding/json\<close> from text to values is a parameter.
\<close>

subsection \<open>Data\<close>

record dnsSysConfig =
  dz_RollbackPath :: string
  dz_Interfaces :: "string list"
  dz_ServerIPs :: "string list"

record Result =
  dr_Interfaces :: nat
  dr_ServerIPs :: "string list"
  dr_ViaHelper :: bool

record InterfaceState =
  is_Alias :: string
  is_Index :: int
  is_GUID :: string
  is_AddressFamily :: string
  is_Source :: string
  is_Servers :: "string list"
  is_StaticServers :: "string list"
  is_StaticNameServer :: string

record DnsState =
  ds_Kind :: string
  ds_Version :: int
  ds_OS :: string
  ds_Mode :: string
  ds_Interfaces :: "InterfaceState list"
  ds_ServerIPs :: "string list"

datatype sysdns_error =
    InvalidDNSListen string
  | NotIPv4Loopback
  | DnsRollbackPathRequired
  | InterfacesRequired
  | EmptyInterface
  | ServerIPsRequired
  | ServerNotLoopback string
  | DnsUnsupportedOS string
  | DnsWriteFailed
  | DnsParseFailed
  | DnsNoState
  | DnsRemoveFailed
  | WrongKind string
  | WrongMode string
  | DnsWrongPlatform string string
  | DnsPlatformFailed string
  | SnapshotParse
  | InterfaceNotFound string
  | NoInterfacesSelected
  | StateHasNoInterfaces

record 'os dnsPlatform =
  dp_Name :: string
  dp_Snapshot :: "dnsSysConfig \<Rightarrow> ('os, sysdns_error, DnsState) proc"
  dp_Apply :: "dnsSysConfig \<Rightarrow> DnsState \<Rightarrow> ('os, sysdns_error, unit) proc"
  dp_Restore :: "DnsState \<Rightarrow> ('os, sysdns_error, unit) proc"

abbreviation dnsStateKind :: string where "dnsStateKind \<equiv> ''system_dns''"

definition emptyDnsState :: DnsState where
  "emptyDnsState = \<lparr>ds_Kind = [], ds_Version = 0, ds_OS = [], ds_Mode = [], ds_Interfaces = [], ds_ServerIPs = []\<rparr>"

subsection \<open>Configuration\<close>

definition cleanStrings :: "golib \<Rightarrow> string list \<Rightarrow> string list" where
  "cleanStrings E values = dedup_by (ToLower E) [] (filter (\<lambda>v. v \<noteq> []) (map TrimSpace values))"

definition isIPv4Loopback :: "string \<Rightarrow> bool" where
  "isIPv4Loopback s = (case ParseIP s of None \<Rightarrow> False | Some x \<Rightarrow> IsLoopback x \<and> To4 x \<noteq> [])"

definition validateConfig :: "dnsSysConfig \<Rightarrow> (sysdns_error, unit) result" where
  "validateConfig cfg =
     rbind (ensure (TrimSpace (dz_RollbackPath cfg) \<noteq> []) DnsRollbackPathRequired) (\<lambda>_.
     rbind (ensure (dz_Interfaces cfg \<noteq> []) InterfacesRequired) (\<lambda>_.
     rbind (ensure (list_all (\<lambda>i. TrimSpace i \<noteq> []) (dz_Interfaces cfg)) EmptyInterface) (\<lambda>_.
     rbind (ensure (dz_ServerIPs cfg \<noteq> []) ServerIPsRequired) (\<lambda>_.
     case find (\<lambda>s. \<not> isIPv4Loopback s) (dz_ServerIPs cfg) of
       None \<Rightarrow> Inr ()
     | Some server \<Rightarrow> Inl (ServerNotLoopback server)))))"

definition normalizeConfig :: "golib \<Rightarrow> dnsSysConfig \<Rightarrow> dnsSysConfig" where
  "normalizeConfig E cfg =
     \<lparr>dz_RollbackPath = TrimSpace (dz_RollbackPath cfg), dz_Interfaces = cleanStrings E (dz_Interfaces cfg),
      dz_ServerIPs = cleanStrings E (dz_ServerIPs cfg)\<rparr>"

definition ConfigFromApp :: "golib \<Rightarrow> Config \<Rightarrow> (sysdns_error, dnsSysConfig) result" where
  "ConfigFromApp E cfg =
     (case SplitHostPort (dn_ListenAddr (c_DNS cfg)) of
        None \<Rightarrow> Inl (InvalidDNSListen (dn_ListenAddr (c_DNS cfg)))
      | Some (host, _) \<Rightarrow>
          (let host = (if EqualFold E (TrimSpace host) ''localhost'' then ''127.0.0.1'' else host) in
           case ParseIP host of
             None \<Rightarrow> Inl NotIPv4Loopback
           | Some x \<Rightarrow>
               if \<not> IsLoopback x \<or> To4 x = [] then Inl NotIPv4Loopback
               else (let out = \<lparr>dz_RollbackPath = rt_RollbackPath (c_Runtime cfg),
                                dz_Interfaces = cleanStrings E (dn_Interfaces (c_DNS cfg)),
                                dz_ServerIPs = [IPString x]\<rparr>
                     in map_result (\<lambda>_. out) (validateConfig out))))"

definition completeState :: "string \<Rightarrow> dnsSysConfig \<Rightarrow> DnsState \<Rightarrow> DnsState" where
  "completeState platformName cfg state =
     state\<lparr>ds_Kind := dnsStateKind, ds_Version := 1, ds_OS := platformName, ds_Mode := ModeDNS,
           ds_ServerIPs := dz_ServerIPs cfg\<rparr>"

definition resultFromState :: "DnsState \<Rightarrow> Result" where
  "resultFromState state =
     \<lparr>dr_Interfaces = length (ds_Interfaces state), dr_ServerIPs = ds_ServerIPs state, dr_ViaHelper = False\<rparr>"

subsection \<open>The rollback state as JSON\<close>

definition jstrs :: "string list \<Rightarrow> json" where
  "jstrs ss = JArr (map JStr ss)"

definition encodeInterface :: "InterfaceState \<Rightarrow> json" where
  "encodeInterface s = JObj (
     [(''interface_alias'', JStr (is_Alias s)), (''interface_index'', JNum (is_Index s))] @
     optField ''interface_guid'' (is_GUID s \<noteq> []) (JStr (is_GUID s)) @
     [(''address_family'', JStr (is_AddressFamily s)), (''source'', JStr (is_Source s))] @
     optField ''servers'' (is_Servers s \<noteq> []) (jstrs (is_Servers s)) @
     optField ''static_servers'' (is_StaticServers s \<noteq> []) (jstrs (is_StaticServers s)) @
     optField ''static_name_server'' (is_StaticNameServer s \<noteq> []) (JStr (is_StaticNameServer s)))"

definition decodeInterface :: "json \<Rightarrow> InterfaceState option" where
  "decodeInterface j =
     (case (isObj j, asStr (jfield ''interface_alias'' j), asInt (jfield ''interface_index'' j),
            asStr (jfield ''interface_guid'' j), asStr (jfield ''address_family'' j), asStr (jfield ''source'' j),
            asList asStr (jfield ''servers'' j), asList asStr (jfield ''static_servers'' j),
            asStr (jfield ''static_name_server'' j)) of
        (True, Some a, Some i, Some g, Some f, Some src, Some ss, Some st, Some sn) \<Rightarrow>
          Some \<lparr>is_Alias = a, is_Index = i, is_GUID = g, is_AddressFamily = f, is_Source = src, is_Servers = ss,
                is_StaticServers = st, is_StaticNameServer = sn\<rparr>
      | _ \<Rightarrow> None)"

definition encodeState :: "DnsState \<Rightarrow> json" where
  "encodeState s = JObj
     [(''kind'', JStr (ds_Kind s)), (''version'', JNum (ds_Version s)), (''os'', JStr (ds_OS s)),
      (''mode'', JStr (ds_Mode s)), (''interfaces'', JArr (map encodeInterface (ds_Interfaces s))),
      (''server_ips'', jstrs (ds_ServerIPs s))]"

definition decodeState :: "json \<Rightarrow> DnsState option" where
  "decodeState j =
     (case (isObj j, asStr (jfield ''kind'' j), asInt (jfield ''version'' j), asStr (jfield ''os'' j),
            asStr (jfield ''mode'' j), asList decodeInterface (jfield ''interfaces'' j),
            asList asStr (jfield ''server_ips'' j)) of
        (True, Some k, Some v, Some os, Some m, Some is, Some ips) \<Rightarrow>
          Some \<lparr>ds_Kind = k, ds_Version = v, ds_OS = os, ds_Mode = m, ds_Interfaces = is, ds_ServerIPs = ips\<rparr>
      | _ \<Rightarrow> None)"

subsection \<open>Preflight, apply and restore\<close>

definition WriteState :: "string \<Rightarrow> DnsState \<Rightarrow> ('os world, sysdns_error, unit) proc" where
  "WriteState path state = writeFile DnsRollbackPathRequired DnsWriteFailed path (encodeState state)"

definition ReadState :: "string \<Rightarrow> ('os world, sysdns_error, DnsState) proc" where
  "ReadState path = readFile DnsNoState DnsParseFailed decodeState path"

definition RemoveState :: "string \<Rightarrow> ('os world, sysdns_error, unit) proc" where
  "RemoveState path = removeFile DnsRemoveFailed path"

definition HasState :: "string \<Rightarrow> 'os world \<Rightarrow> bool" where
  "HasState path w =
     (TrimSpace path \<noteq> [] \<and>
      (case fst (ReadState path w) of Inl _ \<Rightarrow> False
       | Inr state \<Rightarrow> ds_Kind state = dnsStateKind \<or> ds_Mode state = ModeDNS))"

definition PreflightWithPlatform ::
    "golib \<Rightarrow> dnsSysConfig \<Rightarrow> 'os dnsPlatform \<Rightarrow> ('os, sysdns_error, Result) proc" where
  "PreflightWithPlatform E cfg P =
     (let cfg = normalizeConfig E cfg in
      pthen (plift (validateConfig cfg))
     (pbind (dp_Snapshot P cfg) (\<lambda>state.
      preturn (resultFromState (completeState (dp_Name P) cfg state)))))"

definition ApplyWithPlatform ::
    "golib \<Rightarrow> dnsSysConfig \<Rightarrow> 'os dnsPlatform \<Rightarrow> ('os world, sysdns_error, Result) proc" where
  "ApplyWithPlatform E cfg P =
     (let cfg = normalizeConfig E cfg in
      pthen (plift (validateConfig cfg))
     (pbind (onOS (dp_Snapshot P cfg)) (\<lambda>snap.
      let state = completeState (dp_Name P) cfg snap in
      pthen (WriteState (dz_RollbackPath cfg) state)
     (pthen (onOS (dp_Apply P cfg state))
            (preturn (resultFromState state))))))"

definition checkState :: "string \<Rightarrow> DnsState \<Rightarrow> (sysdns_error, unit) result" where
  "checkState platformName state =
     rbind (ensure (ds_Kind state = [] \<or> ds_Kind state = dnsStateKind) (WrongKind (ds_Kind state))) (\<lambda>_.
     rbind (ensure (ds_Mode state = [] \<or> ds_Mode state = ModeDNS) (WrongMode (ds_Mode state))) (\<lambda>_.
     ensure (ds_OS state = [] \<or> ds_OS state = platformName) (DnsWrongPlatform (ds_OS state) platformName)))"

definition RestoreWithPlatform ::
    "string \<Rightarrow> 'os dnsPlatform \<Rightarrow> ('os world, sysdns_error, Result) proc" where
  "RestoreWithPlatform rollbackPath P =
     pbind (ReadState rollbackPath) (\<lambda>state.
     pthen (plift (checkState (dp_Name P) state))
    (pthen (onOS (dp_Restore P state))
    (pthen (RemoveState rollbackPath)
           (preturn (resultFromState state)))))"

definition unsupportedPlatform :: "string \<Rightarrow> string \<Rightarrow> 'os dnsPlatform" where
  "unsupportedPlatform goos name =
     (let name = (if TrimSpace name = [] then goos else name) in
      \<lparr>dp_Name = name, dp_Snapshot = (\<lambda>_. praise (DnsUnsupportedOS name)),
       dp_Apply = (\<lambda>_ _. praise (DnsUnsupportedOS name)), dp_Restore = (\<lambda>_. praise (DnsUnsupportedOS name))\<rparr>)"

subsection \<open>PowerShell text\<close>

definition psQuote :: "string \<Rightarrow> string" where
  "psQuote value = [CHR 0x27] @ ReplaceAll value [CHR 0x27] [CHR 0x27, CHR 0x27] @ [CHR 0x27]"

definition psStringArray :: "string list \<Rightarrow> string" where
  "psStringArray values = (if values = [] then ''@()'' else ''@('' @ Join (map psQuote values) '', '' @ '')'')"

definition psIntArray :: "int list \<Rightarrow> string" where
  "psIntArray values = (if values = [] then ''@()'' else ''@('' @ Join (map Itoa values) '', '' @ '')'')"

definition psLines :: "string list \<Rightarrow> string" where
  "psLines ls = concat (map (\<lambda>l. l @ [LF]) ls)"

abbreviation SQ :: char where "SQ \<equiv> CHR 0x27"

definition windowsSnapshotScript :: string where
  "windowsSnapshotScript = psLines
     [[],
      ''$ErrorActionPreference = '' @ [SQ] @ ''Stop'' @ [SQ],
      ''$adapterMap = @'' @ ''{}'',
      ''try {'',
      ''  Get-NetAdapter | ForEach-Object {'',
      ''    $adapterMap[[int]$_.ifIndex] = [PSCustomObject]@'' @ ''{'',
      ''      Name = [string]$_.Name'',
      ''      Guid = [string]$_.InterfaceGuid'',
      ''    }'',
      ''  }'',
      ''} catch {}'',
      ''$items = @(Get-DnsClientServerAddress -AddressFamily IPv4 | ForEach-Object {'',
      ''  $idx = [int]$_.InterfaceIndex'',
      ''  $alias = [string]$_.InterfaceAlias'',
      ''  $guid = '' @ [SQ] @ [SQ],
      ''  if ($adapterMap.ContainsKey($idx)) {'',
      ''    if ([string]::IsNullOrWhiteSpace($alias)) {'',
      ''      $alias = [string]$adapterMap[$idx].Name'',
      ''    }'',
      ''    $guid = [string]$adapterMap[$idx].Guid'',
      ''  }'',
      ''  $staticNameServer = '' @ [SQ] @ [SQ],
      ''  if (-not [string]::IsNullOrWhiteSpace($guid)) {'',
      ''    $path = '' @ [SQ] @ ''HKLM:'' @ [CHR 0x5C] @ ''SYSTEM'' @ [CHR 0x5C] @ ''CurrentControlSet'' @ [CHR 0x5C] @ ''Services'' @ [CHR 0x5C] @ ''Tcpip'' @ [CHR 0x5C] @ ''Parameters'' @ [CHR 0x5C] @ ''Interfaces'' @ [CHR 0x5C] @ ''{'' @ [SQ] @ '' + $guid + '' @ [SQ] @ ''}'' @ [SQ],
      ''    try {'',
      ''      $staticNameServer = [string](Get-ItemProperty -LiteralPath $path -Name NameServer -ErrorAction Stop).NameServer'',
      ''    } catch {}'',
      ''  }'',
      ''  [PSCustomObject]@'' @ ''{'',
      ''    InterfaceAlias = $alias'',
      ''    InterfaceIndex = $idx'',
      ''    InterfaceGuid = $guid'',
      ''    AddressFamily = '' @ [SQ] @ ''IPv4'' @ [SQ],
      ''    StaticNameServer = $staticNameServer'',
      ''    Servers = @($_.ServerAddresses)'',
      ''  }'',
      ''})'',
      ''ConvertTo-Json -InputObject $items -Depth 6 -Compress'']"

definition stopOnError :: string where
  "stopOnError = ''$ErrorActionPreference = '' @ [CHR 0x27] @ ''Stop'' @ [CHR 0x27]"

definition buildWindowsApplyScript :: "int list \<Rightarrow> string list \<Rightarrow> string" where
  "buildWindowsApplyScript indexes serverIPs = psLines
     [stopOnError,
      ''$servers = '' @ psStringArray serverIPs,
      ''$indexes = '' @ psIntArray indexes,
      ''foreach ($idx in $indexes) {'',
      ''  Set-DnsClientServerAddress -InterfaceIndex ([int]$idx) -ServerAddresses $servers'',
      ''}'']"

subsection \<open>The Windows platform\<close>

record windowsDNSInterface =
  wi_Alias :: string
  wi_Index :: int
  wi_GUID :: string
  wi_AddressFamily :: string
  wi_StaticNameServer :: string
  wi_Servers :: "string list"

definition normalizeWindowsGUID :: "golib \<Rightarrow> string \<Rightarrow> string" where
  "normalizeWindowsGUID E value = ToLower E (TrimSuffix (TrimPrefix (TrimSpace value) ''{'') ''}'')"

definition windowsInterfaceMatches :: "golib \<Rightarrow> windowsDNSInterface \<Rightarrow> string \<Rightarrow> bool" where
  "windowsInterfaceMatches E item selector =
     (let selector = TrimSpace selector in
      if selector = [] then False
      else if Itoa (wi_Index item) = selector then True
      else if EqualFold E (wi_Alias item) selector then True
      else EqualFold E (normalizeWindowsGUID E (wi_GUID item)) (normalizeWindowsGUID E selector))"

definition serverSeparator :: "char \<Rightarrow> bool" where
  "serverSeparator c \<longleftrightarrow> c \<in> {CHR '','', CHR '';'', CHR '' '', CHR 0x09, CHR 0x0D, CHR 0x0A}"

definition parseWindowsServerList :: "golib \<Rightarrow> string \<Rightarrow> string list" where
  "parseWindowsServerList E value = cleanStrings E (FieldsFunc serverSeparator value)"

definition interfaceStateFromWindows :: "golib \<Rightarrow> windowsDNSInterface \<Rightarrow> InterfaceState" where
  "interfaceStateFromWindows E item =
     (let staticServers = parseWindowsServerList E (wi_StaticNameServer item) in
      \<lparr>is_Alias = TrimSpace (wi_Alias item), is_Index = wi_Index item, is_GUID = normalizeWindowsGUID E (wi_GUID item),
       is_AddressFamily = TrimSpace (wi_AddressFamily item), is_Source = (if staticServers \<noteq> [] then ''static'' else ''dhcp''),
       is_Servers = cleanStrings E (wi_Servers item), is_StaticServers = staticServers,
       is_StaticNameServer = TrimSpace (wi_StaticNameServer item)\<rparr>)"

primrec selectItems ::
    "golib \<Rightarrow> string \<Rightarrow> windowsDNSInterface list \<Rightarrow> int list \<times> InterfaceState list \<Rightarrow> int list \<times> InterfaceState list" where
  "selectItems E selector [] acc = acc"
| "selectItems E selector (item # items) acc =
     selectItems E selector items
       (if \<not> windowsInterfaceMatches E item selector \<or> wi_Index item \<in> set (fst acc) then acc
        else (wi_Index item # fst acc, snd acc @ [interfaceStateFromWindows E item]))"

primrec selectAll ::
    "golib \<Rightarrow> windowsDNSInterface list \<Rightarrow> string list \<Rightarrow> int list \<times> InterfaceState list \<Rightarrow>
     (sysdns_error, int list \<times> InterfaceState list) result" where
  "selectAll E items [] acc = Inr acc"
| "selectAll E items (selector # selectors) acc =
     (if list_ex (\<lambda>item. windowsInterfaceMatches E item selector) items
      then selectAll E items selectors (selectItems E selector items acc)
      else Inl (InterfaceNotFound selector))"

definition selectWindowsDNSInterfaces ::
    "golib \<Rightarrow> windowsDNSInterface list \<Rightarrow> string list \<Rightarrow> (sysdns_error, InterfaceState list) result" where
  "selectWindowsDNSInterfaces E items selectors =
     (if selectors = [] then Inl InterfacesRequired
      else rbind (selectAll E items selectors ([], [])) (\<lambda>(_, selected).
           if selected = [] then Inl NoInterfacesSelected else Inr selected))"

definition interfaceIndexes :: "InterfaceState list \<Rightarrow> int list" where
  "interfaceIndexes interfaces = filter (\<lambda>i. 0 < i) (map is_Index interfaces)"

definition restoreServers :: "golib \<Rightarrow> InterfaceState \<Rightarrow> string list" where
  "restoreServers E iface =
     (if is_StaticServers iface = [] then parseWindowsServerList E (is_StaticNameServer iface) else is_StaticServers iface)"

definition restoreSource :: "golib \<Rightarrow> InterfaceState \<Rightarrow> string" where
  "restoreSource E iface =
     (let source = ToLower E (TrimSpace (is_Source iface)) in if source \<noteq> ''static'' then ''dhcp'' else source)"

definition restoreItem :: "golib \<Rightarrow> InterfaceState \<Rightarrow> string" where
  "restoreItem E iface =
     ''@'' @ ''{ InterfaceIndex = '' @ Itoa (is_Index iface) @ ''; Source = '' @ psQuote (restoreSource E iface) @
     ''; Servers = '' @ psStringArray (restoreServers E iface) @ '' }''"

definition buildWindowsRestoreScript :: "golib \<Rightarrow> InterfaceState list \<Rightarrow> string" where
  "buildWindowsRestoreScript E interfaces = psLines
     [stopOnError,
      ''$items = @('' @ [LF] @ ''  '' @ Join (map (restoreItem E) interfaces) ('','' @ [LF] @ ''  '') @ [LF] @ '')'',
      ''foreach ($item in $items) {'',
      ''  if ($item.Source -eq '' @ [CHR 0x27] @ ''dhcp'' @ [CHR 0x27] @ '') {'',
      ''    Set-DnsClientServerAddress -InterfaceIndex ([int]$item.InterfaceIndex) -ResetServerAddresses'',
      ''  } else {'',
      ''    Set-DnsClientServerAddress -InterfaceIndex ([int]$item.InterfaceIndex) -ServerAddresses $item.Servers'',
      ''  }'',
      ''}'']"

text \<open>
  The outside of the platform: running a script and the decoding of its output, as a list of
  interfaces or as a single one.
\<close>

record 'os psEnv =
  pe_Run :: "string \<Rightarrow> ('os, sysdns_error, string) proc"
  pe_DecodeList :: "string \<Rightarrow> windowsDNSInterface list option"
  pe_DecodeOne :: "string \<Rightarrow> windowsDNSInterface option"

definition decodeWindowsDNSInterfaces :: "'os psEnv \<Rightarrow> string \<Rightarrow> (sysdns_error, windowsDNSInterface list) result" where
  "decodeWindowsDNSInterfaces V out =
     (let out = TrimSpace out in
      if out = [] then Inr []
      else (case pe_DecodeList V out of
              Some items \<Rightarrow> Inr items
            | None \<Rightarrow> (case pe_DecodeOne V out of None \<Rightarrow> Inl SnapshotParse | Some item \<Rightarrow> Inr [item])))"

definition winSnapshot :: "golib \<Rightarrow> 'os psEnv \<Rightarrow> dnsSysConfig \<Rightarrow> ('os, sysdns_error, DnsState) proc" where
  "winSnapshot E V cfg =
     pbind (pe_Run V windowsSnapshotScript) (\<lambda>out.
     pbind (plift (decodeWindowsDNSInterfaces V out)) (\<lambda>items.
     pbind (plift (selectWindowsDNSInterfaces E items (dz_Interfaces cfg))) (\<lambda>interfaces.
     preturn (emptyDnsState\<lparr>ds_Interfaces := interfaces\<rparr>))))"

definition winApply :: "'os psEnv \<Rightarrow> dnsSysConfig \<Rightarrow> DnsState \<Rightarrow> ('os, sysdns_error, unit) proc" where
  "winApply V cfg state =
     (let indexes = interfaceIndexes (ds_Interfaces state) in
      pthen (pensure (indexes \<noteq> []) StateHasNoInterfaces)
     (pthen (pe_Run V (buildWindowsApplyScript indexes (dz_ServerIPs cfg)))
            (preturn ())))"

definition winRestore :: "golib \<Rightarrow> 'os psEnv \<Rightarrow> DnsState \<Rightarrow> ('os, sysdns_error, unit) proc" where
  "winRestore E V state =
     pthen (pensure (ds_Interfaces state \<noteq> []) StateHasNoInterfaces)
    (pthen (pe_Run V (buildWindowsRestoreScript E (ds_Interfaces state)))
           (preturn ()))"

definition windowsPlatform :: "golib \<Rightarrow> 'os psEnv \<Rightarrow> 'os dnsPlatform" where
  "windowsPlatform E V =
     \<lparr>dp_Name = ''windows'', dp_Snapshot = winSnapshot E V, dp_Apply = winApply V, dp_Restore = winRestore E V\<rparr>"

subsection \<open>Selecting interfaces\<close>

text \<open>The loop over the items keeps the indexes seen and the states selected in step.\<close>

definition selectionOK :: "golib \<Rightarrow> windowsDNSInterface list \<Rightarrow> (windowsDNSInterface \<Rightarrow> bool) \<Rightarrow>
    int list \<times> InterfaceState list \<Rightarrow> bool" where
  "selectionOK E items P acc \<longleftrightarrow>
     map is_Index (snd acc) = rev (fst acc) \<and> distinct (fst acc) \<and>
     (\<forall>s\<in>set (snd acc). \<exists>item\<in>set items. P item \<and> s = interfaceStateFromWindows E item) \<and>
     (\<forall>item\<in>set items. P item \<longrightarrow> wi_Index item \<in> set (fst acc))"

lemma interfaceStateFromWindows_Index [simp]: "is_Index (interfaceStateFromWindows E item) = wi_Index item"
  by (simp add: interfaceStateFromWindows_def Let_def)

lemma selectItems_OK:
  assumes "selectionOK E done (\<lambda>i. Q i \<or> windowsInterfaceMatches E i selector \<and> i \<in> set seen) acc"
    and "set done = set seen \<union> set items \<union> set rest"
  shows "selectionOK E done (\<lambda>i. Q i \<or> windowsInterfaceMatches E i selector \<and> i \<in> set seen \<union> set items)
    (selectItems E selector items acc)"
  using assms
proof (induction items arbitrary: acc seen)
  case Nil
  then show ?case by simp
next
  case (Cons item items)
  let ?acc = "if \<not> windowsInterfaceMatches E item selector \<or> wi_Index item \<in> set (fst acc) then acc
    else (wi_Index item # fst acc, snd acc @ [interfaceStateFromWindows E item])"
  have "selectionOK E done (\<lambda>i. Q i \<or> windowsInterfaceMatches E i selector \<and> i \<in> set (seen @ [item])) ?acc"
    using Cons.prems by (auto simp: selectionOK_def)
  from Cons.IH [OF this] Cons.prems(2) show ?case by (auto simp: Un_ac)
qed

lemma selectionOK_cong:
  "(\<And>i. i \<in> set items \<Longrightarrow> P i \<longleftrightarrow> Q i) \<Longrightarrow> selectionOK E items P acc = selectionOK E items Q acc"
  by (auto simp: selectionOK_def)

lemma selectAll_OK:
  assumes "selectionOK E items Q acc" and "selectAll E items selectors acc = Inr acc'"
  shows "selectionOK E items (\<lambda>i. Q i \<or> (\<exists>s\<in>set selectors. windowsInterfaceMatches E i s)) acc'"
  using assms
proof (induction selectors arbitrary: acc Q)
  case Nil
  then show ?case by simp
next
  case (Cons selector selectors)
  have "selectionOK E items (\<lambda>i. Q i \<or> windowsInterfaceMatches E i selector \<and> i \<in> set [] \<union> set items)
      (selectItems E selector items acc)"
    using selectItems_OK [of E items Q selector "[]" acc items "[]"] Cons.prems(1) by simp
  then have "selectionOK E items (\<lambda>i. Q i \<or> windowsInterfaceMatches E i selector) (selectItems E selector items acc)"
    by (rule iffD1 [OF selectionOK_cong, rotated]) simp
  from Cons.IH [OF this] Cons.prems(2) show ?case by (auto simp: disj_assoc split: if_splits)
qed

lemma selectAll_ok:
  "is_ok (selectAll E items selectors acc) \<longleftrightarrow>
     (\<forall>s\<in>set selectors. \<exists>item\<in>set items. windowsInterfaceMatches E item s)"
  by (induction selectors arbitrary: acc) (auto simp: is_ok_def list_ex_iff)

lemma select_Inr:
  assumes "selectWindowsDNSInterfaces E items selectors = Inr selected"
  shows "distinct (map is_Index selected)"
    and "set (map is_Index selected) = {wi_Index item |item. item \<in> set items \<and> (\<exists>s\<in>set selectors. windowsInterfaceMatches E item s)}"
    and "\<forall>st\<in>set selected. \<exists>item\<in>set items. (\<exists>s\<in>set selectors. windowsInterfaceMatches E item s) \<and>
      st = interfaceStateFromWindows E item"
proof -
  obtain seen where all: "selectAll E items selectors ([], []) = Inr (seen, selected)"
    using assms by (auto simp: selectWindowsDNSInterfaces_def res_simps split: if_splits)
  have "selectionOK E items (\<lambda>_. False) ([], [])" by (simp add: selectionOK_def)
  from selectAll_OK [OF this all]
  have ok: "selectionOK E items (\<lambda>i. \<exists>s\<in>set selectors. windowsInterfaceMatches E i s) (seen, selected)" by simp
  then show 1: "distinct (map is_Index selected)"
    and 3: "\<forall>st\<in>set selected. \<exists>item\<in>set items. (\<exists>s\<in>set selectors. windowsInterfaceMatches E item s) \<and>
      st = interfaceStateFromWindows E item"
    by (simp_all add: selectionOK_def)
  have seen: "set seen = is_Index ` set selected"
  proof -
    have "map is_Index selected = rev seen" using ok by (simp add: selectionOK_def)
    then have "set (map is_Index selected) = set (rev seen)" by (rule arg_cong)
    then show ?thesis by simp
  qed
  show "set (map is_Index selected) =
      {wi_Index item |item. item \<in> set items \<and> (\<exists>s\<in>set selectors. windowsInterfaceMatches E item s)}"
  proof (intro set_eqI iffI)
    fix i assume "i \<in> set (map is_Index selected)"
    then obtain st where "st \<in> set selected" "i = is_Index st" by auto
    with 3 show "i \<in> {wi_Index item |item. item \<in> set items \<and> (\<exists>s\<in>set selectors. windowsInterfaceMatches E item s)}"
      by fastforce
  next
    fix i assume "i \<in> {wi_Index item |item. item \<in> set items \<and> (\<exists>s\<in>set selectors. windowsInterfaceMatches E item s)}"
    then obtain item where "i = wi_Index item" "item \<in> set items" "\<exists>s\<in>set selectors. windowsInterfaceMatches E item s" by blast
    with ok have "i \<in> set seen" by (simp add: selectionOK_def)
    with seen show "i \<in> set (map is_Index selected)" by simp
  qed
qed

lemma select_ok_iff:
  "is_ok (selectWindowsDNSInterfaces E items selectors) \<longleftrightarrow>
     selectors \<noteq> [] \<and> (\<forall>s\<in>set selectors. \<exists>item\<in>set items. windowsInterfaceMatches E item s)"
proof (cases "selectors = []")
  case False
  show ?thesis
  proof (cases "selectAll E items selectors ([], [])")
    case (Inl e)
    then show ?thesis using False selectAll_ok [of E items selectors "([], [])"]
      by (simp add: selectWindowsDNSInterfaces_def is_ok_def)
  next
    case (Inr acc)
    have "selectionOK E items (\<lambda>_. False) ([], [])" by (simp add: selectionOK_def)
    from selectAll_OK [OF this Inr]
    have "selectionOK E items (\<lambda>i. \<exists>s\<in>set selectors. windowsInterfaceMatches E i s) acc" by simp
    moreover have all: "\<forall>s\<in>set selectors. \<exists>item\<in>set items. windowsInterfaceMatches E item s"
      using Inr selectAll_ok [of E items selectors "([], [])"] by (simp add: is_ok_def)
    moreover obtain item where "item \<in> set items" "\<exists>s\<in>set selectors. windowsInterfaceMatches E item s"
      using False all by (cases selectors) auto
    ultimately have "wi_Index item \<in> set (fst acc)" "map is_Index (snd acc) = rev (fst acc)"
      by (auto simp: selectionOK_def)
    then have "snd acc \<noteq> []" by auto
    with False Inr all show ?thesis by (cases acc) (simp add: selectWindowsDNSInterfaces_def is_ok_def)
  qed
qed (simp add: selectWindowsDNSInterfaces_def is_ok_def)

subsection \<open>The rollback state survives the file\<close>

lemma asList_jstrs [simp]: "asList asStr (jstrs ss) = Some ss"
  by (simp add: jstrs_def)

lemma decodeInterface_encode [simp]: "decodeInterface (encodeInterface s) = Some s"
proof -
  have "isObj (encodeInterface s)" "asStr (jfield ''interface_alias'' (encodeInterface s)) = Some (is_Alias s)"
    "asInt (jfield ''interface_index'' (encodeInterface s)) = Some (is_Index s)"
    "asStr (jfield ''interface_guid'' (encodeInterface s)) = Some (is_GUID s)"
    "asStr (jfield ''address_family'' (encodeInterface s)) = Some (is_AddressFamily s)"
    "asStr (jfield ''source'' (encodeInterface s)) = Some (is_Source s)"
    "asList asStr (jfield ''servers'' (encodeInterface s)) = Some (is_Servers s)"
    "asList asStr (jfield ''static_servers'' (encodeInterface s)) = Some (is_StaticServers s)"
    "asStr (jfield ''static_name_server'' (encodeInterface s)) = Some (is_StaticNameServer s)"
    by (simp_all add: encodeInterface_def optField_simps)
  then show ?thesis by (simp add: decodeInterface_def)
qed

lemma decodeDnsState_encode [simp]: "decodeState (encodeState s) = Some s"
  by (simp add: decodeState_def encodeState_def)

lemma cleanStrings_subset: "set (cleanStrings E vs) \<subseteq> {TrimSpace v |v. v \<in> set vs} - {[]}"
  using dedup_by_subset [of "ToLower E" "[]" "filter (\<lambda>v. v \<noteq> []) (map TrimSpace vs)"]
  by (auto simp: cleanStrings_def)

subsection \<open>Windows is reversible\<close>

text \<open>
  What the scripts do: \<open>view\<close> is the list of static servers of an interface, empty when
  the servers are assigned automatically.  The snapshot prints it and changes nothing; applying
  and restoring change only the interfaces named; a successful restore sets the servers given.
\<close>

definition snapshotItems :: "'os psEnv \<Rightarrow> 'os \<Rightarrow> windowsDNSInterface list \<Rightarrow> bool" where
  "snapshotItems V os items \<longleftrightarrow>
     (\<exists>out os'. pe_Run V windowsSnapshotScript os = (Inr out, os') \<and> decodeWindowsDNSInterfaces V out = Inr items)"

definition selectable :: "golib \<Rightarrow> 'os psEnv \<Rightarrow> InterfaceState list \<Rightarrow> bool" where
  "selectable E V ifs \<longleftrightarrow>
     (\<exists>os items selectors. snapshotItems V os items \<and> selectWindowsDNSInterfaces E items selectors = Inr ifs)"

definition snapshotShows :: "golib \<Rightarrow> 'os psEnv \<Rightarrow> ('os \<Rightarrow> int \<Rightarrow> string list) \<Rightarrow> bool" where
  "snapshotShows E V view \<longleftrightarrow>
     (\<forall>os items item. snapshotItems V os items \<longrightarrow> item \<in> set items \<longrightarrow>
        view os (wi_Index item) = parseWindowsServerList E (wi_StaticNameServer item))"

definition applyIsLocal :: "golib \<Rightarrow> 'os psEnv \<Rightarrow> ('os \<Rightarrow> int \<Rightarrow> string list) \<Rightarrow> bool" where
  "applyIsLocal E V view \<longleftrightarrow>
     (\<forall>ifs servers os i. selectable E V ifs \<longrightarrow> i \<notin> set (map is_Index ifs) \<longrightarrow>
        view (snd (pe_Run V (buildWindowsApplyScript (interfaceIndexes ifs) servers) os)) i = view os i)"

definition restoreSets :: "golib \<Rightarrow> 'os psEnv \<Rightarrow> ('os \<Rightarrow> int \<Rightarrow> string list) \<Rightarrow> bool" where
  "restoreSets E V view \<longleftrightarrow>
     (\<forall>ifs os out os' i. selectable E V ifs \<longrightarrow> pe_Run V (buildWindowsRestoreScript E ifs) os = (Inr out, os') \<longrightarrow>
        view os' i = (case find (\<lambda>s. is_Index s = i) ifs of
            None \<Rightarrow> view os i
          | Some s \<Rightarrow> if restoreSource E s = ''dhcp'' then [] else restoreServers E s))"

definition powershell :: "golib \<Rightarrow> 'os psEnv \<Rightarrow> ('os \<Rightarrow> int \<Rightarrow> string list) \<Rightarrow> bool" where
  "powershell E V view \<longleftrightarrow>
     (\<forall>os. view (snd (pe_Run V windowsSnapshotScript os)) = view os) \<and>
     snapshotShows E V view \<and> applyIsLocal E V view \<and> restoreSets E V view"

lemma restore_original:
  assumes "s = interfaceStateFromWindows E item"
  shows "(if restoreSource E s = ''dhcp'' then [] else restoreServers E s) = parseWindowsServerList E (wi_StaticNameServer item)"
proof -
  have "ToLower E (TrimSpace ''static'') = ''static''" "ToLower E (TrimSpace ''dhcp'') = ''dhcp''"
    by (simp_all add: trimmed_plain plain_def ToLower_ascii isAscii_def lowerAscii_code)
  with assms show ?thesis
    by (auto simp: interfaceStateFromWindows_def restoreSource_def restoreServers_def Let_def)
qed

lemma dnsSnapshot_Inr:
  assumes "winSnapshot E V cfg os = (Inr st, os1)"
  obtains items ifs where "snapshotItems V os items" and "selectWindowsDNSInterfaces E items (dz_Interfaces cfg) = Inr ifs"
    and "st = emptyDnsState\<lparr>ds_Interfaces := ifs\<rparr>"
  using assms by (fastforce simp: winSnapshot_def snapshotItems_def proc_simps)

lemma windows_reversible:
  assumes "powershell E V view"
  shows "reversible (winSnapshot E V) (winApply V) (winRestore E V) (completeState ''windows'') (checkState ''windows'')
    encodeState decodeState (\<lambda>_. view)"
proof
  fix cfg os rs os1
  assume snap: "winSnapshot E V cfg os = (rs, os1)"
  have "os1 = snd (pe_Run V windowsSnapshotScript os)"
    using snap by (auto simp: winSnapshot_def pbind_def plift_def preturn_def split: prod.splits sum.splits)
  then show "view os1 = view os" using assms by (simp add: powershell_def)
next
  fix cfg os st os1 r os2 os3
  let ?st = "completeState ''windows'' cfg st"
  assume snap: "winSnapshot E V cfg os = (Inr st, os1)"
    and change: "winApply V cfg ?st os1 = (r, os2)" and restore: "winRestore E V ?st os2 = (Inr (), os3)"
  obtain items ifs where items: "snapshotItems V os items"
    and ifs: "selectWindowsDNSInterfaces E items (dz_Interfaces cfg) = Inr ifs"
    and st: "st = emptyDnsState\<lparr>ds_Interfaces := ifs\<rparr>"
    using dnsSnapshot_Inr [OF snap] .
  have facts: "snapshotShows E V view" "applyIsLocal E V view" "restoreSets E V view"
    using assms by (simp_all add: powershell_def)
  have sel: "selectable E V ifs" using items ifs by (auto simp: selectable_def)
  have "os1 = snd (pe_Run V windowsSnapshotScript os)"
    using snap by (auto simp: winSnapshot_def pbind_def plift_def preturn_def split: prod.splits sum.splits)
  then have v1: "view os1 = view os" using assms by (simp add: powershell_def)
  have "os2 = os1 \<or> os2 = snd (pe_Run V (buildWindowsApplyScript (interfaceIndexes ifs) (dz_ServerIPs cfg)) os1)"
    using change st
    by (auto simp: winApply_def completeState_def pthen_def pbind_def pensure_def preturn_def praise_def Let_def
        split: prod.splits sum.splits if_splits)
  then have v2: "view os2 i = view os1 i" if "i \<notin> set (map is_Index ifs)" for i
    using facts(2) sel that unfolding applyIsLocal_def by metis
  obtain out where "pe_Run V (buildWindowsRestoreScript E ifs) os2 = (Inr out, os3)"
    using restore st by (auto simp: winRestore_def completeState_def proc_simps)
  then have v3: "view os3 i = (case find (\<lambda>s. is_Index s = i) ifs of None \<Rightarrow> view os2 i
      | Some s \<Rightarrow> if restoreSource E s = ''dhcp'' then [] else restoreServers E s)" for i
    using facts(3) sel unfolding restoreSets_def by blast
  show "view os3 = view os"
  proof
    fix i
    show "view os3 i = view os i"
    proof (cases "find (\<lambda>s. is_Index s = i) ifs")
      case None
      then have "i \<notin> set (map is_Index ifs)" by (auto simp: find_None_iff)
      with None v1 v2 v3 show ?thesis by simp
    next
      case (Some s)
      then have s: "s \<in> set ifs" "is_Index s = i" by (auto simp: find_Some_iff)
      then obtain item where item: "item \<in> set items" "s = interfaceStateFromWindows E item"
        using select_Inr(3) [OF ifs] by blast
      moreover have "view os (wi_Index item) = parseWindowsServerList E (wi_StaticNameServer item)"
        using facts(1) items item(1) unfolding snapshotShows_def by blast
      moreover have "wi_Index item = i" using item(2) s(2) by (simp add: interfaceStateFromWindows_def Let_def)
      moreover have "view os3 i = (if restoreSource E s = ''dhcp'' then [] else restoreServers E s)"
        using v3 [of i] by (simp only: Some option.case)
      ultimately show ?thesis using restore_original [OF item(2)] by simp
    qed
  qed
qed (simp_all add: checkState_def completeState_def ensure_def)

subsection \<open>Reading PowerShell literals\<close>

text \<open>
  How PowerShell reads a single-quoted literal, after the opening quote: a quote followed by a
  quote stands for a quote, a single one ends the literal.  PowerShell takes the four typographic
  single quotes (in UTF-8) for quotes as well.
\<close>

fun smartQuote :: "string \<Rightarrow> bool" where
  "smartQuote (a # b # c # s) \<longleftrightarrow> a = CHR 0xE2 \<and> b = CHR 0x80 \<and> c \<in> {CHR 0x98, CHR 0x99, CHR 0x9A, CHR 0x9B}"
| "smartQuote _ \<longleftrightarrow> False"

definition quoteLength :: "string \<Rightarrow> nat" where
  "quoteLength s = (if take 1 s = [CHR 0x27] then 1 else if smartQuote s then 3 else 0)"

function psLiteral :: "string \<Rightarrow> (string \<times> string) option" where
  "psLiteral s =
     (if s = [] then None
      else (let k = quoteLength s in
            if k = 0 then map_option (\<lambda>(v, rest). (hd s # v, rest)) (psLiteral (tl s))
            else (let s' = drop k s; k' = quoteLength s' in
                  if k' = 0 then Some ([], s')
                  else map_option (\<lambda>(v, rest). (take k' s' @ v, rest)) (psLiteral (drop k' s')))))"
  by pat_completeness auto
termination
  by (relation "measure length") auto

declare psLiteral.simps [simp del]

fun smartFree :: "string \<Rightarrow> bool" where
  "smartFree [] \<longleftrightarrow> True"
| "smartFree (c # s) \<longleftrightarrow> \<not> smartQuote (c # s) \<and> smartFree s"

definition doubled :: "string \<Rightarrow> string" where
  "doubled v = concat (map (\<lambda>c. if c = CHR 0x27 then [CHR 0x27, CHR 0x27] else [c]) v)"

lemma doubled_simps [simp]:
  "doubled [] = []" "doubled (CHR 0x27 # v) = CHR 0x27 # CHR 0x27 # doubled v"
  "c \<noteq> CHR 0x27 \<Longrightarrow> doubled (c # v) = c # doubled v"
  by (simp_all add: doubled_def)

lemma doubled_head: "doubled v @ CHR 0x27 # rest = c # t \<Longrightarrow> c \<noteq> CHR 0x27 \<Longrightarrow>
    \<exists>v'. v = c # v' \<and> t = doubled v' @ CHR 0x27 # rest"
  by (cases v; cases "hd v = CHR 0x27") auto

lemma smartQuote_doubled:
  assumes "smartQuote (doubled v @ CHR 0x27 # rest)"
  shows "smartQuote v"
proof -
  obtain x t where "doubled v @ CHR 0x27 # rest = CHR 0xE2 # CHR 0x80 # x # t"
    and x: "x \<in> {CHR 0x98, CHR 0x99, CHR 0x9A, CHR 0x9B}"
    using assms by (cases "doubled v @ CHR 0x27 # rest" rule: smartQuote.cases) auto
  then obtain v1 where "v = CHR 0xE2 # v1" "CHR 0x80 # x # t = doubled v1 @ CHR 0x27 # rest"
    using doubled_head [of v rest "CHR 0xE2" "CHR 0x80 # x # t"] by auto
  moreover then obtain v2 where "v1 = CHR 0x80 # v2" "x # t = doubled v2 @ CHR 0x27 # rest"
    using doubled_head [of v1 rest "CHR 0x80" "x # t"] by auto
  moreover then obtain v3 where "v2 = x # v3"
    using doubled_head [of v2 rest x t] x by auto
  ultimately show ?thesis using x by simp
qed

lemma psLiteral_doubled:
  assumes "smartFree v" and "quoteLength rest = 0"
  shows "psLiteral (doubled v @ CHR 0x27 # rest) = Some (v, rest)"
  using assms(1)
proof (induction v)
  case Nil
  with assms(2) show ?case by (subst psLiteral.simps) (simp add: quoteLength_def)
next
  case (Cons c v)
  show ?case
  proof (cases "c = CHR 0x27")
    case True
    with Cons show ?thesis by (subst psLiteral.simps) (simp add: quoteLength_def)
  next
    case False
    then have "quoteLength (doubled (c # v) @ CHR 0x27 # rest) = 0"
      using smartQuote_doubled [of "c # v" rest] Cons.prems by (auto simp: quoteLength_def)
    with False Cons show ?thesis by (subst psLiteral.simps) simp
  qed
qed

lemma Replace_byte:
  "n < 0 \<Longrightarrow> Replace s [b] new n = concat (map (\<lambda>c. if c = b then new else [c]) s)"
  by (induction s arbitrary: n) (subst Replace.simps; auto)+

lemma psQuote_doubled: "psQuote v = CHR 0x27 # doubled v @ [CHR 0x27]"
  by (simp add: psQuote_def ReplaceAll_def Replace_byte doubled_def)

lemma apply_is_flow:
  assumes "powershell E V view"
  shows "ApplyWithPlatform E cfg (windowsPlatform E V) w = (let (r, w') =
      reversible.applyFlow (winSnapshot E V) (winApply V) (completeState ''windows'') encodeState
        (validateConfig (normalizeConfig E cfg)) DnsRollbackPathRequired DnsWriteFailed
        (dz_RollbackPath (normalizeConfig E cfg)) (normalizeConfig E cfg) w
    in (map_result resultFromState r, w'))"
  by (simp add: ApplyWithPlatform_def windowsPlatform_def WriteState_def Let_def pthen_def pbind_def plift_def preturn_def
      onOS_def reversible.applyFlow_def [OF windows_reversible [OF assms]] split: prod.splits sum.splits)

lemma restore_is_flow:
  assumes "powershell E V view"
  shows "RestoreWithPlatform path (windowsPlatform E V) w = (let (r, w') =
      reversible.restoreFlow (winRestore E V) (checkState ''windows'') decodeState
        DnsNoState DnsParseFailed DnsRemoveFailed path w
    in (map_result resultFromState r, w'))"
  by (simp add: RestoreWithPlatform_def windowsPlatform_def ReadState_def RemoveState_def Let_def pthen_def pbind_def
      plift_def preturn_def onOS_def reversible.restoreFlow_def [OF windows_reversible [OF assms]] split: prod.splits sum.splits)

subsection \<open>Properties\<close>

text \<open>
  Selecting interfaces succeeds exactly when there is a selector and each one names an
  interface; the result has every interface that some selector names, each once.
\<close>

theorem selection_exact:
  "is_ok (selectWindowsDNSInterfaces E items selectors) =
     (selectors \<noteq> [] \<and> list_all (\<lambda>s. list_ex (\<lambda>item. windowsInterfaceMatches E item s) items) selectors) \<and>
   (case selectWindowsDNSInterfaces E items selectors of Inl _ \<Rightarrow> True
    | Inr selected \<Rightarrow> distinct (map is_Index selected) \<and>
        set (map is_Index selected) =
          {wi_Index item |item. item \<in> set items \<and> list_ex (windowsInterfaceMatches E item) selectors})"
proof -
  have "list_all (\<lambda>s. list_ex (\<lambda>item. windowsInterfaceMatches E item s) items) selectors \<longleftrightarrow>
      (\<forall>s\<in>set selectors. \<exists>item\<in>set items. windowsInterfaceMatches E item s)"
    by (simp add: list_all_iff list_ex_iff)
  then show ?thesis
    using select_ok_iff [of E items selectors] select_Inr(1,2) [of E items selectors]
    by (cases "selectWindowsDNSInterfaces E items selectors") (simp_all add: list_ex_iff)
qed

text \<open>
  A quoted value is one PowerShell literal that reads back as the value, whatever ASCII
  quotes it holds, as long as it holds no typographic quote.
\<close>

theorem psQuote_reads_back:
  assumes "smartFree value" and "quoteLength rest = 0"
  shows "psQuote value = CHR 0x27 # tl (psQuote value) \<and> psLiteral (tl (psQuote value) @ rest) = Some (value, rest)"
  using psLiteral_doubled [OF assms] by (simp add: psQuote_doubled)

theorem psQuote_reads_back_witness:
  "psLiteral (tl (psQuote (''a'' @ [CHR 0x27] @ ''; b'')) @ '', c)'') = Some (''a'' @ [CHR 0x27] @ ''; b'', '', c)'')"
proof -
  have "smartFree (''a'' @ [CHR 0x27] @ ''; b'')" "quoteLength '', c)'' = 0"
    by (simp_all add: quoteLength_def)
  from psQuote_reads_back [OF this] show ?thesis by simp
qed

text \<open>A typographic quote in the value ends the literal, and the rest of the value is code.\<close>

lemma typographic_quote_escapes:
  "psLiteral (tl (psQuote ([CHR 0xE2, CHR 0x80, CHR 0x99] @ ''; x'')) @ rest) = Some ([], ''; x'' @ CHR 0x27 # rest)"
  by (subst psLiteral.simps) (simp add: psQuote_doubled quoteLength_def)


text \<open>One interface, whose static server is either the original one or the local one.\<close>

definition sampleItem :: "bool \<Rightarrow> windowsDNSInterface" where
  "sampleItem original = \<lparr>wi_Alias = ''Ethernet'', wi_Index = 7, wi_GUID = ''{a}'', wi_AddressFamily = ''IPv4'',
     wi_StaticNameServer = (if original then ''8.8.8.8'' else ''127.0.0.1''), wi_Servers = []\<rparr>"

definition sampleIface :: "bool \<Rightarrow> InterfaceState" where
  "sampleIface original = interfaceStateFromWindows sampleLib (sampleItem original)"

definition sampleShell :: "bool psEnv" where
  "sampleShell = \<lparr>pe_Run = (\<lambda>script os.
       if script = buildWindowsRestoreScript sampleLib [sampleIface True] then (Inr [], True)
       else if script = buildWindowsRestoreScript sampleLib [sampleIface False] then (Inr [], False)
       else if script = windowsSnapshotScript then (Inr (if os then ''o'' else ''l''), os)
       else (Inr [], False)),
     pe_DecodeList = (\<lambda>out. Some [sampleItem (out = ''o'')]),
     pe_DecodeOne = (\<lambda>_. None)\<rparr>"

definition sampleDnsView :: "bool \<Rightarrow> int \<Rightarrow> string list" where
  "sampleDnsView os i = (if i = 7 then [if os then ''8.8.8.8'' else ''127.0.0.1''] else [])"

lemma sampleServers: "parseWindowsServerList sampleLib (wi_StaticNameServer (sampleItem b)) =
    [if b then ''8.8.8.8'' else ''127.0.0.1'']"
  by (cases b) (simp_all, code_simp+)

lemma sampleIface_restore:
  "is_Index (sampleIface b) = 7" "restoreSource sampleLib (sampleIface b) = ''static''"
  "restoreServers sampleLib (sampleIface b) = [if b then ''8.8.8.8'' else ''127.0.0.1'']"
proof -
  have st: "ToLower sampleLib (TrimSpace ''static'') = ''static''"
    by (simp add: trimmed_plain plain_def ToLower_ascii isAscii_def lowerAscii_code)
  show "is_Index (sampleIface b) = 7" by (simp add: sampleIface_def sampleItem_def)
  show "restoreSource sampleLib (sampleIface b) = ''static''"
    "restoreServers sampleLib (sampleIface b) = [if b then ''8.8.8.8'' else ''127.0.0.1'']"
    using st sampleServers [of b]
    by (simp_all add: sampleIface_def restoreSource_def restoreServers_def interfaceStateFromWindows_def Let_def)
qed

lemma windowsSnapshotScript_hd: "hd windowsSnapshotScript \<noteq> CHR ''$''"
  by (simp add: windowsSnapshotScript_def psLines_def LF_def)

lemma sampleScripts:
  "buildWindowsRestoreScript sampleLib [sampleIface True] \<noteq> buildWindowsRestoreScript sampleLib [sampleIface False]"
  "buildWindowsRestoreScript sampleLib [sampleIface b] \<noteq> windowsSnapshotScript"
proof -
  have items: "restoreItem sampleLib (sampleIface True) \<noteq> restoreItem sampleLib (sampleIface False)"
    by (simp add: restoreItem_def sampleIface_restore psStringArray_def psQuote_doubled)
  show "buildWindowsRestoreScript sampleLib [sampleIface True] \<noteq> buildWindowsRestoreScript sampleLib [sampleIface False]"
    by (simp add: buildWindowsRestoreScript_def psLines_def items)
  have "hd (buildWindowsRestoreScript sampleLib [sampleIface b]) = CHR ''$''"
    by (simp add: buildWindowsRestoreScript_def psLines_def stopOnError_def)
  then show "buildWindowsRestoreScript sampleLib [sampleIface b] \<noteq> windowsSnapshotScript"
    using windowsSnapshotScript_hd by metis
qed

lemma sampleShell_snapshot:
  "pe_Run sampleShell windowsSnapshotScript os = (Inr (if os then ''o'' else ''l''), os)"
  using sampleScripts(2) [of True] sampleScripts(2) [of False] by (auto simp: sampleShell_def)

lemma sampleShell_items: "snapshotItems sampleShell os items \<longleftrightarrow> items = [sampleItem os]"
proof -
  have "decodeWindowsDNSInterfaces sampleShell (if os then ''o'' else ''l'') = Inr [sampleItem os]"
    by (cases os) (simp_all add: decodeWindowsDNSInterfaces_def sampleShell_def trimmed_plain plain_def)
  then show ?thesis using sampleShell_snapshot [of os] by (auto simp: snapshotItems_def)
qed

lemma sampleShell_selectable:
  assumes "selectable sampleLib sampleShell ifs"
  obtains b where "ifs = [sampleIface b]"
proof -
  obtain b selectors where sel: "selectWindowsDNSInterfaces sampleLib [sampleItem b] selectors = Inr ifs"
    using assms by (auto simp: selectable_def sampleShell_items)
  then have "ifs \<noteq> []" by (auto simp: selectWindowsDNSInterfaces_def res_simps split: if_splits)
  then obtain s ifs' where ifs: "ifs = s # ifs'" by (cases ifs) auto
  have all: "\<forall>st\<in>set ifs. st = sampleIface b" using select_Inr(3) [OF sel] by (auto simp: sampleIface_def)
  then have "ifs' = []" using select_Inr(1) [OF sel] ifs by (cases ifs') auto
  with all ifs that [of b] show ?thesis by simp
qed

lemma sampleShell_powershell: "powershell sampleLib sampleShell sampleDnsView"
proof -
  have "snapshotShows sampleLib sampleShell sampleDnsView"
    using sampleServers by (simp add: snapshotShows_def sampleShell_items sampleDnsView_def) (simp add: sampleItem_def)
  moreover have "applyIsLocal sampleLib sampleShell sampleDnsView"
    by (auto simp: applyIsLocal_def sampleDnsView_def sampleIface_restore elim!: sampleShell_selectable)
  moreover have "restoreSets sampleLib sampleShell sampleDnsView"
    unfolding restoreSets_def
  proof (intro allI impI)
    fix ifs os out os' i
    assume "selectable sampleLib sampleShell ifs"
      and run: "pe_Run sampleShell (buildWindowsRestoreScript sampleLib ifs) os = (Inr out, os')"
    then obtain b where ifs: "ifs = [sampleIface b]" by (elim sampleShell_selectable)
    with run sampleScripts(1) have "os' = b" by (cases b) (auto simp: sampleShell_def)
    with ifs show "sampleDnsView os' i = (case find (\<lambda>s. is_Index s = i) ifs of None \<Rightarrow> sampleDnsView os i
      | Some s \<Rightarrow> if restoreSource sampleLib s = ''dhcp'' then [] else restoreServers sampleLib s)"
      by (simp add: sampleDnsView_def sampleIface_restore)
  qed
  ultimately show ?thesis by (simp add: powershell_def sampleShell_snapshot)
qed

lemma sampleApply: "pe_Run sampleShell (buildWindowsApplyScript [7] [''127.0.0.1'']) True = (Inr [], False)"
proof -
  have head: "hd (buildWindowsApplyScript [7] [''127.0.0.1'']) = CHR ''$''"
    by (simp add: buildWindowsApplyScript_def psLines_def stopOnError_def)
  have "buildWindowsApplyScript [7] [''127.0.0.1''] \<noteq> buildWindowsRestoreScript sampleLib [sampleIface b]" for b
    by (simp add: buildWindowsApplyScript_def buildWindowsRestoreScript_def psLines_def)
  moreover have "buildWindowsApplyScript [7] [''127.0.0.1''] \<noteq> windowsSnapshotScript" using head windowsSnapshotScript_hd by metis
  ultimately show ?thesis by (simp add: sampleShell_def)
qed

definition sampleDnsSysConfig :: dnsSysConfig where
  "sampleDnsSysConfig = \<lparr>dz_RollbackPath = ''r'', dz_Interfaces = [''7''], dz_ServerIPs = [''127.0.0.1'']\<rparr>"

definition sampleMachine :: "bool world" where
  "sampleMachine = \<lparr>wo_os = True, wo_files = (\<lambda>_. None), wo_writable = (\<lambda>_. True), wo_removable = (\<lambda>_. True)\<rparr>"

lemma sampleDnsSysConfig_normal:
  "normalizeConfig sampleLib sampleDnsSysConfig = sampleDnsSysConfig" "validateConfig sampleDnsSysConfig = Inr ()"
  "TrimSpace ''r'' = ''r''"
  "selectWindowsDNSInterfaces sampleLib [sampleItem True] [''7''] = Inr [sampleIface True]"
  by code_simp+


end
