(* ===== verification/PageEnhance.thy ===== *)
theory PageEnhance
  imports Config GoHTTP
begin

section \<open>Package pageenhance: rewriting responses\<close>

text \<open>
  \<^verbatim>\<open>internal/pageenhance/pageenhance.go\<close>.  A slice expression out of range panics; a
  function that can panic returns \<open>None\<close> there.  The files of assets and
  \<^verbatim>\<open>http.DetectContentType\<close> are parameters, and a custom transformer is a record of
  functions.
\<close>

subsection \<open>Data\<close>

record Asset =
  ae_Path :: string
  ae_File :: string
  ae_ContentType :: string

record Match =
  mt_Providers :: "string list"
  mt_Hosts :: "string list"
  mt_PathPrefixes :: "string list"
  mt_ContentTypes :: "string list"
  mt_StatusCodes :: "int list"

record Replacement =
  rl_Old :: string
  rl_New :: string
  rl_Count :: int

record Transform =
  tf_Name :: string
  tf_Match :: Match
  tf_HeaderSet :: "(string \<times> string) list"
  tf_HeaderRemove :: "string list"
  tf_InjectHead :: string
  tf_InjectBody :: string
  tf_Replace :: "Replacement list"

record ResponseMeta =
  rm_Provider :: string
  rm_Host :: string
  rm_Path :: string
  rm_ContentType :: string
  rm_StatusCode :: int

record Event =
  ev_Action :: string
  ev_Transform :: string
  ev_Reason :: string
  ev_Provider :: string
  ev_Host :: string
  ev_Path :: string
  ev_Status :: int

record TransformResult =
  tx_Body :: string
  tx_Applied :: bool
  tx_BodyModified :: bool
  tx_SkipReason :: string

record Transformer =
  tm_Name :: string
  tm_Match :: "ResponseMeta \<Rightarrow> bool"
  tm_NeedsBody :: bool
  tm_Transform :: "Response \<Rightarrow> string \<Rightarrow> ResponseMeta \<Rightarrow> Response \<times> (string, TransformResult) result"

text \<open>A nil transformer is \<open>None\<close>.\<close>

record enhanceConfig =
  ec_Enabled :: bool
  ec_OnError :: string
  ec_MaxBodySize :: int
  ec_Assets :: "Asset list"
  ec_Transforms :: "Transform list"
  ec_CustomTransformers :: "Transformer option list"

record Pipeline =
  pl_cfg :: enhanceConfig
  pl_applied :: "64 word"
  pl_skipped :: "64 word"
  pl_errors :: "64 word"

record enhanceStatus =
  et_Enabled :: bool
  et_OnError :: string
  et_Transforms :: nat
  et_Assets :: nat
  et_Applied :: "64 word"
  et_Skipped :: "64 word"
  et_Errors :: "64 word"

subsection \<open>Configuration\<close>

definition transformFromConfig :: "PageEnhanceTransformConfig \<Rightarrow> Transform" where
  "transformFromConfig t =
     \<lparr>tf_Name = tr_Name t,
      tf_Match = \<lparr>mt_Providers = ma_Providers (tr_Match t), mt_Hosts = ma_Hosts (tr_Match t),
                  mt_PathPrefixes = ma_PathPrefixes (tr_Match t), mt_ContentTypes = ma_ContentTypes (tr_Match t),
                  mt_StatusCodes = ma_StatusCodes (tr_Match t)\<rparr>,
      tf_HeaderSet = hd_Set (tr_Headers t), tf_HeaderRemove = hd_Remove (tr_Headers t),
      tf_InjectHead = tr_InjectHead t, tf_InjectBody = tr_InjectBody t,
      tf_Replace = map (\<lambda>r. \<lparr>rl_Old = rp_Old r, rl_New = rp_New r, rl_Count = rp_Count r\<rparr>) (tr_Replace t)\<rparr>"

definition ConfigFromApp :: "Config \<Rightarrow> enhanceConfig" where
  "ConfigFromApp cfg =
     (let pe = c_PageEnhance cfg in
      \<lparr>ec_Enabled = pe_Enabled pe, ec_OnError = pe_OnError pe, ec_MaxBodySize = pe_MaxBodySize pe,
       ec_Assets = map (\<lambda>a. \<lparr>ae_Path = as_Path a, ae_File = as_File a, ae_ContentType = as_ContentType a\<rparr>) (pe_Assets pe),
       ec_Transforms = map transformFromConfig (pe_Transforms pe), ec_CustomTransformers = []\<rparr>)"

definition New :: "enhanceConfig \<Rightarrow> Pipeline" where
  "New cfg =
     (let cfg = (if TrimSpace (ec_OnError cfg) = [] then cfg\<lparr>ec_OnError := PageEnhancePassThrough\<rparr> else cfg);
          cfg = (if ec_MaxBodySize cfg \<le> 0 then cfg\<lparr>ec_MaxBodySize := 1024 * 1024\<rparr> else cfg)
      in \<lparr>pl_cfg = cfg, pl_applied = 0, pl_skipped = 0, pl_errors = 0\<rparr>)"

definition Status :: "Pipeline \<Rightarrow> enhanceStatus" where
  "Status p =
     \<lparr>et_Enabled = ec_Enabled (pl_cfg p), et_OnError = ec_OnError (pl_cfg p),
      et_Transforms = length (ec_Transforms (pl_cfg p)) + length (ec_CustomTransformers (pl_cfg p)),
      et_Assets = length (ec_Assets (pl_cfg p)), et_Applied = pl_applied p, et_Skipped = pl_skipped p,
      et_Errors = pl_errors p\<rparr>"

subsection \<open>Matching\<close>

definition responseContentType :: "golib \<Rightarrow> string \<Rightarrow> string" where
  "responseContentType E value =
     (let value = TrimSpace (ToLower E value) in
      case Index value '';'' of None \<Rightarrow> value | Some i \<Rightarrow> TrimSpace (take i value))"

definition completeResponseMeta :: "golib \<Rightarrow> Response \<Rightarrow> ResponseMeta \<Rightarrow> ResponseMeta" where
  "completeResponseMeta E resp meta =
     (let meta = (case hr_Path resp of None \<Rightarrow> meta
                  | Some path \<Rightarrow> if rm_Path meta = [] then meta\<lparr>rm_Path := path\<rparr> else meta);
          meta = (if rm_ContentType meta = []
                  then meta\<lparr>rm_ContentType := responseContentType E (HeaderGet (hr_Header resp) ''Content-Type'')\<rparr>
                  else meta)
      in if rm_StatusCode meta = 0 then meta\<lparr>rm_StatusCode := hr_StatusCode resp\<rparr> else meta)"

definition hostPattern :: "golib \<Rightarrow> string \<Rightarrow> string \<Rightarrow> bool" where
  "hostPattern E host pattern =
     (let pattern = ToLower E (TrimSpace pattern) in
      if HasPrefix pattern ''*.''
      then (let suf = TrimPrefix pattern ''*.'' in host = suf \<or> HasSuffix host (''.'' @ suf))
      else host = pattern)"

definition matchesHostList :: "golib \<Rightarrow> string list \<Rightarrow> string \<Rightarrow> bool" where
  "matchesHostList E patterns host = list_ex (hostPattern E (ToLower E (TrimSpace host))) patterns"

definition matchesPrefixList :: "string list \<Rightarrow> string \<Rightarrow> bool" where
  "matchesPrefixList pfxs path = list_ex (HasPrefix path) pfxs"

definition matchesStringList :: "golib \<Rightarrow> string list \<Rightarrow> string \<Rightarrow> bool" where
  "matchesStringList E values value =
     list_ex (\<lambda>candidate. ToLower E (TrimSpace candidate) = ToLower E (TrimSpace value)) values"

definition matchesStatusCode :: "int list \<Rightarrow> int \<Rightarrow> bool" where
  "matchesStatusCode values value \<longleftrightarrow> value \<in> set values"

definition matches :: "golib \<Rightarrow> Match \<Rightarrow> ResponseMeta \<Rightarrow> bool" where
  "matches E m meta =
     (if mt_Providers m \<noteq> [] \<and> \<not> matchesStringList E (mt_Providers m) (rm_Provider meta) then False
      else if mt_Hosts m \<noteq> [] \<and> \<not> matchesHostList E (mt_Hosts m) (rm_Host meta) then False
      else if mt_PathPrefixes m \<noteq> [] \<and> \<not> matchesPrefixList (mt_PathPrefixes m) (rm_Path meta) then False
      else if mt_ContentTypes m \<noteq> [] \<and> \<not> matchesStringList E (mt_ContentTypes m) (rm_ContentType meta) then False
      else if mt_StatusCodes m \<noteq> [] \<and> \<not> matchesStatusCode (mt_StatusCodes m) (rm_StatusCode meta) then False
      else True)"

definition matchingTransforms :: "golib \<Rightarrow> Pipeline \<Rightarrow> ResponseMeta \<Rightarrow> Transform list" where
  "matchingTransforms E p meta = filter (\<lambda>t. matches E (tf_Match t) meta) (ec_Transforms (pl_cfg p))"

definition matchingCustomTransformers :: "Pipeline \<Rightarrow> ResponseMeta \<Rightarrow> Transformer list" where
  "matchingCustomTransformers p meta =
     filter (\<lambda>t. tm_Match t meta) (List.map_filter (\<lambda>t. t) (ec_CustomTransformers (pl_cfg p)))"

definition hasBodyOps :: "Transform \<Rightarrow> bool" where
  "hasBodyOps t \<longleftrightarrow> tf_InjectHead t \<noteq> [] \<or> tf_InjectBody t \<noteq> [] \<or> tf_Replace t \<noteq> []"

definition label :: "Transform \<Rightarrow> string" where
  "label t = (if TrimSpace (tf_Name t) \<noteq> [] then tf_Name t else ''unnamed'')"

definition transformerName :: "Transformer \<Rightarrow> string" where
  "transformerName t = (let name = TrimSpace (tm_Name t) in if name = [] then ''unnamed'' else name)"

definition transformsNeedBody :: "Transform list \<Rightarrow> bool" where
  "transformsNeedBody = list_ex hasBodyOps"

text \<open>A nil transformer met before one that needs the body is a nil dereference.\<close>

fun transformersNeedBody :: "Transformer option list \<Rightarrow> bool option" where
  "transformersNeedBody [] = Some False"
| "transformersNeedBody (None # ts) = None"
| "transformersNeedBody (Some t # ts) = (if tm_NeedsBody t then Some True else transformersNeedBody ts)"

definition NeedsIdentityEncoding :: "Pipeline \<Rightarrow> bool option" where
  "NeedsIdentityEncoding p =
     (if \<not> ec_Enabled (pl_cfg p) then Some False
      else if transformsNeedBody (ec_Transforms (pl_cfg p)) then Some True
      else transformersNeedBody (ec_CustomTransformers (pl_cfg p)))"

subsection \<open>Serving assets\<close>

definition assetEvent :: "Asset \<Rightarrow> string \<Rightarrow> Event" where
  "assetEvent a host = \<lparr>ev_Action = ''asset'', ev_Transform = ae_Path a, ev_Reason = [], ev_Provider = [], ev_Host = host,
     ev_Path = ae_Path a, ev_Status = 200\<rparr>"

definition ServeAsset ::
    "(string \<Rightarrow> (string, string) result) \<Rightarrow> (string \<Rightarrow> string) \<Rightarrow> string option \<Rightarrow> string \<Rightarrow> Pipeline \<times> respWriter \<Rightarrow>
     bool \<times> Event list \<times> Pipeline \<times> respWriter" where
  "ServeAsset readFile detect path host pw =
     (let (p, w) = pw in
      if \<not> ec_Enabled (pl_cfg p) then (False, [], p, w)
      else (case find (\<lambda>a. path = Some (ae_Path a)) (ec_Assets (pl_cfg p)) of
        None \<Rightarrow> (False, [], p, w)
      | Some a \<Rightarrow>
          (case readFile (ae_File a) of
             Inl e \<Rightarrow>
               (True, [(assetEvent a host)\<lparr>ev_Action := ''error'', ev_Reason := ''read_asset: '' @ e, ev_Status := 500\<rparr>],
                p\<lparr>pl_errors := pl_errors p + 1\<rparr>, httpError ''page enhance asset failed'' 500 w)
           | Inr data \<Rightarrow>
               (let contentType = TrimSpace (ae_ContentType a);
                    contentType = (if contentType = [] then detect data else contentType);
                    w = w\<lparr>rw_Header := HeaderSet ''Content-Length'' (Itoa (int (length data)))
                                       (HeaderSet ''Content-Type'' contentType (rw_Header w))\<rparr>
                in (True, [assetEvent a host], p\<lparr>pl_applied := pl_applied p + 1\<rparr>, writeBody data (WriteHeader 200 w))))))"

subsection \<open>Rewriting a body\<close>

text \<open>
  \<^verbatim>\<open>bytes.Index\<close> searches the lower-cased body; the index is then used in the original.
\<close>

definition insertBeforeFold :: "golib \<Rightarrow> string \<Rightarrow> string \<Rightarrow> string \<Rightarrow> (string \<times> bool) option" where
  "insertBeforeFold E body marker ins =
     (case Index (ToLower E body) (ToLower E marker) of
        None \<Rightarrow> Some (body, False)
      | Some i \<Rightarrow> if length body < i then None else Some (take i body @ ins @ drop i body, True))"

definition injectStep ::
    "golib \<Rightarrow> string \<Rightarrow> string \<Rightarrow> string \<Rightarrow> string \<times> bool \<times> string list \<Rightarrow> (string \<times> bool \<times> string list) option" where
  "injectStep E marker ins reason acc =
     (let (next, applied, skipped) = acc in
      if ins = [] then Some acc
      else (case insertBeforeFold E next marker ins of
              None \<Rightarrow> None
            | Some (updated, ok) \<Rightarrow> Some (if ok then (updated, True, skipped) else (next, applied, skipped @ [reason]))))"

primrec replaceAllIn ::
    "Replacement list \<Rightarrow> string \<times> bool \<times> string list \<Rightarrow> (string, string \<times> bool \<times> string list) result" where
  "replaceAllIn [] acc = Inr acc"
| "replaceAllIn (r # rs) acc =
     (if rl_Old r = [] then Inl ''replace old value is required''
      else (let (next, applied, skipped) = acc;
                replaced = Replace next (rl_Old r) (rl_New r) (if rl_Count r \<le> 0 then -1 else rl_Count r) in
            replaceAllIn rs (if next \<noteq> replaced then (replaced, True, skipped)
                             else (next, applied, skipped @ [''replace_not_found'']))))"

definition applyBodyTransform ::
    "golib \<Rightarrow> string \<Rightarrow> Transform \<Rightarrow> (string, string \<times> bool \<times> string) result option" where
  "applyBodyTransform E body t =
     Option.bind (injectStep E ''</head>'' (tf_InjectHead t) ''missing_head_end'' (body, False, [])) (\<lambda>acc.
     map_option (\<lambda>acc. map_result (\<lambda>(next, applied, skipped). (next, applied, Join skipped '','')) (replaceAllIn (tf_Replace t) acc))
       (injectStep E ''</body>'' (tf_InjectBody t) ''missing_body_end'' acc))"

definition applyHeaders :: "header \<Rightarrow> Transform \<Rightarrow> header \<times> bool" where
  "applyHeaders header t =
     (let (header, applied) = fold (\<lambda>key (header, applied). (HeaderDel key header, applied \<or> map_of header key \<noteq> None))
                                   (tf_HeaderRemove t) (header, False)
      in (fold (\<lambda>(key, value). HeaderSet key value) (tf_HeaderSet t) header, applied \<or> tf_HeaderSet t \<noteq> []))"

definition setResponseBody :: "string \<Rightarrow> Response \<Rightarrow> Response" where
  "setResponseBody body resp =
     resp\<lparr>hr_Body := Some \<lparr>bs_Data = body, bs_Err = None\<rparr>, hr_ContentLength := int (length body),
          hr_Header := HeaderSet ''Content-Length'' (Itoa (int (length body))) (hr_Header resp)\<rparr>"

text \<open>
  Reading at most \<open>MaxBodySize + 1\<close> bytes, a sum of 64-bit integers.  A limit that is not
  positive reads nothing.  A body that is too large is put back in front of the rest; after an
  error, and after everything was read, the original body is closed.
\<close>

definition int64 :: "int \<Rightarrow> int" where
  "int64 i = sint (word_of_int i :: 64 word)"

definition limitedRead :: "int \<Rightarrow> bodyStream \<Rightarrow> (string, string) result" where
  "limitedRead n b =
     (if nat n \<le> length (bs_Data b) then Inr (take (nat n) (bs_Data b))
      else (case bs_Err b of None \<Rightarrow> Inr (bs_Data b) | Some e \<Rightarrow> Inl e))"

definition closedBody :: bodyStream where
  "closedBody = \<lparr>bs_Data = [], bs_Err = Some ''http: read on closed response body''\<rparr>"

definition readBody :: "Pipeline \<Rightarrow> Response \<Rightarrow> Response \<times> (string, string option \<times> string) result" where
  "readBody p resp =
     (case hr_Body resp of
        None \<Rightarrow> (resp, Inr (None, ''body_unavailable''))
      | Some b \<Rightarrow>
          if TrimSpace (HeaderGet (hr_Header resp) ''Content-Encoding'') \<noteq> []
          then (resp, Inr (None, ''unsupported_content_encoding''))
          else if ec_MaxBodySize (pl_cfg p) < hr_ContentLength resp then (resp, Inr (None, ''body_too_large''))
          else (case limitedRead (int64 (ec_MaxBodySize (pl_cfg p) + 1)) b of
                  Inl e \<Rightarrow> (resp\<lparr>hr_Body := Some closedBody\<rparr>, Inl (''read_response_body: '' @ e))
                | Inr data \<Rightarrow>
                    if ec_MaxBodySize (pl_cfg p) < int (length data) then (resp, Inr (None, ''body_too_large''))
                    else (resp\<lparr>hr_Body := Some closedBody\<rparr>, Inr (Some data, []))))"

definition restore :: "header \<Rightarrow> string \<Rightarrow> bool \<Rightarrow> Response \<Rightarrow> Response" where
  "restore header body bodyLoaded resp =
     (let resp = resp\<lparr>hr_Header := header\<rparr> in if bodyLoaded then setResponseBody body resp else resp)"

subsection \<open>Applying the pipeline\<close>

definition eventFromMeta :: "string \<Rightarrow> string \<Rightarrow> string \<Rightarrow> ResponseMeta \<Rightarrow> Event" where
  "eventFromMeta action transform reason meta =
     \<lparr>ev_Action = action, ev_Transform = transform, ev_Reason = reason, ev_Provider = rm_Provider meta,
      ev_Host = rm_Host meta, ev_Path = rm_Path meta, ev_Status = rm_StatusCode meta\<rparr>"

record outcome =
  oc_pipe :: Pipeline
  oc_resp :: Response
  oc_events :: "Event list"
  oc_err :: "string option"

record loopState =
  ls_pipe :: Pipeline
  ls_resp :: Response
  ls_events :: "Event list"
  ls_body :: string
  ls_modified :: bool

record original =
  og_header :: header
  og_body :: string
  og_loaded :: bool
  og_meta :: ResponseMeta

definition addSkip :: "ResponseMeta \<Rightarrow> string \<Rightarrow> string \<Rightarrow> loopState \<Rightarrow> loopState" where
  "addSkip meta name reason st =
     st\<lparr>ls_pipe := (ls_pipe st)\<lparr>pl_skipped := pl_skipped (ls_pipe st) + 1\<rparr>,
        ls_events := ls_events st @ [eventFromMeta ''skip'' name reason meta]\<rparr>"

definition addApply :: "ResponseMeta \<Rightarrow> string \<Rightarrow> loopState \<Rightarrow> loopState" where
  "addApply meta name st =
     st\<lparr>ls_pipe := (ls_pipe st)\<lparr>pl_applied := pl_applied (ls_pipe st) + 1\<rparr>,
        ls_events := ls_events st @ [eventFromMeta ''apply'' name [] meta]\<rparr>"

definition failTransform :: "original \<Rightarrow> string \<Rightarrow> string \<Rightarrow> loopState \<Rightarrow> outcome" where
  "failTransform og name err st =
     (let p = (ls_pipe st)\<lparr>pl_errors := pl_errors (ls_pipe st) + 1\<rparr>;
          events = ls_events st @ [eventFromMeta ''error'' name err (og_meta og)] in
      if ec_OnError (pl_cfg p) = PageEnhanceFailClosed
      then \<lparr>oc_pipe = p, oc_resp = ls_resp st, oc_events = events, oc_err = Some err\<rparr>
      else \<lparr>oc_pipe = p, oc_resp = restore (og_header og) (og_body og) (og_loaded og) (ls_resp st), oc_events = events,
            oc_err = None\<rparr>)"

definition applyTransform :: "golib \<Rightarrow> original \<Rightarrow> Transform \<Rightarrow> loopState \<Rightarrow> (outcome, loopState) result option" where
  "applyTransform E og t st =
     (let (header, appliedHeader) = applyHeaders (hr_Header (ls_resp st)) t;
          st = st\<lparr>ls_resp := (ls_resp st)\<lparr>hr_Header := header\<rparr>\<rparr>;
          note = (\<lambda>applied st. if applied then addApply (og_meta og) (label t) st else st) in
      if og_loaded og \<and> hasBodyOps t
      then (case applyBodyTransform E (ls_body st) t of
              None \<Rightarrow> None
            | Some (Inl e) \<Rightarrow> Some (Inl (failTransform og (label t) e st))
            | Some (Inr (next, applied, reason)) \<Rightarrow>
                (let st = (if reason \<noteq> [] then addSkip (og_meta og) (label t) reason st else st);
                     st = (if applied then st\<lparr>ls_body := next, ls_modified := True\<rparr> else st)
                 in Some (Inr (note (appliedHeader \<or> applied) st))))
      else Some (Inr (note appliedHeader st)))"

primrec applyTransforms :: "golib \<Rightarrow> original \<Rightarrow> Transform list \<Rightarrow> loopState \<Rightarrow> (outcome, loopState) result option" where
  "applyTransforms E og [] st = Some (Inr st)"
| "applyTransforms E og (t # ts) st =
     (case applyTransform E og t st of
        None \<Rightarrow> None
      | Some (Inl oc) \<Rightarrow> Some (Inl oc)
      | Some (Inr st') \<Rightarrow> applyTransforms E og ts st')"

definition applyCustom :: "original \<Rightarrow> Transformer \<Rightarrow> loopState \<Rightarrow> (outcome, loopState) result" where
  "applyCustom og t st =
     (if tm_NeedsBody t \<and> \<not> og_loaded og then Inr st
      else (let (resp, r) = tm_Transform t (ls_resp st) (ls_body st) (og_meta og);
                st = st\<lparr>ls_resp := resp\<rparr>; name = transformerName t in
            case r of
              Inl e \<Rightarrow> Inl (failTransform og name e st)
            | Inr res \<Rightarrow>
                (let st = (if tx_SkipReason res \<noteq> [] then addSkip (og_meta og) name (tx_SkipReason res) st else st);
                     st = (if tx_BodyModified res then st\<lparr>ls_body := tx_Body res, ls_modified := True\<rparr> else st)
                 in Inr (if tx_Applied res then addApply (og_meta og) name st else st))))"

primrec applyCustoms :: "original \<Rightarrow> Transformer list \<Rightarrow> loopState \<Rightarrow> (outcome, loopState) result" where
  "applyCustoms og [] st = Inr st"
| "applyCustoms og (t # ts) st = rbind (applyCustom og t st) (applyCustoms og ts)"

definition finishBody :: "bool \<Rightarrow> loopState \<Rightarrow> Response" where
  "finishBody bodyLoaded st =
     (if ls_modified st
      then (let resp = setResponseBody (ls_body st) (ls_resp st)
            in resp\<lparr>hr_Header := HeaderDel ''Content-MD5'' (HeaderDel ''ETag'' (hr_Header resp))\<rparr>)
      else if bodyLoaded then setResponseBody (ls_body st) (ls_resp st)
      else ls_resp st)"

definition skipBodyOps :: "ResponseMeta \<Rightarrow> string \<Rightarrow> Transform list \<Rightarrow> Transformer list \<Rightarrow> loopState \<Rightarrow> loopState" where
  "skipBodyOps meta reason ts cts st =
     fold (\<lambda>t. addSkip meta (transformerName t) reason) (filter tm_NeedsBody cts)
       (fold (\<lambda>t. addSkip meta (label t) reason) (filter hasBodyOps ts) st)"

definition runTransforms ::
    "golib \<Rightarrow> original \<Rightarrow> Transform list \<Rightarrow> Transformer list \<Rightarrow> loopState \<Rightarrow> outcome option" where
  "runTransforms E og ts cts st =
     (case applyTransforms E og ts st of
        None \<Rightarrow> None
      | Some (Inl oc) \<Rightarrow> Some oc
      | Some (Inr st) \<Rightarrow>
          (case applyCustoms og cts st of
             Inl oc \<Rightarrow> Some oc
           | Inr st \<Rightarrow> Some \<lparr>oc_pipe = ls_pipe st, oc_resp = finishBody (og_loaded og) st, oc_events = ls_events st,
                            oc_err = None\<rparr>))"

definition firstOriginal :: "Response \<Rightarrow> ResponseMeta \<Rightarrow> original" where
  "firstOriginal resp meta = \<lparr>og_header = hr_Header resp, og_body = [], og_loaded = False, og_meta = meta\<rparr>"

definition firstState :: "Pipeline \<Rightarrow> Response \<Rightarrow> loopState" where
  "firstState p resp = \<lparr>ls_pipe = p, ls_resp = resp, ls_events = [], ls_body = [], ls_modified = False\<rparr>"

definition ApplyResponseWithMeta :: "golib \<Rightarrow> Pipeline \<Rightarrow> Response \<Rightarrow> ResponseMeta \<Rightarrow> outcome option" where
  "ApplyResponseWithMeta E p resp meta =
     (let meta = completeResponseMeta E resp meta;
          ts = matchingTransforms E p meta; cts = matchingCustomTransformers p meta;
          og = firstOriginal resp meta; st = firstState p resp in
      if \<not> ec_Enabled (pl_cfg p) \<or> (ts = [] \<and> cts = [])
      then Some \<lparr>oc_pipe = p, oc_resp = resp, oc_events = [], oc_err = None\<rparr>
      else if transformsNeedBody ts \<or> list_ex tm_NeedsBody cts
      then (case readBody p resp of
              (resp, Inl e) \<Rightarrow> Some (failTransform og [] e (st\<lparr>ls_resp := resp\<rparr>))
            | (resp, Inr (None, reason)) \<Rightarrow>
                runTransforms E og ts cts (skipBodyOps meta (if reason = [] then ''body_unavailable'' else reason) ts cts
                  (st\<lparr>ls_resp := resp\<rparr>))
            | (resp, Inr (Some body, _)) \<Rightarrow>
                runTransforms E (og\<lparr>og_body := body, og_loaded := True\<rparr>) ts cts (st\<lparr>ls_resp := resp, ls_body := body\<rparr>))
      else runTransforms E og ts cts st)"

subsection \<open>Counting\<close>

definition actions :: "string \<Rightarrow> Event list \<Rightarrow> 64 word" where
  "actions a events = of_nat (length (filter (\<lambda>e. ev_Action e = a) events))"

text \<open>The counters moved by the events logged, and the configuration did not change.\<close>

definition counted :: "Pipeline \<Rightarrow> Pipeline \<Rightarrow> Event list \<Rightarrow> bool" where
  "counted p p' events \<longleftrightarrow>
     pl_cfg p' = pl_cfg p \<and> pl_applied p' = pl_applied p + actions ''apply'' events \<and>
     pl_skipped p' = pl_skipped p + actions ''skip'' events \<and> pl_errors p' = pl_errors p + actions ''error'' events"

lemma counted_Nil [simp]: "counted p p []"
  by (simp add: counted_def actions_def)

lemma counted_steps:
  "counted p (ls_pipe st) (ls_events st) \<Longrightarrow>
     counted p (ls_pipe (addSkip meta name reason st)) (ls_events (addSkip meta name reason st))"
  "counted p (ls_pipe st) (ls_events st) \<Longrightarrow>
     counted p (ls_pipe (addApply meta name st)) (ls_events (addApply meta name st))"
  "counted p (ls_pipe st) (ls_events st) \<Longrightarrow>
     counted p (oc_pipe (failTransform og name reason st)) (oc_events (failTransform og name reason st))"
  by (simp_all add: counted_def actions_def addSkip_def addApply_def failTransform_def eventFromMeta_def Let_def)

lemma counted_fold:
  "counted p (ls_pipe st) (ls_events st) \<Longrightarrow>
     counted p (ls_pipe (fold (\<lambda>t. addSkip meta (name t) reason) ts st))
       (ls_events (fold (\<lambda>t. addSkip meta (name t) reason) ts st))"
  by (induction ts arbitrary: st) (simp_all add: counted_steps)

lemma counted_applyTransform:
  assumes "counted p (ls_pipe st) (ls_events st)"
  shows "applyTransform E og t st = Some (Inr st') \<Longrightarrow> counted p (ls_pipe st') (ls_events st')"
    and "applyTransform E og t st = Some (Inl oc) \<Longrightarrow> counted p (oc_pipe oc) (oc_events oc)"
  using assms
  by (auto simp: applyTransform_def Let_def counted_steps split: prod.splits if_splits option.splits sum.splits)

lemma counted_applyTransforms:
  assumes "counted p (ls_pipe st) (ls_events st)"
  shows "applyTransforms E og ts st = Some (Inr st') \<Longrightarrow> counted p (ls_pipe st') (ls_events st')"
    and "applyTransforms E og ts st = Some (Inl oc) \<Longrightarrow> counted p (oc_pipe oc) (oc_events oc)"
  using assms
  by (induction ts arbitrary: st)
    (auto split: option.splits sum.splits dest: counted_applyTransform)

lemma counted_applyCustom:
  assumes "counted p (ls_pipe st) (ls_events st)"
  shows "applyCustom og t st = Inr st' \<Longrightarrow> counted p (ls_pipe st') (ls_events st')"
    and "applyCustom og t st = Inl oc \<Longrightarrow> counted p (oc_pipe oc) (oc_events oc)"
  using assms
  by (auto simp: applyCustom_def Let_def counted_steps split: prod.splits if_splits sum.splits)

lemma counted_applyCustoms:
  assumes "counted p (ls_pipe st) (ls_events st)"
  shows "applyCustoms og ts st = Inr st' \<Longrightarrow> counted p (ls_pipe st') (ls_events st')"
    and "applyCustoms og ts st = Inl oc \<Longrightarrow> counted p (oc_pipe oc) (oc_events oc)"
  using assms
  by (induction ts arbitrary: st) (auto simp: res_simps dest: counted_applyCustom)

lemma counted_runTransforms:
  assumes "counted p (ls_pipe st) (ls_events st)" and "runTransforms E og ts cts st = Some oc"
  shows "counted p (oc_pipe oc) (oc_events oc)"
  using assms counted_applyCustoms(1)
  by (fastforce simp: runTransforms_def split: option.splits sum.splits dest: counted_applyTransforms counted_applyCustoms)

text \<open>The ways through \<open>ApplyResponseWithMeta\<close>.\<close>

lemma ApplyResponse_cases:
  assumes "ApplyResponseWithMeta E p resp meta = Some oc"
  obtains (idle) "oc = \<lparr>oc_pipe = p, oc_resp = resp, oc_events = [], oc_err = None\<rparr>"
  | (unreadable) m e resp' where "readBody p resp = (resp', Inl e)"
      and "oc = failTransform (firstOriginal resp m) [] e ((firstState p resp)\<lparr>ls_resp := resp'\<rparr>)"
  | (headers) m ts cts where "runTransforms E (firstOriginal resp m) ts cts (firstState p resp) = Some oc"
      and "ts = matchingTransforms E p m" and "cts = matchingCustomTransformers p m"
  | (skipping) m ts cts resp' reason reason' where "readBody p resp = (resp', Inr (None, reason))"
      and "runTransforms E (firstOriginal resp m) ts cts (skipBodyOps m reason' ts cts ((firstState p resp)\<lparr>ls_resp := resp'\<rparr>)) = Some oc"
      and "ts = matchingTransforms E p m" and "cts = matchingCustomTransformers p m"
  | (rewriting) m ts cts resp' body reason where "readBody p resp = (resp', Inr (Some body, reason))"
      and "runTransforms E ((firstOriginal resp m)\<lparr>og_body := body, og_loaded := True\<rparr>) ts cts
        ((firstState p resp)\<lparr>ls_resp := resp', ls_body := body\<rparr>) = Some oc"
      and "ts = matchingTransforms E p m" and "cts = matchingCustomTransformers p m"
proof -
  define m where "m = completeResponseMeta E resp meta"
  note eq = assms [unfolded ApplyResponseWithMeta_def Let_def, folded m_def]
  show ?thesis
  proof (cases "\<not> ec_Enabled (pl_cfg p) \<or> matchingTransforms E p m = [] \<and> matchingCustomTransformers p m = []")
    case True
    with eq idle show ?thesis by simp
  next
    case False
    note eq = eq [unfolded if_not_P [OF False]]
    show ?thesis
    proof (cases "transformsNeedBody (matchingTransforms E p m) \<or> list_ex tm_NeedsBody (matchingCustomTransformers p m)")
      case False
      from headers [OF eq [unfolded if_not_P [OF False]] refl refl] show ?thesis .
    next
      case True
      note eq = eq [unfolded if_P [OF True]]
      obtain resp' r where read: "readBody p resp = (resp', r)" by (cases "readBody p resp")
      show ?thesis
      proof (cases r)
        case (Inl e)
        with eq read show ?thesis by (intro unreadable) auto
      next
        case (Inr br)
        obtain b reason where "br = (b, reason)" by (cases br)
        with eq read Inr show ?thesis by (cases b) (auto intro: skipping rewriting)
      qed
    qed
  qed
qed

lemma ApplyResponse_counted:
  assumes "ApplyResponseWithMeta E p resp meta = Some oc"
  shows "counted p (oc_pipe oc) (oc_events oc)"
  using assms
proof (cases rule: ApplyResponse_cases)
  case (unreadable m e resp')
  then show ?thesis using counted_steps(3) by (simp add: firstState_def)
next
  case (skipping m ts cts resp' reason reason')
  then show ?thesis by (intro counted_runTransforms) (simp_all add: skipBodyOps_def counted_fold firstState_def)
next
  case (headers m ts cts)
  then show ?thesis by (intro counted_runTransforms) (simp_all add: firstState_def)
next
  case (rewriting m ts cts resp' body reason)
  show ?thesis by (rule counted_runTransforms [OF _ rewriting(2)]) (simp add: firstState_def)
qed simp

subsection \<open>Transforms and the response\<close>

definition sameButHeader :: "Response \<Rightarrow> Response \<Rightarrow> bool" where
  "sameButHeader r r' \<longleftrightarrow>
     hr_StatusCode r' = hr_StatusCode r \<and> hr_Body r' = hr_Body r \<and> hr_ContentLength r' = hr_ContentLength r \<and>
     hr_Path r' = hr_Path r"

text \<open>A transform changes the header of the response, the body only if it was loaded, and logs no error.\<close>

definition transformed :: "bool \<Rightarrow> loopState \<Rightarrow> loopState \<Rightarrow> bool" where
  "transformed loaded st st' \<longleftrightarrow>
     sameButHeader (ls_resp st) (ls_resp st') \<and> pl_cfg (ls_pipe st') = pl_cfg (ls_pipe st) \<and>
     (loaded \<or> ls_modified st' = ls_modified st) \<and>
     (\<exists>new. ls_events st' = ls_events st @ new \<and> list_all (\<lambda>e. ev_Action e \<noteq> ''error'') new)"

lemma transformed_refl [simp]: "transformed loaded st st"
  by (simp add: transformed_def sameButHeader_def)

lemma transformed_trans: "transformed l st st' \<Longrightarrow> transformed l st' st'' \<Longrightarrow> transformed l st st''"
proof -
  assume 1: "transformed l st st'" and 2: "transformed l st' st''"
  have "sameButHeader (ls_resp st) (ls_resp st'')"
    using 1 2 by (simp add: transformed_def sameButHeader_def)
  moreover have "\<exists>new. ls_events st'' = ls_events st @ new \<and> list_all (\<lambda>e. ev_Action e \<noteq> ''error'') new"
  proof -
    obtain new new' where "ls_events st' = ls_events st @ new" "list_all (\<lambda>e. ev_Action e \<noteq> ''error'') new"
      "ls_events st'' = ls_events st' @ new'" "list_all (\<lambda>e. ev_Action e \<noteq> ''error'') new'"
      using 1 2 by (auto simp: transformed_def)
    then show ?thesis by (intro exI [of _ "new @ new'"]) simp
  qed
  ultimately show ?thesis using 1 2 by (auto simp: transformed_def)
qed

lemma transformed_steps:
  "transformed l st (addSkip meta name reason st)" "transformed l st (addApply meta name st)"
  "transformed l st (st\<lparr>ls_resp := (ls_resp st)\<lparr>hr_Header := h\<rparr>\<rparr>)"
  "transformed True st (st\<lparr>ls_body := b, ls_modified := m\<rparr>)"
  by (auto simp: transformed_def sameButHeader_def addSkip_def addApply_def eventFromMeta_def)

lemma transformed_fold: "transformed l st (fold (\<lambda>t. addSkip meta (name t) reason) ts st)"
  by (induction ts arbitrary: st) (auto intro: transformed_trans transformed_steps(1))

lemma applyTransform_Inr:
  assumes "applyTransform E og t st = Some (Inr st')"
  shows "transformed (og_loaded og) st st'"
proof -
  obtain h applied where h: "applyHeaders (hr_Header (ls_resp st)) t = (h, applied)" by fastforce
  let ?st = "st\<lparr>ls_resp := (ls_resp st)\<lparr>hr_Header := h\<rparr>\<rparr>"
  have start: "transformed (og_loaded og) st ?st" by (rule transformed_steps(3))
  have "transformed (og_loaded og) ?st st'"
    using assms h
    by (auto simp: applyTransform_def Let_def split: if_splits option.splits sum.splits prod.splits
      intro: transformed_steps transformed_trans [OF transformed_steps(1)] transformed_trans [OF transformed_steps(4)]
        transformed_trans [OF transformed_steps(1) transformed_trans [OF transformed_steps(4)]])
  with start show ?thesis by (rule transformed_trans)
qed

lemma applyTransform_Inl:
  assumes "applyTransform E og t st = Some (Inl oc)"
  shows "og_loaded og \<and> (\<exists>name e st'. oc = failTransform og name e st' \<and> transformed True st st')"
  using assms
  by (auto simp: applyTransform_def Let_def split: if_splits option.splits sum.splits prod.splits)
    (use transformed_steps(3) in blast)+

lemma applyTransforms_Inr:
  "applyTransforms E og ts st = Some (Inr st') \<Longrightarrow> transformed (og_loaded og) st st'"
  by (induction ts arbitrary: st)
    (auto split: option.splits sum.splits dest: applyTransform_Inr intro: transformed_trans)

lemma applyTransforms_Inl:
  "applyTransforms E og ts st = Some (Inl oc) \<Longrightarrow>
     og_loaded og \<and> (\<exists>name e st'. oc = failTransform og name e st' \<and> transformed True st st')"
proof (induction ts arbitrary: st)
  case (Cons t ts)
  then consider (now) "applyTransform E og t st = Some (Inl oc)"
    | (later) st1 where "applyTransform E og t st = Some (Inr st1)" "applyTransforms E og ts st1 = Some (Inl oc)"
    by (auto split: option.splits sum.splits)
  then show ?case
  proof cases
    case now
    then show ?thesis by (rule applyTransform_Inl)
  next
    case later
    with Cons.IH have "og_loaded og" "\<exists>name e st'. oc = failTransform og name e st' \<and> transformed True st1 st'" by auto
    with applyTransform_Inr [OF later(1)] show ?thesis using transformed_trans by fastforce
  qed
qed simp

lemma runTransforms_cases:
  assumes "runTransforms E og ts [] st = Some oc"
  obtains (failed) name e st' where "og_loaded og" and "oc = failTransform og name e st'" and "transformed True st st'"
  | (finished) st' where "transformed (og_loaded og) st st'"
      and "oc = \<lparr>oc_pipe = ls_pipe st', oc_resp = finishBody (og_loaded og) st', oc_events = ls_events st', oc_err = None\<rparr>"
  using assms
  by (auto simp: runTransforms_def split: option.splits sum.splits dest: applyTransforms_Inr applyTransforms_Inl)

lemma runTransforms_error:
  assumes "runTransforms E og ts [] st = Some oc"
    and "ls_events st = [] \<or> \<not> og_loaded og" and "list_all (\<lambda>e. ev_Action e \<noteq> ''error'') (ls_events st)"
  shows "oc_err oc = None \<and> list_all (\<lambda>e. ev_Action e \<noteq> ''error'') (oc_events oc) \<or>
    og_loaded og \<and> (\<exists>name e st'. oc = failTransform og name e st' \<and> transformed True st st')"
  using assms(1)
proof (cases rule: runTransforms_cases)
  case (finished st')
  then show ?thesis using assms(3) by (auto simp: transformed_def)
qed blast

lemma runTransforms_unloaded:
  assumes "runTransforms E (firstOriginal resp m) ts [] st = Some oc" and "transformed False (firstState p resp) st"
  shows "hr_Body (oc_resp oc) = hr_Body resp \<and> hr_ContentLength (oc_resp oc) = hr_ContentLength resp"
  using assms(1)
proof (cases rule: runTransforms_cases)
  case (finished st')
  with assms(2) have "transformed False (firstState p resp) st'"
    using transformed_trans by (simp add: firstOriginal_def)
  with finished show ?thesis
    by (simp add: transformed_def sameButHeader_def firstState_def finishBody_def firstOriginal_def)
qed (simp add: firstOriginal_def)

lemma matchingCustom_none: "ec_CustomTransformers (pl_cfg p) = [] \<Longrightarrow> matchingCustomTransformers p m = []"
  by (simp add: matchingCustomTransformers_def map_filter_def)

lemma other_headers:
  "CanonicalMIMEHeaderKey ''Content-Length'' \<noteq> CanonicalMIMEHeaderKey ''ETag''"
  "CanonicalMIMEHeaderKey ''Content-Length'' \<noteq> CanonicalMIMEHeaderKey ''Content-MD5''"
  by code_simp+

subsection \<open>Reading a body\<close>

lemma int64_small: "0 \<le> i \<Longrightarrow> i < 2 ^ 63 \<Longrightarrow> int64 i = i"
  unfolding int64_def sint_sbintrunc' by (rule signed_take_bit_int_eq_self) simp_all

lemma readBody_complete:
  assumes "hr_Body resp = Some \<lparr>bs_Data = data, bs_Err = None\<rparr>"
    and "0 < ec_MaxBodySize (pl_cfg p)" and "ec_MaxBodySize (pl_cfg p) < 2 ^ 63 - 1"
  shows "readBody p resp = (resp', Inl e) \<longleftrightarrow> False"
    and "readBody p resp = (resp', Inr (None, reason)) \<Longrightarrow> resp' = resp"
    and "readBody p resp = (resp', Inr (Some body, reason)) \<Longrightarrow>
      resp' = resp\<lparr>hr_Body := Some closedBody\<rparr> \<and> body = data \<and> int (length data) \<le> ec_MaxBodySize (pl_cfg p)"
  using assms
  by (auto simp: readBody_def limitedRead_def int64_small split: if_splits)

subsection \<open>Inserting before a tag\<close>

lemma Index_first: "Index s t = Some i \<Longrightarrow> j < i \<Longrightarrow> \<not> prefix t (drop j s)"
proof (induction s t arbitrary: i j rule: Index.induct)
  case (2 c s t)
  then show ?case by (cases j) (auto split: if_splits)
qed (auto split: if_splits)

lemma insertBeforeFold_ascii:
  assumes "list_all isAscii body" and "list_all isAscii marker"
  shows "insertBeforeFold E body marker ins =
    (case Index (map lowerAscii body) (map lowerAscii marker) of
       None \<Rightarrow> Some (body, False)
     | Some i \<Rightarrow> Some (take i body @ ins @ drop i body, True))"
  using assms Index_Some [of "map lowerAscii body" "map lowerAscii marker"]
  by (auto simp: insertBeforeFold_def ToLower_def split: option.splits)

lemma ApplyResponse_restores:
  assumes "ApplyResponseWithMeta E p resp meta = Some oc"
    and "ec_OnError (pl_cfg p) \<noteq> PageEnhanceFailClosed" and "ec_CustomTransformers (pl_cfg p) = []"
    and "0 < ec_MaxBodySize (pl_cfg p)" and "ec_MaxBodySize (pl_cfg p) < 2 ^ 63 - 1"
    and "hr_Body resp = Some \<lparr>bs_Data = data, bs_Err = None\<rparr>"
  shows "oc_err oc = None \<and>
    (list_ex (\<lambda>e. ev_Action e = ''error'') (oc_events oc) \<longrightarrow>
       hr_StatusCode (oc_resp oc) = hr_StatusCode resp \<and> hr_Body (oc_resp oc) = hr_Body resp \<and>
       hr_ContentLength (oc_resp oc) = int (length data) \<and>
       (\<forall>k. CanonicalMIMEHeaderKey k \<noteq> CanonicalMIMEHeaderKey ''Content-Length'' \<longrightarrow>
          HeaderValues (hr_Header (oc_resp oc)) k = HeaderValues (hr_Header resp) k))"
proof -
  note no_custom = matchingCustom_none [OF assms(3)]
  note read = readBody_complete [OF assms(6,4,5)]
  have quiet: "list_all (\<lambda>e. ev_Action e \<noteq> ''error'') (ls_events (skipBodyOps m reason ts [] (firstState p resp)))"
    for m reason ts
    using transformed_fold [of False "firstState p resp" m label reason]
    by (auto simp: skipBodyOps_def transformed_def firstState_def)
  have unloaded: ?thesis if "runTransforms E (firstOriginal resp m) ts [] st = Some oc"
    and "list_all (\<lambda>e. ev_Action e \<noteq> ''error'') (ls_events st)" for m ts st
    using runTransforms_error [OF that(1) _ that(2)] by (auto simp: firstOriginal_def list_all_iff list_ex_iff)
  from assms(1) show ?thesis
  proof (cases rule: ApplyResponse_cases)
    case (unreadable m e resp')
    then show ?thesis using read(1) by blast
  next
    case (headers m ts cts)
    then show ?thesis using unloaded by (simp add: no_custom firstState_def)
  next
    case (skipping m ts cts resp' reason reason')
    then have "resp' = resp" using read(2) by blast
    with skipping have "runTransforms E (firstOriginal resp m) ts [] (skipBodyOps m reason' ts [] (firstState p resp)) = Some oc"
      by (simp add: no_custom firstState_def)
    then show ?thesis using quiet by (rule unloaded)
  next
    case (rewriting m ts cts resp' body reason)
    note body = read(3) [OF rewriting(1)]
    let ?og = "(firstOriginal resp m)\<lparr>og_body := body, og_loaded := True\<rparr>"
    let ?st = "(firstState p resp)\<lparr>ls_resp := resp', ls_body := body\<rparr>"
    have run: "runTransforms E ?og ts [] ?st = Some oc" using rewriting no_custom by simp
    have start: "ls_events ?st = []" by (simp add: firstState_def)
    consider "oc_err oc = None \<and> list_all (\<lambda>e. ev_Action e \<noteq> ''error'') (oc_events oc)"
      | (failed) name e st' where "oc = failTransform ?og name e st'" and "transformed True ?st st'"
      using runTransforms_error [OF run disjI1 [OF start]] unfolding start by fastforce
    then show ?thesis
    proof cases
      case (failed name e st')
      then have "hr_StatusCode (ls_resp st') = hr_StatusCode resp" "pl_cfg (ls_pipe st') = pl_cfg p"
        using body by (auto simp: transformed_def sameButHeader_def firstState_def)
      with failed body assms(2,6) show ?thesis
        by (auto simp: failTransform_def Let_def restore_def setResponseBody_def firstOriginal_def)
    qed (auto simp: list_all_iff list_ex_iff)
  qed simp
qed

subsection \<open>Properties\<close>

text \<open>
  In an ASCII body, the text goes right before the first occurrence of the tag in either
  case, and nothing else changes; without an occurrence the body stays as it is.
\<close>

theorem insertBeforeFold_correct:
  assumes "list_all isAscii body" and "list_all isAscii marker"
  shows "(\<exists>a m b. body = a @ m @ b \<and> map lowerAscii m = map lowerAscii marker \<and>
      (\<forall>j < length a. \<not> prefix (map lowerAscii marker) (map lowerAscii (drop j body))) \<and>
      insertBeforeFold E body marker ins = Some (a @ ins @ m @ b, True)) \<or>
    \<not> sublist (map lowerAscii marker) (map lowerAscii body) \<and> insertBeforeFold E body marker ins = Some (body, False)"
proof (cases "Index (map lowerAscii body) (map lowerAscii marker)")
  case None
  then have "insertBeforeFold E body marker ins = Some (body, False)" by (simp add: insertBeforeFold_ascii [OF assms])
  with None show ?thesis by (simp add: Index_None_iff)
next
  case (Some i)
  let ?a = "take i body" and ?m = "take (length marker) (drop i body)" and ?b = "drop (length marker) (drop i body)"
  have pre: "prefix (map lowerAscii marker) (map lowerAscii (drop i body))" "i \<le> length body"
    using Index_Some [OF Some] by (simp_all add: drop_map)
  then have "map lowerAscii ?m = map lowerAscii marker"
    by (metis append_eq_conv_conj length_map prefix_def take_map)
  moreover have "\<forall>j < length ?a. \<not> prefix (map lowerAscii marker) (map lowerAscii (drop j body))"
    using Index_first [OF Some] pre(2) by (simp add: drop_map)
  moreover have "body = ?a @ ?m @ ?b" by (metis append_take_drop_id)
  moreover have "insertBeforeFold E body marker ins = Some (?a @ ins @ ?m @ ?b, True)"
    using Some by (simp only: insertBeforeFold_ascii [OF assms] option.case append_take_drop_id)
  ultimately show ?thesis by blast
qed

theorem insertBeforeFold_correct_witness:
  "insertBeforeFold sampleLib ''<HEAD></Head></head>'' ''</head>'' ''<x>'' = Some (''<HEAD><x></Head></head>'', True)"
proof -
  have "list_all isAscii ''<HEAD></Head></head>''" "list_all isAscii ''</head>''" by code_simp+
  note insertBeforeFold_correct [OF this, of sampleLib "''<x>''"]
  moreover have "insertBeforeFold sampleLib ''<HEAD></Head></head>'' ''</head>'' ''<x>'' =
      Some (''<HEAD><x></Head></head>'', True)" by code_simp
  ultimately show ?thesis by simp
qed


text \<open>A transform that fails: a replacement of the empty string.\<close>

definition failingTransform :: Transform where
  "failingTransform = \<lparr>tf_Name = ''t'', tf_Match = \<lparr>mt_Providers = [], mt_Hosts = [], mt_PathPrefixes = [],
       mt_ContentTypes = [], mt_StatusCodes = []\<rparr>,
     tf_HeaderSet = [(''X-A'', ''1'')], tf_HeaderRemove = [''Server''], tf_InjectHead = [], tf_InjectBody = [],
     tf_Replace = [\<lparr>rl_Old = ''b'', rl_New = ''c'', rl_Count = 0\<rparr>, \<lparr>rl_Old = [], rl_New = [], rl_Count = 0\<rparr>]\<rparr>"

definition samplePipeline :: "Transform list \<Rightarrow> Pipeline" where
  "samplePipeline ts = New \<lparr>ec_Enabled = True, ec_OnError = [], ec_MaxBodySize = 0, ec_Assets = [], ec_Transforms = ts,
     ec_CustomTransformers = []\<rparr>"

definition sampleResponse :: "string \<Rightarrow> Response" where
  "sampleResponse body = \<lparr>hr_StatusCode = 200, hr_Header = [(''Server'', [''s''])],
     hr_Body = Some \<lparr>bs_Data = body, bs_Err = None\<rparr>, hr_ContentLength = -1, hr_Path = Some ''/''\<rparr>"

definition sampleMeta :: ResponseMeta where
  "sampleMeta = \<lparr>rm_Provider = ''steam'', rm_Host = ''h'', rm_Path = [], rm_ContentType = [], rm_StatusCode = 0\<rparr>"

lemma sample_readBody:
  "readBody (samplePipeline ts) (sampleResponse ''abc'') =
     ((sampleResponse ''abc'')\<lparr>hr_Body := Some closedBody\<rparr>, Inr (Some ''abc'', []))"
proof -
  have "TrimSpace (HeaderGet [(''Server'', [''s''])] ''Content-Encoding'') = []" by code_simp
  then show ?thesis
    by (simp add: readBody_def sampleResponse_def samplePipeline_def New_def limitedRead_def int64_small)
qed

lemma sample_failing:
  assumes "og_loaded og"
  shows "\<exists>st'. applyTransform E og failingTransform st = Some (Inl (failTransform og ''t'' ''replace old value is required'' st')) \<and>
    ls_pipe st' = ls_pipe st"
proof -
  have "applyBodyTransform E body failingTransform = Some (Inl ''replace old value is required'')" for body
    by (simp add: applyBodyTransform_def injectStep_def failingTransform_def Let_def split_beta)
  moreover have "hasBodyOps failingTransform" "label failingTransform = ''t''"
    by (simp add: hasBodyOps_def failingTransform_def, code_simp)
  ultimately show ?thesis using assms
    by (intro exI [of _ "st\<lparr>ls_resp := (ls_resp st)\<lparr>hr_Header := fst (applyHeaders (hr_Header (ls_resp st)) failingTransform)\<rparr>\<rparr>"])
      (simp add: applyTransform_def Let_def split_beta)
qed

lemma sample_run:
  obtains oc where "ApplyResponseWithMeta sampleLib (samplePipeline [failingTransform]) (sampleResponse ''abc'') sampleMeta = Some oc"
    and "pl_errors (oc_pipe oc) = 1" and "list_ex (\<lambda>e. ev_Action e = ''error'') (oc_events oc)"
proof -
  let ?p = "samplePipeline [failingTransform]"
  have matching: "matchingTransforms sampleLib ?p m = [failingTransform]" "matchingCustomTransformers ?p m = []" for m
    by (simp_all add: matchingTransforms_def matchingCustomTransformers_def samplePipeline_def New_def Let_def matches_def
      failingTransform_def map_filter_def)
  let ?m = "completeResponseMeta sampleLib (sampleResponse ''abc'') sampleMeta"
  let ?og = "(firstOriginal (sampleResponse ''abc'') ?m)\<lparr>og_body := ''abc'', og_loaded := True\<rparr>"
  let ?st = "(firstState ?p (sampleResponse ''abc''))\<lparr>ls_resp := (sampleResponse ''abc'')\<lparr>hr_Body := Some closedBody\<rparr>,
    ls_body := ''abc''\<rparr>"
  obtain st' where st': "applyTransform sampleLib ?og failingTransform ?st =
      Some (Inl (failTransform ?og ''t'' ''replace old value is required'' st'))" "ls_pipe st' = ?p"
    using sample_failing [of ?og sampleLib ?st] by (auto simp: firstState_def)
  let ?oc = "failTransform ?og ''t'' ''replace old value is required'' st'"
  have "ec_Enabled (pl_cfg ?p)" "transformsNeedBody [failingTransform]"
    by (simp_all add: samplePipeline_def New_def Let_def transformsNeedBody_def hasBodyOps_def failingTransform_def)
  then have "ApplyResponseWithMeta sampleLib ?p (sampleResponse ''abc'') sampleMeta = Some ?oc"
    by (simp add: ApplyResponseWithMeta_def Let_def matching sample_readBody runTransforms_def st'(1))
  moreover have "pl_errors (oc_pipe ?oc) = 1" "list_ex (\<lambda>e. ev_Action e = ''error'') (oc_events ?oc)"
    using st'(2) by (simp_all add: failTransform_def Let_def eventFromMeta_def samplePipeline_def New_def)
  ultimately show ?thesis by (rule that)
qed

lemma sample_config:
  "ec_OnError (pl_cfg (samplePipeline ts)) \<noteq> PageEnhanceFailClosed" "ec_CustomTransformers (pl_cfg (samplePipeline ts)) = []"
  "0 < ec_MaxBodySize (pl_cfg (samplePipeline ts))" "ec_MaxBodySize (pl_cfg (samplePipeline ts)) < 2 ^ 63 - 1"
  "hr_Body (sampleResponse body) = Some \<lparr>bs_Data = body, bs_Err = None\<rparr>"
  "pl_errors (samplePipeline ts) = 0"
  by (simp_all add: samplePipeline_def New_def Let_def sampleResponse_def)


text \<open>
  C40. A body is replaced only if it was read completely and is within the configured size; the
  length of the response and its \<^verbatim>\<open>Content-Length\<close> are then those of the new body.
  Otherwise body and length are untouched.  The events returned are counted once each.
\<close>

theorem rewritten_within_bound:
  assumes "ApplyResponseWithMeta E p resp meta = Some oc" and "oc_err oc = None"
    and "ec_CustomTransformers (pl_cfg p) = []"
    and "0 < ec_MaxBodySize (pl_cfg p)" and "ec_MaxBodySize (pl_cfg p) < 2 ^ 63 - 1"
    and "hr_Body resp = Some \<lparr>bs_Data = data, bs_Err = None\<rparr>"
  shows "(hr_Body (oc_resp oc) = hr_Body resp \<and> hr_ContentLength (oc_resp oc) = hr_ContentLength resp \<or>
      int (length data) \<le> ec_MaxBodySize (pl_cfg p) \<and>
      (\<exists>body. hr_Body (oc_resp oc) = Some \<lparr>bs_Data = body, bs_Err = None\<rparr> \<and>
         hr_ContentLength (oc_resp oc) = int (length body) \<and>
         HeaderValues (hr_Header (oc_resp oc)) ''Content-Length'' = [Itoa (int (length body))])) \<and>
    counted p (oc_pipe oc) (oc_events oc)"
proof -
  note no_custom = matchingCustom_none [OF assms(3)]
  note read = readBody_complete [OF assms(6,4,5)]
  note untouched = runTransforms_unloaded
  have "hr_Body (oc_resp oc) = hr_Body resp \<and> hr_ContentLength (oc_resp oc) = hr_ContentLength resp \<or>
      int (length data) \<le> ec_MaxBodySize (pl_cfg p) \<and>
      (\<exists>body. hr_Body (oc_resp oc) = Some \<lparr>bs_Data = body, bs_Err = None\<rparr> \<and>
         hr_ContentLength (oc_resp oc) = int (length body) \<and>
         HeaderValues (hr_Header (oc_resp oc)) ''Content-Length'' = [Itoa (int (length body))])"
    using assms(1)
  proof (cases rule: ApplyResponse_cases)
    case (unreadable m e resp')
    then show ?thesis using read(1) by blast
  next
    case (headers m ts cts)
    then show ?thesis using untouched [of E resp m ts "firstState p resp" oc p] by (simp add: no_custom)
  next
    case (skipping m ts cts resp' reason reason')
    then have "resp' = resp" using read(2) by blast
    with skipping have "runTransforms E (firstOriginal resp m) ts [] (skipBodyOps m reason' ts [] (firstState p resp)) = Some oc"
      by (simp add: no_custom firstState_def)
    from untouched [OF this, of p] show ?thesis by (simp add: skipBodyOps_def transformed_fold)
  next
    case (rewriting m ts cts resp' body reason)
    note body = read(3) [OF rewriting(1)]
    have "runTransforms E ((firstOriginal resp m)\<lparr>og_body := body, og_loaded := True\<rparr>) ts []
        ((firstState p resp)\<lparr>ls_resp := resp', ls_body := body\<rparr>) = Some oc"
      using rewriting no_custom by simp
    then show ?thesis
    proof (cases rule: runTransforms_cases)
      case (failed name e st')
      with assms(2) body show ?thesis
        by (auto simp: failTransform_def Let_def restore_def setResponseBody_def firstOriginal_def split: if_splits)
    next
      case (finished st')
      with body show ?thesis by (auto simp: finishBody_def setResponseBody_def Let_def other_headers)
    qed
  qed simp
  with ApplyResponse_counted [OF assms(1)] show ?thesis by blast
qed

theorem rewritten_within_bound_witness:
  "\<exists>oc. ApplyResponseWithMeta sampleLib (samplePipeline [failingTransform]) (sampleResponse ''abc'') sampleMeta = Some oc \<and>
     oc_err oc = None \<and> pl_errors (oc_pipe oc) = actions ''error'' (oc_events oc)"
proof -
  obtain oc where oc: "ApplyResponseWithMeta sampleLib (samplePipeline [failingTransform]) (sampleResponse ''abc'') sampleMeta = Some oc"
    "pl_errors (oc_pipe oc) = 1" "list_ex (\<lambda>e. ev_Action e = ''error'') (oc_events oc)"
    by (rule sample_run)
  have "oc_err oc = None"
    using ApplyResponse_restores [OF oc(1) sample_config(1-5)] by simp
  with rewritten_within_bound [OF oc(1) _ sample_config(2-5)] oc(1) show ?thesis
    by (auto simp: counted_def sample_config)
qed

text \<open>
  Lower-casing can lengthen the text (the letter A with a stroke takes two bytes, its lower case
  three), and the index found there is used in the original: the text lands inside the tag, and
  past enough such letters the index is out of range.
\<close>

lemma insertion_shifted:
  assumes "unicode_ToLower E ([CHR 0xC8, CHR 0xBA] @ ''</head>'') = [CHR 0xE2, CHR 0xB1, CHR 0xA5] @ ''</head>''"
  shows "insertBeforeFold E ([CHR 0xC8, CHR 0xBA] @ ''</head>'') ''</head>'' ''X'' =
    Some ([CHR 0xC8, CHR 0xBA] @ ''<X/head>'', True)"
  using assms by (simp add: insertBeforeFold_def ToLower_def isAscii_def lowerAscii_code numeral_eq_Suc)

lemma insertion_panics:
  assumes "unicode_ToLower E (concat (replicate 8 [CHR 0xC8, CHR 0xBA]) @ ''</head>'') =
    concat (replicate 8 [CHR 0xE2, CHR 0xB1, CHR 0xA5]) @ ''</head>''"
  shows "insertBeforeFold E (concat (replicate 8 [CHR 0xC8, CHR 0xBA]) @ ''</head>'') ''</head>'' ins = None"
  using assms by (simp add: insertBeforeFold_def ToLower_def isAscii_def lowerAscii_code numeral_eq_Suc)

text \<open>With the largest size, the limit of the reader overflows and every body reads as empty.\<close>

lemma largest_size_empties_body:
  assumes "hr_Body resp = Some b" and "TrimSpace (HeaderGet (hr_Header resp) ''Content-Encoding'') = []"
    and "hr_ContentLength resp \<le> 2 ^ 63 - 1" and "ec_MaxBodySize (pl_cfg p) = 2 ^ 63 - 1"
  shows "readBody p resp = (resp\<lparr>hr_Body := Some closedBody\<rparr>, Inr (Some [], []))"
proof -
  have "int64 (2 ^ 63) = - (2 ^ 63)" by (simp add: int64_def)
  then show ?thesis using assms by (simp add: readBody_def limitedRead_def)
qed

end
