(* ===== verification/Diagnostics.thy ===== *)
theory Diagnostics
  imports Upstream
begin

section \<open>Package diagnostics: error texts for clients and logs\<close>

text \<open>
  \<^verbatim>\<open>internal/diagnostics/upstream.go\<close>.  \<^verbatim>\<open>strings.Map\<close> keeps valid UTF-8 and
  replaces invalid bytes; \<open>repair\<close> is that replacement, a parameter.
\<close>

definition singleLine :: "char \<Rightarrow> char" where
  "singleLine c = (if c \<in> {CR, LF, CHR 0x09} then CHR '' '' else c)"

definition UpstreamErrorMessage :: "(string \<Rightarrow> string) \<Rightarrow> string option \<Rightarrow> string" where
  "UpstreamErrorMessage repair err =
     (case err of
        None \<Rightarrow> ''unknown error''
      | Some text \<Rightarrow>
          (let msg = map singleLine (repair (TrimSpace text));
               msg = (if 1200 < length msg then take 1200 msg @ ''...'' else msg)
           in if msg = [] then ''unknown error'' else msg))"

datatype attr = AStr string | AInt nat

text \<open>The argument is the direct dial error in the chain of the error, if there is one.\<close>

definition errorStage :: "DirectDialError \<Rightarrow> string \<times> string" where
  "errorStage e =
     (if de_ResolveErr e \<noteq> None then (''resolve'', de_Host e @ '':'' @ de_Port e)
      else if de_Attempts e \<noteq> [] then
        (let a = last (de_Attempts e)
         in (if da_Stage a = [] then ''tcp'' else da_Stage a, if da_Target a \<noteq> [] then da_Target a else da_Address a))
      else (''dial'', []))"

definition UpstreamErrorAttrs :: "DirectDialError option \<Rightarrow> (string \<times> attr) list" where
  "UpstreamErrorAttrs err =
     (case err of
        None \<Rightarrow> []
      | Some e \<Rightarrow>
          (let (stage, target) = errorStage e in
           [(''upstream_error_type'', AStr ''direct''), (''upstream_host'', AStr (de_Host e)),
            (''upstream_port'', AStr (de_Port e)), (''upstream_error_stage'', AStr stage),
            (''upstream_attempts'', AInt (length (de_Attempts e)))] @
           (if target \<noteq> [] then [(''upstream_target'', AStr target)] else [])))"

definition oneLine :: "char \<Rightarrow> bool" where
  "oneLine c \<longleftrightarrow> c \<noteq> CR \<and> c \<noteq> LF \<and> c \<noteq> CHR 0x09"

lemma oneLine_singleLine: "oneLine (singleLine c)"
  by (auto simp: singleLine_def oneLine_def CR_def LF_def)

lemma oneLine_map: "list_all oneLine (map singleLine s)" "list_all oneLine (take n (map singleLine s))"
  using oneLine_singleLine by (auto simp: list_all_iff take_map)

text \<open>
  An error message is never empty, takes one line, and is at most 1203 bytes long.
\<close>

theorem UpstreamErrorMessage_bounded:
  "UpstreamErrorMessage repair err \<noteq> [] \<and> length (UpstreamErrorMessage repair err) \<le> 1203 \<and>
   list_all oneLine (UpstreamErrorMessage repair err)"
proof (cases err)
  case None
  then show ?thesis by (simp add: UpstreamErrorMessage_def oneLine_def CR_def LF_def)
next
  case (Some msg)
  define m where "m = map singleLine (repair (TrimSpace msg))"
  have "list_all oneLine m" "list_all oneLine (take 1200 m)" using oneLine_map by (auto simp: m_def)
  moreover have "list_all oneLine ''...''" "list_all oneLine ''unknown error''"
    by (simp_all add: oneLine_def CR_def LF_def)
  ultimately show ?thesis by (simp add: UpstreamErrorMessage_def Some Let_def m_def [symmetric])
qed

end
