(* ===== verification/Proxy.thy ===== *)
theory Proxy
  imports Config GoHTTP Diagnostics Lifecycle
begin

section \<open>Package proxy: the forward proxy\<close>

text \<open>
  \<^verbatim>\<open>internal/proxy/server.go\<close>.  A handler returns the response written and the
  actions it took on the network in order, so that what it must not do can be stated.  The
  dialer, the transport of \<^verbatim>\<open>net/http\<close> and the hijacking of the connection are
  parameters.  Logging, the copying goroutines of a tunnel and timeouts are left out.
\<close>

subsection \<open>Data\<close>

record proxyServerConfig =
  xc_ListenAddr :: string
  xc_NonTargetBehavior :: string
  xc_ReadHeaderTimeout :: Duration
  xc_IdleTimeout :: Duration
  xc_ShutdownTimeout :: Duration

record Server =
  xs_cfg :: proxyServerConfig
  xs_matcher :: Matcher
  xs_server :: "string option"
  xs_addr :: string
  xs_activeConns :: int

datatype proxy_start_error = ProxyAlreadyStarted | ProxyListen string string

datatype proxyAction =
    DialTCP string
  | SendRequest httpRequest
  | Hijack
  | WriteEstablished
  | Tunnel string
  | CloseUpstream
  | CloseClient

text \<open>Hijacking is refused, fails, or gives the number of buffered bytes and whether writing and flushing succeed.\<close>

datatype hijacking = NoHijacker | HijackFailed | Hijacked nat bool bool

record proxyEnv =
  xe_Dial :: "string \<Rightarrow> (string, unit) result"
  xe_RoundTrip :: "httpRequest \<Rightarrow> (string, Response) result"
  xe_Hijack :: hijacking
  xe_repair :: "string \<Rightarrow> string"

definition ConfigFromApp :: "Config \<Rightarrow> proxyServerConfig" where
  "ConfigFromApp cfg =
     \<lparr>xc_ListenAddr = px_ListenAddr (c_Proxy cfg), xc_NonTargetBehavior = px_NonTargetBehavior (c_Proxy cfg),
      xc_ReadHeaderTimeout = px_ReadHeaderTimeout (c_Proxy cfg), xc_IdleTimeout = px_IdleTimeout (c_Proxy cfg),
      xc_ShutdownTimeout = px_ShutdownTimeout (c_Proxy cfg)\<rparr>"

definition New :: "proxyServerConfig \<Rightarrow> Matcher \<Rightarrow> Server" where
  "New cfg m = \<lparr>xs_cfg = cfg, xs_matcher = m, xs_server = None, xs_addr = [], xs_activeConns = 0\<rparr>"

subsection \<open>Starting and stopping\<close>

definition Start :: "(string \<Rightarrow> (string, string) result) \<Rightarrow> Server \<Rightarrow> (proxy_start_error, unit) result \<times> Server" where
  "Start listen s =
     (if xs_server s \<noteq> None then (Inl ProxyAlreadyStarted, s)
      else (case listen (xc_ListenAddr (xs_cfg s)) of
              Inl e \<Rightarrow> (Inl (ProxyListen (xc_ListenAddr (xs_cfg s)) e), s)
            | Inr addr \<Rightarrow> (Inr (), s\<lparr>xs_server := Some addr, xs_addr := addr\<rparr>)))"

text \<open>The pair is the error of the shutdown and what the serving goroutine or the context reports afterwards.\<close>

definition Stop :: "string option \<times> string option \<Rightarrow> Server \<Rightarrow> string option \<times> Server" where
  "Stop ends s =
     (case xs_server s of
        None \<Rightarrow> (None, s)
      | Some _ \<Rightarrow> (if fst ends = None then snd ends else fst ends, s\<lparr>xs_server := None\<rparr>))"

subsection \<open>Headers\<close>

definition hopByHop :: "string list" where
  "hopByHop = [''Connection'', ''Keep-Alive'', ''Proxy-Authenticate'', ''Proxy-Authorization'', ''Proxy-Connection'',
     ''Te'', ''Trailer'', ''Transfer-Encoding'', ''Upgrade'']"

definition connectionNames :: "header \<Rightarrow> string list" where
  "connectionNames h = filter (\<lambda>name. name \<noteq> []) (map TrimSpace (concat (map (splitByte CHR '','') (HeaderValues h ''Connection''))))"

definition removeHopByHopHeaders :: "header \<Rightarrow> header" where
  "removeHopByHopHeaders h = fold HeaderDel hopByHop (fold HeaderDel (connectionNames h) h)"

definition copyHeader :: "header \<Rightarrow> header \<Rightarrow> header" where
  "copyHeader dst src = fold (\<lambda>(key, vs). fold (HeaderAdd key) vs) src dst"

subsection \<open>Requests\<close>

definition matchRequestHost :: "golib \<Rightarrow> Server \<Rightarrow> string \<Rightarrow> bool \<times> MatchResult option \<times> string" where
  "matchRequestHost E s rawHost =
     (case NormalizeHost E rawHost of
        Inl _ \<Rightarrow> (False, None, rawHost)
      | Inr normalized \<Rightarrow>
          (let match = MatchHost E (xs_matcher s) normalized in (match \<noteq> None, match, normalized)))"

definition addressWithDefaultPort :: "golib \<Rightarrow> string \<Rightarrow> string \<Rightarrow> (rules_error, string) result" where
  "addressWithDefaultPort E raw defaultPort =
     (case SplitHostPort raw of
        None \<Rightarrow> map_result (\<lambda>host. JoinHostPort host defaultPort) (NormalizeHost E raw)
      | Some (host, port) \<Rightarrow> map_result (\<lambda>host. JoinHostPort host port) (NormalizeHost E host))"

definition rejects :: "golib \<Rightarrow> Server \<Rightarrow> string \<Rightarrow> bool" where
  "rejects E s host \<longleftrightarrow> \<not> fst (matchRequestHost E s host) \<and> xc_NonTargetBehavior (xs_cfg s) = NonTargetReject"

definition writeResponse :: "Response \<Rightarrow> respWriter \<Rightarrow> respWriter" where
  "writeResponse resp w =
     (let w = w\<lparr>rw_Header := copyHeader (rw_Header w) (removeHopByHopHeaders (hr_Header resp))\<rparr>;
          w = WriteHeader (hr_StatusCode resp) w
      in case hr_Body resp of None \<Rightarrow> w | Some b \<Rightarrow> writeBody (bs_Data b) w)"

definition outRequest :: "httpRequest \<Rightarrow> httpRequest" where
  "outRequest req = req\<lparr>rq_RequestURI := [], rq_Header := removeHopByHopHeaders (rq_Header req)\<rparr>"

definition handleHTTP :: "golib \<Rightarrow> proxyEnv \<Rightarrow> Server \<Rightarrow> httpRequest \<Rightarrow> respWriter \<Rightarrow> respWriter \<times> proxyAction list" where
  "handleHTTP E V s req w =
     (case rq_URL req of
        None \<Rightarrow> (httpError ''proxy requests must use an absolute URL'' 400 w, [])
      | Some url \<Rightarrow>
          if ru_Host url = [] \<or> ru_Scheme url = [] then (httpError ''proxy requests must use an absolute URL'' 400 w, [])
          else if ru_Scheme url \<noteq> ''http'' \<and> ru_Scheme url \<noteq> ''https''
          then (httpError ''unsupported proxy request scheme'' 400 w, [])
          else if rejects E s (ru_Host url) then (httpError ''host is not allowed by provider rules'' 403 w, [])
          else (case xe_RoundTrip V (outRequest req) of
                  Inl e \<Rightarrow> (httpError (''upstream request failed: '' @ UpstreamErrorMessage (xe_repair V) (Some e)) 502 w,
                            [SendRequest (outRequest req)])
                | Inr resp \<Rightarrow> (writeResponse resp w, [SendRequest (outRequest req)])))"

text \<open>A tunnel closes both ends, and the deferred calls close them again, the last deferred first.\<close>

definition deferred :: "proxyAction list" where
  "deferred = [CloseUpstream, CloseClient]"

definition tunnelActions :: "string \<Rightarrow> proxyAction list" where
  "tunnelActions target = [Tunnel target, CloseClient, CloseUpstream]"

definition handleConnect :: "golib \<Rightarrow> proxyEnv \<Rightarrow> Server \<Rightarrow> httpRequest \<Rightarrow> respWriter \<Rightarrow> respWriter \<times> proxyAction list" where
  "handleConnect E V s req w =
     (if rejects E s (rq_Host req) then (httpError ''host is not allowed by provider rules'' 403 w, [])
      else (case addressWithDefaultPort E (rq_Host req) ''443'' of
        Inl _ \<Rightarrow> (httpError ''invalid CONNECT target'' 400 w, [])
      | Inr target \<Rightarrow>
          (case xe_Dial V target of
             Inl e \<Rightarrow> (httpError (''upstream dial failed: '' @ UpstreamErrorMessage (xe_repair V) (Some e)) 502 w, [DialTCP target])
           | Inr _ \<Rightarrow>
               (case xe_Hijack V of
                  NoHijacker \<Rightarrow> (httpError ''hijacking is not supported'' 500 w, [DialTCP target, CloseUpstream])
                | HijackFailed \<Rightarrow> (w, [DialTCP target, Hijack, CloseUpstream])
                | Hijacked buffered writeOK flushOK \<Rightarrow>
                    (w, [DialTCP target, Hijack] @
                        (if 0 < buffered then [CloseClient]
                         else if \<not> writeOK \<or> \<not> flushOK then [WriteEstablished]
                         else WriteEstablished # tunnelActions target) @ deferred)))))"

definition ServeHTTP ::
    "golib \<Rightarrow> proxyEnv \<Rightarrow> httpRequest \<Rightarrow> Server \<times> respWriter \<Rightarrow> Server \<times> respWriter \<times> proxyAction list" where
  "ServeHTTP E V req sw =
     (let (s, w) = sw;
          s = s\<lparr>xs_activeConns := xs_activeConns s + 1\<rparr>;
          (w, acts) = (if rq_Method req = ''CONNECT'' then handleConnect E V s req w else handleHTTP E V s req w)
      in (s\<lparr>xs_activeConns := xs_activeConns s - 1\<rparr>, w, acts))"

interpretation proxy_server: server_lifecycle Start Stop "\<lambda>s. case xs_server s of None \<Rightarrow> [] | Some a \<Rightarrow> [a]" "\<lambda>_. True"
  by unfold_locales (auto simp: Start_def Stop_def is_ok_def split: option.splits sum.splits if_splits)

subsection \<open>The target of a CONNECT request\<close>

lemma SplitHostPort_unbracketed:
  assumes "SplitHostPort raw = Some (host, port)" and "\<not> HasPrefix raw ''[''"
  shows "CHR '':'' \<notin> set host" and "CHR ''['' \<notin> set raw" and "CHR '']'' \<notin> set raw" and "\<exists>i. host = take i raw"
  using assms by (auto simp: SplitHostPort_def Let_def split: option.splits if_splits)

lemma TrimSpace_plain: "list_all plain s \<Longrightarrow> TrimSpace s = s"
  by (cases "s = []") (auto simp: list_all_iff intro!: TrimSpace_trimmed trimmed_plain)

lemma NormalizeHost_split:
  assumes plain: "list_all plain raw" and url: "\<not> Contains raw ''://''" and "\<not> HasPrefix raw ''[''"
    and split: "SplitHostPort raw = Some (host, port)" and norm: "NormalizeHost E raw = Inr n"
    and norm': "NormalizeHost E host = Inr n'"
  shows "n' = n"
proof -
  note unbr = SplitHostPort_unbracketed [OF split assms(3)]
  have trim: "TrimSpace raw = raw" "TrimSpace host = host"
    using plain unbr(4) by (auto simp: list_all_iff intro!: TrimSpace_plain) (meson in_set_takeD)
  have "\<not> sublist ''://'' host" using unbr(1) set_mono_sublist by fastforce
  moreover have "splitHost host = host"
    using SplitHostPort_no_colon unbr(1) by (simp add: splitHost_def)
  ultimately show ?thesis
    using norm norm' url split trim
    by (auto simp: NormalizeHost_def urlHost_def bareHost_def splitHost_def hostToASCII_def Contains_iff
      split: if_splits option.splits)
qed

lemma connect_target:
  assumes "list_all plain raw" and "\<not> Contains raw ''://''" and "\<not> HasPrefix raw ''[''"
    and "NormalizeHost E raw = Inr n" and "addressWithDefaultPort E raw defaultPort = Inr target"
  shows "\<exists>port. target = JoinHostPort n port"
  using assms(4,5) NormalizeHost_split [OF assms(1-3) _ assms(4)]
  by (force simp: addressWithDefaultPort_def res_simps split: option.splits)

subsection \<open>Hop-by-hop headers\<close>

lemma HeaderValues_fold_Del:
  "HeaderValues (fold HeaderDel names h) k =
     (if \<exists>name\<in>set names. CanonicalMIMEHeaderKey k = CanonicalMIMEHeaderKey name then [] else HeaderValues h k)"
  by (induction names arbitrary: h) auto

lemma removeHopByHop_values:
  "HeaderValues (removeHopByHopHeaders h) k =
     (if \<exists>name\<in>set (hopByHop @ connectionNames h). CanonicalMIMEHeaderKey k = CanonicalMIMEHeaderKey name then []
      else HeaderValues h k)"
  by (auto simp: removeHopByHopHeaders_def HeaderValues_fold_Del)

text \<open>The header maps of \<^verbatim>\<open>net/http\<close> have distinct canonical keys.\<close>

definition wfHeader :: "header \<Rightarrow> bool" where
  "wfHeader h \<longleftrightarrow> distinct (map fst h) \<and> list_all (\<lambda>(k, _). CanonicalMIMEHeaderKey k = k) h"

lemma HeaderValues_Add [simp]:
  "HeaderValues (HeaderAdd k v h) k' =
     (if CanonicalMIMEHeaderKey k' = CanonicalMIMEHeaderKey k then HeaderValues h k' @ [v] else HeaderValues h k')"
  by (simp add: HeaderValues_def HeaderAdd_def update_conv')

lemma HeaderValues_fold_Add:
  "HeaderValues (fold (HeaderAdd key) vs h) k =
     (if CanonicalMIMEHeaderKey k = CanonicalMIMEHeaderKey key then HeaderValues h k @ vs else HeaderValues h k)"
  by (induction vs arbitrary: h) auto

lemma wfHeader_Del: "wfHeader h \<Longrightarrow> wfHeader (HeaderDel k h)"
  by (auto simp: wfHeader_def HeaderDel_def AList.delete_eq list_all_iff distinct_map_filter)

lemma wfHeader_remove: "wfHeader h \<Longrightarrow> wfHeader (removeHopByHopHeaders h)"
proof -
  have "wfHeader h \<Longrightarrow> wfHeader (fold HeaderDel names h)" for names h
    by (induction names arbitrary: h) (simp_all add: wfHeader_Del)
  then show "wfHeader h \<Longrightarrow> ?thesis" by (simp add: removeHopByHopHeaders_def)
qed

lemma copyHeader_values:
  "wfHeader src \<Longrightarrow> HeaderValues (copyHeader dst src) k = HeaderValues dst k @ HeaderValues src k"
proof (induction src arbitrary: dst)
  case (Cons e src)
  obtain key vs where e: "e = (key, vs)" by (cases e)
  with Cons.prems have wf: "wfHeader src" "CanonicalMIMEHeaderKey key = key" "key \<notin> fst ` set src"
    by (auto simp: wfHeader_def)
  have "HeaderValues src k = []" if "CanonicalMIMEHeaderKey k = key"
    using wf(3) that by (simp add: HeaderValues_def map_of_eq_None_iff [symmetric] image_image)
  then show ?case using Cons.IH [OF wf(1)] wf(2) e
    by (auto simp: copyHeader_def HeaderValues_fold_Add) (auto simp: HeaderValues_def)
qed (simp add: copyHeader_def HeaderValues_def)

definition isHopByHop :: "header \<Rightarrow> string \<Rightarrow> bool" where
  "isHopByHop h k \<longleftrightarrow> list_ex (\<lambda>name. CanonicalMIMEHeaderKey k = CanonicalMIMEHeaderKey name) (hopByHop @ connectionNames h)"

subsection \<open>Properties\<close>

lemma handle_sends:
  "SendRequest r \<in> set (snd (handleHTTP E V s req w)) \<Longrightarrow>
     r = outRequest req \<and> (\<exists>u. rq_URL req = Some u \<and> \<not> rejects E s (ru_Host u))"
  "SendRequest r \<notin> set (snd (handleConnect E V s req w))"
  by (auto simp: handleHTTP_def handleConnect_def tunnelActions_def deferred_def
    split: option.splits if_splits sum.splits hijacking.splits)

lemma handle_dials:
  "DialTCP a \<notin> set (snd (handleHTTP E V s req w))"
  "DialTCP a \<in> set (snd (handleConnect E V s req w)) \<Longrightarrow>
     \<not> rejects E s (rq_Host req) \<and> addressWithDefaultPort E (rq_Host req) ''443'' = Inr a"
  by (auto simp: handleHTTP_def handleConnect_def tunnelActions_def deferred_def
    split: option.splits if_splits sum.splits hijacking.splits)

lemma rejects_active: "rejects E (s\<lparr>xs_activeConns := k\<rparr>) h = rejects E s h"
  by (auto simp: rejects_def matchRequestHost_def Let_def split: sum.splits)

lemma accepted_host:
  assumes "\<not> rejects E s host" and "xc_NonTargetBehavior (xs_cfg s) = NonTargetReject"
  shows "\<exists>n. NormalizeHost E host = Inr n \<and> MatchHost E (xs_matcher s) n \<noteq> None"
  using assms by (auto simp: rejects_def matchRequestHost_def Let_def split: sum.splits)

text \<open>
  C35. In reject mode the proxy only opens connections to hosts the rules accept: a CONNECT target
  is the host that was matched, with a port, and a request is only sent for an accepted URL host.
\<close>

theorem proxy_confined:
  assumes "xc_NonTargetBehavior (xs_cfg s) = NonTargetReject"
    and "list_all plain (rq_Host req)" and "\<not> Contains (rq_Host req) ''://''" and "\<not> HasPrefix (rq_Host req) ''[''"
    and "ServeHTTP E V req (s, w) = (s', w', acts)"
  shows "(\<forall>a. DialTCP a \<in> set acts \<longrightarrow> (\<exists>n port. a = JoinHostPort n port \<and> NormalizeHost E (rq_Host req) = Inr n \<and>
      MatchHost E (xs_matcher s) n \<noteq> None)) \<and>
    (\<forall>r. SendRequest r \<in> set acts \<longrightarrow> (\<exists>u n. rq_URL r = Some u \<and> NormalizeHost E (ru_Host u) = Inr n \<and>
      MatchHost E (xs_matcher s) n \<noteq> None)) \<and>
    xs_activeConns s' = xs_activeConns s"
proof -
  define s1 where "s1 = s\<lparr>xs_activeConns := xs_activeConns s + 1\<rparr>"
  have acts: "acts = snd (if rq_Method req = ''CONNECT'' then handleConnect E V s1 req w else handleHTTP E V s1 req w)"
    and active: "xs_activeConns s' = xs_activeConns s"
    using assms(5) by (auto simp: ServeHTTP_def Let_def s1_def split: prod.splits)
  have mode: "xc_NonTargetBehavior (xs_cfg s1) = NonTargetReject" "xs_matcher s1 = xs_matcher s"
    using assms(1) by (simp_all add: s1_def)
  have "\<exists>n port. a = JoinHostPort n port \<and> NormalizeHost E (rq_Host req) = Inr n \<and> MatchHost E (xs_matcher s) n \<noteq> None"
    if "DialTCP a \<in> set acts" for a
  proof -
    have ok: "\<not> rejects E s1 (rq_Host req)" "addressWithDefaultPort E (rq_Host req) ''443'' = Inr a"
      using that handle_dials [of a E V s1 req w] by (auto simp: acts split: if_splits)
    from accepted_host [OF ok(1) mode(1)] connect_target [OF assms(2-4) _ ok(2)] mode(2) show ?thesis by metis
  qed
  moreover have "\<exists>u n. rq_URL r = Some u \<and> NormalizeHost E (ru_Host u) = Inr n \<and> MatchHost E (xs_matcher s) n \<noteq> None"
    if sent: "SendRequest r \<in> set acts" for r
  proof -
    obtain u where "r = outRequest req" "rq_URL req = Some u" "\<not> rejects E s1 (ru_Host u)"
      using sent handle_sends [of r E V s1 req w] by (auto simp: acts split: if_splits)
    with accepted_host [OF _ mode(1), of E "ru_Host u"] mode(2) show ?thesis by (auto simp: outRequest_def)
  qed
  ultimately show ?thesis using active by blast
qed

definition sampleMatcher :: Matcher where
  "sampleMatcher = \<lparr>m_exact = [(''a.com'', \<lparr>re_group = ''custom'', re_rule = ''a.com'', re_host = ''a.com''\<rparr>)], m_wildcard = []\<rparr>"

definition sampleServer :: Server where
  "sampleServer = New \<lparr>xc_ListenAddr = ''127.0.0.1:0'', xc_NonTargetBehavior = NonTargetReject, xc_ReadHeaderTimeout = 0,
     xc_IdleTimeout = 0, xc_ShutdownTimeout = 0\<rparr> sampleMatcher"

definition sampleRequest :: "string \<Rightarrow> string \<Rightarrow> httpRequest" where
  "sampleRequest mthd host = \<lparr>rq_Method = mthd, rq_URL = Some \<lparr>ru_Scheme = ''http'', ru_Host = host, ru_Path = ''/''\<rparr>,
     rq_Host = host, rq_RequestURI = [], rq_Header = [(''Connection'', [''X-Drop'']), (''X-Drop'', [''1'']), (''X-Keep'', [''2''])],
     rq_TLS = False\<rparr>"

definition sampleReply :: Response where
  "sampleReply = \<lparr>hr_StatusCode = 204, hr_Header = [(''Te'', [''t'']), (''X-Keep'', [''3''])],
     hr_Body = Some \<lparr>bs_Data = ''ok'', bs_Err = None\<rparr>, hr_ContentLength = 2, hr_Path = Some ''/''\<rparr>"

definition sampleEnv :: proxyEnv where
  "sampleEnv = \<lparr>xe_Dial = (\<lambda>_. Inr ()), xe_RoundTrip = (\<lambda>_. Inr sampleReply), xe_Hijack = Hijacked 0 True True, xe_repair = (\<lambda>s. s)\<rparr>"

lemma sample_address:
  "addressWithDefaultPort sampleLib ''A.com:8443'' ''443'' = Inr ''a.com:8443''"
  "rejects sampleLib sampleServer ''A.com:8443'' = False"
  by code_simp+

theorem proxy_confined_witness:
  "\<exists>s' w' acts. ServeHTTP sampleLib sampleEnv (sampleRequest ''CONNECT'' ''A.com:8443'') (sampleServer, newWriter) = (s', w', acts) \<and>
     DialTCP ''a.com:8443'' \<in> set acts \<and> (\<exists>n. NormalizeHost sampleLib ''A.com:8443'' = Inr n \<and> MatchHost sampleLib sampleMatcher n \<noteq> None)"
proof -
  let ?req = "sampleRequest ''CONNECT'' ''A.com:8443''"
  obtain s' w' acts where run: "ServeHTTP sampleLib sampleEnv ?req (sampleServer, newWriter) = (s', w', acts)"
    by (cases "ServeHTTP sampleLib sampleEnv ?req (sampleServer, newWriter)")
  have dial: "DialTCP ''a.com:8443'' \<in> set acts"
    using run sample_address
    by (auto simp: rejects_active ServeHTTP_def Let_def handleConnect_def sampleRequest_def sampleEnv_def split: prod.splits)
  have host: "rq_Host ?req = ''A.com:8443''" by (simp add: sampleRequest_def)
  have "list_all plain (rq_Host ?req)" "\<not> Contains (rq_Host ?req) ''://''" "\<not> HasPrefix (rq_Host ?req) ''[''"
    unfolding host by code_simp+
  moreover have "xc_NonTargetBehavior (xs_cfg sampleServer) = NonTargetReject" "xs_matcher sampleServer = sampleMatcher"
    by (simp_all add: sampleServer_def New_def)
  ultimately show ?thesis using proxy_confined [OF _ _ _ _ run] run dial host by auto
qed

text \<open>
  A request goes out and its response comes back with every header but the hop-by-hop ones,
  those listed and those named in \<^verbatim>\<open>Connection\<close>, and with the status and body of the
  response.
\<close>

theorem proxy_headers:
  assumes "ServeHTTP E V req (s, newWriter) = (s', w', acts)" and "SendRequest r \<in> set acts"
    and "xe_RoundTrip V r = Inr resp" and "wfHeader (hr_Header resp)" and "hr_StatusCode resp \<noteq> 0"
    and "hr_Body resp = Some b"
  shows "HeaderValues (rq_Header r) k = (if isHopByHop (rq_Header req) k then [] else HeaderValues (rq_Header req) k) \<and>
    HeaderValues (rw_Header w') k = (if isHopByHop (hr_Header resp) k then [] else HeaderValues (hr_Header resp) k) \<and>
    rw_Status w' = hr_StatusCode resp \<and> rw_Body w' = bs_Data b"
proof -
  define s1 where "s1 = s\<lparr>xs_activeConns := xs_activeConns s + 1\<rparr>"
  have mthd: "rq_Method req \<noteq> ''CONNECT''"
    using assms(1,2) handle_sends(2) [of r E V s1 req newWriter]
    by (auto simp: ServeHTTP_def Let_def s1_def split: prod.splits)
  then have run: "handleHTTP E V s1 req newWriter = (w', acts)"
    using assms(1) by (auto simp: ServeHTTP_def Let_def s1_def split: prod.splits)
  have r: "r = outRequest req" using handle_sends(1) [of r E V s1 req newWriter] run assms(2) by simp
  then have "w' = writeResponse resp newWriter"
    using run assms(2,3) by (auto simp: handleHTTP_def split: option.splits if_splits)
  moreover have "HeaderValues [] k = []" by (simp add: HeaderValues_def)
  ultimately show ?thesis
    using r assms(4-6) copyHeader_values [OF wfHeader_remove, of "hr_Header resp" "[]" k]
    by (auto simp: outRequest_def writeResponse_def writeBody_def WriteHeader_def Let_def newWriter_def removeHopByHop_values
      isHopByHop_def list_ex_iff)
qed

theorem proxy_headers_witness:
  "\<exists>s' w' acts r. ServeHTTP sampleLib sampleEnv (sampleRequest ''GET'' ''a.com'') (sampleServer, newWriter) = (s', w', acts) \<and>
     SendRequest r \<in> set acts \<and> HeaderValues (rq_Header r) ''X-Drop'' = [] \<and> rw_Status w' = 204 \<and> rw_Body w' = ''ok''"
proof -
  let ?req = "sampleRequest ''GET'' ''a.com''"
  obtain s' w' acts where run: "ServeHTTP sampleLib sampleEnv ?req (sampleServer, newWriter) = (s', w', acts)"
    by (cases "ServeHTTP sampleLib sampleEnv ?req (sampleServer, newWriter)")
  have "rejects sampleLib sampleServer ''a.com'' = False" by code_simp
  then have sent: "SendRequest (outRequest ?req) \<in> set acts"
    using run by (auto simp: rejects_active ServeHTTP_def Let_def handleHTTP_def sampleRequest_def sampleEnv_def split: prod.splits)
  have "isHopByHop (rq_Header ?req) ''X-Drop''" unfolding sampleRequest_def by code_simp
  moreover have "wfHeader (hr_Header sampleReply)" by code_simp
  ultimately show ?thesis
    using proxy_headers [OF run sent, of sampleReply "\<lparr>bs_Data = ''ok'', bs_Err = None\<rparr>" "''X-Drop''"] run sent
    by (auto simp: sampleEnv_def sampleReply_def)
qed

end
