(* ===== verification/Reverse.thy ===== *)
theory Reverse
  imports PageEnhance Proxy
begin

section \<open>Package reverse: the reverse proxy\<close>

text \<open>
  \<^verbatim>\<open>internal/reverse/reverse.go\<close>, in front of which the hosts file or the DNS server
  sends the target hosts.  \<^verbatim>\<open>httputil.ReverseProxy\<close> directs a copy of the request,
  rewrites its headers (a parameter), sends it, removes the hop-by-hop headers of the response,
  lets it be modified and copies it to the client; upgrades and trailers are left out.  A panic is
  \<open>None\<close>.
\<close>

subsection \<open>Data\<close>

record reverseConfig =
  vc_HTTPListenAddr :: string
  vc_HTTPSListenAddr :: string
  vc_ReadHeaderTimeout :: Duration
  vc_IdleTimeout :: Duration
  vc_ShutdownTimeout :: Duration
  vc_PageEnhance :: enhanceConfig

text \<open>
  \<open>vs_open\<close> lists the listeners opened and not closed; nil arguments of \<open>New\<close> are
  \<open>None\<close> or \<open>False\<close>.
\<close>

record reverseServer =
  vs_cfg :: reverseConfig
  vs_matcher :: "Matcher option"
  vs_hasDialer :: bool
  vs_hasCerts :: bool
  vs_enhancer :: Pipeline
  vs_running :: bool
  vs_httpAddr :: string
  vs_httpsAddr :: string
  vs_open :: "string list"
  vs_activeConns :: int

datatype reverse_error =
    ReverseAlreadyStarted
  | MatcherRequired
  | DialerRequired
  | CertsRequired
  | ListenHTTP string string
  | ListenHTTPS string string
  | HostInvalid rules_error
  | HostNotAllowed string
  | CertificateFailed string

record reverseEnv =
  ve_RoundTrip :: "httpRequest \<Rightarrow> (string, Response) result"
  ve_outHeaders :: "header \<Rightarrow> header"
  ve_readFile :: "string \<Rightarrow> (string, string) result"
  ve_detect :: "string \<Rightarrow> string"
  ve_repair :: "string \<Rightarrow> string"

definition ConfigFromApp :: "Config \<Rightarrow> reverseConfig" where
  "ConfigFromApp cfg =
     \<lparr>vc_HTTPListenAddr = ho_HTTPListenAddr (c_Hosts cfg), vc_HTTPSListenAddr = ho_HTTPSListenAddr (c_Hosts cfg),
      vc_ReadHeaderTimeout = px_ReadHeaderTimeout (c_Proxy cfg), vc_IdleTimeout = px_IdleTimeout (c_Proxy cfg),
      vc_ShutdownTimeout = px_ShutdownTimeout (c_Proxy cfg), vc_PageEnhance = PageEnhance.ConfigFromApp cfg\<rparr>"

definition New :: "reverseConfig \<Rightarrow> Matcher option \<Rightarrow> bool \<Rightarrow> bool \<Rightarrow> reverseServer" where
  "New cfg m hasDialer hasCerts =
     \<lparr>vs_cfg = cfg, vs_matcher = m, vs_hasDialer = hasDialer, vs_hasCerts = hasCerts,
      vs_enhancer = PageEnhance.New (vc_PageEnhance cfg), vs_running = False, vs_httpAddr = [], vs_httpsAddr = [],
      vs_open = [], vs_activeConns = 0\<rparr>"

subsection \<open>Starting and stopping\<close>

definition listenBoth ::
    "(string \<Rightarrow> (string, string) result) \<Rightarrow> reverseServer \<Rightarrow> (reverse_error, unit) result \<times> reverseServer" where
  "listenBoth listen s =
     (case listen (vc_HTTPListenAddr (vs_cfg s)) of
        Inl e \<Rightarrow> (Inl (ListenHTTP (vc_HTTPListenAddr (vs_cfg s)) e), s)
      | Inr http \<Rightarrow>
          (let s1 = s\<lparr>vs_open := http # vs_open s\<rparr> in
           case listen (vc_HTTPSListenAddr (vs_cfg s)) of
             Inl e \<Rightarrow> (Inl (ListenHTTPS (vc_HTTPSListenAddr (vs_cfg s)) e), s1\<lparr>vs_open := remove1 http (vs_open s1)\<rparr>)
           | Inr https \<Rightarrow>
               (Inr (), s1\<lparr>vs_open := https # vs_open s1, vs_running := True, vs_httpAddr := http, vs_httpsAddr := https\<rparr>)))"

definition Start ::
    "(string \<Rightarrow> (string, string) result) \<Rightarrow> reverseServer \<Rightarrow> (reverse_error, unit) result \<times> reverseServer" where
  "Start listen s =
     (if vs_running s then (Inl ReverseAlreadyStarted, s)
      else if vs_matcher s = None then (Inl MatcherRequired, s)
      else if \<not> vs_hasDialer s then (Inl DialerRequired, s)
      else if \<not> vs_hasCerts s then (Inl CertsRequired, s)
      else listenBoth listen s)"

text \<open>
  Shutting a server down closes its listener whatever it returns.  The arguments are the errors of
  the two shutdowns and of the two serving goroutines or the context.
\<close>

definition Stop ::
    "(string option \<times> string option) \<times> (string option \<times> string option) \<Rightarrow> reverseServer \<Rightarrow> string option \<times> reverseServer" where
  "Stop ends s =
     (if \<not> vs_running s then (None, s)
      else (let ((http, https), (httpDone, httpsDone)) = ends;
                err = (if http \<noteq> None then http else https);
                err = (if err \<noteq> None then err else httpDone);
                err = (if err \<noteq> None then err else httpsDone)
            in (err, s\<lparr>vs_running := False, vs_open := remove1 (vs_httpsAddr s) (remove1 (vs_httpAddr s) (vs_open s))\<rparr>)))"

subsection \<open>Requests\<close>

definition matchRequestHost :: "golib \<Rightarrow> Matcher \<Rightarrow> httpRequest \<Rightarrow> string \<times> MatchResult option" where
  "matchRequestHost E m req =
     (let rawHost = (if rq_Host req = [] then (case rq_URL req of None \<Rightarrow> [] | Some u \<Rightarrow> ru_Host u) else rq_Host req) in
      case NormalizeHost E rawHost of
        Inl _ \<Rightarrow> (rawHost, None)
      | Inr host \<Rightarrow> (host, MatchHost E m host))"

definition providerFromRuleGroup :: "string \<Rightarrow> string" where
  "providerFromRuleGroup grp =
     (let grp = TrimSpace grp in
      case Index grp ''/'' of None \<Rightarrow> grp | Some i \<Rightarrow> if 0 < i then take i grp else grp)"

definition director :: "bool \<Rightarrow> string \<Rightarrow> httpRequest \<Rightarrow> httpRequest" where
  "director identity host req =
     (let scheme = (if rq_TLS req then ''https'' else ''http''); port = (if rq_TLS req then ''443'' else ''80'');
          h = HeaderDel ''Proxy-Connection'' (HeaderDel ''Proxy-Authorization'' (rq_Header req)) in
      req\<lparr>rq_URL := map_option (\<lambda>u. u\<lparr>ru_Scheme := scheme, ru_Host := JoinHostPort host port\<rparr>) (rq_URL req),
          rq_Host := host, rq_RequestURI := [],
          rq_Header := (if identity then HeaderSet ''Accept-Encoding'' ''identity'' h else h)\<rparr>)"

definition errorHandler :: "reverseEnv \<Rightarrow> string \<Rightarrow> respWriter \<Rightarrow> respWriter" where
  "errorHandler V e = httpError (''upstream request failed: '' @ UpstreamErrorMessage (ve_repair V) (Some e)) 502"

definition forward ::
    "golib \<Rightarrow> reverseEnv \<Rightarrow> string \<Rightarrow> MatchResult \<Rightarrow> httpRequest \<Rightarrow> Pipeline \<times> respWriter \<Rightarrow>
     (Pipeline \<times> respWriter \<times> proxyAction list) option" where
  "forward E V host match req pw =
     (let (p, w) = pw in
      case NeedsIdentityEncoding p of
        None \<Rightarrow> None
      | Some identity \<Rightarrow>
          (let out = director identity host req; out = out\<lparr>rq_Header := ve_outHeaders V (rq_Header out)\<rparr> in
           case ve_RoundTrip V out of
             Inl e \<Rightarrow> Some (p, errorHandler V e w, [SendRequest out])
           | Inr resp \<Rightarrow>
               (case ApplyResponseWithMeta E p (resp\<lparr>hr_Header := removeHopByHopHeaders (hr_Header resp)\<rparr>)
                    \<lparr>rm_Provider = providerFromRuleGroup (mr_GroupName match), rm_Host = host, rm_Path = [],
                     rm_ContentType = [], rm_StatusCode = 0\<rparr> of
                  None \<Rightarrow> None
                | Some oc \<Rightarrow>
                    Some (oc_pipe oc,
                      (case oc_err oc of Some e \<Rightarrow> errorHandler V e w | None \<Rightarrow> writeResponse (oc_resp oc) w),
                      [SendRequest out]))))"

definition handleRequest ::
    "golib \<Rightarrow> reverseEnv \<Rightarrow> Matcher \<Rightarrow> httpRequest \<Rightarrow> Pipeline \<times> respWriter \<Rightarrow>
     (Pipeline \<times> respWriter \<times> proxyAction list) option" where
  "handleRequest E V m req pw =
     (let (p, w) = pw in
      case matchRequestHost E m req of
        (_, None) \<Rightarrow> Some (p, httpError ''host is not allowed by Steam rules'' 403 w, [])
      | (host, Some match) \<Rightarrow>
          (let (served, _, p', w') = ServeAsset (ve_readFile V) (ve_detect V) (map_option ru_Path (rq_URL req)) host (p, w) in
           if served then Some (p', w', []) else forward E V host match req (p, w)))"

definition ServeHTTP ::
    "golib \<Rightarrow> reverseEnv \<Rightarrow> Matcher \<Rightarrow> httpRequest \<Rightarrow> reverseServer \<times> respWriter \<Rightarrow>
     (reverseServer \<times> respWriter \<times> proxyAction list) option" where
  "ServeHTTP E V m req sw =
     (let (s, w) = sw; s = s\<lparr>vs_activeConns := vs_activeConns s + 1\<rparr> in
      map_option (\<lambda>(p, w, acts). (s\<lparr>vs_enhancer := p, vs_activeConns := vs_activeConns s - 1\<rparr>, w, acts))
        (handleRequest E V m req (vs_enhancer s, w)))"

definition getCertificate ::
    "golib \<Rightarrow> Matcher \<Rightarrow> (string \<Rightarrow> (string, 'cert) result) \<Rightarrow> string \<Rightarrow> (reverse_error, 'cert) result" where
  "getCertificate E m certs serverName =
     rbind (map_err HostInvalid (NormalizeHost E serverName)) (\<lambda>host.
     rbind (ensure (MatchHost E m host \<noteq> None) (HostNotAllowed host)) (\<lambda>_.
     map_err CertificateFailed (certs host)))"

text \<open>Between calls, a server holds its two listeners when it runs and none otherwise.\<close>

definition listenersOK :: "reverseServer \<Rightarrow> bool" where
  "listenersOK s \<longleftrightarrow> vs_open s = (if vs_running s then [vs_httpsAddr s, vs_httpAddr s] else [])"

lemma listenersOK_New: "listenersOK (New cfg m d c)"
  by (simp add: listenersOK_def New_def)

lemma listenersOK_Start: "listenersOK s \<Longrightarrow> Start listen s = (r, s') \<Longrightarrow> listenersOK s' \<and> (is_ok r \<longrightarrow> vs_running s')"
  by (auto simp: listenersOK_def Start_def listenBoth_def Let_def is_ok_def split: if_splits sum.splits)

lemma listenersOK_Stop: "listenersOK s \<Longrightarrow> Stop ends s = (e, s') \<Longrightarrow> listenersOK s' \<and> \<not> vs_running s'"
  by (auto simp: listenersOK_def Stop_def Let_def split: if_splits prod.splits)

interpretation reverse_server: server_lifecycle Start Stop vs_open listenersOK
proof unfold_locales
  fix s s' :: reverseServer and env r
  assume ok: "listenersOK s" and start: "Start env s = (r, s')"
  show "listenersOK s'" using listenersOK_Start [OF ok start] by simp
  show "vs_open s' = vs_open s" if "\<not> is_ok r"
    using that start ok by (auto simp: listenersOK_def Start_def listenBoth_def Let_def is_ok_def split: if_splits sum.splits)
  show "vs_open s' \<noteq> []" if "is_ok r"
    using that listenersOK_Start [OF ok start] by (simp add: listenersOK_def)
  show "\<not> is_ok r \<and> vs_open s' = vs_open s" if "vs_open s \<noteq> []"
    using that start ok by (auto simp: listenersOK_def Start_def is_ok_def split: if_splits)
next
  fix s s' :: reverseServer and x e
  assume ok: "listenersOK s" and stop: "Stop x s = (e, s')"
  show "listenersOK s'" "vs_open s' = []"
    using listenersOK_Stop [OF ok stop] by (simp_all add: listenersOK_def)
next
  fix s :: reverseServer and x
  assume "listenersOK s" and "vs_open s = []"
  then show "Stop x s = (None, s)" by (auto simp: listenersOK_def Stop_def split: if_splits)
qed

subsection \<open>Properties\<close>

lemma forward_sends:
  assumes "forward E V host match req (p, w) = Some (p', w', acts)"
  shows "\<exists>identity. acts = [SendRequest ((director identity host req)
    \<lparr>rq_Header := ve_outHeaders V (rq_Header (director identity host req))\<rparr>)]"
  using assms by (auto simp: forward_def Let_def split: option.splits sum.splits)

text \<open>
  C37. The reverse proxy sends a request only for a host the rules accept, to that host on the port
  of its scheme and with that host as its Host; any other request gets status 403 and nothing is
  sent.  Certificates are only made for accepted names.
\<close>

theorem reverse_confined:
  assumes "ServeHTTP E V m req (s, newWriter) = Some (s', w', acts)"
  shows "(case matchRequestHost E m req of
      (_, None) \<Rightarrow> rw_Status w' = 403 \<and> acts = []
    | (host, Some _) \<Rightarrow>
        list_all (\<lambda>a. case a of SendRequest r \<Rightarrow> rq_Host r = host \<and>
            (case rq_URL r of None \<Rightarrow> rq_URL req = None
             | Some u \<Rightarrow> ru_Scheme u = (if rq_TLS req then ''https'' else ''http'') \<and>
                 ru_Host u = JoinHostPort host (if rq_TLS req then ''443'' else ''80''))
          | _ \<Rightarrow> False) acts \<and>
        MatchHost E m host \<noteq> None) \<and>
    (case getCertificate E m certs name of Inl _ \<Rightarrow> True
     | Inr c \<Rightarrow> (\<exists>n. NormalizeHost E name = Inr n \<and> MatchHost E m n \<noteq> None \<and> certs n = Inr c)) \<and>
    vs_activeConns s' = vs_activeConns s"
proof -
  obtain p where run: "handleRequest E V m req (vs_enhancer s, newWriter) = Some (p, w', acts)"
    and active: "vs_activeConns s' = vs_activeConns s"
    using assms by (auto simp: ServeHTTP_def Let_def)
  have "(case getCertificate E m certs name of Inl _ \<Rightarrow> True
     | Inr c \<Rightarrow> (\<exists>n. NormalizeHost E name = Inr n \<and> MatchHost E m n \<noteq> None \<and> certs n = Inr c))"
    by (auto simp: getCertificate_def res_simps split: sum.splits)
  moreover have "case matchRequestHost E m req of
      (_, None) \<Rightarrow> rw_Status w' = 403 \<and> acts = []
    | (host, Some _) \<Rightarrow>
        list_all (\<lambda>a. case a of SendRequest r \<Rightarrow> rq_Host r = host \<and>
            (case rq_URL r of None \<Rightarrow> rq_URL req = None
             | Some u \<Rightarrow> ru_Scheme u = (if rq_TLS req then ''https'' else ''http'') \<and>
                 ru_Host u = JoinHostPort host (if rq_TLS req then ''443'' else ''80''))
          | _ \<Rightarrow> False) acts \<and> MatchHost E m host \<noteq> None"
  proof (cases "matchRequestHost E m req")
    case (Pair host match)
    show ?thesis
    proof (cases match)
      case None
      with run Pair show ?thesis by (auto simp: handleRequest_def httpError_newWriter)
    next
      case (Some r)
      have "MatchHost E m host \<noteq> None"
        using Pair Some by (auto simp: matchRequestHost_def Let_def split: sum.splits)
      moreover have "acts = [] \<or> forward E V host r req (vs_enhancer s, newWriter) = Some (p, w', acts)"
        using run Pair Some by (auto simp: handleRequest_def Let_def split: prod.splits if_splits)
      ultimately show ?thesis using Pair Some
        by (auto dest!: forward_sends simp: director_def Let_def split: option.splits)
    qed
  qed
  ultimately show ?thesis using active by blast
qed

definition sampleReverse :: reverseServer where
  "sampleReverse = New \<lparr>vc_HTTPListenAddr = ''127.0.0.1:80'', vc_HTTPSListenAddr = ''127.0.0.1:443'', vc_ReadHeaderTimeout = 0,
     vc_IdleTimeout = 0, vc_ShutdownTimeout = 0, vc_PageEnhance = \<lparr>ec_Enabled = False, ec_OnError = [], ec_MaxBodySize = 0,
       ec_Assets = [], ec_Transforms = [], ec_CustomTransformers = []\<rparr>\<rparr> (Some sampleMatcher) True True"

definition sampleReverseEnv :: reverseEnv where
  "sampleReverseEnv = \<lparr>ve_RoundTrip = (\<lambda>_. Inr sampleReply), ve_outHeaders = (\<lambda>h. h), ve_readFile = (\<lambda>_. Inl ''none''),
     ve_detect = (\<lambda>_. []), ve_repair = (\<lambda>s. s)\<rparr>"

theorem reverse_confined_witness:
  "\<exists>s' w' r. ServeHTTP sampleLib sampleReverseEnv sampleMatcher (sampleRequest ''GET'' ''A.com'') (sampleReverse, newWriter) =
     Some (s', w', [SendRequest r]) \<and> rq_Host r = ''a.com''"
proof -
  let ?req = "sampleRequest ''GET'' ''A.com''"
  have "rq_Host ?req = ''A.com''" by (simp add: sampleRequest_def)
  moreover have "NormalizeHost sampleLib ''A.com'' = Inr ''a.com''" by code_simp
  moreover obtain mr where "MatchHost sampleLib sampleMatcher ''a.com'' = Some mr"
  proof -
    have "MatchHost sampleLib sampleMatcher ''a.com'' \<noteq> None" by code_simp
    then show ?thesis using that by blast
  qed
  ultimately have match: "matchRequestHost sampleLib sampleMatcher ?req = (''a.com'', Some mr)"
    by (simp add: matchRequestHost_def Let_def)
  have off: "\<not> ec_Enabled (pl_cfg (vs_enhancer sampleReverse))"
    by (simp add: sampleReverse_def New_def PageEnhance.New_def Let_def)
  obtain s' w' r where run: "ServeHTTP sampleLib sampleReverseEnv sampleMatcher ?req (sampleReverse, newWriter) = Some (s', w', [SendRequest r])"
    using match off
    by (simp add: ServeHTTP_def handleRequest_def ServeAsset_def forward_def NeedsIdentityEncoding_def Let_def
      sampleReverseEnv_def ApplyResponseWithMeta_def)
  from reverse_confined [OF run, where certs = "\<lambda>_. Inr ()" and name = "''a.com''"] match run show ?thesis by auto
qed

end
