(* ===== verification/GoErrors.thy ===== *)
theory GoErrors
  imports GoStrings Effects
begin

section \<open>Go errors\<close>

text \<open>
  An error with its text, whether \<^verbatim>\<open>os.IsPermission\<close> holds of it (it looks through no
  wrapping) and whether it is the value a package returns when there is nothing to undo
  (\<^verbatim>\<open>ErrNoState\<close>, \<^verbatim>\<open>ErrNoCA\<close>, found by \<^verbatim>\<open>errors.Is\<close> through wrapping).
  \<open>wrapErr\<close> is \<^verbatim>\<open>fmt.Errorf\<close> with \<^verbatim>\<open>%w\<close>, \<open>newErr\<close> an error with a text only.
\<close>

record gerr =
  ge_text :: string
  ge_permission :: bool
  ge_noState :: bool

definition wrapErr :: "string \<Rightarrow> gerr \<Rightarrow> gerr" where
  "wrapErr context e = \<lparr>ge_text = context @ '': '' @ ge_text e, ge_permission = False, ge_noState = ge_noState e\<rparr>"

definition newErr :: "string \<Rightarrow> gerr" where
  "newErr msg = \<lparr>ge_text = msg, ge_permission = False, ge_noState = False\<rparr>"

definition wrapping :: "string \<Rightarrow> ('w, gerr, 'a) proc \<Rightarrow> ('w, gerr, 'a) proc" where
  "wrapping context m w = (case m w of (Inl e, w') \<Rightarrow> (Inl (wrapErr context e), w') | (Inr x, w') \<Rightarrow> (Inr x, w'))"

definition failing :: "('e \<Rightarrow> 'f) \<Rightarrow> ('w, 'e, 'a) proc \<Rightarrow> ('w, 'f, 'a) proc" where
  "failing f m w = (case m w of (r, w') \<Rightarrow> (map_err f r, w'))"

lemma wrapping_failing: "wrapping c m = failing (wrapErr c) m"
  by (auto simp: wrapping_def failing_def map_err_def split: prod.splits sum.splits)

lemma wrapping_eq_Inr [proc_simps]:
  "failing f m w = (Inr x, w') \<longleftrightarrow> m w = (Inr x, w')"
  "wrapping c m' w = (Inr x, w') \<longleftrightarrow> m' w = (Inr x, w')"
  by (auto simp: failing_def wrapping_def map_err_def split: prod.splits sum.splits)

lemma wrapErr_permission [simp]: "\<not> ge_permission (wrapErr c e)" "ge_noState (wrapErr c e) = ge_noState e"
  by (simp_all add: wrapErr_def)

text \<open>A privileged change is retried by the helper when its error looks like a missing permission.\<close>

definition deniedText :: "golib \<Rightarrow> string \<Rightarrow> bool" where
  "deniedText E msg \<longleftrightarrow>
     (let msg = ToLower E msg in
      Contains msg ''access is denied'' \<or> Contains msg ''permission denied'' \<or> Contains msg ''administrator'')"

end
