(* ===== verification/GoPath.thy ===== *)
theory GoPath
  imports GoStrings GoNet
begin

section \<open>File paths\<close>

text \<open>
  The functions of \<^verbatim>\<open>path/filepath\<close> the code uses differ between operating systems
  and the working directory, so they are fields of a record.  \<open>unixPaths\<close> is the record of a Unix
  system with a given working directory.
\<close>

record pathlib =
  pl_sep :: char
  pl_Clean :: "string \<Rightarrow> string"
  pl_Abs :: "string \<Rightarrow> string option"
  pl_Rel :: "string \<Rightarrow> string \<Rightarrow> string option"
  pl_Dir :: "string \<Rightarrow> string"
  pl_VolumeName :: "string \<Rightarrow> string"
  pl_Join :: "string list \<Rightarrow> string"

text \<open>The elements of a path, with \<^verbatim>\<open>.\<close> dropped and \<^verbatim>\<open>..\<close> resolved; above the root there is nothing.\<close>

fun cleanElems :: "bool \<Rightarrow> string list \<Rightarrow> string list \<Rightarrow> string list" where
  "cleanElems rooted acc [] = rev acc"
| "cleanElems rooted acc (p # ps) =
     (if p = [] \<or> p = ''.'' then cleanElems rooted acc ps
      else if p = ''..'' then
        (case acc of
           [] \<Rightarrow> cleanElems rooted (if rooted then [] else [p]) ps
         | a # acc' \<Rightarrow> cleanElems rooted (if a = ''..'' then p # acc else acc') ps)
      else cleanElems rooted (p # acc) ps)"

definition unixClean :: "string \<Rightarrow> string" where
  "unixClean s =
     (if s = [] then ''.''
      else (let rooted = HasPrefix s ''/'';
                elems = cleanElems rooted [] (splitByte (CHR ''/'') s)
            in if rooted then ''/'' @ Join elems ''/''
               else if elems = [] then ''.'' else Join elems ''/''))"

definition unixAbs :: "string \<Rightarrow> string \<Rightarrow> string" where
  "unixAbs cwd s = (if HasPrefix s ''/'' then unixClean s else unixClean (cwd @ ''/'' @ s))"

definition unixJoin :: "string list \<Rightarrow> string" where
  "unixJoin elems =
     (let elems = dropWhile (\<lambda>e. e = []) elems in if elems = [] then [] else unixClean (Join elems ''/''))"

definition unixDir :: "string \<Rightarrow> string" where
  "unixDir s =
     (case LastIndexByte s (CHR ''/'') of None \<Rightarrow> ''.'' | Some i \<Rightarrow> unixClean (take (i + 1) s))"

text \<open>The part of two element lists after their common beginning.\<close>

fun dropCommon :: "string list \<Rightarrow> string list \<Rightarrow> string list \<times> string list" where
  "dropCommon (a # as) (b # bs) = (if a = b then dropCommon as bs else (a # as, b # bs))"
| "dropCommon as bs = (as, bs)"

definition unixElems :: "string \<Rightarrow> string list" where
  "unixElems s = filter (\<lambda>p. p \<noteq> [] \<and> p \<noteq> ''.'') (splitByte (CHR ''/'') (unixClean s))"

definition unixRel :: "string \<Rightarrow> string \<Rightarrow> string option" where
  "unixRel base target =
     (if HasPrefix (unixClean base) ''/'' \<noteq> HasPrefix (unixClean target) ''/'' then None
      else (case dropCommon (unixElems base) (unixElems target) of
              (b, t) \<Rightarrow>
                if ''..'' \<in> set b then None
                else if b = [] \<and> t = [] then Some ''.''
                else Some (Join (replicate (length b) ''..'' @ t) ''/'')))"

definition unixPaths :: "string \<Rightarrow> pathlib" where
  "unixPaths cwd =
     \<lparr>pl_sep = CHR ''/'', pl_Clean = unixClean, pl_Abs = (\<lambda>s. Some (unixAbs cwd s)), pl_Rel = unixRel, pl_Dir = unixDir,
      pl_VolumeName = (\<lambda>_. []), pl_Join = unixJoin\<rparr>"

end
