(* ===== verification/CertStore.thy ===== *)
theory CertStore
  imports GoErrors GoPath Rules Config GoHTTP
begin

section \<open>Package certstore: the local certificate authority\<close>

text \<open>
  \<^verbatim>\<open>internal/certstore/certstore.go\<close>.  The manager loads or generates the root certificate and
  its key, installs the certificate in the trust store of the platform, and makes a certificate
  for each host, which it caches.  Keys, encodings and randomness are fields of a record; the
  files, the clock and the trust store are a world.  Contexts and the lock are left out.
\<close>

subsection \<open>Data\<close>

record x509 =
  x5_Raw :: string
  x5_SerialNumber :: nat
  x5_CommonName :: string
  x5_Organization :: "string list"
  x5_NotBefore :: int
  x5_NotAfter :: int
  x5_KeyUsage :: "string list"
  x5_ExtKeyUsage :: "string list"
  x5_IsCA :: bool
  x5_DNSNames :: "string list"

record 'k crypto =
  cy_GenerateKey :: "nat \<Rightarrow> (string, 'k) result"
  cy_RandInt :: "nat \<Rightarrow> nat \<Rightarrow> (string, nat) result"
  cy_CreateCertificate :: "x509 \<Rightarrow> x509 \<Rightarrow> 'k \<Rightarrow> 'k \<Rightarrow> (string, string) result"
  cy_ParseCertificate :: "string \<Rightarrow> (string, x509) result"
  cy_MarshalECPrivateKey :: "'k \<Rightarrow> (string, string) result"
  cy_ParseECPrivateKey :: "string \<Rightarrow> (string, 'k) result"
  cy_pemEncode :: "string \<Rightarrow> string \<Rightarrow> string"
  cy_pemDecode :: "string \<Rightarrow> (string \<times> string) option"
  cy_sha1hex :: "string \<Rightarrow> string"

record certConfig =
  cc_Dir :: string
  cc_StoreScope :: string

record TrustResult =
  tu_Platform :: string
  tu_CertPath :: string
  tu_Thumbprint :: string
  tu_StoreScope :: string
  tu_AlreadyTrusted :: bool
  tu_Installed :: bool
  tu_Changed :: bool
  tu_ViaHelper :: bool

definition emptyTrust :: TrustResult where
  "emptyTrust = \<lparr>tu_Platform = [], tu_CertPath = [], tu_Thumbprint = [], tu_StoreScope = [], tu_AlreadyTrusted = False,
     tu_Installed = False, tu_Changed = False, tu_ViaHelper = False\<rparr>"

datatype cert_error = ErrNoCA | ErrUnsupported string | CertError gerr | BadHost rules_error

record 'p certPlatform =
  cp_Name :: string
  cp_IsInstalled :: "x509 \<Rightarrow> string \<Rightarrow> string \<Rightarrow> ('p, cert_error, bool) proc"
  cp_Install :: "x509 \<Rightarrow> string \<Rightarrow> string \<Rightarrow> ('p, cert_error, unit) proc"
  cp_Uninstall :: "x509 \<Rightarrow> string \<Rightarrow> ('p, cert_error, unit) proc"

record 'k tlsCertificate =
  tc_Certificate :: "string list"
  tc_PrivateKey :: 'k
  tc_Leaf :: x509

record 'k Manager =
  mg_cfg :: certConfig
  mg_rootCert :: "x509 option"
  mg_rootKey :: "'k option"
  mg_loadedCA :: bool
  mg_cache :: "(string \<times> 'k tlsCertificate) list"

text \<open>
  A file that cannot be created is left as it was; one that can be created but not written is left
  empty.  Randomness is a stream: each use takes the next number.
\<close>

record 'p certWorld =
  cw_files :: "string \<Rightarrow> string option"
  cw_readable :: "string \<Rightarrow> bool"
  cw_creatable :: "string \<Rightarrow> bool"
  cw_writable :: "string \<Rightarrow> bool"
  cw_mkdir :: "string \<Rightarrow> bool"
  cw_now :: int
  cw_entropy :: nat
  cw_store :: 'p

type_synonym ('k, 'p, 'a) certProc = "('k Manager \<times> 'p certWorld, cert_error, 'a) proc"

subsection \<open>Configuration and paths\<close>

definition ConfigFromApp :: "Config \<Rightarrow> certConfig" where
  "ConfigFromApp cfg = \<lparr>cc_Dir = ce_Dir (c_Cert cfg), cc_StoreScope = ce_StoreScope (c_Cert cfg)\<rparr>"

definition normalizeConfig :: "golib \<Rightarrow> certConfig \<Rightarrow> certConfig" where
  "normalizeConfig E cfg =
     (let scope = ToLower E (TrimSpace (cc_StoreScope cfg)) in
      if scope \<in> set ['''', CertStoreMachine, ''local_machine'', ''local-machine''] then cfg\<lparr>cc_StoreScope := CertStoreMachine\<rparr>
      else if scope \<in> set [CertStoreUser, ''current_user'', ''current-user''] then cfg\<lparr>cc_StoreScope := CertStoreUser\<rparr>
      else cfg)"

definition NewWithPlatform :: "golib \<Rightarrow> certConfig \<Rightarrow> 'k Manager" where
  "NewWithPlatform E cfg =
     \<lparr>mg_cfg = normalizeConfig E cfg, mg_rootCert = None, mg_rootKey = None, mg_loadedCA = False, mg_cache = []\<rparr>"

definition RootCertPath :: "pathlib \<Rightarrow> certConfig \<Rightarrow> string" where
  "RootCertPath L cfg = pl_Join L [cc_Dir cfg, ''root-ca.pem'']"

definition RootKeyPath :: "pathlib \<Rightarrow> certConfig \<Rightarrow> string" where
  "RootKeyPath L cfg = pl_Join L [cc_Dir cfg, ''root-ca-key.pem'']"

subsection \<open>Generating\<close>

definition certFail :: "string \<Rightarrow> string \<Rightarrow> cert_error" where
  "certFail context e = CertError (newErr (context @ '': '' @ e))"

definition random :: "(string \<Rightarrow> cert_error) \<Rightarrow> (nat \<Rightarrow> (string, 'a) result) \<Rightarrow> ('k, 'p, 'a) certProc" where
  "random err f s = (map_err err (f (cw_entropy (snd s))), (fst s, (snd s)\<lparr>cw_entropy := cw_entropy (snd s) + 1\<rparr>))"

definition randomSerial :: "'k crypto \<Rightarrow> ('k, 'p, nat) certProc" where
  "randomSerial C = random (certFail ''generate certificate serial'') (cy_RandInt C (2 ^ 128))"

definition rootTemplate :: "nat \<Rightarrow> int \<Rightarrow> x509" where
  "rootTemplate serial now =
     \<lparr>x5_Raw = [], x5_SerialNumber = serial, x5_CommonName = ''steam-accelerator-core Local Root CA'',
      x5_Organization = [''steam-accelerator-core''], x5_NotBefore = now - 60 * Minute,
      x5_NotAfter = now + 10 * 365 * 24 * 60 * Minute, x5_KeyUsage = [''CertSign'', ''CRLSign''], x5_ExtKeyUsage = [],
      x5_IsCA = True, x5_DNSNames = []\<rparr>"

definition generateRootCA :: "'k crypto \<Rightarrow> ('k, 'p, x509 \<times> 'k) certProc" where
  "generateRootCA C =
     pbind (random (certFail ''generate root private key'') (cy_GenerateKey C)) (\<lambda>key.
     pbind (randomSerial C) (\<lambda>serial s.
      (let template = rootTemplate serial (cw_now (snd s)) in
       (rbind (map_err (certFail ''create root certificate'') (cy_CreateCertificate C template template key key)) (\<lambda>der.
        rbind (map_err (certFail ''parse generated root certificate'') (cy_ParseCertificate C der)) (\<lambda>cert.
        Inr (cert, key))), s))))"

definition writePEMFile :: "'k crypto \<Rightarrow> string \<Rightarrow> string \<Rightarrow> string \<Rightarrow> ('k, 'p, unit) certProc" where
  "writePEMFile C path blockType der s =
     (let (m, w) = s in
      if \<not> cw_creatable w path then (Inl (CertError (newErr ''open'')), s)
      else if \<not> cw_writable w path then (Inl (CertError (newErr ''write'')), (m, w\<lparr>cw_files := (cw_files w)(path \<mapsto> [])\<rparr>))
      else (Inr (), (m, w\<lparr>cw_files := (cw_files w)(path \<mapsto> cy_pemEncode C blockType der)\<rparr>)))"

subsection \<open>Loading\<close>

definition readPEM :: "string \<Rightarrow> string \<Rightarrow> 'p certWorld \<Rightarrow> (cert_error, string) result" where
  "readPEM context path w =
     (case cw_files w path of
        None \<Rightarrow> Inl ErrNoCA
      | Some data \<Rightarrow> if cw_readable w path then Inr data else Inl (CertError (newErr context)))"

definition pemBlock :: "'k crypto \<Rightarrow> string \<Rightarrow> string \<Rightarrow> string \<Rightarrow> (cert_error, string) result" where
  "pemBlock C blockType err data =
     (case cy_pemDecode C data of
        None \<Rightarrow> Inl (CertError (newErr err))
      | Some (t, der) \<Rightarrow> if t = blockType then Inr der else Inl (CertError (newErr err)))"

definition parseRootFiles :: "'k crypto \<Rightarrow> pathlib \<Rightarrow> certConfig \<Rightarrow> 'p certWorld \<Rightarrow> (cert_error, x509 \<times> 'k) result" where
  "parseRootFiles C L cfg w =
     rbind (readPEM ''read root certificate'' (RootCertPath L cfg) w) (\<lambda>certPEM.
     rbind (readPEM ''read root private key'' (RootKeyPath L cfg) w) (\<lambda>keyPEM.
     rbind (pemBlock C ''CERTIFICATE'' ''invalid root certificate PEM'' certPEM) (\<lambda>certDER.
     rbind (pemBlock C ''EC PRIVATE KEY'' ''invalid root private key PEM'' keyPEM) (\<lambda>keyDER.
     rbind (map_err (certFail ''parse root certificate'') (cy_ParseCertificate C certDER)) (\<lambda>cert.
     rbind (map_err (certFail ''parse root private key'') (cy_ParseECPrivateKey C keyDER)) (\<lambda>key.
     Inr (cert, key)))))))"

definition remember :: "x509 \<times> 'k \<Rightarrow> 'k Manager \<Rightarrow> 'k Manager" where
  "remember ck m = m\<lparr>mg_rootCert := Some (fst ck), mg_rootKey := Some (snd ck), mg_loadedCA := True\<rparr>"

definition loadRootKeypairLocked :: "'k crypto \<Rightarrow> pathlib \<Rightarrow> ('k, 'p, x509 \<times> 'k) certProc" where
  "loadRootKeypairLocked C L s =
     (let (m, w) = s in
      case (mg_loadedCA m, mg_rootCert m, mg_rootKey m) of
        (True, Some cert, Some key) \<Rightarrow> (Inr (cert, key), s)
      | _ \<Rightarrow>
          (case parseRootFiles C L (mg_cfg m) w of
             Inl e \<Rightarrow> (Inl e, s)
           | Inr ck \<Rightarrow> (Inr ck, (remember ck m, w))))"

definition createRoot :: "'k crypto \<Rightarrow> pathlib \<Rightarrow> ('k, 'p, x509 \<times> 'k) certProc" where
  "createRoot C L s =
     (let cfg = mg_cfg (fst s) in
      pbind (generateRootCA C) (\<lambda>(cert, key).
      pthen (\<lambda>s. (ensure (cw_mkdir (snd s) (cc_Dir cfg)) (CertError (newErr ''create certificate directory'')), s))
     (pthen (writePEMFile C (RootCertPath L cfg) ''CERTIFICATE'' (x5_Raw cert))
     (pbind (plift (map_err (certFail ''marshal root private key'') (cy_MarshalECPrivateKey C key))) (\<lambda>keyDER.
      pthen (writePEMFile C (RootKeyPath L cfg) ''EC PRIVATE KEY'' keyDER)
            (\<lambda>s. (Inr (cert, key), (remember (cert, key) (fst s), snd s))))))) s)"

definition ensureRootKeypairLocked :: "'k crypto \<Rightarrow> pathlib \<Rightarrow> ('k, 'p, x509 \<times> 'k) certProc" where
  "ensureRootKeypairLocked C L s =
     (case loadRootKeypairLocked C L s of
        (Inr ck, s') \<Rightarrow> (Inr ck, s')
      | (Inl e, s') \<Rightarrow> if e = ErrNoCA then createRoot C L s' else (Inl e, s'))"

definition EnsureRootCA :: "'k crypto \<Rightarrow> pathlib \<Rightarrow> ('k, 'p, x509) certProc" where
  "EnsureRootCA C L = pbind (ensureRootKeypairLocked C L) (\<lambda>ck. preturn (fst ck))"

definition loadRootCA :: "'k crypto \<Rightarrow> pathlib \<Rightarrow> ('k, 'p, x509) certProc" where
  "loadRootCA C L = pbind (loadRootKeypairLocked C L) (\<lambda>ck. preturn (fst ck))"

subsection \<open>Trust\<close>

definition onStore :: "('p, cert_error, 'a) proc \<Rightarrow> ('k, 'p, 'a) certProc" where
  "onStore p s = (case p (cw_store (snd s)) of (r, st) \<Rightarrow> (r, (fst s, (snd s)\<lparr>cw_store := st\<rparr>)))"

definition requireWindows :: "'p certPlatform \<Rightarrow> ('k, 'p, unit) certProc" where
  "requireWindows P = pensure (cp_Name P = ''windows'') (ErrUnsupported (cp_Name P))"

definition Thumbprint :: "'k crypto \<Rightarrow> golib \<Rightarrow> x509 \<Rightarrow> string" where
  "Thumbprint C E cert = map upperAscii (cy_sha1hex C (x5_Raw cert))"

definition IsInstalled :: "'k crypto \<Rightarrow> pathlib \<Rightarrow> 'p certPlatform \<Rightarrow> ('k, 'p, bool) certProc" where
  "IsInstalled C L P s =
     (let cfg = mg_cfg (fst s) in
      case requireWindows P s of
        (Inl e, s) \<Rightarrow> (Inl e, s)
      | (Inr _, s) \<Rightarrow>
          (case loadRootCA C L s of
             (Inl e, s) \<Rightarrow> if e = ErrNoCA then (Inr False, s) else (Inl e, s)
           | (Inr cert, s) \<Rightarrow> onStore (cp_IsInstalled P cert (RootCertPath L cfg) (cc_StoreScope cfg)) s))"

definition EnsureTrusted :: "'k crypto \<Rightarrow> golib \<Rightarrow> pathlib \<Rightarrow> 'p certPlatform \<Rightarrow> ('k, 'p, TrustResult) certProc" where
  "EnsureTrusted C E L P s =
     (let cfg = mg_cfg (fst s);
          result = emptyTrust\<lparr>tu_Platform := cp_Name P, tu_CertPath := RootCertPath L cfg, tu_StoreScope := cc_StoreScope cfg\<rparr>
      in pthen (requireWindows P)
        (pbind (EnsureRootCA C L) (\<lambda>cert.
         let result = result\<lparr>tu_Thumbprint := Thumbprint C E cert\<rparr> in
         pbind (onStore (cp_IsInstalled P cert (RootCertPath L cfg) (cc_StoreScope cfg))) (\<lambda>installed.
         if installed then preturn (result\<lparr>tu_AlreadyTrusted := True\<rparr>)
         else pthen (onStore (cp_Install P cert (RootCertPath L cfg) (cc_StoreScope cfg)))
                    (preturn (result\<lparr>tu_Installed := True, tu_Changed := True\<rparr>))))) s)"

definition Uninstall :: "'k crypto \<Rightarrow> pathlib \<Rightarrow> 'p certPlatform \<Rightarrow> ('k, 'p, unit) certProc" where
  "Uninstall C L P s =
     (let cfg = mg_cfg (fst s) in
      pthen (requireWindows P)
     (pbind (loadRootCA C L) (\<lambda>cert.
      pbind (onStore (cp_IsInstalled P cert (RootCertPath L cfg) (cc_StoreScope cfg))) (\<lambda>installed.
      if \<not> installed then preturn () else onStore (cp_Uninstall P cert (cc_StoreScope cfg))))) s)"

subsection \<open>Site certificates\<close>

definition leafTemplate :: "string \<Rightarrow> nat \<Rightarrow> int \<Rightarrow> x509" where
  "leafTemplate host serial now =
     \<lparr>x5_Raw = [], x5_SerialNumber = serial, x5_CommonName = host, x5_Organization = [], x5_NotBefore = now - 60 * Minute,
      x5_NotAfter = now + 90 * 24 * 60 * Minute, x5_KeyUsage = [''DigitalSignature''], x5_ExtKeyUsage = [''ServerAuth''],
      x5_IsCA = False, x5_DNSNames = [host]\<rparr>"

definition issue :: "'k crypto \<Rightarrow> string \<Rightarrow> x509 \<times> 'k \<Rightarrow> ('k, 'p, 'k tlsCertificate) certProc" where
  "issue C host root =
     pbind (random (certFail ''generate site private key'') (cy_GenerateKey C)) (\<lambda>leafKey.
     pbind (randomSerial C) (\<lambda>serial s.
      (rbind (map_err (certFail ''create site certificate'')
         (cy_CreateCertificate C (leafTemplate host serial (cw_now (snd s))) (fst root) leafKey (snd root))) (\<lambda>der.
       rbind (map_err (certFail ''parse site certificate'') (cy_ParseCertificate C der)) (\<lambda>leaf.
       Inr \<lparr>tc_Certificate = [der, x5_Raw (fst root)], tc_PrivateKey = leafKey, tc_Leaf = leaf\<rparr>)), s)))"

definition Certificate :: "golib \<Rightarrow> 'k crypto \<Rightarrow> pathlib \<Rightarrow> string \<Rightarrow> ('k, 'p, 'k tlsCertificate) certProc" where
  "Certificate E C L host s =
     (case NormalizeHost E host of
        Inl e \<Rightarrow> (Inl (BadHost e), s)
      | Inr normalized \<Rightarrow>
          (case map_of (mg_cache (fst s)) normalized of
             Some cert \<Rightarrow> (Inr cert, s)
           | None \<Rightarrow>
               pbind (ensureRootKeypairLocked C L) (\<lambda>root.
               pbind (issue C normalized root) (\<lambda>cert s.
               (Inr cert, ((fst s)\<lparr>mg_cache := AList.update normalized cert (mg_cache (fst s))\<rparr>, snd s)))) s))"

subsection \<open>The root is stable\<close>

definition loaded :: "x509 \<times> 'k \<Rightarrow> 'k Manager \<Rightarrow> bool" where
  "loaded ck m \<longleftrightarrow> mg_loadedCA m \<and> mg_rootCert m = Some (fst ck) \<and> mg_rootKey m = Some (snd ck)"

lemma loaded_remember [simp]: "loaded ck (remember ck m)" "mg_cfg (remember ck m) = mg_cfg m" "mg_cache (remember ck m) = mg_cache m"
  by (simp_all add: loaded_def remember_def)

lemma load_loaded: "loaded ck m \<Longrightarrow> loadRootKeypairLocked C L (m, w) = (Inr ck, (m, w))"
  by (cases ck) (simp add: loaded_def loadRootKeypairLocked_def)

lemma load_fresh:
  "\<not> mg_loadedCA m \<Longrightarrow> loadRootKeypairLocked C L (m, w) =
     (case parseRootFiles C L (mg_cfg m) w of Inl e \<Rightarrow> (Inl e, (m, w)) | Inr ck \<Rightarrow> (Inr ck, (remember ck m, w)))"
  by (simp add: loadRootKeypairLocked_def)

lemma load_cases:
  assumes "loadRootKeypairLocked C L (m, w) = (Inr ck, (m', w'))"
  shows "w' = w \<and> mg_cfg m' = mg_cfg m \<and> mg_cache m' = mg_cache m \<and> loaded ck m'"
  using assms by (auto simp: loadRootKeypairLocked_def loaded_def remember_def split: bool.splits option.splits sum.splits)

lemma load_error: "loadRootKeypairLocked C L (m, w) = (Inl e, s') \<Longrightarrow> s' = (m, w)"
  by (auto simp: loadRootKeypairLocked_def split: bool.splits option.splits sum.splits)

lemma random_Inr [proc_simps]:
  "random err f s = (Inr x, s') \<longleftrightarrow>
     f (cw_entropy (snd s)) = Inr x \<and> s' = (fst s, (snd s)\<lparr>cw_entropy := cw_entropy (snd s) + 1\<rparr>)"
  by (auto simp: random_def map_err_eq_Inr)

lemma generate_Inr:
  assumes "generateRootCA C s = (Inr ck, s')"
  shows "fst s' = fst s \<and> (\<exists>n. snd s' = (snd s)\<lparr>cw_entropy := n\<rparr>) \<and> (\<exists>der. cy_ParseCertificate C der = Inr (fst ck))"
  using assms
  by (auto simp: generateRootCA_def randomSerial_def proc_simps Let_def rbind_eq_Inr map_err_eq_Inr)

lemma writePEMFile_Inr:
  "writePEMFile C path t der s = (Inr u, s') \<longleftrightarrow>
     cw_creatable (snd s) path \<and> cw_writable (snd s) path \<and>
     s' = (fst s, (snd s)\<lparr>cw_files := (cw_files (snd s))(path \<mapsto> cy_pemEncode C t der)\<rparr>)"
  by (cases s) (auto simp: writePEMFile_def)

lemma create_Inr:
  assumes "createRoot C L (m, w) = (Inr (cert, key), (m', w'))"
  shows "\<exists>n keyDER der. m' = remember (cert, key) m \<and> cy_MarshalECPrivateKey C key = Inr keyDER \<and>
     cy_ParseCertificate C der = Inr cert \<and>
     w' = w\<lparr>cw_entropy := n, cw_files := (cw_files w)
       (RootCertPath L (mg_cfg m) \<mapsto> cy_pemEncode C ''CERTIFICATE'' (x5_Raw cert),
        RootKeyPath L (mg_cfg m) \<mapsto> cy_pemEncode C ''EC PRIVATE KEY'' keyDER)\<rparr>"
proof -
  from assms obtain s1 keyDER where gen: "generateRootCA C (m, w) = (Inr (cert, key), s1)"
    and der: "cy_MarshalECPrivateKey C key = Inr keyDER"
    and w': "m' = remember (cert, key) (fst s1)"
      "w' = (snd s1)\<lparr>cw_files := (cw_files (snd s1))
         (RootCertPath L (mg_cfg m) \<mapsto> cy_pemEncode C ''CERTIFICATE'' (x5_Raw cert),
          RootKeyPath L (mg_cfg m) \<mapsto> cy_pemEncode C ''EC PRIVATE KEY'' keyDER)\<rparr>"
    by (auto simp: createRoot_def Let_def proc_simps writePEMFile_Inr map_err_eq_Inr ensure_eq_Inr)
  from generate_Inr [OF gen] der w' show ?thesis by auto
qed

lemma ensure_Inr:
  assumes "ensureRootKeypairLocked C L (m, w) = (Inr ck, (m', w'))"
  obtains "loadRootKeypairLocked C L (m, w) = (Inr ck, (m', w'))"
  | "createRoot C L (m, w) = (Inr ck, (m', w'))"
  using assms load_error [of C L m w] by (auto simp: ensureRootKeypairLocked_def split: prod.splits sum.splits if_splits)

lemma ensure_keeps:
  assumes "ensureRootKeypairLocked C L (m, w) = (Inr ck, (m', w'))"
  shows "loaded ck m' \<and> mg_cfg m' = mg_cfg m \<and> mg_cache m' = mg_cache m \<and> cw_store w' = cw_store w"
  using assms
proof (cases rule: ensure_Inr)
  case 1
  from load_cases [OF this] show ?thesis by simp
next
  case 2
  obtain cert key where ck: "ck = (cert, key)" by (cases ck)
  from create_Inr [OF 2 [unfolded ck]] show ?thesis by (auto simp: ck)
qed

text \<open>
  What the code relies on of the encodings: a PEM block reads back, a parsed certificate keeps the
  bytes it was parsed from, and a key that was encoded reads back.
\<close>

definition encodings :: "'k crypto \<Rightarrow> bool" where
  "encodings C \<longleftrightarrow>
     (\<forall>t \<in> {''CERTIFICATE'', ''EC PRIVATE KEY''}. \<forall>d. cy_pemDecode C (cy_pemEncode C t d) = Some (t, d)) \<and>
     (\<forall>der cert. cy_ParseCertificate C der = Inr cert \<longrightarrow> x5_Raw cert = der) \<and>
     (\<forall>k der. cy_MarshalECPrivateKey C k = Inr der \<longrightarrow> cy_ParseECPrivateKey C der = Inr k)"

lemma ensure_rereads:
  assumes "encodings C" and "RootCertPath L (mg_cfg m) \<noteq> RootKeyPath L (mg_cfg m)"
    and "cw_readable w (RootCertPath L (mg_cfg m))" and "cw_readable w (RootKeyPath L (mg_cfg m))"
    and "\<not> mg_loadedCA m" and "ensureRootKeypairLocked C L (m, w) = (Inr ck, (m', w'))"
  shows "parseRootFiles C L (mg_cfg m) w' = Inr ck"
  using assms(6)
proof (cases rule: ensure_Inr)
  case 1
  then show ?thesis using load_cases [OF 1] by (auto simp: load_fresh [OF assms(5)] split: sum.splits)
next
  case 2
  obtain cert key where ck: "ck = (cert, key)" by (cases ck)
  from create_Inr [OF 2 [unfolded ck]] assms(1-4) show ?thesis
    by (auto simp: ck parseRootFiles_def readPEM_def pemBlock_def encodings_def rbind_eq_Inr map_err_eq_Inr)
qed

lemma Certificate_chain:
  assumes "Certificate E C L host (m, w) = (Inr tc, s')" and "mg_cache m = []"
    and "ensureRootKeypairLocked C L (m, w) = (Inr ck, (m', w'))"
  shows "\<exists>der. tc_Certificate tc = [der, x5_Raw (fst ck)]"
  using assms
  by (auto simp: Certificate_def issue_def randomSerial_def proc_simps rbind_eq_Inr map_err_eq_Inr split: sum.splits)

subsection \<open>A sample library\<close>

text \<open>Keys are numbers, encodings are prefixes of one byte.\<close>

definition sampleCrypto :: "nat crypto" where
  "sampleCrypto =
     \<lparr>cy_GenerateKey = Inr, cy_RandInt = (\<lambda>limit n. Inr (n mod limit)),
      cy_CreateCertificate = (\<lambda>t parent pub key. Inr (''c'' @ x5_CommonName t)),
      cy_ParseCertificate = (\<lambda>der. if HasPrefix der ''c'' then Inr \<lparr>x5_Raw = der, x5_SerialNumber = 0, x5_CommonName = tl der,
        x5_Organization = [], x5_NotBefore = 0, x5_NotAfter = 0, x5_KeyUsage = [], x5_ExtKeyUsage = [], x5_IsCA = True,
        x5_DNSNames = []\<rparr> else Inl ''x509''),
      cy_MarshalECPrivateKey = (\<lambda>k. Inr (digitsOf k)), cy_ParseECPrivateKey = (\<lambda>d. Inr (decimal d)),
      cy_pemEncode = (\<lambda>t d. t @ [CHR 0x00] @ d),
      cy_pemDecode = (\<lambda>s. Some (takeWhile (\<lambda>c. c \<noteq> CHR 0x00) s, tl (dropWhile (\<lambda>c. c \<noteq> CHR 0x00) s))),
      cy_sha1hex = (\<lambda>s. s)\<rparr>"

definition sampleCertConfig :: certConfig where
  "sampleCertConfig = \<lparr>cc_Dir = ''/c'', cc_StoreScope = CertStoreMachine\<rparr>"

definition emptyCertWorld :: "'p \<Rightarrow> 'p certWorld" where
  "emptyCertWorld st = \<lparr>cw_files = (\<lambda>_. None), cw_readable = (\<lambda>_. True), cw_creatable = (\<lambda>_. True), cw_writable = (\<lambda>_. True),
     cw_mkdir = (\<lambda>_. True), cw_now = 0, cw_entropy = 0, cw_store = st\<rparr>"

lemma sampleCrypto_encodings: "encodings sampleCrypto"
  by (auto simp: encodings_def sampleCrypto_def split: if_splits)

lemma sample_paths:
  "RootCertPath (unixPaths ''/'') sampleCertConfig = ''/c/root-ca.pem''"
  "RootKeyPath (unixPaths ''/'') sampleCertConfig = ''/c/root-ca-key.pem''"
  "normalizeConfig sampleLib sampleCertConfig = sampleCertConfig"
proof -
  have "unixJoin [''/c'', ''root-ca.pem''] = ''/c/root-ca.pem''" "unixJoin [''/c'', ''root-ca-key.pem''] = ''/c/root-ca-key.pem''"
    "ToLower sampleLib (TrimSpace ''machine'') = ''machine''" by code_simp+
  then show "RootCertPath (unixPaths ''/'') sampleCertConfig = ''/c/root-ca.pem''"
    "RootKeyPath (unixPaths ''/'') sampleCertConfig = ''/c/root-ca-key.pem''"
    "normalizeConfig sampleLib sampleCertConfig = sampleCertConfig"
    by (simp_all add: RootCertPath_def RootKeyPath_def normalizeConfig_def unixPaths_def sampleCertConfig_def)
qed

lemma sample_ensure:
  "\<exists>cert s. EnsureRootCA sampleCrypto (unixPaths ''/'') (NewWithPlatform sampleLib sampleCertConfig, emptyCertWorld st) = (Inr cert, s)"
  by (simp add: EnsureRootCA_def pbind_def ensureRootKeypairLocked_def loadRootKeypairLocked_def parseRootFiles_def readPEM_def
      NewWithPlatform_def emptyCertWorld_def createRoot_def generateRootCA_def randomSerial_def random_def Let_def
      pthen_def plift_def preturn_def writePEMFile_def sampleCrypto_def ensure_def HasPrefix_def rootTemplate_def)

subsection \<open>Properties\<close>

text \<open>
  C33. The root certificate survives restarts: once it was made or loaded, every later manager on
  the same directory uses the same root without writing a file, and the certificate it makes for
  any host is followed by that root in its chain, at whatever time it is made.
\<close>

theorem root_survives_restart:
  assumes "encodings C" and "RootCertPath L (normalizeConfig E cfg) \<noteq> RootKeyPath L (normalizeConfig E cfg)"
    and "cw_readable w (RootCertPath L (normalizeConfig E cfg))" and "cw_readable w (RootKeyPath L (normalizeConfig E cfg))"
    and "EnsureRootCA C L (NewWithPlatform E cfg, w) = (Inr cert, (m1, w1))"
  shows "(\<exists>m2. EnsureRootCA C L (NewWithPlatform E cfg, w1\<lparr>cw_now := t\<rparr>) = (Inr cert, (m2, w1\<lparr>cw_now := t\<rparr>))) \<and>
    (\<forall>tc s'. Certificate E C L host (NewWithPlatform E cfg, w1\<lparr>cw_now := t\<rparr>) = (Inr tc, s') \<longrightarrow>
       (\<exists>der. tc_Certificate tc = [der, x5_Raw cert]))"
proof -
  let ?m = "NewWithPlatform E cfg" and ?w = "w1\<lparr>cw_now := t\<rparr>"
  have m: "mg_cfg ?m = normalizeConfig E cfg" "\<not> mg_loadedCA ?m" "mg_cache ?m = []" by (simp_all add: NewWithPlatform_def)
  obtain key where run: "ensureRootKeypairLocked C L (?m, w) = (Inr (cert, key), (m1, w1))"
    using assms(5) by (auto simp: EnsureRootCA_def proc_simps)
  have "parseRootFiles C L (normalizeConfig E cfg) w1 = Inr (cert, key)"
    using ensure_rereads [OF assms(1) _ _ _ m(2) run] assms(2-4) by (simp add: m)
  moreover have "readPEM ctx path ?w = readPEM ctx path w1" for ctx path by (simp add: readPEM_def split: option.split)
  then have "parseRootFiles C L c ?w = parseRootFiles C L c w1" for c by (simp add: parseRootFiles_def)
  ultimately have again: "ensureRootKeypairLocked C L (?m, ?w) = (Inr (cert, key), (remember (cert, key) ?m, ?w))"
    by (simp add: ensureRootKeypairLocked_def load_fresh [OF m(2)] m(1))
  then have "EnsureRootCA C L (?m, ?w) = (Inr cert, (remember (cert, key) ?m, ?w))"
    by (simp add: EnsureRootCA_def pbind_def preturn_def)
  with Certificate_chain [OF _ m(3) again] show ?thesis by auto
qed

theorem root_survives_restart_witness:
  "\<exists>cert m1 w1. EnsureRootCA sampleCrypto (unixPaths ''/'') (NewWithPlatform sampleLib sampleCertConfig, emptyCertWorld ()) =
      (Inr cert, (m1, w1)) \<and>
    (\<exists>m2. EnsureRootCA sampleCrypto (unixPaths ''/'') (NewWithPlatform sampleLib sampleCertConfig, w1\<lparr>cw_now := 7\<rparr>) =
      (Inr cert, (m2, w1\<lparr>cw_now := 7\<rparr>)))"
proof -
  obtain cert m1 w1 where run: "EnsureRootCA sampleCrypto (unixPaths ''/'')
      (NewWithPlatform sampleLib sampleCertConfig, emptyCertWorld ()) = (Inr cert, (m1, w1))"
    using sample_ensure [of "()"] by auto
  from root_survives_restart [OF sampleCrypto_encodings _ _ _ run, of 7] run show ?thesis
    by (auto simp: sample_paths emptyCertWorld_def)
qed

subsection \<open>What the code does not do\<close>

text \<open>
  A root key that could not be written leaves an empty file behind.  It is not a missing
  authority, so no later manager generates a new one: every start fails until the file is removed.
\<close>

lemma half_written_root_sticks:
  assumes "cw_files w (RootCertPath L (normalizeConfig E cfg)) \<noteq> None" and "cw_readable w (RootCertPath L (normalizeConfig E cfg))"
    and "cw_files w (RootKeyPath L (normalizeConfig E cfg)) = Some []" and "cw_readable w (RootKeyPath L (normalizeConfig E cfg))"
    and "cy_pemDecode C [] = None"
  shows "\<exists>e. EnsureRootCA C L (NewWithPlatform E cfg, w) = (Inl e, (NewWithPlatform E cfg, w))"
proof -
  let ?m = "NewWithPlatform E cfg"
  have m: "mg_cfg ?m = normalizeConfig E cfg" "\<not> mg_loadedCA ?m" by (simp_all add: NewWithPlatform_def)
  have "\<exists>e. parseRootFiles C L (normalizeConfig E cfg) w = Inl (CertError e)"
    using assms by (auto simp: parseRootFiles_def readPEM_def pemBlock_def split: option.splits)
  then show ?thesis
    by (auto simp: EnsureRootCA_def pbind_def ensureRootKeypairLocked_def load_fresh [OF m(2)] m(1))
qed

text \<open>A cached site certificate is served for as long as the manager lives, also after it has expired.\<close>

lemma expired_certificate_served:
  assumes "Certificate E C L host (m, w) = (Inr tc, (m', w'))"
  shows "Certificate E C L host (m', w'\<lparr>cw_now := x5_NotAfter (tc_Leaf tc) + 1\<rparr>) =
    (Inr tc, (m', w'\<lparr>cw_now := x5_NotAfter (tc_Leaf tc) + 1\<rparr>))"
  using assms by (auto simp: Certificate_def proc_simps update_Some_unfold update_conv' split: sum.splits option.splits)

end
