(* ===== verification/Privilege.thy ===== *)
theory Privilege
  imports CertStore Hosts SystemDns
begin

section \<open>Package privilege: system changes with and without the helper\<close>

text \<open>
  \<^verbatim>\<open>internal/privilege/privilege.go\<close> and \<^verbatim>\<open>io.go\<close>.  Changes of the trust store, the hosts
  file and the DNS servers are made directly, or by a privileged helper that takes a request,
  checks it and executes it.  The machine has the worlds of the three packages; \<open>privEnv\<close> has
  the platforms and libraries, whether the process is privileged, and the default paths.  The
  transport to the helper is an argument of the operations that use it.
\<close>

subsection \<open>Data\<close>

record CertRequest =
  cq_Dir :: string
  cq_StoreScope :: string

record HelperRequest =
  hq_Version :: int
  hq_Token :: string
  hq_ParentPID :: int
  hq_Command :: string
  hq_Cert :: CertRequest
  hq_Hosts :: HostsApply
  hq_SystemDNS :: dnsSysConfig
  hq_RollbackPath :: string
  hq_AutoInstall :: bool

record PrepareHostsResult =
  ph_Cert :: TrustResult
  ph_CertTrusted :: bool
  ph_Entries :: nat

record HelperResponse =
  hr_OK :: bool
  hr_Error :: string
  hr_Trust :: "TrustResult option"
  hr_Prepare :: "PrepareHostsResult option"
  hr_SystemDNS :: "Result option"

record ('p, 'os) machine =
  mc_certs :: "'p certWorld"
  mc_hosts :: HostsFS
  mc_dns :: "'os world"

record ('k, 'p, 'os) privEnv =
  pv_lib :: golib
  pv_paths :: pathlib
  pv_crypto :: "'k crypto"
  pv_certPlatform :: "'p certPlatform"
  pv_hostsPlatform :: HostsPlatform
  pv_dnsPlatform :: "'os dnsPlatform"
  pv_defaults :: DefaultPaths
  pv_goos :: string
  pv_HasSystemPrivileges :: bool
  pv_helperStatus :: string
  pv_certText :: "cert_error \<Rightarrow> string \<times> bool"
  pv_hostsText :: "hosts_error \<Rightarrow> string \<times> bool"
  pv_dnsText :: "sysdns_error \<Rightarrow> string \<times> bool"

type_synonym ('p, 'os, 'z, 'a) sysProc = "(('p, 'os, 'z) machine_scheme, gerr, 'a) proc"

definition emptyRequest :: HelperRequest where
  "emptyRequest = \<lparr>hq_Version = 0, hq_Token = [], hq_ParentPID = 0, hq_Command = [],
     hq_Cert = \<lparr>cq_Dir = [], cq_StoreScope = []\<rparr>,
     hq_Hosts = \<lparr>ha_Path = [], ha_RollbackPath = [], ha_MapIP = [], ha_Entries = []\<rparr>,
     hq_SystemDNS = \<lparr>dz_RollbackPath = [], dz_Interfaces = [], dz_ServerIPs = []\<rparr>,
     hq_RollbackPath = [], hq_AutoInstall = False\<rparr>"

definition okResponse :: HelperResponse where
  "okResponse = \<lparr>hr_OK = True, hr_Error = [], hr_Trust = None, hr_Prepare = None, hr_SystemDNS = None\<rparr>"

definition failedResponse :: "string \<Rightarrow> HelperResponse" where
  "failedResponse err = \<lparr>hr_OK = False, hr_Error = err, hr_Trust = None, hr_Prepare = None, hr_SystemDNS = None\<rparr>"

abbreviation CommandPrepareHostsStart :: string where "CommandPrepareHostsStart \<equiv> ''prepare-hosts-start''"
abbreviation CommandTrustRootCA :: string where "CommandTrustRootCA \<equiv> ''trust-root-ca''"
abbreviation CommandUntrustRootCA :: string where "CommandUntrustRootCA \<equiv> ''untrust-root-ca''"
abbreviation CommandRestoreHosts :: string where "CommandRestoreHosts \<equiv> ''restore-hosts''"
abbreviation CommandPreflightSystemDNS :: string where "CommandPreflightSystemDNS \<equiv> ''preflight-system-dns''"
abbreviation CommandApplySystemDNS :: string where "CommandApplySystemDNS \<equiv> ''apply-system-dns''"
abbreviation CommandRestoreSystemDNS :: string where "CommandRestoreSystemDNS \<equiv> ''restore-system-dns''"
abbreviation CommandAppHostHealth :: string where "CommandAppHostHealth \<equiv> ''apphost-health''"

subsection \<open>The packages on the machine\<close>

definition onCerts :: "('k, 'p, 'os) privEnv \<Rightarrow> certConfig \<Rightarrow> ('k, 'p, 'a) certProc \<Rightarrow> ('p, 'os, 'z, 'a) sysProc" where
  "onCerts V cfg m s =
     (case m (NewWithPlatform (pv_lib V) cfg, mc_certs s) of
        (r, (_, w)) \<Rightarrow>
          (map_err (\<lambda>e. \<lparr>ge_text = fst (pv_certText V e), ge_permission = snd (pv_certText V e), ge_noState = (e = ErrNoCA)\<rparr>) r,
           s\<lparr>mc_certs := w\<rparr>))"

definition certIsInstalled :: "('k, 'p, 'os) privEnv \<Rightarrow> certConfig \<Rightarrow> ('p, 'os, 'z, bool) sysProc" where
  "certIsInstalled V cfg = onCerts V cfg (IsInstalled (pv_crypto V) (pv_paths V) (pv_certPlatform V))"

definition certEnsureTrusted :: "('k, 'p, 'os) privEnv \<Rightarrow> certConfig \<Rightarrow> ('p, 'os, 'z, TrustResult) sysProc" where
  "certEnsureTrusted V cfg = onCerts V cfg (EnsureTrusted (pv_crypto V) (pv_lib V) (pv_paths V) (pv_certPlatform V))"

definition certUninstall :: "('k, 'p, 'os) privEnv \<Rightarrow> certConfig \<Rightarrow> ('p, 'os, 'z, unit) sysProc" where
  "certUninstall V cfg = onCerts V cfg (Uninstall (pv_crypto V) (pv_paths V) (pv_certPlatform V))"

definition hostsErr :: "('k, 'p, 'os) privEnv \<Rightarrow> hosts_error \<Rightarrow> gerr" where
  "hostsErr V e = \<lparr>ge_text = fst (pv_hostsText V e), ge_permission = snd (pv_hostsText V e), ge_noState = (e = NoState)\<rparr>"

definition onHosts :: "('k, 'p, 'os) privEnv \<Rightarrow> (HostsFS \<Rightarrow> (hosts_error, 'a) result \<times> HostsFS) \<Rightarrow> ('p, 'os, 'z, 'a) sysProc" where
  "onHosts V m s = (case m (mc_hosts s) of (r, fs) \<Rightarrow> (map_err (hostsErr V) r, s\<lparr>mc_hosts := fs\<rparr>))"

definition hostsPreflight :: "('k, 'p, 'os) privEnv \<Rightarrow> HostsApply \<Rightarrow> ('p, 'os, 'z, unit) sysProc" where
  "hostsPreflight V cfg = onHosts V (\<lambda>fs. (Hosts.PreflightWithPlatform cfg (pv_hostsPlatform V) fs, fs))"

definition hostsApply :: "('k, 'p, 'os) privEnv \<Rightarrow> HostsApply \<Rightarrow> ('p, 'os, 'z, unit) sysProc" where
  "hostsApply V cfg = onHosts V (Hosts.ApplyWithPlatform cfg (pv_hostsPlatform V))"

definition hostsRestore :: "('k, 'p, 'os) privEnv \<Rightarrow> string \<Rightarrow> ('p, 'os, 'z, unit) sysProc" where
  "hostsRestore V path = onHosts V (Hosts.RestoreWithPlatform path (pv_hostsPlatform V))"

definition dnsErr :: "('k, 'p, 'os) privEnv \<Rightarrow> sysdns_error \<Rightarrow> gerr" where
  "dnsErr V e = \<lparr>ge_text = fst (pv_dnsText V e), ge_permission = snd (pv_dnsText V e), ge_noState = (e = DnsNoState)\<rparr>"

definition onDNS :: "('k, 'p, 'os) privEnv \<Rightarrow> ('os world, sysdns_error, 'a) proc \<Rightarrow> ('p, 'os, 'z, 'a) sysProc" where
  "onDNS V m s = (case m (mc_dns s) of (r, w) \<Rightarrow> (map_err (dnsErr V) r, s\<lparr>mc_dns := w\<rparr>))"

definition dnsPreflight :: "('k, 'p, 'os) privEnv \<Rightarrow> dnsSysConfig \<Rightarrow> ('p, 'os, 'z, Result) sysProc" where
  "dnsPreflight V cfg = onDNS V (onOS (SystemDns.PreflightWithPlatform (pv_lib V) cfg (pv_dnsPlatform V)))"

definition dnsApply :: "('k, 'p, 'os) privEnv \<Rightarrow> dnsSysConfig \<Rightarrow> ('p, 'os, 'z, Result) sysProc" where
  "dnsApply V cfg = onDNS V (SystemDns.ApplyWithPlatform (pv_lib V) cfg (pv_dnsPlatform V))"

definition dnsRestore :: "('k, 'p, 'os) privEnv \<Rightarrow> string \<Rightarrow> ('p, 'os, 'z, Result) sysProc" where
  "dnsRestore V path = onDNS V (SystemDns.RestoreWithPlatform path (pv_dnsPlatform V))"

subsection \<open>Paths\<close>

definition samePath :: "('k, 'p, 'os) privEnv \<Rightarrow> string \<Rightarrow> string \<Rightarrow> bool" where
  "samePath V a b =
     (let L = pv_paths V;
          aa = pl_Clean L (case pl_Abs L a of None \<Rightarrow> a | Some x \<Rightarrow> x);
          bb = pl_Clean L (case pl_Abs L b of None \<Rightarrow> b | Some x \<Rightarrow> x)
      in if pv_goos V = ''windows'' then EqualFold (pv_lib V) aa bb else aa = bb)"

definition isUnderOrEqual :: "('k, 'p, 'os) privEnv \<Rightarrow> string \<Rightarrow> string \<Rightarrow> bool" where
  "isUnderOrEqual V path base =
     (let L = pv_paths V; fold = (\<lambda>s. if pv_goos V = ''windows'' then ToLower (pv_lib V) s else s) in
      case (pl_Abs L path, pl_Abs L base) of
        (Some p, Some b) \<Rightarrow>
          (let p = fold (pl_Clean L p); b = fold (pl_Clean L b) in
           if p = b then True
           else (case pl_Rel L b p of
                   None \<Rightarrow> False
                 | Some rel \<Rightarrow> rel \<noteq> ''..'' \<and> \<not> HasPrefix rel (''..'' @ [pl_sep L])))
      | _ \<Rightarrow> False)"

definition splitPath :: "pathlib \<Rightarrow> string \<Rightarrow> string list" where
  "splitPath L path =
     (let path = TrimPrefix path (pl_VolumeName L path);
          path = TrimCutset path [pl_sep L]
      in if path = [] then [] else splitByte (pl_sep L) path)"

definition projectName :: string where
  "projectName = ''steam-accelerator-core''"

definition projectPathSuffix :: "('k, 'p, 'os) privEnv \<Rightarrow> string \<Rightarrow> string list" where
  "projectPathSuffix V path =
     (let parts = splitPath (pv_paths V) (pl_Clean (pv_paths V) path) in
      case filter (\<lambda>i. EqualFold (pv_lib V) (parts ! i) projectName) (rev [0..<length parts]) of
        [] \<Rightarrow> parts
      | i # _ \<Rightarrow> drop i parts)"

definition sameElem :: "('k, 'p, 'os) privEnv \<Rightarrow> string \<Rightarrow> string \<Rightarrow> bool" where
  "sameElem V a b = (if pv_goos V = ''windows'' then EqualFold (pv_lib V) a b else a = b)"

definition hasPathSuffix :: "('k, 'p, 'os) privEnv \<Rightarrow> string \<Rightarrow> string list \<Rightarrow> bool" where
  "hasPathSuffix V path want =
     (let parts = splitPath (pv_paths V) (pl_Clean (pv_paths V) path) in
      if want = [] then False
      else if length parts < length want then False
      else list_all2 (sameElem V) (drop (length parts - length want) parts) want)"

definition isAllowedProjectPath :: "('k, 'p, 'os) privEnv \<Rightarrow> string \<Rightarrow> string \<Rightarrow> bool" where
  "isAllowedProjectPath V path defaultPath \<longleftrightarrow>
     isUnderOrEqual V path (pl_Dir (pv_paths V) defaultPath) \<or> hasPathSuffix V path (projectPathSuffix V defaultPath)"

subsection \<open>Checking a request\<close>

definition validateRollbackPath :: "('k, 'p, 'os) privEnv \<Rightarrow> string \<Rightarrow> (string, unit) result" where
  "validateRollbackPath V path =
     rbind (ensure (TrimSpace path \<noteq> []) ''rollback path is required'') (\<lambda>_.
     ensure (isAllowedProjectPath V path (dp_Rollback (pv_defaults V)))
       (''rollback path '' @ path @ '' is outside the allowed project runtime directory''))"

definition validateCertRequest :: "('k, 'p, 'os) privEnv \<Rightarrow> CertRequest \<Rightarrow> (string, unit) result" where
  "validateCertRequest V req =
     rbind (ensure (TrimSpace (cq_Dir req) \<noteq> []) ''cert dir is required'') (\<lambda>_.
     rbind (ensure (ToLower (pv_lib V) (TrimSpace (cq_StoreScope req)) \<in> set ['''', CertStoreMachine, CertStoreUser])
              (''unsupported cert store scope '' @ cq_StoreScope req)) (\<lambda>_.
     ensure (isAllowedProjectPath V (cq_Dir req) (dp_CertDir (pv_defaults V)))
       (''cert dir '' @ cq_Dir req @ '' is outside the allowed project config directory'')))"

definition validateHostsConfigForHelper :: "('k, 'p, 'os) privEnv \<Rightarrow> HostsApply \<Rightarrow> (string, unit) result" where
  "validateHostsConfigForHelper V cfg =
     rbind (ensure (samePath V (ha_Path cfg) (dp_Hosts (pv_defaults V)))
              ''elevated helper can only modify the default Windows hosts file'') (\<lambda>_.
     rbind (validateRollbackPath V (ha_RollbackPath cfg)) (\<lambda>_.
     rbind (ensure (ha_Entries cfg \<noteq> []) ''hosts entries are required'') (\<lambda>_.
     ensure (list_all (\<lambda>e. TrimSpace (en_IP e) \<noteq> [] \<and> TrimSpace (en_Host e) \<noteq> []) (ha_Entries cfg))
       ''hosts entries cannot contain empty IP or host'')))"

definition loopbackServer :: "string \<Rightarrow> bool" where
  "loopbackServer server =
     (case ParseIP (TrimSpace server) of None \<Rightarrow> False | Some ip \<Rightarrow> IsLoopback ip \<and> To4 ip \<noteq> [])"

definition validateSystemDNSConfigForHelper :: "('k, 'p, 'os) privEnv \<Rightarrow> dnsSysConfig \<Rightarrow> (string, unit) result" where
  "validateSystemDNSConfigForHelper V cfg =
     rbind (validateRollbackPath V (dz_RollbackPath cfg)) (\<lambda>_.
     rbind (ensure (dz_Interfaces cfg \<noteq> []) ''system DNS interfaces are required'') (\<lambda>_.
     rbind (ensure (list_all (\<lambda>i. TrimSpace i \<noteq> []) (dz_Interfaces cfg)) ''system DNS interfaces cannot contain empty values'') (\<lambda>_.
     rbind (ensure (dz_ServerIPs cfg \<noteq> []) ''system DNS server IPs are required'') (\<lambda>_.
     ensure (list_all loopbackServer (dz_ServerIPs cfg)) ''system DNS server IP must be an IPv4 loopback address''))))"

definition validatePrivilegedRequest :: "('k, 'p, 'os) privEnv \<Rightarrow> HelperRequest \<Rightarrow> (string, unit) result" where
  "validatePrivilegedRequest V req =
     (let c = hq_Command req in
      if c = CommandAppHostHealth then Inr ()
      else if c = CommandPrepareHostsStart then
        rbind (validateCertRequest V (hq_Cert req)) (\<lambda>_. validateHostsConfigForHelper V (hq_Hosts req))
      else if c = CommandTrustRootCA \<or> c = CommandUntrustRootCA then validateCertRequest V (hq_Cert req)
      else if c = CommandRestoreHosts then validateRollbackPath V (hq_RollbackPath req)
      else if c = CommandPreflightSystemDNS \<or> c = CommandApplySystemDNS then validateSystemDNSConfigForHelper V (hq_SystemDNS req)
      else if c = CommandRestoreSystemDNS then validateRollbackPath V (hq_RollbackPath req)
      else Inl (''unsupported helper command '' @ c))"

definition validateHelperRequest :: "('k, 'p, 'os) privEnv \<Rightarrow> HelperRequest \<Rightarrow> string \<Rightarrow> int \<Rightarrow> (string, unit) result" where
  "validateHelperRequest V req token parentPID =
     rbind (ensure (hq_Version req = 1) (''unsupported helper request version '' @ Itoa (hq_Version req))) (\<lambda>_.
     rbind (ensure (TrimSpace token \<noteq> [] \<and> hq_Token req = token) ''invalid helper token'') (\<lambda>_.
     rbind (ensure (0 < parentPID \<and> hq_ParentPID req = parentPID) ''invalid helper parent pid'') (\<lambda>_.
     validatePrivilegedRequest V req)))"

definition validateAppHostRequest :: "('k, 'p, 'os) privEnv \<Rightarrow> HelperRequest \<Rightarrow> int \<Rightarrow> (string, unit) result" where
  "validateAppHostRequest V req clientPID =
     rbind (ensure (hq_Version req = 1) (''unsupported apphost request version '' @ Itoa (hq_Version req))) (\<lambda>_.
     rbind (ensure (0 < hq_ParentPID req) ''invalid apphost parent pid'') (\<lambda>_.
     rbind (ensure (TrimSpace (hq_Token req) \<noteq> []) ''invalid apphost token'') (\<lambda>_.
     rbind (ensure (0 < clientPID) ''invalid apphost client pid'') (\<lambda>_.
     rbind (ensure (hq_ParentPID req = clientPID) ''apphost client pid mismatch'') (\<lambda>_.
     validatePrivilegedRequest V req)))))"

subsection \<open>Executing a request\<close>

definition certConfigFromRequest :: "CertRequest \<Rightarrow> certConfig" where
  "certConfigFromRequest req = \<lparr>cc_Dir = cq_Dir req, cc_StoreScope = cq_StoreScope req\<rparr>"

definition certRequestFromConfig :: "certConfig \<Rightarrow> CertRequest" where
  "certRequestFromConfig cfg = \<lparr>cq_Dir = cc_Dir cfg, cq_StoreScope = cc_StoreScope cfg\<rparr>"

definition prepareHostsStartDirect ::
    "('k, 'p, 'os) privEnv \<Rightarrow> certConfig \<Rightarrow> HostsApply \<Rightarrow> bool \<Rightarrow> ('p, 'os, 'z, PrepareHostsResult) sysProc" where
  "prepareHostsStartDirect V certCfg hostsCfg autoInstall =
     pbind (wrapping ''check root CA install'' (certIsInstalled V certCfg)) (\<lambda>certInstalled.
     pbind (if certInstalled
            then preturn (emptyTrust\<lparr>tu_Platform := pv_goos V,
              tu_CertPath := RootCertPath (pv_paths V) (CertStore.normalizeConfig (pv_lib V) certCfg),
              tu_StoreScope := cc_StoreScope certCfg, tu_AlreadyTrusted := True\<rparr>)
            else if \<not> autoInstall
            then praise (newErr ''local root CA is not installed; run `steam-accelerator cert install` first or enable cert.auto_install'')
            else wrapping ''install local root CA'' (certEnsureTrusted V certCfg)) (\<lambda>trust.
     pthen (wrapping ''preflight hosts mode'' (hostsPreflight V hostsCfg))
    (pthen (wrapping ''apply hosts'' (hostsApply V hostsCfg))
           (preturn \<lparr>ph_Cert = trust, ph_CertTrusted = True, ph_Entries = length (ha_Entries hostsCfg)\<rparr>))))"

definition viaHelper :: "Result \<Rightarrow> Result" where
  "viaHelper r = r\<lparr>dr_ViaHelper := True\<rparr>"

definition executeHelperRequest :: "('k, 'p, 'os) privEnv \<Rightarrow> HelperRequest \<Rightarrow> ('p, 'os, 'z, HelperResponse) sysProc" where
  "executeHelperRequest V req =
     (let c = hq_Command req; certCfg = certConfigFromRequest (hq_Cert req) in
      if pv_goos V = ''windows'' \<and> \<not> pv_HasSystemPrivileges V
      then praise (newErr (''elevated helper did not receive an administrator token: '' @ pv_helperStatus V))
      else if c = CommandAppHostHealth then preturn okResponse
      else if c = CommandPrepareHostsStart then
        pbind (prepareHostsStartDirect V certCfg (hq_Hosts req) (hq_AutoInstall req)) (\<lambda>r.
        preturn (okResponse\<lparr>hr_Prepare := Some (r\<lparr>ph_Cert := (ph_Cert r)\<lparr>tu_ViaHelper := True\<rparr>\<rparr>)\<rparr>))
      else if c = CommandTrustRootCA then
        pbind (certEnsureTrusted V certCfg) (\<lambda>trust. preturn (okResponse\<lparr>hr_Trust := Some (trust\<lparr>tu_ViaHelper := True\<rparr>)\<rparr>))
      else if c = CommandUntrustRootCA then pthen (certUninstall V certCfg) (preturn okResponse)
      else if c = CommandRestoreHosts then pthen (hostsRestore V (hq_RollbackPath req)) (preturn okResponse)
      else if c = CommandPreflightSystemDNS then
        pbind (dnsPreflight V (hq_SystemDNS req)) (\<lambda>r. preturn (okResponse\<lparr>hr_SystemDNS := Some (viaHelper r)\<rparr>))
      else if c = CommandApplySystemDNS then
        pbind (dnsApply V (hq_SystemDNS req)) (\<lambda>r. preturn (okResponse\<lparr>hr_SystemDNS := Some (viaHelper r)\<rparr>))
      else if c = CommandRestoreSystemDNS then
        pbind (dnsRestore V (hq_RollbackPath req)) (\<lambda>r. preturn (okResponse\<lparr>hr_SystemDNS := Some (viaHelper r)\<rparr>))
      else praise (newErr (''unsupported helper command '' @ c)))"

subsection \<open>Operations\<close>

text \<open>\<open>H\<close> sends a request to the helper and returns its response, or an error.\<close>

type_synonym ('p, 'os, 'z) helper = "HelperRequest \<Rightarrow> ('p, 'os, 'z, HelperResponse) sysProc"

definition ShouldUseHelper :: "('k, 'p, 'os) privEnv \<Rightarrow> bool" where
  "ShouldUseHelper V \<longleftrightarrow> pv_goos V = ''windows'' \<and> \<not> pv_HasSystemPrivileges V"

definition shouldRetrySystemChangeWithHelper :: "('k, 'p, 'os) privEnv \<Rightarrow> gerr \<Rightarrow> bool" where
  "shouldRetrySystemChangeWithHelper V e =
     (if pv_goos V \<noteq> ''windows'' then False
      else if ge_permission e then True
      else deniedText (pv_lib V) (ge_text e))"

definition machineScope :: "golib \<Rightarrow> certConfig \<Rightarrow> bool" where
  "machineScope E cfg \<longleftrightarrow> EqualFold E (TrimSpace (cc_StoreScope cfg)) CertStoreMachine \<or> TrimSpace (cc_StoreScope cfg) = []"

definition shouldUseCertHelper :: "('k, 'p, 'os) privEnv \<Rightarrow> certConfig \<Rightarrow> bool" where
  "shouldUseCertHelper V cfg =
     (if pv_goos V \<noteq> ''windows'' \<or> pv_HasSystemPrivileges V then False else machineScope (pv_lib V) cfg)"

definition shouldRetryCertWithHelper :: "('k, 'p, 'os) privEnv \<Rightarrow> certConfig \<Rightarrow> gerr \<Rightarrow> bool" where
  "shouldRetryCertWithHelper V cfg e =
     (if pv_goos V \<noteq> ''windows'' then False
      else if \<not> machineScope (pv_lib V) cfg then False
      else shouldRetrySystemChangeWithHelper V e)"

text \<open>Directly, or by the helper when it has to be, or again by the helper when the direct way was denied.\<close>

definition withHelper :: "bool \<Rightarrow> (gerr \<Rightarrow> bool) \<Rightarrow> ('w, gerr, 'a) proc \<Rightarrow> ('w, gerr, 'a) proc \<Rightarrow> ('w, gerr, 'a) proc" where
  "withHelper use retry direct elevated w =
     (if use then elevated w
      else (case direct w of
              (Inr x, w') \<Rightarrow> (Inr x, w')
            | (Inl e, w') \<Rightarrow> if retry e then elevated w' else (Inl e, w')))"

definition PrepareHostsStartElevated ::
    "('p, 'os, 'z) helper \<Rightarrow> certConfig \<Rightarrow> HostsApply \<Rightarrow> bool \<Rightarrow> ('p, 'os, 'z, PrepareHostsResult) sysProc" where
  "PrepareHostsStartElevated H certCfg hostsCfg autoInstall =
     pbind (H (emptyRequest\<lparr>hq_Command := CommandPrepareHostsStart, hq_Cert := certRequestFromConfig certCfg,
       hq_Hosts := hostsCfg, hq_AutoInstall := autoInstall\<rparr>)) (\<lambda>resp.
     case hr_Prepare resp of
       None \<Rightarrow> praise (newErr ''elevated helper did not return prepare result'')
     | Some r \<Rightarrow> preturn (r\<lparr>ph_Cert := (ph_Cert r)\<lparr>tu_ViaHelper := True\<rparr>\<rparr>))"

definition PrepareHostsStart ::
    "('k, 'p, 'os) privEnv \<Rightarrow> ('p, 'os, 'z) helper \<Rightarrow> certConfig \<Rightarrow> HostsApply \<Rightarrow> bool \<Rightarrow> ('p, 'os, 'z, PrepareHostsResult) sysProc" where
  "PrepareHostsStart V H certCfg hostsCfg autoInstall =
     (if \<not> ShouldUseHelper V then prepareHostsStartDirect V certCfg hostsCfg autoInstall
      else PrepareHostsStartElevated H certCfg hostsCfg autoInstall)"

definition EnsureCertTrustedElevated :: "('p, 'os, 'z) helper \<Rightarrow> certConfig \<Rightarrow> ('p, 'os, 'z, TrustResult) sysProc" where
  "EnsureCertTrustedElevated H cfg =
     pbind (H (emptyRequest\<lparr>hq_Command := CommandTrustRootCA, hq_Cert := certRequestFromConfig cfg\<rparr>)) (\<lambda>resp.
     case hr_Trust resp of
       None \<Rightarrow> praise (newErr ''elevated helper did not return certificate trust result'')
     | Some t \<Rightarrow> preturn (t\<lparr>tu_ViaHelper := True\<rparr>))"

definition EnsureCertTrusted :: "('k, 'p, 'os) privEnv \<Rightarrow> ('p, 'os, 'z) helper \<Rightarrow> certConfig \<Rightarrow> ('p, 'os, 'z, TrustResult) sysProc" where
  "EnsureCertTrusted V H cfg =
     withHelper (shouldUseCertHelper V cfg) (shouldRetryCertWithHelper V cfg) (certEnsureTrusted V cfg) (EnsureCertTrustedElevated H cfg)"

definition InstallCert :: "('k, 'p, 'os) privEnv \<Rightarrow> ('p, 'os, 'z) helper \<Rightarrow> certConfig \<Rightarrow> ('p, 'os, 'z, unit) sysProc" where
  "InstallCert V H cfg = pthen (EnsureCertTrusted V H cfg) (preturn ())"

definition UninstallCertElevated :: "('p, 'os, 'z) helper \<Rightarrow> certConfig \<Rightarrow> ('p, 'os, 'z, unit) sysProc" where
  "UninstallCertElevated H cfg =
     pthen (H (emptyRequest\<lparr>hq_Command := CommandUntrustRootCA, hq_Cert := certRequestFromConfig cfg\<rparr>)) (preturn ())"

definition UninstallCert :: "('k, 'p, 'os) privEnv \<Rightarrow> ('p, 'os, 'z) helper \<Rightarrow> certConfig \<Rightarrow> ('p, 'os, 'z, unit) sysProc" where
  "UninstallCert V H cfg =
     withHelper (shouldUseCertHelper V cfg) (shouldRetryCertWithHelper V cfg) (certUninstall V cfg) (UninstallCertElevated H cfg)"

definition RestoreHostsElevated :: "('p, 'os, 'z) helper \<Rightarrow> string \<Rightarrow> ('p, 'os, 'z, unit) sysProc" where
  "RestoreHostsElevated H path =
     pthen (H (emptyRequest\<lparr>hq_Command := CommandRestoreHosts, hq_RollbackPath := path\<rparr>)) (preturn ())"

definition RestoreHosts :: "('k, 'p, 'os) privEnv \<Rightarrow> ('p, 'os, 'z) helper \<Rightarrow> string \<Rightarrow> ('p, 'os, 'z, unit) sysProc" where
  "RestoreHosts V H path =
     withHelper (ShouldUseHelper V) (shouldRetrySystemChangeWithHelper V) (hostsRestore V path) (RestoreHostsElevated H path)"

definition systemDNSElevated :: "('p, 'os, 'z) helper \<Rightarrow> string \<Rightarrow> dnsSysConfig \<Rightarrow> ('p, 'os, 'z, Result) sysProc" where
  "systemDNSElevated H command cfg =
     pbind (H (emptyRequest\<lparr>hq_Command := command, hq_SystemDNS := cfg\<rparr>)) (\<lambda>resp.
     case hr_SystemDNS resp of
       None \<Rightarrow> praise (newErr ''elevated helper did not return system DNS result'')
     | Some r \<Rightarrow> preturn (viaHelper r))"

definition PreflightSystemDNSElevated :: "('p, 'os, 'z) helper \<Rightarrow> dnsSysConfig \<Rightarrow> ('p, 'os, 'z, Result) sysProc" where
  "PreflightSystemDNSElevated H = systemDNSElevated H CommandPreflightSystemDNS"

definition PreflightSystemDNS :: "('k, 'p, 'os) privEnv \<Rightarrow> ('p, 'os, 'z) helper \<Rightarrow> dnsSysConfig \<Rightarrow> ('p, 'os, 'z, Result) sysProc" where
  "PreflightSystemDNS V H cfg =
     withHelper (ShouldUseHelper V) (shouldRetrySystemChangeWithHelper V) (dnsPreflight V cfg) (PreflightSystemDNSElevated H cfg)"

definition ApplySystemDNSElevated :: "('p, 'os, 'z) helper \<Rightarrow> dnsSysConfig \<Rightarrow> ('p, 'os, 'z, Result) sysProc" where
  "ApplySystemDNSElevated H = systemDNSElevated H CommandApplySystemDNS"

definition ApplySystemDNS :: "('k, 'p, 'os) privEnv \<Rightarrow> ('p, 'os, 'z) helper \<Rightarrow> dnsSysConfig \<Rightarrow> ('p, 'os, 'z, Result) sysProc" where
  "ApplySystemDNS V H cfg =
     withHelper (ShouldUseHelper V) (shouldRetrySystemChangeWithHelper V) (dnsApply V cfg) (ApplySystemDNSElevated H cfg)"

definition RestoreSystemDNSElevated :: "('p, 'os, 'z) helper \<Rightarrow> string \<Rightarrow> ('p, 'os, 'z, unit) sysProc" where
  "RestoreSystemDNSElevated H path =
     pthen (H (emptyRequest\<lparr>hq_Command := CommandRestoreSystemDNS, hq_RollbackPath := path\<rparr>)) (preturn ())"

definition RestoreSystemDNS :: "('k, 'p, 'os) privEnv \<Rightarrow> ('p, 'os, 'z) helper \<Rightarrow> string \<Rightarrow> ('p, 'os, 'z, unit) sysProc" where
  "RestoreSystemDNS V H path =
     withHelper (ShouldUseHelper V) (shouldRetrySystemChangeWithHelper V)
       (pthen (dnsRestore V path) (preturn ())) (RestoreSystemDNSElevated H path)"

end
