(* ===== verification/Engine.thy ===== *)
theory Engine
  imports ConfigValidate Provider Probe Hosts DnsIntercept Pac MacProxy SystemDns Reverse Privilege
begin

section \<open>Package engine: starting and stopping the accelerator\<close>

text \<open>
  \<^verbatim>\<open>internal/engine/engine.go\<close>.  The engine builds the matcher, the resolver and the
  dialer from the configuration, starts the servers of its mode and changes the system settings,
  and undoes both when it stops.  The functions it calls through package variables (the system
  changes, the privileged helper, the probes) are fields of an environment record, as they are
  variables in the source.  Servers follow the contract \<open>server_lifecycle\<close>: the world lists the
  instances that are listening.  Logging, time stamps and the context of a call are left out.
\<close>

subsection \<open>Data\<close>

datatype srv = SProxy | SPac | SReverse | SDns

datatype build_error =
    RulesFailed rules_error
  | ProvidersFailed provider_error
  | DialerFailed upstream_error
  | EntriesFailed hosts_error
  | SystemDNSConfig sysdns_error
  | DNSInterceptFailed intercept_error
  | PACFailed pac_error

datatype engine_error = AlreadyRunning | BuildFailed build_error | ServerFailed string gerr | SystemFailed gerr

record handle =
  h_kind :: srv
  h_id :: nat
  h_addrs :: "string list"

definition serverAddr :: "handle \<Rightarrow> string" where
  "serverAddr h = (case h_addrs h of [] \<Rightarrow> [] | a # _ \<Rightarrow> a)"

record 's eworld =
  ew_sys :: 's
  ew_open :: "(srv \<times> nat) list"
  ew_next :: nat

record SystemChange =
  sc_Component :: string
  sc_Action :: string
  sc_Status :: string
  sc_Detail :: string

record 's engineEnv =
  eo_listen :: "srv \<Rightarrow> 's eworld \<Rightarrow> (gerr, string list) result"
  eo_stopErr :: "srv \<Rightarrow> 's eworld \<Rightarrow> gerr option"
  eo_applySystemProxy :: "proxyConfig \<Rightarrow> ('s, gerr, unit) proc"
  eo_restoreSystemProxy :: "string \<Rightarrow> ('s, gerr, unit) proc"
  eo_hasRollbackState :: "string \<Rightarrow> 's \<Rightarrow> bool"
  eo_preflightHosts :: "HostsApply \<Rightarrow> ('s, gerr, unit) proc"
  eo_applyHosts :: "HostsApply \<Rightarrow> ('s, gerr, unit) proc"
  eo_restoreHosts :: "string \<Rightarrow> ('s, gerr, unit) proc"
  eo_preflightSystemDNS :: "dnsSysConfig \<Rightarrow> ('s, gerr, Result) proc"
  eo_applySystemDNS :: "dnsSysConfig \<Rightarrow> ('s, gerr, Result) proc"
  eo_restoreSystemDNS :: "string \<Rightarrow> ('s, gerr, unit) proc"
  eo_isCertInstalled :: "('s, gerr, bool) proc"
  eo_ensureCertTrusted :: "('s, gerr, TrustResult) proc"
  eo_ensureRootCA :: "('s, gerr, unit) proc"
  eo_prepareHostsElevated :: "HostsApply \<Rightarrow> bool \<Rightarrow> ('s, gerr, PrepareHostsResult) proc"
  eo_shouldUseHostHelper :: bool
  eo_runStartupProbes :: "DirectDialer \<Rightarrow> ProbeTarget list \<Rightarrow> ProbeResult list"
  eo_goos :: string

record Engine =
  eg_cfg :: Config
  eg_proxy :: "handle option"
  eg_pac :: "handle option"
  eg_pacURL :: string
  eg_reverse :: "handle option"
  eg_dnsIntercept :: "handle option"
  eg_certOK :: bool
  eg_resolver :: "resolverConfig option"
  eg_upstreamProfiles :: nat
  eg_startupProbes :: "ProbeResult list"
  eg_ruleSet :: "RuleSetInfo option"
  eg_providers :: "Summary list"
  eg_systemChanges :: "SystemChange list"
  eg_lastErr :: "gerr option"
  eg_ruleCount :: int
  eg_running :: bool

definition newEngine :: "Config \<Rightarrow> Engine" where
  "newEngine cfg =
     \<lparr>eg_cfg = cfg, eg_proxy = None, eg_pac = None, eg_pacURL = [], eg_reverse = None, eg_dnsIntercept = None,
      eg_certOK = False, eg_resolver = None, eg_upstreamProfiles = 0, eg_startupProbes = [], eg_ruleSet = None,
      eg_providers = [], eg_systemChanges = [], eg_lastErr = None, eg_ruleCount = 0, eg_running = False\<rparr>"

definition New :: "golib \<Rightarrow> Config \<Rightarrow> (config_error, Engine) result" where
  "New E cfg = map_result newEngine (Validate E cfg)"

subsection \<open>Building\<close>

definition usesDirectUpstream :: "string \<Rightarrow> bool" where
  "usesDirectUpstream upstreamType \<longleftrightarrow> upstreamType = [] \<or> upstreamType = UpstreamDirect"

definition requiresLoopSafeResolver :: "Config \<Rightarrow> bool" where
  "requiresLoopSafeResolver cfg \<longleftrightarrow>
     c_Mode cfg = ModeDNS \<or> (c_Mode cfg = ModeHosts \<and> usesDirectUpstream (up_Type (c_Upstream cfg)))"

definition usesSystemDNS :: "Config \<Rightarrow> bool" where
  "usesSystemDNS cfg \<longleftrightarrow> c_Mode cfg = ModeDNS \<and> dn_Strategy (c_DNS cfg) = DNSInterceptSystem"

definition effectiveResolverConfig :: "Config \<Rightarrow> resolverConfig" where
  "effectiveResolverConfig cfg =
     (let rc = Resolver.ConfigFromApp cfg in
      if \<not> requiresLoopSafeResolver cfg then rc
      else if rc_Mode rc = ResolverSystem then rc\<lparr>rc_Mode := ResolverDoH, rc_Servers := DefaultDoHServers\<rparr>
      else if rc_Mode rc = ResolverDoH \<and> rc_Servers rc = [] then rc\<lparr>rc_Servers := DefaultDoHServers\<rparr>
      else rc)"

definition enabledProviders :: "golib \<Rightarrow> Config \<Rightarrow> (build_error, Provider list) result" where
  "enabledProviders E cfg = map_err ProvidersFailed (ResolveEnabled E (pv_Enabled (c_Providers cfg)))"

definition customDomains :: "Config \<Rightarrow> string list" where
  "customDomains cfg =
     ru_CustomDomains (c_Rules cfg) @
     (if c_Mode cfg = ModeHosts \<or> c_Mode cfg = ModeDNS then ho_ExtraDomains (c_Hosts cfg) else [])"

definition buildMatcher :: "golib \<Rightarrow> Config \<Rightarrow> (build_error, Matcher) result" where
  "buildMatcher E cfg =
     rbind (enabledProviders E cfg) (\<lambda>providers.
     map_err RulesFailed (NewMatcher E (RuleGroups providers) (customDomains cfg)))"

definition ruleSetInfo :: "golib \<Rightarrow> Provider list \<Rightarrow> Matcher \<Rightarrow> RuleSetInfo" where
  "ruleSetInfo E providers m =
     (case providers of
        [p] \<Rightarrow> Provider.ruleSetInfo E p
      | _ \<Rightarrow>
          \<lparr>rsi_Name = (if providers = [] then ''custom'' else ''multi-provider''), rsi_Version = [], rsi_UpdatedAt = [],
           rsi_GroupCount = (if providers = [] then 1 else int (length (RuleGroups providers))),
           rsi_ExactCount = int (length (crs_Exact (Rules m))), rsi_WildcardCount = int (length (crs_Wildcard (Rules m)))\<rparr>)"

record built =
  bu_matcher :: Matcher
  bu_providers :: "Provider list"
  bu_resolver :: resolverConfig
  bu_upstream :: UpConfig
  bu_dialer :: Dialer

definition build :: "golib \<Rightarrow> Config \<Rightarrow> (build_error, built) result" where
  "build E cfg =
     rbind (buildMatcher E cfg) (\<lambda>m.
     rbind (enabledProviders E cfg) (\<lambda>providers.
     (let profiles = (if (c_Mode cfg = ModeHosts \<or> c_Mode cfg = ModeDNS) \<and> usesDirectUpstream (up_Type (c_Upstream cfg))
                      then OutboundProfiles providers else []);
          up = Upstream.ConfigFromApp cfg profiles
      in rbind (map_err DialerFailed (NewDialer E up True)) (\<lambda>dialer.
         Inr \<lparr>bu_matcher = m, bu_providers = providers, bu_resolver = effectiveResolverConfig cfg, bu_upstream = up,
              bu_dialer = dialer\<rparr>))))"

subsection \<open>Reports\<close>

definition certTrustChange :: "TrustResult \<Rightarrow> SystemChange" where
  "certTrustChange t =
     \<lparr>sc_Component = ''root_ca'', sc_Action = (if tu_AlreadyTrusted t then ''check'' else ''install''),
      sc_Status = (if tu_AlreadyTrusted t then ''already_trusted'' else ''ok''),
      sc_Detail = ''store='' @ tu_StoreScope t @ (if tu_Changed t then '',installed'' else []) @
        (if tu_ViaHelper t then '',helper=elevated'' else [])\<rparr>"

definition systemDNSChange :: "string \<Rightarrow> Result \<Rightarrow> SystemChange" where
  "systemDNSChange action r =
     \<lparr>sc_Component = ''system_dns'', sc_Action = action, sc_Status = ''ok'',
      sc_Detail = ''interfaces='' @ Itoa (int (dr_Interfaces r)) @
        (if dr_ServerIPs r \<noteq> [] then '',dns='' @ Join (dr_ServerIPs r) ''|'' else []) @
        (if dr_ViaHelper r then '',helper=elevated'' else [])\<rparr>"

definition change :: "string \<Rightarrow> string \<Rightarrow> string \<Rightarrow> SystemChange" where
  "change component action detail = \<lparr>sc_Component = component, sc_Action = action, sc_Status = ''ok'', sc_Detail = detail\<rparr>"

definition startupProbes :: "'s engineEnv \<Rightarrow> Config \<Rightarrow> built \<Rightarrow> ProbeResult list" where
  "startupProbes V cfg b =
     (let targets = ProbeTargets (bu_providers b) in
      case bu_dialer b of
        Direct d \<Rightarrow> if usesDirectUpstream (up_Type (c_Upstream cfg)) \<and> targets \<noteq> [] then eo_runStartupProbes V d targets else []
      | _ \<Rightarrow> [])"

subsection \<open>Effects\<close>

definition onSys :: "('s, gerr, 'a) proc \<Rightarrow> ('s eworld, gerr, 'a) proc" where
  "onSys m w = (case m (ew_sys w) of (r, s) \<Rightarrow> (r, w\<lparr>ew_sys := s\<rparr>))"

text \<open>A server starts with a fresh instance, and stopping it closes that instance whatever the shutdown reports.\<close>

definition startServer :: "'s engineEnv \<Rightarrow> srv \<Rightarrow> ('s eworld, gerr, handle) proc" where
  "startServer V k w =
     (case eo_listen V k w of
        Inl e \<Rightarrow> (Inl e, w)
      | Inr addrs \<Rightarrow> (Inr \<lparr>h_kind = k, h_id = ew_next w, h_addrs = addrs\<rparr>,
                       w\<lparr>ew_open := (k, ew_next w) # ew_open w, ew_next := ew_next w + 1\<rparr>))"

definition stopServer :: "'s engineEnv \<Rightarrow> handle \<Rightarrow> 's eworld \<Rightarrow> gerr option \<times> 's eworld" where
  "stopServer V h w =
     (eo_stopErr V (h_kind h) w, w\<lparr>ew_open := filter (\<lambda>x. x \<noteq> (h_kind h, h_id h)) (ew_open w)\<rparr>)"

text \<open>On an error, stop servers and keep the error.\<close>

definition orStop :: "'s engineEnv \<Rightarrow> handle list \<Rightarrow> ('s eworld, 'e, 'a) proc \<Rightarrow> ('s eworld, 'e, 'a) proc" where
  "orStop V hs m w =
     (case m w of
        (Inr x, w') \<Rightarrow> (Inr x, w')
      | (Inl e, w') \<Rightarrow> (Inl e, fold (\<lambda>h w. snd (stopServer V h w)) hs w'))"

subsection \<open>Preparing hosts mode\<close>

definition shouldRetryHostsWithHelper :: "golib \<Rightarrow> 's engineEnv \<Rightarrow> gerr \<Rightarrow> bool" where
  "shouldRetryHostsWithHelper E V e =
     (if eo_goos V \<noteq> ''windows'' then False
      else if ge_permission e then True
      else deniedText E (ge_text e))"

definition prepareHostsWithHelper :: "'s engineEnv \<Rightarrow> HostsApply \<Rightarrow> bool \<Rightarrow> ('s, gerr, PrepareHostsResult) proc" where
  "prepareHostsWithHelper V hostsCfg autoInstall =
     pthen (wrapping ''ensure local root CA before elevated helper'' (eo_ensureRootCA V))
           (eo_prepareHostsElevated V hostsCfg autoInstall)"

definition prepareHostsDirect :: "'s engineEnv \<Rightarrow> string \<Rightarrow> HostsApply \<Rightarrow> bool \<Rightarrow> ('s, gerr, PrepareHostsResult) proc" where
  "prepareHostsDirect V storeScope hostsCfg autoInstall =
     pbind (wrapping ''check root CA install'' (eo_isCertInstalled V)) (\<lambda>certOK.
     pbind (if certOK then preturn (emptyTrust\<lparr>tu_StoreScope := storeScope, tu_AlreadyTrusted := True\<rparr>)
            else if \<not> autoInstall then praise (newErr ''local root CA is not installed; run `steam-accelerator cert install` first or enable cert.auto_install'')
            else wrapping ''install local root CA'' (eo_ensureCertTrusted V)) (\<lambda>trust.
     pthen (wrapping ''preflight hosts mode'' (eo_preflightHosts V hostsCfg))
    (pthen (wrapping ''apply hosts'' (eo_applyHosts V hostsCfg))
           (preturn \<lparr>ph_Cert = trust, ph_CertTrusted = True, ph_Entries = length (ha_Entries hostsCfg)\<rparr>))))"

definition prepareHostsForStart ::
    "golib \<Rightarrow> 's engineEnv \<Rightarrow> Config \<Rightarrow> HostsApply \<Rightarrow> bool \<Rightarrow> ('s, gerr, PrepareHostsResult) proc" where
  "prepareHostsForStart E V cfg hostsCfg preferHelper w =
     (let auto = ce_AutoInstall (c_Cert cfg) in
      if preferHelper then prepareHostsWithHelper V hostsCfg auto w
      else (case prepareHostsDirect V (ce_StoreScope (c_Cert cfg)) hostsCfg auto w of
              (Inr p, w1) \<Rightarrow> (Inr p, w1)
            | (Inl e, w1) \<Rightarrow>
                if \<not> shouldRetryHostsWithHelper E V e then (Inl e, w1)
                else (case prepareHostsWithHelper V hostsCfg auto w1 of
                        (Inr p, w2) \<Rightarrow> (Inr p, w2)
                      | (Inl e', w2) \<Rightarrow> (Inl (e\<lparr>ge_text := ge_text e @ ''; elevated helper retry failed: '' @ ge_text e',
                                              ge_permission := False\<rparr>), w2))))"

subsection \<open>Launching a mode\<close>

record launched =
  ln_proxy :: "handle option"
  ln_pac :: "handle option"
  ln_pacURL :: string
  ln_reverse :: "handle option"
  ln_dns :: "handle option"
  ln_certOK :: bool
  ln_probes :: "ProbeResult list"
  ln_changes :: "SystemChange list"

definition nothing :: launched where
  "nothing = \<lparr>ln_proxy = None, ln_pac = None, ln_pacURL = [], ln_reverse = None, ln_dns = None, ln_certOK = False,
     ln_probes = [], ln_changes = []\<rparr>"

definition hostsChanges :: "PrepareHostsResult \<Rightarrow> SystemChange list" where
  "hostsChanges p =
     (let helper = (if tu_ViaHelper (ph_Cert p) then ''helper=elevated'' else []) in
      [change ''reverse_proxy'' ''listen'' [], certTrustChange (ph_Cert p), change ''hosts'' ''preflight'' helper,
       change ''hosts'' ''apply'' (''entries='' @ Itoa (int (ph_Entries p)) @ (if helper = [] then [] else '','' @ helper))])"

definition launchHosts :: "golib \<Rightarrow> 's engineEnv \<Rightarrow> Config \<Rightarrow> built \<Rightarrow> ('s eworld, engine_error, launched) proc" where
  "launchHosts E V cfg b =
     pbind (plift (map_err (BuildFailed \<circ> EntriesFailed) (fst (EntriesFromRules E (Rules (bu_matcher b)) (ho_MapIP (c_Hosts cfg)))))) (\<lambda>entries.
     pbind (failing (ServerFailed ''start hosts reverse proxy'') (startServer V SReverse)) (\<lambda>rev.
     pbind (orStop V [rev] (failing SystemFailed
             (onSys (prepareHostsForStart E V cfg (Hosts.ConfigFromApp cfg entries) (eo_shouldUseHostHelper V))))) (\<lambda>prep.
     preturn (nothing\<lparr>ln_reverse := Some rev, ln_certOK := ph_CertTrusted prep, ln_probes := startupProbes V cfg b,
                      ln_changes := hostsChanges prep\<rparr>))))"

definition preflightDNS :: "'s engineEnv \<Rightarrow> golib \<Rightarrow> Config \<Rightarrow> ('s eworld, engine_error, dnsSysConfig option \<times> SystemChange list) proc" where
  "preflightDNS V E cfg =
     (if \<not> usesSystemDNS cfg then preturn (None, [])
      else pbind (plift (map_err (BuildFailed \<circ> SystemDNSConfig) (SystemDns.ConfigFromApp E cfg))) (\<lambda>dnsCfg.
           pbind (failing SystemFailed (wrapping ''preflight system DNS'' (onSys (eo_preflightSystemDNS V dnsCfg)))) (\<lambda>r.
           preturn (Some dnsCfg, [systemDNSChange ''preflight'' r]))))"

definition restoreAfter :: "'s engineEnv \<Rightarrow> string \<Rightarrow> gerr \<Rightarrow> 's eworld \<Rightarrow> gerr \<times> 's eworld" where
  "restoreAfter V path e w =
     (case onSys (eo_restoreSystemDNS V path) w of
        (Inr _, w') \<Rightarrow> (e, w')
      | (Inl re, w') \<Rightarrow>
          (if ge_noState re then e
           else e\<lparr>ge_text := ge_text e @ ''; system DNS restore after failed apply also failed: '' @ ge_text re, ge_permission := False\<rparr>,
           w'))"

definition applyDNS :: "'s engineEnv \<Rightarrow> Config \<Rightarrow> dnsSysConfig option \<Rightarrow> ('s eworld, engine_error, SystemChange list) proc" where
  "applyDNS V cfg dnsCfg w =
     (case dnsCfg of
        None \<Rightarrow> (Inr [], w)
      | Some c \<Rightarrow>
          (case onSys (eo_applySystemDNS V c) w of
             (Inr r, w') \<Rightarrow> (Inr [systemDNSChange ''apply'' r], w')
           | (Inl e, w') \<Rightarrow>
               (case restoreAfter V (rt_RollbackPath (c_Runtime cfg)) e w' of (e', w'') \<Rightarrow> (Inl (SystemFailed e'), w''))))"

definition launchDNS :: "golib \<Rightarrow> 's engineEnv \<Rightarrow> Config \<Rightarrow> built \<Rightarrow> ('s eworld, engine_error, launched) proc" where
  "launchDNS E V cfg b =
     pbind (preflightDNS V E cfg) (\<lambda>(dnsCfg, changes).
     pbind (failing (ServerFailed ''start DNS reverse proxy'') (startServer V SReverse)) (\<lambda>rev.
     pthen (orStop V [rev] (plift (map_err (BuildFailed \<circ> DNSInterceptFailed) (NewRawForwarder (bu_resolver b)))))
    (pthen (orStop V [rev] (plift (map_err (BuildFailed \<circ> DNSInterceptFailed)
             (DnsIntercept.New (DnsIntercept.ConfigFromApp cfg) (Some (bu_matcher b)) True))))
    (pbind (orStop V [rev] (failing (ServerFailed ''start DNS intercept'') (startServer V SDns))) (\<lambda>dns.
     pbind (orStop V [dns, rev] (applyDNS V cfg dnsCfg)) (\<lambda>applied.
     preturn (nothing\<lparr>ln_reverse := Some rev, ln_dns := Some dns, ln_probes := startupProbes V cfg b,
                      ln_changes := changes @ applied\<rparr>)))))))"

definition launchPAC :: "'s engineEnv \<Rightarrow> Config \<Rightarrow> built \<Rightarrow> handle \<Rightarrow> ('s eworld, engine_error, handle option \<times> string) proc" where
  "launchPAC V cfg b proxy =
     (if c_Mode cfg \<noteq> ModePAC then preturn (None, [])
      else pthen (orStop V [proxy] (plift (map_err (BuildFailed \<circ> PACFailed)
             (Pac.New (Pac.ConfigFromApp cfg (serverAddr proxy)) (Rules (bu_matcher b))))))
          (pbind (orStop V [proxy] (failing (ServerFailed []) (startServer V SPac))) (\<lambda>pac.
           preturn (Some pac, ''http://'' @ serverAddr pac @ ''/proxy.pac''))))"

definition launchForward :: "'s engineEnv \<Rightarrow> Config \<Rightarrow> built \<Rightarrow> ('s eworld, engine_error, launched) proc" where
  "launchForward V cfg b =
     pbind (failing (ServerFailed []) (startServer V SProxy)) (\<lambda>proxy.
     pbind (launchPAC V cfg b proxy) (\<lambda>(pac, pacURL).
     pthen (if c_Mode cfg = ModePAC \<or> c_Mode cfg = ModeSystem
            then orStop V (List.map_filter (\<lambda>h. h) [pac, Some proxy])
                   (failing SystemFailed (wrapping ''apply system proxy''
                     (onSys (eo_applySystemProxy V (SystemProxy.ConfigFromApp cfg (serverAddr proxy) pacURL)))))
            else preturn ())
           (preturn (nothing\<lparr>ln_proxy := Some proxy, ln_pac := pac, ln_pacURL := pacURL\<rparr>))))"

definition launch :: "golib \<Rightarrow> 's engineEnv \<Rightarrow> Config \<Rightarrow> built \<Rightarrow> ('s eworld, engine_error, launched) proc" where
  "launch E V cfg b =
     (if c_Mode cfg = ModeHosts then launchHosts E V cfg b
      else if c_Mode cfg = ModeDNS then launchDNS E V cfg b
      else launchForward V cfg b)"

subsection \<open>Start, Stop and Status\<close>

text \<open>
  \<open>Start\<close> checks \<open>running\<close> under the lock, releases it, works, and commits under the
  lock again; \<open>startWork\<close> is what happens in between.
\<close>

definition startWork :: "golib \<Rightarrow> 's engineEnv \<Rightarrow> Config \<Rightarrow> ('s eworld, engine_error, built \<times> launched) proc" where
  "startWork E V cfg =
     pbind (plift (map_err BuildFailed (build E cfg))) (\<lambda>b.
     pbind (launch E V cfg b) (\<lambda>l. preturn (b, l)))"

definition commit :: "golib \<Rightarrow> built \<times> launched \<Rightarrow> Engine \<Rightarrow> Engine" where
  "commit E bl e =
     (let (b, l) = bl in
      e\<lparr>eg_proxy := ln_proxy l, eg_pac := ln_pac l, eg_pacURL := ln_pacURL l, eg_reverse := ln_reverse l,
        eg_dnsIntercept := ln_dns l, eg_certOK := ln_certOK l, eg_resolver := Some (bu_resolver b),
        eg_upstreamProfiles := length (uc_Profiles (bu_upstream b)), eg_startupProbes := ln_probes l,
        eg_ruleSet := Some (ruleSetInfo E (bu_providers b) (bu_matcher b)), eg_providers := Summaries E (bu_providers b),
        eg_systemChanges := ln_changes l, eg_lastErr := None, eg_ruleCount := RuleCount (bu_matcher b), eg_running := True\<rparr>)"

definition Start :: "golib \<Rightarrow> 's engineEnv \<Rightarrow> Engine \<times> 's eworld \<Rightarrow> (engine_error, unit) result \<times> (Engine \<times> 's eworld)" where
  "Start E V ew =
     (let (e, w) = ew in
      if eg_running e then (Inl AlreadyRunning, (e, w))
      else (case startWork E V (eg_cfg e) w of
              (Inl err, w') \<Rightarrow> (Inl err, (e, w'))
            | (Inr bl, w') \<Rightarrow> (Inr (), (commit E bl e, w'))))"

definition reset :: "Engine \<Rightarrow> Engine" where
  "reset e =
     e\<lparr>eg_proxy := None, eg_pac := None, eg_pacURL := [], eg_reverse := None, eg_dnsIntercept := None, eg_certOK := False,
       eg_resolver := None, eg_upstreamProfiles := 0, eg_startupProbes := [], eg_ruleSet := None, eg_providers := [],
       eg_systemChanges := [], eg_running := False\<rparr>"

text \<open>An error that is not a missing state replaces the one before; the error of a server is kept only if there is none yet.\<close>

definition restoring :: "bool \<Rightarrow> ('s, gerr, unit) proc \<Rightarrow> gerr option \<times> 's eworld \<Rightarrow> gerr option \<times> 's eworld" where
  "restoring when m ew =
     (let (err, w) = ew in
      if \<not> when then (err, w)
      else (case onSys m w of
              (Inr _, w') \<Rightarrow> (err, w')
            | (Inl e, w') \<Rightarrow> (if ge_noState e then err else Some e, w')))"

definition stopping :: "'s engineEnv \<Rightarrow> handle option \<Rightarrow> gerr option \<times> 's eworld \<Rightarrow> gerr option \<times> 's eworld" where
  "stopping V h ew =
     (let (err, w) = ew in
      case h of
        None \<Rightarrow> (err, w)
      | Some h \<Rightarrow> (case stopServer V h w of (stopErr, w') \<Rightarrow> (if err = None then stopErr else err, w')))"

definition Stop :: "'s engineEnv \<Rightarrow> Engine \<times> 's eworld \<Rightarrow> gerr option \<times> (Engine \<times> 's eworld)" where
  "Stop V ew =
     (let (e, w) = ew; cfg = eg_cfg e; path = rt_RollbackPath (c_Runtime cfg); e' = reset e in
      if eg_proxy e = None \<and> eg_reverse e = None \<and> eg_dnsIntercept e = None then (None, (e', w))
      else (let (err, w') =
              stopping V (eg_proxy e) (stopping V (eg_reverse e) (stopping V (eg_dnsIntercept e) (stopping V (eg_pac e)
                (restoring (usesSystemDNS cfg) (eo_restoreSystemDNS V path)
                (restoring (c_Mode cfg = ModeHosts) (eo_restoreHosts V path)
                (restoring (c_Mode cfg = ModePAC \<or> c_Mode cfg = ModeSystem) (eo_restoreSystemProxy V path) (None, w)))))))
            in (err, (e'\<lparr>eg_lastErr := err\<rparr>, w'))))"

record engineStatus =
  es_Running :: bool
  es_Mode :: string
  es_ListenAddr :: "string list"
  es_PACURL :: string
  es_Hosts :: "string list"
  es_ResolverMode :: string
  es_ResolverServers :: "string list"
  es_UpstreamProfiles :: nat
  es_Rollback :: bool
  es_CertInstalled :: bool
  es_StartupProbes :: "ProbeResult list"
  es_LastError :: string
  es_RuleSetName :: string
  es_RuleSetVersion :: string
  es_RuleSetUpdatedAt :: string
  es_Providers :: "Summary list"
  es_RuleCount :: int
  es_SystemDNS :: "bool option"
  es_SystemChanges :: "SystemChange list"

definition Status :: "'s engineEnv \<Rightarrow> Engine \<times> 's eworld \<Rightarrow> engineStatus" where
  "Status V ew =
     (let (e, w) = ew in
      \<lparr>es_Running = eg_running e, es_Mode = c_Mode (eg_cfg e),
       es_ListenAddr = (case eg_proxy e of None \<Rightarrow> [] | Some h \<Rightarrow> h_addrs h), es_PACURL = eg_pacURL e,
       es_Hosts = (case eg_reverse e of None \<Rightarrow> [] | Some h \<Rightarrow> h_addrs h),
       es_ResolverMode = (case eg_resolver e of None \<Rightarrow> [] | Some r \<Rightarrow> rc_Mode r),
       es_ResolverServers = (case eg_resolver e of None \<Rightarrow> [] | Some r \<Rightarrow> rc_Servers r),
       es_UpstreamProfiles = eg_upstreamProfiles e,
       es_Rollback = eo_hasRollbackState V (rt_RollbackPath (c_Runtime (eg_cfg e))) (ew_sys w),
       es_CertInstalled = eg_certOK e, es_StartupProbes = eg_startupProbes e,
       es_LastError = (case eg_lastErr e of None \<Rightarrow> [] | Some err \<Rightarrow> ge_text err),
       es_RuleSetName = (case eg_ruleSet e of None \<Rightarrow> [] | Some r \<Rightarrow> rsi_Name r),
       es_RuleSetVersion = (case eg_ruleSet e of None \<Rightarrow> [] | Some r \<Rightarrow> rsi_Version r),
       es_RuleSetUpdatedAt = (case eg_ruleSet e of None \<Rightarrow> [] | Some r \<Rightarrow> rsi_UpdatedAt r), es_Providers = eg_providers e,
       es_RuleCount = eg_ruleCount e,
       es_SystemDNS = (case eg_dnsIntercept e of None \<Rightarrow> None
         | Some _ \<Rightarrow> Some (dn_Strategy (c_DNS (eg_cfg e)) = DNSInterceptSystem \<and> eg_running e)),
       es_SystemChanges = eg_systemChanges e\<rparr>)"

subsection \<open>Which servers a procedure holds\<close>

text \<open>
  \<open>holds pre m post\<close>: a run of \<open>m\<close> that owns the instances \<open>pre\<close> closes exactly them
  if it fails, and owns the instances \<open>post x\<close> instead if it returns \<open>x\<close>; no instance of
  anyone else is touched.
\<close>

abbreviation key :: "handle \<Rightarrow> srv \<times> nat" where
  "key h \<equiv> (h_kind h, h_id h)"

abbreviation opened :: "'s eworld \<Rightarrow> (srv \<times> nat) set" where
  "opened w \<equiv> set (ew_open w)"

definition fresh :: "'s eworld \<Rightarrow> bool" where
  "fresh w \<longleftrightarrow> (\<forall>k i. (k, i) \<in> opened w \<longrightarrow> i < ew_next w)"

definition moved ::
    "(srv \<times> nat) set \<Rightarrow> ('a \<Rightarrow> (srv \<times> nat) set) \<Rightarrow> 's eworld \<Rightarrow> ('e, 'a) result \<times> 's eworld \<Rightarrow> bool" where
  "moved pre post w rw \<longleftrightarrow>
     fresh (snd rw) \<and>
     (case fst rw of Inl _ \<Rightarrow> opened (snd rw) = opened w - pre
      | Inr x \<Rightarrow> opened (snd rw) = (opened w - pre) \<union> post x \<and> post x \<inter> (opened w - pre) = {})"

definition holds :: "(srv \<times> nat) set \<Rightarrow> ('s eworld, 'e, 'a) proc \<Rightarrow> ('a \<Rightarrow> (srv \<times> nat) set) \<Rightarrow> bool" where
  "holds pre m post \<longleftrightarrow> (\<forall>w. fresh w \<longrightarrow> pre \<subseteq> opened w \<longrightarrow> moved pre post w (m w))"

lemma holdsD: "holds pre m post \<Longrightarrow> fresh w \<Longrightarrow> pre \<subseteq> opened w \<Longrightarrow> moved pre post w (m w)"
  by (simp add: holds_def)

lemma moved_simps [simp]:
  "moved pre post w (Inl e, w') \<longleftrightarrow> fresh w' \<and> opened w' = opened w - pre"
  "moved pre post w (Inr x, w') \<longleftrightarrow>
     fresh w' \<and> opened w' = (opened w - pre) \<union> post x \<and> post x \<inter> (opened w - pre) = {}"
  by (simp_all add: moved_def)

lemma holds_preturn: "holds (post x) (preturn x) post"
  by (auto simp: holds_def preturn_def)

lemma holds_pure: "holds {} (preturn x) (\<lambda>_. {})" "holds {} (plift r) (\<lambda>_. {})"
  by (simp add: holds_def preturn_def, cases r) (simp_all add: holds_def plift_def)

lemma holds_pbind:
  assumes "holds pre m mid" and "\<And>x. holds (mid x) (k x) post"
  shows "holds pre (pbind m k) post"
  unfolding holds_def
proof (intro allI impI)
  fix w :: "'a eworld"
  assume w: "fresh w" "pre \<subseteq> opened w"
  obtain rm w1 where m: "m w = (rm, w1)" by (cases "m w")
  have first: "moved pre mid w (rm, w1)" using holdsD [OF assms(1) w] m by simp
  show "moved pre post w (pbind m k w)"
  proof (cases rm)
    case (Inl e)
    with m first show ?thesis by (simp add: pbind_def)
  next
    case (Inr x)
    with first have mid: "fresh w1" "mid x \<subseteq> opened w1" "opened w1 - mid x = opened w - pre" by auto
    have "moved (mid x) post w1 (k x w1)" using holdsD [OF assms(2) mid(1,2)] .
    then have "moved pre post w (k x w1)" unfolding moved_def mid(3) .
    with m Inr show ?thesis by (simp add: pbind_def)
  qed
qed

lemma holds_pthen: "holds pre m (\<lambda>_. mid) \<Longrightarrow> holds mid k post \<Longrightarrow> holds pre (pthen m k) post"
  unfolding pthen_def by (rule holds_pbind)

lemma moved_map_err: "moved pre post w (map_err f r, w') = moved pre post w (r, w')"
  by (cases r) (simp_all add: map_err_def)

lemma holds_failing: "holds pre m post \<Longrightarrow> holds pre (failing f m) post"
  by (simp add: holds_def failing_def split_beta moved_map_err)

lemma holds_wrapping: "holds pre m post \<Longrightarrow> holds pre (wrapping c m) post"
  unfolding wrapping_failing by (rule holds_failing)

lemma onSys_frame:
  "onSys m w = (r, w') \<Longrightarrow> ew_open w' = ew_open w \<and> ew_next w' = ew_next w \<and> fresh w' = fresh w"
  by (cases "m (ew_sys w)") (auto simp: onSys_def fresh_def)

lemma holds_onSys: "holds {} (onSys m) (\<lambda>_. {})"
  unfolding holds_def
proof (intro allI impI)
  fix w :: "'a eworld"
  assume "fresh w"
  moreover obtain r s where "m (ew_sys w) = (r, s)" by (cases "m (ew_sys w)")
  ultimately show "moved {} (\<lambda>_. {}) w (onSys m w)" by (cases r) (simp_all add: onSys_def fresh_def)
qed

lemma holds_startServer: "holds {} (startServer V k) (\<lambda>h. {key h})"
  unfolding holds_def
proof (intro allI impI)
  fix w :: "'a eworld"
  assume "fresh w"
  then show "moved {} (\<lambda>h. {key h}) w (startServer V k w)"
    by (cases "eo_listen V k w") (auto simp: startServer_def fresh_def less_Suc_eq)
qed

lemma opened_stops: "opened (fold (\<lambda>h w. snd (stopServer V h w)) hs w) = opened w - set (map key hs)"
  and next_stops: "ew_next (fold (\<lambda>h w. snd (stopServer V h w)) hs w) = ew_next w"
  by (induction hs arbitrary: w) (auto simp: stopServer_def)

lemma fresh_stops: "fresh w \<Longrightarrow> fresh (fold (\<lambda>h w. snd (stopServer V h w)) hs w)"
  by (auto simp: fresh_def opened_stops next_stops)

lemma holds_orStop:
  assumes "holds {} m f" and "pre = set (map key hs)" and "\<And>x. post x = pre \<union> f x"
  shows "holds pre (orStop V hs m) post"
  unfolding holds_def
proof (intro allI impI)
  fix w :: "'a eworld"
  assume w: "fresh w" "pre \<subseteq> opened w"
  obtain rm w1 where m: "m w = (rm, w1)" by (cases "m w")
  have first: "moved {} f w (rm, w1)" using holdsD [OF assms(1) w(1)] m by simp
  show "moved pre post w (orStop V hs m w)"
  proof (cases rm)
    case (Inl e)
    with first m show ?thesis by (simp add: orStop_def opened_stops fresh_stops assms(2))
  next
    case (Inr x)
    with first have "fresh w1" "opened w1 = opened w \<union> f x" "f x \<inter> opened w = {}" by simp_all
    moreover from this w(2) have "opened w1 = (opened w - pre) \<union> post x" "post x \<inter> (opened w - pre) = {}"
      unfolding assms(3) by blast+
    ultimately show ?thesis using m Inr by (simp add: orStop_def)
  qed
qed

subsection \<open>A start owns what it launched\<close>

definition held :: "handle option \<Rightarrow> (srv \<times> nat) set" where
  "held h = (case h of None \<Rightarrow> {} | Some h \<Rightarrow> {key h})"

lemma held_simps [simp]: "held None = {}" "held (Some h) = {key h}"
  by (simp_all add: held_def)

definition instances :: "launched \<Rightarrow> (srv \<times> nat) set" where
  "instances l = held (ln_proxy l) \<union> held (ln_pac l) \<union> held (ln_reverse l) \<union> held (ln_dns l)"

lemma holds_finish: "post x = pre \<Longrightarrow> holds pre (preturn x) post"
  using holds_preturn [of post x] by simp

lemma holds_skip: "post x = {} \<Longrightarrow> holds {} (preturn x) post"
  by (rule holds_finish)

lemmas holds_start = holds_failing [OF holds_startServer]
lemmas holds_system = holds_failing [OF holds_onSys]
lemmas holds_wrapped = holds_failing [OF holds_wrapping [OF holds_onSys]]

lemma holds_launchHosts: "holds {} (launchHosts E V cfg b) instances"
proof -
  have "holds {key rev} (pbind (orStop V [rev] (failing SystemFailed (onSys m))) (\<lambda>prep. preturn (f prep))) instances"
    if "\<And>prep. instances (f prep) = {key rev}" for rev m and f :: "PrepareHostsResult \<Rightarrow> launched"
    by (rule holds_pbind [OF holds_orStop [OF holds_system, where post = "\<lambda>_. {key rev}"]])
      (auto simp: that intro: holds_finish)
  then show ?thesis unfolding launchHosts_def
    by (intro holds_pbind [OF holds_pure(2)] holds_pbind [OF holds_start]) (simp add: instances_def nothing_def)
qed

lemma holds_preflightDNS: "holds {} (preflightDNS V E cfg) (\<lambda>_. {})"
  unfolding preflightDNS_def
  by (auto intro!: holds_finish holds_pbind [OF holds_pure(2)] holds_pbind [OF holds_wrapped])

lemma holds_applyDNS: "holds {} (applyDNS V cfg c) (\<lambda>_. {})"
  unfolding holds_def
proof (intro allI impI)
  fix w :: "'a eworld"
  assume w: "fresh w"
  show "moved {} (\<lambda>_. {}) w (applyDNS V cfg c w)"
  proof (cases c)
    case None
    with w show ?thesis by (simp add: applyDNS_def)
  next
    case (Some d)
    obtain r w1 where a: "onSys (eo_applySystemDNS V d) w = (r, w1)" by (cases "onSys (eo_applySystemDNS V d) w")
    then have w1: "fresh w1" "opened w1 = opened w"
      using w onSys_frame [OF a] by simp_all
    show ?thesis
    proof (cases r)
      case (Inl e)
      obtain e' w2 where b: "restoreAfter V (rt_RollbackPath (c_Runtime cfg)) e w1 = (e', w2)" by fastforce
      then have "fresh w2" "opened w2 = opened w1"
        using w1(1) by (auto simp: restoreAfter_def dest!: onSys_frame split: prod.splits sum.splits)
      with w1 Some a Inl b show ?thesis by (simp add: applyDNS_def)
    next
      case (Inr x)
      with w1 Some a show ?thesis by (simp add: applyDNS_def)
    qed
  qed
qed

lemma holds_launchDNS: "holds {} (launchDNS E V cfg b) instances"
proof -
  have "holds {key rev} (orStop V [rev] m) (\<lambda>_. {key rev})" if "holds {} m (\<lambda>_. {})"
    for rev and m :: "('a eworld, engine_error, 'c) proc"
    by (rule holds_orStop [OF that]) auto
  note keep = this
  have "holds {key rev, key dns} (pbind (orStop V [dns, rev] (applyDNS V cfg c)) (\<lambda>applied. preturn (f applied))) instances"
    if "\<And>x. instances (f x) = {key rev, key dns}" for rev dns c and f :: "SystemChange list \<Rightarrow> launched"
    by (rule holds_pbind [OF holds_orStop [OF holds_applyDNS, where post = "\<lambda>_. {key rev, key dns}"]])
      (auto simp: that intro: holds_finish)
  note final = this
  show ?thesis unfolding launchDNS_def
    apply (rule holds_pbind [OF holds_preflightDNS])
    subgoal for cc
      apply (cases cc, simp only: prod.case, rule holds_pbind [OF holds_start])
      subgoal for c changes rev
        apply (rule holds_pthen [OF keep [OF holds_pure(2)]], rule holds_pthen [OF keep [OF holds_pure(2)]])
        by (rule holds_pbind [OF holds_orStop [OF holds_start, where post = "\<lambda>dns. {key rev, key dns}"]])
          (auto simp: instances_def nothing_def intro!: final)
      done
    done
qed

lemma holds_launchPAC: "holds {key proxy} (launchPAC V cfg b proxy) (\<lambda>(pac, _). {key proxy} \<union> held pac)"
proof (cases "c_Mode cfg = ModePAC")
  case False
  then show ?thesis by (simp add: launchPAC_def) (rule holds_finish, simp)
next
  case True
  have "holds {key proxy} (orStop V [proxy] (plift r)) (\<lambda>_. {key proxy})" for r :: "(engine_error, 'b) result"
    by (rule holds_orStop [OF holds_pure(2)]) auto
  moreover have "holds {key proxy} (orStop V [proxy] (failing f (startServer V SPac))) (\<lambda>pac. {key proxy, key pac})"
    for f :: "gerr \<Rightarrow> engine_error"
    by (rule holds_orStop [OF holds_start]) auto
  ultimately show ?thesis using True
    by (auto simp: launchPAC_def intro!: holds_pthen holds_pbind holds_finish)
qed

lemma holds_applyProxy:
  "holds ({key proxy} \<union> held pac)
     (if p then orStop V (List.map_filter (\<lambda>h. h) [pac, Some proxy]) (failing f (wrapping c (onSys m))) else preturn ())
     (\<lambda>_. {key proxy} \<union> held pac)"
proof (cases p)
  case True
  have "{key proxy} \<union> held pac = set (map key (List.map_filter (\<lambda>h. h) [pac, Some proxy]))"
    by (cases pac) (auto simp: map_filter_def)
  then show ?thesis using True by (simp only: if_True) (rule holds_orStop [OF holds_wrapped], auto)
qed (simp add: holds_finish)

lemma holds_launchForward: "holds {} (launchForward V cfg b) instances"
  unfolding launchForward_def
  apply (rule holds_pbind [OF holds_start])
  apply (rule holds_pbind)
   apply (rule holds_launchPAC)
  subgoal for proxy pu
    by (cases pu, simp only: prod.case, rule holds_pthen, rule holds_applyProxy, rule holds_finish)
      (simp add: instances_def nothing_def)
  done

lemma holds_launch: "holds {} (launch E V cfg b) instances"
  by (simp add: launch_def holds_launchHosts holds_launchDNS holds_launchForward)

lemma holds_startWork: "holds {} (startWork E V cfg) (\<lambda>(b, l). instances l)"
  unfolding startWork_def
  by (intro holds_pbind [OF holds_pure(2)] holds_pbind [OF holds_launch] holds_finish) simp


subsection \<open>What a launch returns\<close>

text \<open>The servers of a mode: the abstract view of a running engine.\<close>

definition modeServers :: "Config \<Rightarrow> srv set" where
  "modeServers cfg =
     (if c_Mode cfg = ModeHosts then {SReverse}
      else if c_Mode cfg = ModeDNS then {SReverse, SDns}
      else if c_Mode cfg = ModePAC then {SProxy, SPac}
      else {SProxy})"

lemma orStop_eq_Inr [proc_simps]: "orStop V hs m w = (Inr x, w') \<longleftrightarrow> m w = (Inr x, w')"
  by (auto simp: orStop_def split: prod.splits sum.splits)

lemma startServer_kind: "startServer V k w = (Inr h, w') \<Longrightarrow> h_kind h = k"
  by (auto simp: startServer_def split: sum.splits)

lemma launchForward_kinds:
  assumes "launchForward V cfg b w = (Inr l, w')" and "c_Mode cfg \<noteq> ModeHosts" and "c_Mode cfg \<noteq> ModeDNS"
  shows "fst ` instances l = modeServers cfg \<and> (ln_pac l \<noteq> None \<longrightarrow> ln_proxy l \<noteq> None)"
  using assms
  by (auto simp: launchForward_def launchPAC_def proc_simps instances_def nothing_def modeServers_def
      dest!: startServer_kind split: if_splits)

lemma launch_kinds:
  assumes "launch E V cfg b w = (Inr l, w')"
  shows "fst ` instances l = modeServers cfg \<and> (ln_pac l \<noteq> None \<longrightarrow> ln_proxy l \<noteq> None)"
proof (cases "c_Mode cfg = ModeHosts \<or> c_Mode cfg = ModeDNS")
  case True
  then show ?thesis using assms
    by (auto simp: launch_def launchHosts_def launchDNS_def proc_simps instances_def nothing_def modeServers_def
        dest!: startServer_kind)
next
  case False
  then have "launchForward V cfg b w = (Inr l, w')" using assms by (simp add: launch_def)
  from launchForward_kinds [OF this] False show ?thesis by simp
qed

end
