(* ===== verification/EngineRuns.thy ===== *)
theory EngineRuns
  imports Engine
begin

section \<open>Runs of the engine\<close>

text \<open>
  The engine as a transition system: calls of \<open>Start\<close> and \<open>Stop\<close> in any order, with the
  system settings changing arbitrarily in between.  Its invariant is that the servers that listen
  are exactly the ones the engine has recorded; the system refines a machine that only knows
  whether the servers of the configured mode are up.  The calls are not interleaved: each one runs
  to its end.
\<close>

subsection \<open>Steps\<close>

datatype engine_event = Started | StartFailed | Stopped | SystemChanged

inductive engineStep ::
    "golib \<Rightarrow> 's engineEnv \<Rightarrow> engine_event \<Rightarrow> Engine \<times> 's eworld \<Rightarrow> Engine \<times> 's eworld \<Rightarrow> bool"
  for E :: golib and V :: "'s engineEnv" where
  start_ok: "Start E V s = (Inr (), s') \<Longrightarrow> engineStep E V Started s s'"
| start_failed: "Start E V s = (Inl err, s') \<Longrightarrow> engineStep E V StartFailed s s'"
| stop: "Stop V s = (err, s') \<Longrightarrow> engineStep E V Stopped s s'"
| system: "engineStep E V SystemChanged (e, w) (e, w\<lparr>ew_sys := sys\<rparr>)"

inductive_cases engineStepE: "engineStep E V ev s s'"

inductive engineRun ::
    "golib \<Rightarrow> 's engineEnv \<Rightarrow> engine_event list \<Rightarrow> Engine \<times> 's eworld \<Rightarrow> Engine \<times> 's eworld \<Rightarrow> bool"
  for E :: golib and V :: "'s engineEnv" where
  run_nil: "engineRun E V [] s s"
| run_snoc: "engineRun E V evs s s' \<Longrightarrow> engineStep E V ev s' s'' \<Longrightarrow> engineRun E V (evs @ [ev]) s s''"

text \<open>Every call is a step: the system is never stuck.\<close>

lemma start_step: "Start E V s = (r, s') \<Longrightarrow> engineStep E V (if is_ok r then Started else StartFailed) s s'"
  by (cases r) (auto simp: is_ok_def intro: engineStep.intros)

subsection \<open>What the engine has recorded\<close>

definition recorded :: "Engine \<Rightarrow> (srv \<times> nat) set" where
  "recorded e = held (eg_proxy e) \<union> held (eg_pac e) \<union> held (eg_reverse e) \<union> held (eg_dnsIntercept e)"

definition owned :: "Engine \<times> 's eworld \<Rightarrow> bool" where
  "owned s \<longleftrightarrow>
     (let (e, w) = s in
      fresh w \<and> opened w = recorded e \<and> (eg_pac e \<noteq> None \<longrightarrow> eg_proxy e \<noteq> None) \<and>
      fst ` recorded e = (if eg_running e then modeServers (eg_cfg e) else {}))"

lemma modeServers_nonempty [simp]: "modeServers cfg \<noteq> {}"
  by (simp add: modeServers_def)

lemma commit_fields:
  "recorded (commit E (b, l) e) = instances l" "eg_running (commit E (b, l) e)" "eg_cfg (commit E (b, l) e) = eg_cfg e"
  "eg_pac (commit E (b, l) e) = ln_pac l" "eg_proxy (commit E (b, l) e) = ln_proxy l"
  by (simp_all add: commit_def recorded_def instances_def)

lemma reset_logged:
  "recorded (reset e\<lparr>eg_lastErr := err\<rparr>) = {}" "\<not> eg_running (reset e\<lparr>eg_lastErr := err\<rparr>)"
  "eg_cfg (reset e\<lparr>eg_lastErr := err\<rparr>) = eg_cfg e" "eg_pac (reset e\<lparr>eg_lastErr := err\<rparr>) = None"
  by (simp_all add: reset_def recorded_def)

lemma startWork_kinds:
  assumes "startWork E V cfg w = (Inr (b, l), w')"
  shows "fst ` instances l = modeServers cfg" and "ln_pac l \<noteq> None \<longrightarrow> ln_proxy l \<noteq> None"
proof -
  obtain w1 where "launch E V cfg b w1 = (Inr l, w')" using assms by (auto simp: startWork_def proc_simps)
  from launch_kinds [OF this] show "fst ` instances l = modeServers cfg" "ln_pac l \<noteq> None \<longrightarrow> ln_proxy l \<noteq> None" by blast+
qed

lemma idle_owned: "owned (e, w) \<Longrightarrow> \<not> eg_running e \<Longrightarrow> opened w = {}"
  by (simp add: owned_def)

lemma owned_Start:
  assumes "owned (e, w)" and "Start E V (e, w) = (r, (e', w'))"
  shows "owned (e', w') \<and> eg_cfg e' = eg_cfg e \<and> eg_running e' = (eg_running e \<or> is_ok r) \<and> (is_ok r \<longrightarrow> \<not> eg_running e)"
proof (cases "eg_running e")
  case True
  with assms show ?thesis by (auto simp: Start_def is_ok_def)
next
  case False
  have w: "fresh w" "opened w = {}" using assms(1) idle_owned [OF assms(1) False] by (simp_all add: owned_def)
  obtain rs w1 where m: "startWork E V (eg_cfg e) w = (rs, w1)" by (cases "startWork E V (eg_cfg e) w")
  have moved: "moved {} (\<lambda>(b, l). instances l) w (rs, w1)" using holdsD [OF holds_startWork w(1)] m by (metis empty_subsetI)
  show ?thesis
  proof (cases rs)
    case (Inl err)
    with moved m False assms w show ?thesis by (auto simp: Start_def owned_def is_ok_def)
  next
    case (Inr bl)
    obtain b l where bl: "bl = (b, l)" by (cases bl)
    then have r: "r = Inr ()" "e' = commit E (b, l) e" "w' = w1" using assms(2) m Inr False by (simp_all add: Start_def)
    moreover have "fresh w1" "opened w1 = instances l" using moved Inr bl w(2) by simp_all
    moreover note startWork_kinds [OF m [unfolded Inr bl]]
    ultimately show ?thesis using False by (simp add: owned_def commit_fields is_ok_def)
  qed
qed

lemma restoring_frame [simp]:
  "opened (snd (restoring b m x)) = opened (snd x)" "fresh (snd (restoring b m x)) = fresh (snd x)"
  by (auto simp: restoring_def onSys_def fresh_def split: prod.splits sum.splits)

lemma stopping_frame [simp]:
  "opened (snd (stopping V h x)) = opened (snd x) - held h" "fresh (snd x) \<Longrightarrow> fresh (snd (stopping V h x))"
  by (auto simp: stopping_def stopServer_def fresh_def split: prod.splits option.splits)

lemma Stop_closes:
  assumes "Stop V (e, w) = (err, (e', w'))" and "eg_pac e \<noteq> None \<longrightarrow> eg_proxy e \<noteq> None"
  shows "opened w' = opened w - recorded e" and "fresh w \<Longrightarrow> fresh w'" and "\<exists>err. e' = reset e\<lparr>eg_lastErr := err\<rparr>"
proof -
  obtain x where x: "w' = w \<and> recorded e = {} \<or> w' = snd x \<and>
      x = stopping V (eg_proxy e) (stopping V (eg_reverse e) (stopping V (eg_dnsIntercept e) (stopping V (eg_pac e)
        (restoring (usesSystemDNS (eg_cfg e)) (eo_restoreSystemDNS V (rt_RollbackPath (c_Runtime (eg_cfg e))))
        (restoring (c_Mode (eg_cfg e) = ModeHosts) (eo_restoreHosts V (rt_RollbackPath (c_Runtime (eg_cfg e))))
        (restoring (c_Mode (eg_cfg e) = ModePAC \<or> c_Mode (eg_cfg e) = ModeSystem)
          (eo_restoreSystemProxy V (rt_RollbackPath (c_Runtime (eg_cfg e)))) (None, w)))))))"
    using assms by (auto simp: Stop_def Let_def recorded_def split: if_splits prod.splits)
  then show "opened w' = opened w - recorded e" "fresh w \<Longrightarrow> fresh w'"
    by (auto simp: recorded_def)
  have "e' = reset e \<or> (\<exists>err. e' = reset e\<lparr>eg_lastErr := err\<rparr>)"
    using assms(1) by (auto simp: Stop_def Let_def split: if_splits prod.splits)
  moreover have "reset e = reset e\<lparr>eg_lastErr := eg_lastErr (reset e)\<rparr>" by simp
  ultimately show "\<exists>err. e' = reset e\<lparr>eg_lastErr := err\<rparr>" by metis
qed

lemma owned_Stop:
  assumes "owned (e, w)" and "Stop V (e, w) = (err, (e', w'))"
  shows "owned (e', w') \<and> eg_cfg e' = eg_cfg e \<and> \<not> eg_running e'"
proof -
  have e: "fresh w" "opened w = recorded e" "eg_pac e \<noteq> None \<longrightarrow> eg_proxy e \<noteq> None"
    using assms(1) by (simp_all add: owned_def)
  note closed = Stop_closes [OF assms(2) e(3)]
  then obtain lastErr where "e' = reset e\<lparr>eg_lastErr := lastErr\<rparr>" by blast
  with closed(1,2) e show ?thesis by (simp add: owned_def reset_logged)
qed

lemma owned_step:
  assumes "engineStep E V ev s s'" and "owned s"
  shows "owned s' \<and> eg_cfg (fst s') = eg_cfg (fst s)"
proof -
  obtain e w e' w' where s: "s = (e, w)" "s' = (e', w')" by (metis prod.exhaust)
  from assms(1) [unfolded s] show ?thesis
  proof (cases rule: engineStep.cases)
    case start_ok
    from owned_Start [OF assms(2) [unfolded s] this(2)] show ?thesis by (simp add: s)
  next
    case (start_failed err)
    from owned_Start [OF assms(2) [unfolded s] this(2)] show ?thesis by (simp add: s)
  next
    case (stop err)
    from owned_Stop [OF assms(2) [unfolded s] this(2)] show ?thesis by (simp add: s)
  next
    case (system sys)
    then show ?thesis using assms(2) by (auto simp: s owned_def fresh_def)
  qed
qed

lemma owned_run:
  assumes "engineRun E V evs s s'" and "owned s"
  shows "owned s' \<and> eg_cfg (fst s') = eg_cfg (fst s)"
  using assms by (induction rule: engineRun.induct) (auto dest!: owned_step)

lemma owned_new: "ew_open w = [] \<Longrightarrow> owned (newEngine cfg, w)"
  by (simp add: owned_def newEngine_def fresh_def recorded_def)

lemma New_is_newEngine: "Engine.New E cfg = Inr e \<Longrightarrow> \<exists>cfg'. e = newEngine cfg'"
  by (cases "Validate E cfg") (auto simp: Engine.New_def map_result_def)

subsection \<open>The abstract machine\<close>

text \<open>
  The engine seen from outside: the set of server kinds that are up.  A successful start needs all
  servers down and brings up those of the mode; a failed start and a change of the system leave
  them alone; a stop takes everything down.
\<close>

fun specNext :: "srv set \<Rightarrow> engine_event \<Rightarrow> srv set \<Rightarrow> srv set option" where
  "specNext K Started up = (if up = {} then Some K else None)"
| "specNext K StartFailed up = Some up"
| "specNext K Stopped up = Some {}"
| "specNext K SystemChanged up = Some up"

definition specRun :: "srv set \<Rightarrow> engine_event list \<Rightarrow> srv set option" where
  "specRun K evs = fold (\<lambda>ev up. Option.bind up (specNext K ev)) evs (Some {})"

definition serving :: "Engine \<times> 's eworld \<Rightarrow> srv set" where
  "serving s = fst ` opened (snd s)"

lemma owned_serving: "owned s \<Longrightarrow> serving s = (if eg_running (fst s) then modeServers (eg_cfg (fst s)) else {})"
  by (auto simp: owned_def serving_def split: prod.splits)

lemma step_refines:
  assumes "engineStep E V ev s s'" and "owned s"
  shows "specNext (modeServers (eg_cfg (fst s))) ev (serving s) = Some (serving s')"
proof -
  obtain e w e' w' where s: "s = (e, w)" "s' = (e', w')" by (metis prod.exhaust)
  note o = assms(2) [unfolded s]
  from assms(1) [unfolded s] show ?thesis
  proof (cases rule: engineStep.cases)
    case start_ok
    from owned_Start [OF o this(2)] o show ?thesis by (simp add: s start_ok owned_serving is_ok_def)
  next
    case (start_failed err)
    from owned_Start [OF o this(2)] o show ?thesis by (simp add: s start_failed owned_serving is_ok_def)
  next
    case (stop err)
    from owned_Stop [OF o this(2)] show ?thesis by (simp add: s stop owned_serving)
  next
    case (system sys)
    then show ?thesis by (simp add: s serving_def)
  qed
qed

lemma run_refines:
  assumes "engineRun E V evs s s'" and "owned s" and "serving s = {}"
  shows "specRun (modeServers (eg_cfg (fst s))) evs = Some (serving s')"
  using assms
proof (induction rule: engineRun.induct)
  case (run_nil s)
  then show ?case by (simp add: specRun_def)
next
  case (run_snoc evs s s' ev s'')
  have "owned s'" "eg_cfg (fst s') = eg_cfg (fst s)" using owned_run [OF run_snoc.hyps(1) run_snoc.prems(1)] by simp_all
  with step_refines [OF run_snoc.hyps(2)] run_snoc.IH [OF run_snoc.prems] show ?case
    by (simp add: specRun_def)
qed

subsection \<open>When nothing fails\<close>

text \<open>
  A procedure \<open>succeeds\<close> when it returns a result in every state; an environment is cooperative
  when every listen call and every system change succeeds.
\<close>

definition succeeds :: "('w, 'e, 'a) proc \<Rightarrow> bool" where
  "succeeds m \<longleftrightarrow> (\<forall>w. \<exists>x w'. m w = (Inr x, w'))"

definition cooperative :: "'s engineEnv \<Rightarrow> bool" where
  "cooperative V \<longleftrightarrow>
     (\<forall>k w. is_ok (eo_listen V k w)) \<and>
     (\<forall>c. succeeds (eo_applySystemProxy V c)) \<and>
     (\<forall>c. succeeds (eo_preflightHosts V c)) \<and> (\<forall>c. succeeds (eo_applyHosts V c)) \<and>
     (\<forall>c. succeeds (eo_preflightSystemDNS V c)) \<and> (\<forall>c. succeeds (eo_applySystemDNS V c)) \<and>
     succeeds (eo_isCertInstalled V) \<and> succeeds (eo_ensureCertTrusted V) \<and> succeeds (eo_ensureRootCA V) \<and>
     (\<forall>c b. succeeds (eo_prepareHostsElevated V c b))"

definition launchable :: "golib \<Rightarrow> Config \<Rightarrow> built \<Rightarrow> bool" where
  "launchable E cfg b \<longleftrightarrow>
     (c_Mode cfg = ModeHosts \<longrightarrow>
        is_ok (fst (EntriesFromRules E (Rules (bu_matcher b)) (ho_MapIP (c_Hosts cfg)))) \<and> ce_AutoInstall (c_Cert cfg)) \<and>
     (c_Mode cfg = ModeDNS \<longrightarrow>
        (usesSystemDNS cfg \<longrightarrow> is_ok (SystemDns.ConfigFromApp E cfg)) \<and>
        is_ok (NewRawForwarder (bu_resolver b)) \<and>
        is_ok (DnsIntercept.New (DnsIntercept.ConfigFromApp cfg) (Some (bu_matcher b)) True)) \<and>
     (c_Mode cfg = ModePAC \<longrightarrow>
        (\<forall>addr. is_ok (Pac.New (Pac.ConfigFromApp cfg addr) (Rules (bu_matcher b)))))"

lemma succeeds_basic:
  "succeeds (preturn x)"
  "is_ok r \<Longrightarrow> succeeds (plift (map_err f r))"
  "succeeds m \<Longrightarrow> succeeds (failing g m)"
  "succeeds m' \<Longrightarrow> succeeds (wrapping c m')"
  "succeeds m \<Longrightarrow> succeeds (orStop V hs m)"
  "succeeds p \<Longrightarrow> succeeds (onSys p)"
  "(\<And>w. is_ok (eo_listen V k w)) \<Longrightarrow> succeeds (startServer V k)"
  unfolding succeeds_def
  by (auto simp: preturn_def plift_def failing_def wrapping_def orStop_def onSys_def startServer_def map_err_def is_ok_def
      split: prod.splits sum.splits) (metis prod.inject sum.distinct(1))+

lemma succeeds_pbind: "succeeds m \<Longrightarrow> (\<And>x. succeeds (f x)) \<Longrightarrow> succeeds (pbind m f)"
  unfolding succeeds_def pbind_def by (metis (no_types, lifting) prod.case sum.case(2))

lemma succeeds_pthen: "succeeds m \<Longrightarrow> succeeds n \<Longrightarrow> succeeds (pthen m n)"
  by (simp add: pthen_def succeeds_pbind)

lemma succeeds_if: "(b \<Longrightarrow> succeeds m) \<Longrightarrow> (\<not> b \<Longrightarrow> succeeds n) \<Longrightarrow> succeeds (if b then m else n)"
  by simp

lemmas succeeds_intros = succeeds_basic succeeds_pbind succeeds_pthen succeeds_if

lemma cooperativeD:
  assumes "cooperative V"
  shows "is_ok (eo_listen V k w)" "succeeds (eo_applySystemProxy V pc)"
    "succeeds (eo_preflightHosts V h)" "succeeds (eo_applyHosts V h)"
    "succeeds (eo_preflightSystemDNS V d)" "succeeds (eo_applySystemDNS V d)"
    "succeeds (eo_isCertInstalled V)" "succeeds (eo_ensureCertTrusted V)" "succeeds (eo_ensureRootCA V)"
    "succeeds (eo_prepareHostsElevated V h b)"
  using assms unfolding cooperative_def by blast+

lemma succeeds_prepare:
  assumes "cooperative V" and "ce_AutoInstall (c_Cert cfg)"
  shows "succeeds (prepareHostsForStart E V cfg h preferHelper)"
proof -
  have helper: "succeeds (prepareHostsWithHelper V h auto)" for auto
    unfolding prepareHostsWithHelper_def by (intro succeeds_intros cooperativeD [OF assms(1)])
  have direct: "succeeds (prepareHostsDirect V scope h True)" for scope
    unfolding prepareHostsDirect_def not_True_eq_False if_False by (intro succeeds_intros cooperativeD [OF assms(1)])
  have "\<exists>x w'. prepareHostsForStart E V cfg h preferHelper w = (Inr x, w')" for w
  proof -
    obtain x w1 y w2 where "prepareHostsWithHelper V h True w = (Inr x, w1)"
      "prepareHostsDirect V (ce_StoreScope (c_Cert cfg)) h True w = (Inr y, w2)"
      using helper direct unfolding succeeds_def by metis
    with assms(2) show ?thesis by (simp add: prepareHostsForStart_def)
  qed
  then show ?thesis by (simp add: succeeds_def)
qed

lemma succeeds_launchHosts:
  assumes "cooperative V" and "launchable E cfg b" and "c_Mode cfg = ModeHosts"
  shows "succeeds (launchHosts E V cfg b)"
  unfolding launchHosts_def
  by (intro succeeds_intros cooperativeD [OF assms(1)] succeeds_prepare [OF assms(1)])
    (use assms(2,3) in \<open>simp_all add: launchable_def\<close>)

lemma succeeds_applyDNS: "cooperative V \<Longrightarrow> succeeds (applyDNS V cfg c)"
proof (cases c)
  case (Some d)
  assume "cooperative V"
  then have ok: "succeeds (onSys (eo_applySystemDNS V d))" by (intro succeeds_intros cooperativeD)
  have "\<exists>x w'. applyDNS V cfg c w = (Inr x, w')" for w
  proof -
    obtain x w1 where "onSys (eo_applySystemDNS V d) w = (Inr x, w1)" using ok unfolding succeeds_def by metis
    then show ?thesis by (simp add: applyDNS_def Some)
  qed
  then show ?thesis by (simp add: succeeds_def)
qed (simp add: succeeds_def applyDNS_def)

lemma succeeds_launchDNS:
  assumes "cooperative V" and "launchable E cfg b" and "c_Mode cfg = ModeDNS"
  shows "succeeds (launchDNS E V cfg b)"
proof -
  have "succeeds (preflightDNS V E cfg)" unfolding preflightDNS_def
    by (intro succeeds_intros cooperativeD [OF assms(1)]) (use assms(2,3) in \<open>simp add: launchable_def\<close>)
  then show ?thesis unfolding launchDNS_def split_beta
    by (intro succeeds_intros cooperativeD [OF assms(1)] succeeds_applyDNS [OF assms(1)])
      (use assms(2,3) in \<open>simp_all add: launchable_def\<close>)
qed

lemma succeeds_launchForward:
  assumes "cooperative V" and "launchable E cfg b"
  shows "succeeds (launchForward V cfg b)"
proof -
  have "succeeds (launchPAC V cfg b proxy)" for proxy unfolding launchPAC_def
    by (intro succeeds_intros cooperativeD [OF assms(1)]) (use assms(2) in \<open>simp add: launchable_def\<close>)
  then show ?thesis unfolding launchForward_def split_beta
    by (intro succeeds_intros cooperativeD [OF assms(1)])
qed

lemma succeeds_startWork:
  assumes "cooperative V" and "build E cfg = Inr b" and "launchable E cfg b"
  shows "succeeds (startWork E V cfg)"
proof -
  have "succeeds (launch E V cfg b)"
    using assms by (simp add: launch_def succeeds_launchHosts succeeds_launchDNS succeeds_launchForward)
  then have "succeeds (pbind (launch E V cfg b) (\<lambda>l. preturn (b, l)))" by (intro succeeds_intros)
  then show ?thesis by (simp add: succeeds_def startWork_def assms(2) pbind_def [of "plift _"] plift_def map_err_def)
qed

lemma Start_succeeds:
  assumes "cooperative V" and "build E (eg_cfg e) = Inr b" and "launchable E (eg_cfg e) b" and "\<not> eg_running e"
  obtains s' where "Start E V (e, w) = (Inr (), s')"
proof -
  obtain bl w' where "startWork E V (eg_cfg e) w = (Inr bl, w')"
    using succeeds_startWork [OF assms(1-3)] unfolding succeeds_def by metis
  with assms(4) that show thesis by (auto simp: Start_def)
qed

subsection \<open>The resolver of a mode that redirects names\<close>

lemma New_validates: "Engine.New E cfg = Inr e \<Longrightarrow> Validate E cfg = Inr (eg_cfg e)"
  by (auto simp: Engine.New_def newEngine_def map_result_def split: sum.splits)

lemma effective_resolver:
  assumes "Validate E cfg = Inr cfg'" and "requiresLoopSafeResolver cfg'"
  shows "rc_Mode (effectiveResolverConfig cfg') \<in> {ResolverUDP, ResolverTCP, ResolverDoH}"
    and "rc_Servers (effectiveResolverConfig cfg') \<noteq> []"
  using Validate_resolver [OF assms(1)] assms(2)
  by (auto simp: effectiveResolverConfig_def Resolver.ConfigFromApp_def Let_def DefaultDoHServers_def)

subsection \<open>A cooperative environment\<close>

definition sampleEnv :: "unit engineEnv" where
  "sampleEnv =
     \<lparr>eo_listen = (\<lambda>k w. Inr [''127.0.0.1:26501'']), eo_stopErr = (\<lambda>k w. None),
      eo_applySystemProxy = (\<lambda>c. preturn ()), eo_restoreSystemProxy = (\<lambda>p. preturn ()),
      eo_hasRollbackState = (\<lambda>p s. False), eo_preflightHosts = (\<lambda>h. preturn ()), eo_applyHosts = (\<lambda>h. preturn ()),
      eo_restoreHosts = (\<lambda>p. preturn ()), eo_preflightSystemDNS = (\<lambda>d. preturn \<lparr>dr_Interfaces = 0, dr_ServerIPs = [], dr_ViaHelper = False\<rparr>),
      eo_applySystemDNS = (\<lambda>d. preturn \<lparr>dr_Interfaces = 0, dr_ServerIPs = [], dr_ViaHelper = False\<rparr>),
      eo_restoreSystemDNS = (\<lambda>p. preturn ()), eo_isCertInstalled = preturn True,
      eo_ensureCertTrusted = preturn (emptyTrust\<lparr>tu_AlreadyTrusted := True\<rparr>),
      eo_ensureRootCA = preturn (),
      eo_prepareHostsElevated = (\<lambda>h a. preturn \<lparr>ph_Cert = emptyTrust\<lparr>tu_AlreadyTrusted := True, tu_ViaHelper := True\<rparr>,
        ph_CertTrusted = True, ph_Entries = 0\<rparr>),
      eo_shouldUseHostHelper = False, eo_runStartupProbes = (\<lambda>d ts. []), eo_goos = ''linux''\<rparr>"

lemma sampleEnv_cooperative: "cooperative sampleEnv"
  by (simp add: cooperative_def sampleEnv_def succeeds_basic(1) is_ok_def)

definition sampleWorld :: "unit eworld" where
  "sampleWorld = \<lparr>ew_sys = (), ew_open = [], ew_next = 0\<rparr>"

lemma sample_builds:
  obtains b where "build sampleLib (Default samplePaths) = Inr b" and "launchable sampleLib (Default samplePaths) b"
proof -
  have "is_ok (build sampleLib (Default samplePaths))" by code_simp
  moreover have "launchable sampleLib (Default samplePaths) b" for b by (simp add: launchable_def Default_def)
  ultimately show thesis using that by auto
qed

lemma sample_engine_run:
  obtains s where "engineRun sampleLib sampleEnv [Started, Stopped, Started] (newEngine (Default samplePaths), sampleWorld) s"
proof -
  obtain b where b: "build sampleLib (Default samplePaths) = Inr b" "launchable sampleLib (Default samplePaths) b"
    by (rule sample_builds)
  let ?e = "newEngine (Default samplePaths)"
  have o: "owned (?e, sampleWorld)" by (rule owned_new) (simp add: sampleWorld_def)
  note ok = Start_succeeds [OF sampleEnv_cooperative]
  obtain e1 w1 where 1: "Start sampleLib sampleEnv (?e, sampleWorld) = (Inr (), (e1, w1))"
    using ok [of sampleLib ?e b sampleWorld] b by (auto simp: newEngine_def)
  obtain err e2 w2 where 2: "Stop sampleEnv (e1, w1) = (err, (e2, w2))" by (metis prod.exhaust)
  have "owned (e1, w1)" "eg_cfg e1 = Default samplePaths"
    using owned_Start [OF o 1] by (simp_all add: newEngine_def)
  with owned_Stop [OF _ 2] have "eg_cfg e2 = Default samplePaths" "\<not> eg_running e2" by simp_all
  then obtain s3 where 3: "Start sampleLib sampleEnv (e2, w2) = (Inr (), s3)"
    using ok [of sampleLib e2 b w2] b by auto
  have "engineRun sampleLib sampleEnv ([] @ [Started]) (?e, sampleWorld) (e1, w1)"
    by (rule run_snoc [OF run_nil start_ok [OF 1]])
  from run_snoc [OF run_snoc [OF this stop [OF 2]] start_ok [OF 3]] show thesis using that by simp
qed

subsection \<open>Properties\<close>

text \<open>
  C1. The engine never leaks a server.  After any sequence of starts (successful or failing at any
  point), stops and outside changes of the system, the listening servers are exactly those the
  engine has recorded, and something listens exactly while it reports to be running.
\<close>

theorem engine_no_leak:
  assumes "ew_open w = []" and "engineRun E V evs (newEngine cfg, w) (e', w')"
  shows "opened w' = recorded e' \<and> (eg_running e' \<longleftrightarrow> ew_open w' \<noteq> [])"
proof -
  have o: "owned (e', w')" using owned_run [OF assms(2) owned_new [OF assms(1)]] by simp
  then have "opened w' = {} \<longleftrightarrow> \<not> eg_running e'"
    using modeServers_nonempty [of "eg_cfg e'"] by (auto simp: owned_def simp del: modeServers_nonempty split: if_splits)
  with o show ?thesis by (auto simp: owned_def)
qed

theorem engine_no_leak_witness:
  "\<exists>e' w'. engineRun sampleLib sampleEnv [Started, Stopped, Started] (newEngine (Default samplePaths), sampleWorld) (e', w')
     \<and> opened w' = recorded e'"
proof -
  obtain s where s: "engineRun sampleLib sampleEnv [Started, Stopped, Started] (newEngine (Default samplePaths), sampleWorld) s"
    by (rule sample_engine_run)
  then have run: "engineRun sampleLib sampleEnv [Started, Stopped, Started] (newEngine (Default samplePaths), sampleWorld) (fst s, snd s)"
    by simp
  have "ew_open sampleWorld = []" by (simp add: sampleWorld_def)
  from engine_no_leak [OF this run] run show ?thesis by blast
qed

text \<open>
  C2. The engine refines a machine whose state is the set of server kinds that are up: a start
  succeeds only when nothing is up and brings up exactly the servers of the configured mode, a
  failed start changes nothing, a stop takes everything down.
\<close>

theorem engine_refines:
  assumes "ew_open w = []" and "engineRun E V evs (newEngine cfg, w) s'"
  shows "specRun (modeServers cfg) evs = Some (serving s')"
  using run_refines [OF assms(2) owned_new [OF assms(1)]] assms(1) by (simp add: serving_def newEngine_def)

theorem engine_refines_witness:
  "\<exists>s. engineRun sampleLib sampleEnv [Started, Stopped, Started] (newEngine (Default samplePaths), sampleWorld) s
     \<and> serving s = {SProxy}"
proof -
  obtain s where s: "engineRun sampleLib sampleEnv [Started, Stopped, Started] (newEngine (Default samplePaths), sampleWorld) s"
    by (rule sample_engine_run)
  have "modeServers (Default samplePaths) = {SProxy}" by (simp add: modeServers_def Default_def)
  then have "serving s = {SProxy}" using engine_refines [of sampleWorld, OF _ s] by (simp add: sampleWorld_def specRun_def)
  with s show ?thesis by blast
qed

text \<open>
  C3. The engine can always be restarted: from any state a run can reach, a stop leaves nothing
  listening, and if the configuration can be built and the environment lets the servers listen and
  the system be changed, a start after it succeeds and brings up the servers of the mode.
\<close>

theorem engine_restarts:
  assumes "ew_open w = []" and "engineRun E V evs (newEngine cfg, w) s'"
    and "cooperative V" and "build E cfg = Inr b" and "launchable E cfg b"
  shows "\<exists>err s1 s2. Stop V s' = (err, s1) \<and> serving s1 = {} \<and>
           Start E V s1 = (Inr (), s2) \<and> serving s2 = modeServers cfg"
proof -
  have o: "owned s'" "eg_cfg (fst s') = cfg"
    using owned_run [OF assms(2) owned_new [OF assms(1)]] by (simp_all add: newEngine_def)
  obtain e' w' err e1 w1 where s: "s' = (e', w')" "Stop V (e', w') = (err, (e1, w1))" by (metis prod.exhaust)
  note o1 = owned_Stop [OF o(1) [unfolded s(1)] s(2)]
  then obtain e2 w2 where start: "Start E V (e1, w1) = (Inr (), (e2, w2))"
    using Start_succeeds [of V E e1 b w1] assms(3-5) o(2) by (auto simp: s)
  from owned_Start [OF _ start] o1 have "owned (e2, w2)" "eg_running e2" "eg_cfg e2 = cfg"
    using o(2) by (simp_all add: s is_ok_def)
  with o1 s start show ?thesis by (auto simp: owned_serving)
qed

theorem engine_restarts_witness:
  "\<exists>s1 s2. Start sampleLib sampleEnv s1 = (Inr (), s2) \<and> serving s2 = {SProxy}"
proof -
  obtain s where s: "engineRun sampleLib sampleEnv [Started, Stopped, Started] (newEngine (Default samplePaths), sampleWorld) s"
    by (rule sample_engine_run)
  obtain b where b: "build sampleLib (Default samplePaths) = Inr b" "launchable sampleLib (Default samplePaths) b"
    by (rule sample_builds)
  have "modeServers (Default samplePaths) = {SProxy}" by (simp add: modeServers_def Default_def)
  with engine_restarts [OF _ s sampleEnv_cooperative b] show ?thesis by (auto simp: sampleWorld_def)
qed



end
