(* ===== verification/JsonText.thy ===== *)
theory JsonText
  imports Json GoNet
begin

section \<open>The Go standard library: JSON texts\<close>

text \<open>
  The texts \<^verbatim>\<open>encoding/json\<close> writes and reads, for the messages between the program and
  its privileged service: \<open>Marshal\<close> writes a value without spaces, with the escapes of the
  library; \<open>Unmarshal\<close> splits a text into tokens and reads them with a stack of open
  arrays and objects, at most \<open>maxNestingDepth\<close> deep, as the library's scanner does.  Texts
  that are no UTF-8 get the replacement rune.
\<close>

subsection \<open>UTF-8\<close>

definition continuation :: "char \<Rightarrow> bool" where
  "continuation c \<longleftrightarrow> 128 \<le> (of_char c :: nat) \<and> (of_char c :: nat) < 192"

definition leadLen :: "char \<Rightarrow> nat" where
  "leadLen c =
     (let n = (of_char c :: nat) in
      if n < 128 then 1
      else if 194 \<le> n \<and> n < 224 then 2
      else if 224 \<le> n \<and> n < 240 then 3
      else if 240 \<le> n \<and> n < 245 then 4
      else 0)"

definition wellFormedRune :: "string \<Rightarrow> bool" where
  "wellFormedRune r \<longleftrightarrow>
     list_all continuation (tl r) \<and>
     (case r of
        c # a # _ \<Rightarrow>
          (c = CHR 0xE0 \<longrightarrow> 160 \<le> (of_char a :: nat)) \<and> (c = CHR 0xED \<longrightarrow> (of_char a :: nat) < 160) \<and>
          (c = CHR 0xF0 \<longrightarrow> 144 \<le> (of_char a :: nat)) \<and> (c = CHR 0xF4 \<longrightarrow> (of_char a :: nat) < 144)
      | _ \<Rightarrow> True)"

text \<open>The length of the rune a string begins with, 0 when it begins with none.\<close>

definition runeLen :: "string \<Rightarrow> nat" where
  "runeLen s =
     (case s of
        [] \<Rightarrow> 0
      | c # _ \<Rightarrow> (let n = leadLen c in if n \<le> length s \<and> wellFormedRune (take n s) then n else 0))"

lemma leadLen_one: "leadLen c = 1 \<longleftrightarrow> isAscii c"
  by (auto simp: leadLen_def isAscii_def Let_def)

lemma runeLen_ascii: "runeLen (c # s) = 1 \<longleftrightarrow> isAscii c"
  by (auto simp: runeLen_def leadLen_one [unfolded One_nat_def, symmetric] Let_def wellFormedRune_def)

lemma runeLen_append:
  assumes "0 < runeLen s"
  shows "runeLen (take (runeLen s) s @ t) = runeLen s"
  using assms by (cases s) (auto simp: runeLen_def Let_def take_Cons' split: if_splits)

fun validUTF8 :: "string \<Rightarrow> bool" where
  "validUTF8 [] = True"
| "validUTF8 (c # s) \<longleftrightarrow> 0 < runeLen (c # s) \<and> validUTF8 (drop (runeLen (c # s) - 1) s)"

abbreviation replacementRune :: string where
  "replacementRune \<equiv> [CHR 0xEF, CHR 0xBF, CHR 0xBD]"

definition encodeRune :: "nat \<Rightarrow> string" where
  "encodeRune r =
     (if r < 0x80 then [byte r]
      else if r < 0x800 then [byte (192 + r div 64), byte (128 + r mod 64)]
      else if r < 0x10000 then [byte (224 + r div 4096), byte (128 + r div 64 mod 64), byte (128 + r mod 64)]
      else [byte (240 + r div 262144), byte (128 + r div 4096 mod 64), byte (128 + r div 64 mod 64), byte (128 + r mod 64)])"

subsection \<open>Strings\<close>

abbreviation BS :: char where "BS \<equiv> CHR 0x5C"
abbreviation QUOTE :: char where "QUOTE \<equiv> CHR 0x22"

definition escapeByte :: "char \<Rightarrow> string" where
  "escapeByte c =
     (let n = (of_char c :: nat) in
      if c = QUOTE \<or> c = BS then [BS, c]
      else if n = 8 then [BS, CHR ''b'']
      else if n = 12 then [BS, CHR ''f'']
      else if n = 10 then [BS, CHR ''n'']
      else if n = 13 then [BS, CHR ''r'']
      else if n = 9 then [BS, CHR ''t'']
      else if n < 32 \<or> c = CHR ''<'' \<or> c = CHR ''>'' \<or> c = CHR ''&''
      then [BS, CHR ''u'', CHR ''0'', CHR ''0'', hexDigit (n div 16), hexDigit (n mod 16)]
      else [c])"

definition lineSeparators :: "string list" where
  "lineSeparators = [[CHR 0xE2, CHR 0x80, CHR 0xA8], [CHR 0xE2, CHR 0x80, CHR 0xA9]]"

definition escapeRune :: "string \<Rightarrow> string" where
  "escapeRune r =
     (if r = lineSeparators ! 0 then BS # ''u2028''
      else if r = lineSeparators ! 1 then BS # ''u2029''
      else r)"

text \<open>One rune at a time: its text and the number of bytes to go on after.\<close>

definition quoteStep :: "char \<Rightarrow> string \<Rightarrow> string \<times> nat" where
  "quoteStep c s =
     (let n = runeLen (c # s) in
      if n = 0 then (BS # ''ufffd'', 0)
      else if n = 1 then (escapeByte c, 0)
      else (escapeRune (take n (c # s)), n - 1))"

fun quoteBody :: "string \<Rightarrow> string" where
  "quoteBody [] = []"
| "quoteBody (c # s) = (case quoteStep c s of (x, n) \<Rightarrow> x @ quoteBody (drop n s))"

definition hex4 :: "string \<Rightarrow> nat option" where
  "hex4 s = (if 4 \<le> length s \<and> list_all isHex (take 4 s) then Some (hexadecimal (take 4 s)) else None)"

definition simpleEscape :: "char \<Rightarrow> char option" where
  "simpleEscape e =
     (if e = QUOTE \<or> e = BS \<or> e = CHR ''/'' then Some e
      else if e = CHR ''b'' then Some (CHR 0x08)
      else if e = CHR ''f'' then Some (CHR 0x0C)
      else if e = CHR ''n'' then Some (CHR 0x0A)
      else if e = CHR ''r'' then Some (CHR 0x0D)
      else if e = CHR ''t'' then Some (CHR 0x09)
      else None)"

text \<open>A rune outside the basic plane is written as two escapes, the high and the low surrogate.\<close>

definition lowSurrogate :: "nat \<Rightarrow> string \<Rightarrow> nat option" where
  "lowSurrogate r s =
     (if take 2 s = [BS, CHR ''u''] then
        (case hex4 (drop 2 s) of
           Some r2 \<Rightarrow> if r < 0xDC00 \<and> 0xDC00 \<le> r2 \<and> r2 < 0xE000
                      then Some (0x10000 + (r - 0xD800) * 1024 + (r2 - 0xDC00)) else None
         | None \<Rightarrow> None)
      else None)"

definition unquoteStep :: "char \<Rightarrow> string \<Rightarrow> (string \<times> nat) option" where
  "unquoteStep c s =
     (if c = BS then
        (case s of
           [] \<Rightarrow> None
         | e # t \<Rightarrow>
             if e = CHR ''u'' then
               (case hex4 t of
                  None \<Rightarrow> None
                | Some r \<Rightarrow>
                    if 0xD800 \<le> r \<and> r < 0xE000 then
                      (case lowSurrogate r (drop 4 t) of
                         Some r2 \<Rightarrow> Some (encodeRune r2, 11)
                       | None \<Rightarrow> Some (replacementRune, 5))
                    else Some (encodeRune r, 5))
             else map_option (\<lambda>b. ([b], 1)) (simpleEscape e))
      else if (of_char c :: nat) < 32 then None
      else (let n = runeLen (c # s) in
            if n = 0 then Some (replacementRune, 0) else Some (take n (c # s), n - 1)))"

text \<open>The string up to the closing quote, and what follows it.\<close>

fun unquoteBody :: "string \<Rightarrow> (string \<times> string) option" where
  "unquoteBody [] = None"
| "unquoteBody (c # s) =
     (if c = QUOTE then Some ([], s)
      else (case unquoteStep c s of
              None \<Rightarrow> None
            | Some (x, n) \<Rightarrow> map_option (apfst ((@) x)) (unquoteBody (drop n s))))"

lemma unquoteBody_shorter: "unquoteBody s = Some (x, t) \<Longrightarrow> length t < length s"
  by (induction s arbitrary: x rule: unquoteBody.induct)
    (fastforce split: if_splits option.splits prod.splits)+

lemma hexDigit_simps: "n < 16 \<Longrightarrow> isHex (hexDigit n)" "n < 16 \<Longrightarrow> hexVal (hexDigit n) = n"
  by (auto simp: isHex_def hexVal_def hexDigit_def isDigit_def digitVal_def lowerAscii_def)

lemma hex4_escape: "n < 256 \<Longrightarrow> hex4 (CHR ''0'' # CHR ''0'' # hexDigit (n div 16) # hexDigit (n mod 16) # t) = Some n"
  by (simp add: hex4_def hexadecimal_def hexDigit_simps div_less_iff_less_mult) (simp add: isHex_def hexVal_def isDigit_def digitVal_def)

lemma escapeByte_cases:
  "escapeByte c = [c] \<and> c \<noteq> QUOTE \<and> c \<noteq> BS \<and> \<not> (of_char c :: nat) < 32 \<or>
   (\<exists>e. escapeByte c = [BS, e] \<and> e \<noteq> CHR ''u'' \<and> simpleEscape e = Some c) \<or>
   escapeByte c = [BS, CHR ''u'', CHR ''0'', CHR ''0'', hexDigit (of_char c div 16), hexDigit (of_char c mod 16)]"
proof -
  have code: "c = char_of n" if "of_char c = (n :: nat)" for n
    using that by (metis char_of_char)
  show ?thesis by (auto simp: escapeByte_def Let_def simpleEscape_def char_of_def bit_0 dest!: code)
qed

lemma unquote_escapeByte:
  assumes "isAscii c"
  shows "unquoteBody (escapeByte c @ r) = map_option (apfst ((@) [c])) (unquoteBody r)"
proof -
  let ?n = "of_char c :: nat"
  from assms have n: "?n < 128" by (simp add: isAscii_def)
  consider (plain) "escapeByte c = [c]" "c \<noteq> QUOTE" "c \<noteq> BS" "\<not> ?n < 32"
    | (short) e where "escapeByte c = [BS, e]" "e \<noteq> CHR ''u''" "simpleEscape e = Some c"
    | (hex) "escapeByte c = [BS, CHR ''u'', CHR ''0'', CHR ''0'', hexDigit (?n div 16), hexDigit (?n mod 16)]"
    using escapeByte_cases [of c] by blast
  then show ?thesis
  proof cases
    case plain
    have "runeLen (c # r) = 1" using assms by (simp only: runeLen_ascii)
    then show ?thesis using plain by (simp add: unquoteStep_def)
  next
    case short
    then show ?thesis by (simp add: unquoteStep_def)
  next
    case hex
    with n show ?thesis by (simp add: unquoteStep_def hex4_escape encodeRune_def)
  qed
qed

lemma lead_of_long_rune:
  assumes "1 < runeLen (c # s)"
  shows "c \<noteq> QUOTE" "c \<noteq> BS" "\<not> (of_char c :: nat) < 32"
  using assms by (auto simp: runeLen_def leadLen_def Let_def split: if_splits)

lemma unquote_escapeRune:
  assumes "1 < runeLen (c # s)"
  shows "unquoteBody (escapeRune (take (runeLen (c # s)) (c # s)) @ r) =
    map_option (apfst ((@) (take (runeLen (c # s)) (c # s)))) (unquoteBody r)"
proof (cases "take (runeLen (c # s)) (c # s) \<in> set lineSeparators")
  case True
  have "encodeRune 0x2028 = [CHR 0xE2, CHR 0x80, CHR 0xA8]" "encodeRune 0x2029 = [CHR 0xE2, CHR 0x80, CHR 0xA9]"
    by (simp_all add: encodeRune_def char_of_def bit_0)
  moreover have "hex4 (''2028'' @ r) = Some 0x2028" "hex4 (''2029'' @ r) = Some 0x2029"
    by (simp_all add: hex4_def hexadecimal_def isHex_def hexVal_def isDigit_def digitVal_def)
  ultimately show ?thesis using True by (auto simp: escapeRune_def lineSeparators_def unquoteStep_def)
next
  case False
  define n where "n = runeLen (c # s)"
  define x where "x = take (n - 1) s"
  from assms have x: "take n (c # s) = c # x" by (simp add: n_def x_def take_Cons')
  have len: "length x = n - 1"
    using assms by (auto simp: n_def x_def runeLen_def Let_def split: if_splits)
  have "runeLen (c # x @ r) = n"
    using runeLen_append [of "c # s" r] assms x by (simp add: n_def)
  with lead_of_long_rune [OF assms] assms len
  have "unquoteStep c (x @ r) = Some (c # x, n - 1)" by (simp add: unquoteStep_def n_def take_Cons')
  with False x lead_of_long_rune [OF assms] len show ?thesis
    by (auto simp: escapeRune_def lineSeparators_def simp flip: n_def)
qed

lemma unquote_quote: "validUTF8 s \<Longrightarrow> unquoteBody (quoteBody s @ QUOTE # t) = Some (s, t)"
proof (induction s rule: quoteBody.induct)
  case 1
  then show ?case by simp
next
  case (2 c s)
  let ?n = "runeLen (c # s)"
  have "0 < ?n" and rest: "validUTF8 (drop (?n - 1) s)" using "2.prems" by simp_all
  then consider "?n = 1" | "1 < ?n" by linarith
  then show ?case
  proof cases
    case 1
    then have "isAscii c" by (simp only: runeLen_ascii)
    with 1 rest "2.IH" show ?thesis by (simp add: quoteStep_def unquote_escapeByte)
  next
    case 2
    moreover from 2 have "take ?n (c # s) @ drop (?n - 1) s = c # s" by (simp add: take_Cons' drop_Cons')
    ultimately show ?thesis using rest "2.IH" by (simp add: quoteStep_def unquote_escapeRune Let_def)
  qed
qed

subsection \<open>Tokens\<close>

text \<open>Punctuation, and the atoms: strings, numbers, \<^verbatim>\<open>true\<close>, \<^verbatim>\<open>false\<close> and \<^verbatim>\<open>null\<close>.\<close>

datatype token = TAtom json | TPunct char

definition scanExponent :: "string \<Rightarrow> (string \<times> string) option" where
  "scanExponent s =
     (case s of
        e # t \<Rightarrow>
          if e = CHR ''e'' \<or> e = CHR ''E'' then
            (let sg = takeWhile (\<lambda>c. c = CHR ''+'' \<or> c = CHR ''-'') (take 1 t);
                 ds = takeWhile isDigit (drop (length sg) t)
             in if ds = [] then None else Some (e # sg @ ds, drop (length sg + length ds) t))
          else Some ([], s)
      | [] \<Rightarrow> Some ([], []))"

definition scanFraction :: "string \<Rightarrow> (string \<times> string) option" where
  "scanFraction s =
     (case s of
        d # t \<Rightarrow>
          if d = CHR ''.'' then
            (let ds = takeWhile isDigit t in if ds = [] then None else Some (d # ds, drop (length ds) t))
          else Some ([], s)
      | [] \<Rightarrow> Some ([], []))"

definition scanInteger :: "string \<Rightarrow> string \<times> string" where
  "scanInteger s =
     (let sg = takeWhile (\<lambda>c. c = CHR ''-'') (take 1 s);
          ds = takeWhile isDigit (drop (length sg) s)
      in (sg, if ds \<noteq> [] \<and> hd ds = CHR ''0'' then take 1 ds else ds))"

definition scanNumber :: "string \<Rightarrow> (json \<times> string) option" where
  "scanNumber s =
     (case scanInteger s of (sg, ds) \<Rightarrow>
      if ds = [] then None
      else (case scanFraction (drop (length sg + length ds) s) of
              None \<Rightarrow> None
            | Some (fr, rest) \<Rightarrow>
                (case scanExponent rest of
                   None \<Rightarrow> None
                 | Some (ex, rest) \<Rightarrow>
                     Some (if fr = [] \<and> ex = []
                           then JNum (if sg = [] then int (decimal ds) else - int (decimal ds))
                           else JReal (sg @ ds @ fr @ ex), rest))))"

definition scanWord :: "string \<Rightarrow> json \<Rightarrow> string \<Rightarrow> (json \<times> string) option" where
  "scanWord w j s = (if take (length w) s = w then Some (j, drop (length w) s) else None)"

definition scanAtom :: "char \<Rightarrow> string \<Rightarrow> (json \<times> string) option" where
  "scanAtom c s =
     (if c = QUOTE then map_option (apfst JStr) (unquoteBody s)
      else if c = CHR ''t'' then scanWord ''true'' (JBool True) (c # s)
      else if c = CHR ''f'' then scanWord ''false'' (JBool False) (c # s)
      else if c = CHR ''n'' then scanWord ''null'' JNull (c # s)
      else scanNumber (c # s))"

definition punctuation :: string where
  "punctuation = ''{}[],:''"

definition jsonSpace :: string where
  "jsonSpace = [CHR '' '', CHR 0x09, CHR 0x0A, CHR 0x0D]"

lemma scanFraction_shorter: "scanFraction s = Some (x, r) \<Longrightarrow> length r \<le> length s"
  by (cases s) (auto simp: scanFraction_def Let_def split: if_splits)

lemma scanExponent_shorter: "scanExponent s = Some (x, r) \<Longrightarrow> length r \<le> length s"
  by (cases s) (auto simp: scanExponent_def Let_def simp del: take_Suc split: if_splits)

lemma scanInteger_length:
  assumes "scanInteger s = (sg, ds)"
  shows "length sg + length ds \<le> length s"
proof -
  let ?ds = "takeWhile isDigit (drop (length sg) s)"
  from assms have sg: "sg = takeWhile (\<lambda>c. c = CHR ''-'') (take 1 s)" and "length ds \<le> length ?ds"
    by (auto simp: scanInteger_def Let_def split: if_splits)
  moreover have "length sg \<le> length s" using sg length_takeWhile_le [of "\<lambda>c. c = CHR ''-''" "take 1 s"] by simp
  ultimately show ?thesis using length_takeWhile_le [of isDigit "drop (length sg) s"] by simp
qed

lemma scanNumber_shorter:
  assumes "scanNumber s = Some (j, r)"
  shows "length r < length s"
proof -
  obtain sg ds fr rest ex where int: "scanInteger s = (sg, ds)" and "ds \<noteq> []"
    and fr: "scanFraction (drop (length sg + length ds) s) = Some (fr, rest)" and ex: "scanExponent rest = Some (ex, r)"
    using assms by (auto simp: scanNumber_def split: prod.splits if_splits option.splits)
  from scanFraction_shorter [OF fr] scanExponent_shorter [OF ex] scanInteger_length [OF int] \<open>ds \<noteq> []\<close>
  show ?thesis by (cases ds) auto
qed

lemma scanAtom_shorter: "scanAtom c s = Some (j, r) \<Longrightarrow> length r \<le> length s"
  by (auto simp: scanAtom_def scanWord_def dest!: scanNumber_shorter unquoteBody_shorter split: if_splits)

function tokenize :: "string \<Rightarrow> token list option" where
  "tokenize [] = Some []"
| "tokenize (c # s) =
     (if c \<in> set jsonSpace then tokenize s
      else if c \<in> set punctuation then map_option (\<lambda>ts. TPunct c # ts) (tokenize s)
      else (case scanAtom c s of
              None \<Rightarrow> None
            | Some (j, r) \<Rightarrow> map_option (\<lambda>ts. TAtom j # ts) (tokenize r)))"
  by pat_completeness auto
termination by (relation "measure length") (auto simp: less_Suc_eq_le scanAtom_shorter)

definition tokText :: "token \<Rightarrow> string" where
  "tokText t =
     (case t of
        TPunct c \<Rightarrow> [c]
      | TAtom j \<Rightarrow>
          (case j of
             JStr s \<Rightarrow> QUOTE # quoteBody s @ [QUOTE]
           | JNum i \<Rightarrow> Itoa i
           | JReal l \<Rightarrow> l
           | JBool b \<Rightarrow> if b then ''true'' else ''false''
           | _ \<Rightarrow> ''null''))"

subsection \<open>Values\<close>

fun commas :: "token list list \<Rightarrow> token list" where
  "commas [] = []"
| "commas [x] = x"
| "commas (x # xs) = x @ TPunct CHR '','' # commas xs"

fun toks :: "json \<Rightarrow> token list" where
  "toks (JArr js) = TPunct CHR ''['' # commas (map toks js) @ [TPunct CHR '']'']"
| "toks (JObj kvs) = TPunct CHR ''{'' #
     commas (map (\<lambda>kv. TAtom (JStr (fst kv)) # TPunct CHR '':'' # toks (snd kv)) kvs) @ [TPunct CHR ''}'']"
| "toks j = [TAtom j]"

definition Marshal :: "json \<Rightarrow> string" where
  "Marshal j = concat (map tokText (toks j))"

text \<open>
  The arrays and objects that are open, innermost first, with their elements in reverse, and
  what the reader waits for: a value, the next member of an object, or what follows a value.
\<close>

datatype frame = FArr "json list" | FObj "(string \<times> json) list" string

datatype pstate = PValue | PMember "(string \<times> json) list" | PDone json

definition maxNestingDepth :: nat where
  "maxNestingDepth = 10000"

fun parseTokens :: "frame list \<Rightarrow> pstate \<Rightarrow> token list \<Rightarrow> json option" where
  "parseTokens st (PDone v) ts =
     (case st of
        [] \<Rightarrow> if ts = [] then Some v else None
      | FArr xs # st' \<Rightarrow>
          (case ts of
             TPunct c # ts' \<Rightarrow>
               if c = CHR '','' then parseTokens (FArr (v # xs) # st') PValue ts'
               else if c = CHR '']'' then parseTokens st' (PDone (JArr (rev (v # xs)))) ts'
               else None
           | _ \<Rightarrow> None)
      | FObj kvs k # st' \<Rightarrow>
          (case ts of
             TPunct c # ts' \<Rightarrow>
               if c = CHR '','' then parseTokens st' (PMember ((k, v) # kvs)) ts'
               else if c = CHR ''}'' then parseTokens st' (PDone (JObj (rev ((k, v) # kvs)))) ts'
               else None
           | _ \<Rightarrow> None))"
| "parseTokens st (PMember kvs) (TAtom j # TPunct c # ts) =
     (case j of JStr k \<Rightarrow> if c = CHR '':'' then parseTokens (FObj kvs k # st) PValue ts else None | _ \<Rightarrow> None)"
| "parseTokens st PValue (TAtom j # ts) = parseTokens st (PDone j) ts"
| "parseTokens st PValue (TPunct c # ts) =
     (if maxNestingDepth \<le> length st then None
      else if c = CHR ''['' then
        (case ts of
           TPunct d # ts' \<Rightarrow> if d = CHR '']'' then parseTokens st (PDone (JArr [])) ts' else parseTokens (FArr [] # st) PValue ts
         | _ \<Rightarrow> parseTokens (FArr [] # st) PValue ts)
      else if c = CHR ''{'' then
        (case ts of
           TPunct d # ts' \<Rightarrow> if d = CHR ''}'' then parseTokens st (PDone (JObj [])) ts' else None
         | _ \<Rightarrow> parseTokens st (PMember []) ts)
      else None)"
| "parseTokens _ _ _ = None"

declare parseTokens.simps(1) [simp del]

lemma parse_done [simp]:
  "parseTokens [] (PDone v) ts = (if ts = [] then Some v else None)"
  "parseTokens (FArr xs # st) (PDone v) (TPunct CHR '','' # ts) = parseTokens (FArr (v # xs) # st) PValue ts"
  "parseTokens (FArr xs # st) (PDone v) (TPunct CHR '']'' # ts) = parseTokens st (PDone (JArr (rev xs @ [v]))) ts"
  "parseTokens (FObj kvs k # st) (PDone v) (TPunct CHR '','' # ts) = parseTokens st (PMember ((k, v) # kvs)) ts"
  "parseTokens (FObj kvs k # st) (PDone v) (TPunct CHR ''}'' # ts) = parseTokens st (PDone (JObj (rev kvs @ [(k, v)]))) ts"
  by (simp_all add: parseTokens.simps(1))

definition Unmarshal :: "string \<Rightarrow> json option" where
  "Unmarshal s = (case tokenize s of None \<Rightarrow> None | Some ts \<Rightarrow> parseTokens [] PValue ts)"

subsection \<open>What was written is read back\<close>

fun plainJson :: "json \<Rightarrow> bool" where
  "plainJson (JStr s) = validUTF8 s"
| "plainJson (JReal l) = False"
| "plainJson (JArr js) = list_all plainJson js"
| "plainJson (JObj kvs) = list_all (\<lambda>kv. validUTF8 (fst kv) \<and> plainJson (snd kv)) kvs"
| "plainJson _ = True"

fun depth :: "json \<Rightarrow> nat" where
  "depth (JArr js) = Suc (fold max (map depth js) 0)"
| "depth (JObj kvs) = Suc (fold max (map (\<lambda>kv. depth (snd kv)) kvs) 0)"
| "depth _ = 0"

lemma fold_max_le: "fold max ns m \<le> (d :: nat) \<longleftrightarrow> m \<le> d \<and> (\<forall>n \<in> set ns. n \<le> d)"
  by (induction ns arbitrary: m) auto

lemma depth_member:
  "j \<in> set js \<Longrightarrow> depth j < depth (JArr js)" "kv \<in> set kvs \<Longrightarrow> depth (snd kv) < depth (JObj kvs)"
  using fold_max_le [of _ 0, THEN iffD1, OF order_refl] by (auto simp: less_Suc_eq_le)

lemma commas_Cons: "commas (x # xs) = (if xs = [] then x else x @ TPunct CHR '','' # commas xs)"
  by (cases xs) simp_all

text \<open>Reading the tokens of a value leaves the stack as it was.\<close>

lemma toks_start:
  "\<exists>t r. toks j = t # r \<and> t \<noteq> TPunct CHR '']'' \<and> t \<noteq> TPunct CHR ''}''"
  by (cases j) auto

lemma parse_array:
  assumes "\<And>j st ts. j \<in> set js \<Longrightarrow> length st \<le> n \<Longrightarrow> parseTokens st PValue (toks j @ ts) = parseTokens st (PDone j) ts"
    and "js \<noteq> []" and "Suc (length st) \<le> n"
  shows "parseTokens (FArr acc # st) PValue (commas (map toks js) @ TPunct CHR '']'' # ts) =
    parseTokens st (PDone (JArr (rev acc @ js))) ts"
  using assms
proof (induction js arbitrary: acc)
  case (Cons j js)
  then show ?case by (cases js) simp_all
qed simp

lemma parse_object:
  assumes "\<And>kv st ts. kv \<in> set kvs \<Longrightarrow> length st \<le> n \<Longrightarrow>
      parseTokens st PValue (toks (snd kv) @ ts) = parseTokens st (PDone (snd kv)) ts"
    and "kvs \<noteq> []" and "Suc (length st) \<le> n"
  shows "parseTokens st (PMember acc)
      (commas (map (\<lambda>kv. TAtom (JStr (fst kv)) # TPunct CHR '':'' # toks (snd kv)) kvs) @ TPunct CHR ''}'' # ts) =
    parseTokens st (PDone (JObj (rev acc @ kvs))) ts"
  using assms
proof (induction kvs arbitrary: acc)
  case (Cons kv kvs)
  then show ?case by (cases kvs) simp_all
qed simp

lemma parse_toks:
  "length st + depth j \<le> maxNestingDepth \<Longrightarrow> parseTokens st PValue (toks j @ ts) = parseTokens st (PDone j) ts"
proof (induction j arbitrary: st ts)
  case (JArr js)
  have elems: "parseTokens st' PValue (toks x @ ts') = parseTokens st' (PDone x) ts'"
    if "x \<in> set js" "length st' \<le> Suc (length st)" for x st' ts'
    using JArr.IH [OF that(1), of st' ts'] JArr.prems that(2) depth_member(1) [OF that(1)] by linarith
  show ?case
  proof (cases js)
    case Nil
    then show ?thesis using JArr.prems by simp
  next
    case (Cons x xs)
    obtain t r where "toks x = t # r" "t \<noteq> TPunct CHR '']''" using toks_start by blast
    then show ?thesis using JArr.prems Cons parse_array [of js "Suc (length st)" st "[]" ts, OF elems]
      by (cases t) (auto simp: commas_Cons split: if_splits)
  qed
next
  case (JObj kvs)
  have elems: "parseTokens st' PValue (toks (snd kv) @ ts') = parseTokens st' (PDone (snd kv)) ts'"
    if "kv \<in> set kvs" "length st' \<le> Suc (length st)" for kv st' ts'
    using JObj.IH [of kv "snd kv" st' ts'] that depth_member(2) [OF that(1)] JObj.prems
    by (cases kv) (auto simp del: depth.simps)
  show ?case
  proof (cases kvs)
    case Nil
    then show ?thesis using JObj.prems by simp
  next
    case (Cons x xs)
    then show ?thesis using JObj.prems parse_object [of kvs "Suc (length st)" st "[]" ts, OF elems]
      by (simp add: commas_Cons split: if_splits)
  qed
qed simp_all

text \<open>A number ends where neither a digit nor a fraction nor an exponent follows.\<close>

definition ends :: "string \<Rightarrow> bool" where
  "ends s \<longleftrightarrow> s = [] \<or> \<not> isDigit (hd s) \<and> hd s \<notin> set ''.eE''"

lemma digitsOf_zero: "hd (digitsOf n) = CHR ''0'' \<Longrightarrow> n = 0"
proof (induction n rule: digitsOf.induct)
  case (1 n)
  show ?case
  proof (cases "n < 10")
    case True
    with "1.prems" have "(of_char (char_of (48 + n) :: char) :: nat) = 48" by (simp add: digitsOf.simps [of n])
    with True show ?thesis by simp
  next
    case False
    with "1.prems" have "hd (digitsOf (n div 10)) = CHR ''0''" by (simp add: digitsOf.simps [of n])
    with "1.IH" False have "n div 10 = 0" by simp
    with False show ?thesis by linarith
  qed
qed

lemma takeWhile_digits: "ends r \<Longrightarrow> takeWhile isDigit (digitsOf n @ r) = digitsOf n"
  using digitsOf_digits [of n] by (cases r) (auto simp: ends_def list_all_iff takeWhile_append2)

lemma first_digit: "isDigit (hd (digitsOf n @ r))"
  using digitsOf_digits [of n] by (cases "digitsOf n") auto

lemma scanNumber_Itoa:
  assumes "ends r"
  shows "scanNumber (Itoa i @ r) = Some (JNum i, r)"
proof -
  have tail: "scanFraction r = Some ([], r)" "scanExponent r = Some ([], r)"
    using assms by (cases r; auto simp: ends_def scanFraction_def scanExponent_def)+
  have zero: "(if hd (digitsOf n) = CHR ''0'' then take 1 (digitsOf n) else digitsOf n) = digitsOf n" for n
    using digitsOf_zero [of n] by (auto simp: digitsOf.simps [of 0])
  have pos: "scanInteger (digitsOf n @ r) = ([], digitsOf n)" for n
    using first_digit [of n r] zero [of n] takeWhile_digits [OF assms, of n]
    by (cases "digitsOf n") (auto simp: scanInteger_def Let_def isDigit_def)
  have neg: "scanInteger (CHR ''-'' # digitsOf n @ r) = (''-'', digitsOf n)" for n
    using zero [of n] takeWhile_digits [OF assms, of n] by (auto simp: scanInteger_def Let_def)
  show ?thesis using pos neg tail by (simp add: scanNumber_def Itoa_def)
qed

lemma Itoa_start: "\<exists>c t. Itoa i = c # t \<and> (isDigit c \<or> c = CHR ''-'')"
  using first_digit [of "nat i" "[]"] by (cases "digitsOf (nat i)") (auto simp: Itoa_def)

lemma tokenize_atom:
  assumes "plainJson a" and "toks a = [TAtom a]" and "ends r"
  shows "tokenize (tokText (TAtom a) @ r) = map_option (\<lambda>ts. TAtom a # ts) (tokenize r)"
proof (cases a)
  case (JStr s)
  then show ?thesis using assms unquote_quote [of s r]
    by (simp add: tokText_def scanAtom_def jsonSpace_def punctuation_def)
next
  case (JNum i)
  obtain c t where ct: "Itoa i = c # t" and "isDigit c \<or> c = CHR ''-''" using Itoa_start by blast
  then have "c \<notin> set jsonSpace" "c \<notin> set punctuation" "scanAtom c s = scanNumber (c # s)" for s
    by (auto simp: scanAtom_def jsonSpace_def punctuation_def isDigit_def)
  then show ?thesis using scanNumber_Itoa [OF assms(3), of i] JNum ct by (simp add: tokText_def)
qed (use assms in \<open>auto simp: tokText_def scanAtom_def jsonSpace_def punctuation_def scanWord_def\<close>)

lemma punctuation_ends: "c \<in> set punctuation \<Longrightarrow> \<not> isDigit c \<and> c \<noteq> CHR ''.'' \<and> c \<noteq> CHR ''e'' \<and> c \<noteq> CHR ''E''"
  by (auto simp: punctuation_def isDigit_def)

fun separated :: "token list \<Rightarrow> bool" where
  "separated [] = True"
| "separated (TPunct c # ts) \<longleftrightarrow> c \<in> set punctuation \<and> separated ts"
| "separated (TAtom a # ts) \<longleftrightarrow>
     plainJson a \<and> toks a = [TAtom a] \<and> (case ts of TAtom _ # _ \<Rightarrow> False | _ \<Rightarrow> True) \<and> separated ts"

lemma tokenize_text: "separated ts \<Longrightarrow> tokenize (concat (map tokText ts)) = Some ts"
proof (induction ts rule: separated.induct)
  case (2 c ts)
  then have "c \<notin> set jsonSpace" by (auto simp: jsonSpace_def punctuation_def)
  with 2 show ?case by (simp add: tokText_def)
next
  case (3 a ts)
  then have "ends (concat (map tokText ts))"
    by (cases ts rule: separated.cases) (auto simp: ends_def tokText_def dest: punctuation_ends)
  with 3 show ?case by (simp add: tokenize_atom)
qed simp

text \<open>The tokens of a plain value are separated, whatever separated tokens follow that begin with no atom.\<close>

abbreviation follows :: "token list \<Rightarrow> bool" where
  "follows ts \<equiv> separated ts \<and> (case ts of TAtom _ # _ \<Rightarrow> False | _ \<Rightarrow> True)"

lemma separated_commas:
  assumes "\<And>x ts. x \<in> set xs \<Longrightarrow> follows ts \<Longrightarrow> separated (f x @ ts)" and "c \<in> set punctuation" and "separated ts"
  shows "separated (commas (map f xs) @ TPunct c # ts)"
  using assms by (induction xs) (auto simp: commas_Cons punctuation_def)

lemma separated_toks: "plainJson j \<Longrightarrow> follows ts \<Longrightarrow> separated (toks j @ ts)"
proof (induction j arbitrary: ts)
  case (JArr js)
  have "separated (commas (map toks js) @ TPunct CHR '']'' # ts)"
    by (rule separated_commas) (use JArr in \<open>auto simp: list_all_iff punctuation_def\<close>)
  then show ?case by (simp add: punctuation_def)
next
  case (JObj kvs)
  have "separated (commas (map (\<lambda>kv. TAtom (JStr (fst kv)) # TPunct CHR '':'' # toks (snd kv)) kvs) @ TPunct CHR ''}'' # ts)"
  proof (rule separated_commas)
    fix kv ts'
    assume "kv \<in> set kvs" and "follows ts'"
    with JObj.IH [of kv "snd kv" ts'] JObj.prems
    show "separated ((TAtom (JStr (fst kv)) # TPunct CHR '':'' # toks (snd kv)) @ ts')"
      by (cases kv) (auto simp: list_all_iff punctuation_def)
  qed (use JObj.prems in \<open>auto simp: punctuation_def\<close>)
  then show ?case by (simp add: punctuation_def)
qed simp_all

theorem Unmarshal_Marshal:
  assumes "plainJson j" and "depth j \<le> maxNestingDepth"
  shows "Unmarshal (Marshal j) = Some j"
proof -
  have "tokenize (Marshal j) = Some (toks j)"
    unfolding Marshal_def using separated_toks [OF assms(1), of "[]"] by (intro tokenize_text) simp
  then show ?thesis using parse_toks [of "[]" j "[]"] assms(2) by (simp add: Unmarshal_def)
qed

end
