(* ===== verification/PrivilegeWire.thy ===== *)
theory PrivilegeWire
  imports Privilege JsonText
begin

section \<open>Package privilege: requests and responses as JSON\<close>

text \<open>
  How \<^verbatim>\<open>encoding/json\<close> writes and reads the structs of \<^verbatim>\<open>privilege.go\<close>.  A
  decoder goes through the members of an object in their order: a member sets the field of that
  name, or else the first one whose name is equal under case folding; other members are
  ignored, and \<^verbatim>\<open>null\<close> leaves a field as it is.  Then the files of \<^verbatim>\<open>io.go\<close> and
  the one-shot helper \<^verbatim>\<open>RunHelper\<close>.
\<close>

subsection \<open>Members\<close>

definition fieldOf :: "golib \<Rightarrow> string list \<Rightarrow> string \<Rightarrow> string option" where
  "fieldOf E names k = (if k \<in> set names then Some k else find (\<lambda>n. EqualFold E n k) names)"

fun setFields :: "golib \<Rightarrow> (string \<times> (json \<Rightarrow> 'a \<Rightarrow> 'a option)) list \<Rightarrow> (string \<times> json) list \<Rightarrow> 'a \<Rightarrow> 'a option" where
  "setFields E fs [] x = Some x"
| "setFields E fs (kv # kvs) x =
     (case Option.bind (fieldOf E (map fst fs) (fst kv)) (map_of fs) of
        None \<Rightarrow> setFields E fs kvs x
      | Some f \<Rightarrow> Option.bind (f (snd kv) x) (setFields E fs kvs))"

definition decodeStruct :: "golib \<Rightarrow> (string \<times> (json \<Rightarrow> 'a \<Rightarrow> 'a option)) list \<Rightarrow> json \<Rightarrow> 'a \<Rightarrow> 'a option" where
  "decodeStruct E fs j x =
     (case j of JObj kvs \<Rightarrow> setFields E fs kvs x | JNull \<Rightarrow> Some x | _ \<Rightarrow> None)"

definition toStr :: "(string \<Rightarrow> 'a \<Rightarrow> 'a) \<Rightarrow> json \<Rightarrow> 'a \<Rightarrow> 'a option" where
  "toStr upd j x = (case j of JStr s \<Rightarrow> Some (upd s x) | JNull \<Rightarrow> Some x | _ \<Rightarrow> None)"

definition int64 :: "int \<Rightarrow> bool" where
  "int64 i \<longleftrightarrow> - (2 ^ 63) \<le> i \<and> i < 2 ^ 63"

definition toInt :: "(int \<Rightarrow> 'a \<Rightarrow> 'a) \<Rightarrow> json \<Rightarrow> 'a \<Rightarrow> 'a option" where
  "toInt upd j x = (case j of JNum i \<Rightarrow> if int64 i then Some (upd i x) else None | JNull \<Rightarrow> Some x | _ \<Rightarrow> None)"

definition toBool :: "(bool \<Rightarrow> 'a \<Rightarrow> 'a) \<Rightarrow> json \<Rightarrow> 'a \<Rightarrow> 'a option" where
  "toBool upd j x = (case j of JBool b \<Rightarrow> Some (upd b x) | JNull \<Rightarrow> Some x | _ \<Rightarrow> None)"

text \<open>A slice: an array replaces it, \<^verbatim>\<open>null\<close> empties it.\<close>

definition toSlice :: "(json \<Rightarrow> 'b option) \<Rightarrow> ('b list \<Rightarrow> 'a \<Rightarrow> 'a) \<Rightarrow> json \<Rightarrow> 'a \<Rightarrow> 'a option" where
  "toSlice dec upd j x =
     (case j of JArr js \<Rightarrow> map_option (\<lambda>bs. upd bs x) (those (map dec js)) | JNull \<Rightarrow> Some (upd [] x) | _ \<Rightarrow> None)"

definition toStruct :: "(json \<Rightarrow> 'b \<Rightarrow> 'b option) \<Rightarrow> ('a \<Rightarrow> 'b) \<Rightarrow> ('b \<Rightarrow> 'a \<Rightarrow> 'a) \<Rightarrow> json \<Rightarrow> 'a \<Rightarrow> 'a option" where
  "toStruct dec get upd j x = map_option (\<lambda>b. upd b x) (dec j (get x))"

text \<open>A pointer: \<^verbatim>\<open>null\<close> clears it, a value is read into what it points to or into a new zero value.\<close>

definition toPointer :: "(json \<Rightarrow> 'b \<Rightarrow> 'b option) \<Rightarrow> 'b \<Rightarrow> ('a \<Rightarrow> 'b option) \<Rightarrow> ('b option \<Rightarrow> 'a \<Rightarrow> 'a) \<Rightarrow> json \<Rightarrow> 'a \<Rightarrow> 'a option" where
  "toPointer dec zero get upd j x =
     (if j = JNull then Some (upd None x)
      else map_option (\<lambda>b. upd (Some b) x) (dec j (case get x of None \<Rightarrow> zero | Some b \<Rightarrow> b)))"

definition jslice :: "('a \<Rightarrow> json) \<Rightarrow> 'a list \<Rightarrow> json" where
  "jslice enc xs = (if xs = [] then JNull else JArr (map enc xs))"

lemma toSlice_jslice:
  "(\<And>y. y \<in> set ys \<Longrightarrow> dec (enc y) = Some y) \<Longrightarrow> toSlice dec upd (jslice enc ys) x = Some (upd ys x)"
  using those_map_Some [of ys "dec \<circ> enc" "\<lambda>y. y"] by (simp add: toSlice_def jslice_def comp_def)

lemma toSlice_jstrs [simp]: "toSlice asStr upd (jstrs ss) x = Some (upd ss x)"
  using those_map_Some [of ss "asStr \<circ> JStr" "\<lambda>y. y"] by (simp add: toSlice_def jstrs_def comp_def)

lemma to_simps [simp]:
  "toStr us (JStr s) x = Some (us s x)" "toInt ui (JNum i) x = (if int64 i then Some (ui i x) else None)"
  "toBool ub (JBool b) x = Some (ub b x)"
  by (simp_all add: toStr_def toInt_def toBool_def)

subsection \<open>Requests\<close>

definition encodeCertRequest :: "CertRequest \<Rightarrow> json" where
  "encodeCertRequest c = JObj [(''dir'', JStr (cq_Dir c)), (''store_scope'', JStr (cq_StoreScope c))]"

definition decodeCertRequest :: "golib \<Rightarrow> json \<Rightarrow> CertRequest \<Rightarrow> CertRequest option" where
  "decodeCertRequest E = decodeStruct E
     [(''dir'', toStr (\<lambda>s c. c\<lparr>cq_Dir := s\<rparr>)), (''store_scope'', toStr (\<lambda>s c. c\<lparr>cq_StoreScope := s\<rparr>))]"

definition encodeHostsEntry :: "Entry \<Rightarrow> json" where
  "encodeHostsEntry e = JObj [(''ip'', JStr (en_IP e)), (''host'', JStr (en_Host e))]"

definition decodeHostsEntry :: "golib \<Rightarrow> json \<Rightarrow> Entry option" where
  "decodeHostsEntry E j = decodeStruct E
     [(''ip'', toStr (\<lambda>s e. e\<lparr>en_IP := s\<rparr>)), (''host'', toStr (\<lambda>s e. e\<lparr>en_Host := s\<rparr>))] j \<lparr>en_IP = [], en_Host = []\<rparr>"

definition encodeHostsConfig :: "HostsApply \<Rightarrow> json" where
  "encodeHostsConfig c = JObj [(''Path'', JStr (ha_Path c)), (''RollbackPath'', JStr (ha_RollbackPath c)),
     (''MapIP'', JStr (ha_MapIP c)), (''Entries'', jslice encodeHostsEntry (ha_Entries c))]"

definition decodeHostsConfig :: "golib \<Rightarrow> json \<Rightarrow> HostsApply \<Rightarrow> HostsApply option" where
  "decodeHostsConfig E = decodeStruct E
     [(''Path'', toStr (\<lambda>s c. c\<lparr>ha_Path := s\<rparr>)), (''RollbackPath'', toStr (\<lambda>s c. c\<lparr>ha_RollbackPath := s\<rparr>)),
      (''MapIP'', toStr (\<lambda>s c. c\<lparr>ha_MapIP := s\<rparr>)), (''Entries'', toSlice (decodeHostsEntry E) (\<lambda>es c. c\<lparr>ha_Entries := es\<rparr>))]"

definition encodeDNSConfig :: "dnsSysConfig \<Rightarrow> json" where
  "encodeDNSConfig c = JObj [(''rollback_path'', JStr (dz_RollbackPath c)), (''interfaces'', jslice JStr (dz_Interfaces c)),
     (''server_ips'', jslice JStr (dz_ServerIPs c))]"

definition decodeDNSConfig :: "golib \<Rightarrow> json \<Rightarrow> dnsSysConfig \<Rightarrow> dnsSysConfig option" where
  "decodeDNSConfig E = decodeStruct E
     [(''rollback_path'', toStr (\<lambda>s c. c\<lparr>dz_RollbackPath := s\<rparr>)),
      (''interfaces'', toSlice asStr (\<lambda>ss c. c\<lparr>dz_Interfaces := ss\<rparr>)),
      (''server_ips'', toSlice asStr (\<lambda>ss c. c\<lparr>dz_ServerIPs := ss\<rparr>))]"

definition encodeRequest :: "HelperRequest \<Rightarrow> json" where
  "encodeRequest q = JObj
     ([(''version'', JNum (hq_Version q)), (''token'', JStr (hq_Token q)), (''parent_pid'', JNum (hq_ParentPID q)),
       (''command'', JStr (hq_Command q)), (''cert'', encodeCertRequest (hq_Cert q)), (''hosts'', encodeHostsConfig (hq_Hosts q)),
       (''system_dns'', encodeDNSConfig (hq_SystemDNS q))] @
      optField ''rollback_path'' (hq_RollbackPath q \<noteq> []) (JStr (hq_RollbackPath q)) @
      optField ''auto_install'' (hq_AutoInstall q) (JBool (hq_AutoInstall q)))"

definition decodeRequest :: "golib \<Rightarrow> json \<Rightarrow> HelperRequest option" where
  "decodeRequest E j = decodeStruct E
     [(''version'', toInt (\<lambda>i q. q\<lparr>hq_Version := i\<rparr>)), (''token'', toStr (\<lambda>s q. q\<lparr>hq_Token := s\<rparr>)),
      (''parent_pid'', toInt (\<lambda>i q. q\<lparr>hq_ParentPID := i\<rparr>)), (''command'', toStr (\<lambda>s q. q\<lparr>hq_Command := s\<rparr>)),
      (''cert'', toStruct (decodeCertRequest E) hq_Cert (\<lambda>c q. q\<lparr>hq_Cert := c\<rparr>)),
      (''hosts'', toStruct (decodeHostsConfig E) hq_Hosts (\<lambda>c q. q\<lparr>hq_Hosts := c\<rparr>)),
      (''system_dns'', toStruct (decodeDNSConfig E) hq_SystemDNS (\<lambda>c q. q\<lparr>hq_SystemDNS := c\<rparr>)),
      (''rollback_path'', toStr (\<lambda>s q. q\<lparr>hq_RollbackPath := s\<rparr>)), (''auto_install'', toBool (\<lambda>b q. q\<lparr>hq_AutoInstall := b\<rparr>))]
     j emptyRequest"

subsection \<open>Responses\<close>

definition encodeTrust :: "TrustResult \<Rightarrow> json" where
  "encodeTrust t = JObj [(''Platform'', JStr (tu_Platform t)), (''CertPath'', JStr (tu_CertPath t)),
     (''Thumbprint'', JStr (tu_Thumbprint t)), (''StoreScope'', JStr (tu_StoreScope t)),
     (''AlreadyTrusted'', JBool (tu_AlreadyTrusted t)), (''Installed'', JBool (tu_Installed t)),
     (''Changed'', JBool (tu_Changed t)), (''ViaHelper'', JBool (tu_ViaHelper t))]"

definition decodeTrust :: "golib \<Rightarrow> json \<Rightarrow> TrustResult \<Rightarrow> TrustResult option" where
  "decodeTrust E = decodeStruct E
     [(''Platform'', toStr (\<lambda>s t. t\<lparr>tu_Platform := s\<rparr>)), (''CertPath'', toStr (\<lambda>s t. t\<lparr>tu_CertPath := s\<rparr>)),
      (''Thumbprint'', toStr (\<lambda>s t. t\<lparr>tu_Thumbprint := s\<rparr>)), (''StoreScope'', toStr (\<lambda>s t. t\<lparr>tu_StoreScope := s\<rparr>)),
      (''AlreadyTrusted'', toBool (\<lambda>b t. t\<lparr>tu_AlreadyTrusted := b\<rparr>)), (''Installed'', toBool (\<lambda>b t. t\<lparr>tu_Installed := b\<rparr>)),
      (''Changed'', toBool (\<lambda>b t. t\<lparr>tu_Changed := b\<rparr>)), (''ViaHelper'', toBool (\<lambda>b t. t\<lparr>tu_ViaHelper := b\<rparr>))]"

definition encodePrepare :: "PrepareHostsResult \<Rightarrow> json" where
  "encodePrepare p = JObj [(''cert'', encodeTrust (ph_Cert p)), (''cert_trusted'', JBool (ph_CertTrusted p)),
     (''entries'', JNum (int (ph_Entries p)))]"

definition decodePrepare :: "golib \<Rightarrow> json \<Rightarrow> PrepareHostsResult \<Rightarrow> PrepareHostsResult option" where
  "decodePrepare E = decodeStruct E
     [(''cert'', toStruct (decodeTrust E) ph_Cert (\<lambda>t p. p\<lparr>ph_Cert := t\<rparr>)),
      (''cert_trusted'', toBool (\<lambda>b p. p\<lparr>ph_CertTrusted := b\<rparr>)), (''entries'', toInt (\<lambda>i p. p\<lparr>ph_Entries := nat i\<rparr>))]"

definition encodeResult :: "Result \<Rightarrow> json" where
  "encodeResult r = JObj ([(''interfaces'', JNum (int (dr_Interfaces r)))] @
     optField ''server_ips'' (dr_ServerIPs r \<noteq> []) (jstrs (dr_ServerIPs r)) @
     optField ''via_helper'' (dr_ViaHelper r) (JBool (dr_ViaHelper r)))"

definition emptyResult :: Result where
  "emptyResult = \<lparr>dr_Interfaces = 0, dr_ServerIPs = [], dr_ViaHelper = False\<rparr>"

definition decodeResult :: "golib \<Rightarrow> json \<Rightarrow> Result \<Rightarrow> Result option" where
  "decodeResult E = decodeStruct E
     [(''interfaces'', toInt (\<lambda>i r. r\<lparr>dr_Interfaces := nat i\<rparr>)), (''server_ips'', toSlice asStr (\<lambda>ss r. r\<lparr>dr_ServerIPs := ss\<rparr>)),
      (''via_helper'', toBool (\<lambda>b r. r\<lparr>dr_ViaHelper := b\<rparr>))]"

definition optPointer :: "string \<Rightarrow> ('a \<Rightarrow> json) \<Rightarrow> 'a option \<Rightarrow> (string \<times> json) list" where
  "optPointer k enc x = (case x of None \<Rightarrow> [] | Some y \<Rightarrow> [(k, enc y)])"

definition encodeResponse :: "HelperResponse \<Rightarrow> json" where
  "encodeResponse p = JObj ([(''ok'', JBool (hr_OK p))] @ optField ''error'' (hr_Error p \<noteq> []) (JStr (hr_Error p)) @
     optPointer ''trust'' encodeTrust (hr_Trust p) @ optPointer ''prepare'' encodePrepare (hr_Prepare p) @
     optPointer ''system_dns'' encodeResult (hr_SystemDNS p))"

definition decodeResponse :: "golib \<Rightarrow> json \<Rightarrow> HelperResponse option" where
  "decodeResponse E j = decodeStruct E
     [(''ok'', toBool (\<lambda>b p. p\<lparr>hr_OK := b\<rparr>)), (''error'', toStr (\<lambda>s p. p\<lparr>hr_Error := s\<rparr>)),
      (''trust'', toPointer (decodeTrust E) emptyTrust hr_Trust (\<lambda>t p. p\<lparr>hr_Trust := t\<rparr>)),
      (''prepare'', toPointer (decodePrepare E) \<lparr>ph_Cert = emptyTrust, ph_CertTrusted = False, ph_Entries = 0\<rparr>
        hr_Prepare (\<lambda>r p. p\<lparr>hr_Prepare := r\<rparr>)),
      (''system_dns'', toPointer (decodeResult E) emptyResult hr_SystemDNS (\<lambda>r p. p\<lparr>hr_SystemDNS := r\<rparr>))]
     j (failedResponse [])"

subsection \<open>What was encoded is decoded\<close>

lemmas wire_defs = decodeStruct_def fieldOf_def toStruct_def toPointer_def optField_def optPointer_def

lemma decode_parts:
  "decodeCertRequest E (encodeCertRequest c) c0 = Some c"
  "decodeHostsEntry E (encodeHostsEntry e) = Some e"
  by (cases c; cases c0; simp add: encodeCertRequest_def decodeCertRequest_def wire_defs)
    (cases e; simp add: encodeHostsEntry_def decodeHostsEntry_def wire_defs)

lemma decodeHostsConfig_encode: "decodeHostsConfig E (encodeHostsConfig h) h0 = Some h"
  by (cases h; cases h0) (simp add: encodeHostsConfig_def decodeHostsConfig_def wire_defs toSlice_jslice decode_parts)

lemma decodeDNSConfig_encode: "decodeDNSConfig E (encodeDNSConfig d) d0 = Some d"
  by (cases d; cases d0) (simp add: encodeDNSConfig_def decodeDNSConfig_def wire_defs toSlice_jslice)

lemma decodeRequest_encode:
  assumes "int64 (hq_Version q)" and "int64 (hq_ParentPID q)"
  shows "decodeRequest E (encodeRequest q) = Some q"
  using assms
  by (cases q) (simp add: encodeRequest_def decodeRequest_def wire_defs decode_parts decodeHostsConfig_encode
      decodeDNSConfig_encode emptyRequest_def)

lemma decodeTrust_encode: "decodeTrust E (encodeTrust t) t0 = Some t"
  by (cases t; cases t0) (simp add: encodeTrust_def decodeTrust_def wire_defs)

lemma decodePrepare_encode: "int64 (int (ph_Entries p)) \<Longrightarrow> decodePrepare E (encodePrepare p) p0 = Some p"
  by (cases p; cases p0) (simp add: encodePrepare_def decodePrepare_def wire_defs decodeTrust_encode)

lemma decodeResult_encode: "int64 (int (dr_Interfaces r)) \<Longrightarrow> decodeResult E (encodeResult r) emptyResult = Some r"
  by (cases r) (auto simp: encodeResult_def decodeResult_def wire_defs emptyResult_def)

definition smallCounts :: "HelperResponse \<Rightarrow> bool" where
  "smallCounts p \<longleftrightarrow>
     (case hr_Prepare p of None \<Rightarrow> True | Some r \<Rightarrow> int64 (int (ph_Entries r))) \<and>
     (case hr_SystemDNS p of None \<Rightarrow> True | Some r \<Rightarrow> int64 (int (dr_Interfaces r)))"

lemma decodeResponse_encode:
  assumes "smallCounts p"
  shows "decodeResponse E (encodeResponse p) = Some p"
proof -
  have objects: "encodeTrust t \<noteq> JNull" "encodePrepare r \<noteq> JNull" "encodeResult d \<noteq> JNull" for t r d
    by (simp_all add: encodeTrust_def encodePrepare_def encodeResult_def)
  show ?thesis
    using assms
    by (cases p) (auto simp: encodeResponse_def decodeResponse_def smallCounts_def wire_defs objects failedResponse_def
        decodeTrust_encode decodePrepare_encode decodeResult_encode split: option.splits)
qed

subsection \<open>Messages\<close>

definition requestBody :: "HelperRequest \<Rightarrow> string" where
  "requestBody q = Marshal (encodeRequest q)"

definition parseRequest :: "golib \<Rightarrow> string \<Rightarrow> HelperRequest option" where
  "parseRequest E body = Option.bind (Unmarshal body) (decodeRequest E)"

definition responseBody :: "HelperResponse \<Rightarrow> string" where
  "responseBody p = Marshal (encodeResponse p)"

definition parseResponse :: "golib \<Rightarrow> string \<Rightarrow> HelperResponse option" where
  "parseResponse E body = Option.bind (Unmarshal body) (decodeResponse E)"

definition sendableRequest :: "HelperRequest \<Rightarrow> bool" where
  "sendableRequest q \<longleftrightarrow> int64 (hq_Version q) \<and> int64 (hq_ParentPID q) \<and> plainJson (encodeRequest q)"

definition sendableResponse :: "HelperResponse \<Rightarrow> bool" where
  "sendableResponse p \<longleftrightarrow> smallCounts p \<and> plainJson (encodeResponse p)"

lemma depth_jslice: "(\<And>x. x \<in> set xs \<Longrightarrow> depth (enc x) \<le> d) \<Longrightarrow> depth (jslice enc xs) \<le> Suc d"
  by (auto simp: jslice_def fold_max_le)

lemma depth_request: "depth (encodeRequest q) \<le> 4"
proof -
  have "depth (encodeHostsEntry e) \<le> 1" for e by (simp add: encodeHostsEntry_def)
  then have "depth (jslice encodeHostsEntry es) \<le> 2" for es by (intro order_trans [OF depth_jslice [of es _ 1]]) auto
  moreover have "depth (jslice JStr ss) \<le> 2" for ss by (intro order_trans [OF depth_jslice [of ss _ 1]]) auto
  ultimately have parts: "depth (encodeHostsConfig h) \<le> 3" "depth (encodeDNSConfig d) \<le> 3" "depth (encodeCertRequest c) \<le> 3" for h d c
    by (auto simp: encodeHostsConfig_def encodeDNSConfig_def encodeCertRequest_def fold_max_le)
  then show ?thesis by (simp add: encodeRequest_def optField_def fold_max_le)
qed

lemma depth_response: "depth (encodeResponse p) \<le> 3"
proof -
  have "depth (encodeTrust t) \<le> 2" for t by (simp add: encodeTrust_def)
  moreover have "depth (encodePrepare r) \<le> 2" for r by (simp add: encodePrepare_def encodeTrust_def)
  moreover have "depth (encodeResult d) \<le> 2" for d
    using fold_max_le [of "map (depth \<circ> JStr) (dr_ServerIPs d)" 0 0] by (auto simp: encodeResult_def optField_def jstrs_def)
  ultimately show ?thesis
    by (auto simp: encodeResponse_def optField_def optPointer_def fold_max_le split: option.splits)
qed

lemma parseRequest_body: "sendableRequest q \<Longrightarrow> parseRequest E (requestBody q) = Some q"
  using depth_request [of q] Unmarshal_Marshal [of "encodeRequest q"] decodeRequest_encode [of q E]
  by (simp add: parseRequest_def requestBody_def sendableRequest_def maxNestingDepth_def)

lemma parseResponse_body: "sendableResponse p \<Longrightarrow> parseResponse E (responseBody p) = Some p"
  using depth_response [of p] Unmarshal_Marshal [of "encodeResponse p"] decodeResponse_encode [of p E]
  by (simp add: parseResponse_def responseBody_def sendableResponse_def maxNestingDepth_def)

subsection \<open>The one-shot helper\<close>

text \<open>
  Files hold texts; \<open>hl_dirOK\<close> says whether the directory of a path can be created and
  \<open>hl_writeOK\<close> whether the file can be written.  \<^verbatim>\<open>MarshalIndent\<close> differs from \<open>Marshal\<close>
  in white space, which a reader skips; the files hold the text without it.
\<close>

record helperFiles =
  hl_text :: "string \<Rightarrow> string option"
  hl_dirOK :: "string \<Rightarrow> bool"
  hl_writeOK :: "string \<Rightarrow> bool"

type_synonym ('p, 'os, 'z) helperWorld = "helperFiles \<times> ('p, 'os, 'z) machine_scheme"

definition readHelperRequest :: "golib \<Rightarrow> string \<Rightarrow> helperFiles \<Rightarrow> (gerr, HelperRequest) result" where
  "readHelperRequest E path fs =
     (case hl_text fs path of
        None \<Rightarrow> Inl (newErr (''read helper request: open '' @ path))
      | Some t \<Rightarrow> (case parseRequest E t of None \<Rightarrow> Inl (newErr ''parse helper request'') | Some q \<Rightarrow> Inr q))"

definition writeHelper :: "string \<Rightarrow> string \<Rightarrow> string \<Rightarrow> helperFiles \<Rightarrow> (gerr, unit) result \<times> helperFiles" where
  "writeHelper what path body fs =
     (if \<not> hl_dirOK fs path then (Inl (newErr (''create helper '' @ what @ '' directory'')), fs)
      else if \<not> hl_writeOK fs path then (Inl (newErr (''write helper '' @ what)), fs)
      else (Inr (), fs\<lparr>hl_text := (hl_text fs)(path \<mapsto> body)\<rparr>))"

definition writeHelperRequest :: "string \<Rightarrow> HelperRequest \<Rightarrow> helperFiles \<Rightarrow> (gerr, unit) result \<times> helperFiles" where
  "writeHelperRequest path q = writeHelper ''request'' path (requestBody q)"

definition readHelperResponse :: "golib \<Rightarrow> string \<Rightarrow> helperFiles \<Rightarrow> (gerr option, HelperResponse) result" where
  "readHelperResponse E path fs =
     (case hl_text fs path of
        None \<Rightarrow> Inl None
      | Some t \<Rightarrow> (case parseResponse E t of None \<Rightarrow> Inl (Some (newErr ''parse helper response'')) | Some p \<Rightarrow> Inr p))"

definition writeHelperResponse :: "string \<Rightarrow> HelperResponse \<Rightarrow> helperFiles \<Rightarrow> (gerr, unit) result \<times> helperFiles" where
  "writeHelperResponse path p = writeHelper ''response'' path (responseBody p)"

text \<open>The flags of the command line, once parsed.\<close>

record helperFlags =
  fl_request :: string
  fl_response :: string
  fl_token :: string
  fl_parent :: int

definition RunHelper :: "('k, 'p, 'os) privEnv \<Rightarrow> helperFlags \<Rightarrow> (('p, 'os, 'z) helperWorld, gerr, unit) proc" where
  "RunHelper V fl w =
     (let refuse = (\<lambda>e. (Inl e, apfst (\<lambda>fs. snd (writeHelperResponse (fl_response fl) (failedResponse (ge_text e)) fs)) w)) in
      if TrimSpace (fl_request fl) = [] \<or> TrimSpace (fl_response fl) = []
      then (Inl (newErr ''helper request and response paths are required''), w)
      else (case readHelperRequest (pv_lib V) (fl_request fl) (fst w) of
              Inl e \<Rightarrow> refuse e
            | Inr q \<Rightarrow>
                (case validateHelperRequest V q (fl_token fl) (fl_parent fl) of
                   Inl msg \<Rightarrow> refuse (newErr msg)
                 | Inr _ \<Rightarrow>
                     (case executeHelperRequest V q (snd w) of
                        (Inl e, m) \<Rightarrow>
                          (Inl e, (snd (writeHelperResponse (fl_response fl)
                             (failedResponse (pv_helperStatus V @ '': '' @ ge_text e)) (fst w)), m))
                      | (Inr p, m) \<Rightarrow>
                          (case writeHelperResponse (fl_response fl) p (fst w) of (r, fs) \<Rightarrow> (r, (fs, m)))))))"

end
