(* ===== verification/Pipe.thy ===== *)
theory Pipe
  imports GoErrors "HOL-Library.Word"
begin

unbundle bit_operations_syntax

section \<open>Frames on the named pipe\<close>

text \<open>
  The transport of \<^verbatim>\<open>internal/privilege/privilege_windows.go\<close>: a message is four bytes
  with its length, then its bytes.  A pipe gives a read what has arrived, at most as much as asked for, and
  takes from a write as much as it has room for; \<open>pp_in\<close> and \<open>pp_room\<close> list what each
  call finds, and a call past their end finds the pipe closed.
\<close>

datatype pipe_error = BrokenPipe | UnexpectedEOF | ShortWrite | EmptyFrame | FrameTooLarge nat nat

record pipe =
  pp_in :: "string list"
  pp_room :: "nat list"
  pp_out :: string

type_synonym 'a pipeProc = "(pipe, pipe_error, 'a) proc"

definition ReadFile :: "nat \<Rightarrow> string pipeProc" where
  "ReadFile n p =
     (case pp_in p of
        [] \<Rightarrow> (Inl BrokenPipe, p)
      | c # cs \<Rightarrow> (Inr (take n c), p\<lparr>pp_in := (if length c \<le> n then cs else drop n c # cs)\<rparr>))"

definition WriteFile :: "string \<Rightarrow> nat pipeProc" where
  "WriteFile buf p =
     (case pp_room p of
        [] \<Rightarrow> (Inl BrokenPipe, p)
      | r # rs \<Rightarrow> (Inr (min r (length buf)), p\<lparr>pp_room := rs, pp_out := pp_out p @ take r buf\<rparr>))"

text \<open>The loops end because every round reads or writes at least a byte.\<close>

function readPipeFull :: "nat \<Rightarrow> string pipeProc" where
  "readPipeFull n p =
     (if n = 0 then (Inr [], p)
      else (case ReadFile n p of
              (Inl e, p') \<Rightarrow> (Inl e, p')
            | (Inr got, p') \<Rightarrow>
                if got = [] then (Inl UnexpectedEOF, p')
                else (case readPipeFull (n - length got) p' of
                        (Inl e, p'') \<Rightarrow> (Inl e, p'')
                      | (Inr rest, p'') \<Rightarrow> (Inr (got @ rest), p''))))"
  by pat_completeness auto
termination by (relation "measure fst") auto

function writePipeFull :: "string \<Rightarrow> unit pipeProc" where
  "writePipeFull buf p =
     (if buf = [] then (Inr (), p)
      else (case WriteFile buf p of
              (Inl e, p') \<Rightarrow> (Inl e, p')
            | (Inr sent, p') \<Rightarrow> if sent = 0 then (Inl ShortWrite, p') else writePipeFull (drop sent buf) p'))"
  by pat_completeness auto
termination by (relation "measure (length \<circ> fst)") auto

declare readPipeFull.simps [simp del] writePipeFull.simps [simp del]

lemma pipe_done [simp]: "readPipeFull 0 p = (Inr [], p)" "writePipeFull [] p = (Inr (), p)"
  by (simp_all add: readPipeFull.simps [of 0] writePipeFull.simps [of "[]"])

definition appHostMaxFrame :: nat where
  "appHostMaxFrame = 2 ^ 20"

definition PutUint32 :: "32 word \<Rightarrow> string" where
  "PutUint32 v = map (\<lambda>k. char_of (unat (drop_bit k v))) [24, 16, 8, 0]"

definition Uint32 :: "string \<Rightarrow> 32 word" where
  "Uint32 s = foldl (\<lambda>v c. push_bit 8 v OR of_nat (of_char c)) 0 s"

definition readPipeFrame :: "32 word \<Rightarrow> string pipeProc" where
  "readPipeFrame limit =
     pbind (readPipeFull 4) (\<lambda>header.
     let size = Uint32 header in
     if size = 0 then praise EmptyFrame
     else if limit < size then praise (FrameTooLarge (unat size) (unat limit))
     else readPipeFull (unat size))"

definition writePipeFrame :: "string \<Rightarrow> unit pipeProc" where
  "writePipeFrame body =
     (if body = [] then praise EmptyFrame
      else if appHostMaxFrame < length body then praise (FrameTooLarge (length body) appHostMaxFrame)
      else pthen (writePipeFull (PutUint32 (of_nat (length body)))) (writePipeFull body))"

subsection \<open>The header\<close>

lemma PutUint32_length [simp]: "length (PutUint32 v) = 4"
  by (simp add: PutUint32_def)

lemma low_byte: "(of_nat (of_char (char_of (unat (w :: 32 word)) :: char)) :: 32 word) = take_bit 8 w"
  by (simp add: take_bit_eq_mod word_arith_nat_mod)

lemma Uint32_PutUint32: "Uint32 (PutUint32 v) = v"
  unfolding Uint32_def PutUint32_def list.map foldl.simps low_byte
proof (rule bit_word_eqI)
  fix n :: nat
  consider "n < 8" | "8 \<le> n" "n < 16" | "16 \<le> n" "n < 24" | "24 \<le> n" by linarith
  then show "bit (push_bit 8 (push_bit 8 (push_bit 8 (push_bit 8 0 OR take_bit 8 (drop_bit 24 v)) OR take_bit 8 (drop_bit 16 v)) OR
      take_bit 8 (drop_bit 8 v)) OR take_bit 8 (drop_bit 0 v)) n = bit v n" if "n < LENGTH(32)"
    using that by cases (auto simp: bit_simps)
qed

subsection \<open>Reading and writing in pieces\<close>

lemma readPipeFull_all:
  assumes "[] \<notin> set (pp_in p)" and "n \<le> length (concat (pp_in p))"
  shows "\<exists>cs. readPipeFull n p = (Inr (take n (concat (pp_in p))), p\<lparr>pp_in := cs\<rparr>) \<and>
    concat cs = drop n (concat (pp_in p)) \<and> [] \<notin> set cs"
  using assms
proof (induction n arbitrary: p rule: less_induct)
  case (less n)
  show ?case
  proof (cases "n = 0")
    case True
    then show ?thesis using less.prems by (auto intro: exI [of _ "pp_in p"])
  next
    case False
    with less.prems obtain c cs where chunks: "pp_in p = c # cs" and "c \<noteq> []" by (cases "pp_in p") auto
    let ?p = "p\<lparr>pp_in := (if length c \<le> n then cs else drop n c # cs)\<rparr>" and ?m = "n - length (take n c)"
    have "?m < n" using False \<open>c \<noteq> []\<close> by (cases c) auto
    moreover have "[] \<notin> set (pp_in ?p)" "?m \<le> length (concat (pp_in ?p))"
      and rest: "concat (pp_in ?p) = drop (length (take n c)) (concat (pp_in p))"
      using less.prems chunks by auto
    ultimately obtain cs' where IH: "readPipeFull ?m ?p = (Inr (take ?m (concat (pp_in ?p))), ?p\<lparr>pp_in := cs'\<rparr>)"
      "concat cs' = drop ?m (concat (pp_in ?p))" "[] \<notin> set cs'"
      using less.IH by blast
    have "take n c @ take ?m (concat (pp_in ?p)) = take n (concat (pp_in p))"
      unfolding rest using chunks by (cases "length c \<le> n") auto
    moreover have "drop ?m (concat (pp_in ?p)) = drop n (concat (pp_in p))"
      unfolding rest by simp
    ultimately show ?thesis using IH False chunks \<open>c \<noteq> []\<close>
      by (subst readPipeFull.simps) (auto simp: ReadFile_def)
  qed
qed

lemma readPipeFull_Inr:
  "readPipeFull n p = (Inr s, p') \<Longrightarrow> length s = n \<and> concat (pp_in p) = s @ concat (pp_in p')"
proof (induction n p arbitrary: s p' rule: readPipeFull.induct)
  case (1 n p)
  show ?case
  proof (cases "n = 0")
    case True
    then show ?thesis using "1.prems" by simp
  next
    case False
    obtain got p1 rest where read: "ReadFile n p = (Inr got, p1)" "got \<noteq> []"
      and more: "readPipeFull (n - length got) p1 = (Inr rest, p')" and s: "s = got @ rest"
      using "1.prems" False by (subst (asm) readPipeFull.simps) (auto split: prod.splits sum.splits if_splits)
    have "length got \<le> n" "concat (pp_in p) = got @ concat (pp_in p1)"
      using read(1) by (auto simp: ReadFile_def split: list.splits if_splits)
    with "1.IH" [OF False read(1) [symmetric] refl read(2)] more s show ?thesis by auto
  qed
qed

lemma readPipeFull_Inl: "readPipeFull n p = (Inl e, p') \<Longrightarrow> e = BrokenPipe \<or> e = UnexpectedEOF"
proof (induction n p rule: readPipeFull.induct)
  case (1 n p)
  then show ?case
    by (subst (asm) readPipeFull.simps)
      (auto simp: ReadFile_def split: prod.splits sum.splits if_splits list.splits)
qed

lemma writePipeFull_all:
  assumes "list_all (\<lambda>r. 0 < r) (pp_room p)" and "length buf \<le> length (pp_room p)"
  shows "\<exists>rs. writePipeFull buf p = (Inr (), p\<lparr>pp_room := rs, pp_out := pp_out p @ buf\<rparr>) \<and>
    list_all (\<lambda>r. 0 < r) rs \<and> length (pp_room p) \<le> length rs + length buf"
  using assms
proof (induction "length buf" arbitrary: buf p rule: less_induct)
  case less
  show ?case
  proof (cases buf)
    case Nil
    then show ?thesis using less.prems by (auto intro: exI [of _ "pp_room p"])
  next
    case (Cons b bs)
    with less.prems obtain r rs where room: "pp_room p = r # rs" and "0 < r" by (cases "pp_room p") auto
    let ?p = "p\<lparr>pp_room := rs, pp_out := pp_out p @ take r buf\<rparr>" and ?buf = "drop (min r (length buf)) buf"
    have "length ?buf < length buf" using Cons \<open>0 < r\<close> by simp
    moreover have "list_all (\<lambda>r. 0 < r) (pp_room ?p)" "length ?buf \<le> length (pp_room ?p)"
      using less.prems room Cons \<open>0 < r\<close> by auto
    ultimately obtain rs' where "writePipeFull ?buf ?p = (Inr (), ?p\<lparr>pp_room := rs', pp_out := pp_out ?p @ ?buf\<rparr>)"
      "list_all (\<lambda>r. 0 < r) rs'" "length (pp_room ?p) \<le> length rs' + length ?buf"
      using less.hyps by blast
    moreover have "take r buf @ ?buf = buf" by (cases "r \<le> length buf") auto
    ultimately show ?thesis using room Cons \<open>0 < r\<close> \<open>length ?buf < length buf\<close>
      by (subst writePipeFull.simps) (auto simp: WriteFile_def)
  qed
qed

subsection \<open>Frames\<close>

definition frame :: "string \<Rightarrow> string" where
  "frame body = PutUint32 (of_nat (length body)) @ body"

definition fits :: "string \<Rightarrow> bool" where
  "fits body \<longleftrightarrow> body \<noteq> [] \<and> length body \<le> appHostMaxFrame"

definition room :: "pipe \<Rightarrow> nat \<Rightarrow> bool" where
  "room p n \<longleftrightarrow> list_all (\<lambda>r. 0 < r) (pp_room p) \<and> n \<le> length (pp_room p)"

definition brings :: "pipe \<Rightarrow> string \<Rightarrow> bool" where
  "brings p s \<longleftrightarrow> [] \<notin> set (pp_in p) \<and> concat (pp_in p) = s"

lemma size_of_fitting: "length body \<le> appHostMaxFrame \<Longrightarrow> unat (of_nat (length body) :: 32 word) = length body"
  by (simp add: appHostMaxFrame_def unat_of_nat take_bit_nat_eq_self)

lemma writePipeFrame_out:
  assumes "fits body" and "room p (4 + length body)"
  shows "\<exists>rs. writePipeFrame body p = (Inr (), p\<lparr>pp_room := rs, pp_out := pp_out p @ frame body\<rparr>)"
proof -
  let ?h = "PutUint32 (of_nat (length body))"
  obtain rs where head: "writePipeFull ?h p = (Inr (), p\<lparr>pp_room := rs, pp_out := pp_out p @ ?h\<rparr>)"
    and rs: "list_all (\<lambda>r. 0 < r) rs" "length (pp_room p) \<le> length rs + 4"
    using writePipeFull_all [of p ?h] assms(2) by (auto simp: room_def)
  obtain rs' where "writePipeFull body (p\<lparr>pp_room := rs, pp_out := pp_out p @ ?h\<rparr>) =
      (Inr (), p\<lparr>pp_room := rs', pp_out := (pp_out p @ ?h) @ body\<rparr>)"
    using writePipeFull_all [of "p\<lparr>pp_room := rs, pp_out := pp_out p @ ?h\<rparr>" body] rs assms(2) by (auto simp: room_def)
  with head show ?thesis using assms(1)
    by (auto simp: writePipeFrame_def fits_def frame_def pthen_def pbind_def)
qed

lemma readPipeFrame_in:
  assumes "fits body" and "brings q (frame body @ rest)"
  shows "\<exists>cs. readPipeFrame (of_nat appHostMaxFrame) q = (Inr body, q\<lparr>pp_in := cs\<rparr>) \<and> brings (q\<lparr>pp_in := cs\<rparr>) rest"
proof -
  let ?size = "of_nat (length body) :: 32 word"
  obtain cs where head: "readPipeFull 4 q = (Inr (PutUint32 ?size), q\<lparr>pp_in := cs\<rparr>)" and cs: "concat cs = body @ rest" "[] \<notin> set cs"
    using readPipeFull_all [of q 4] assms(2) by (auto simp: brings_def frame_def)
  obtain cs' where "readPipeFull (length body) (q\<lparr>pp_in := cs\<rparr>) = (Inr body, q\<lparr>pp_in := cs'\<rparr>)" "concat cs' = rest" "[] \<notin> set cs'"
    using readPipeFull_all [of "q\<lparr>pp_in := cs\<rparr>" "length body"] cs by auto
  moreover from assms(1) have "?size \<noteq> 0" "\<not> of_nat appHostMaxFrame < ?size" "unat ?size = length body"
    using size_of_fitting [of body] by (auto simp: fits_def word_less_nat_alt unat_eq_0 appHostMaxFrame_def)
  ultimately show ?thesis using head
    by (auto simp: readPipeFrame_def pbind_def Uint32_PutUint32 brings_def Let_def)
qed

text \<open>
  A message of at most a megabyte that is written to a pipe, however few bytes the pipe takes at a
  time, is read back whole at the other end, however the bytes are cut into pieces on the way, and what
  follows it is left in the pipe.
\<close>

theorem frame_roundtrip:
  assumes "fits body" and "room p (4 + length body)"
    and "brings q (pp_out (snd (writePipeFrame body (p\<lparr>pp_out := []\<rparr>))) @ rest)"
  shows "fst (writePipeFrame body p) = Inr () \<and>
    fst (readPipeFrame (of_nat appHostMaxFrame) q) = Inr body \<and>
    brings (snd (readPipeFrame (of_nat appHostMaxFrame) q)) rest"
proof -
  have "room (p\<lparr>pp_out := []\<rparr>) (4 + length body)" using assms(2) by (simp add: room_def)
  from writePipeFrame_out [OF assms(1) this] have "brings q (frame body @ rest)" using assms(3) by auto
  from readPipeFrame_in [OF assms(1) this] writePipeFrame_out [OF assms(1,2)] show ?thesis by auto
qed

theorem frame_roundtrip_witness:
  "fst (writePipeFrame ''hello'' \<lparr>pp_in = [], pp_room = [3, 9, 1, 1, 1, 1, 1, 1, 1], pp_out = []\<rparr>) = Inr () \<and>
   fst (readPipeFrame (of_nat appHostMaxFrame)
     \<lparr>pp_in = [take 2 (frame ''hello''), drop 2 (frame ''hello'') @ ''next''], pp_room = [], pp_out = []\<rparr>) = Inr ''hello''"
  using frame_roundtrip [of "''hello''" "\<lparr>pp_in = [], pp_room = [3, 9, 1, 1, 1, 1, 1, 1, 1], pp_out = []\<rparr>"
      "\<lparr>pp_in = [take 2 (frame ''hello''), drop 2 (frame ''hello'') @ ''next''], pp_room = [], pp_out = []\<rparr>" "''next''"]
    writePipeFrame_out [of "''hello''" "\<lparr>pp_in = [], pp_room = [3, 9, 1, 1, 1, 1, 1, 1, 1], pp_out = []\<rparr>"]
  by (auto simp: fits_def appHostMaxFrame_def room_def brings_def frame_def PutUint32_def)


end
