(* ===== verification/AppHostService.thy ===== *)
theory AppHostService
  imports GoErrors
begin

section \<open>The Windows service of the privileged host\<close>

text \<open>
  The service operations of \<^verbatim>\<open>internal/privilege/privilege_windows.go\<close>.  The service
  manager is the package \<^verbatim>\<open>golang.org/x/sys/windows/svc/mgr\<close>: its calls, the clock and the
  context are fields of the record \<open>scm\<close>, procedures on a world of their own.  The loops that
  poll the manager are stated twice: \<open>pollLoop\<close> is the loop as written, which may never
  return, and \<open>poll\<close> does a number of rounds; they agree when the clock moves.
\<close>

subsection \<open>Data\<close>

record svcErr =
  sv_code :: nat
  sv_text :: string

abbreviation ERROR_SERVICE_DOES_NOT_EXIST :: nat where "ERROR_SERVICE_DOES_NOT_EXIST \<equiv> 1060"
abbreviation errorServiceMarkedForDelete :: nat where "errorServiceMarkedForDelete \<equiv> 1072"

datatype svcState =
  Stopped | StartPending | StopPending | Running | ContinuePending | PausePending | Paused | OtherState nat

record svcStatus =
  st_State :: svcState
  st_ProcessId :: nat

record svcConfig =
  vc_ServiceType :: nat
  vc_StartType :: nat
  vc_ErrorControl :: nat
  vc_BinaryPathName :: string
  vc_DisplayName :: string
  vc_Description :: string
  vc_DelayedAutoStart :: bool
  vc_others :: "string list"

type_synonym ('w, 'a) svcProc = "('w, svcErr, 'a) proc"

record 'w scm =
  sm_ctxErr :: "'w \<Rightarrow> svcErr option"
  sm_now :: "'w \<Rightarrow> nat"
  sm_sleep :: "nat \<Rightarrow> 'w \<Rightarrow> 'w"
  sm_executable :: "(svcErr, string) result"
  sm_Connect :: "('w, unit) svcProc"
  sm_OpenService :: "('w, unit) svcProc"
  sm_CreateService :: "string \<Rightarrow> svcConfig \<Rightarrow> ('w, unit) svcProc"
  sm_Query :: "('w, svcStatus) svcProc"
  sm_Config :: "('w, svcConfig) svcProc"
  sm_UpdateConfig :: "svcConfig \<Rightarrow> ('w, unit) svcProc"
  sm_Start :: "('w, unit) svcProc"
  sm_ControlStop :: "('w, unit) svcProc"
  sm_Delete :: "('w, unit) svcProc"

definition svcWrap :: "string \<Rightarrow> svcErr \<Rightarrow> svcErr" where
  "svcWrap context e = e\<lparr>sv_text := context @ '': '' @ sv_text e\<rparr>"

definition svcError :: "string \<Rightarrow> svcErr" where
  "svcError msg = \<lparr>sv_code = 0, sv_text = msg\<rparr>"

definition checkCtx :: "'w scm \<Rightarrow> ('w, unit) svcProc" where
  "checkCtx S w = (case sm_ctxErr S w of None \<Rightarrow> (Inr (), w) | Some e \<Rightarrow> (Inl e, w))"

text \<open>A call whose error is looked at, and one whose error is dropped.\<close>

definition handling :: "('w, 'e, 'a) proc \<Rightarrow> ('e \<Rightarrow> ('w, 'f, 'b) proc) \<Rightarrow> ('a \<Rightarrow> ('w, 'f, 'b) proc) \<Rightarrow> ('w, 'f, 'b) proc" where
  "handling m f g w = (case m w of (Inl e, w') \<Rightarrow> f e w' | (Inr x, w') \<Rightarrow> g x w')"

definition ignoring :: "('w, 'e, 'a) proc \<Rightarrow> ('w, 'f, unit) proc" where
  "ignoring m w = (case m w of (_, w') \<Rightarrow> (Inr (), w'))"

definition isServiceMarkedForDelete :: "golib \<Rightarrow> svcErr \<Rightarrow> bool" where
  "isServiceMarkedForDelete E e \<longleftrightarrow>
     sv_code e = errorServiceMarkedForDelete \<or> Contains (ToLower E (sv_text e)) ''marked for deletion''"

definition serviceStateName :: "svcState \<Rightarrow> string" where
  "serviceStateName s =
     (case s of
        Stopped \<Rightarrow> ''stopped'' | StartPending \<Rightarrow> ''start_pending'' | StopPending \<Rightarrow> ''stop_pending''
      | Running \<Rightarrow> ''running'' | ContinuePending \<Rightarrow> ''continue_pending'' | PausePending \<Rightarrow> ''pause_pending''
      | Paused \<Rightarrow> ''paused'' | OtherState n \<Rightarrow> ''unknown('' @ Itoa (int n) @ '')'')"

definition serviceStartTypeName :: "nat \<Rightarrow> string" where
  "serviceStartTypeName n =
     (if n = 2 then ''automatic'' else if n = 3 then ''manual'' else if n = 4 then ''disabled''
      else ''unknown('' @ Itoa (int n) @ '')'')"

subsection \<open>Polling\<close>

text \<open>A round finishes with a result, or the loop sleeps and goes on.\<close>

fun poll :: "nat \<Rightarrow> ('w \<Rightarrow> 'w) \<Rightarrow> ('w \<Rightarrow> 'r option \<times> 'w) \<Rightarrow> 'r \<Rightarrow> 'w \<Rightarrow> 'r \<times> 'w" where
  "poll 0 sleep round out w = (out, w)"
| "poll (Suc n) sleep round out w =
     (case round w of
        (Some r, w') \<Rightarrow> (r, w')
      | (None, w') \<Rightarrow> poll n sleep round out (sleep w'))"

partial_function (option) pollLoop :: "('w \<Rightarrow> 'w) \<Rightarrow> ('w \<Rightarrow> 'r option \<times> 'w) \<Rightarrow> 'w \<Rightarrow> ('r \<times> 'w) option" where
  "pollLoop sleep round w =
     (case round w of
        (Some r, w') \<Rightarrow> Some (r, w')
      | (None, w') \<Rightarrow> pollLoop sleep round (sleep w'))"

text \<open>Rounds that go on only before a deadline, on a clock that each sleep moves, end within that many rounds.\<close>

lemma pollLoop_returns:
  assumes goes_on: "\<And>w w'. round w = (None, w') \<Longrightarrow> now w \<le> now w' \<and> now w \<le> deadline"
    and sleeps: "\<And>w. now w + d \<le> now (sleep w)"
    and "deadline + d < now w + n * d" and "0 < n"
  shows "pollLoop sleep round w = Some (poll n sleep round out w)"
  using assms(3,4)
proof (induction n arbitrary: w)
  case (Suc n)
  show ?case
  proof (cases "round w")
    case (Pair r w')
    show ?thesis
    proof (cases r)
      case (Some x)
      with Pair show ?thesis by (simp add: pollLoop.simps)
    next
      case None
      with Pair goes_on have clock: "now w \<le> now w'" "now w \<le> deadline" by auto
      have "deadline + d < now (sleep w') + n * d" using sleeps [of w'] clock Suc.prems by simp
      moreover have "0 < n" using Suc.prems clock by (cases n) simp_all
      ultimately show ?thesis using Suc.IH Pair None by (simp add: pollLoop.simps)
    qed
  qed
qed simp

lemma poll_result:
  assumes "poll n sleep round out w = (r, w')" and "r \<noteq> out"
  shows "\<exists>w1. round w1 = (Some r, w')"
  using assms by (induction n arbitrary: w) (auto split: prod.splits option.splits)

subsection \<open>Waiting for the service\<close>

definition stateRound :: "'w scm \<Rightarrow> svcState \<Rightarrow> nat \<Rightarrow> 'w \<Rightarrow> (svcErr, unit) result option \<times> 'w" where
  "stateRound S want deadline w =
     (case sm_ctxErr S w of
        Some e \<Rightarrow> (Some (Inl e), w)
      | None \<Rightarrow>
          (case sm_Query S w of
             (Inl e, w1) \<Rightarrow> (Some (Inl (svcWrap ''query apphost service'' e)), w1)
           | (Inr q, w1) \<Rightarrow>
               if st_State q = want then (Some (Inr ()), w1)
               else if \<not> sm_now S w1 < deadline
               then (Some (Inl (svcError (''apphost service state is '' @ serviceStateName (st_State q) @ '', want '' @ serviceStateName want))), w1)
               else (None, w1)))"

definition rounds :: "nat \<Rightarrow> nat" where
  "rounds timeout = timeout div 200 + 2"

definition waitForServiceState :: "'w scm \<Rightarrow> svcState \<Rightarrow> nat \<Rightarrow> ('w, unit) svcProc" where
  "waitForServiceState S want timeout w =
     poll (rounds timeout) (sm_sleep S 200) (stateRound S want (sm_now S w + timeout)) (Inl (svcError ''no time'')) w"

definition deletedRound :: "golib \<Rightarrow> 'w scm \<Rightarrow> nat \<Rightarrow> 'w \<Rightarrow> (svcErr, unit) result option \<times> 'w" where
  "deletedRound E S deadline w =
     (case sm_ctxErr S w of
        Some e \<Rightarrow> (Some (Inl e), w)
      | None \<Rightarrow>
          (case sm_OpenService S w of
             (r, w1) \<Rightarrow>
               (let late = (if deadline < sm_now S w1
                            then (Some (Inl (svcError ''apphost service is still marked for deletion; close Services.msc or any process holding the service handle and retry'')), w1)
                            else (None, w1)) in
                case r of
                  Inr _ \<Rightarrow> late
                | Inl e \<Rightarrow>
                    if sv_code e = ERROR_SERVICE_DOES_NOT_EXIST then (Some (Inr ()), w1)
                    else if \<not> isServiceMarkedForDelete E e
                    then (Some (Inl (svcWrap ''open apphost service while waiting for deletion'' e)), w1)
                    else late)))"

definition waitForAppHostServiceDeleted :: "golib \<Rightarrow> 'w scm \<Rightarrow> nat \<Rightarrow> ('w, unit) svcProc" where
  "waitForAppHostServiceDeleted E S timeout w =
     poll (rounds timeout) (sm_sleep S 200) (deletedRound E S (sm_now S w + timeout)) (Inl (svcError ''no time'')) w"

subsection \<open>Operations\<close>

definition openAppHost :: "'w scm \<Rightarrow> ('w, unit) svcProc" where
  "openAppHost S =
     pthen (checkCtx S) (pthen (failing (svcWrap ''connect service manager'') (sm_Connect S))
                               (failing (svcWrap ''open apphost service'') (sm_OpenService S)))"

text \<open>The state the manager reports; none when it cannot be asked.\<close>

definition queryState :: "'w scm \<Rightarrow> ('w, svcState option) svcProc" where
  "queryState S =
     handling (sm_Query S) (\<lambda>_. preturn None) (\<lambda>q. preturn (Some (st_State q)))"

definition tolerating :: "golib \<Rightarrow> string \<Rightarrow> string \<Rightarrow> ('w, unit) svcProc \<Rightarrow> ('w, unit) svcProc" where
  "tolerating E what context m w =
     (case m w of
        (Inl e, w') \<Rightarrow> if Contains (ToLower E (sv_text e)) what then (Inr (), w') else (Inl (svcWrap context e), w')
      | (Inr u, w') \<Rightarrow> (Inr u, w'))"

definition StartAppHostService :: "golib \<Rightarrow> 'w scm \<Rightarrow> ('w, unit) svcProc" where
  "StartAppHostService E S =
     pthen (openAppHost S)
    (pbind (queryState S) (\<lambda>state.
     if state = Some Running then preturn ()
     else if state = Some StartPending then waitForServiceState S Running 10000
     else pthen (pwhen (state = Some StopPending) (waitForServiceState S Stopped 10000))
         (pthen (tolerating E ''already'' ''start apphost service'' (sm_Start S))
                (waitForServiceState S Running 10000))))"

definition StopAppHostService :: "golib \<Rightarrow> 'w scm \<Rightarrow> ('w, unit) svcProc" where
  "StopAppHostService E S =
     pthen (openAppHost S)
    (pbind (queryState S) (\<lambda>state.
     if state = Some Stopped then preturn ()
     else if state = Some StopPending then waitForServiceState S Stopped 10000
     else pthen (tolerating E ''not active'' ''stop apphost service'' (sm_ControlStop S))
                (waitForServiceState S Stopped 10000)))"

definition restartAppHostService :: "golib \<Rightarrow> 'w scm \<Rightarrow> ('w, unit) svcProc" where
  "restartAppHostService E S = pthen (ignoring (StopAppHostService E S)) (StartAppHostService E S)"

definition newAppHostServiceConfig :: "string \<Rightarrow> svcConfig" where
  "newAppHostServiceConfig binaryPathName =
     \<lparr>vc_ServiceType = 16, vc_StartType = 2, vc_ErrorControl = 1, vc_BinaryPathName = binaryPathName,
      vc_DisplayName = ''SiteBoost Core AppHost'',
      vc_Description = ''Privileged local apphost for SiteBoost Core hosts and certificate system changes.'',
      vc_DelayedAutoStart = True, vc_others = []\<rparr>"

text \<open>\<^verbatim>\<open>syscall.EscapeArg\<close>: backslashes count when a quote follows, or the closing quote.\<close>

fun escapeChars :: "bool \<Rightarrow> nat \<Rightarrow> string \<Rightarrow> string" where
  "escapeChars sp n [] = (if sp then replicate n (CHR 0x5C) @ [CHR 0x22] else [])"
| "escapeChars sp n (c # s) =
     (if c = CHR 0x5C then c # escapeChars sp (Suc n) s
      else if c = CHR 0x22 then replicate n (CHR 0x5C) @ [CHR 0x5C, c] @ escapeChars sp 0 s
      else c # escapeChars sp 0 s)"

definition EscapeArg :: "string \<Rightarrow> string" where
  "EscapeArg s =
     (let sp = (CHR '' '' \<in> set s \<or> CHR 0x09 \<in> set s);
          special = (CHR 0x22 \<in> set s \<or> CHR 0x5C \<in> set s) in
      if s = [] then [CHR 0x22, CHR 0x22]
      else if \<not> sp \<and> \<not> special then s
      else if \<not> special then [CHR 0x22] @ s @ [CHR 0x22]
      else (if sp then [CHR 0x22] else []) @ escapeChars sp 0 s)"

definition appHostServiceCommandLine :: "string \<Rightarrow> string" where
  "appHostServiceCommandLine exe = EscapeArg exe @ '' '' @ EscapeArg ''__apphost-service''"

definition desiredConfig :: "string \<Rightarrow> svcConfig \<Rightarrow> svcConfig" where
  "desiredConfig exe cfg =
     (let desired = newAppHostServiceConfig (appHostServiceCommandLine exe) in
      cfg\<lparr>vc_DisplayName := vc_DisplayName desired, vc_Description := vc_Description desired,
          vc_StartType := vc_StartType desired, vc_DelayedAutoStart := vc_DelayedAutoStart desired,
          vc_BinaryPathName := vc_BinaryPathName desired,
          vc_ServiceType := (if vc_ServiceType cfg = 0 then 16 else vc_ServiceType cfg),
          vc_ErrorControl := (if vc_ErrorControl cfg = 0 then 1 else vc_ErrorControl cfg)\<rparr>)"

definition configureAppHostService :: "'w scm \<Rightarrow> string \<Rightarrow> ('w, unit) svcProc" where
  "configureAppHostService S exe =
     pbind (failing (svcWrap ''query apphost service config'') (sm_Config S)) (\<lambda>cfg.
     failing (svcWrap ''update apphost service config'') (sm_UpdateConfig S (desiredConfig exe cfg)))"

definition createAppHostService :: "golib \<Rightarrow> 'w scm \<Rightarrow> string \<Rightarrow> ('w, unit) svcProc" where
  "createAppHostService E S exe =
     (let create = sm_CreateService S exe (newAppHostServiceConfig []) in
      pthen
       (handling create
         (\<lambda>e. if isServiceMarkedForDelete E e
              then pthen (failing (svcWrap ''wait for deleted apphost service before create'') (waitForAppHostServiceDeleted E S 20000))
                         (failing (svcWrap ''create apphost service'') create)
              else praise (svcWrap ''create apphost service'' e))
         preturn)
       (StartAppHostService E S))"

definition InstallAppHostService :: "golib \<Rightarrow> 'w scm \<Rightarrow> ('w, unit) svcProc" where
  "InstallAppHostService E S =
     (let recreate = (\<lambda>exe. pthen
            (failing (svcWrap ''wait for deleted apphost service before reinstall'') (waitForAppHostServiceDeleted E S 20000))
            (createAppHostService E S exe)) in
      pthen (checkCtx S)
     (pbind (failing (svcWrap ''locate executable for apphost service'') (plift (sm_executable S))) (\<lambda>exe.
      pthen (failing (svcWrap ''connect service manager'') (sm_Connect S))
     (handling (sm_OpenService S)
       (\<lambda>e. if isServiceMarkedForDelete E e then recreate exe
            else if sv_code e \<noteq> ERROR_SERVICE_DOES_NOT_EXIST then praise (svcWrap ''open apphost service'' e)
            else createAppHostService E S exe)
       (\<lambda>_. pbind (queryState S) (\<lambda>state.
            handling (configureAppHostService S exe)
             (\<lambda>e. if isServiceMarkedForDelete E e then recreate exe else praise e)
             (\<lambda>_. pthen (pwhen (state = Some Running)
                           (failing (svcWrap ''restart apphost service after config update'') (StopAppHostService E S)))
                        (StartAppHostService E S))))))))"

definition UninstallAppHostService :: "golib \<Rightarrow> 'w scm \<Rightarrow> ('w, unit) svcProc" where
  "UninstallAppHostService E S =
     pthen (checkCtx S)
    (pthen (ignoring (StopAppHostService E S))
    (pthen (failing (svcWrap ''connect service manager'') (sm_Connect S))
    (handling (sm_OpenService S)
      (\<lambda>e. if sv_code e = ERROR_SERVICE_DOES_NOT_EXIST then preturn ()
           else if isServiceMarkedForDelete E e then waitForAppHostServiceDeleted E S 20000
           else praise (svcWrap ''open apphost service'' e))
      (\<lambda>_. pthen (failing (svcWrap ''delete apphost service'') (sm_Delete S)) (waitForAppHostServiceDeleted E S 20000)))))"

subsection \<open>The loops end\<close>

text \<open>The clock never goes back, and a sleep moves it by at least its length.\<close>

definition steady :: "'w scm \<Rightarrow> bool" where
  "steady S \<longleftrightarrow>
     (\<forall>w. sm_now S w \<le> sm_now S (snd (sm_Query S w))) \<and> (\<forall>w. sm_now S w \<le> sm_now S (snd (sm_OpenService S w))) \<and>
     (\<forall>d w. sm_now S w + d \<le> sm_now S (sm_sleep S d w))"

lemma stateRound_goes_on:
  assumes "steady S" and "stateRound S want deadline w = (None, w')"
  shows "sm_now S w \<le> sm_now S w' \<and> sm_now S w \<le> deadline"
proof -
  obtain q where "sm_Query S w = (Inr q, w')" "sm_now S w' < deadline"
    using assms(2) by (auto simp: stateRound_def split: option.splits prod.splits sum.splits if_splits)
  moreover from this assms(1) have "sm_now S w \<le> sm_now S w'" by (auto simp: steady_def dest: spec [of _ w])
  ultimately show ?thesis by linarith
qed

lemma deletedRound_goes_on:
  assumes "steady S" and "deletedRound E S deadline w = (None, w')"
  shows "sm_now S w \<le> sm_now S w' \<and> sm_now S w \<le> deadline"
proof -
  obtain r where "sm_OpenService S w = (r, w')" "\<not> deadline < sm_now S w'"
    using assms(2) by (auto simp: deletedRound_def Let_def split: option.splits prod.splits sum.splits if_splits)
  moreover from this assms(1) have "sm_now S w \<le> sm_now S w'" by (auto simp: steady_def dest: spec [of _ w])
  ultimately show ?thesis by linarith
qed

lemma enough_rounds: "timeout + 200 < rounds timeout * 200" "0 < rounds timeout"
  by (simp_all add: rounds_def)

text \<open>
  C32.  Waiting for a state of the service, or for its deletion, ends: on a clock that does
  not go back and that each sleep moves, the loop returns, and it does so within one round per
  200 milliseconds of the timeout and two more.
\<close>

theorem service_waits_end:
  assumes "steady S"
  shows "pollLoop (sm_sleep S 200) (stateRound S want (sm_now S w + timeout)) w = Some (waitForServiceState S want timeout w) \<and>
    pollLoop (sm_sleep S 200) (deletedRound E S (sm_now S w + timeout)) w = Some (waitForAppHostServiceDeleted E S timeout w)"
proof -
  have sleeps: "sm_now S w + 200 \<le> sm_now S (sm_sleep S 200 w)" for w using assms by (simp add: steady_def)
  show ?thesis
    unfolding waitForServiceState_def waitForAppHostServiceDeleted_def
    by (intro conjI pollLoop_returns [where now = "sm_now S" and deadline = "sm_now S w + timeout" and d = 200] sleeps
        stateRound_goes_on [OF assms] deletedRound_goes_on [OF assms]) (use enough_rounds [of timeout] in auto)
qed

subsection \<open>A service manager\<close>

text \<open>One service, that starts and stops while its clients sleep.\<close>

type_synonym sampleSvc = "nat \<times> svcState option"

definition settle :: "svcState \<Rightarrow> svcState" where
  "settle s = (case s of StartPending \<Rightarrow> Running | StopPending \<Rightarrow> Stopped | s \<Rightarrow> s)"

definition onService :: "(svcState \<Rightarrow> svcState option) \<Rightarrow> (sampleSvc, unit) svcProc" where
  "onService f w =
     (case snd w of
        None \<Rightarrow> (Inl \<lparr>sv_code = ERROR_SERVICE_DOES_NOT_EXIST, sv_text = ''does not exist''\<rparr>, w)
      | Some s \<Rightarrow> (Inr (), (fst w, f s)))"

definition sampleScm :: "sampleSvc scm" where
  "sampleScm =
     \<lparr>sm_ctxErr = (\<lambda>w. None), sm_now = fst, sm_sleep = (\<lambda>d w. (fst w + d, map_option settle (snd w))),
      sm_executable = Inr ''app.exe'', sm_Connect = (\<lambda>w. (Inr (), w)), sm_OpenService = onService Some,
      sm_CreateService = (\<lambda>exe cfg w. (Inr (), (fst w, Some Stopped))),
      sm_Query = (\<lambda>w. (case snd w of None \<Rightarrow> Inl (svcError ''no service'') | Some s \<Rightarrow> Inr \<lparr>st_State = s, st_ProcessId = 1\<rparr>, w)),
      sm_Config = (\<lambda>w. (Inr (newAppHostServiceConfig []), w)), sm_UpdateConfig = (\<lambda>cfg w. (Inr (), w)),
      sm_Start = onService (\<lambda>s. Some (if s = Running then Running else StartPending)),
      sm_ControlStop = onService (\<lambda>s. Some (if s = Stopped then Stopped else StopPending)),
      sm_Delete = onService (\<lambda>s. None)\<rparr>"

lemma steady_sampleScm: "steady sampleScm"
  by (auto simp: steady_def sampleScm_def onService_def split: option.splits)

theorem service_waits_end_witness:
  "pollLoop (sm_sleep sampleScm 200) (stateRound sampleScm Running (sm_now sampleScm (0, Some StartPending) + 10000)) (0, Some StartPending) =
     Some (Inr (), (200, Some Running))"
proof -
  have "rounds 10000 = Suc (Suc 50)" by (simp add: rounds_def)
  then have "waitForServiceState sampleScm Running 10000 (0, Some StartPending) = (Inr (), (200, Some Running))"
    by (simp only: waitForServiceState_def poll.simps) (simp add: stateRound_def sampleScm_def settle_def)
  with service_waits_end [OF steady_sampleScm, of Running "(0, Some StartPending)" 10000 sampleLib] show ?thesis by simp
qed

subsection \<open>What success means\<close>

definition seen :: "'w scm \<Rightarrow> svcState \<Rightarrow> 'w \<Rightarrow> bool" where
  "seen S state w \<longleftrightarrow> (\<exists>w0 q. sm_Query S w0 = (Inr q, w) \<and> st_State q = state)"

definition gone :: "'w scm \<Rightarrow> 'w \<Rightarrow> bool" where
  "gone S w \<longleftrightarrow> (\<exists>w0 e. sm_OpenService S w0 = (Inl e, w) \<and> sv_code e = ERROR_SERVICE_DOES_NOT_EXIST)"

lemma handling_eq_Inr [proc_simps]:
  "handling m f g w = (Inr y, w') \<longleftrightarrow>
     (\<exists>e w1. m w = (Inl e, w1) \<and> f e w1 = (Inr y, w')) \<or> (\<exists>x w1. m w = (Inr x, w1) \<and> g x w1 = (Inr y, w'))"
  by (auto simp: handling_def split: prod.splits sum.splits)

lemma gone_openService: "sm_OpenService S w = (Inl e, w') \<Longrightarrow> sv_code e = ERROR_SERVICE_DOES_NOT_EXIST \<Longrightarrow> gone S w'"
  by (auto simp: gone_def)

lemma waitForServiceState_seen: "waitForServiceState S want timeout w = (Inr u, w') \<Longrightarrow> seen S want w'"
  unfolding waitForServiceState_def
  by (drule poll_result) (auto simp: stateRound_def seen_def split: option.splits prod.splits sum.splits if_splits)

lemma waitForAppHostServiceDeleted_gone: "waitForAppHostServiceDeleted E S timeout w = (Inr u, w') \<Longrightarrow> gone S w'"
  unfolding waitForAppHostServiceDeleted_def
  by (drule poll_result) (auto simp: deletedRound_def gone_def Let_def split: option.splits prod.splits sum.splits if_splits)

lemma queryState_seen: "queryState S w = (Inr (Some state), w') \<Longrightarrow> seen S state w'"
  by (auto simp: queryState_def proc_simps seen_def split: sum.split_asm)

lemma StartAppHostService_seen: "StartAppHostService E S w = (Inr u, w') \<Longrightarrow> seen S Running w'"
  by (auto simp: StartAppHostService_def proc_simps split: if_splits dest: waitForServiceState_seen queryState_seen)

lemma StopAppHostService_seen: "StopAppHostService E S w = (Inr u, w') \<Longrightarrow> seen S Stopped w'"
  by (auto simp: StopAppHostService_def proc_simps split: if_splits dest: waitForServiceState_seen queryState_seen)

lemma createAppHostService_seen: "createAppHostService E S exe w = (Inr u, w') \<Longrightarrow> seen S Running w'"
  by (auto simp: createAppHostService_def Let_def proc_simps dest: StartAppHostService_seen)

text \<open>
  When a service operation reports success, the last answer of the service manager shows
  it: after a start, an installation or a restart the service is running, after a stop it is
  stopped, after a removal it does not exist.
\<close>

theorem service_success:
  "(StartAppHostService E S w = (Inr (), w') \<longrightarrow> seen S Running w') \<and>
   (InstallAppHostService E S w = (Inr (), w') \<longrightarrow> seen S Running w') \<and>
   (restartAppHostService E S w = (Inr (), w') \<longrightarrow> seen S Running w') \<and>
   (StopAppHostService E S w = (Inr (), w') \<longrightarrow> seen S Stopped w') \<and>
   (UninstallAppHostService E S w = (Inr (), w') \<longrightarrow> gone S w')"
proof (intro conjI impI)
  assume "InstallAppHostService E S w = (Inr (), w')"
  then show "seen S Running w'"
    by (auto simp: InstallAppHostService_def Let_def proc_simps split: sum.split_asm if_split_asm
        dest: StartAppHostService_seen createAppHostService_seen)
next
  assume "UninstallAppHostService E S w = (Inr (), w')"
  then show "gone S w'"
    by (auto simp: UninstallAppHostService_def proc_simps split: sum.split_asm if_split_asm
        dest: gone_openService waitForAppHostServiceDeleted_gone)
qed (auto simp: restartAppHostService_def proc_simps dest: StartAppHostService_seen StopAppHostService_seen)

theorem service_success_witness:
  "StartAppHostService sampleLib sampleScm (0, Some Stopped) = (Inr (), (200, Some Running)) \<and>
   seen sampleScm Running (200, Some Running)"
proof -
  have "rounds 10000 = Suc (Suc 50)" by (simp add: rounds_def)
  then have "waitForServiceState sampleScm Running 10000 (0, Some StartPending) = (Inr (), (200, Some Running))"
    by (simp only: waitForServiceState_def poll.simps) (simp add: stateRound_def sampleScm_def settle_def)
  moreover have "sm_ctxErr sampleScm = (\<lambda>w. None)" "sm_Connect sampleScm = (\<lambda>w. (Inr (), w))"
    "sm_OpenService sampleScm = onService Some"
    "sm_Query sampleScm (0, Some Stopped) = (Inr \<lparr>st_State = Stopped, st_ProcessId = 1\<rparr>, (0, Some Stopped))"
    "sm_Start sampleScm (0, Some Stopped) = (Inr (), (0, Some StartPending))"
    by (simp_all add: sampleScm_def onService_def)
  ultimately have "StartAppHostService sampleLib sampleScm (0, Some Stopped) = (Inr (), (200, Some Running))"
    by (simp add: StartAppHostService_def openAppHost_def queryState_def handling_def tolerating_def checkCtx_def pthen_def pbind_def
        failing_def map_err_def preturn_def pwhen_def onService_def)
  with service_success [of sampleLib sampleScm "(0, Some Stopped)" "(200, Some Running)"] show ?thesis by simp
qed

end
