(* ===== verification/WinCerts.thy ===== *)
theory WinCerts
  imports CertStore
begin

section \<open>The Windows certificate store\<close>

text \<open>
  \<^verbatim>\<open>internal/certstore/platform_windows.go\<close>.  The two Root stores are lists of encoded
  certificates.  Every call of the system, and every run of a PowerShell script, asks an oracle
  whether it fails; the effect of the scripts is the one their text has.
\<close>

datatype location = LocalMachine | CurrentUser

record winStores =
  wn_machine :: "string list"
  wn_user :: "string list"
  wn_calls :: nat
  wn_fail :: "nat \<Rightarrow> gerr option"

definition storeOf :: "location \<Rightarrow> winStores \<Rightarrow> string list" where
  "storeOf l st = (case l of LocalMachine \<Rightarrow> wn_machine st | CurrentUser \<Rightarrow> wn_user st)"

definition setStore :: "location \<Rightarrow> string list \<Rightarrow> winStores \<Rightarrow> winStores" where
  "setStore l cs st = (case l of LocalMachine \<Rightarrow> st\<lparr>wn_machine := cs\<rparr> | CurrentUser \<Rightarrow> st\<lparr>wn_user := cs\<rparr>)"

definition winApi :: "(winStores \<Rightarrow> 'a \<times> winStores) \<Rightarrow> (winStores, gerr, 'a) proc" where
  "winApi f st =
     (let st' = st\<lparr>wn_calls := wn_calls st + 1\<rparr> in
      case wn_fail st (wn_calls st) of
        Some e \<Rightarrow> (Inl e, st')
      | None \<Rightarrow> (case f st' of (x, st'') \<Rightarrow> (Inr x, st'')))"

subsection \<open>Scopes\<close>

definition isMachineStore :: "golib \<Rightarrow> string \<Rightarrow> bool" where
  "isMachineStore E scope \<longleftrightarrow>
     ToLower E (TrimSpace scope) \<in> set ['''', CertStoreMachine, ''local_machine'', ''local-machine'']"

definition windowsStoreLocation :: "golib \<Rightarrow> string \<Rightarrow> (gerr, location) result" where
  "windowsStoreLocation E scope =
     (if isMachineStore E scope then Inr LocalMachine
      else if ToLower E (TrimSpace scope) \<in> set [CertStoreUser, ''current_user'', ''current-user''] then Inr CurrentUser
      else Inl (newErr (''unsupported Windows cert store scope '' @ scope)))"

definition windowsStoreLabel :: "golib \<Rightarrow> string \<Rightarrow> string" where
  "windowsStoreLabel E scope =
     (if isMachineStore E scope then ''LocalMachine''
      else if ToLower E (TrimSpace scope) \<in> set [CertStoreUser, ''current_user'', ''current-user''] then ''CurrentUser''
      else scope)"

subsection \<open>Calls of the system\<close>

definition openRootStore :: "golib \<Rightarrow> string \<Rightarrow> (winStores, gerr, location) proc" where
  "openRootStore E scope =
     pbind (plift (windowsStoreLocation E scope)) (\<lambda>l.
     pthen (wrapping (''open '' @ windowsStoreLabel E scope @ '' Root certificate store'') (winApi (\<lambda>st. ((), st))))
           (preturn l))"

definition sameHash :: "'k crypto \<Rightarrow> string \<Rightarrow> string \<Rightarrow> bool" where
  "sameHash C a b \<longleftrightarrow> cy_sha1hex C a = cy_sha1hex C b"

definition findCertBySHA1 :: "'k crypto \<Rightarrow> location \<Rightarrow> x509 \<Rightarrow> (winStores, gerr, bool) proc" where
  "findCertBySHA1 C l cert =
     wrapping ''find root CA by thumbprint'' (winApi (\<lambda>st. (list_ex (sameHash C (x5_Raw cert)) (storeOf l st), st)))"

definition certificateContext :: "x509 \<Rightarrow> (winStores, gerr, unit) proc" where
  "certificateContext cert =
     pthen (pensure (x5_Raw cert \<noteq> []) (newErr ''certificate DER is empty''))
           (wrapping ''create certificate context'' (winApi (\<lambda>st. ((), st))))"

text \<open>Adding replaces a certificate with the same hash; deleting takes the one that was found.\<close>

definition addCertificate :: "'k crypto \<Rightarrow> location \<Rightarrow> string \<Rightarrow> winStores \<Rightarrow> unit \<times> winStores" where
  "addCertificate C l der st = ((), setStore l (der # filter (\<lambda>c. \<not> sameHash C der c) (storeOf l st)) st)"

definition deleteCertificate :: "'k crypto \<Rightarrow> location \<Rightarrow> string \<Rightarrow> winStores \<Rightarrow> unit \<times> winStores" where
  "deleteCertificate C l der st = ((), setStore l (filter (\<lambda>c. \<not> sameHash C der c) (storeOf l st)) st)"

subsection \<open>The PowerShell scripts\<close>

definition scriptLocation :: "string \<Rightarrow> location option" where
  "scriptLocation name =
     (if name = ''LocalMachine'' then Some LocalMachine else if name = ''CurrentUser'' then Some CurrentUser else None)"

definition installRootWithDotNetX509Store ::
    "golib \<Rightarrow> 'k crypto \<Rightarrow> pathlib \<Rightarrow> (string \<Rightarrow> string option) \<Rightarrow> string \<Rightarrow> string \<Rightarrow> (winStores, gerr, unit) proc" where
  "installRootWithDotNetX509Store E C L certAt certPath scope =
     pthen (pensure (TrimSpace certPath \<noteq> []) (newErr ''certificate path is empty''))
    (pbind (plift (case pl_Abs L certPath of None \<Rightarrow> Inl (newErr ''resolve certificate path'') | Some p \<Rightarrow> Inr p)) (\<lambda>path.
     case (scriptLocation (windowsStoreLabel E scope), certAt path) of
       (Some l, Some der) \<Rightarrow>
         winApi (\<lambda>st. if list_ex (sameHash C der) (storeOf l st) then ((), st) else ((), setStore l (der # storeOf l st) st))
     | _ \<Rightarrow> praise (newErr ''exit status 1'')))"

definition uninstallRootWithDotNetX509Store ::
    "golib \<Rightarrow> 'k crypto \<Rightarrow> string \<Rightarrow> string \<Rightarrow> (winStores, gerr, unit) proc" where
  "uninstallRootWithDotNetX509Store E C thumbprint scope =
     pthen (pensure (TrimSpace thumbprint \<noteq> []) (newErr ''certificate thumbprint is empty''))
    (case scriptLocation (windowsStoreLabel E scope) of
       None \<Rightarrow> praise (newErr ''exit status 1'')
     | Some l \<Rightarrow>
         winApi (\<lambda>st. ((), setStore l (filter (\<lambda>c. map upperAscii (cy_sha1hex C c) \<noteq> thumbprint) (storeOf l st)) st)))"

text \<open>\<open>orElse m f\<close>: the fallback \<open>f\<close>, given the error, when \<open>m\<close> fails.\<close>

definition orElse :: "('w, 'e, 'a) proc \<Rightarrow> ('e \<Rightarrow> ('w, 'f, 'a) proc) \<Rightarrow> ('w, 'f, 'a) proc" where
  "orElse m f w = (case m w of (Inr x, w') \<Rightarrow> (Inr x, w') | (Inl e, w') \<Rightarrow> f e w')"

definition fallbackError :: "gerr \<Rightarrow> gerr \<Rightarrow> gerr option \<Rightarrow> string \<Rightarrow> gerr" where
  "fallbackError cause fallbackErr userErr hint =
     cause\<lparr>ge_text := ge_text cause @ ''; .NET X509Store fallback failed: '' @ ge_text fallbackErr @
             (case userErr of None \<Rightarrow> [] | Some u \<Rightarrow> ''; CurrentUser Root fallback failed: '' @ ge_text u) @ hint,
           ge_permission := False\<rparr>"

definition withFallbacks :: "golib \<Rightarrow> (string \<Rightarrow> (winStores, gerr, unit) proc) \<Rightarrow> string \<Rightarrow> string \<Rightarrow> gerr \<Rightarrow> (winStores, gerr, unit) proc" where
  "withFallbacks E dotnet scope hint cause =
     orElse (dotnet scope) (\<lambda>fallbackErr.
     if isMachineStore E scope
     then orElse (dotnet CertStoreUser) (\<lambda>userErr. praise (fallbackError cause fallbackErr (Some userErr) hint))
     else praise (fallbackError cause fallbackErr None []))"

definition installRootWithFallbacks ::
    "golib \<Rightarrow> 'k crypto \<Rightarrow> pathlib \<Rightarrow> (string \<Rightarrow> string option) \<Rightarrow> (gerr \<Rightarrow> bool) \<Rightarrow> string \<Rightarrow> string \<Rightarrow> gerr \<Rightarrow> (winStores, gerr, unit) proc" where
  "installRootWithFallbacks E C L certAt accessDenied certPath scope cause =
     withFallbacks E (installRootWithDotNetX509Store E C L certAt certPath) scope
       (if accessDenied cause then ''; rerun as Administrator or set cert.store_scope: user'' else []) cause"

definition uninstallRootWithFallbacks :: "golib \<Rightarrow> 'k crypto \<Rightarrow> string \<Rightarrow> string \<Rightarrow> gerr \<Rightarrow> (winStores, gerr, unit) proc" where
  "uninstallRootWithFallbacks E C thumbprint scope cause =
     withFallbacks E (uninstallRootWithDotNetX509Store E C thumbprint) scope [] cause"

subsection \<open>The platform\<close>

definition winIsInstalled :: "golib \<Rightarrow> 'k crypto \<Rightarrow> x509 \<Rightarrow> string \<Rightarrow> string \<Rightarrow> (winStores, gerr, bool) proc" where
  "winIsInstalled E C cert certPath scope = pbind (openRootStore E scope) (\<lambda>l. findCertBySHA1 C l cert)"

definition winInstall ::
    "golib \<Rightarrow> 'k crypto \<Rightarrow> pathlib \<Rightarrow> (string \<Rightarrow> string option) \<Rightarrow> (gerr \<Rightarrow> bool) \<Rightarrow> x509 \<Rightarrow> string \<Rightarrow> string \<Rightarrow> (winStores, gerr, unit) proc" where
  "winInstall E C L certAt accessDenied cert certPath scope st =
     (case openRootStore E scope st of
        (Inl e, st) \<Rightarrow> installRootWithFallbacks E C L certAt accessDenied certPath scope e st
      | (Inr l, st) \<Rightarrow>
          pthen (certificateContext cert)
            (orElse (winApi (addCertificate C l (x5_Raw cert)))
               (\<lambda>e. installRootWithFallbacks E C L certAt accessDenied certPath scope
                  (wrapErr (''install root CA in '' @ windowsStoreLabel E scope @ '' Root store with Windows certificate store API'') e))) st)"

definition winUninstall :: "golib \<Rightarrow> 'k crypto \<Rightarrow> x509 \<Rightarrow> string \<Rightarrow> (winStores, gerr, unit) proc" where
  "winUninstall E C cert scope st =
     (case openRootStore E scope st of
        (Inl e, st) \<Rightarrow>
          orElse (uninstallRootWithDotNetX509Store E C (Thumbprint C E cert) scope)
                 (\<lambda>fallbackErr. praise (fallbackError e fallbackErr None [])) st
      | (Inr l, st) \<Rightarrow>
          pbind (findCertBySHA1 C l cert) (\<lambda>found.
          if \<not> found then preturn ()
          else orElse (winApi (deleteCertificate C l (x5_Raw cert)))
                 (\<lambda>e. uninstallRootWithFallbacks E C (Thumbprint C E cert) scope
                    (wrapErr (''uninstall root CA from '' @ windowsStoreLabel E scope @ '' Root store with Windows certificate store API'') e))) st)"

definition windowsPlatform ::
    "golib \<Rightarrow> 'k crypto \<Rightarrow> pathlib \<Rightarrow> (string \<Rightarrow> string option) \<Rightarrow> (gerr \<Rightarrow> bool) \<Rightarrow> winStores certPlatform" where
  "windowsPlatform E C L certAt accessDenied =
     \<lparr>cp_Name = ''windows'', cp_IsInstalled = (\<lambda>cert path scope. failing CertError (winIsInstalled E C cert path scope)),
      cp_Install = (\<lambda>cert path scope. failing CertError (winInstall E C L certAt accessDenied cert path scope)),
      cp_Uninstall = (\<lambda>cert scope. failing CertError (winUninstall E C cert scope))\<rparr>"

definition unsupportedPlatform :: "string \<Rightarrow> 'p certPlatform" where
  "unsupportedPlatform goos =
     \<lparr>cp_Name = goos, cp_IsInstalled = (\<lambda>_ _ _. praise (ErrUnsupported goos)),
      cp_Install = (\<lambda>_ _ _. praise (ErrUnsupported goos)), cp_Uninstall = (\<lambda>_ _. praise (ErrUnsupported goos))\<rparr>"

subsection \<open>Calls that do not fail\<close>

lemma store_simps [simp]:
  "storeOf l (setStore l cs st) = cs" "l \<noteq> l' \<Longrightarrow> storeOf l' (setStore l cs st) = storeOf l' st"
  "storeOf l (st\<lparr>wn_calls := n\<rparr>) = storeOf l st" "wn_fail (setStore l cs st) = wn_fail st" "wn_calls (setStore l cs st) = wn_calls st"
  by (cases l; cases l'; simp add: storeOf_def setStore_def)+

lemma winApi_ok:
  "wn_fail st = (\<lambda>_. None) \<Longrightarrow>
     winApi f st = (let (x, st') = f (st\<lparr>wn_calls := wn_calls st + 1\<rparr>) in (Inr x, st'))"
  by (simp add: winApi_def Let_def split: prod.splits)

lemmas run_defs = pbind_def pthen_def plift_def preturn_def pensure_def praise_def wrapping_def failing_def orElse_def Let_def

lemma openRootStore_ok:
  "windowsStoreLocation E scope = Inr l \<Longrightarrow> wn_fail st = (\<lambda>_. None) \<Longrightarrow>
     openRootStore E scope st = (Inr l, st\<lparr>wn_calls := wn_calls st + 1\<rparr>)"
  by (simp add: openRootStore_def run_defs winApi_ok)

lemma winIsInstalled_ok:
  "windowsStoreLocation E scope = Inr l \<Longrightarrow> wn_fail st = (\<lambda>_. None) \<Longrightarrow>
     winIsInstalled E C cert path scope st =
       (Inr (list_ex (sameHash C (x5_Raw cert)) (storeOf l st)), st\<lparr>wn_calls := wn_calls st + 2\<rparr>)"
  by (simp add: winIsInstalled_def pbind_def openRootStore_ok findCertBySHA1_def wrapping_def winApi_ok)

lemma winInstall_ok:
  assumes "windowsStoreLocation E scope = Inr l" and "wn_fail st = (\<lambda>_. None)"
    and "winInstall E C L certAt denied cert path scope st = (Inr (), st')"
  shows "st' = setStore l (x5_Raw cert # filter (\<lambda>c. \<not> sameHash C (x5_Raw cert) c) (storeOf l st)) (st\<lparr>wn_calls := wn_calls st + 3\<rparr>)"
  using assms
  by (cases "x5_Raw cert = []")
    (simp_all add: winInstall_def openRootStore_ok certificateContext_def run_defs winApi_ok addCertificate_def eval_nat_numeral)

lemma winUninstall_ok:
  assumes "windowsStoreLocation E scope = Inr l" and "wn_fail st = (\<lambda>_. None)"
    and "list_ex (sameHash C (x5_Raw cert)) (storeOf l st)"
  shows "winUninstall E C cert scope st =
    (Inr (), setStore l (filter (\<lambda>c. \<not> sameHash C (x5_Raw cert) c) (storeOf l st)) (st\<lparr>wn_calls := wn_calls st + 3\<rparr>))"
  using assms
  by (simp add: winUninstall_def openRootStore_ok findCertBySHA1_def run_defs winApi_ok deleteCertificate_def eval_nat_numeral)

lemma sameHash_refl [simp]: "sameHash C a a"
  by (simp add: sameHash_def)

lemma EnsureRootCA_keeps:
  assumes "EnsureRootCA C L (m, w) = (Inr cert, (m', w'))"
  obtains key where "loaded (cert, key) m'" and "mg_cfg m' = mg_cfg m" and "cw_store w' = cw_store w"
proof -
  obtain key where "ensureRootKeypairLocked C L (m, w) = (Inr (cert, key), (m', w'))"
    using assms by (auto simp: EnsureRootCA_def proc_simps)
  from ensure_keeps [OF this] that show thesis by blast
qed

lemma EnsureTrusted_store:
  assumes "windowsStoreLocation E (cc_StoreScope (mg_cfg m)) = Inr l" and "wn_fail (cw_store w) = (\<lambda>_. None)"
    and "EnsureTrusted C E L (windowsPlatform E C L certAt denied) (m, w) = (Inr res, (m1, w1))"
  obtains cert key where "loaded (cert, key) m1" and "mg_cfg m1 = mg_cfg m" and "wn_fail (cw_store w1) = (\<lambda>_. None)"
    and "list_ex (sameHash C (x5_Raw cert)) (storeOf l (cw_store w1))"
    and "tu_Changed res = (\<not> list_ex (sameHash C (x5_Raw cert)) (storeOf l (cw_store w)))"
    and "filter (\<lambda>c. \<not> sameHash C (x5_Raw cert) c) (storeOf l (cw_store w1)) =
      filter (\<lambda>c. \<not> sameHash C (x5_Raw cert) c) (storeOf l (cw_store w))"
    and "\<And>l'. l' \<noteq> l \<Longrightarrow> storeOf l' (cw_store w1) = storeOf l' (cw_store w)"
proof -
  let ?scope = "cc_StoreScope (mg_cfg m)" and ?path = "RootCertPath L (mg_cfg m)"
  obtain cert m' w' installed m2 w2 where root: "EnsureRootCA C L (m, w) = (Inr cert, (m', w'))"
    and check: "onStore (failing CertError (winIsInstalled E C cert ?path ?scope)) (m', w') = (Inr installed, (m2, w2))"
    and rest: "if installed then m1 = m2 \<and> w1 = w2 \<and> \<not> tu_Changed res
      else onStore (failing CertError (winInstall E C L certAt denied cert ?path ?scope)) (m2, w2) = (Inr (), (m1, w1)) \<and> tu_Changed res"
    using assms(3)
    by (auto simp: EnsureTrusted_def requireWindows_def windowsPlatform_def proc_simps Let_def emptyTrust_def split: if_splits)
  obtain key where kept: "loaded (cert, key) m'" "mg_cfg m' = mg_cfg m" "cw_store w' = cw_store w"
    using EnsureRootCA_keeps [OF root] .
  have installed: "installed = list_ex (sameHash C (x5_Raw cert)) (storeOf l (cw_store w))"
    and m2: "m2 = m'" "w2 = w'\<lparr>cw_store := (cw_store w)\<lparr>wn_calls := wn_calls (cw_store w) + 2\<rparr>\<rparr>"
    using check by (auto simp: onStore_def failing_def kept(3) winIsInstalled_ok [OF assms(1,2)])
  show thesis
  proof (cases installed)
    case True
    with rest m2 installed assms(2) kept show thesis by (intro that [of cert key]) simp_all
  next
    case False
    obtain st' where st': "winInstall E C L certAt denied cert ?path ?scope ((cw_store w)\<lparr>wn_calls := wn_calls (cw_store w) + 2\<rparr>) = (Inr (), st')"
      and out: "m1 = m'" "w1 = w'\<lparr>cw_store := st'\<rparr>" "tu_Changed res"
      using rest False by (auto simp: onStore_def failing_def m2 map_err_eq_Inr split: prod.splits)
    have "st' = setStore l (x5_Raw cert # filter (\<lambda>c. \<not> sameHash C (x5_Raw cert) c) (storeOf l (cw_store w)))
        ((cw_store w)\<lparr>wn_calls := wn_calls (cw_store w) + 2 + 3\<rparr>)"
      using winInstall_ok [OF assms(1) _ st'] assms(2) by simp
    with out False installed assms(2) kept show thesis by (intro that [of cert key]) simp_all
  qed
qed

subsection \<open>Samples\<close>

definition emptyStores :: winStores where
  "emptyStores = \<lparr>wn_machine = [''cother''], wn_user = [], wn_calls = 0, wn_fail = (\<lambda>_. None)\<rparr>"

definition sampleRoot :: string where
  "sampleRoot = ''csteam-accelerator-core Local Root CA''"

definition samplePlatform :: "winStores certPlatform" where
  "samplePlatform = windowsPlatform sampleLib sampleCrypto (unixPaths ''/'') (\<lambda>_. Some sampleRoot) ge_permission"

lemma sample_location: "windowsStoreLocation sampleLib CertStoreMachine = Inr LocalMachine"
proof -
  have "ToLower sampleLib (TrimSpace ''machine'') = ''machine''" by code_simp
  then show ?thesis by (simp add: windowsStoreLocation_def isMachineStore_def)
qed

lemma sample_ensure_root:
  "\<exists>cert m w. EnsureRootCA sampleCrypto (unixPaths ''/'') (NewWithPlatform sampleLib sampleCertConfig, emptyCertWorld st) =
      (Inr cert, (m, w)) \<and> x5_Raw cert = sampleRoot \<and> loaded (cert, 0) m \<and> cw_store w = st \<and> mg_cfg m = sampleCertConfig"
  by (simp add: EnsureRootCA_def pbind_def ensureRootKeypairLocked_def loadRootKeypairLocked_def parseRootFiles_def readPEM_def
      NewWithPlatform_def emptyCertWorld_def createRoot_def generateRootCA_def randomSerial_def random_def Let_def
      pthen_def plift_def preturn_def writePEMFile_def sampleCrypto_def ensure_def HasPrefix_def rootTemplate_def sampleRoot_def
      loaded_def remember_def sample_paths)

subsection \<open>Properties\<close>


lemma EnsureTrusted_ok:
  assumes "windowsStoreLocation E (cc_StoreScope (mg_cfg m)) = Inr l" and "wn_fail (cw_store w) = (\<lambda>_. None)"
    and "EnsureRootCA C L (m, w) = (Inr cert, (m', w'))" and "x5_Raw cert \<noteq> []"
  shows "\<exists>res w1. EnsureTrusted C E L (windowsPlatform E C L certAt denied) (m, w) = (Inr res, (m', w1))"
proof -
  let ?scope = "cc_StoreScope (mg_cfg m)" and ?st = "(cw_store w)\<lparr>wn_calls := wn_calls (cw_store w) + 2\<rparr>"
  have "cw_store w' = cw_store w" using EnsureRootCA_keeps [OF assms(3)] by blast
  moreover obtain b where "winIsInstalled E C cert path ?scope (cw_store w) = (Inr b, ?st)" for path
    using winIsInstalled_ok [OF assms(1,2), of C cert] by simp
  moreover obtain st' where "winInstall E C L certAt denied cert (RootCertPath L (mg_cfg m)) ?scope ?st = (Inr (), st')"
    using assms(4)
    by (simp add: winInstall_def openRootStore_ok [OF assms(1)] assms(2) certificateContext_def run_defs winApi_ok addCertificate_def)
  ultimately show ?thesis
    by (cases b) (simp_all add: EnsureTrusted_def windowsPlatform_def requireWindows_def run_defs onStore_def assms(3))
qed

lemma Uninstall_ok:
  assumes "windowsStoreLocation E (cc_StoreScope (mg_cfg m)) = Inr l" and "wn_fail (cw_store w) = (\<lambda>_. None)"
    and "loaded (cert, key) m"
  shows "\<exists>w1. Uninstall C L (windowsPlatform E C L certAt denied) (m, w) = (Inr (), (m, w1))"
proof -
  let ?scope = "cc_StoreScope (mg_cfg m)" and ?st = "(cw_store w)\<lparr>wn_calls := wn_calls (cw_store w) + 2\<rparr>"
  let ?found = "list_ex (sameHash C (x5_Raw cert)) (storeOf l (cw_store w))"
  have root: "loadRootCA C L (m, w) = (Inr cert, (m, w))"
    by (simp add: loadRootCA_def pbind_def load_loaded [OF assms(3)] preturn_def)
  have check: "winIsInstalled E C cert path ?scope (cw_store w) = (Inr ?found, ?st)" for path
    using winIsInstalled_ok [OF assms(1,2), of C cert] .
  show ?thesis
  proof (cases ?found)
    case True
    then obtain st' where "winUninstall E C cert ?scope ?st = (Inr (), st')"
      using winUninstall_ok [OF assms(1), of ?st C cert] assms(2) by simp
    with True root check show ?thesis
      by (simp add: Uninstall_def windowsPlatform_def requireWindows_def run_defs onStore_def)
  next
    case False
    with root check show ?thesis
      by (simp add: Uninstall_def windowsPlatform_def requireWindows_def run_defs onStore_def)
  qed
qed


subsection \<open>What the code does not do\<close>

text \<open>
  Installing in the machine store falls back to the store of the current user and then reports
  success.  Removing looks in the machine store only, finds nothing and reports success too: the
  root stays trusted for the user.
\<close>

definition brokenMachine :: winStores where
  "brokenMachine = \<lparr>wn_machine = [], wn_user = [], wn_calls = 0,
     wn_fail = (\<lambda>n. if n \<in> {2, 3} then Some \<lparr>ge_text = ''Access is denied.'', ge_permission = True, ge_noState = False\<rparr> else None)\<rparr>"

lemma sample_labels:
  "isMachineStore sampleLib CertStoreMachine" "windowsStoreLabel sampleLib CertStoreMachine = ''LocalMachine''"
  "windowsStoreLabel sampleLib CertStoreUser = ''CurrentUser''" "TrimSpace ''/c/root-ca.pem'' \<noteq> []"
  by code_simp+

lemma broken_check:
  "st \<in> {(brokenMachine, 0), (brokenMachine\<lparr>wn_user := us\<rparr>, 5)} \<Longrightarrow>
     winIsInstalled sampleLib C cert path CertStoreMachine ((fst st)\<lparr>wn_calls := snd st\<rparr>) =
       (Inr False, (fst st)\<lparr>wn_calls := snd st + 2\<rparr>)"
  by (auto simp: winIsInstalled_def openRootStore_def sample_location findCertBySHA1_def run_defs winApi_def storeOf_def brokenMachine_def)

lemma broken_install:
  "winInstall sampleLib sampleCrypto (unixPaths ''/'') (\<lambda>_. Some sampleRoot) denied cert ''/c/root-ca.pem'' CertStoreMachine
     (brokenMachine\<lparr>wn_calls := 2\<rparr>) = (Inr (), brokenMachine\<lparr>wn_user := [sampleRoot], wn_calls := 5\<rparr>)"
proof -
  have abs: "pl_Abs (unixPaths ''/'') p = Some (unixAbs ''/'' p)" for p by (simp add: unixPaths_def)
  have "openRootStore sampleLib CertStoreMachine (brokenMachine\<lparr>wn_calls := 2\<rparr>) =
      (Inl (wrapErr ''open LocalMachine Root certificate store''
         \<lparr>ge_text = ''Access is denied.'', ge_permission = True, ge_noState = False\<rparr>), brokenMachine\<lparr>wn_calls := 3\<rparr>)"
    by (simp add: openRootStore_def sample_location sample_labels run_defs winApi_def brokenMachine_def)
  moreover have "\<exists>e. installRootWithDotNetX509Store sampleLib sampleCrypto (unixPaths ''/'') (\<lambda>_. Some sampleRoot) ''/c/root-ca.pem''
      CertStoreMachine (brokenMachine\<lparr>wn_calls := 3\<rparr>) = (Inl e, brokenMachine\<lparr>wn_calls := 4\<rparr>)"
    by (simp add: installRootWithDotNetX509Store_def abs sample_labels scriptLocation_def run_defs winApi_def brokenMachine_def)
  moreover have "installRootWithDotNetX509Store sampleLib sampleCrypto (unixPaths ''/'') (\<lambda>_. Some sampleRoot) ''/c/root-ca.pem''
      CertStoreUser (brokenMachine\<lparr>wn_calls := 4\<rparr>) = (Inr (), brokenMachine\<lparr>wn_user := [sampleRoot], wn_calls := 5\<rparr>)"
    by (simp add: installRootWithDotNetX509Store_def abs sample_labels scriptLocation_def run_defs winApi_def storeOf_def setStore_def
        brokenMachine_def)
  ultimately show ?thesis
    by (auto simp: winInstall_def installRootWithFallbacks_def withFallbacks_def orElse_def sample_labels)
qed

lemma fallback_root_stays_trusted:
  assumes "EnsureTrusted sampleCrypto sampleLib (unixPaths ''/'') samplePlatform
      (NewWithPlatform sampleLib sampleCertConfig, emptyCertWorld brokenMachine) = (r, s1)"
    and "Uninstall sampleCrypto (unixPaths ''/'') samplePlatform s1 = (r', (m2, w2))"
  shows "is_ok r \<and> is_ok r' \<and> wn_user (cw_store w2) = [sampleRoot]"
proof -
  obtain cert m w where root: "EnsureRootCA sampleCrypto (unixPaths ''/'')
      (NewWithPlatform sampleLib sampleCertConfig, emptyCertWorld brokenMachine) = (Inr cert, (m, w))"
    "x5_Raw cert = sampleRoot" "loaded (cert, 0) m" "cw_store w = brokenMachine" "mg_cfg m = sampleCertConfig"
    using sample_ensure_root [of brokenMachine] by (elim exE conjE) (rule that)
  have scope: "cc_StoreScope sampleCertConfig = CertStoreMachine" "mg_cfg (NewWithPlatform sampleLib sampleCertConfig :: nat Manager) = sampleCertConfig"
    by (simp_all add: sampleCertConfig_def NewWithPlatform_def sample_paths [unfolded sampleCertConfig_def])
  have "brokenMachine = brokenMachine\<lparr>wn_calls := 0\<rparr>" by (simp add: brokenMachine_def)
  then have before: "winIsInstalled sampleLib sampleCrypto cert p CertStoreMachine brokenMachine = (Inr False, brokenMachine\<lparr>wn_calls := 2\<rparr>)" for p
    using broken_check [of "(brokenMachine, 0)" "[]" sampleCrypto cert p] by simp
  let ?st = "brokenMachine\<lparr>wn_user := [sampleRoot], wn_calls := 5\<rparr>"
  have "is_ok r \<and> s1 = (m, w\<lparr>cw_store := ?st\<rparr>)"
    using assms(1) root scope
    by (auto simp: EnsureTrusted_def samplePlatform_def windowsPlatform_def requireWindows_def run_defs onStore_def before
        broken_install sample_paths is_ok_def)
  moreover have "winIsInstalled sampleLib sampleCrypto cert p CertStoreMachine ?st = (Inr False, ?st\<lparr>wn_calls := 7\<rparr>)" for p
    using broken_check [of "(brokenMachine\<lparr>wn_user := [sampleRoot]\<rparr>, 5)" "[sampleRoot]" sampleCrypto cert p] by simp
  moreover have "loadRootCA sampleCrypto (unixPaths ''/'') (m, v) = (Inr cert, (m, v))" for v :: "winStores certWorld"
    by (simp add: loadRootCA_def pbind_def preturn_def load_loaded [OF root(3)])
  ultimately show ?thesis using assms(2) root(5) scope
    by (auto simp: Uninstall_def samplePlatform_def windowsPlatform_def requireWindows_def run_defs onStore_def is_ok_def)
qed

end
