(* ===== verification/AppHost.thy ===== *)
theory AppHost
  imports PrivilegeWire Pipe AppHostService WinCerts
begin

section \<open>The privileged host behind the named pipe\<close>

text \<open>
  \<^verbatim>\<open>internal/privilege/privilege_windows.go\<close>: the server that executes requests with
  system privileges, and the client that sends them.  The server's environment \<open>V\<close> is the
  privileged one; \<open>A\<close> answers what the server asks Windows about its client.  A connection
  has the sizes in which both ends can write, and a function that cuts a stream of bytes into the pieces
  in which they arrive.  Logging is left out.
\<close>

subsection \<open>The server\<close>

record appHostEnv =
  ah_processImagePath :: "nat \<Rightarrow> (string, string) result"
  ah_Executable :: "(string, string) result"
  ah_EvalSymlinks :: "string \<Rightarrow> string option"

definition deviceNamespace :: string where
  "deviceNamespace = [BS, BS, CHR ''?'', BS]"

definition normalizeExecutablePath :: "('k, 'p, 'os) privEnv \<Rightarrow> appHostEnv \<Rightarrow> string \<Rightarrow> string" where
  "normalizeExecutablePath V A path =
     (let path = TrimPrefix path deviceNamespace;
          path = (case pl_Abs (pv_paths V) path of Some p \<Rightarrow> p | None \<Rightarrow> path);
          path = (case ah_EvalSymlinks A path of Some p \<Rightarrow> p | None \<Rightarrow> path)
      in pl_Clean (pv_paths V) path)"

definition validateAppHostClientProcess :: "('k, 'p, 'os) privEnv \<Rightarrow> appHostEnv \<Rightarrow> nat \<Rightarrow> (string, unit) result" where
  "validateAppHostClientProcess V A clientPID =
     rbind (map_err (\<lambda>e. ''query apphost client process: '' @ e) (ah_processImagePath A clientPID)) (\<lambda>clientPath.
     rbind (map_err (\<lambda>e. ''query apphost executable: '' @ e) (ah_Executable A)) (\<lambda>selfPath.
     ensure (EqualFold (pv_lib V) (normalizeExecutablePath V A clientPath) (normalizeExecutablePath V A selfPath))
       (''apphost client executable mismatch: client='' @ normalizeExecutablePath V A clientPath @
        '' apphost='' @ normalizeExecutablePath V A selfPath)))"

definition pipeErr :: "pipe_error \<Rightarrow> svcErr" where
  "pipeErr e =
     (case e of
        BrokenPipe \<Rightarrow> \<lparr>sv_code = 109, sv_text = ''The pipe has been ended.''\<rparr>
      | UnexpectedEOF \<Rightarrow> svcError ''unexpected EOF''
      | ShortWrite \<Rightarrow> svcError ''short write''
      | EmptyFrame \<Rightarrow> svcError ''empty pipe frame''
      | FrameTooLarge n m \<Rightarrow> svcError (''pipe frame too large: '' @ Itoa (int n) @ '' > '' @ Itoa (int m)))"

definition executeAccepted ::
    "('k, 'p, 'os) privEnv \<Rightarrow> HelperRequest \<Rightarrow> ('p, 'os, 'z) machine_scheme \<Rightarrow> HelperResponse \<times> ('p, 'os, 'z) machine_scheme" where
  "executeAccepted V req m =
     (case executeHelperRequest V req m of
        (Inl e, m') \<Rightarrow> (failedResponse (pv_helperStatus V @ '': '' @ ge_text e), m')
      | (Inr resp, m') \<Rightarrow> (resp, m'))"

text \<open>\<open>client\<close> is what Windows says of the process at the other end.\<close>

definition handlePipeRequest ::
    "('k, 'p, 'os) privEnv \<Rightarrow> appHostEnv \<Rightarrow> (string, nat) result \<Rightarrow> pipe \<times> ('p, 'os, 'z) machine_scheme \<Rightarrow>
       HelperResponse \<times> (pipe \<times> ('p, 'os, 'z) machine_scheme)" where
  "handlePipeRequest V A client w =
     (case client of
        Inl e \<Rightarrow> (failedResponse (''get apphost pipe client pid: '' @ e), w)
      | Inr clientPID \<Rightarrow>
          (case validateAppHostClientProcess V A clientPID of
             Inl msg \<Rightarrow> (failedResponse msg, w)
           | Inr _ \<Rightarrow>
               (case readPipeFrame (of_nat appHostMaxFrame) (fst w) of
                  (Inl e, p) \<Rightarrow> (failedResponse (''read apphost pipe request: '' @ sv_text (pipeErr e)), (p, snd w))
                | (Inr body, p) \<Rightarrow>
                    (case parseRequest (pv_lib V) body of
                       None \<Rightarrow> (failedResponse ''parse apphost pipe request'', (p, snd w))
                     | Some req \<Rightarrow>
                         (case validateAppHostRequest V req (int clientPID) of
                            Inl msg \<Rightarrow> (failedResponse msg, (p, snd w))
                          | Inr _ \<Rightarrow> (case executeAccepted V req (snd w) of (resp, m) \<Rightarrow> (resp, (p, m))))))))"

definition handlePipe ::
    "('k, 'p, 'os) privEnv \<Rightarrow> appHostEnv \<Rightarrow> (string, nat) result \<Rightarrow> pipe \<times> ('p, 'os, 'z) machine_scheme \<Rightarrow>
       pipe \<times> ('p, 'os, 'z) machine_scheme" where
  "handlePipe V A client w =
     (case handlePipeRequest V A client w of (resp, (p, m)) \<Rightarrow> (snd (writePipeFrame (responseBody resp) p), m))"

subsection \<open>The client\<close>

text \<open>The machine with the service manager beside the settings.\<close>

record ('p, 'os, 'w) hostMachine = "('p, 'os) machine" +
  hm_svc :: 'w

definition onSvc :: "('w, 'a) svcProc \<Rightarrow> (('p, 'os, 'w) hostMachine, svcErr, 'a) proc" where
  "onSvc f m = (case f (hm_svc m) of (r, w) \<Rightarrow> (r, m\<lparr>hm_svc := w\<rparr>))"

record transport =
  tr_clientRoom :: "nat list"
  tr_serverRoom :: "nat list"
  tr_cut :: "string \<Rightarrow> string list"

text \<open>\<open>lk_open\<close> is \<^verbatim>\<open>openAppHostPipe\<close>, \<open>lk_server\<close> the process that serves the connection.\<close>

record ('p, 'os, 'w) link =
  lk_scm :: "'w scm"
  lk_open :: "('w, transport) svcProc"
  lk_server :: "pipe \<times> ('p, 'os, 'w) hostMachine \<Rightarrow> pipe \<times> ('p, 'os, 'w) hostMachine"
  lk_pid :: int
  lk_token :: "('w, string) svcProc"

type_synonym ('p, 'os, 'w, 'a) clientProc = "(('p, 'os, 'w) hostMachine, svcErr, 'a) proc"

definition exchange :: "('p, 'os, 'w) link \<Rightarrow> transport \<Rightarrow> string \<Rightarrow> ('p, 'os, 'w, string) clientProc" where
  "exchange K T body m =
     (case writePipeFrame body \<lparr>pp_in = [], pp_room = tr_clientRoom T, pp_out = []\<rparr> of
        (sent, c) \<Rightarrow>
          (case lk_server K (\<lparr>pp_in = tr_cut T (pp_out c), pp_room = tr_serverRoom T, pp_out = []\<rparr>, m) of
             (s, m') \<Rightarrow>
               (case sent of
                  Inl e \<Rightarrow> (Inl (svcWrap ''write apphost request'' (pipeErr e)), m')
                | Inr _ \<Rightarrow>
                    (case readPipeFrame (of_nat appHostMaxFrame) (c\<lparr>pp_in := tr_cut T (pp_out s)\<rparr>) of
                       (Inl e, _) \<Rightarrow> (Inl (svcWrap ''read apphost response'' (pipeErr e)), m')
                     | (Inr resp, _) \<Rightarrow> (Inr resp, m')))))"

definition appHostPipeRoundTrip :: "('p, 'os, 'w) link \<Rightarrow> string \<Rightarrow> ('p, 'os, 'w, string) clientProc" where
  "appHostPipeRoundTrip K body =
     pbind (failing (svcWrap ''connect windows apphost pipe'') (onSvc (lk_open K))) (\<lambda>T. exchange K T body)"

definition healthRequest :: "('p, 'os, 'w) link \<Rightarrow> HelperRequest" where
  "healthRequest K = emptyRequest\<lparr>hq_Version := 1, hq_Token := ''health'', hq_ParentPID := lk_pid K, hq_Command := CommandAppHostHealth\<rparr>"

definition appHostHealth :: "golib \<Rightarrow> ('p, 'os, 'w) link \<Rightarrow> ('p, 'os, 'w, unit) clientProc" where
  "appHostHealth E K =
     pbind (appHostPipeRoundTrip K (requestBody (healthRequest K))) (\<lambda>body.
     case parseResponse E body of
       None \<Rightarrow> praise (svcError ''invalid response'')
     | Some resp \<Rightarrow> if hr_OK resp then preturn () else praise (svcError (''apphost health failed: '' @ hr_Error resp)))"

text \<open>The loop that waits for the service to answer, with the last error.\<close>

definition healthRound ::
    "golib \<Rightarrow> ('p, 'os, 'w) link \<Rightarrow> nat \<Rightarrow> svcErr \<times> ('p, 'os, 'w) hostMachine \<Rightarrow>
       (svcErr, unit) result option \<times> (svcErr \<times> ('p, 'os, 'w) hostMachine)" where
  "healthRound E K deadline w =
     (case w of (lastErr, m) \<Rightarrow>
      if \<not> sm_now (lk_scm K) (hm_svc m) < deadline
      then (Some (Inl (svcWrap ''windows apphost service started but did not become ready'' lastErr)), w)
      else (case sm_ctxErr (lk_scm K) (hm_svc m) of
              Some e \<Rightarrow> (Some (Inl e), w)
            | None \<Rightarrow>
                (case appHostHealth E K m of
                   (Inr _, m') \<Rightarrow> (Some (Inr ()), (lastErr, m'))
                 | (Inl e, m') \<Rightarrow> (None, (e, m')))))"

definition ensureAppHostStarted :: "golib \<Rightarrow> ('p, 'os, 'w) link \<Rightarrow> ('p, 'os, 'w, unit) clientProc" where
  "ensureAppHostStarted E K =
     handling (appHostHealth E K)
       (\<lambda>_. pthen
          (failing (svcWrap ''windows apphost is not running; install it once with `steam-accelerator apphost install` from an Administrator terminal'')
            (onSvc (StartAppHostService E (lk_scm K))))
          (\<lambda>m. case poll (rounds 10000) (apsnd (hm_svc_update (sm_sleep (lk_scm K) 200)))
                      (healthRound E K (sm_now (lk_scm K) (hm_svc m) + 10000)) (Inl (svcError ''no time'')) (svcError [], m) of
                  (r, (_, m')) \<Rightarrow> (r, m')))
       preturn"

definition parseAppHostResponse :: "golib \<Rightarrow> string \<Rightarrow> (svcErr, HelperResponse) result" where
  "parseAppHostResponse E body =
     (case parseResponse E body of
        None \<Rightarrow> Inl (svcError ''parse apphost response'')
      | Some resp \<Rightarrow>
          if hr_OK resp then Inr resp
          else Inl (svcError (''windows apphost: '' @ (if hr_Error resp = [] then ''apphost request failed'' else hr_Error resp))))"

definition isAppHostPipeDisconnect :: "golib \<Rightarrow> svcErr \<Rightarrow> bool" where
  "isAppHostPipeDisconnect E e \<longleftrightarrow>
     sv_code e = 109 \<or> sv_code e = 233 \<or> Contains (ToLower E (sv_text e)) ''no process is on the other end of the pipe''"

definition stamped :: "('p, 'os, 'w) link \<Rightarrow> string \<Rightarrow> HelperRequest \<Rightarrow> HelperRequest" where
  "stamped K token req = req\<lparr>hq_Version := 1, hq_ParentPID := lk_pid K, hq_Token := token\<rparr>"

definition runAppHostRequestPlatform :: "golib \<Rightarrow> ('p, 'os, 'w) link \<Rightarrow> HelperRequest \<Rightarrow> ('p, 'os, 'w, HelperResponse) clientProc" where
  "runAppHostRequestPlatform E K req =
     pthen (ensureAppHostStarted E K)
    (pbind (onSvc (lk_token K)) (\<lambda>token.
     let body = requestBody (stamped K token req) in
     handling (appHostPipeRoundTrip K body)
       (\<lambda>e. if isAppHostPipeDisconnect E e
            then handling (onSvc (restartAppHostService E (lk_scm K)))
                   (\<lambda>r. praise (e\<lparr>sv_text := sv_text e @ ''; apphost restart failed: '' @ sv_text r\<rparr>))
                   (\<lambda>_. pbind (appHostPipeRoundTrip K body) (\<lambda>resp. plift (parseAppHostResponse E resp)))
            else praise e)
       (\<lambda>resp. plift (parseAppHostResponse E resp))))"

text \<open>The helper the operations of \<open>privilege.go\<close> use on Windows; its errors are texts.\<close>

definition runPrivilegedRequest :: "golib \<Rightarrow> ('p, 'os, 'w) link \<Rightarrow> HelperRequest \<Rightarrow> (('p, 'os, 'w) hostMachine, gerr, HelperResponse) proc" where
  "runPrivilegedRequest E K req = failing (\<lambda>e. newErr (sv_text e)) (runAppHostRequestPlatform E K req)"

subsection \<open>What a request can change\<close>

definition keeping :: "('s \<Rightarrow> 'b) \<Rightarrow> 's \<Rightarrow> 's \<Rightarrow> bool" where
  "keeping f m m' \<longleftrightarrow> f m' = f m"

lemma keeping_preorder [simp]: "reflp (keeping f)" "transp (keeping f)"
  by (auto simp: keeping_def reflp_def transp_def)

lemma keeps_failing: "keeps R m \<Longrightarrow> keeps R (failing f m)" "keeps R m \<Longrightarrow> keeps R (wrapping c m)"
  by (auto simp: keeps_def failing_def wrapping_def split: prod.splits sum.splits) (metis snd_conv)+

lemma keeps_packages:
  "keeps (keeping mc_hosts) (onCerts V cfg f)" "keeps (keeping mc_dns) (onCerts V cfg f)"
  "keeps (keeping (\<lambda>m. hf_text (mc_hosts m) x)) (onCerts V cfg f)"
  "keeps (keeping mc_certs) (onHosts V g)" "keeps (keeping mc_dns) (onHosts V g)"
  "keeps (keeping mc_certs) (onDNS V h)" "keeps (keeping mc_hosts) (onDNS V h)"
  by (auto simp: keeps_def keeping_def onCerts_def onHosts_def onDNS_def split: prod.splits)

lemma keeps_hostsPreflight: "keeps (keeping f) (hostsPreflight V cfg)"
  by (auto simp: keeps_def keeping_def hostsPreflight_def onHosts_def split: prod.splits)

lemma keeps_hostsApply:
  assumes "x \<noteq> ha_Path cfg"
  shows "keeps (keeping (\<lambda>m. hf_text (mc_hosts m) x)) (hostsApply V cfg)"
  using assms
  by (auto simp: keeps_def keeping_def hostsApply_def onHosts_def Hosts.ApplyWithPlatform_def Hosts.WriteState_def writeText_def
      Hosts.RemoveState_def Let_def split: prod.splits sum.splits option.splits if_splits)

lemmas package_defs = certIsInstalled_def certEnsureTrusted_def certUninstall_def hostsRestore_def
  dnsPreflight_def dnsApply_def dnsRestore_def

lemma keeps_prepare:
  "keeps (keeping mc_dns) (prepareHostsStartDirect V c h a)"
  "x \<noteq> ha_Path h \<Longrightarrow> keeps (keeping (\<lambda>m. hf_text (mc_hosts m) x)) (prepareHostsStartDirect V c h a)"
proof -
  have "keeps (keeping mc_dns) (hostsApply V h)" by (simp add: hostsApply_def keeps_packages)
  then show "keeps (keeping mc_dns) (prepareHostsStartDirect V c h a)"
    unfolding prepareHostsStartDirect_def
    by (auto intro!: keeps_intros keeps_failing keeps_hostsPreflight simp: package_defs keeps_packages)
  show "keeps (keeping (\<lambda>m. hf_text (mc_hosts m) x)) (prepareHostsStartDirect V c h a)" if "x \<noteq> ha_Path h"
    unfolding prepareHostsStartDirect_def using that
    by (auto intro!: keeps_intros keeps_failing keeps_hostsPreflight keeps_hostsApply simp: package_defs keeps_packages)
qed

text \<open>The commands, and the part of the machine each of them works on.\<close>

definition certCommands :: "string set" where
  "certCommands = {CommandPrepareHostsStart, CommandTrustRootCA, CommandUntrustRootCA}"

definition hostsCommands :: "string set" where
  "hostsCommands = {CommandPrepareHostsStart, CommandRestoreHosts}"

definition dnsCommands :: "string set" where
  "dnsCommands = {CommandPreflightSystemDNS, CommandApplySystemDNS, CommandRestoreSystemDNS}"

lemma keeps_execute:
  "hq_Command q \<notin> certCommands \<Longrightarrow> keeps (keeping mc_certs) (executeHelperRequest V q)"
  "hq_Command q \<notin> hostsCommands \<Longrightarrow> keeps (keeping mc_hosts) (executeHelperRequest V q)"
  "hq_Command q \<notin> dnsCommands \<Longrightarrow> keeps (keeping mc_dns) (executeHelperRequest V q)"
  "hq_Command q = CommandPrepareHostsStart \<Longrightarrow> x \<noteq> ha_Path (hq_Hosts q) \<Longrightarrow>
     keeps (keeping (\<lambda>m. hf_text (mc_hosts m) x)) (executeHelperRequest V q)"
  unfolding executeHelperRequest_def Let_def
  by (auto intro!: keeps_intros simp: package_defs keeps_packages keeps_prepare certCommands_def hostsCommands_def dnsCommands_def)

subsection \<open>Requests that are accepted\<close>

definition allowedRollback :: "('k, 'p, 'os) privEnv \<Rightarrow> string \<Rightarrow> bool" where
  "allowedRollback V path \<longleftrightarrow> TrimSpace path \<noteq> [] \<and> isAllowedProjectPath V path (dp_Rollback (pv_defaults V))"

definition allowedCertDir :: "('k, 'p, 'os) privEnv \<Rightarrow> string \<Rightarrow> bool" where
  "allowedCertDir V dir \<longleftrightarrow> TrimSpace dir \<noteq> [] \<and> isAllowedProjectPath V dir (dp_CertDir (pv_defaults V))"

text \<open>What an accepted request may have changed: nothing outside the settings of the program.\<close>

definition confined ::
    "('k, 'p, 'os) privEnv \<Rightarrow> HelperRequest \<Rightarrow> ('p, 'os, 'z) machine_scheme \<Rightarrow> ('p, 'os, 'z) machine_scheme \<Rightarrow> bool" where
  "confined V q m m' \<longleftrightarrow>
     (mc_certs m' = mc_certs m \<or>
        hq_Command q \<in> certCommands \<and> allowedCertDir V (cq_Dir (hq_Cert q))) \<and>
     (mc_hosts m' = mc_hosts m \<or>
        hq_Command q = CommandRestoreHosts \<and> allowedRollback V (hq_RollbackPath q) \<or>
        hq_Command q = CommandPrepareHostsStart \<and> allowedRollback V (ha_RollbackPath (hq_Hosts q)) \<and>
        samePath V (ha_Path (hq_Hosts q)) (dp_Hosts (pv_defaults V)) \<and>
        (\<forall>x. x = ha_Path (hq_Hosts q) \<or> hf_text (mc_hosts m') x = hf_text (mc_hosts m) x)) \<and>
     (mc_dns m' = mc_dns m \<or>
        hq_Command q = CommandRestoreSystemDNS \<and> allowedRollback V (hq_RollbackPath q) \<or>
        hq_Command q \<in> dnsCommands \<and> allowedRollback V (dz_RollbackPath (hq_SystemDNS q)) \<and>
        list_all loopbackServer (dz_ServerIPs (hq_SystemDNS q)))"

lemmas validate_defs = validatePrivilegedRequest_def validateRollbackPath_def validateCertRequest_def
  validateHostsConfigForHelper_def validateSystemDNSConfigForHelper_def

lemma accepted_paths:
  assumes "validatePrivilegedRequest V q = Inr ()"
  shows "hq_Command q \<in> certCommands \<Longrightarrow> allowedCertDir V (cq_Dir (hq_Cert q))"
    and "hq_Command q = CommandRestoreHosts \<or> hq_Command q = CommandRestoreSystemDNS \<Longrightarrow> allowedRollback V (hq_RollbackPath q)"
    and "hq_Command q = CommandPrepareHostsStart \<Longrightarrow>
      allowedRollback V (ha_RollbackPath (hq_Hosts q)) \<and> samePath V (ha_Path (hq_Hosts q)) (dp_Hosts (pv_defaults V))"
    and "hq_Command q = CommandPreflightSystemDNS \<or> hq_Command q = CommandApplySystemDNS \<Longrightarrow>
      allowedRollback V (dz_RollbackPath (hq_SystemDNS q)) \<and> list_all loopbackServer (dz_ServerIPs (hq_SystemDNS q))"
  using assms by (auto simp: validate_defs allowedCertDir_def allowedRollback_def certCommands_def res_simps)

lemma executed_confined:
  assumes "validatePrivilegedRequest V q = Inr ()" and "executeHelperRequest V q m = (r, m')"
  shows "confined V q m m'"
proof -
  note keep = keepsD [OF keeps_execute(1) assms(2)] keepsD [OF keeps_execute(2) assms(2)]
    keepsD [OF keeps_execute(3) assms(2)] keepsD [OF keeps_execute(4) assms(2)]
  have "mc_certs m' = mc_certs m \<or> hq_Command q \<in> certCommands" using keep(1) by (auto simp: keeping_def)
  moreover have "mc_hosts m' = mc_hosts m \<or> hq_Command q \<in> hostsCommands" using keep(2) by (auto simp: keeping_def)
  moreover have "mc_dns m' = mc_dns m \<or> hq_Command q \<in> dnsCommands" using keep(3) by (auto simp: keeping_def)
  moreover have "x = ha_Path (hq_Hosts q) \<or> hf_text (mc_hosts m') x = hf_text (mc_hosts m) x"
    if "hq_Command q = CommandPrepareHostsStart" for x
    using keep(4) [OF that, of x] by (auto simp: keeping_def)
  ultimately show ?thesis
    using accepted_paths [OF assms(1)] unfolding confined_def hostsCommands_def dnsCommands_def by blast
qed

lemma handlePipe_cases:
  assumes "handlePipe V A client (p, m) = (p', m')"
  obtains (refused) "m' = m"
  | (accepted) pid body q where "client = Inr pid" and "validateAppHostClientProcess V A pid = Inr ()"
    and "fst (readPipeFrame (of_nat appHostMaxFrame) p) = Inr body" and "parseRequest (pv_lib V) body = Some q"
    and "validateAppHostRequest V q (int pid) = Inr ()" and "m' = snd (executeHelperRequest V q m)"
proof -
  obtain resp p1 where "handlePipeRequest V A client (p, m) = (resp, (p1, m'))"
    using assms by (auto simp: handlePipe_def split: prod.splits)
  then consider "m' = m" | pid body q p2 resp where "client = Inr pid" "validateAppHostClientProcess V A pid = Inr ()"
    "readPipeFrame (of_nat appHostMaxFrame) p = (Inr body, p2)" "parseRequest (pv_lib V) body = Some q"
    "validateAppHostRequest V q (int pid) = Inr ()" "executeAccepted V q m = (resp, m')"
    by (auto simp: handlePipeRequest_def split: sum.splits prod.splits option.splits)
  then show thesis
  proof cases
    case 2
    then show thesis
      by (intro accepted [of pid body q]) (auto simp: executeAccepted_def split: prod.splits sum.splits)
  qed (rule refused)
qed


subsection \<open>The way through the pipe\<close>

definition faithful :: "transport \<Rightarrow> bool" where
  "faithful T \<longleftrightarrow> (\<forall>s. concat (tr_cut T s) = s \<and> [] \<notin> set (tr_cut T s)) \<and>
     (\<forall>rs \<in> {tr_clientRoom T, tr_serverRoom T}. list_all (\<lambda>r. 0 < r) rs \<and> 4 + appHostMaxFrame \<le> length rs)"

lemma faithful_room:
  assumes "faithful T" and "fits body"
  shows "room \<lparr>pp_in = cs, pp_room = tr_clientRoom T, pp_out = s\<rparr> (4 + length body)"
    and "room \<lparr>pp_in = cs, pp_room = tr_serverRoom T, pp_out = s\<rparr> (4 + length body)"
  using assms by (auto simp: faithful_def room_def fits_def)

lemma faithful_brings: "faithful T \<Longrightarrow> brings \<lparr>pp_in = tr_cut T (frame body), pp_room = rs, pp_out = s\<rparr> (frame body @ [])"
  by (simp add: faithful_def brings_def)

text \<open>A request that is let through, with a response that can be sent.\<close>

definition served :: "('k, 'p, 'os) privEnv \<Rightarrow> appHostEnv \<Rightarrow> nat \<Rightarrow> HelperRequest \<Rightarrow> ('p, 'os, 'z) machine_scheme \<Rightarrow> bool" where
  "served V A pid q m \<longleftrightarrow>
     validateAppHostClientProcess V A pid = Inr () \<and> sendableRequest q \<and> fits (requestBody q) \<and>
     validateAppHostRequest V q (int pid) = Inr () \<and>
     sendableResponse (fst (executeAccepted V q m)) \<and> fits (responseBody (fst (executeAccepted V q m)))"

lemma handlePipe_serves:
  assumes "served V A pid q m" and "faithful T"
  shows "\<exists>rs cs. handlePipe V A (Inr pid) (\<lparr>pp_in = tr_cut T (frame (requestBody q)), pp_room = tr_serverRoom T, pp_out = []\<rparr>, m) =
    (\<lparr>pp_in = cs, pp_room = rs, pp_out = frame (responseBody (fst (executeAccepted V q m)))\<rparr>, snd (executeAccepted V q m))"
proof -
  let ?p = "\<lparr>pp_in = tr_cut T (frame (requestBody q)), pp_room = tr_serverRoom T, pp_out = []\<rparr>"
  from assms(1) have req: "fits (requestBody q)" "sendableRequest q" by (simp_all add: served_def)
  obtain cs where "readPipeFrame (of_nat appHostMaxFrame) ?p = (Inr (requestBody q), ?p\<lparr>pp_in := cs\<rparr>)"
    using readPipeFrame_in [OF req(1) faithful_brings [OF assms(2)]] by blast
  then have "handlePipeRequest V A (Inr pid) (?p, m) = (fst (executeAccepted V q m), (?p\<lparr>pp_in := cs\<rparr>, snd (executeAccepted V q m)))"
    using assms(1) parseRequest_body [OF req(2)] by (simp add: handlePipeRequest_def served_def split_beta)
  moreover have "fits (responseBody (fst (executeAccepted V q m)))" using assms(1) by (simp add: served_def)
  from writePipeFrame_out [OF this faithful_room(2) [OF assms(2) this, of cs "[]"]]
  obtain rs where "writePipeFrame (responseBody (fst (executeAccepted V q m))) (?p\<lparr>pp_in := cs\<rparr>) =
      (Inr (), \<lparr>pp_in = cs, pp_room = rs, pp_out = frame (responseBody (fst (executeAccepted V q m)))\<rparr>)"
    by auto
  ultimately show ?thesis by (auto simp: handlePipe_def)
qed

lemma exchange_serves:
  assumes "served V A pid q m" and "faithful T" and "lk_server K = handlePipe V A (Inr pid)"
  shows "exchange K T (requestBody q) m =
    (Inr (responseBody (fst (executeAccepted V q m))), snd (executeAccepted V q m))"
proof -
  let ?resp = "responseBody (fst (executeAccepted V q m))"
  from assms(1) have fits: "fits (requestBody q)" "fits ?resp" by (simp_all add: served_def)
  obtain rs where sent: "writePipeFrame (requestBody q) \<lparr>pp_in = [], pp_room = tr_clientRoom T, pp_out = []\<rparr> =
      (Inr (), \<lparr>pp_in = [], pp_room = rs, pp_out = frame (requestBody q)\<rparr>)"
    using writePipeFrame_out [OF fits(1) faithful_room(1) [OF assms(2) fits(1), of "[]" "[]"]] by auto
  obtain rs' cs where "handlePipe V A (Inr pid) (\<lparr>pp_in = tr_cut T (frame (requestBody q)), pp_room = tr_serverRoom T, pp_out = []\<rparr>, m) =
      (\<lparr>pp_in = cs, pp_room = rs', pp_out = frame ?resp\<rparr>, snd (executeAccepted V q m))"
    using handlePipe_serves [OF assms(1,2)] by blast
  moreover obtain cs' where "readPipeFrame (of_nat appHostMaxFrame)
      \<lparr>pp_in = tr_cut T (frame ?resp), pp_room = rs, pp_out = frame (requestBody q)\<rparr> =
      (Inr ?resp, \<lparr>pp_in = cs', pp_room = rs, pp_out = frame (requestBody q)\<rparr>)"
    using readPipeFrame_in [OF fits(2) faithful_brings [OF assms(2), of _ rs "frame (requestBody q)"]] by auto
  ultimately show ?thesis using sent assms(3) by (simp add: exchange_def)
qed

definition connected :: "('p, 'os, 'w) link \<Rightarrow> transport \<Rightarrow> string \<Rightarrow> bool" where
  "connected K T token \<longleftrightarrow> (\<forall>w. lk_open K w = (Inr T, w)) \<and> (\<forall>w. lk_token K w = (Inr token, w))"

lemma roundTrip_serves:
  assumes "served V A pid q m" and "faithful T" and "lk_server K = handlePipe V A (Inr pid)" and "connected K T token"
  shows "appHostPipeRoundTrip K (requestBody q) m =
    (Inr (responseBody (fst (executeAccepted V q m))), snd (executeAccepted V q m))"
  using exchange_serves [OF assms(1-3)] assms(4)
  by (simp add: appHostPipeRoundTrip_def connected_def pbind_def failing_def map_err_def onSvc_def)

lemma stamped_fields:
  "hq_Command (stamped K token req) = hq_Command req" "hq_Cert (stamped K token req) = hq_Cert req"
  "hq_Hosts (stamped K token req) = hq_Hosts req" "hq_SystemDNS (stamped K token req) = hq_SystemDNS req"
  "hq_RollbackPath (stamped K token req) = hq_RollbackPath req" "hq_AutoInstall (stamped K token req) = hq_AutoInstall req"
  by (simp_all add: stamped_def)

lemma execute_stamped: "executeHelperRequest V (stamped K token req) = executeHelperRequest V req"
  by (simp only: executeHelperRequest_def stamped_fields)

lemma execute_OK: "executeHelperRequest V q m = (Inr p, m') \<Longrightarrow> hr_OK p"
  by (auto simp: executeHelperRequest_def Let_def proc_simps okResponse_def split: if_splits)

lemma health_serves:
  assumes "served V A pid (healthRequest K) m" and "faithful T" and "lk_server K = handlePipe V A (Inr pid)"
    and "connected K T token" and "pv_HasSystemPrivileges V"
  shows "appHostHealth E K m = (Inr (), m)"
proof -
  have run: "executeAccepted V (healthRequest K) m = (okResponse, m)"
    using assms(5) by (simp add: executeAccepted_def executeHelperRequest_def healthRequest_def preturn_def)
  then have "parseResponse E (responseBody okResponse) = Some okResponse"
    using assms(1) by (simp add: served_def parseResponse_body)
  with roundTrip_serves [OF assms(1-4)] run show ?thesis
    by (simp add: appHostHealth_def pbind_def okResponse_def preturn_def)
qed

text \<open>
  C30.  A request that goes through the privileged host does what the same operation does
  in a privileged process: with a host that answers, the JSON text, the frames and the pipe are invisible, for every way
  the bytes are cut, and the caller gets the response of the operation, or its error with the
  name of the host before it.
\<close>

theorem apphost_transparent:
  assumes "connected K T token" and "faithful T" and "lk_server K = handlePipe V A (Inr pid)" and "pv_HasSystemPrivileges V"
    and "served V A pid (healthRequest K) m" and "served V A pid (stamped K token req) m"
  shows "runPrivilegedRequest E K req m =
    (case executeHelperRequest V req m of
       (Inr p, m') \<Rightarrow> (Inr p, m')
     | (Inl e, m') \<Rightarrow> (Inl (newErr (''windows apphost: '' @ pv_helperStatus V @ '': '' @ ge_text e)), m'))"
proof -
  let ?q = "stamped K token req"
  have health: "ensureAppHostStarted E K m = (Inr (), m)"
    using health_serves [OF assms(5,2,3,1,4)] by (simp add: ensureAppHostStarted_def handling_def preturn_def)
  have token: "onSvc (lk_token K) m = (Inr token, m)" using assms(1) by (simp add: connected_def onSvc_def)
  have trip: "appHostPipeRoundTrip K (requestBody ?q) m =
      (Inr (responseBody (fst (executeAccepted V ?q m))), snd (executeAccepted V ?q m))"
    using roundTrip_serves [OF assms(6,2,3,1)] .
  have parse: "parseResponse E (responseBody (fst (executeAccepted V ?q m))) = Some (fst (executeAccepted V ?q m))"
    using assms(6) by (simp add: served_def parseResponse_body)
  have "runAppHostRequestPlatform E K req m =
      (parseAppHostResponse E (responseBody (fst (executeAccepted V ?q m))), snd (executeAccepted V ?q m))"
    using health token trip
    by (simp add: runAppHostRequestPlatform_def pthen_def pbind_def handling_def Let_def plift_def)
  then show ?thesis
    using parse execute_OK [of V req m]
    by (auto simp: runPrivilegedRequest_def failing_def parseAppHostResponse_def map_err_def executeAccepted_def execute_stamped
        failedResponse_def svcError_def split: prod.splits sum.splits)
qed

subsection \<open>Samples\<close>

definition sampleServer :: "(nat, winStores, bool) privEnv" where
  "sampleServer =
     \<lparr>pv_lib = sampleLib, pv_paths = unixPaths ''/'', pv_crypto = sampleCrypto, pv_certPlatform = WinCerts.samplePlatform,
      pv_hostsPlatform = Hosts.samplePlatform, pv_dnsPlatform = SystemDns.windowsPlatform sampleLib sampleShell,
      pv_defaults = \<lparr>dp_Hosts = ''/etc/hosts'', dp_CertDir = ''/c'', dp_State = ''/run/s'', dp_Rollback = ''/run/r''\<rparr>,
      pv_goos = ''windows'', pv_HasSystemPrivileges = True, pv_helperStatus = ''helper'',
      pv_certText = (\<lambda>_. (''certificate'', False)), pv_hostsText = (\<lambda>_. (''hosts'', False)), pv_dnsText = (\<lambda>_. (''dns'', False))\<rparr>"

definition sampleHost :: appHostEnv where
  "sampleHost = \<lparr>ah_processImagePath = (\<lambda>_. Inr ''/app''), ah_Executable = Inr ''/app'', ah_EvalSymlinks = Some\<rparr>"

definition sampleTransport :: transport where
  "sampleTransport = \<lparr>tr_clientRoom = replicate (4 + appHostMaxFrame) 1, tr_serverRoom = replicate (4 + appHostMaxFrame) 1,
     tr_cut = (\<lambda>s. if s = [] then [] else [s])\<rparr>"

definition sampleLink :: "(winStores, bool, sampleSvc) link" where
  "sampleLink = \<lparr>lk_scm = sampleScm, lk_open = (\<lambda>w. (Inr sampleTransport, w)),
     lk_server = handlePipe sampleServer sampleHost (Inr 7), lk_pid = 7, lk_token = (\<lambda>w. (Inr ''t'', w))\<rparr>"

definition sampleRestore :: HelperRequest where
  "sampleRestore = emptyRequest\<lparr>hq_Command := CommandRestoreHosts, hq_RollbackPath := ''/run/r''\<rparr>"

definition sampleState :: HostsState where
  "sampleState = \<lparr>hs_Kind = hostsStateKind, hs_Version = 1, hs_OS = ''windows'', hs_Mode = ModeHosts, hs_Path = ''/etc/hosts'',
     hs_MapIP = ''127.0.0.1'', hs_Entries = []\<rparr>"

definition sampleComputer :: "(winStores, bool, sampleSvc) hostMachine" where
  "sampleComputer = \<lparr>mc_certs = emptyCertWorld emptyStores,
     mc_hosts = \<lparr>hf_text = (\<lambda>_. Some ''x''), hf_json = [''/run/r'' \<mapsto> Hosts.encodeState sampleState]\<rparr>,
     mc_dns = sampleMachine, hm_svc = (0, Some Running)\<rparr>"

lemma faithful_sampleTransport: "faithful sampleTransport"
  by (simp add: faithful_def sampleTransport_def list_all_iff)

lemma sample_paths_apphost:
  "TrimPrefix ''/app'' deviceNamespace = ''/app''" "unixAbs ''/'' ''/app'' = ''/app''" "unixClean ''/app'' = ''/app''"
  "EqualFold sampleLib ''/app'' ''/app''" "TrimSpace ''/run/r'' = ''/run/r''" "unixDir ''/run/r'' = ''/run''"
  "unixAbs ''/'' ''/run/r'' = ''/run/r''" "unixAbs ''/'' ''/run'' = ''/run''" "unixClean ''/run/r'' = ''/run/r''"
  "unixClean ''/run'' = ''/run''" "ToLower sampleLib ''/run/r'' = ''/run/r''" "ToLower sampleLib ''/run'' = ''/run''"
  "unixRel ''/run'' ''/run/r'' = Some ''r''" "TrimSpace ''t'' = ''t''" "TrimSpace ''health'' = ''health''"
  by code_simp+

lemma sample_client: "validateAppHostClientProcess sampleServer sampleHost 7 = Inr ()"
  by (simp add: validateAppHostClientProcess_def normalizeExecutablePath_def sampleServer_def sampleHost_def unixPaths_def
      sample_paths_apphost res_simps map_err_def ensure_def)

definition sampleSent :: "string \<Rightarrow> string \<Rightarrow> string \<Rightarrow> HelperRequest" where
  "sampleSent token command path = emptyRequest\<lparr>hq_Version := 1, hq_ParentPID := 7, hq_Token := token, hq_Command := command,
     hq_RollbackPath := path\<rparr>"

lemma sample_sent:
  "stamped sampleLink ''t'' sampleRestore = sampleSent ''t'' CommandRestoreHosts ''/run/r''"
  "healthRequest sampleLink = sampleSent ''health'' CommandAppHostHealth []"
  by (simp_all add: stamped_def healthRequest_def sampleLink_def sampleRestore_def sampleSent_def emptyRequest_def)

lemma sample_accepts:
  "validateAppHostRequest sampleServer (stamped sampleLink ''t'' sampleRestore) 7 = Inr ()"
  "validateAppHostRequest sampleServer (healthRequest sampleLink) 7 = Inr ()"
proof -
  have "isAllowedProjectPath sampleServer ''/run/r'' ''/run/r''"
    by (simp add: isAllowedProjectPath_def isUnderOrEqual_def sampleServer_def unixPaths_def sample_paths_apphost HasPrefix_def)
  then show "validateAppHostRequest sampleServer (stamped sampleLink ''t'' sampleRestore) 7 = Inr ()"
    "validateAppHostRequest sampleServer (healthRequest sampleLink) 7 = Inr ()"
    unfolding sample_sent
    by (simp_all add: validateAppHostRequest_def sampleSent_def emptyRequest_def validatePrivilegedRequest_def validateRollbackPath_def
        sample_paths_apphost res_simps ensure_def) (simp add: sampleServer_def)
qed

lemma sample_sendable:
  "sendableRequest (stamped sampleLink ''t'' sampleRestore)" "sendableRequest (healthRequest sampleLink)"
  unfolding sample_sent by code_simp+

lemma sample_lengths:
  "requestBody (sampleSent ''t'' CommandRestoreHosts ''/run/r'') \<noteq> []"
  "length (requestBody (sampleSent ''t'' CommandRestoreHosts ''/run/r'')) < 1000"
  "requestBody (sampleSent ''health'' CommandAppHostHealth []) \<noteq> []"
  "length (requestBody (sampleSent ''health'' CommandAppHostHealth [])) < 1000"
  by code_simp+

lemma sample_execute:
  "executeHelperRequest sampleServer sampleRestore sampleComputer =
    (Inr okResponse, sampleComputer\<lparr>mc_hosts := \<lparr>hf_text = (\<lambda>_. Some ''x'')(''/etc/hosts'' \<mapsto> removeManagedBlock ''x''), hf_json = (\<lambda>_. None)\<rparr>\<rparr>)"
  by (simp add: executeHelperRequest_def sampleServer_def sampleRestore_def sampleComputer_def hostsRestore_def onHosts_def
      Hosts.RestoreWithPlatform_def Hosts.ReadState_def sampleState_def Hosts.samplePlatform_def writeText_def Hosts.RemoveState_def Hosts.decode_encode_state pthen_def pbind_def
      map_err_def preturn_def fun_eq_iff)

lemma sample_response: "sendableResponse okResponse" "responseBody okResponse \<noteq> []" "length (responseBody okResponse) < 1000"
  by code_simp+
lemma sample_served:
  "served sampleServer sampleHost 7 (stamped sampleLink ''t'' sampleRestore) sampleComputer"
  "served sampleServer sampleHost 7 (healthRequest sampleLink) sampleComputer"
proof -
  have "executeHelperRequest sampleServer (healthRequest sampleLink) sampleComputer = (Inr okResponse, sampleComputer)"
    by (simp add: executeHelperRequest_def healthRequest_def sampleServer_def preturn_def)
  then show "served sampleServer sampleHost 7 (healthRequest sampleLink) sampleComputer"
    using sample_client sample_accepts(2) sample_sendable(2) sample_lengths(3,4) sample_response
    unfolding sample_sent by (simp add: served_def fits_def appHostMaxFrame_def executeAccepted_def)
  show "served sampleServer sampleHost 7 (stamped sampleLink ''t'' sampleRestore) sampleComputer"
    using sample_client sample_accepts(1) sample_sendable(1) sample_lengths(1,2) sample_response sample_execute
    unfolding served_def executeAccepted_def execute_stamped unfolding sample_sent by (simp add: fits_def appHostMaxFrame_def)
qed


theorem apphost_transparent_witness:
  "fst (runPrivilegedRequest sampleLib sampleLink sampleRestore sampleComputer) = Inr okResponse"
proof -
  have "connected sampleLink sampleTransport ''t''" "lk_server sampleLink = handlePipe sampleServer sampleHost (Inr 7)"
    "pv_HasSystemPrivileges sampleServer"
    by (simp_all add: connected_def sampleLink_def sampleServer_def)
  from apphost_transparent [OF this(1) faithful_sampleTransport this(2,3) sample_served(2,1)] sample_execute
  show ?thesis by simp
qed

text \<open>
  An error of an operation that went through the host is only a text.  A missing rollback
  state, which the direct operation reports as such, is no longer recognised.
\<close>

lemma missing_state_unrecognised:
  assumes "runPrivilegedRequest E K q m = (Inl e, m')"
  shows "\<not> ge_noState e"
  using assms by (auto simp: runPrivilegedRequest_def failing_def map_err_def newErr_def split: prod.splits sum.splits)

lemma missing_state_recognised_directly:
  assumes "hf_json (mc_hosts m) path = None"
  shows "\<exists>e. hostsRestore V path m = (Inl e, m) \<and> ge_noState e"
  using assms by (simp add: hostsRestore_def onHosts_def Hosts.RestoreWithPlatform_def Hosts.ReadState_def map_err_def hostsErr_def)

end
