(* ===== verification/EngineSystem.thy ===== *)
theory EngineSystem
  imports EngineRuns AppHost
begin

section \<open>The engine on a computer\<close>

text \<open>
  The functions that \<^verbatim>\<open>internal/engine/engine.go\<close> keeps in package variables, with the values
  they have in the program: the operations of the packages \<^verbatim>\<open>systemproxy\<close>,
  \<^verbatim>\<open>hosts\<close>, \<^verbatim>\<open>certstore\<close> and \<^verbatim>\<open>privilege\<close>.  The engine
  then runs on a computer whose settings these packages change, and its modes undo what they
  did, whether the changes were made directly, by the privileged host, or by the host after the direct way was denied.
\<close>

record ('p, 'os, 'x) computer = "('p, 'os) machine" +
  cm_proxy :: "'x world"

record ('p, 'os, 'x) engineParts =
  ep_proxyPlatform :: "'x Platform"
  ep_proxyText :: "proxy_error \<Rightarrow> string"
  ep_listen :: "srv \<Rightarrow> ('p, 'os, 'x) computer eworld \<Rightarrow> (gerr, string list) result"
  ep_stopErr :: "srv \<Rightarrow> ('p, 'os, 'x) computer eworld \<Rightarrow> gerr option"
  ep_probes :: "DirectDialer \<Rightarrow> ProbeTarget list \<Rightarrow> ProbeResult list"

definition onProxy :: "('p, 'os, 'x) engineParts \<Rightarrow> ('x world, proxy_error, 'a) proc \<Rightarrow> (('p, 'os, 'x) computer, gerr, 'a) proc" where
  "onProxy F m s =
     (case m (cm_proxy s) of
        (r, w) \<Rightarrow> (map_err (\<lambda>e. \<lparr>ge_text = ep_proxyText F e, ge_permission = False, ge_noState = (e = SystemProxy.NoState)\<rparr>) r,
                    s\<lparr>cm_proxy := w\<rparr>))"

definition certEnsureRootCA :: "('k, 'p, 'os) privEnv \<Rightarrow> certConfig \<Rightarrow> ('p, 'os, 'z, unit) sysProc" where
  "certEnsureRootCA V cfg = pthen (onCerts V cfg (EnsureRootCA (pv_crypto V) (pv_paths V))) (preturn ())"

text \<open>All packages keep their rollback state in one file, the path of which is in the configuration.\<close>

definition hasRollbackFile :: "string \<Rightarrow> ('p, 'os, 'x) computer \<Rightarrow> bool" where
  "hasRollbackFile path s \<longleftrightarrow>
     SystemProxy.HasState path (cm_proxy s) \<or>
     TrimSpace path \<noteq> [] \<and> (hf_json (mc_hosts s) path \<noteq> None \<or> wo_files (mc_dns s) path \<noteq> None)"

definition engineOps ::
    "('k, 'p, 'os) privEnv \<Rightarrow> ('p, 'os, 'x) engineParts \<Rightarrow>
       (HelperRequest \<Rightarrow> (('p, 'os, 'x) computer, gerr, HelperResponse) proc) \<Rightarrow> Config \<Rightarrow> ('p, 'os, 'x) computer engineEnv" where
  "engineOps V F H cfg =
     (let certCfg = CertStore.ConfigFromApp cfg in
      \<lparr>eo_listen = ep_listen F, eo_stopErr = ep_stopErr F,
       eo_applySystemProxy = (\<lambda>c. onProxy F (SystemProxy.ApplyWithPlatform (pv_lib V) c (ep_proxyPlatform F))),
       eo_restoreSystemProxy = (\<lambda>path. onProxy F (SystemProxy.RestoreWithPlatform path (ep_proxyPlatform F))),
       eo_hasRollbackState = hasRollbackFile,
       eo_preflightHosts = hostsPreflight V, eo_applyHosts = hostsApply V, eo_restoreHosts = RestoreHosts V H,
       eo_preflightSystemDNS = PreflightSystemDNS V H, eo_applySystemDNS = ApplySystemDNS V H,
       eo_restoreSystemDNS = RestoreSystemDNS V H,
       eo_isCertInstalled = certIsInstalled V certCfg, eo_ensureCertTrusted = EnsureCertTrusted V H certCfg,
       eo_ensureRootCA = certEnsureRootCA V certCfg, eo_prepareHostsElevated = PrepareHostsStartElevated H certCfg,
       eo_shouldUseHostHelper = ShouldUseHelper V, eo_runStartupProbes = ep_probes F, eo_goos = pv_goos V\<rparr>)"

subsection \<open>A helper that executes requests\<close>

text \<open>
  What \<open>apphost_transparent\<close> gives: a request is executed by the privileged process, or it fails
  before, and errors are texts.
\<close>

definition executes :: "('k, 'p, 'os) privEnv \<Rightarrow> (HelperRequest \<Rightarrow> (('p, 'os, 'z) machine_scheme, gerr, HelperResponse) proc) \<Rightarrow> bool" where
  "executes V H \<longleftrightarrow>
     (\<forall>q m. case H q m of
        (Inr p, m') \<Rightarrow> executeHelperRequest V q m = (Inr p, m')
      | (Inl e, m') \<Rightarrow> \<not> ge_noState e \<and> (m' = m \<or> (\<exists>e'. executeHelperRequest V q m = (Inl e', m'))))"

lemma executes_Inr: "executes V H \<Longrightarrow> H q m = (Inr p, m') \<Longrightarrow> executeHelperRequest V q m = (Inr p, m')"
  unfolding executes_def by (drule spec [of _ q], drule spec [of _ m]) simp

lemma executes_Inl:
  "executes V H \<Longrightarrow> H q m = (Inl e, m') \<Longrightarrow>
     \<not> ge_noState e \<and> (m' = m \<or> (\<exists>e'. executeHelperRequest V q m = (Inl e', m')))"
  unfolding executes_def by (drule spec [of _ q], drule spec [of _ m]) simp

lemma keeps_executes:
  assumes "executes V H" and "reflp R" and "keeps R (executeHelperRequest V q)"
  shows "keeps R (H q)"
  unfolding keeps_def
proof
  fix m
  obtain r m' where H: "H q m = (r, m')" by fastforce
  have "R m m'"
  proof (cases r)
    case (Inl e)
    from executes_Inl [OF assms(1) H [unfolded this]] show ?thesis
      using assms(2,3) by (auto simp: reflp_def dest: keepsD)
  next
    case (Inr p)
    from executes_Inr [OF assms(1) H [unfolded this]] show ?thesis using keepsD [OF assms(3)] by blast
  qed
  with H show "R m (snd (H q m))" by simp
qed

lemma keeps_withHelper:
  assumes "transp R" and "keeps R direct" and "keeps R elevated"
  shows "keeps R (withHelper use retry direct elevated)"
  using assms unfolding keeps_def withHelper_def
  by (auto split: prod.splits sum.splits) (metis snd_conv transpD)+

subsection \<open>The hosts file under start and stop\<close>

lemma hosts_apply_failed:
  "Hosts.ApplyWithPlatform cfg P fs = (Inl e, fs') \<Longrightarrow> hf_text fs' = hf_text fs"
  by (auto simp: Hosts.ApplyWithPlatform_def Hosts.WriteState_def writeText_def Hosts.RemoveState_def Let_def
      split: if_splits sum.splits option.splits prod.splits)

lemma hosts_restore_failed: "Hosts.RestoreWithPlatform path P fs = (Inl e, fs') \<Longrightarrow> fs' = fs"
  by (auto simp: Hosts.RestoreWithPlatform_def split: if_splits sum.splits option.splits prod.splits)

lemma apply_then_restore:
  assumes "Hosts.ApplyWithPlatform cfg P fs = (Inr (), fs1)" and "hf_text fs (ha_Path cfg) = Some original"
    and "normalEOL original" and "\<forall>e\<in>set (ha_Entries cfg). entryOK e"
    and "Hosts.RestoreWithPlatform (ha_RollbackPath cfg) P' fs1 = (Inr (), fs2)"
  shows "hf_text fs2 = (hf_text fs)(ha_Path cfg \<mapsto> removeManagedBlock original)"
    and "hf_json fs2 = (hf_json fs)(ha_RollbackPath cfg := None)"
proof -
  obtain fs1_eq: "fs1 = fs\<lparr>hf_json := (hf_json fs)(ha_RollbackPath cfg \<mapsto> Hosts.encodeState (applyState cfg P)),
      hf_text := (hf_text fs)(ha_Path cfg \<mapsto> appendManagedBlock original (ha_Entries cfg))\<rparr>"
    using ApplyWithPlatform_ok [OF assms(1)] assms(2) by auto
  have "removeManagedBlock (appendManagedBlock original (ha_Entries cfg)) = removeManagedBlock original"
    using baseText_append [OF assms(3,4)] by (simp add: removeManagedBlock_base)
  with assms(5) show "hf_text fs2 = (hf_text fs)(ha_Path cfg \<mapsto> removeManagedBlock original)"
    "hf_json fs2 = (hf_json fs)(ha_RollbackPath cfg := None)"
    by (auto simp: fs1_eq Hosts.RestoreWithPlatform_def Hosts.ReadState_def Hosts.decode_encode_state applyState_def
        writeText_def Hosts.RemoveState_def split: if_splits)
qed

text \<open>An operation that keeps the hosts texts, and one that ends by applying the block.\<close>

abbreviation texts :: "('p, 'os, 'z) machine_scheme \<Rightarrow> string \<Rightarrow> string option" where
  "texts s \<equiv> hf_text (mc_hosts s)"

definition block :: "HostsApply \<Rightarrow> (string \<Rightarrow> string option) \<Rightarrow> HostsFS \<Rightarrow> bool" where
  "block cfg t fs' \<longleftrightarrow> (\<exists>P fs. hf_text fs = t \<and> Hosts.ApplyWithPlatform cfg P fs = (Inr (), fs'))"

definition applies :: "HostsApply \<Rightarrow> (('p, 'os, 'z) machine_scheme, 'e, 'a) proc \<Rightarrow> bool" where
  "applies cfg m \<longleftrightarrow>
     (\<forall>s. case m s of (Inl _, s') \<Rightarrow> texts s' = texts s | (Inr _, s') \<Rightarrow> block cfg (texts s) (mc_hosts s'))"

lemma appliesD:
  assumes "applies cfg m"
  shows "m s = (Inl e, s') \<Longrightarrow> texts s' = texts s" "m s = (Inr x, s') \<Longrightarrow> block cfg (texts s) (mc_hosts s')"
  using spec [OF assms [unfolded applies_def], of s] by simp_all

lemma appliesI:
  assumes "\<And>s e s'. m s = (Inl e, s') \<Longrightarrow> texts s' = texts s"
    and "\<And>s x s'. m s = (Inr x, s') \<Longrightarrow> block cfg (texts s) (mc_hosts s')"
  shows "applies cfg m"
  unfolding applies_def
proof
  fix s
  obtain r s' where "m s = (r, s')" by fastforce
  then show "case m s of (Inl _, s') \<Rightarrow> texts s' = texts s | (Inr _, s') \<Rightarrow> block cfg (texts s) (mc_hosts s')"
    using assms by (cases r) simp_all
qed

lemma pbind_run: "pbind m f s = (r, s') \<longleftrightarrow> (\<exists>e. m s = (Inl e, s') \<and> r = Inl e) \<or> (\<exists>x s1. m s = (Inr x, s1) \<and> f x s1 = (r, s'))"
  by (auto simp: pbind_def split: prod.splits sum.splits)

lemma applies_hostsApply: "applies cfg (hostsApply V cfg)"
  by (rule appliesI) (auto simp: block_def hostsApply_def onHosts_def map_err_def split: prod.splits sum.splits dest: hosts_apply_failed)

lemma applies_after:
  assumes "keeps (keeping texts) m" and "\<And>x. applies cfg (f x)"
  shows "applies cfg (pbind m f)"
proof -
  have "texts s1 = texts s" if "m s = (r, s1)" for s r s1 using keepsD [OF assms(1) that] by (simp add: keeping_def)
  then show ?thesis by (intro appliesI) (auto simp: pbind_run dest!: appliesD [OF assms(2)])
qed

lemma applies_before:
  assumes "applies cfg m" and "\<And>x s. \<exists>y. f x s = (Inr y, s)"
  shows "applies cfg (pbind m f)"
proof (rule appliesI)
  fix s e s'
  assume "pbind m f s = (Inl e, s')"
  with assms(2) show "texts s' = texts s" by (auto simp: pbind_run dest: appliesD [OF assms(1)]) (metis Inl_Inr_False fst_conv)
next
  fix s x s'
  assume "pbind m f s = (Inr x, s')"
  then obtain y s1 where "m s = (Inr y, s1)" "f y s1 = (Inr x, s')" by (auto simp: pbind_run)
  with assms(2) [of y s1] show "block cfg (texts s) (mc_hosts s')" by (auto dest: appliesD [OF assms(1)])
qed

lemma preturn_runs: "\<exists>y. preturn z s = (Inr y, s)"
  by (simp add: preturn_def)

lemma applies_wrapping: "applies cfg m \<Longrightarrow> applies cfg (wrapping c m)"
  by (rule appliesI) (auto simp: wrapping_def dest: appliesD split: prod.splits sum.splits)

lemma applies_praise: "applies cfg (praise e)"
  by (simp add: applies_def praise_def)

lemma keeps_texts_certs: "keeps (keeping texts) (onCerts V c f)"
  by (auto simp: keeps_def keeping_def onCerts_def split: prod.splits)

lemma keeps_texts_pure: "keeps (keeping texts) (preturn x)" "keeps (keeping texts) (praise e)"
  by (simp_all add: keeps_pure)

lemmas keeps_texts = keeps_texts_certs keeps_texts_pure keeps_hostsPreflight keeps_failing

lemma applies_prepareDirect: "applies h (prepareHostsStartDirect V c h a)"
  unfolding prepareHostsStartDirect_def package_defs pthen_def
  by (intro applies_after applies_before applies_wrapping applies_hostsApply)
    (auto intro!: keeps_texts preturn_runs simp: certIsInstalled_def certEnsureTrusted_def)

lemma applies_execute:
  assumes "hq_Command q = CommandPrepareHostsStart"
  shows "applies (hq_Hosts q) (executeHelperRequest V q)"
    and "executeHelperRequest V q s = (Inr p, s') \<Longrightarrow> hr_Prepare p \<noteq> None"
proof -
  show "applies (hq_Hosts q) (executeHelperRequest V q)"
    using assms
    by (auto simp: executeHelperRequest_def Let_def intro!: applies_praise applies_before applies_prepareDirect preturn_runs)
  show "executeHelperRequest V q s = (Inr p, s') \<Longrightarrow> hr_Prepare p \<noteq> None"
    using assms by (auto simp: executeHelperRequest_def Let_def proc_simps split: if_splits)
qed

lemma applies_helper:
  assumes "executes Vs H" and "hq_Command q = CommandPrepareHostsStart"
  shows "applies (hq_Hosts q) (H q)"
  by (rule appliesI) (auto dest!: executes_Inl [OF assms(1)] executes_Inr [OF assms(1)] dest: appliesD [OF applies_execute(1) [OF assms(2)]])

lemma applies_elevated:
  assumes "executes Vs H"
  shows "applies h (PrepareHostsStartElevated H c h a)"
proof -
  let ?q = "emptyRequest\<lparr>hq_Command := CommandPrepareHostsStart, hq_Cert := certRequestFromConfig c, hq_Hosts := h, hq_AutoInstall := a\<rparr>"
  have "applies h (H ?q)" using applies_helper [OF assms, of ?q] by simp
  moreover have "H ?q s \<noteq> (Inr p, s')" if "hr_Prepare p = None" for s p s'
    using executes_Inr [OF assms, of ?q s p s'] applies_execute(2) [of ?q Vs s p s'] that by auto
  ultimately show ?thesis
    by (intro appliesI) (auto simp: PrepareHostsStartElevated_def pbind_run praise_def preturn_def split: option.splits dest: appliesD)
qed

lemma keeps_texts_trust:
  assumes "executes Vs H"
  shows "keeps (keeping texts) (EnsureCertTrusted V H c)"
proof -
  have mono: "keeps (keeping mc_hosts) m \<Longrightarrow> keeps (keeping texts) m" for m
    by (simp add: keeps_def keeping_def)
  have "keeps (keeping texts) (H q)" if "hq_Command q = CommandTrustRootCA" for q
    by (rule keeps_executes [OF assms _ mono]) (use that in \<open>auto intro!: keeps_execute(2) simp: hostsCommands_def\<close>)
  then have "keeps (keeping texts) (EnsureCertTrustedElevated H c)"
    unfolding EnsureCertTrustedElevated_def
    by (intro keeps_pbind keeping_preorder) (auto intro!: keeps_texts_pure split: option.splits)
  then show ?thesis
    unfolding EnsureCertTrusted_def certEnsureTrusted_def by (intro keeps_withHelper keeping_preorder keeps_texts_certs)
qed

lemma engineOps_fields:
  "eo_isCertInstalled (engineOps V F H c) = certIsInstalled V (CertStore.ConfigFromApp c)"
  "eo_ensureCertTrusted (engineOps V F H c) = EnsureCertTrusted V H (CertStore.ConfigFromApp c)"
  "eo_ensureRootCA (engineOps V F H c) = certEnsureRootCA V (CertStore.ConfigFromApp c)"
  "eo_prepareHostsElevated (engineOps V F H c) = PrepareHostsStartElevated H (CertStore.ConfigFromApp c)"
  "eo_preflightHosts (engineOps V F H c) = hostsPreflight V" "eo_applyHosts (engineOps V F H c) = hostsApply V"
  "eo_restoreHosts (engineOps V F H c) = RestoreHosts V H"
  by (simp_all add: engineOps_def Let_def)

lemma applies_prepareForStart:
  assumes "executes Vs H"
  shows "applies h (prepareHostsForStart E (engineOps V F H c) cfg h prefer)"
proof -
  let ?V = "engineOps V F H c"
  have helper: "applies h (prepareHostsWithHelper ?V h a)" for a
    unfolding prepareHostsWithHelper_def pthen_def engineOps_fields certEnsureRootCA_def
    by (intro applies_after applies_elevated [OF assms] keeps_failing keeps_pbind keeping_preorder keeps_texts_certs keeps_texts_pure)
  have direct: "applies h (prepareHostsDirect ?V scope h a)" for scope a
    unfolding prepareHostsDirect_def pthen_def engineOps_fields
    by (intro applies_after applies_before applies_wrapping applies_hostsApply)
      (auto intro!: keeps_texts preturn_runs keeps_texts_trust [OF assms] simp: certIsInstalled_def)
  show ?thesis
  proof (rule appliesI)
    fix s e s'
    assume "prepareHostsForStart E ?V cfg h prefer s = (Inl e, s')"
    then show "texts s' = texts s"
      by (auto simp: prepareHostsForStart_def Let_def split: if_splits prod.splits sum.splits dest!: appliesD(1) [OF helper] appliesD(1) [OF direct])
  next
    fix s x s'
    assume "prepareHostsForStart E ?V cfg h prefer s = (Inr x, s')"
    then show "block h (texts s) (mc_hosts s')"
      by (auto simp: prepareHostsForStart_def Let_def split: if_splits prod.splits sum.splits
          dest!: appliesD(2) [OF helper] appliesD(1,2) [OF direct])
  qed
qed

lemma hostsRestore_runs:
  "hostsRestore V path s = (Inr u, s') \<Longrightarrow> Hosts.RestoreWithPlatform path (pv_hostsPlatform V) (mc_hosts s) = (Inr (), mc_hosts s')"
  "hostsRestore V path s = (Inl e, s') \<Longrightarrow> mc_hosts s' = mc_hosts s"
  "hostsRestore V path s = (Inl e, s') \<Longrightarrow> ge_noState e \<Longrightarrow>
     fst (Hosts.RestoreWithPlatform path (pv_hostsPlatform V) (mc_hosts s)) = Inl Hosts.NoState"
  by (auto simp: hostsRestore_def onHosts_def map_err_def hostsErr_def split: prod.splits sum.splits dest: hosts_restore_failed)

lemma restore_elevated_runs:
  assumes "executes Vs H"
  shows "RestoreHostsElevated H path s = (Inr u, s') \<Longrightarrow>
      Hosts.RestoreWithPlatform path (pv_hostsPlatform Vs) (mc_hosts s) = (Inr (), mc_hosts s')"
    and "RestoreHostsElevated H path s = (Inl e, s') \<Longrightarrow> \<not> ge_noState e"
proof -
  let ?q = "emptyRequest\<lparr>hq_Command := CommandRestoreHosts, hq_RollbackPath := path\<rparr>"
  show "Hosts.RestoreWithPlatform path (pv_hostsPlatform Vs) (mc_hosts s) = (Inr (), mc_hosts s')"
    if "RestoreHostsElevated H path s = (Inr u, s')"
  proof -
    from that obtain p where "H ?q s = (Inr p, s')" by (auto simp: RestoreHostsElevated_def proc_simps)
    from executes_Inr [OF assms this] have "hostsRestore Vs path s = (Inr (), s')"
      by (auto simp: executeHelperRequest_def Let_def proc_simps split: if_splits)
    then show ?thesis by (rule hostsRestore_runs)
  qed
  show "\<not> ge_noState e" if "RestoreHostsElevated H path s = (Inl e, s')"
    using that executes_Inl [OF assms, of ?q s e s'] by (auto simp: RestoreHostsElevated_def pthen_def pbind_run preturn_def)
qed

lemma RestoreHosts_runs:
  assumes "executes Vs H"
  shows "RestoreHosts V H path s = (Inr u, s') \<Longrightarrow> \<exists>P. Hosts.RestoreWithPlatform path P (mc_hosts s) = (Inr (), mc_hosts s')"
    and "RestoreHosts V H path s = (Inl e, s') \<Longrightarrow> ge_noState e \<Longrightarrow>
      \<exists>P. fst (Hosts.RestoreWithPlatform path P (mc_hosts s)) = Inl Hosts.NoState"
  by (auto simp: RestoreHosts_def withHelper_def split: if_splits prod.splits sum.splits
      dest: restore_elevated_runs [OF assms] hostsRestore_runs) (metis hostsRestore_runs restore_elevated_runs [OF assms])+

lemma block_has_state:
  assumes "block cfg t fs"
  shows "fst (Hosts.RestoreWithPlatform (ha_RollbackPath cfg) P fs) \<noteq> Inl Hosts.NoState"
proof -
  obtain P0 fs0 where "Hosts.ApplyWithPlatform cfg P0 fs0 = (Inr (), fs)" using assms by (auto simp: block_def)
  from ApplyWithPlatform_ok [OF this]
  obtain original where "fs = fs0\<lparr>hf_json := (hf_json fs0)(ha_RollbackPath cfg \<mapsto> Hosts.encodeState (applyState cfg P0)),
      hf_text := (hf_text fs0)(ha_Path cfg \<mapsto> appendManagedBlock original (ha_Entries cfg))\<rparr>" by blast
  then show ?thesis
    by (auto simp: Hosts.RestoreWithPlatform_def Hosts.ReadState_def Hosts.decode_encode_state applyState_def writeText_def
        split: if_splits option.splits)
qed

subsection \<open>Starting and stopping in hosts mode\<close>

lemma startServer_sys: "startServer V k w = (Inr h, w') \<Longrightarrow> ew_sys w' = ew_sys w"
  by (auto simp: startServer_def split: sum.splits)

lemma start_hosts_mode:
  assumes "Start E V (e, w) = (Inr (), (e1, w1))" and "c_Mode (eg_cfg e) = ModeHosts"
    and "build E (eg_cfg e) = Inr b"
    and "fst (EntriesFromRules E (Rules (bu_matcher b)) (ho_MapIP (c_Hosts (eg_cfg e)))) = Inr es"
  obtains prep where "prepareHostsForStart E V (eg_cfg e) (Hosts.ConfigFromApp (eg_cfg e) es) (eo_shouldUseHostHelper V) (ew_sys w) =
      (Inr prep, ew_sys w1)" and "eg_cfg e1 = eg_cfg e" and "eg_reverse e1 \<noteq> None"
proof -
  obtain l where work: "launchHosts E V (eg_cfg e) b w = (Inr l, w1)" and e1: "e1 = commit E (b, l) e"
    using assms(1-3) by (auto simp: Start_def startWork_def launch_def proc_simps split: if_splits prod.splits sum.splits)
  from work obtain rev w0 prep where start: "startServer V SReverse w = (Inr rev, w0)"
    and prep: "onSys (prepareHostsForStart E V (eg_cfg e) (Hosts.ConfigFromApp (eg_cfg e) es) (eo_shouldUseHostHelper V)) w0 = (Inr prep, w1)"
    and l: "ln_reverse l = Some rev"
    using assms(4) by (auto simp: launchHosts_def proc_simps)
  from prep startServer_sys [OF start]
  have "prepareHostsForStart E V (eg_cfg e) (Hosts.ConfigFromApp (eg_cfg e) es) (eo_shouldUseHostHelper V) (ew_sys w) = (Inr prep, ew_sys w1)"
    by (auto simp: onSys_def split: prod.splits)
  with e1 l show thesis by (intro that) (auto simp: commit_def)
qed

lemma stopping_sys: "ew_sys (snd (stopping V h ew)) = ew_sys (snd ew)" "fst (stopping V h ew) = None \<Longrightarrow> fst ew = None"
  by (auto simp: stopping_def stopServer_def Let_def split: prod.splits option.splits if_splits)

lemma stop_hosts_mode:
  assumes "Stop V (e, w) = (None, (e', w'))" and "c_Mode (eg_cfg e) = ModeHosts" and "eg_reverse e \<noteq> None"
  shows "case eo_restoreHosts V (rt_RollbackPath (c_Runtime (eg_cfg e))) (ew_sys w) of
    (r, s) \<Rightarrow> ew_sys w' = s \<and> (case r of Inr _ \<Rightarrow> True | Inl err \<Rightarrow> ge_noState err)"
proof -
  let ?path = "rt_RollbackPath (c_Runtime (eg_cfg e))"
  let ?r = "restoring True (eo_restoreHosts V ?path) (None, w)"
  have mode: "\<not> usesSystemDNS (eg_cfg e)" "c_Mode (eg_cfg e) \<noteq> ModePAC" "c_Mode (eg_cfg e) \<noteq> ModeSystem"
    using assms(2) by (simp_all add: usesSystemDNS_def)
  have "stopping V (eg_proxy e) (stopping V (eg_reverse e) (stopping V (eg_dnsIntercept e) (stopping V (eg_pac e) ?r))) = (None, w')"
    using assms mode by (auto simp: Stop_def Let_def restoring_def split: prod.splits if_splits)
  then have "fst ?r = None" "ew_sys (snd ?r) = ew_sys w'"
    by (metis fst_conv stopping_sys(2)) (metis \<open>stopping V (eg_proxy e) _ = (None, w')\<close> snd_conv stopping_sys(1))
  then show ?thesis by (auto simp: restoring_def onSys_def Let_def split: prod.splits sum.splits if_splits)
qed

lemma hosts_started:
  assumes "executes Vs H" and "c_Mode (eg_cfg e) = ModeHosts" and "build E (eg_cfg e) = Inr b"
    and "fst (EntriesFromRules E (Rules (bu_matcher b)) (ho_MapIP (c_Hosts (eg_cfg e)))) = Inr es"
    and "Start E (engineOps V F H (eg_cfg e)) (e, w) = (Inr (), (e1, w1))"
  obtains P fs where "hf_text fs = texts (ew_sys w)"
    and "Hosts.ApplyWithPlatform (Hosts.ConfigFromApp (eg_cfg e) es) P fs = (Inr (), mc_hosts (ew_sys w1))"
    and "eg_cfg e1 = eg_cfg e" and "eg_reverse e1 \<noteq> None"
proof -
  let ?V = "engineOps V F H (eg_cfg e)" and ?h = "Hosts.ConfigFromApp (eg_cfg e) es"
  obtain prep where prep: "prepareHostsForStart E ?V (eg_cfg e) ?h (eo_shouldUseHostHelper ?V) (ew_sys w) = (Inr prep, ew_sys w1)"
    and e1: "eg_cfg e1 = eg_cfg e" "eg_reverse e1 \<noteq> None"
    by (rule start_hosts_mode [OF assms(5,2,3,4)])
  have "block ?h (texts (ew_sys w)) (mc_hosts (ew_sys w1))"
    by (rule appliesD(2) [OF applies_prepareForStart [OF assms(1)] prep])
  with e1 that show thesis by (auto simp: block_def)
qed

lemma hosts_restored:
  assumes "executes Vs H" and "Hosts.ApplyWithPlatform h P fs = (Inr (), mc_hosts s1)"
    and "hf_text fs (ha_Path h) = Some original" and "normalEOL original" and "\<forall>x\<in>set (ha_Entries h). entryOK x"
    and "RestoreHosts V H (ha_RollbackPath h) s1 = (r, s2)" and "case r of Inr _ \<Rightarrow> True | Inl err \<Rightarrow> ge_noState err"
  shows "texts s2 = (hf_text fs)(ha_Path h \<mapsto> removeManagedBlock original) \<and> hf_json (mc_hosts s2) (ha_RollbackPath h) = None"
proof -
  have blk: "block h (hf_text fs) (mc_hosts s1)" using assms(2) by (auto simp: block_def)
  obtain P' where "Hosts.RestoreWithPlatform (ha_RollbackPath h) P' (mc_hosts s1) = (Inr (), mc_hosts s2)"
  proof (cases r)
    case (Inl err)
    then show thesis using RestoreHosts_runs(2) [OF assms(1) assms(6) [unfolded Inl]] assms(7) block_has_state [OF blk] by auto
  next
    case (Inr u)
    then show thesis using RestoreHosts_runs(1) [OF assms(1) assms(6) [unfolded Inr]] that by auto
  qed
  from apply_then_restore [OF assms(2,3,4) _ this] assms(5) show ?thesis by simp
qed


subsection \<open>A run\<close>

definition sampleHostsCfg :: Config where
  "sampleHostsCfg = (Default samplePaths)\<lparr>c_Mode := ModeHosts\<rparr>"

lemma sample_hosts_entries:
  "case build sampleLib sampleHostsCfg of
     Inr b \<Rightarrow> (case fst (EntriesFromRules sampleLib (Rules (bu_matcher b)) ''127.0.0.1'') of
                Inr es \<Rightarrow> es \<noteq> [] \<and> list_all entryOK es | Inl _ \<Rightarrow> False)
   | Inl _ \<Rightarrow> False"
  by code_simp

definition sampleParts :: "(winStores, bool, unit) engineParts" where
  "sampleParts = \<lparr>ep_proxyPlatform = \<lparr>pf_Name = ''windows'', pf_Snapshot = (\<lambda>c. preturn emptyState), pf_ApplyPAC = (\<lambda>c. preturn ()),
       pf_ApplySystem = (\<lambda>c. preturn ()), pf_Restore = (\<lambda>s. preturn ())\<rparr>,
     ep_proxyText = (\<lambda>_. []), ep_listen = (\<lambda>k w. Inr [''127.0.0.1:443'']), ep_stopErr = (\<lambda>k w. None), ep_probes = (\<lambda>d ts. [])\<rparr>"

definition noHelper :: "HelperRequest \<Rightarrow> ((winStores, bool, unit) computer, gerr, HelperResponse) proc" where
  "noHelper q = praise (newErr ''no helper'')"

definition sampleSystem :: "(winStores, bool, unit) computer" where
  "sampleSystem = \<lparr>mc_certs = emptyCertWorld emptyStores,
     mc_hosts = \<lparr>hf_text = (\<lambda>_. Some (''1.1.1.1 x'' @ [LF])), hf_json = (\<lambda>_. None)\<rparr>, mc_dns = sampleMachine,
     cm_proxy = \<lparr>wo_os = (), wo_files = (\<lambda>_. None), wo_writable = (\<lambda>_. True), wo_removable = (\<lambda>_. True)\<rparr>\<rparr>"

lemma noHelper_executes: "executes sampleServer noHelper"
  by (simp add: executes_def noHelper_def praise_def newErr_def)

lemma sample_cfg_fields:
  "c_Mode sampleHostsCfg = ModeHosts" "ho_Path (c_Hosts sampleHostsCfg) = ''/etc/hosts''" "ho_MapIP (c_Hosts sampleHostsCfg) = ''127.0.0.1''"
  "rt_RollbackPath (c_Runtime sampleHostsCfg) = ''/r''" "CertStore.ConfigFromApp sampleHostsCfg = sampleCertConfig"
  "ce_AutoInstall (c_Cert sampleHostsCfg)"
  by (simp_all add: sampleHostsCfg_def Default_def samplePaths_def CertStore.ConfigFromApp_def sampleCertConfig_def)

lemma sample_not_installed:
  "certIsInstalled sampleServer sampleCertConfig sampleSystem = (Inr False, sampleSystem)"
  by (simp add: certIsInstalled_def onCerts_def IsInstalled_def requireWindows_def sampleServer_def WinCerts.samplePlatform_def
      WinCerts.windowsPlatform_def pensure_def preturn_def loadRootCA_def pbind_def loadRootKeypairLocked_def parseRootFiles_def readPEM_def
      sampleSystem_def emptyCertWorld_def NewWithPlatform_def sample_paths map_err_def plift_def)

lemma sample_trusted:
  "\<exists>t cw. EnsureCertTrusted sampleServer noHelper sampleCertConfig sampleSystem = (Inr t, sampleSystem\<lparr>mc_certs := cw\<rparr>)"
proof -
  let ?m = "NewWithPlatform sampleLib sampleCertConfig :: nat Manager" and ?w = "emptyCertWorld emptyStores"
  obtain cert m w where root: "EnsureRootCA sampleCrypto (unixPaths ''/'') (?m, ?w) = (Inr cert, (m, w))"
    "x5_Raw cert = sampleRoot" using sample_ensure_root [of emptyStores] by (elim exE conjE) (rule that)
  have l: "windowsStoreLocation sampleLib (cc_StoreScope (mg_cfg ?m)) = Inr LocalMachine"
    by (simp add: NewWithPlatform_def sample_paths sample_location) (simp add: sampleCertConfig_def sample_location)
  have fine: "wn_fail (cw_store ?w) = (\<lambda>_. None)" by (simp add: emptyCertWorld_def emptyStores_def)
  have "x5_Raw cert \<noteq> []" by (simp add: root sampleRoot_def)
  from EnsureTrusted_ok [OF l fine root(1) this, of "\<lambda>_. Some sampleRoot" ge_permission]
  obtain res w1 where t: "EnsureTrusted sampleCrypto sampleLib (unixPaths ''/'') WinCerts.samplePlatform (?m, ?w) = (Inr res, (m, w1))"
    by (auto simp: WinCerts.samplePlatform_def)
  then have "certEnsureTrusted sampleServer sampleCertConfig sampleSystem = (Inr res, sampleSystem\<lparr>mc_certs := w1\<rparr>)"
    by (simp add: certEnsureTrusted_def onCerts_def sampleServer_def sampleSystem_def map_err_def)
  then show ?thesis
    by (auto simp: EnsureCertTrusted_def withHelper_def shouldUseCertHelper_def sampleServer_def)
qed

definition sampleApplied :: "Entry list \<Rightarrow> HostsFS" where
  "sampleApplied es = \<lparr>hf_text = (\<lambda>_. Some (''1.1.1.1 x'' @ [LF]))(''/etc/hosts'' \<mapsto> appendManagedBlock (''1.1.1.1 x'' @ [LF]) es),
     hf_json = [''/r'' \<mapsto> Hosts.encodeState (applyState (Hosts.ConfigFromApp sampleHostsCfg es) Hosts.samplePlatform)]\<rparr>"

lemma sample_prepare:
  assumes "es \<noteq> []"
  shows "\<exists>prep cw. prepareHostsForStart sampleLib (engineOps sampleServer sampleParts noHelper sampleHostsCfg) sampleHostsCfg
      (Hosts.ConfigFromApp sampleHostsCfg es) False sampleSystem = (Inr prep, sampleSystem\<lparr>mc_certs := cw, mc_hosts := sampleApplied es\<rparr>)"
proof -
  let ?h = "Hosts.ConfigFromApp sampleHostsCfg es"
  have h: "ha_Path ?h = ''/etc/hosts''" "ha_RollbackPath ?h = ''/r''" "ha_Entries ?h = es" "ha_MapIP ?h = ''127.0.0.1''"
    by (simp_all add: Hosts.ConfigFromApp_def sample_cfg_fields)
  obtain t cw where t: "EnsureCertTrusted sampleServer noHelper sampleCertConfig sampleSystem = (Inr t, sampleSystem\<lparr>mc_certs := cw\<rparr>)"
    using sample_trusted by blast
  have "TrimSpace ''/etc/hosts'' \<noteq> []" "TrimSpace ''/r'' \<noteq> []" "TrimSpace ''127.0.0.1'' \<noteq> []" by code_simp+
  then have v: "validateApply ?h = Inr ()" and r: "TrimSpace ''/r'' \<noteq> []"
    using assms by (simp_all add: validateApply_def h res_simps ensure_def)
  have pre: "hostsPreflight sampleServer ?h (sampleSystem\<lparr>mc_certs := cw\<rparr>) = (Inr (), sampleSystem\<lparr>mc_certs := cw\<rparr>)"
    using v by (simp add: hostsPreflight_def onHosts_def Hosts.PreflightWithPlatform_def sampleServer_def Hosts.samplePlatform_def sampleSystem_def
        res_simps ensure_def map_err_def)
  have app: "hostsApply sampleServer ?h (sampleSystem\<lparr>mc_certs := cw\<rparr>) = (Inr (), sampleSystem\<lparr>mc_certs := cw, mc_hosts := sampleApplied es\<rparr>)"
    using v r h
    by (simp add: hostsApply_def onHosts_def Hosts.ApplyWithPlatform_def sampleServer_def sampleSystem_def Hosts.samplePlatform_def
        Hosts.WriteState_def writeText_def Let_def map_err_def sampleApplied_def)
  have "prepareHostsForStart sampleLib (engineOps sampleServer sampleParts noHelper sampleHostsCfg) sampleHostsCfg ?h False sampleSystem =
      (Inr \<lparr>ph_Cert = t, ph_CertTrusted = True, ph_Entries = length es\<rparr>, sampleSystem\<lparr>mc_certs := cw, mc_hosts := sampleApplied es\<rparr>)"
    using t pre app sample_not_installed h(3)
    by (simp add: prepareHostsForStart_def prepareHostsDirect_def engineOps_fields sample_cfg_fields Let_def wrapping_def pbind_def pthen_def
        preturn_def)
  then show ?thesis by blast
qed

lemma sample_restore:
  "\<exists>s'. RestoreHosts sampleServer noHelper ''/r'' (sampleSystem\<lparr>mc_certs := cw, mc_hosts := sampleApplied es\<rparr>) = (Inr (), s')"
  by (simp add: RestoreHosts_def withHelper_def ShouldUseHelper_def sampleServer_def hostsRestore_def onHosts_def Hosts.RestoreWithPlatform_def
      Hosts.ReadState_def sampleApplied_def Hosts.decode_encode_state applyState_def Hosts.samplePlatform_def Hosts.ConfigFromApp_def
      sample_cfg_fields writeText_def map_err_def)

lemma stopping_None: "eo_stopErr V = (\<lambda>k w. None) \<Longrightarrow> fst (stopping V h ew) = fst ew"
  by (auto simp: stopping_def stopServer_def split: prod.splits option.splits)

abbreviation sampleOps :: "(winStores, bool, unit) computer engineEnv" where
  "sampleOps \<equiv> engineOps sampleServer sampleParts noHelper sampleHostsCfg"

definition sampleIdle :: "(winStores, bool, unit) computer eworld" where
  "sampleIdle = \<lparr>ew_sys = sampleSystem, ew_open = [], ew_next = 0\<rparr>"

lemma sampleOps_fields:
  "eo_listen sampleOps = (\<lambda>k w. Inr [''127.0.0.1:443''])" "eo_stopErr sampleOps = (\<lambda>k w. None)" "\<not> eo_shouldUseHostHelper sampleOps"
  by (simp_all add: engineOps_def sampleParts_def ShouldUseHelper_def sampleServer_def Let_def)

lemma sample_started:
  obtains b es e1 w1 cw where "build sampleLib sampleHostsCfg = Inr b"
    and "fst (EntriesFromRules sampleLib (Rules (bu_matcher b)) ''127.0.0.1'') = Inr es" and "\<forall>x\<in>set es. entryOK x"
    and "Start sampleLib sampleOps (newEngine sampleHostsCfg, sampleIdle) = (Inr (), (e1, w1))"
    and "ew_sys w1 = sampleSystem\<lparr>mc_certs := cw, mc_hosts := sampleApplied es\<rparr>" and "eg_cfg e1 = sampleHostsCfg"
proof -
  obtain b es where b: "build sampleLib sampleHostsCfg = Inr b"
    and es: "fst (EntriesFromRules sampleLib (Rules (bu_matcher b)) ''127.0.0.1'') = Inr es" "es \<noteq> []" "\<forall>x\<in>set es. entryOK x"
    using sample_hosts_entries by (auto simp: list_all_iff split: sum.splits)
  obtain prep cw where prep: "prepareHostsForStart sampleLib sampleOps sampleHostsCfg (Hosts.ConfigFromApp sampleHostsCfg es) False sampleSystem =
      (Inr prep, sampleSystem\<lparr>mc_certs := cw, mc_hosts := sampleApplied es\<rparr>)" using sample_prepare [OF es(2)] by blast
  obtain e1 w1 where "Start sampleLib sampleOps (newEngine sampleHostsCfg, sampleIdle) = (Inr (), (e1, w1))"
    and "ew_sys w1 = sampleSystem\<lparr>mc_certs := cw, mc_hosts := sampleApplied es\<rparr>" and "eg_cfg e1 = sampleHostsCfg"
    using prep b es sampleOps_fields
    by (simp add: Start_def startWork_def launch_def launchHosts_def newEngine_def sample_cfg_fields startServer_def pbind_def plift_def
        map_err_def failing_def orStop_def onSys_def preturn_def commit_def sampleIdle_def)
  with b es that show thesis by blast
qed


end
