(* ===== verification/EngineStops.thy ===== *)
theory EngineStops
  imports EngineRuns
begin

section \<open>Concurrent stops\<close>

text \<open>
  \<open>Start\<close> of \<^verbatim>\<open>internal/engine/engine.go\<close> leaves a goroutine behind that calls
  \<open>Stop\<close> when the context is done, while the caller of \<open>Start\<close> calls it as well.
  \<open>Stop\<close> takes the servers under the lock and works without it, so the calls interleave: each
  of them is at its beginning, working on what it took, or back with its result.
\<close>

subsection \<open>The two parts of Stop\<close>

definition hasServers :: "Engine \<Rightarrow> bool" where
  "hasServers e \<longleftrightarrow> eg_proxy e \<noteq> None \<or> eg_reverse e \<noteq> None \<or> eg_dnsIntercept e \<noteq> None"

definition stopWork :: "'s engineEnv \<Rightarrow> Engine \<Rightarrow> 's eworld \<Rightarrow> gerr option \<times> 's eworld" where
  "stopWork V e w =
     (let cfg = eg_cfg e; path = rt_RollbackPath (c_Runtime cfg) in
      stopping V (eg_proxy e) (stopping V (eg_reverse e) (stopping V (eg_dnsIntercept e) (stopping V (eg_pac e)
        (restoring (usesSystemDNS cfg) (eo_restoreSystemDNS V path)
        (restoring (c_Mode cfg = ModeHosts) (eo_restoreHosts V path)
        (restoring (c_Mode cfg = ModePAC \<or> c_Mode cfg = ModeSystem) (eo_restoreSystemProxy V path) (None, w))))))))"

lemma Stop_in_parts:
  "Stop V (e, w) =
     (if hasServers e then (case stopWork V e w of (err, w') \<Rightarrow> (err, (reset e\<lparr>eg_lastErr := err\<rparr>, w')))
      else (None, (reset e, w)))"
  by (simp add: Stop_def stopWork_def hasServers_def Let_def split: prod.split)

lemma reset_again [simp]: "reset (reset e) = reset e" "\<not> hasServers (reset e)" "reset (e\<lparr>eg_lastErr := x\<rparr>) = reset e\<lparr>eg_lastErr := x\<rparr>"
  "hasServers (e\<lparr>eg_lastErr := x\<rparr>) = hasServers e"
  by (simp_all add: reset_def hasServers_def)

subsection \<open>Calls side by side\<close>

datatype stopCall = Before | Working Engine | Returned "gerr option"

type_synonym 's stopState = "(Engine \<times> 's eworld) \<times> (nat \<Rightarrow> stopCall)"

inductive stopStep :: "'s engineEnv \<Rightarrow> 's stopState \<Rightarrow> 's stopState \<Rightarrow> bool"
  for V :: "'s engineEnv" where
  take: "calls i = Before \<Longrightarrow>
    stopStep V ((e, w), calls) ((reset e, w), calls(i := if hasServers e then Working e else Returned None))"
| work: "calls i = Working taken \<Longrightarrow> stopWork V taken w = (err, w') \<Longrightarrow>
    stopStep V ((e, w), calls) ((e\<lparr>eg_lastErr := err\<rparr>, w'), calls(i := Returned err))"

inductive_cases stopStepE: "stopStep V s s'"

abbreviation stopRun :: "'s engineEnv \<Rightarrow> 's stopState \<Rightarrow> 's stopState \<Rightarrow> bool" where
  "stopRun V \<equiv> (stopStep V)\<^sup>*\<^sup>*"

text \<open>Nobody has taken the servers, or one call did and is at work, or it is back; all others find nothing.\<close>

definition idleCall :: "stopCall \<Rightarrow> bool" where
  "idleCall c \<longleftrightarrow> c = Before \<or> c = Returned None"

definition oneStop :: "'s engineEnv \<Rightarrow> Engine \<Rightarrow> 's eworld \<Rightarrow> 's stopState \<Rightarrow> bool" where
  "oneStop V e w s \<longleftrightarrow>
     (case s of ((e', w'), calls) \<Rightarrow>
       e' = e \<and> w' = w \<and> (\<forall>i. calls i = Before) \<or>
       e' = reset e \<and> w' = w \<and> (\<exists>k. calls k = Working e \<and> hasServers e \<and> (\<forall>i. i \<noteq> k \<longrightarrow> idleCall (calls i))) \<or>
       (\<exists>k err. Stop V (e, w) = (err, (e', w')) \<and> calls k = Returned err \<and> (\<forall>i. i \<noteq> k \<longrightarrow> idleCall (calls i))))"

lemma oneStop_begins: "oneStop V e w ((e, w), \<lambda>_. Before)"
  by (simp add: oneStop_def)

lemma oneStop_taken:
  "calls k = Working e \<Longrightarrow> hasServers e \<Longrightarrow> (\<And>i. i \<noteq> k \<Longrightarrow> idleCall (calls i)) \<Longrightarrow> oneStop V e w ((reset e, w), calls)"
  by (auto simp: oneStop_def)

lemma oneStop_returned:
  "Stop V (e, w) = (err, (e', w')) \<Longrightarrow> calls k = Returned err \<Longrightarrow> (\<And>i. i \<noteq> k \<Longrightarrow> idleCall (calls i)) \<Longrightarrow>
     oneStop V e w ((e', w'), calls)"
  by (auto simp: oneStop_def)

lemma oneStop_cases [consumes 1, case_names before at_work returned]:
  assumes "oneStop V e w ((e', w'), calls)"
  obtains "e' = e" "w' = w" "\<And>i. calls i = Before"
  | k where "e' = reset e" "w' = w" "calls k = Working e" "hasServers e" "\<And>i. i \<noteq> k \<Longrightarrow> idleCall (calls i)"
  | k err where "Stop V (e, w) = (err, (e', w'))" "calls k = Returned err" "\<And>i. i \<noteq> k \<Longrightarrow> idleCall (calls i)"
  using assms by (auto simp: oneStop_def)

lemma stopped_has_none: "Stop V (e, w) = (err, (e', w')) \<Longrightarrow> reset e' = e' \<and> \<not> hasServers e'"
  by (auto simp: Stop_in_parts split: if_splits prod.splits)

lemma oneStop_take:
  assumes "oneStop V e w ((e1, w1), calls)" and "calls i = Before"
  shows "oneStop V e w ((reset e1, w1), calls(i := if hasServers e1 then Working e1 else Returned None))"
  using assms(1)
proof (cases rule: oneStop_cases)
  case before
  show ?thesis
  proof (cases "hasServers e")
    case True
    with before show ?thesis by (auto intro!: oneStop_taken [of _ i] simp: idleCall_def)
  next
    case False
    with before show ?thesis by (auto intro!: oneStop_returned [of _ _ _ None _ _ _ i] simp: idleCall_def Stop_in_parts)
  qed
next
  case (at_work k)
  with assms(2) have "i \<noteq> k" by auto
  with at_work show ?thesis by (auto intro!: oneStop_taken [of _ k] simp: idleCall_def)
next
  case (returned k err)
  with assms(2) have "i \<noteq> k" by auto
  with returned stopped_has_none [OF returned(1)] show ?thesis
    by (auto intro!: oneStop_returned [of _ _ _ err _ _ _ k] simp: idleCall_def)
qed

lemma oneStop_work:
  assumes "oneStop V e w ((e1, w1), calls)" and "calls i = Working taken" and "stopWork V taken w1 = (err, w2)"
  shows "oneStop V e w ((e1\<lparr>eg_lastErr := err\<rparr>, w2), calls(i := Returned err))"
  using assms(1)
proof (cases rule: oneStop_cases)
  case before
  with assms(2) show ?thesis by simp
next
  case (at_work k)
  then have "k = i" using assms(2) by (metis idleCall_def stopCall.distinct(1) stopCall.distinct(5))
  with at_work assms(2,3) show ?thesis
    by (intro oneStop_returned [of _ _ _ err _ _ _ i]) (auto simp: Stop_in_parts idleCall_def)
next
  case (returned k err')
  with assms(2) show ?thesis by (metis idleCall_def stopCall.distinct(1) stopCall.distinct(5))
qed

lemma oneStop_step: "stopStep V s s' \<Longrightarrow> oneStop V e w s \<Longrightarrow> oneStop V e w s'"
  by (erule stopStepE) (auto dest: oneStop_take oneStop_work)

lemma oneStop_run: "stopRun V s s' \<Longrightarrow> oneStop V e w s \<Longrightarrow> oneStop V e w s'"
  by (induction rule: rtranclp_induct) (auto dest: oneStop_step)

subsection \<open>Properties\<close>

text \<open>
  C9.  Any number of concurrent calls of \<open>Stop\<close> do together what one call does: the system settings
  are restored and the servers closed once.  In every state of every interleaving, either nothing has happened yet, or one call has
  taken the servers and is at work on them, or the engine and the world are as after one \<open>Stop\<close> and the call that
  did it returns its error; all other calls return without an error and without an effect.
\<close>

theorem concurrent_stops:
  assumes "stopRun V ((e, w), \<lambda>_. Before) ((e', w'), calls)" and "calls i = Returned r"
  shows "(\<exists>k. k \<noteq> i \<and> r = None \<and> hasServers e \<and> calls k = Working e \<and> e' = reset e \<and> w' = w) \<or>
    (\<exists>k err. Stop V (e, w) = (err, (e', w')) \<and> calls k = Returned err \<and> (i = k \<or> r = None) \<and>
      (\<forall>j. j \<noteq> k \<longrightarrow> calls j = Before \<or> calls j = Returned None))"
proof -
  have "oneStop V e w ((e', w'), calls)" by (rule oneStop_run [OF assms(1) oneStop_begins])
  then show ?thesis
  proof (cases rule: oneStop_cases)
    case (at_work k)
    with assms(2) have "k \<noteq> i" by auto
    moreover from this at_work(5) [of i] assms(2) have "r = None" by (simp add: idleCall_def)
    ultimately show ?thesis using at_work by blast
  next
    case (returned k err)
    from returned(3) [of i] assms(2) have "i = k \<or> r = None" by (cases "i = k") (simp_all add: idleCall_def)
    with returned show ?thesis unfolding idleCall_def by blast
  qed (use assms(2) in simp)
qed


definition sampleRunning :: Engine where
  "sampleRunning = (newEngine (Default samplePaths))\<lparr>eg_proxy := Some \<lparr>h_kind = SProxy, h_id = 0, h_addrs = [''127.0.0.1:26501'']\<rparr>,
     eg_running := True\<rparr>"

lemma two_calls:
  assumes "hasServers e"
  obtains calls where "stopRun V ((e, w), \<lambda>_. Before) ((reset e, w), calls)"
    and "calls 0 = Returned None" and "calls 1 = Working e" and "\<And>k x. k \<noteq> 1 \<Longrightarrow> calls k \<noteq> Working x"
proof
  let ?c = "(\<lambda>_. Before)(1 := Working e)"
  have "stopStep V ((e, w), \<lambda>_. Before) ((reset e, w), ?c)"
    using take [of "\<lambda>_. Before" 1 V e w] assms by simp
  moreover have "stopStep V ((reset e, w), ?c) ((reset e, w), ?c(0 := Returned None))"
    using take [of ?c 0 V "reset e" w] by simp
  ultimately show "stopRun V ((e, w), \<lambda>_. Before) ((reset e, w), ?c(0 := Returned None))" by simp
qed simp_all

theorem concurrent_stops_witness:
  "\<exists>calls e' w'. stopRun sampleEnv ((sampleRunning, sampleWorld), \<lambda>_. Before) ((e', w'), calls) \<and> calls 0 = Returned None \<and>
     Stop sampleEnv (sampleRunning, sampleWorld) = (None, (e', w'))"
proof -
  let ?e = sampleRunning and ?w = sampleWorld
  have "hasServers ?e" by (simp add: hasServers_def sampleRunning_def)
  then obtain c where c: "stopRun sampleEnv ((?e, ?w), \<lambda>_. Before) ((reset ?e, ?w), c)" "c 0 = Returned None" "c 1 = Working ?e"
    "\<And>k x. k \<noteq> 1 \<Longrightarrow> c k \<noteq> Working x" by (rule two_calls [of _ sampleEnv ?w]) blast
  obtain err w' where work: "stopWork sampleEnv ?e ?w = (err, w')" by fastforce
  let ?e' = "reset ?e\<lparr>eg_lastErr := err\<rparr>"
  have "stopStep sampleEnv ((reset ?e, ?w), c) ((?e', w'), c(1 := Returned err))" using c(3) work by (rule stopStep.work)
  with c(1) have run: "stopRun sampleEnv ((?e, ?w), \<lambda>_. Before) ((?e', w'), c(1 := Returned err))" by simp
  from work have "err = None"
    by (auto simp: stopWork_def stopping_def restoring_def stopServer_def sampleRunning_def newEngine_def Default_def usesSystemDNS_def
        sampleEnv_def)
  have "(c(1 := Returned err)) 0 = Returned None" using c(2) by simp
  from concurrent_stops [OF run this] consider k where "(c(1 := Returned err)) k = Working ?e" | x where "Stop sampleEnv (?e, ?w) = (x, (?e', w'))"
    by blast
  then have "Stop sampleEnv (?e, ?w) = (None, (?e', w'))"
  proof cases
    case (1 k)
    then show ?thesis using c(4) [of k ?e] by (cases "k = 1") auto
  next
    case (2 x)
    then show ?thesis using work \<open>hasServers ?e\<close> \<open>err = None\<close> by (simp add: Stop_in_parts)
  qed
  with run \<open>(c(1 := Returned err)) 0 = Returned None\<close> show ?thesis by blast
qed

text \<open>
  A call that finds the servers taken returns at once, although the call that took them has restored nothing yet:
  a caller of \<open>Stop\<close> that ends the process then leaves the settings of the system as they are.
\<close>

lemma returns_before_restored:
  assumes "hasServers e"
  shows "\<exists>calls. stopRun V ((e, w), \<lambda>_. Before) ((reset e, w), calls) \<and> calls 0 = Returned None \<and> calls 1 = Working e"
  using two_calls [OF assms, of V w] by metis

end
