(* ===== verification/CommandReport.thy ===== *)
theory CommandReport
  imports Engine
begin

section \<open>What the command line prints\<close>

text \<open>
  The printing functions of \<^verbatim>\<open>cmd/steam-accelerator/main.go\<close>, as the lines they write.  The
  status of the engine has four more fields here, which the servers count: the state of the DNS
  server, of the page enhancement, the number of connections and the time of the start (empty when it is zero).
\<close>

record reportStatus = engineStatus +
  es_DNSIntercept :: "DnsIntercept.Status option"
  es_PageEnhance :: "enhanceStatus option"
  es_ActiveConns :: int
  es_StartedAt :: string

definition element :: "string list \<Rightarrow> nat \<Rightarrow> string" where
  "element xs i = (if i < length xs then xs ! i else [])"

definition formatBool :: "bool \<Rightarrow> string" where
  "formatBool b = (if b then ''true'' else ''false'')"

definition optLine :: "string \<Rightarrow> string \<Rightarrow> string list" where
  "optLine field v = (if v = [] then [] else [field @ '': '' @ v])"

definition optPart :: "string \<Rightarrow> string \<Rightarrow> string" where
  "optPart field v = (if v = [] then [] else '' '' @ field @ ''='' @ v)"

definition countPart :: "string \<Rightarrow> int \<Rightarrow> string" where
  "countPart field n = (if 0 < n then '' '' @ field @ ''='' @ Itoa n else [])"

subsection \<open>Sections of the report\<close>

definition providerLine :: "Summary \<Rightarrow> string" where
  "providerLine p =
     ''provider: id='' @ sm_ID p @ '' status='' @ sm_Status p @
     (if sm_RuleSetName p = [] then []
      else '' rule_set='' @ sm_RuleSetName p @ (if sm_RuleSetVersion p = [] then [] else ''@'' @ sm_RuleSetVersion p)) @
     countPart ''profiles'' (sm_OutboundProfiles p) @ countPart ''probes'' (sm_ProbeTargets p)"

definition printProviders :: "('z) engineStatus_scheme \<Rightarrow> string list" where
  "printProviders status = map providerLine (filter (\<lambda>p. sm_ID p \<noteq> []) (es_Providers status))"

definition truncateProbeError :: "string \<Rightarrow> string" where
  "truncateProbeError err =
     (let err = TrimSpace err in if length err \<le> 320 then err else take 320 err @ ''...'')"

definition failedProbeLine :: "ProbeResult \<Rightarrow> string" where
  "failedProbeLine p =
     ''startup_probe_failed:'' @ optPart ''provider'' (pr_ProviderID p) @ '' host='' @ pr_Host p @
     optPart ''target'' (pr_Target p) @ optPart ''stage'' (pr_Stage p) @
     (if pr_Error p = [] then [] else '' error='' @ truncateProbeError (pr_Error p))"

definition printStartupProbes :: "ProbeResult list \<Rightarrow> string list" where
  "printStartupProbes probes =
     (if probes = [] then []
      else (let okCount = length (filter pr_OK probes) in
        (''startup_probes: ok='' @ Itoa (int okCount) @ '' failed='' @ Itoa (int (length probes) - int okCount)) #
        map failedProbeLine (filter (\<lambda>p. \<not> pr_OK p) probes)))"

definition printRuleSet :: "('z) engineStatus_scheme \<Rightarrow> string list" where
  "printRuleSet status =
     (if es_RuleSetName status = [] then []
      else if es_RuleSetVersion status \<noteq> [] then [''rule_set: '' @ es_RuleSetName status @ ''@'' @ es_RuleSetVersion status]
      else [''rule_set: '' @ es_RuleSetName status])"

definition counter :: "string \<Rightarrow> 64 word \<Rightarrow> string" where
  "counter field n = '' '' @ field @ ''='' @ Itoa (uint n)"

definition printDNSIntercept :: "('z) reportStatus_scheme \<Rightarrow> string list" where
  "printDNSIntercept status =
     (case es_DNSIntercept status of
        None \<Rightarrow> []
      | Some d \<Rightarrow>
          [''dns_intercept: strategy='' @ ss_Strategy d @ '' listen='' @ ss_ListenAddr d @ '' system_dns='' @ formatBool (ss_SystemDNS d) @
           counter ''target'' (ss_TargetQueries d) @ counter ''forwarded'' (ss_ForwardedQueries d) @
           counter ''cache_hits'' (ss_CacheHits d) @ counter ''blocked'' (ss_BlockedQueries d) @ counter ''errors'' (ss_ErrorQueries d)])"

definition printPageEnhance :: "('z) reportStatus_scheme \<Rightarrow> string list" where
  "printPageEnhance status =
     (case es_PageEnhance status of
        None \<Rightarrow> []
      | Some p \<Rightarrow>
          [''page_enhance: enabled='' @ formatBool (et_Enabled p) @ '' on_error='' @ et_OnError p @
           '' transforms='' @ Itoa (int (et_Transforms p)) @ '' assets='' @ Itoa (int (et_Assets p)) @
           counter ''applied'' (et_Applied p) @ counter ''skipped'' (et_Skipped p) @ counter ''errors'' (et_Errors p)])"

definition changeLine :: "SystemChange \<Rightarrow> string" where
  "changeLine c =
     ''system_change: component='' @ sc_Component c @ '' action='' @ sc_Action c @ '' status='' @ sc_Status c @
     optPart ''detail'' (sc_Detail c)"

definition printSystemChanges :: "SystemChange list \<Rightarrow> string list" where
  "printSystemChanges changes = map changeLine (filter (\<lambda>c. sc_Component c \<noteq> []) changes)"

subsection \<open>The reports of start and status\<close>

text \<open>The part \<open>start\<close> and \<open>status\<close> have in common.\<close>

definition reportBody :: "('z) reportStatus_scheme \<Rightarrow> string list" where
  "reportBody status =
     optLine ''proxy'' (element (es_ListenAddr status) 0) @ optLine ''pac_url'' (es_PACURL status) @
     optLine ''hosts_http'' (element (es_Hosts status) 0) @ optLine ''hosts_https'' (element (es_Hosts status) 1) @
     printDNSIntercept status @ printPageEnhance status @
     optLine ''resolver'' (es_ResolverMode status) @
     (if es_ResolverServers status = [] then [] else [''resolver_servers: '' @ Join (es_ResolverServers status) '','']) @
     (if 0 < es_UpstreamProfiles status then [''upstream_profiles: '' @ Itoa (int (es_UpstreamProfiles status))] else []) @
     printProviders status @ printRuleSet status @ printSystemChanges (es_SystemChanges status) @
     printStartupProbes (es_StartupProbes status)"

definition startReport :: "string \<Rightarrow> ('z) reportStatus_scheme \<Rightarrow> string list" where
  "startReport statePath status = [''steam-accelerator-core started''] @ reportBody status @ [''state: '' @ statePath]"

definition statusReport :: "('z) reportStatus_scheme \<Rightarrow> string list" where
  "statusReport status =
     [''running: '' @ formatBool (es_Running status), ''mode: '' @ es_Mode status] @ reportBody status @
     [''rollback: '' @ formatBool (es_Rollback status)] @
     (if es_Mode status = ModeHosts then [''cert_installed: '' @ formatBool (es_CertInstalled status)] else []) @
     [''active_conns: '' @ Itoa (es_ActiveConns status)] @ optLine ''started_at'' (es_StartedAt status) @
     optLine ''last_error'' (es_LastError status)"

subsection \<open>Every failed probe is shown, cut to a line\<close>

lemma truncateProbeError_length: "length (truncateProbeError err) \<le> 323"
  by (simp add: truncateProbeError_def Let_def)

lemma printStartupProbes_failed:
  "p \<in> set probes \<Longrightarrow> \<not> pr_OK p \<Longrightarrow> failedProbeLine p \<in> set (printStartupProbes probes)"
  by (auto simp: printStartupProbes_def Let_def)

lemma printStartupProbes_count:
  "length (printStartupProbes probes) = (if probes = [] then 0 else 1 + length (filter (\<lambda>p. \<not> pr_OK p) probes))"
  by (simp add: printStartupProbes_def Let_def)

end
