(* ===== verification/Control.thy ===== *)
theory Control
  imports Rollback GoHTTP Rules Lifecycle
begin

section \<open>Package runtimecontrol: the control server and its state file\<close>

text \<open>
  \<^verbatim>\<open>internal/runtime/control.go\<close>: the state a running process leaves for the command
  line, and the loopback HTTP server through which it is asked for its status and told to stop.
  The random source, the listener and what the router of \<^verbatim>\<open>net/http\<close> answers to other
  paths are parameters.
\<close>

subsection \<open>The state file\<close>

record controlState =
  cs_PID :: int
  cs_Mode :: string
  cs_ProxyAddr :: string
  cs_PACURL :: string
  cs_HostsHTTP :: string
  cs_HostsHTTPS :: string
  cs_ControlURL :: string
  cs_Token :: string
  cs_StartedAt :: string

datatype control_error =
    StatePathRequired
  | StateWriteFailed
  | StateMissing
  | StateParseFailed
  | StateRemoveFailed
  | TokenRequired
  | StatusFunctionRequired
  | StopFunctionRequired
  | ControlAlreadyStarted
  | ControlListen string string
  | ControlNotLoopback
  | RandomFailed string

definition encodeState :: "controlState \<Rightarrow> json" where
  "encodeState s = JObj (
     [(''pid'', JNum (cs_PID s)), (''mode'', JStr (cs_Mode s))] @
     optField ''proxy_addr'' (cs_ProxyAddr s \<noteq> []) (JStr (cs_ProxyAddr s)) @
     optField ''pac_url'' (cs_PACURL s \<noteq> []) (JStr (cs_PACURL s)) @
     optField ''hosts_http'' (cs_HostsHTTP s \<noteq> []) (JStr (cs_HostsHTTP s)) @
     optField ''hosts_https'' (cs_HostsHTTPS s \<noteq> []) (JStr (cs_HostsHTTPS s)) @
     [(''control_url'', JStr (cs_ControlURL s)), (''token'', JStr (cs_Token s)), (''started_at'', JStr (cs_StartedAt s))])"

definition decodeState :: "json \<Rightarrow> controlState option" where
  "decodeState j =
     (case (isObj j, asInt (jfield ''pid'' j), asStr (jfield ''mode'' j), asStr (jfield ''proxy_addr'' j),
            asStr (jfield ''pac_url'' j), asStr (jfield ''hosts_http'' j), asStr (jfield ''hosts_https'' j),
            asStr (jfield ''control_url'' j), asStr (jfield ''token'' j), asStr (jfield ''started_at'' j)) of
        (True, Some pid, Some m, Some pa, Some pu, Some hh, Some hs, Some cu, Some t, Some sa) \<Rightarrow>
          Some \<lparr>cs_PID = pid, cs_Mode = m, cs_ProxyAddr = pa, cs_PACURL = pu, cs_HostsHTTP = hh, cs_HostsHTTPS = hs,
                cs_ControlURL = cu, cs_Token = t, cs_StartedAt = sa\<rparr>
      | _ \<Rightarrow> None)"

definition WriteState :: "string \<Rightarrow> controlState \<Rightarrow> ('os world, control_error, unit) proc" where
  "WriteState path state = writeFile StatePathRequired StateWriteFailed path (encodeState state)"

definition ReadState :: "string \<Rightarrow> ('os world, control_error, controlState) proc" where
  "ReadState path = readFile StateMissing StateParseFailed decodeState path"

definition RemoveState :: "string \<Rightarrow> ('os world, control_error, unit) proc" where
  "RemoveState path = removeFile StateRemoveFailed path"

subsection \<open>Tokens\<close>

definition base64url :: "nat \<Rightarrow> char" where
  "base64url n = (if n < 26 then char_of (65 + n) else if n < 52 then char_of (71 + n)
     else if n < 62 then char_of (n - 4) else if n = 62 then CHR ''-'' else CHR ''_'')"

text \<open>\<^verbatim>\<open>base64.RawURLEncoding\<close>, without padding.\<close>

fun rawURLEncode :: "8 word list \<Rightarrow> string" where
  "rawURLEncode [] = []"
| "rawURLEncode [a] = (let n = unat a * 16 in map base64url [n div 64, n mod 64])"
| "rawURLEncode [a, b] = (let n = (unat a * 256 + unat b) * 4 in map base64url [n div 4096, n div 64 mod 64, n mod 64])"
| "rawURLEncode (a # b # c # bs) =
     (let n = unat a * 65536 + unat b * 256 + unat c
      in map base64url [n div 262144, n div 4096 mod 64, n div 64 mod 64, n mod 64] @ rawURLEncode bs)"

definition GenerateToken :: "(nat \<Rightarrow> (string, 8 word list) result) \<Rightarrow> (control_error, string) result" where
  "GenerateToken random = map_result rawURLEncode (map_err RandomFailed (random 32))"

subsection \<open>The server\<close>

record ControlServer =
  ct_addr :: string
  ct_token :: string
  ct_server :: "string option"
  ct_url :: string

definition NewControlServer :: "string \<Rightarrow> string \<Rightarrow> bool \<Rightarrow> bool \<Rightarrow> (control_error, ControlServer) result" where
  "NewControlServer addr token hasStatus hasStop =
     rbind (ensure (TrimSpace token \<noteq> []) TokenRequired) (\<lambda>_.
     rbind (ensure hasStatus StatusFunctionRequired) (\<lambda>_.
     rbind (ensure hasStop StopFunctionRequired) (\<lambda>_.
     Inr \<lparr>ct_addr = addr, ct_token = token, ct_server = None, ct_url = []\<rparr>)))"

definition isLoopbackAddr :: "golib \<Rightarrow> string \<Rightarrow> bool" where
  "isLoopbackAddr E addr =
     (case SplitHostPort addr of
        None \<Rightarrow> False
      | Some (host, _) \<Rightarrow>
          if EqualFold E host ''localhost'' then True
          else (case ParseIP host of None \<Rightarrow> False | Some x \<Rightarrow> IsLoopback x))"

definition Start :: "golib \<Rightarrow> (string \<Rightarrow> (string, string) result) \<Rightarrow> ControlServer \<Rightarrow> (control_error, unit) result \<times> ControlServer" where
  "Start E listen s =
     (if ct_server s \<noteq> None then (Inl ControlAlreadyStarted, s)
      else (case listen (ct_addr s) of
              Inl e \<Rightarrow> (Inl (ControlListen (ct_addr s) e), s)
            | Inr addr \<Rightarrow>
                if \<not> isLoopbackAddr E addr then (Inl ControlNotLoopback, s)
                else (Inr (), s\<lparr>ct_server := Some addr, ct_url := ''http://'' @ addr\<rparr>)))"

definition Stop :: "string option \<times> string option \<Rightarrow> ControlServer \<Rightarrow> string option \<times> ControlServer" where
  "Stop ends s =
     (case ct_server s of
        None \<Rightarrow> (None, s)
      | Some _ \<Rightarrow> (if fst ends = None then snd ends else fst ends, s\<lparr>ct_server := None\<rparr>))"

text \<open>A handler returns what it wrote and whether it called the stop function.\<close>

definition handleStatus :: "string \<Rightarrow> httpRequest \<Rightarrow> respWriter \<Rightarrow> respWriter \<times> bool" where
  "handleStatus status req w =
     (if rq_Method req \<noteq> ''GET'' then (httpError ''method not allowed'' 405 w, False)
      else (writeBody status (w\<lparr>rw_Header := HeaderSet ''Content-Type'' ''application/json'' (rw_Header w)\<rparr>), False))"

definition handleStop :: "httpRequest \<Rightarrow> respWriter \<Rightarrow> respWriter \<times> bool" where
  "handleStop req w =
     (if rq_Method req \<noteq> ''POST'' then (httpError ''method not allowed'' 405 w, False)
      else (writeBody (''stopping'' @ [LF]) (WriteHeader 202 w), True))"

definition withAuth ::
    "ControlServer \<Rightarrow> (httpRequest \<Rightarrow> respWriter \<Rightarrow> respWriter \<times> bool) \<Rightarrow> httpRequest \<Rightarrow> respWriter \<Rightarrow> respWriter \<times> bool" where
  "withAuth s next req w =
     (if HeaderGet (rq_Header req) ''Authorization'' \<noteq> ''Bearer '' @ ct_token s
      then (httpError ''unauthorized'' 401 w, False)
      else next req w)"

definition serveControl ::
    "ControlServer \<Rightarrow> string \<Rightarrow> (httpRequest \<Rightarrow> respWriter \<Rightarrow> respWriter) \<Rightarrow> httpRequest \<Rightarrow> respWriter \<Rightarrow> respWriter \<times> bool" where
  "serveControl s status other req w =
     (if map_option ru_Path (rq_URL req) = Some ''/status'' then withAuth s (handleStatus status) req w
      else if map_option ru_Path (rq_URL req) = Some ''/stop'' then withAuth s handleStop req w
      else (other req w, False))"

interpretation control_server: server_lifecycle "\<lambda>(E, listen). Start E listen" Stop
  "\<lambda>s. case ct_server s of None \<Rightarrow> [] | Some a \<Rightarrow> [a]" "\<lambda>_. True"
  by unfold_locales (auto simp: Start_def Stop_def is_ok_def split: option.splits sum.splits if_splits)

lemma decodeControlState_encode [simp]: "decodeState (encodeState s) = Some s"
  by (simp add: decodeState_def encodeState_def optField_simps)

lemma rawURLEncode_length: "length (rawURLEncode bs) = (4 * length bs + 2) div 3"
  by (induction bs rule: rawURLEncode.induct) (simp_all add: Let_def)

lemma GenerateToken_length: "random 32 = Inr bs \<Longrightarrow> length bs = 32 \<Longrightarrow> GenerateToken random = Inr t \<Longrightarrow> length t = 43"
  by (auto simp: GenerateToken_def map_err_def rawURLEncode_length)

lemma state_file_roundtrip:
  "TrimSpace path \<noteq> [] \<Longrightarrow> wo_writable w path \<Longrightarrow> WriteState path st w = (Inr (), w') \<Longrightarrow> ReadState path w' = (Inr st, w')"
  by (auto simp: WriteState_def ReadState_def file_defs)

subsection \<open>Properties\<close>

text \<open>
  C38. A control server that started listens on a loopback address and has a token that is not
  blank; it calls the stop function only for a POST to \<^verbatim>\<open>/stop\<close> that carries the token,
  and answers a request for either path without the token with status 401 and nothing else.
\<close>

theorem control_protected:
  assumes "NewControlServer addr token hasStatus hasStop = Inr s0" and "Start E listen s0 = (Inr (), s)"
  shows "(\<exists>a. ct_server s = Some a \<and> isLoopbackAddr E a) \<and> TrimSpace token \<noteq> [] \<and>
    (snd (serveControl s status other req w) \<longrightarrow>
       rq_Method req = ''POST'' \<and> map_option ru_Path (rq_URL req) = Some ''/stop'' \<and>
       HeaderGet (rq_Header req) ''Authorization'' = ''Bearer '' @ token) \<and>
    (map_option ru_Path (rq_URL req) \<in> {Some ''/status'', Some ''/stop''} \<and>
       HeaderGet (rq_Header req) ''Authorization'' \<noteq> ''Bearer '' @ token \<longrightarrow>
       serveControl s status other req w = (httpError ''unauthorized'' 401 w, False))"
proof -
  have new: "TrimSpace token \<noteq> []" "ct_token s0 = token" "ct_server s0 = None"
    using assms(1) by (auto simp: NewControlServer_def res_simps)
  then have start: "\<exists>a. ct_server s = Some a \<and> isLoopbackAddr E a" "ct_token s = token"
    using assms(2) by (auto simp: Start_def split: if_splits sum.splits)
  consider "map_option ru_Path (rq_URL req) = Some ''/status''" | "map_option ru_Path (rq_URL req) = Some ''/stop''"
    | "map_option ru_Path (rq_URL req) \<noteq> Some ''/status''" "map_option ru_Path (rq_URL req) \<noteq> Some ''/stop''"
    by blast
  then show ?thesis
  proof cases
    case 1
    then have "serveControl s status other req w = withAuth s (handleStatus status) req w" by (simp add: serveControl_def)
    with new start 1 show ?thesis by (auto simp: withAuth_def handleStatus_def)
  next
    case 2
    then have "serveControl s status other req w = withAuth s handleStop req w" by (auto simp: serveControl_def)
    with new start 2 show ?thesis by (auto simp: withAuth_def handleStop_def split: if_splits)
  next
    case 3
    then have "serveControl s status other req w = (other req w, False)" by (auto simp: serveControl_def)
    with new start 3 show ?thesis by auto
  qed
qed

definition sampleControl :: ControlServer where
  "sampleControl = \<lparr>ct_addr = ''127.0.0.1:0'', ct_token = ''t'', ct_server = Some ''127.0.0.1:4000'', ct_url = ''http://127.0.0.1:4000''\<rparr>"

definition stopRequest :: "string \<Rightarrow> httpRequest" where
  "stopRequest auth = \<lparr>rq_Method = ''POST'', rq_URL = Some \<lparr>ru_Scheme = [], ru_Host = [], ru_Path = ''/stop''\<rparr>,
     rq_Host = ''127.0.0.1:4000'', rq_RequestURI = ''/stop'', rq_Header = [(''Authorization'', [auth])], rq_TLS = False\<rparr>"

theorem control_protected_witness:
  "\<exists>s0. NewControlServer ''127.0.0.1:0'' ''t'' True True = Inr s0 \<and>
     Start sampleLib (\<lambda>_. Inr ''127.0.0.1:4000'') s0 = (Inr (), sampleControl) \<and>
     serveControl sampleControl [] (\<lambda>_ w. w) (stopRequest ''Bearer u'') newWriter = (httpError ''unauthorized'' 401 newWriter, False)"
proof -
  let ?s0 = "\<lparr>ct_addr = ''127.0.0.1:0'', ct_token = ''t'', ct_server = None, ct_url = []\<rparr>"
  have new: "NewControlServer ''127.0.0.1:0'' ''t'' True True = Inr ?s0" by code_simp
  have "isLoopbackAddr sampleLib ''127.0.0.1:4000''" by code_simp
  then have start: "Start sampleLib (\<lambda>_. Inr ''127.0.0.1:4000'') ?s0 = (Inr (), sampleControl)"
    by (simp add: Start_def sampleControl_def)
  have "HeaderGet (rq_Header (stopRequest ''Bearer u'')) ''Authorization'' \<noteq> ''Bearer '' @ ''t''" by code_simp
  moreover have "map_option ru_Path (rq_URL (stopRequest ''Bearer u'')) = Some ''/stop''" by (simp add: stopRequest_def)
  ultimately have "serveControl sampleControl [] (\<lambda>_ w. w) (stopRequest ''Bearer u'') newWriter =
      (httpError ''unauthorized'' 401 newWriter, False)"
    using control_protected [OF new start, of "[]" "\<lambda>_ w. w" "stopRequest ''Bearer u''" newWriter] by blast
  with new start show ?thesis by blast
qed

end
