(* ===== verification/GoFlags.thy ===== *)
theory GoFlags
  imports GoStrings
begin

section \<open>Package flag\<close>

text \<open>
  What the command line uses of the standard library's \<^verbatim>\<open>flag\<close>: a set of flags is a list of
  names, each with whether it is boolean, and parsing gives the assignments in their order.
  Parsing ends at the first argument that is not a flag.
\<close>

datatype flag_error =
    BadFlagSyntax string
  | FlagNotDefined string
  | FlagNeedsArgument string
  | InvalidBoolean string string
  | HelpRequested

definition ParseBool :: "string \<Rightarrow> bool option" where
  "ParseBool s =
     (if s \<in> set [''1'', ''t'', ''T'', ''TRUE'', ''true'', ''True''] then Some True
      else if s \<in> set [''0'', ''f'', ''F'', ''FALSE'', ''false'', ''False''] then Some False
      else None)"

text \<open>The name and, after an equals sign that is not its first byte, the value.\<close>

definition cutFlag :: "string \<Rightarrow> string \<times> string option" where
  "cutFlag s =
     (let name = takeWhile (\<lambda>c. c \<noteq> CHR ''='') (tl s); rest = dropWhile (\<lambda>c. c \<noteq> CHR ''='') (tl s)
      in (hd s # name, if rest = [] then None else Some (tl rest)))"

definition flagBody :: "string \<Rightarrow> string" where
  "flagBody s = (if HasPrefix s ''--'' then drop 2 s else drop 1 s)"

fun parseFlags :: "(string \<times> bool) list \<Rightarrow> string list \<Rightarrow> (flag_error, (string \<times> string) list) result" where
  "parseFlags formal [] = Inr []"
| "parseFlags formal (s # args) =
     (if length s < 2 \<or> hd s \<noteq> CHR ''-'' \<or> s = ''--'' then Inr []
      else if flagBody s = [] \<or> hd (flagBody s) \<in> {CHR ''-'', CHR ''=''} then Inl (BadFlagSyntax s)
      else (case cutFlag (flagBody s) of (name, val) \<Rightarrow>
        (case map_of formal name of
           None \<Rightarrow> Inl (if name = ''help'' \<or> name = ''h'' then HelpRequested else FlagNotDefined name)
         | Some True \<Rightarrow>
             (case val of
                None \<Rightarrow> map_result (Cons (name, ''true'')) (parseFlags formal args)
              | Some v \<Rightarrow>
                  if ParseBool v = None then Inl (InvalidBoolean name v)
                  else map_result (Cons (name, v)) (parseFlags formal args))
         | Some False \<Rightarrow>
             (case val of
                Some v \<Rightarrow> map_result (Cons (name, v)) (parseFlags formal args)
              | None \<Rightarrow>
                  (case args of
                     [] \<Rightarrow> Inl (FlagNeedsArgument name)
                   | v # args' \<Rightarrow> map_result (Cons (name, v)) (parseFlags formal args'))))))"

text \<open>The last assignment of a flag, when it was given at all.\<close>

definition given :: "(string \<times> string) list \<Rightarrow> string \<Rightarrow> string option" where
  "given fl name = map_of (rev fl) name"

definition flagString :: "(string \<times> string) list \<Rightarrow> string \<Rightarrow> string" where
  "flagString fl name = (case given fl name of None \<Rightarrow> [] | Some v \<Rightarrow> v)"

text \<open>Arguments written as one flag per assignment parse back to the assignments.\<close>

definition flagArg :: "string \<times> string \<Rightarrow> string" where
  "flagArg nv = ''--'' @ fst nv @ ''='' @ snd nv"

definition plainFlag :: "(string \<times> bool) list \<Rightarrow> string \<times> string \<Rightarrow> bool" where
  "plainFlag formal nv \<longleftrightarrow>
     fst nv \<noteq> [] \<and> hd (fst nv) \<notin> {CHR ''-'', CHR ''=''} \<and> CHR ''='' \<notin> set (fst nv) \<and>
     (case map_of formal (fst nv) of None \<Rightarrow> False | Some b \<Rightarrow> b \<longrightarrow> ParseBool (snd nv) \<noteq> None)"

lemma cutFlag_arg:
  assumes "name \<noteq> []" and "CHR ''='' \<notin> set name"
  shows "cutFlag (name @ ''='' @ v) = (name, Some v)"
proof -
  obtain c cs where "name = c # cs" using assms(1) by (cases name) auto
  with assms(2) show ?thesis by (simp add: cutFlag_def takeWhile_append dropWhile_append)
qed

lemma parseFlags_args:
  assumes "\<forall>nv\<in>set fl. plainFlag formal nv"
  shows "parseFlags formal (map flagArg fl) = Inr fl"
  using assms
proof (induction fl)
  case (Cons nv fl)
  obtain n v where nv: "nv = (n, v)" by (cases nv)
  from Cons.prems nv obtain b where n: "n \<noteq> []" "hd n \<notin> {CHR ''-'', CHR ''=''}" "CHR ''='' \<notin> set n"
    "map_of formal n = Some b" "b \<longrightarrow> ParseBool v \<noteq> None"
    by (auto simp: plainFlag_def split: option.splits)
  have body: "flagBody (flagArg nv) = n @ ''='' @ v" "length (flagArg nv) \<ge> 2" "hd (flagArg nv) = CHR ''-''" "flagArg nv \<noteq> ''--''"
    using n(1) by (auto simp: flagBody_def flagArg_def nv HasPrefix_def)
  have "hd (n @ ''='' @ v) = hd n" using n(1) by simp
  with Cons n body cutFlag_arg [OF n(1,3), of v] show ?case
    by (auto simp: nv map_result_def split: bool.splits)
qed simp

end
