(* ===== verification/CommandLine.thy ===== *)
theory CommandLine
  imports EngineSystem EngineStops CommandReport Control GoFlags
begin

section \<open>The command line\<close>

text \<open>
  \<^verbatim>\<open>cmd/steam-accelerator/main.go\<close>: the commands that start the engine in the foreground, ask it for
  its status, stop it, undo what a dead process left behind, and manage the certificate.  The
  world of a command has the computer with the servers of the engine, the state files of running processes, the
  open control listeners, whether the running process was told to stop, the time in milliseconds, and the lines printed.
\<close>

datatype cli_error =
    CliFlags flag_error
  | CliConfig config_error
  | CliEngine engine_error
  | CliSystem gerr
  | CliControl control_error
  | CliShutdown string
  | CliText string

record ('p, 'os, 'x) cliWorld =
  cl_world :: "('p, 'os, 'x) computer eworld"
  cl_files :: "unit world"
  cl_control :: "string list"
  cl_stopRequested :: bool
  cl_clock :: nat
  cl_out :: "string list"

text \<open>
  The goroutine \<open>Engine.Start\<close> leaves behind, at the moment the command stops the engine: it has not
  taken the servers yet, it is at work on them, or it is done with them.
\<close>

datatype watcher = WatcherWaits | WatcherWorks | WatcherDone

text \<open>
  \<open>cv_Do\<close> is the HTTP client, \<open>cv_decodeStatus\<close> the JSON decoder of a status, \<open>cv_wait\<close> what
  happens until the context of the process is done.
\<close>

record ('k, 'p, 'os, 'x) cliEnv =
  cv_priv :: "('k, 'p, 'os) privEnv"
  cv_parts :: "('p, 'os, 'x) engineParts"
  cv_helper :: "HelperRequest \<Rightarrow> (('p, 'os, 'x) computer, gerr, HelperResponse) proc"
  cv_yaml :: yaml_lib
  cv_counters :: "('p, 'os, 'x) computer eworld \<Rightarrow> DnsIntercept.Status option \<times> enhanceStatus option \<times> int \<times> string"
  cv_random :: "nat \<Rightarrow> (string, 8 word list) result"
  cv_listen :: "string \<Rightarrow> (string, string) result"
  cv_controlEnds :: "string option \<times> string option"
  cv_getpid :: int
  cv_Do :: "string \<Rightarrow> string \<Rightarrow> header \<Rightarrow> (('p, 'os, 'x) cliWorld, string, int \<times> string) proc"
  cv_decodeStatus :: "string \<Rightarrow> reportStatus option"
  cv_wait :: "('p, 'os, 'x) cliWorld \<Rightarrow> ('p, 'os, 'x) cliWorld"
  cv_watcher :: "('p, 'os, 'x) cliWorld \<Rightarrow> watcher"
  cv_sleep :: "nat \<Rightarrow> ('p, 'os, 'x) cliWorld \<Rightarrow> ('p, 'os, 'x) cliWorld"

type_synonym ('p, 'os, 'x, 'a) cliProc = "(('p, 'os, 'x) cliWorld, cli_error, 'a) proc"

abbreviation cv_lib :: "('k, 'p, 'os, 'x) cliEnv \<Rightarrow> golib" where
  "cv_lib C \<equiv> pv_lib (cv_priv C)"

definition cliEngine :: "('k, 'p, 'os, 'x) cliEnv \<Rightarrow> Config \<Rightarrow> ('p, 'os, 'x) computer engineEnv" where
  "cliEngine C cfg = engineOps (cv_priv C) (cv_parts C) (cv_helper C) cfg"

definition printLines :: "string list \<Rightarrow> ('p, 'os, 'x) cliWorld \<Rightarrow> ('p, 'os, 'x) cliWorld" where
  "printLines ls w = w\<lparr>cl_out := cl_out w @ ls\<rparr>"

definition onFiles :: "(unit world, control_error, 'a) proc \<Rightarrow> (('p, 'os, 'x) cliWorld, control_error, 'a) proc" where
  "onFiles m w = (case m (cl_files w) of (r, fs) \<Rightarrow> (r, w\<lparr>cl_files := fs\<rparr>))"

definition dropState :: "string \<Rightarrow> ('p, 'os, 'x) cliWorld \<Rightarrow> ('p, 'os, 'x) cliWorld" where
  "dropState path w = snd (onFiles (Control.RemoveState path) w)"

definition onComputer :: "(('p, 'os, 'x) computer, gerr, 'a) proc \<Rightarrow> (('p, 'os, 'x) cliWorld, gerr, 'a) proc" where
  "onComputer m w = (case onSys m (cl_world w) of (r, ew) \<Rightarrow> (r, w\<lparr>cl_world := ew\<rparr>))"

subsection \<open>Flags\<close>

definition startFlags :: "(string \<times> bool) list" where
  "startFlags =
     [(''config'', False), (''mode'', False), (''listen'', False), (''pac-listen'', False), (''hosts-http'', False),
      (''hosts-https'', False), (''dns-listen'', False), (''non-target'', False), (''allow-lan'', True), (''state'', False),
      (''control'', False)]"

definition hasLegacyFlag :: "string list \<Rightarrow> string \<Rightarrow> bool" where
  "hasLegacyFlag args name =
     list_ex (\<lambda>arg. arg = ''--'' @ name \<or> HasPrefix arg (''--'' @ name @ ''='') \<or> arg = ''-'' @ name \<or> HasPrefix arg (''-'' @ name @ ''='')) args"

definition override :: "(string \<times> string) list \<Rightarrow> string \<Rightarrow> (string \<Rightarrow> Config \<Rightarrow> Config) \<Rightarrow> Config \<Rightarrow> Config" where
  "override fl name upd cfg = (case given fl name of None \<Rightarrow> cfg | Some v \<Rightarrow> upd v cfg)"

definition applyStartOverrides :: "(string \<times> string) list \<Rightarrow> Config \<Rightarrow> Config" where
  "applyStartOverrides fl =
     override fl ''control'' (\<lambda>v cfg. cfg\<lparr>c_Runtime := (c_Runtime cfg)\<lparr>rt_ControlAddr := v\<rparr>\<rparr>) \<circ>
     override fl ''state'' (\<lambda>v cfg. cfg\<lparr>c_Runtime := (c_Runtime cfg)\<lparr>rt_StatePath := v\<rparr>\<rparr>) \<circ>
     override fl ''allow-lan'' (\<lambda>v cfg. cfg\<lparr>c_Proxy := (c_Proxy cfg)\<lparr>px_AllowLAN := (ParseBool v = Some True)\<rparr>\<rparr>) \<circ>
     override fl ''non-target'' (\<lambda>v cfg. cfg\<lparr>c_Proxy := (c_Proxy cfg)\<lparr>px_NonTargetBehavior := v\<rparr>\<rparr>) \<circ>
     override fl ''dns-listen'' (\<lambda>v cfg. cfg\<lparr>c_DNS := (c_DNS cfg)\<lparr>dn_ListenAddr := v\<rparr>\<rparr>) \<circ>
     override fl ''hosts-https'' (\<lambda>v cfg. cfg\<lparr>c_Hosts := (c_Hosts cfg)\<lparr>ho_HTTPSListenAddr := v\<rparr>\<rparr>) \<circ>
     override fl ''hosts-http'' (\<lambda>v cfg. cfg\<lparr>c_Hosts := (c_Hosts cfg)\<lparr>ho_HTTPListenAddr := v\<rparr>\<rparr>) \<circ>
     override fl ''pac-listen'' (\<lambda>v cfg. cfg\<lparr>c_PAC := (c_PAC cfg)\<lparr>pa_ListenAddr := v\<rparr>\<rparr>) \<circ>
     override fl ''listen'' (\<lambda>v cfg. cfg\<lparr>c_Proxy := (c_Proxy cfg)\<lparr>px_ListenAddr := v\<rparr>\<rparr>) \<circ>
     override fl ''mode'' (\<lambda>v cfg. cfg\<lparr>c_Mode := v\<rparr>)"

definition loadConfig :: "('k, 'p, 'os, 'x) cliEnv \<Rightarrow> string \<Rightarrow> (cli_error, Config) result" where
  "loadConfig C path = map_err CliConfig (LoadFile (cv_lib C) (cv_yaml C) (pv_defaults (cv_priv C)) path)"

definition startConfig :: "('k, 'p, 'os, 'x) cliEnv \<Rightarrow> string list \<Rightarrow> (cli_error, Config) result" where
  "startConfig C args =
     rbind (ensure (\<not> hasLegacyFlag args ''non-steam'') (CliText ''--non-steam was removed in v0.7; use --non-target'')) (\<lambda>_.
     rbind (map_err CliFlags (parseFlags startFlags args)) (\<lambda>fl.
     rbind (loadConfig C (flagString fl ''config'')) (\<lambda>cfg.
     map_err CliConfig (Validate (cv_lib C) (applyStartOverrides fl cfg)))))"

text \<open>The configuration of a command that may replace one path in it.\<close>

definition configWith ::
    "('k, 'p, 'os, 'x) cliEnv \<Rightarrow> string \<Rightarrow> (string \<Rightarrow> Config \<Rightarrow> Config) \<Rightarrow> string list \<Rightarrow> (cli_error, Config) result" where
  "configWith C flag upd args =
     rbind (map_err CliFlags (parseFlags [(''config'', False), (flag, False)] args)) (\<lambda>fl.
     rbind (loadConfig C (flagString fl ''config'')) (\<lambda>cfg.
     map_err CliConfig (Validate (cv_lib C)
       (if TrimSpace (flagString fl flag) \<noteq> [] then upd (flagString fl flag) cfg else cfg))))"

definition statePathFromFlags :: "('k, 'p, 'os, 'x) cliEnv \<Rightarrow> string list \<Rightarrow> (cli_error, string) result" where
  "statePathFromFlags C args =
     map_result (\<lambda>cfg. rt_StatePath (c_Runtime cfg))
       (configWith C ''state'' (\<lambda>v cfg. cfg\<lparr>c_Runtime := (c_Runtime cfg)\<lparr>rt_StatePath := v\<rparr>\<rparr>) args)"

subsection \<open>Talking to a running process\<close>

definition bearer :: "controlState \<Rightarrow> header" where
  "bearer st = HeaderSet ''Authorization'' (''Bearer '' @ cs_Token st) []"

definition queryStatus :: "('k, 'p, 'os, 'x) cliEnv \<Rightarrow> controlState \<Rightarrow> (('p, 'os, 'x) cliWorld, string, reportStatus) proc" where
  "queryStatus C st =
     pbind (cv_Do C ''GET'' (cs_ControlURL st @ ''/status'') (bearer st)) (\<lambda>(code, body).
     if code \<noteq> 200 then praise ''control status returned''
     else (case cv_decodeStatus C body of None \<Rightarrow> praise ''decode'' | Some status \<Rightarrow> preturn status))"

definition postStop :: "('k, 'p, 'os, 'x) cliEnv \<Rightarrow> controlState \<Rightarrow> (('p, 'os, 'x) cliWorld, string, unit) proc" where
  "postStop C st =
     pbind (cv_Do C ''POST'' (cs_ControlURL st @ ''/stop'') (bearer st)) (\<lambda>(code, body).
     if code \<noteq> 202 then praise ''control stop returned'' else preturn ())"

definition runningFromState :: "('k, 'p, 'os, 'x) cliEnv \<Rightarrow> string \<Rightarrow> (('p, 'os, 'x) cliWorld, control_error, bool) proc" where
  "runningFromState C path w =
     (case onFiles (Control.ReadState path) w of
        (Inl e, w) \<Rightarrow> (if e = StateMissing then Inr False else Inl e, w)
      | (Inr st, w) \<Rightarrow>
          (case queryStatus C st w of
             (Inl _, w) \<Rightarrow> (Inr False, dropState path w)
           | (Inr _, w) \<Rightarrow> (Inr True, w)))"

subsection \<open>start\<close>

definition stopEngine :: "('k, 'p, 'os, 'x) cliEnv \<Rightarrow> Config \<Rightarrow> Engine \<Rightarrow> ('p, 'os, 'x) cliWorld \<Rightarrow> gerr option \<times> ('p, 'os, 'x) cliWorld" where
  "stopEngine C cfg eng w =
     (case Engine.Stop (cliEngine C cfg) (eng, cl_world w) of (err, (_, ew)) \<Rightarrow> (err, w\<lparr>cl_world := ew\<rparr>))"

definition startEngine :: "('k, 'p, 'os, 'x) cliEnv \<Rightarrow> Config \<Rightarrow> Engine \<Rightarrow> ('p, 'os, 'x, Engine) cliProc" where
  "startEngine C cfg eng w =
     (case Engine.Start (cv_lib C) (cliEngine C cfg) (eng, cl_world w) of
        (Inl e, (_, ew)) \<Rightarrow> (Inl (CliEngine e), w\<lparr>cl_world := ew\<rparr>)
      | (Inr _, (eng', ew)) \<Rightarrow> (Inr eng', w\<lparr>cl_world := ew\<rparr>))"

definition startControl :: "('k, 'p, 'os, 'x) cliEnv \<Rightarrow> ControlServer \<Rightarrow> ('p, 'os, 'x, ControlServer) cliProc" where
  "startControl C ctl w =
     (case Control.Start (cv_lib C) (cv_listen C) ctl of
        (Inl e, _) \<Rightarrow> (Inl (CliControl e), w)
      | (Inr _, ctl') \<Rightarrow> (Inr ctl', w\<lparr>cl_control := (case ct_server ctl' of None \<Rightarrow> cl_control w | Some a \<Rightarrow> a # cl_control w)\<rparr>))"

definition stopControl :: "('k, 'p, 'os, 'x) cliEnv \<Rightarrow> ControlServer \<Rightarrow> ('p, 'os, 'x) cliWorld \<Rightarrow> string option \<times> ('p, 'os, 'x) cliWorld" where
  "stopControl C ctl w =
     (case Control.Stop (cv_controlEnds C) ctl of
        (err, _) \<Rightarrow> (err, w\<lparr>cl_control := (case ct_server ctl of None \<Rightarrow> cl_control w | Some a \<Rightarrow> remove1 a (cl_control w))\<rparr>))"

text \<open>\<open>cleaning m undo\<close>: the undoing when \<open>m\<close> fails; its own errors are dropped.\<close>

definition cleaning :: "('w, 'e, 'a) proc \<Rightarrow> ('w \<Rightarrow> 'w) \<Rightarrow> ('w, 'e, 'a) proc" where
  "cleaning m undo w = (case m w of (Inl e, w') \<Rightarrow> (Inl e, undo w') | (Inr x, w') \<Rightarrow> (Inr x, w'))"

definition runtimeStatus :: "('k, 'p, 'os, 'x) cliEnv \<Rightarrow> Config \<Rightarrow> Engine \<Rightarrow> ('p, 'os, 'x) cliWorld \<Rightarrow> reportStatus" where
  "runtimeStatus C cfg eng w =
     (case cv_counters C (cl_world w) of (dns, enhance, conns, started) \<Rightarrow>
      engineStatus.extend (Engine.Status (cliEngine C cfg) (eng, cl_world w)) (reportStatus.fields dns enhance conns started))"

definition runtimeState :: "('k, 'p, 'os, 'x) cliEnv \<Rightarrow> Config \<Rightarrow> reportStatus \<Rightarrow> ControlServer \<Rightarrow> controlState" where
  "runtimeState C cfg status ctl =
     \<lparr>cs_PID = cv_getpid C, cs_Mode = c_Mode cfg, cs_ProxyAddr = element (es_ListenAddr status) 0, cs_PACURL = es_PACURL status,
      cs_HostsHTTP = element (es_Hosts status) 0, cs_HostsHTTPS = element (es_Hosts status) 1, cs_ControlURL = ct_url ctl,
      cs_Token = ct_token ctl, cs_StartedAt = es_StartedAt status\<rparr>"

definition writeRuntimeState ::
    "('k, 'p, 'os, 'x) cliEnv \<Rightarrow> Config \<Rightarrow> Engine \<Rightarrow> ControlServer \<Rightarrow> ('p, 'os, 'x, unit) cliProc" where
  "writeRuntimeState C cfg eng ctl w =
     failing CliControl
       (onFiles (Control.WriteState (rt_StatePath (c_Runtime cfg)) (runtimeState C cfg (runtimeStatus C cfg eng w) ctl))) w"

text \<open>Once the engine runs: the control server, then the state file.\<close>

definition publish :: "('k, 'p, 'os, 'x) cliEnv \<Rightarrow> Config \<Rightarrow> Engine \<Rightarrow> ControlServer \<Rightarrow> ('p, 'os, 'x, Config \<times> Engine \<times> ControlServer) cliProc" where
  "publish C cfg eng ctl =
     pbind (cleaning (startControl C ctl) (snd \<circ> stopEngine C cfg eng)) (\<lambda>ctl.
     pthen (cleaning (writeRuntimeState C cfg eng ctl) (snd \<circ> stopEngine C cfg eng \<circ> (snd \<circ> stopControl C ctl)))
           (preturn (cfg, eng, ctl)))"

definition startUp :: "('k, 'p, 'os, 'x) cliEnv \<Rightarrow> string list \<Rightarrow> ('p, 'os, 'x, Config \<times> Engine \<times> ControlServer) cliProc" where
  "startUp C args =
     pbind (plift (startConfig C args)) (\<lambda>cfg.
     pthen (\<lambda>w. case runningFromState C (rt_StatePath (c_Runtime cfg)) w of
              (running, w) \<Rightarrow> (ensure (running \<noteq> Inr True) (CliText ''steam-accelerator is already running''), w))
    (pbind (plift (map_err CliConfig (Engine.New (cv_lib C) cfg))) (\<lambda>eng.
     pbind (startEngine C cfg eng) (\<lambda>eng.
     pbind (plift (map_err CliControl (GenerateToken (cv_random C)))) (\<lambda>token.
     pbind (plift (map_err CliControl (NewControlServer (rt_ControlAddr (c_Runtime cfg)) token True True))) (\<lambda>ctl.
     publish C cfg eng ctl))))))"

text \<open>
  The end of the process: a \<open>Stop\<close> that finds the servers taken returns at once, and what the
  goroutine has not done by then is not done.
\<close>

definition serveUntilDone ::
    "('k, 'p, 'os, 'x) cliEnv \<Rightarrow> Config \<Rightarrow> Engine \<Rightarrow> ControlServer \<Rightarrow> ('p, 'os, 'x, unit) cliProc" where
  "serveUntilDone C cfg eng ctl w =
     (case stopControl C ctl (cv_wait C w) of (controlErr, w) \<Rightarrow>
      (case (case cv_watcher C w of
               WatcherWaits \<Rightarrow> stopEngine C cfg eng w
             | WatcherWorks \<Rightarrow> (None, w)
             | WatcherDone \<Rightarrow> (None, snd (stopEngine C cfg eng w))) of (engineErr, w) \<Rightarrow>
       (case controlErr of
          Some e \<Rightarrow> Inl (CliShutdown e)
        | None \<Rightarrow> (case engineErr of Some e \<Rightarrow> Inl (CliSystem e) | None \<Rightarrow> Inr ()),
        dropState (rt_StatePath (c_Runtime cfg)) w)))"

definition runStart :: "('k, 'p, 'os, 'x) cliEnv \<Rightarrow> string list \<Rightarrow> ('p, 'os, 'x, unit) cliProc" where
  "runStart C args =
     pbind (startUp C args) (\<lambda>(cfg, eng, ctl) w.
     serveUntilDone C cfg eng ctl (printLines (startReport (rt_StatePath (c_Runtime cfg)) (runtimeStatus C cfg eng w)) w))"

subsection \<open>status and stop\<close>

text \<open>\<open>withState\<close>: what both do with a state file that is missing or unreadable.\<close>

definition withState ::
    "string \<Rightarrow> (controlState \<Rightarrow> ('p, 'os, 'x) cliWorld \<Rightarrow> ('p, 'os, 'x) cliWorld) \<Rightarrow> ('p, 'os, 'x, unit) cliProc" where
  "withState path f w =
     (case onFiles (Control.ReadState path) w of
        (Inl e, w) \<Rightarrow> if e = StateMissing then (Inr (), printLines [''not running''] w) else (Inl (CliControl e), w)
      | (Inr st, w) \<Rightarrow> (Inr (), f st w))"

definition staleState :: "string \<Rightarrow> ('p, 'os, 'x) cliWorld \<Rightarrow> ('p, 'os, 'x) cliWorld" where
  "staleState path w = printLines [''not running (stale state removed)''] (dropState path w)"

definition runStatus :: "('k, 'p, 'os, 'x) cliEnv \<Rightarrow> string list \<Rightarrow> ('p, 'os, 'x, unit) cliProc" where
  "runStatus C args =
     pbind (plift (statePathFromFlags C args)) (\<lambda>path.
     withState path (\<lambda>st w.
       case queryStatus C st w of
         (Inl _, w) \<Rightarrow> staleState path w
       | (Inr status, w) \<Rightarrow> printLines (statusReport status) w))"

definition stopRound ::
    "('k, 'p, 'os, 'x) cliEnv \<Rightarrow> controlState \<Rightarrow> nat \<Rightarrow> ('p, 'os, 'x) cliWorld \<Rightarrow> string option \<times> ('p, 'os, 'x) cliWorld" where
  "stopRound C st deadline w =
     (if \<not> cl_clock w < deadline then (Some ''stop requested'', w)
      else (case queryStatus C st w of
              (Inl _, w) \<Rightarrow> (Some ''stopped'', w)
            | (Inr _, w) \<Rightarrow> (None, w)))"

text \<open>Five seconds in steps of 100 milliseconds.\<close>

definition stopRounds :: nat where
  "stopRounds = 52"

definition awaitStop :: "('k, 'p, 'os, 'x) cliEnv \<Rightarrow> controlState \<Rightarrow> ('p, 'os, 'x) cliWorld \<Rightarrow> string \<times> ('p, 'os, 'x) cliWorld" where
  "awaitStop C st w = poll stopRounds (cv_sleep C 100) (stopRound C st (cl_clock w + 5000)) ''stop requested'' w"

definition runStop :: "('k, 'p, 'os, 'x) cliEnv \<Rightarrow> string list \<Rightarrow> ('p, 'os, 'x, unit) cliProc" where
  "runStop C args =
     pbind (plift (statePathFromFlags C args)) (\<lambda>path.
     withState path (\<lambda>st w.
       case postStop C st w of
         (Inl _, w) \<Rightarrow> staleState path w
       | (Inr _, w) \<Rightarrow> (case awaitStop C st w of (line, w) \<Rightarrow> printLines [line] (dropState path w))))"

subsection \<open>restore\<close>

text \<open>The packages write their rollback state to the same file; which of them did is in the file.\<close>

definition rollbackFile :: "string \<Rightarrow> ('p, 'os, 'x) computer \<Rightarrow> json option" where
  "rollbackFile path s =
     (case hf_json (mc_hosts s) path of
        Some j \<Rightarrow> Some j
      | None \<Rightarrow> (case wo_files (mc_dns s) path of Some j \<Rightarrow> Some j | None \<Rightarrow> wo_files (cm_proxy s) path))"

definition rollbackMeta :: "golib \<Rightarrow> json \<Rightarrow> (string \<times> string) option" where
  "rollbackMeta E j = decodeStruct E [(''kind'', toStr (\<lambda>s. apfst (\<lambda>_. s))), (''mode'', toStr (\<lambda>s. apsnd (\<lambda>_. s)))] j ([], [])"

definition restoreRollback :: "('k, 'p, 'os, 'x) cliEnv \<Rightarrow> string \<Rightarrow> (('p, 'os, 'x) computer, gerr, unit) proc" where
  "restoreRollback C path s =
     (case rollbackFile path s of
        None \<Rightarrow> (Inl (newErr ''system proxy rollback state not found''\<lparr>ge_noState := True\<rparr>), s)
      | Some j \<Rightarrow>
          (case rollbackMeta (cv_lib C) j of
             None \<Rightarrow> (Inl (newErr ''parse rollback state''), s)
           | Some (kind, mode) \<Rightarrow>
               if kind = hostsStateKind \<or> mode = ModeHosts then RestoreHosts (cv_priv C) (cv_helper C) path s
               else if kind = dnsStateKind \<or> mode = ModeDNS then RestoreSystemDNS (cv_priv C) (cv_helper C) path s
               else onProxy (cv_parts C) (SystemProxy.RestoreWithPlatform path (ep_proxyPlatform (cv_parts C))) s))"

definition reporting :: "string \<Rightarrow> (('p, 'os, 'x) cliWorld, gerr, unit) proc \<Rightarrow> ('p, 'os, 'x, unit) cliProc" where
  "reporting done m w =
     (case m w of
        (Inr _, w) \<Rightarrow> (Inr (), printLines [done] w)
      | (Inl e, w) \<Rightarrow> if ge_noState e then (Inr (), printLines [''not modified''] w) else (Inl (CliSystem e), w))"

definition runRestore :: "('k, 'p, 'os, 'x) cliEnv \<Rightarrow> string list \<Rightarrow> ('p, 'os, 'x, unit) cliProc" where
  "runRestore C args =
     pbind (plift (configWith C ''rollback'' (\<lambda>v cfg. cfg\<lparr>c_Runtime := (c_Runtime cfg)\<lparr>rt_RollbackPath := v\<rparr>\<rparr>) args)) (\<lambda>cfg.
     reporting ''restored'' (onComputer (restoreRollback C (rt_RollbackPath (c_Runtime cfg)))))"

subsection \<open>cert\<close>

definition runCert :: "('k, 'p, 'os, 'x) cliEnv \<Rightarrow> string list \<Rightarrow> ('p, 'os, 'x, unit) cliProc" where
  "runCert C args =
     (case args of
        [] \<Rightarrow> praise (CliText ''cert subcommand is required'')
      | sub # rest \<Rightarrow>
          if sub \<noteq> ''install'' \<and> sub \<noteq> ''uninstall'' then praise (CliText (''unsupported cert subcommand '' @ sub))
          else pbind (plift (configWith C ''cert-dir'' (\<lambda>v cfg. cfg\<lparr>c_Cert := (c_Cert cfg)\<lparr>ce_Dir := v\<rparr>\<rparr>) rest)) (\<lambda>cfg.
            let certCfg = CertStore.ConfigFromApp cfg in
            if sub = ''install''
            then pthen (failing CliSystem (onComputer (InstallCert (cv_priv C) (cv_helper C) certCfg)))
                       (\<lambda>w. (Inr (), printLines [''installed''] w))
            else reporting ''uninstalled'' (onComputer (UninstallCert (cv_priv C) (cv_helper C) certCfg))))"

subsection \<open>The program\<close>

datatype command =
    Usage
  | Version
  | Run string "string list"

definition commandNames :: "string list" where
  "commandNames = [''start'', ''status'', ''stop'', ''restore'', ''cert'', ''apphost'', ''__helper'', ''__apphost-service'']"

definition dispatch :: "string list \<Rightarrow> command" where
  "dispatch args =
     (case args of
        [] \<Rightarrow> Usage
      | name # rest \<Rightarrow>
          if name \<in> set [''--version'', ''-version'', ''version''] then Version
          else if name \<in> set commandNames then Run name rest
          else Usage)"

text \<open>
  The commands; \<open>other\<close> are those that work on other worlds, the privileged host and the helper.
\<close>

definition commandFor ::
    "('k, 'p, 'os, 'x) cliEnv \<Rightarrow> (string \<Rightarrow> string list \<Rightarrow> ('p, 'os, 'x, unit) cliProc) \<Rightarrow> string \<Rightarrow> string list \<Rightarrow> ('p, 'os, 'x, unit) cliProc" where
  "commandFor C other name =
     (if name = ''start'' then runStart C else if name = ''status'' then runStatus C else if name = ''stop'' then runStop C
      else if name = ''restore'' then runRestore C else if name = ''cert'' then runCert C else other name)"

definition run ::
    "('k, 'p, 'os, 'x) cliEnv \<Rightarrow> (string \<Rightarrow> string list \<Rightarrow> ('p, 'os, 'x, unit) cliProc) \<Rightarrow> string list \<Rightarrow>
       ('p, 'os, 'x) cliWorld \<Rightarrow> nat \<times> ('p, 'os, 'x) cliWorld" where
  "run C other args w =
     (case dispatch args of
        Usage \<Rightarrow> (2, w)
      | Version \<Rightarrow> (0, printLines [''steam-accelerator-core v0.7.4-dev (github.com/gofurry/go-steam-core)''] w)
      | Run name rest \<Rightarrow> (case commandFor C other name rest w of (r, w) \<Rightarrow> (case r of Inl _ \<Rightarrow> 1 | Inr _ \<Rightarrow> 0, w)))"

end
