(* ===== verification/CommandRuns.thy ===== *)
theory CommandRuns
  imports CommandLine
begin

section \<open>What the commands guarantee\<close>

text \<open>
  Properties of the command line as a whole: a foreground process leaves nothing open behind it, the
  commands of another terminal reach it through its state file, and what a process that died left in the system can be undone.
\<close>

subsection \<open>A process cleans up\<close>

text \<open>\<open>idle\<close>: nothing of the engine listens.\<close>

definition idle :: "('p, 'os, 'x) cliWorld \<Rightarrow> bool" where
  "idle w \<longleftrightarrow> ew_open (cl_world w) = []"

definition holding :: "Engine \<Rightarrow> ('p, 'os, 'x) cliWorld \<Rightarrow> bool" where
  "holding eng w \<longleftrightarrow> owned (eng, cl_world w)"

text \<open>What happens meanwhile: other processes, the HTTP client and the passing of time touch neither the servers nor the listeners of this one.\<close>

definition undisturbed :: "('k, 'p, 'os, 'x) cliEnv \<Rightarrow> bool" where
  "undisturbed C \<longleftrightarrow>
     (\<forall>w. ew_open (cl_world (cv_wait C w)) = ew_open (cl_world w) \<and> ew_next (cl_world (cv_wait C w)) = ew_next (cl_world w) \<and>
          cl_control (cv_wait C w) = cl_control w) \<and>
     (\<forall>method url h w. cl_world (snd (cv_Do C method url h w)) = cl_world w \<and> cl_control (snd (cv_Do C method url h w)) = cl_control w)"

lemma queryStatus_frame:
  assumes "undisturbed C" and "queryStatus C st w = (r, w')"
  shows "cl_world w' = cl_world w \<and> cl_control w' = cl_control w"
proof -
  obtain rd w1 where d: "cv_Do C ''GET'' (cs_ControlURL st @ ''/status'') (bearer st) w = (rd, w1)" by fastforce
  then have "cl_world w1 = cl_world w" "cl_control w1 = cl_control w"
    using assms(1) by (metis undisturbed_def snd_conv)+
  moreover have "w' = w1" using assms(2) d
    by (auto simp: queryStatus_def pbind_def preturn_def praise_def split: sum.splits prod.splits if_splits option.splits)
  ultimately show ?thesis by simp
qed

lemma files_frame [simp]:
  "cl_world (snd (onFiles m w)) = cl_world w" "cl_control (snd (onFiles m w)) = cl_control w"
  "cl_world (dropState path w) = cl_world w" "cl_control (dropState path w) = cl_control w"
  "cl_world (printLines ls w) = cl_world w" "cl_control (printLines ls w) = cl_control w"
  by (simp_all add: onFiles_def dropState_def printLines_def split: prod.split)

lemma runningFromState_frame:
  assumes "undisturbed C" and "runningFromState C path w = (r, w')"
  shows "cl_world w' = cl_world w \<and> cl_control w' = cl_control w"
proof -
  obtain rs w1 where f: "onFiles (Control.ReadState path) w = (rs, w1)" by fastforce
  then have w1: "cl_world w1 = cl_world w" "cl_control w1 = cl_control w" by (metis files_frame(1,2) snd_conv)+
  show ?thesis
  proof (cases rs)
    case (Inl e)
    with f assms(2) w1 show ?thesis by (auto simp: runningFromState_def)
  next
    case (Inr st)
    obtain q w2 where q: "queryStatus C st w1 = (q, w2)" by fastforce
    from queryStatus_frame [OF assms(1) q] f assms(2) w1 Inr q show ?thesis
      by (cases q) (auto simp: runningFromState_def)
  qed
qed

lemma stopEngine_idle:
  assumes "holding eng w" and "stopEngine C cfg eng w = (err, w')"
  shows "idle w' \<and> cl_control w' = cl_control w"
proof -
  obtain eng' ew where stop: "Engine.Stop (cliEngine C cfg) (eng, cl_world w) = (err, (eng', ew))" and w': "w' = w\<lparr>cl_world := ew\<rparr>"
    using assms(2) by (auto simp: stopEngine_def split: prod.splits)
  then have "owned (eng', ew)" "\<not> eg_running eng'" using owned_Stop [OF _ stop] assms(1) by (simp_all add: holding_def)
  then show ?thesis using idle_owned w' by (auto simp: idle_def)
qed

lemma token_not_blank:
  assumes "rnd 32 = Inr bs" and "length bs = 32" and "GenerateToken rnd = Inr token"
  shows "TrimSpace token \<noteq> []"
proof -
  obtain a b c rest where bs: "bs = a # b # c # rest" using assms(2) by (cases bs; cases "tl bs"; cases "tl (tl bs)") auto
  let ?n = "unat a * 65536 + unat b * 256 + unat c"
  have "plain (base64url n)" if "n < 64" for n
    using that by (auto simp: base64url_def plain_def)
  moreover have "?n div 262144 < 64" using unsigned_less [of a, where 'a = nat] unsigned_less [of b, where 'a = nat] unsigned_less [of c, where 'a = nat] by simp
  moreover have "base64url (?n div 262144) \<in> set token"
    using assms(1,3) bs by (auto simp: GenerateToken_def map_err_def map_result_def Let_def)
  ultimately show ?thesis using TrimSpace_not_blank by blast
qed

lemma startControl_fails: "startControl C ctl w = (Inl e, w') \<Longrightarrow> w' = w"
  by (auto simp: startControl_def split: prod.splits sum.splits)

lemma startControl_opens:
  assumes "startControl C ctl w = (Inr ctl', w')"
  obtains a where "ct_server ctl' = Some a" and "ct_url ctl' = ''http://'' @ a" and "ct_token ctl' = ct_token ctl"
    and "w' = w\<lparr>cl_control := a # cl_control w\<rparr>" and "isLoopbackAddr (cv_lib C) a"
  using assms by (auto simp: startControl_def Control.Start_def split: prod.splits sum.splits if_splits)

lemma stopControl_closes: "ct_server ctl = Some a \<Longrightarrow> cl_control w = a # as \<Longrightarrow> snd (stopControl C ctl w) = w\<lparr>cl_control := as\<rparr>"
  by (simp add: stopControl_def split: prod.split)

lemma writeRuntimeState_run:
  assumes "writeRuntimeState C cfg eng ctl w = (r, w')"
  shows "w' = w\<lparr>cl_files := cl_files w'\<rparr>"
    and "r = Inr () \<Longrightarrow> wo_files (cl_files w') (rt_StatePath (c_Runtime cfg)) =
      Some (Control.encodeState (runtimeState C cfg (runtimeStatus C cfg eng w) ctl))"
  using assms
  by (auto simp: writeRuntimeState_def failing_def onFiles_def Control.WriteState_def writeFile_def map_err_def split: prod.splits if_splits)

lemma cleaning_run: "cleaning m undo w = (r, w') \<longleftrightarrow> (\<exists>e w1. m w = (Inl e, w1) \<and> r = Inl e \<and> w' = undo w1) \<or> (\<exists>x. m w = (Inr x, w') \<and> r = Inr x)"
  by (auto simp: cleaning_def split: prod.splits sum.splits)

text \<open>A process that is up: it holds its servers and its control listener, and the state file says how to reach it.\<close>

definition up :: "('k, 'p, 'os, 'x) cliEnv \<Rightarrow> Config \<Rightarrow> Engine \<Rightarrow> ControlServer \<Rightarrow> string list \<Rightarrow> ('p, 'os, 'x) cliWorld \<Rightarrow> bool" where
  "up C cfg eng ctl listeners w \<longleftrightarrow>
     holding eng w \<and>
     (\<exists>a. ct_server ctl = Some a \<and> ct_url ctl = ''http://'' @ a \<and> isLoopbackAddr (cv_lib C) a \<and> cl_control w = a # listeners) \<and>
     (\<exists>st. wo_files (cl_files w) (rt_StatePath (c_Runtime cfg)) = Some (Control.encodeState st) \<and>
       cs_ControlURL st = ct_url ctl \<and> cs_Token st = ct_token ctl)"

lemma publish_run:
  assumes "publish C cfg eng ctl w = (r, w')" and "holding eng w"
  shows "case r of Inl _ \<Rightarrow> idle w' \<and> cl_control w' = cl_control w
    | Inr x \<Rightarrow> (\<exists>ctl'. x = (cfg, eng, ctl') \<and> up C cfg eng ctl' (cl_control w) w')"
proof -
  have stop: "idle (snd (stopEngine C cfg eng v)) \<and> cl_control (snd (stopEngine C cfg eng v)) = cl_control v" if "holding eng v" for v
    using stopEngine_idle [OF that] by (metis prod.collapse)
  consider (no_control) e where "startControl C ctl w = (Inl e, w)" "r = Inl e" "w' = snd (stopEngine C cfg eng w)"
    | (control) ctl' a where "ct_server ctl' = Some a" "ct_url ctl' = ''http://'' @ a" "isLoopbackAddr (cv_lib C) a"
      "pthen (cleaning (writeRuntimeState C cfg eng ctl') (snd \<circ> stopEngine C cfg eng \<circ> (snd \<circ> stopControl C ctl')))
         (preturn (cfg, eng, ctl')) (w\<lparr>cl_control := a # cl_control w\<rparr>) = (r, w')"
    using assms(1) by (auto simp: publish_def pbind_run cleaning_run dest: startControl_fails elim!: startControl_opens)
  then show ?thesis
  proof cases
    case no_control
    with stop [OF assms(2)] show ?thesis by simp
  next
    case control
    let ?v = "w\<lparr>cl_control := a # cl_control w\<rparr>"
    obtain q v where q: "writeRuntimeState C cfg eng ctl' ?v = (q, v)" by fastforce
    obtain fs where v: "v = ?v\<lparr>cl_files := fs\<rparr>" using writeRuntimeState_run(1) [OF q] by metis
    have h: "holding eng v" "holding eng (snd (stopControl C ctl' v))"
      using assms(2) by (simp_all add: v holding_def stopControl_def split: prod.split)
    show ?thesis
    proof (cases q)
      case (Inl e)
      have "snd (stopControl C ctl' v) = v\<lparr>cl_control := cl_control w\<rparr>" by (rule stopControl_closes [OF control(1)]) (simp add: v)
      with Inl q control(4) stop [OF h(2)] show ?thesis by (auto simp: pthen_def pbind_def cleaning_def)
    next
      case (Inr u)
      then have "r = Inr (cfg, eng, ctl')" "w' = v" using q control(4) by (auto simp: pthen_def pbind_def cleaning_def preturn_def)
      moreover have "cl_control v = a # cl_control w" by (simp add: v)
      ultimately show ?thesis using writeRuntimeState_run(2) [OF q] Inr h(1) control(1-3)
        by (auto simp: up_def runtimeState_def split: prod.split)
    qed
  qed
qed

lemma startEngine_run:
  assumes "startEngine C cfg (newEngine c) w = (r, w')" and "idle w"
  shows "cl_control w' = cl_control w \<and> (case r of Inl _ \<Rightarrow> idle w' | Inr eng \<Rightarrow> holding eng w')"
proof -
  have "owned (newEngine c, cl_world w)" using assms(2) by (simp add: idle_def owned_new)
  moreover obtain q e' ew where q: "Engine.Start (cv_lib C) (cliEngine C cfg) (newEngine c, cl_world w) = (q, (e', ew))" by (metis prod.exhaust)
  ultimately have "owned (e', ew)" "eg_running e' = (eg_running (newEngine c) \<or> is_ok q)"
    using owned_Start by blast+
  moreover have "\<not> eg_running (newEngine c)" by (simp add: newEngine_def)
  moreover note idle = idle_owned [OF calculation(1)]
  ultimately have "owned (e', ew)" "eg_running e' = is_ok q" "\<not> is_ok q \<longrightarrow> ew_open ew = []" by simp_all
  with q assms(1) show ?thesis
    by (cases q) (auto simp: startEngine_def holding_def idle_def is_ok_def)
qed

lemma startUp_run:
  assumes "undisturbed C" and "idle w" and "cv_random C 32 = Inr bs" and "length bs = 32" and "startUp C args w = (r, w')"
  shows "case r of Inl _ \<Rightarrow> idle w' \<and> cl_control w' = cl_control w
    | Inr (cfg, eng, ctl) \<Rightarrow> startConfig C args = Inr cfg \<and> up C cfg eng ctl (cl_control w) w'"
proof (cases "startConfig C args")
  case (Inl e)
  with assms show ?thesis by (auto simp: startUp_def pbind_def plift_def)
next
  case (Inr cfg)
  let ?path = "rt_StatePath (c_Runtime cfg)"
  obtain running w1 where running: "runningFromState C ?path w = (running, w1)" by fastforce
  have w1: "idle w1" "cl_control w1 = cl_control w"
    using runningFromState_frame [OF assms(1) running] assms(2) by (simp_all add: idle_def)
  show ?thesis
  proof (cases "running = Inr True \<or> (\<exists>e. Engine.New (cv_lib C) cfg = Inl e)")
    case True
    with assms(5) Inr running w1 show ?thesis
      by (auto simp: startUp_def pbind_def pthen_def plift_def ensure_def map_err_def split: if_splits)
  next
    case False
    then obtain eng where "Engine.New (cv_lib C) cfg = Inr eng" by (metis sum.exhaust)
    moreover from this obtain c where c: "eng = newEngine c" using New_is_newEngine by blast
    moreover obtain q w2 where q: "startEngine C cfg eng w1 = (q, w2)" by fastforce
    note started = startEngine_run [OF q [unfolded c] w1(1)]
    obtain token where token: "GenerateToken (cv_random C) = Inr token"
      using assms(3) by (simp add: GenerateToken_def map_err_def map_result_def)
    define ctl where "ctl = \<lparr>ct_addr = rt_ControlAddr (c_Runtime cfg), ct_token = token, ct_server = None, ct_url = []\<rparr>"
    have "NewControlServer (rt_ControlAddr (c_Runtime cfg)) token True True = Inr ctl"
      using token_not_blank [OF assms(3,4) token] by (simp add: NewControlServer_def ctl_def ensure_def rbind_def)
    ultimately have run: "(case q of Inl e \<Rightarrow> (Inl e, w2) | Inr eng' \<Rightarrow> publish C cfg eng' ctl w2) = (r, w')"
      using assms(5) Inr running False q token
      by (cases q) (simp_all add: startUp_def publish_def pbind_def pthen_def plift_def ensure_def map_err_def)
    then show ?thesis
    proof (cases q)
      case (Inr eng')
      with run have "publish C cfg eng' ctl w2 = (r, w')" "holding eng' w2" using started by simp_all
      from publish_run [OF this] show ?thesis using started w1 \<open>startConfig C args = Inr cfg\<close> by (auto split: sum.splits)
    qed (use started w1 in auto)
  qed
qed

lemma serveUntilDone_run:
  assumes "undisturbed C" and "\<And>w. cv_watcher C w \<noteq> WatcherWorks" and "up C cfg eng ctl listeners w"
    and "serveUntilDone C cfg eng ctl w = (r, w')"
  shows "idle w' \<and> cl_control w' = listeners \<and>
    (wo_files (cl_files w') (rt_StatePath (c_Runtime cfg)) = None \<or> \<not> wo_removable (cl_files w') (rt_StatePath (c_Runtime cfg)))"
proof -
  let ?w = "cv_wait C w"
  have wait: "ew_open (cl_world ?w) = ew_open (cl_world w)" "ew_next (cl_world ?w) = ew_next (cl_world w)" "cl_control ?w = cl_control w"
    using assms(1) by (simp_all add: undisturbed_def)
  have h: "holding eng ?w" using assms(3) wait by (simp add: up_def holding_def owned_def fresh_def)
  obtain a where a: "ct_server ctl = Some a" "cl_control ?w = a # listeners" using assms(3) wait by (auto simp: up_def)
  obtain ce v where v: "stopControl C ctl ?w = (ce, v)" by fastforce
  have v': "v = ?w\<lparr>cl_control := listeners\<rparr>" using stopControl_closes [OF a, of C] v by simp
  then have "holding eng v" using h by (simp add: holding_def)
  obtain ee u where u: "stopEngine C cfg eng v = (ee, u)" by fastforce
  from stopEngine_idle [OF \<open>holding eng v\<close> u] v' have "idle u" "cl_control u = listeners" by simp_all
  moreover have "w' = dropState (rt_StatePath (c_Runtime cfg)) u"
    using assms(2) [of v] assms(4) v u by (cases "cv_watcher C v") (auto simp: serveUntilDone_def)
  ultimately show ?thesis
    by (auto simp: idle_def dropState_def onFiles_def Control.RemoveState_def removeFile_def split: prod.splits)
qed

subsection \<open>Properties\<close>



subsection \<open>Another terminal\<close>

text \<open>
  The HTTP client and the control server on one machine: while the listener is open, a request gets the response of the
  handler, and the stop function cancels the context of the process.
\<close>

definition controlRequest :: "string \<Rightarrow> string \<Rightarrow> string \<Rightarrow> header \<Rightarrow> httpRequest" where
  "controlRequest method host path h =
     \<lparr>rq_Method = method, rq_URL = Some \<lparr>ru_Scheme = [], ru_Host = [], ru_Path = path\<rparr>, rq_Host = host, rq_RequestURI = path,
      rq_Header = h, rq_TLS = False\<rparr>"

definition reaches :: "('k, 'p, 'os, 'x) cliEnv \<Rightarrow> ControlServer \<Rightarrow> (('p, 'os, 'x) cliWorld \<Rightarrow> string) \<Rightarrow> bool" where
  "reaches C ctl status \<longleftrightarrow>
     (\<forall>a method path h w. ct_server ctl = Some a \<and> a \<in> set (cl_control w) \<and> path \<in> {''/status'', ''/stop''} \<longrightarrow>
        cv_Do C method (ct_url ctl @ path) h w =
          (case serveControl ctl (status w) (\<lambda>_ rw. rw) (controlRequest method a path h) newWriter of
             (rw, stop) \<Rightarrow> (Inr (rw_Status rw, rw_Body rw), if stop then w\<lparr>cl_stopRequested := True\<rparr> else w)))"

text \<open>A request to stop is not taken back, and the clock does not go back.\<close>

definition steadyClient :: "('k, 'p, 'os, 'x) cliEnv \<Rightarrow> bool" where
  "steadyClient C \<longleftrightarrow>
     (\<forall>d w. cl_stopRequested w \<longrightarrow> cl_stopRequested (cv_sleep C d w)) \<and>
     (\<forall>m u h w. cl_stopRequested w \<longrightarrow> cl_stopRequested (snd (cv_Do C m u h w))) \<and>
     (\<forall>d w. cl_clock w + d \<le> cl_clock (cv_sleep C d w)) \<and>
     (\<forall>m u h w. cl_clock w \<le> cl_clock (snd (cv_Do C m u h w)))"

lemma queryStatus_world:
  "queryStatus C st w = (r, w') \<Longrightarrow> w' = snd (cv_Do C ''GET'' (cs_ControlURL st @ ''/status'') (bearer st) w)"
  by (auto simp: queryStatus_def pbind_def praise_def preturn_def split: prod.splits sum.splits if_splits option.splits)

lemma awaitStop_ends:
  assumes "steadyClient C"
  shows "pollLoop (cv_sleep C 100) (stopRound C st (cl_clock w + 5000)) w = Some (awaitStop C st w)"
  unfolding awaitStop_def
proof (rule pollLoop_returns [where now = "cl_clock" and deadline = "cl_clock w + 5000" and d = 100])
  fix v v' assume "stopRound C st (cl_clock w + 5000) v = (None, v')"
  then have "cl_clock v < cl_clock w + 5000" "\<exists>r. queryStatus C st v = (r, v')"
    by (auto simp: stopRound_def split: if_splits prod.splits sum.splits)
  then show "cl_clock v \<le> cl_clock v' \<and> cl_clock v \<le> cl_clock w + 5000"
    using assms by (auto simp: steadyClient_def dest!: queryStatus_world)
qed (use assms in \<open>auto simp: steadyClient_def stopRounds_def\<close>)

lemma stopRound_requested:
  "steadyClient C \<Longrightarrow> cl_stopRequested w \<Longrightarrow> stopRound C st deadline w = (r, w') \<Longrightarrow> cl_stopRequested w'"
  by (auto simp: stopRound_def steadyClient_def dest!: queryStatus_world split: if_splits prod.splits sum.splits)

lemma poll_requested:
  "steadyClient C \<Longrightarrow> cl_stopRequested w \<Longrightarrow> poll n (cv_sleep C 100) (stopRound C st deadline) out w = (r, w') \<Longrightarrow> cl_stopRequested w'"
proof (induction n arbitrary: w)
  case (Suc n)
  obtain q w1 where q: "stopRound C st deadline w = (q, w1)" by fastforce
  have "cl_stopRequested w1" "cl_stopRequested (cv_sleep C 100 w1)"
    using stopRound_requested [OF Suc.prems(1,2) q] Suc.prems(1) by (simp_all add: steadyClient_def)
  with Suc q show ?case by (cases q) auto
qed simp

lemma read_up:
  assumes "up C cfg eng ctl listeners w"
  obtains st where "onFiles (Control.ReadState (rt_StatePath (c_Runtime cfg))) w = (Inr st, w)"
    and "cs_ControlURL st = ct_url ctl" and "cs_Token st = ct_token ctl"
  using assms by (auto simp: up_def onFiles_def Control.ReadState_def readFile_def)

lemma served_status:
  assumes "reaches C ctl status" and "ct_server ctl = Some a" and "a \<in> set (cl_control w)"
    and "cs_ControlURL st = ct_url ctl" and "cs_Token st = ct_token ctl" and "cv_decodeStatus C (status w) = Some s"
  shows "queryStatus C st w = (Inr s, w)"
proof -
  have "cv_Do C ''GET'' (ct_url ctl @ ''/status'') (bearer st) w = (Inr (200, status w), w)"
    using assms(1-3,5)
    by (simp add: reaches_def serveControl_def withAuth_def controlRequest_def bearer_def handleStatus_def writeBody_def WriteHeader_def newWriter_def)
  with assms(4,6) show ?thesis by (simp add: queryStatus_def pbind_def preturn_def)
qed

lemma served_stop:
  assumes "reaches C ctl status" and "ct_server ctl = Some a" and "a \<in> set (cl_control w)"
    and "cs_ControlURL st = ct_url ctl" and "cs_Token st = ct_token ctl"
  shows "postStop C st w = (Inr (), w\<lparr>cl_stopRequested := True\<rparr>)"
proof -
  have "cv_Do C ''POST'' (ct_url ctl @ ''/stop'') (bearer st) w = (Inr (202, ''stopping'' @ [LF]), w\<lparr>cl_stopRequested := True\<rparr>)"
    using assms(1-3,5)
    by (simp add: reaches_def serveControl_def withAuth_def controlRequest_def bearer_def handleStop_def writeBody_def WriteHeader_def newWriter_def)
  with assms(4) show ?thesis by (simp add: postStop_def pbind_def preturn_def)
qed

text \<open>
  C7.  The commands of another terminal reach a running process: once \<open>start\<close> has come up, \<open>status\<close> with the
  same state file prints the report of that process, and \<open>stop\<close> passes the check of the control server, tells the
  process to stop, waits at most its rounds for it, and removes the state file.
\<close>

theorem commands_reach_process:
  assumes "undisturbed C" and "idle w0" and "cv_random C 32 = Inr bs" and "length bs = 32"
    and "startUp C args0 w0 = (Inr (cfg, eng, ctl), w)"
    and "reaches C ctl status" and "steadyClient C" and "cv_decodeStatus C (status w) = Some s"
    and "statePathFromFlags C args = Inr (rt_StatePath (c_Runtime cfg))"
  shows "runStatus C args w = (Inr (), printLines (statusReport s) w) \<and>
    (\<exists>st line w'. pollLoop (cv_sleep C 100) (stopRound C st (cl_clock (w\<lparr>cl_stopRequested := True\<rparr>) + 5000)) (w\<lparr>cl_stopRequested := True\<rparr>)
        = Some (line, w') \<and>
      runStop C args w = (Inr (), printLines [line] (dropState (rt_StatePath (c_Runtime cfg)) w')) \<and> cl_stopRequested w')"
proof -
  have up: "up C cfg eng ctl (cl_control w0) w" using startUp_run [OF assms(1-5)] by simp
  then obtain a where a: "ct_server ctl = Some a" "a \<in> set (cl_control w)" by (auto simp: up_def)
  obtain st where st: "onFiles (Control.ReadState (rt_StatePath (c_Runtime cfg))) w = (Inr st, w)"
    "cs_ControlURL st = ct_url ctl" "cs_Token st = ct_token ctl" by (rule read_up [OF up])
  let ?v = "w\<lparr>cl_stopRequested := True\<rparr>"
  obtain line w' where await: "awaitStop C st ?v = (line, w')" by fastforce
  have "cl_stopRequested w'" using poll_requested [OF assms(7) _ await [unfolded awaitStop_def]] by simp
  moreover have "runStop C args w = (Inr (), printLines [line] (dropState (rt_StatePath (c_Runtime cfg)) w'))"
    using st(1) await served_stop [OF assms(6) a st(2,3)] assms(9)
    by (simp add: runStop_def withState_def pbind_def plift_def)
  moreover have "runStatus C args w = (Inr (), printLines (statusReport s) w)"
    using st(1) served_status [OF assms(6) a st(2,3) assms(8)] assms(9)
    by (simp add: runStatus_def withState_def pbind_def plift_def)
  ultimately show ?thesis using awaitStop_ends [OF assms(7), of st ?v] await by auto
qed

subsection \<open>After a crash\<close>

lemma hosts_meta: "rollbackMeta E (Hosts.encodeState st) = Some (hs_Kind st, hs_Mode st)"
  by (simp add: rollbackMeta_def Hosts.encodeState_def decodeStruct_def fieldOf_def toStr_def EqualFold_def isAscii_def lowerAscii_def)


subsection \<open>Where it does not clean up\<close>

text \<open>
  When the goroutine of the engine has taken the servers and the process ends before it has worked on them, the command
  reports success and the world is as it was while the process ran, settings of the system included.
\<close>

lemma watcher_ahead_leaves_settings:
  assumes "cv_watcher C (snd (stopControl C ctl (cv_wait C w))) = WatcherWorks" and "fst (stopControl C ctl (cv_wait C w)) = None"
  shows "fst (serveUntilDone C cfg eng ctl w) = Inr () \<and> cl_world (snd (serveUntilDone C cfg eng ctl w)) = cl_world (cv_wait C w)"
  using assms by (auto simp: serveUntilDone_def stopControl_def split: prod.splits)

text \<open>Without random bytes for the token, \<open>start\<close> fails after the engine has started and does not stop it.\<close>

lemma token_failure_leaves_engine:
  assumes "startConfig C args = Inr cfg" and "runningFromState C (rt_StatePath (c_Runtime cfg)) w = (Inr False, w1)"
    and "Engine.New (cv_lib C) cfg = Inr eng" and "startEngine C cfg eng w1 = (Inr eng', w2)" and "cv_random C 32 = Inl e"
  shows "startUp C args w = (Inl (CliControl (RandomFailed e)), w2)"
  using assms by (simp add: startUp_def pbind_def pthen_def plift_def ensure_def map_err_def GenerateToken_def map_result_def)

subsection \<open>A machine\<close>

definition sampleCtl :: ControlServer where
  "sampleCtl = \<lparr>ct_addr = ''127.0.0.1:0'', ct_token = rawURLEncode (replicate 32 0), ct_server = Some ''127.0.0.1:26503'',
     ct_url = ''http://127.0.0.1:26503''\<rparr>"

definition sampleReport :: reportStatus where
  "sampleReport = \<lparr>es_Running = True, es_Mode = ModeProxyOnly, es_ListenAddr = [], es_PACURL = [], es_Hosts = [], es_ResolverMode = [],
     es_ResolverServers = [], es_UpstreamProfiles = 0, es_Rollback = False, es_CertInstalled = False, es_StartupProbes = [], es_LastError = [],
     es_RuleSetName = [], es_RuleSetVersion = [], es_RuleSetUpdatedAt = [], es_Providers = [], es_RuleCount = 0, es_SystemDNS = None,
     es_SystemChanges = [], es_DNSIntercept = None, es_PageEnhance = None, es_ActiveConns = 0, es_StartedAt = []\<rparr>"

definition sampleCli :: "(nat, winStores, bool, unit) cliEnv" where
  "sampleCli = \<lparr>cv_priv = sampleServer, cv_parts = sampleParts, cv_helper = noHelper,
     cv_yaml = \<lparr>os_ReadFile = (\<lambda>_. None), yaml_Node = (\<lambda>_. None), yaml_Unmarshal = (\<lambda>_ _. None)\<rparr>,
     cv_counters = (\<lambda>_. (None, None, 0, [])), cv_random = (\<lambda>n. Inr (replicate n 0)), cv_listen = (\<lambda>a. Inr ''127.0.0.1:26503''),
     cv_controlEnds = (None, None), cv_getpid = 7,
     cv_Do = (\<lambda>method url h w.
       if ''127.0.0.1:26503'' \<in> set (cl_control w)
       then (case serveControl sampleCtl ''status'' (\<lambda>_ rw. rw) (controlRequest method ''127.0.0.1:26503'' (drop (length (ct_url sampleCtl)) url) h) newWriter of
               (rw, stop) \<Rightarrow> (Inr (rw_Status rw, rw_Body rw), if stop then w\<lparr>cl_stopRequested := True\<rparr> else w))
       else (Inl ''connection refused'', w)),
     cv_decodeStatus = (\<lambda>_. Some sampleReport), cv_wait = (\<lambda>w. w), cv_watcher = (\<lambda>_. WatcherWaits),
     cv_sleep = (\<lambda>d w. w\<lparr>cl_clock := cl_clock w + d\<rparr>)\<rparr>"

definition sampleDesk :: "(winStores, bool, unit) cliWorld" where
  "sampleDesk = \<lparr>cl_world = sampleIdle, cl_files = \<lparr>wo_os = (), wo_files = (\<lambda>_. None), wo_writable = (\<lambda>_. True), wo_removable = (\<lambda>_. True)\<rparr>,
     cl_control = [], cl_stopRequested = False, cl_clock = 0, cl_out = []\<rparr>"

lemma sample_cli_facts:
  "undisturbed sampleCli" "idle sampleDesk" "steadyClient sampleCli" "cv_random sampleCli 32 = Inr (replicate 32 0)"
  "cv_watcher sampleCli w \<noteq> WatcherWorks" "reaches sampleCli sampleCtl (\<lambda>_. ''status'')" "cv_lib sampleCli = sampleLib"
  by (auto simp: undisturbed_def sampleCli_def sampleDesk_def idle_def sampleIdle_def steadyClient_def reaches_def sampleServer_def sampleCtl_def
      split: prod.splits)

abbreviation serverPaths :: DefaultPaths where
  "serverPaths \<equiv> \<lparr>dp_Hosts = ''/etc/hosts'', dp_CertDir = ''/c'', dp_State = ''/run/s'', dp_Rollback = ''/run/r''\<rparr>"

lemma sample_load: "loadConfig sampleCli [] = map_err CliConfig (Validate sampleLib (Default serverPaths))"
proof -
  have "TrimSpace [] = []" by code_simp
  then show ?thesis by (simp add: loadConfig_def LoadFile_def sampleCli_def sampleServer_def)
qed

lemma sample_validated: "Validate sampleLib (Default serverPaths) = Inr (Default serverPaths)"
proof -
  have "case Validate sampleLib (Default serverPaths) of Inl _ \<Rightarrow> False | Inr c \<Rightarrow> c = Default serverPaths" by code_simp
  then show ?thesis by (simp split: sum.splits)
qed

lemma sample_built: "is_ok (build sampleLib (Default serverPaths))"
  by code_simp

lemma sample_start_config:
  obtains cfg eng where "startConfig sampleCli [] = Inr cfg" and "rt_StatePath (c_Runtime cfg) = ''/run/s''"
    and "statePathFromFlags sampleCli [] = Inr ''/run/s''" and "rt_ControlAddr (c_Runtime cfg) = ct_addr sampleCtl"
    and "Engine.New sampleLib cfg = Inr eng" and "c_Mode (eg_cfg eng) = ModeProxyOnly" and "is_ok (build sampleLib (eg_cfg eng))"
    and "\<not> eg_running eng"
proof -
  have "TrimSpace [] = []" by code_simp
  moreover have "applyStartOverrides [] c = c" for c by (simp add: applyStartOverrides_def override_def given_def)
  ultimately have "startConfig sampleCli [] = Inr (Default serverPaths)"
    "statePathFromFlags sampleCli [] = Inr (rt_StatePath (c_Runtime (Default serverPaths)))"
    using sample_cli_facts(7)
    by (simp_all add: startConfig_def statePathFromFlags_def configWith_def hasLegacyFlag_def ensure_def rbind_def map_err_def flagString_def
        given_def sample_load sample_validated map_result_def)
  moreover have "rt_StatePath (c_Runtime (Default serverPaths)) = ''/run/s''" "rt_ControlAddr (c_Runtime (Default serverPaths)) = ct_addr sampleCtl"
    "Engine.New sampleLib (Default serverPaths) = Inr (newEngine (Default serverPaths))" "c_Mode (Default serverPaths) = ModeProxyOnly"
    using sample_validated by (simp_all add: Default_def sampleCtl_def Engine.New_def map_result_def)
  ultimately show thesis
    by (intro that [of "Default serverPaths" "newEngine (Default serverPaths)"]) (use sample_built in \<open>simp_all add: newEngine_def\<close>)
qed

lemma sample_engine_starts:
  assumes "c_Mode (eg_cfg eng) = ModeProxyOnly" and "is_ok (build sampleLib (eg_cfg eng))" and "\<not> eg_running eng"
  shows "\<exists>eng' ew. Engine.Start sampleLib (cliEngine sampleCli cfg) (eng, ew0) = (Inr (), (eng', ew))"
proof -
  obtain b where "build sampleLib (eg_cfg eng) = Inr b" using assms(2) by auto
  moreover have "eo_listen (cliEngine sampleCli cfg) = (\<lambda>k w. Inr [''127.0.0.1:443''])"
    by (simp add: cliEngine_def engineOps_def sampleCli_def sampleParts_def Let_def)
  ultimately show ?thesis using assms
    by (simp add: Engine.Start_def startWork_def launch_def launchForward_def launchPAC_def startServer_def pbind_def pthen_def plift_def
        map_err_def failing_def preturn_def)
qed

lemma sample_startUp:
  obtains cfg eng w where "startUp sampleCli [] sampleDesk = (Inr (cfg, eng, sampleCtl), w)"
    and "statePathFromFlags sampleCli [] = Inr (rt_StatePath (c_Runtime cfg))"
proof -
  obtain cfg eng where c: "startConfig sampleCli [] = Inr cfg" "rt_StatePath (c_Runtime cfg) = ''/run/s''"
    "statePathFromFlags sampleCli [] = Inr ''/run/s''" "rt_ControlAddr (c_Runtime cfg) = ct_addr sampleCtl"
    "Engine.New sampleLib cfg = Inr eng" "c_Mode (eg_cfg eng) = ModeProxyOnly" "is_ok (build sampleLib (eg_cfg eng))"
    "\<not> eg_running eng" by (rule sample_start_config)
  obtain eng' ew where start: "Engine.Start sampleLib (cliEngine sampleCli cfg) (eng, sampleIdle) = (Inr (), (eng', ew))"
    using sample_engine_starts [OF c(6-8)] by blast
  let ?w = "sampleDesk\<lparr>cl_world := ew\<rparr>"
  have running: "runningFromState sampleCli ''/run/s'' sampleDesk = (Inr False, sampleDesk)"
    by (simp add: runningFromState_def onFiles_def Control.ReadState_def readFile_def sampleDesk_def)
  have "startEngine sampleCli cfg eng sampleDesk = (Inr eng', ?w)"
    using start sample_cli_facts(7) by (simp add: startEngine_def sampleDesk_def)
  moreover have "GenerateToken (cv_random sampleCli) = Inr (ct_token sampleCtl)"
    by (simp add: GenerateToken_def sampleCli_def sampleCtl_def map_err_def map_result_def)
  moreover have "TrimSpace (ct_token sampleCtl) \<noteq> []"
    by (rule token_not_blank [OF sample_cli_facts(4) _ calculation(2)]) simp
  then have "NewControlServer (ct_addr sampleCtl) (ct_token sampleCtl) True True = Inr (sampleCtl\<lparr>ct_server := None, ct_url := []\<rparr>)"
    by (simp add: NewControlServer_def ensure_def rbind_def sampleCtl_def)
  moreover have "isLoopbackAddr sampleLib ''127.0.0.1:26503''" by code_simp
  then have "startControl sampleCli (sampleCtl\<lparr>ct_server := None, ct_url := []\<rparr>) ?w =
      (Inr sampleCtl, ?w\<lparr>cl_control := [''127.0.0.1:26503'']\<rparr>)"
    using sample_cli_facts(7) by (simp add: startControl_def Control.Start_def sampleCtl_def sampleDesk_def) (simp add: sampleCli_def)
  moreover have "TrimSpace ''/run/s'' \<noteq> []" by code_simp
  then have "fst (writeRuntimeState sampleCli cfg eng' sampleCtl (?w\<lparr>cl_control := [''127.0.0.1:26503'']\<rparr>)) = Inr ()"
    using c(2) by (simp add: writeRuntimeState_def failing_def onFiles_def Control.WriteState_def writeFile_def map_err_def sampleDesk_def)
  ultimately obtain w where "startUp sampleCli [] sampleDesk = (Inr (cfg, eng', sampleCtl), w)"
    using c running sample_cli_facts(7)
    by (cases "writeRuntimeState sampleCli cfg eng' sampleCtl (?w\<lparr>cl_control := [''127.0.0.1:26503'']\<rparr>)")
      (auto simp: startUp_def publish_def cleaning_def pbind_def pthen_def plift_def ensure_def map_err_def preturn_def)
  with c(2,3) that show thesis by simp
qed


theorem commands_reach_process_witness:
  "\<exists>cfg eng w. startUp sampleCli [] sampleDesk = (Inr (cfg, eng, sampleCtl), w) \<and>
     runStatus sampleCli [] w = (Inr (), printLines (statusReport sampleReport) w) \<and> fst (runStop sampleCli [] w) = Inr ()"
proof -
  obtain cfg eng w where up: "startUp sampleCli [] sampleDesk = (Inr (cfg, eng, sampleCtl), w)"
    and path: "statePathFromFlags sampleCli [] = Inr (rt_StatePath (c_Runtime cfg))" by (rule sample_startUp)
  have "cv_decodeStatus sampleCli ''status'' = Some sampleReport" by (simp add: sampleCli_def)
  with commands_reach_process [OF sample_cli_facts(1,2,4) _ up sample_cli_facts(6,3) _ path] show ?thesis using up by fastforce
qed

text \<open>The machine of hosts mode, after the process has died.\<close>

lemma sample_rollback_config:
  "\<exists>cfg. Validate sampleLib ((Default serverPaths)\<lparr>c_Runtime := (c_Runtime (Default serverPaths))\<lparr>rt_RollbackPath := ''/r''\<rparr>\<rparr>) = Inr cfg \<and>
     rt_RollbackPath (c_Runtime cfg) = ''/r''"
proof -
  have "case Validate sampleLib ((Default serverPaths)\<lparr>c_Runtime := (c_Runtime (Default serverPaths))\<lparr>rt_RollbackPath := ''/r''\<rparr>\<rparr>) of
      Inl _ \<Rightarrow> False | Inr cfg \<Rightarrow> rt_RollbackPath (c_Runtime cfg) = ''/r''"
    by code_simp
  then show ?thesis by (simp split: sum.splits)
qed


end
