(* ===== verification/PowerShell.thy ===== *)
theory PowerShell
  imports WinCerts
begin

section \<open>Running PowerShell\<close>

text \<open>
  How \<^verbatim>\<open>internal/certstore/platform_windows.go\<close> and \<^verbatim>\<open>internal/hosts/platform_windows.go\<close> hand a script to
  \<^verbatim>\<open>powershell.exe\<close>: its runes as UTF-16, the units as little-endian bytes, the bytes as base64.  The
  standard library is written out (\<^verbatim>\<open>[]rune\<close>, \<^verbatim>\<open>utf16.Encode\<close>, \<^verbatim>\<open>base64.StdEncoding\<close>), and so is
  what the other side does with the text, to state that it gets the script back.  What a process does is a parameter.
\<close>

subsection \<open>Runes\<close>

abbreviation RuneError :: nat where "RuneError \<equiv> 0xFFFD"

definition isCont :: "nat \<Rightarrow> bool" where
  "isCont b \<longleftrightarrow> 0x80 \<le> b \<and> b < 0xC0"

text \<open>The first rune of a text and the number of its bytes; a byte that starts none is one of its own.\<close>

fun decodeRune :: "nat list \<Rightarrow> nat \<times> nat" where
  "decodeRune [] = (RuneError, 0)"
| "decodeRune (a # bs) =
     (let b = (case bs of x # _ \<Rightarrow> x | [] \<Rightarrow> 0);
          c = (case bs of _ # x # _ \<Rightarrow> x | _ \<Rightarrow> 0);
          d = (case bs of _ # _ # x # _ \<Rightarrow> x | _ \<Rightarrow> 0)
      in if a < 0x80 then (a, 1)
         else if 0xC2 \<le> a \<and> a < 0xE0 \<and> isCont b then (64 * (a - 0xC0) + (b - 0x80), 2)
         else if 0xE0 \<le> a \<and> a < 0xF0 \<and> isCont b \<and> (a = 0xE0 \<longrightarrow> 0xA0 \<le> b) \<and> (a = 0xED \<longrightarrow> b < 0xA0) \<and> isCont c
         then (4096 * (a - 0xE0) + 64 * (b - 0x80) + (c - 0x80), 3)
         else if 0xF0 \<le> a \<and> a < 0xF5 \<and> isCont b \<and> (a = 0xF0 \<longrightarrow> 0x90 \<le> b) \<and> (a = 0xF4 \<longrightarrow> b < 0x90) \<and> isCont c \<and> isCont d
         then (262144 * (a - 0xF0) + 4096 * (b - 0x80) + 64 * (c - 0x80) + (d - 0x80), 4)
         else (RuneError, 1))"

lemma decodeRune_width: "bs \<noteq> [] \<Longrightarrow> 0 < snd (decodeRune bs)"
  by (cases bs) (simp_all add: Let_def)

function runes :: "nat list \<Rightarrow> nat list" where
  "runes bs = (if bs = [] then [] else fst (decodeRune bs) # runes (drop (snd (decodeRune bs)) bs))"
  by pat_completeness auto
termination
  by (relation "measure length") (use decodeRune_width in \<open>simp_all add: diff_less\<close>)

declare runes.simps [simp del]

definition stringRunes :: "string \<Rightarrow> nat list" where
  "stringRunes s = runes (map of_char s)"

text \<open>ASCII texts, such as the scripts of the program, are their own runes.\<close>

lemma runes_ascii: "\<forall>b\<in>set bs. b < 0x80 \<Longrightarrow> runes bs = bs"
  by (induction bs) (simp_all add: runes.simps [of "_ # _"] runes.simps [of "[]"])

subsection \<open>UTF-16\<close>

definition utf16Units :: "nat \<Rightarrow> nat list" where
  "utf16Units r =
     (if r < 0xD800 \<or> 0xE000 \<le> r \<and> r < 0x10000 then [r]
      else if 0x10000 \<le> r \<and> r < 0x110000 then [0xD800 + (r - 0x10000) div 0x400, 0xDC00 + (r - 0x10000) mod 0x400]
      else [RuneError])"

definition utf16Encode :: "nat list \<Rightarrow> nat list" where
  "utf16Encode rs = concat (map utf16Units rs)"

lemma utf16Units_bound: "u \<in> set (utf16Units r) \<Longrightarrow> u < 0x10000"
  by (auto simp: utf16Units_def split: if_splits)

lemma utf16Encode_ascii: "\<forall>r\<in>set rs. r < 0x80 \<Longrightarrow> utf16Encode rs = rs"
  by (induction rs) (simp_all add: utf16Encode_def utf16Units_def)

definition littleEndian :: "nat list \<Rightarrow> nat list" where
  "littleEndian us = concat (map (\<lambda>u. [u mod 256, u div 256]) us)"

subsection \<open>Base64\<close>

definition base64Char :: "nat \<Rightarrow> char" where
  "base64Char n =
     (if n < 26 then char_of (65 + n) else if n < 52 then char_of (71 + n) else if n < 62 then char_of (n - 4)
      else if n = 62 then CHR ''+'' else CHR ''/'')"

fun stdEncode :: "nat list \<Rightarrow> string" where
  "stdEncode [] = []"
| "stdEncode [a] = map base64Char [a div 4, 16 * (a mod 4)] @ ''==''"
| "stdEncode [a, b] = map base64Char [a div 4, 16 * (a mod 4) + b div 16, 4 * (b mod 16)] @ ''=''"
| "stdEncode (a # b # c # bs) =
     map base64Char [a div 4, 16 * (a mod 4) + b div 16, 4 * (b mod 16) + c div 64, c mod 64] @ stdEncode bs"

definition powerShellEncodedCommand :: "string \<Rightarrow> string" where
  "powerShellEncodedCommand script = stdEncode (littleEndian (utf16Encode (stringRunes script)))"

text \<open>The other side.\<close>

definition base64Val :: "char \<Rightarrow> nat" where
  "base64Val c =
     (let n = of_char c in
      if 65 \<le> n \<and> n < 91 then n - 65 else if 97 \<le> n \<and> n < 123 then n - 71 else if 48 \<le> n \<and> n < 58 then n + 4
      else if n = 43 then 62 else 63)"

fun stdDecode :: "string \<Rightarrow> nat list" where
  "stdDecode (p # q # r # s # t) =
     (let a = base64Val p; b = base64Val q; c = base64Val r; d = base64Val s in
      if r = CHR ''='' then [4 * a + b div 16]
      else if s = CHR ''='' then [4 * a + b div 16, 16 * (b mod 16) + c div 4]
      else [4 * a + b div 16, 16 * (b mod 16) + c div 4, 64 * (c mod 4) + d] @ stdDecode t)"
| "stdDecode _ = []"

fun units :: "nat list \<Rightarrow> nat list" where
  "units (lo # hi # bs) = (lo + 256 * hi) # units bs"
| "units _ = []"

lemma base64_code: "n < 64 \<Longrightarrow> (of_char (base64Char n) :: nat) =
    (if n < 26 then 65 + n else if n < 52 then 71 + n else if n < 62 then n - 4 else if n = 62 then 43 else 47)"
  by (simp add: base64Char_def)

lemma base64Val_Char [simp]: "n < 64 \<Longrightarrow> base64Val (base64Char n) = n"
  by (simp add: base64Val_def base64_code Let_def) arith

lemma base64Char_pad [simp]: "n < 64 \<Longrightarrow> base64Char n \<noteq> CHR ''=''"
proof
  assume "n < 64" and "base64Char n = CHR ''=''"
  then have "(of_char (base64Char n) :: nat) = 61" by simp
  with \<open>n < 64\<close> show False by (auto simp: base64_code split: if_splits)
qed

lemma digits: "y < m \<Longrightarrow> (m * x + y) div m = x" "y < m \<Longrightarrow> (m * x + y) mod m = y" for x y m :: nat
  by (simp_all add: mult.commute)

lemma quantum:
  fixes a b c :: nat
  assumes "a < 256" and "b < 256" and "c < 256"
  shows "a div 4 < 64" "16 * (a mod 4) + b div 16 < 64" "4 * (b mod 16) + c div 64 < 64" "c mod 64 < 64"
    "(16 * (a mod 4) + b div 16) div 16 = a mod 4" "(16 * (a mod 4) + b div 16) mod 16 = b div 16"
    "(4 * (b mod 16) + c div 64) div 4 = b mod 16" "(4 * (b mod 16) + c div 64) mod 4 = c div 64"
    "b div 16 mod 16 = b div 16"
proof -
  have d: "b div 16 < 16" "c div 64 < 4" "a mod 4 < 4" "b mod 16 < 16" using assms by simp_all
  then show "16 * (a mod 4) + b div 16 < 64" "4 * (b mod 16) + c div 64 < 64" by linarith+
  show "a div 4 < 64" "c mod 64 < 64" "b div 16 mod 16 = b div 16" using assms by simp_all
  show "(16 * (a mod 4) + b div 16) div 16 = a mod 4" "(16 * (a mod 4) + b div 16) mod 16 = b div 16"
    "(4 * (b mod 16) + c div 64) div 4 = b mod 16" "(4 * (b mod 16) + c div 64) mod 4 = c div 64"
    by (rule digits, rule d)+
qed

lemma stdDecode_stdEncode: "\<forall>b\<in>set bs. b < 256 \<Longrightarrow> stdDecode (stdEncode bs) = bs"
proof (induction bs rule: stdEncode.induct)
  case (2 a)
  then show ?case using quantum [of a 0 0] by (simp add: Let_def)
next
  case (3 a b)
  then show ?case using quantum [of a b 0] by (simp add: Let_def)
next
  case (4 a b c bs)
  then show ?case using quantum [of a b c] by (simp add: Let_def)
qed simp

lemma units_littleEndian: "units (littleEndian us) = us"
  by (induction us) (simp_all add: littleEndian_def)

lemma littleEndian_bytes: "\<forall>u\<in>set us. u < 0x10000 \<Longrightarrow> b \<in> set (littleEndian us) \<Longrightarrow> b < 256"
  by (auto simp: littleEndian_def)

lemma encodedCommand_decodes: "units (stdDecode (powerShellEncodedCommand script)) = utf16Encode (stringRunes script)"
proof -
  have "\<forall>u\<in>set (utf16Encode (stringRunes script)). u < 0x10000" by (auto simp: utf16Encode_def dest: utf16Units_bound)
  then have "\<forall>b\<in>set (littleEndian (utf16Encode (stringRunes script))). b < 256" using littleEndian_bytes by blast
  then show ?thesis by (simp add: powerShellEncodedCommand_def stdDecode_stdEncode units_littleEndian)
qed

definition ascii :: "string \<Rightarrow> bool" where
  "ascii s \<longleftrightarrow> list_all (\<lambda>c. (of_char c :: nat) < 0x80) s"

lemma encodedCommand_ascii: "ascii script \<Longrightarrow> map char_of (units (stdDecode (powerShellEncodedCommand script))) = script"
  by (simp add: encodedCommand_decodes stringRunes_def ascii_def list_all_iff runes_ascii utf16Encode_ascii comp_def)

subsection \<open>Processes\<close>

text \<open>\<open>shell args env\<close>: the error of the process, if any, and what it printed.\<close>

type_synonym 's shell = "string list \<Rightarrow> string list \<Rightarrow> 's \<Rightarrow> (gerr option \<times> string) \<times> 's"

definition encodedArgs :: "string \<Rightarrow> string list" where
  "encodedArgs script =
     [''-NoLogo'', ''-NoProfile'', ''-NonInteractive'', ''-ExecutionPolicy'', ''Bypass'', ''-EncodedCommand'', powerShellEncodedCommand script]"

text \<open>The error with the trimmed output, which still wraps the error of the process.\<close>

definition runPowerShellEncoded :: "'s shell \<Rightarrow> string \<Rightarrow> string list \<Rightarrow> 's \<Rightarrow> gerr option \<times> 's" where
  "runPowerShellEncoded shell script extraEnv s =
     (case shell (encodedArgs script) extraEnv s of
        ((None, _), s') \<Rightarrow> (None, s')
      | ((Some e, out), s') \<Rightarrow>
          (Some (if TrimSpace out \<noteq> [] then wrapErr (ge_text e) e\<lparr>ge_text := ge_text e @ '': '' @ TrimSpace out\<rparr> else e), s'))"

text \<open>The runner of \<^verbatim>\<open>internal/systemdns/powershell_windows.go\<close>: the script as an argument, the two outputs apart.\<close>

definition RunPowerShell ::
    "(string list \<Rightarrow> 's \<Rightarrow> (gerr option \<times> string \<times> string) \<times> 's) \<Rightarrow> string \<Rightarrow> 's \<Rightarrow> (string \<times> gerr option) \<times> 's" where
  "RunPowerShell shell script s =
     (case shell [''-NoProfile'', ''-NonInteractive'', ''-ExecutionPolicy'', ''Bypass'', ''-Command'', script] s of
        ((err, out, errOut), s') \<Rightarrow>
          ((out, map_option (\<lambda>e. if errOut \<noteq> [] then wrapErr (ge_text e) e\<lparr>ge_text := ge_text e @ '': '' @ errOut\<rparr> else e) err), s'))"

subsection \<open>Opening a certificate store\<close>

unbundle bit_operations_syntax

definition locationFlag :: "location \<Rightarrow> 32 word" where
  "locationFlag l = (case l of CurrentUser \<Rightarrow> 0x10000 | LocalMachine \<Rightarrow> 0x20000)"

abbreviation CERT_STORE_OPEN_EXISTING_FLAG :: "32 word" where "CERT_STORE_OPEN_EXISTING_FLAG \<equiv> 0x4000"
abbreviation CERT_STORE_READONLY_FLAG :: "32 word" where "CERT_STORE_READONLY_FLAG \<equiv> 0x8000"

definition windowsRootStoreOpenFlags :: "golib \<Rightarrow> string \<Rightarrow> bool \<Rightarrow> (gerr, 32 word) result" where
  "windowsRootStoreOpenFlags E storeScope writable =
     map_result (\<lambda>l. if writable then locationFlag l
                     else locationFlag l OR CERT_STORE_OPEN_EXISTING_FLAG OR CERT_STORE_READONLY_FLAG)
       (windowsStoreLocation E storeScope)"

text \<open>A look at a store cannot change it, and the flags name the store they were made for.\<close>

lemma open_flags:
  assumes "windowsRootStoreOpenFlags E scope writable = Inr fl"
  shows "fl AND CERT_STORE_READONLY_FLAG = 0 \<longleftrightarrow> writable"
    and "\<exists>l. windowsStoreLocation E scope = Inr l \<and> fl AND 0xFF0000 = locationFlag l"
proof -
  obtain l where l: "windowsStoreLocation E scope = Inr l" and
    fl: "fl = (if writable then locationFlag l else locationFlag l OR CERT_STORE_OPEN_EXISTING_FLAG OR CERT_STORE_READONLY_FLAG)"
    using assms by (cases "windowsStoreLocation E scope") (simp_all add: windowsRootStoreOpenFlags_def map_result_def)
  show "fl AND CERT_STORE_READONLY_FLAG = 0 \<longleftrightarrow> writable" by (cases l; cases writable) (simp_all add: fl locationFlag_def)
  show "\<exists>l. windowsStoreLocation E scope = Inr l \<and> fl AND 0xFF0000 = locationFlag l"
    using l by (cases l; cases writable) (simp_all add: fl locationFlag_def)
qed

end
