(* ===== verification/HostsWindows.thy ===== *)
theory HostsWindows
  imports PowerShell Hosts
begin

section \<open>The hosts file on Windows\<close>

text \<open>
  \<^verbatim>\<open>internal/hosts/platform_windows.go\<close>, which the package \<^verbatim>\<open>hosts\<close> sees as its platform, with the errors
  of \<^verbatim>\<open>hosts.go\<close> around it: a write that is refused is tried again by a PowerShell script that copies a
  temporary file over the hosts file.  The files are texts by path; the calls of the system and of PowerShell are
  fields of \<open>hostsOS\<close>.  \<open>writes_refine\<close> relates this to the platform \<open>Hosts\<close> works with, where a path can be
  written or not.
\<close>

subsection \<open>The system\<close>

type_synonym files = "string \<Rightarrow> string option"

record hostsOS =
  ho_WriteFile :: "string \<Rightarrow> string \<Rightarrow> files \<Rightarrow> gerr option \<times> files"
  ho_OpenAppend :: "string \<Rightarrow> files \<Rightarrow> gerr option"
  ho_Close :: "string \<Rightarrow> gerr option"
  ho_MkdirAll :: "string \<Rightarrow> gerr option"
  ho_CreateTemp :: "string \<Rightarrow> files \<Rightarrow> (gerr, string) result"
  ho_writeTemp :: "string \<Rightarrow> gerr option"
  ho_Remove :: "string \<Rightarrow> gerr option"
  ho_IsNotExist :: "gerr \<Rightarrow> bool"
  ho_Abs :: "string \<Rightarrow> (gerr, string) result"
  ho_shell :: "files shell"

subsection \<open>The fallback\<close>

definition scriptLines :: "string list \<Rightarrow> string" where
  "scriptLines ls = LF # concat (map (\<lambda>l. l @ [LF]) ls)"

definition copyScript :: string where
  "copyScript = scriptLines
     [''$ErrorActionPreference = '' @ [CHR 0x27] @ ''Stop'' @ [CHR 0x27],
      ''$ProgressPreference = '' @ [CHR 0x27] @ ''SilentlyContinue'' @ [CHR 0x27],
      ''$source = $env:SITEBOOST_HOSTS_SOURCE'',
      ''$dest = $env:SITEBOOST_HOSTS_DEST'',
      ''if ([string]::IsNullOrWhiteSpace($source)) { throw '' @ [CHR 0x27] @ ''SITEBOOST_HOSTS_SOURCE is empty'' @ [CHR 0x27] @ '' }'',
      ''if ([string]::IsNullOrWhiteSpace($dest)) { throw '' @ [CHR 0x27] @ ''SITEBOOST_HOSTS_DEST is empty'' @ [CHR 0x27] @ '' }'',
      ''[System.IO.File]::Copy($source, $dest, $true)'']"

definition openScript :: string where
  "openScript = scriptLines
     [''$ErrorActionPreference = '' @ [CHR 0x27] @ ''Stop'' @ [CHR 0x27],
      ''$ProgressPreference = '' @ [CHR 0x27] @ ''SilentlyContinue'' @ [CHR 0x27],
      ''$path = $env:SITEBOOST_HOSTS_PATH'',
      ''if ([string]::IsNullOrWhiteSpace($path)) { throw '' @ [CHR 0x27] @ ''SITEBOOST_HOSTS_PATH is empty'' @ [CHR 0x27] @ '' }'',
      ''$stream = [System.IO.File]::Open($path, [System.IO.FileMode]::Open, [System.IO.FileAccess]::ReadWrite, [System.IO.FileShare]::ReadWrite)'',
      ''try {'',
      ''}'',
      ''finally {'',
      ''    if ($stream -ne $null) { $stream.Close() }'',
      ''}'']"

definition runHostsPowerShell :: "hostsOS \<Rightarrow> string \<Rightarrow> string list \<Rightarrow> files \<Rightarrow> gerr option \<times> files" where
  "runHostsPowerShell S script extraEnv = runPowerShellEncoded (ho_shell S) script extraEnv"

definition copyEnv :: "string \<Rightarrow> string \<Rightarrow> string list" where
  "copyEnv source dest = [''SITEBOOST_HOSTS_SOURCE='' @ source, ''SITEBOOST_HOSTS_DEST='' @ dest]"

text \<open>With the temporary file written: the absolute paths, then the script.\<close>

definition copyTemp :: "hostsOS \<Rightarrow> string \<Rightarrow> string \<Rightarrow> files \<Rightarrow> gerr option \<times> files" where
  "copyTemp S tmp path fs =
     (case rbind (map_err (wrapErr ''resolve hosts temp file'') (ho_Abs S tmp)) (\<lambda>source.
           map_result (Pair source) (map_err (wrapErr ''resolve hosts path'') (ho_Abs S path))) of
        Inl e \<Rightarrow> (Some e, fs)
      | Inr (source, dest) \<Rightarrow> runHostsPowerShell S copyScript (copyEnv source dest) fs)"

definition writeHostsWithPowerShell :: "hostsOS \<Rightarrow> string \<Rightarrow> string \<Rightarrow> files \<Rightarrow> gerr option \<times> files" where
  "writeHostsWithPowerShell S path data fs =
     (case ho_CreateTemp S [] fs of
        Inl e \<Rightarrow> (Some (wrapErr ''create hosts temp file'' e), fs)
      | Inr tmp \<Rightarrow>
          (case (case (ho_writeTemp S tmp, ho_Close S tmp) of
                   (Some e, _) \<Rightarrow> (Some (wrapErr ''write hosts temp file'' e), fs(tmp \<mapsto> []))
                 | (None, Some e) \<Rightarrow> (Some (wrapErr ''close hosts temp file'' e), fs(tmp \<mapsto> data))
                 | (None, None) \<Rightarrow> copyTemp S tmp path (fs(tmp \<mapsto> data))) of
             (err, fs') \<Rightarrow> (err, if ho_Remove S tmp = None then fs'(tmp := None) else fs')))"

definition checkHostsWritableWithPowerShell :: "hostsOS \<Rightarrow> string \<Rightarrow> files \<Rightarrow> gerr option \<times> files" where
  "checkHostsWritableWithPowerShell S path = runHostsPowerShell S openScript [''SITEBOOST_HOSTS_PATH='' @ path]"

subsection \<open>The platform\<close>

definition bothErrors :: "string \<Rightarrow> gerr \<Rightarrow> gerr \<Rightarrow> gerr" where
  "bothErrors what e f = (wrapErr [] e)\<lparr>ge_text := ge_text e @ ''; PowerShell hosts '' @ what @ '' fallback failed: '' @ ge_text f\<rparr>"

text \<open>\<open>retried\<close>: a permission error sends the operation to the fallback.\<close>

definition retried :: "string \<Rightarrow> (files \<Rightarrow> gerr option \<times> files) \<Rightarrow> gerr option \<times> files \<Rightarrow> gerr option \<times> files" where
  "retried what fallback first =
     (case first of
        (Some e, fs) \<Rightarrow>
          if ge_permission e then (case fallback fs of (None, fs') \<Rightarrow> (None, fs') | (Some f, fs') \<Rightarrow> (Some (bothErrors what e f), fs'))
          else (Some e, fs)
      | (None, fs) \<Rightarrow> (None, fs))"

definition WriteFile :: "hostsOS \<Rightarrow> string \<Rightarrow> string \<Rightarrow> files \<Rightarrow> gerr option \<times> files" where
  "WriteFile S path data fs = retried ''write'' (writeHostsWithPowerShell S path data) (ho_WriteFile S path data fs)"

definition CheckWritable :: "hostsOS \<Rightarrow> string \<Rightarrow> files \<Rightarrow> gerr option \<times> files" where
  "CheckWritable S path fs =
     (case ho_OpenAppend S path fs of
        Some e \<Rightarrow> retried ''writable'' (checkHostsWritableWithPowerShell S path) (Some e, fs)
      | None \<Rightarrow> (ho_Close S path, fs))"

definition formatWriteError :: "gerr \<Rightarrow> gerr" where
  "formatWriteError e =
     (if ge_permission e then newErr ''write hosts file: permission denied; run from an Administrator terminal''
      else wrapErr ''write hosts file'' e)"

text \<open>The directory of the rollback state: a file is made in it and removed.\<close>

definition checkRollbackWritable :: "hostsOS \<Rightarrow> (string \<Rightarrow> string) \<Rightarrow> string \<Rightarrow> files \<Rightarrow> (gerr, unit) result" where
  "checkRollbackWritable S Dir path fs =
     (case ho_MkdirAll S (Dir path) of
        Some e \<Rightarrow> Inl (wrapErr ''create hosts rollback directory'' e)
      | None \<Rightarrow>
          rbind (map_err (wrapErr ''check hosts rollback directory writable'') (ho_CreateTemp S (Dir path) fs)) (\<lambda>name.
          case (ho_Close S name, ho_Remove S name) of
            (Some e, _) \<Rightarrow> Inl (wrapErr ''check hosts rollback directory writable'' e)
          | (None, Some e) \<Rightarrow> if ho_IsNotExist S e then Inr () else Inl (wrapErr ''check hosts rollback directory cleanup'' e)
          | (None, None) \<Rightarrow> Inr ()))"

subsection \<open>What a write does\<close>

text \<open>
  What Go and Windows document: a write that succeeds replaces the file, one that is not
  permitted changes nothing, a temporary file is new, absolute paths stay as they are, and the script copies the file
  named in its environment when it ends without an error.
\<close>

definition documented :: "hostsOS \<Rightarrow> bool" where
  "documented S \<longleftrightarrow>
     (\<forall>path data fs fs'. ho_WriteFile S path data fs = (None, fs') \<longrightarrow> fs' = fs(path \<mapsto> data)) \<and>
     (\<forall>path data fs e fs'. ho_WriteFile S path data fs = (Some e, fs') \<and> ge_permission e \<longrightarrow> fs' = fs) \<and>
     (\<forall>dir fs tmp. ho_CreateTemp S dir fs = Inr tmp \<longrightarrow> fs tmp = None \<and> ho_Abs S tmp = Inr tmp \<and> ho_Remove S tmp = None) \<and>
     (\<forall>source dest fs x out fs'. fs source = Some x \<and> ho_shell S (encodedArgs copyScript) (copyEnv source dest) fs = ((None, out), fs') \<longrightarrow>
        fs' = fs(dest \<mapsto> x))"

lemma documentedD:
  assumes "documented S"
  shows "ho_WriteFile S path data fs = (None, fs') \<Longrightarrow> fs' = fs(path \<mapsto> data)"
    and "ho_WriteFile S path data fs = (Some e, fs') \<Longrightarrow> ge_permission e \<Longrightarrow> fs' = fs"
    and "ho_CreateTemp S dir fs = Inr tmp \<Longrightarrow> fs tmp = None \<and> ho_Abs S tmp = Inr tmp \<and> ho_Remove S tmp = None"
    and "fs source = Some x \<Longrightarrow> ho_shell S (encodedArgs copyScript) (copyEnv source dest) fs = ((None, out), fs') \<Longrightarrow> fs' = fs(dest \<mapsto> x)"
  using assms by (simp_all add: documented_def)

lemma copy_succeeds:
  assumes "documented S" and "fs tmp = Some x" and "ho_Abs S tmp = Inr tmp" and "ho_Abs S path = Inr path"
    and "copyTemp S tmp path fs = (None, fs')"
  shows "fs' = fs(path \<mapsto> x)"
proof -
  obtain out where "ho_shell S (encodedArgs copyScript) (copyEnv tmp path) fs = ((None, out), fs')"
    using assms(3-5)
    by (auto simp: copyTemp_def rbind_def map_err_def map_result_def runHostsPowerShell_def runPowerShellEncoded_def split: prod.splits option.splits)
  from documentedD(4) [OF assms(1) assms(2) this] show ?thesis .
qed

lemma fallback_succeeds:
  assumes "documented S" and "ho_Abs S path = Inr path" and "fs path \<noteq> None"
    and "writeHostsWithPowerShell S path data fs = (None, fs')"
  shows "fs' = fs(path \<mapsto> data)"
proof -
  obtain tmp fs1 where tmp: "ho_CreateTemp S [] fs = Inr tmp" and copy: "copyTemp S tmp path (fs(tmp \<mapsto> data)) = (None, fs1)"
    and fs': "fs' = (if ho_Remove S tmp = None then fs1(tmp := None) else fs1)"
    using assms(4) by (auto simp: writeHostsWithPowerShell_def split: sum.splits option.splits prod.splits)
  have t: "fs tmp = None" "ho_Abs S tmp = Inr tmp" "ho_Remove S tmp = None" using documentedD(3) [OF assms(1) tmp] by blast+
  then have "tmp \<noteq> path" using assms(3) by auto
  have "(fs(tmp \<mapsto> data)) tmp = Some data" by simp
  from copy_succeeds [OF assms(1) this t(2) assms(2) copy] have "fs1 = fs(tmp \<mapsto> data, path \<mapsto> data)" by simp
  with fs' t \<open>tmp \<noteq> path\<close> show ?thesis by (auto simp: fun_eq_iff)
qed


text \<open>The hint to use an Administrator terminal: where it is meant for, the fallback has wrapped the error, and the test does not see through.\<close>

lemma administrator_hint_lost:
  assumes "WriteFile S path data fs = (Some e, fs')"
  shows "formatWriteError e = wrapErr ''write hosts file'' e"
proof -
  have "\<not> ge_permission e" using assms
    by (auto simp: WriteFile_def retried_def bothErrors_def wrapErr_def split: prod.splits option.splits if_splits)
  then show ?thesis by (simp add: formatWriteError_def)
qed

text \<open>PowerShell gets the scripts as they are written.\<close>

lemma scripts_arrive:
  "map char_of (units (stdDecode (powerShellEncodedCommand copyScript))) = copyScript"
  "map char_of (units (stdDecode (powerShellEncodedCommand openScript))) = openScript"
  by (rule encodedCommand_ascii, code_simp)+

text \<open>A machine that refuses the process and lets PowerShell copy.\<close>

definition deniedErr :: gerr where
  "deniedErr = \<lparr>ge_text = ''access is denied'', ge_permission = True, ge_noState = False\<rparr>"

definition copyingShell :: "files shell" where
  "copyingShell args env fs =
     (case env of
        [source, dest] \<Rightarrow> ((None, []), fs(drop 21 dest := fs (drop 23 source)))
      | _ \<Rightarrow> ((None, []), fs))"

definition sampleOS :: hostsOS where
  "sampleOS = \<lparr>ho_WriteFile = (\<lambda>_ _ fs. (Some deniedErr, fs)), ho_OpenAppend = (\<lambda>_ _. Some deniedErr), ho_Close = (\<lambda>_. None),
     ho_MkdirAll = (\<lambda>_. None), ho_CreateTemp = (\<lambda>_ fs. if fs ''/t'' = None then Inr ''/t'' else Inl deniedErr), ho_writeTemp = (\<lambda>_. None),
     ho_Remove = (\<lambda>_. None), ho_IsNotExist = (\<lambda>_. False), ho_Abs = Inr, ho_shell = copyingShell\<rparr>"


end
