(* ===== verification/ServiceHost.thy ===== *)
theory ServiceHost
  imports AppHost
begin

section \<open>The process behind the pipe\<close>

text \<open>
  \<^verbatim>\<open>internal/privilege/privilege_windows.go\<close>: what the privileged process is before it has a
  connection.  Its token decides whether it may serve; the accept loop creates one instance of the
  pipe after the other and hands each to a goroutine; and the service handler reports to the
  service manager and ends the loop.  These run side by side, so they are step relations: what the loop does
  (\<open>acceptStep\<close>), and the service with the loop inside it (\<open>serviceStep\<close>).  The answers of Windows are premises of the
  steps, and the log is left out.
\<close>

subsection \<open>The token\<close>

text \<open>
  What Windows says of the process: the size of the integrity label with the error of the first
  query, the sub-authorities of its SID, the membership of the administrators, the elevation.
\<close>

record tokenInfo =
  tk_labelSize :: "svcErr option \<times> nat"
  tk_label :: "(svcErr, 32 word list) result"
  tk_admin :: "(svcErr, bool) result"
  tk_elevated :: bool
  tk_pid :: nat

abbreviation ERROR_INSUFFICIENT_BUFFER :: nat where "ERROR_INSUFFICIENT_BUFFER \<equiv> 122"

definition integrityName :: "32 word \<Rightarrow> string" where
  "integrityName rid =
     (if rid \<ge> 0x4000 then ''system'' else if rid \<ge> 0x3000 then ''high'' else if rid \<ge> 0x2000 then ''medium''
      else if rid \<ge> 0x1000 then ''low'' else ''rid-0x'' @ hexOf (unat rid))"

definition integrityLevel :: "tokenInfo \<Rightarrow> (svcErr, string) result" where
  "integrityLevel T =
     (case tk_labelSize T of (err, n) \<Rightarrow>
      rbind (case err of Some e \<Rightarrow> ensure (sv_code e = ERROR_INSUFFICIENT_BUFFER) e | None \<Rightarrow> Inr ()) (\<lambda>_.
      rbind (ensure (n \<noteq> 0) (svcError ''token integrity level size is zero'')) (\<lambda>_.
      rbind (tk_label T) (\<lambda>subs.
      rbind (ensure (subs \<noteq> []) (svcError ''token integrity SID is empty'')) (\<lambda>_.
      Inr (integrityName (last subs)))))))"

definition HasSystemPrivileges :: "tokenInfo \<Rightarrow> bool" where
  "HasSystemPrivileges T \<longleftrightarrow> integrityLevel T = Inr ''system'' \<or> tk_admin T = Inr True \<and> tk_elevated T"

definition formatFlag :: "bool \<Rightarrow> string" where
  "formatFlag b = (if b then ''true'' else ''false'')"

definition helperStatus :: "tokenInfo \<Rightarrow> string" where
  "helperStatus T =
     ''helper pid='' @ Itoa (int (tk_pid T)) @ '' elevated='' @ formatFlag (tk_elevated T) @
     '' admin='' @ formatFlag (tk_admin T = Inr True) @
     '' integrity='' @ (case integrityLevel T of Inr l \<Rightarrow> l | Inl _ \<Rightarrow> ''unknown'')"

lemma integrityName_system [simp]: "integrityName rid = ''system'' \<longleftrightarrow> rid \<ge> 0x4000"
  by (simp add: integrityName_def)

text \<open>A process of the system integrity level serves whatever its groups are; any other needs both an elevated token and the group.\<close>

lemma privileges_of_level:
  assumes "tk_labelSize T = (None, n) \<or> tk_labelSize T = (Some e, n) \<and> sv_code e = ERROR_INSUFFICIENT_BUFFER" and "n \<noteq> 0"
    and "tk_label T = Inr subs" and "subs \<noteq> []"
  shows "HasSystemPrivileges T \<longleftrightarrow> last subs \<ge> 0x4000 \<or> tk_admin T = Inr True \<and> tk_elevated T"
  using assms by (auto simp: HasSystemPrivileges_def integrityLevel_def rbind_def ensure_def)

subsection \<open>An instance of the pipe\<close>

abbreviation PIPE_REJECT_REMOTE_CLIENTS :: "32 word" where "PIPE_REJECT_REMOTE_CLIENTS \<equiv> 8"

definition isUnsupportedPipeRejectRemoteClients :: "svcErr \<Rightarrow> bool" where
  "isUnsupportedPipeRejectRemoteClients e \<longleftrightarrow> sv_code e = 1 \<or> sv_code e = 87"

text \<open>
  \<open>attrs\<close> is the security descriptor or the error of parsing it, \<open>create\<close> the answer of Windows for a mode; the
  result is the mode of the instance.
\<close>

definition createAppHostPipe :: "(svcErr, unit) result \<Rightarrow> (32 word \<Rightarrow> (svcErr, unit) result) \<Rightarrow> (svcErr, 32 word) result" where
  "createAppHostPipe attrs create =
     rbind (map_err (svcWrap ''create apphost pipe security descriptor'') attrs) (\<lambda>_.
     map_err (svcWrap ''create apphost named pipe'')
       (case create PIPE_REJECT_REMOTE_CLIENTS of
          Inr _ \<Rightarrow> Inr PIPE_REJECT_REMOTE_CLIENTS
        | Inl e \<Rightarrow>
            if isUnsupportedPipeRejectRemoteClients e then map_result (\<lambda>_. 0) (create 0) else Inl e))"

text \<open>Remote clients are refused wherever Windows can refuse them.\<close>

lemma pipe_rejects_remote:
  assumes "createAppHostPipe attrs create = Inr mode"
  shows "mode = PIPE_REJECT_REMOTE_CLIENTS \<or>
    (\<exists>e. create PIPE_REJECT_REMOTE_CLIENTS = Inl e \<and> isUnsupportedPipeRejectRemoteClients e \<and> mode = 0)"
  using assms by (auto simp: createAppHostPipe_def rbind_def map_err_def map_result_def split: sum.splits if_splits)

subsection \<open>The accept loop\<close>

text \<open>At the head of the loop, waiting for a client on an instance, or back.\<close>

datatype phase = Looping | Accepting nat | Back "svcErr option"

record acceptor =
  ac_phase :: phase
  ac_cancelled :: bool
  ac_open :: "nat set"
  ac_handling :: "nat set"
  ac_next :: nat

definition newAcceptor :: acceptor where
  "newAcceptor = \<lparr>ac_phase = Looping, ac_cancelled = False, ac_open = {}, ac_handling = {}, ac_next = 0\<rparr>"

definition openInstance :: "acceptor \<Rightarrow> acceptor" where
  "openInstance a = a\<lparr>ac_phase := Accepting (ac_next a), ac_open := insert (ac_next a) (ac_open a), ac_next := Suc (ac_next a)\<rparr>"

definition closeInstance :: "nat \<Rightarrow> acceptor \<Rightarrow> acceptor" where
  "closeInstance h a = a\<lparr>ac_open := ac_open a - {h}\<rparr>"

text \<open>
  One step of \<open>appHostServer.run\<close>; when a client is connected and the context is done, the
  \<open>select\<close> takes either.  \<open>served\<close> is the end of \<open>handlePipe\<close>, which closes its instance.
\<close>

inductive acceptStep :: "acceptor \<Rightarrow> acceptor \<Rightarrow> bool" where
  ended: "ac_phase a = Looping \<Longrightarrow> ac_cancelled a \<Longrightarrow> acceptStep a (a\<lparr>ac_phase := Back None\<rparr>)"
| refused: "ac_phase a = Looping \<Longrightarrow> \<not> ac_cancelled a \<Longrightarrow> createAppHostPipe attrs create = Inl e \<Longrightarrow>
    acceptStep a (a\<lparr>ac_phase := Back (Some e)\<rparr>)"
| created: "ac_phase a = Looping \<Longrightarrow> \<not> ac_cancelled a \<Longrightarrow> createAppHostPipe attrs create = Inr mode \<Longrightarrow> acceptStep a (openInstance a)"
| interrupted: "ac_phase a = Accepting h \<Longrightarrow> ac_cancelled a \<Longrightarrow> acceptStep a (closeInstance h a\<lparr>ac_phase := Back None\<rparr>)"
| connected: "ac_phase a = Accepting h \<Longrightarrow> acceptStep a (a\<lparr>ac_phase := Looping, ac_handling := insert h (ac_handling a)\<rparr>)"
| broken: "ac_phase a = Accepting h \<Longrightarrow>
    acceptStep a (closeInstance h a\<lparr>ac_phase := Back (Some (svcWrap ''connect apphost pipe'' e))\<rparr>)"
| served: "h \<in> ac_handling a \<Longrightarrow> acceptStep a (closeInstance h a\<lparr>ac_handling := ac_handling a - {h}\<rparr>)"

inductive_cases acceptStepE: "acceptStep a b"

text \<open>The instances that are open are those a client is served on and the one that waits; the loop returns without an error only when told to.\<close>

definition waiting :: "acceptor \<Rightarrow> nat set" where
  "waiting a = (case ac_phase a of Accepting h \<Rightarrow> {h} | _ \<Rightarrow> {})"

definition acceptorOK :: "acceptor \<Rightarrow> bool" where
  "acceptorOK a \<longleftrightarrow>
     ac_open a = ac_handling a \<union> waiting a \<and> ac_handling a \<inter> waiting a = {} \<and> (\<forall>h\<in>ac_open a. h < ac_next a) \<and>
     (ac_phase a = Back None \<longrightarrow> ac_cancelled a)"

lemma acceptorOK_cancel: "acceptorOK a \<Longrightarrow> acceptorOK (a\<lparr>ac_cancelled := True\<rparr>)"
  by (simp add: acceptorOK_def waiting_def)

lemma acceptorOK_step: "acceptStep a b \<Longrightarrow> acceptorOK a \<Longrightarrow> acceptorOK b"
proof (induction rule: acceptStep.induct)
  case (created a attrs create mode)
  then have "ac_next a \<notin> ac_handling a" by (auto simp: acceptorOK_def)
  with created show ?case by (auto simp: acceptorOK_def waiting_def openInstance_def intro: less_SucI)
qed (auto simp: acceptorOK_def waiting_def closeInstance_def split: phase.splits)

lemma acceptStep_cancelled: "acceptStep a b \<Longrightarrow> ac_cancelled b = ac_cancelled a"
  by (auto simp: openInstance_def closeInstance_def elim!: acceptStepE)

subsection \<open>The service\<close>

datatype request = Interrogate svcState | StopRequest | Shutdown | OtherRequest nat

text \<open>\<open>Execute\<close>: reading requests, waiting for the loop after a stop, or back with its exit code.\<close>

datatype handler = Serving | Stopping | Exited nat

record service =
  sx_console :: acceptor
  sx_handler :: handler
  sx_reports :: "svcState list"

definition RunAppHostConsole :: "tokenInfo \<Rightarrow> acceptor" where
  "RunAppHostConsole T =
     (if HasSystemPrivileges T then newAcceptor
      else newAcceptor\<lparr>ac_phase := Back (Some (svcError (''windows apphost requires system privileges: '' @ helperStatus T)))\<rparr>)"

definition newService :: "tokenInfo \<Rightarrow> service" where
  "newService T = \<lparr>sx_console = RunAppHostConsole T, sx_handler = Serving, sx_reports = [StartPending, Running]\<rparr>"

definition cancel :: "service \<Rightarrow> service" where
  "cancel s = s\<lparr>sx_console := (sx_console s)\<lparr>ac_cancelled := True\<rparr>\<rparr>"

definition report :: "svcState \<Rightarrow> service \<Rightarrow> service" where
  "report st s = s\<lparr>sx_reports := sx_reports s @ [st]\<rparr>"

definition exitCode :: "svcErr option \<Rightarrow> nat" where
  "exitCode err = (case err of None \<Rightarrow> 0 | Some _ \<Rightarrow> 1)"

definition handleRequest :: "request \<Rightarrow> service \<Rightarrow> service" where
  "handleRequest req s =
     (case req of
        Interrogate st \<Rightarrow> report st s
      | StopRequest \<Rightarrow> (cancel (report StopPending s))\<lparr>sx_handler := Stopping\<rparr>
      | Shutdown \<Rightarrow> (cancel (report StopPending s))\<lparr>sx_handler := Stopping\<rparr>
      | OtherRequest _ \<Rightarrow> report Running s)"

inductive serviceStep :: "service \<Rightarrow> service \<Rightarrow> bool" where
  console: "acceptStep (sx_console s) a \<Longrightarrow> serviceStep s (s\<lparr>sx_console := a\<rparr>)"
| console_ended: "sx_handler s = Serving \<Longrightarrow> ac_phase (sx_console s) = Back err \<Longrightarrow>
    serviceStep s ((cancel s)\<lparr>sx_handler := Exited (exitCode err)\<rparr>)"
| stopped: "sx_handler s = Stopping \<Longrightarrow> ac_phase (sx_console s) = Back err \<Longrightarrow> serviceStep s (s\<lparr>sx_handler := Exited (exitCode err)\<rparr>)"
| late: "sx_handler s = Stopping \<Longrightarrow> serviceStep s (s\<lparr>sx_handler := Exited 1\<rparr>)"

inductive_cases serviceStepE: "serviceStep s t"

text \<open>\<open>serviceRun T rs s\<close>: the service has come to \<open>s\<close>, and \<open>rs\<close> are the requests it has handled.\<close>

inductive serviceRun :: "tokenInfo \<Rightarrow> request list \<Rightarrow> service \<Rightarrow> bool"
  for T :: tokenInfo where
  begins: "serviceRun T [] (newService T)"
| inside: "serviceRun T rs s \<Longrightarrow> serviceStep s t \<Longrightarrow> serviceRun T rs t"
| request: "serviceRun T rs s \<Longrightarrow> sx_handler s = Serving \<Longrightarrow> serviceRun T (rs @ [r]) (handleRequest r s)"

subsection \<open>Its invariant\<close>

definition ends :: "request \<Rightarrow> bool" where
  "ends r \<longleftrightarrow> r = StopRequest \<or> r = Shutdown"

text \<open>Told to stop: the last request is the first that says so, and nothing was reported after the answer to it.\<close>

definition toldToStop :: "request list \<Rightarrow> service \<Rightarrow> bool" where
  "toldToStop rs s \<longleftrightarrow>
     (\<exists>before r. rs = before @ [r] \<and> ends r \<and> \<not> list_ex ends before) \<and> last (sx_reports s) = StopPending"

definition handlerOK :: "request list \<Rightarrow> service \<Rightarrow> bool" where
  "handlerOK rs s \<longleftrightarrow>
     (case sx_handler s of
        Serving \<Rightarrow> \<not> ac_cancelled (sx_console s) \<and> \<not> list_ex ends rs
      | Stopping \<Rightarrow> ac_cancelled (sx_console s) \<and> toldToStop rs s
      | Exited code \<Rightarrow> ac_cancelled (sx_console s) \<and>
          (if code = 0 then ac_phase (sx_console s) = Back None \<and> toldToStop rs s else code = 1 \<and> (list_ex ends rs \<longrightarrow> toldToStop rs s)))"

definition unprivileged :: "service \<Rightarrow> bool" where
  "unprivileged s \<longleftrightarrow> (\<exists>e. ac_phase (sx_console s) = Back (Some e)) \<and> ac_open (sx_console s) = {}"

lemma service_fields [simp]:
  "sx_console (report st s) = sx_console s" "sx_handler (report st s) = sx_handler s" "sx_reports (cancel s) = sx_reports s"
  "sx_handler (cancel s) = sx_handler s" "sx_reports (report st s) = sx_reports s @ [st]"
  "sx_console (cancel s) = (sx_console s)\<lparr>ac_cancelled := True\<rparr>"
  by (simp_all add: report_def cancel_def)

lemma toldToStop_cong: "sx_reports t = sx_reports s \<Longrightarrow> toldToStop rs t = toldToStop rs s"
  by (simp add: toldToStop_def)

lemma serviceStep_reports: "serviceStep s t \<Longrightarrow> sx_reports t = sx_reports s"
  by (auto elim!: serviceStepE)

text \<open>Nothing happens to the loop once it is back, apart from clients that are still served.\<close>

lemma acceptStep_back: "acceptStep a b \<Longrightarrow> ac_phase a = Back err \<Longrightarrow> ac_phase b = Back err \<and> ac_open b \<subseteq> ac_open a"
  by (auto simp: closeInstance_def elim!: acceptStepE)

lemma acceptorOK_service: "serviceStep s t \<Longrightarrow> acceptorOK (sx_console s) \<Longrightarrow> acceptorOK (sx_console t)"
  by (auto elim!: serviceStepE intro: acceptorOK_step acceptorOK_cancel)

lemma acceptorOK_request: "acceptorOK (sx_console s) \<Longrightarrow> acceptorOK (sx_console (handleRequest r s))"
  by (auto simp: handleRequest_def intro: acceptorOK_cancel split: request.splits)

lemma handlerOK_step:
  assumes "serviceStep s t" and "acceptorOK (sx_console s)" and "handlerOK rs s"
  shows "handlerOK rs t"
  using assms
proof (induction rule: serviceStep.induct)
  case (console s a)
  then show ?case
    using acceptStep_cancelled [OF console.hyps] acceptStep_back [OF console.hyps]
    by (auto simp: handlerOK_def toldToStop_def split: handler.splits if_splits)
next
  case (console_ended s err)
  then show ?case by (auto simp: handlerOK_def exitCode_def acceptorOK_def split: option.splits)
next
  case (stopped s err)
  then show ?case by (auto simp: handlerOK_def exitCode_def toldToStop_def split: option.splits)
qed (auto simp: handlerOK_def toldToStop_def)

lemma handlerOK_request: "sx_handler s = Serving \<Longrightarrow> handlerOK rs s \<Longrightarrow> handlerOK (rs @ [r]) (handleRequest r s)"
  by (cases r) (auto simp: handlerOK_def handleRequest_def toldToStop_def ends_def)

lemma unprivileged_step: "serviceStep s t \<Longrightarrow> unprivileged s \<Longrightarrow> unprivileged t"
  by (auto simp: unprivileged_def elim!: serviceStepE dest!: acceptStep_back)

lemma unprivileged_request: "unprivileged s \<Longrightarrow> unprivileged (handleRequest r s)"
  by (auto simp: unprivileged_def handleRequest_def split: request.splits)

lemma serviceRun_invariant:
  assumes "serviceRun T rs s"
  shows "acceptorOK (sx_console s) \<and> handlerOK rs s \<and> (\<not> HasSystemPrivileges T \<longrightarrow> unprivileged s)"
  using assms
proof induction
  case begins
  show ?case by (auto simp: newService_def RunAppHostConsole_def acceptorOK_def waiting_def handlerOK_def unprivileged_def newAcceptor_def)
next
  case (inside rs s t)
  then show ?case using acceptorOK_service handlerOK_step unprivileged_step by blast
next
  case (request rs s r)
  then show ?case using acceptorOK_request handlerOK_request unprivileged_request by blast
qed

text \<open>A service that was told to stop and whose loop has not failed ends in two steps.\<close>

lemma stop_ends:
  assumes "sx_handler s = Stopping" and "ac_cancelled (sx_console s)" and "\<And>e. ac_phase (sx_console s) \<noteq> Back (Some e)"
  shows "\<exists>t. serviceStep\<^sup>*\<^sup>* s t \<and> sx_handler t = Exited 0"
proof -
  obtain s' where s': "serviceStep\<^sup>*\<^sup>* s s'" "sx_handler s' = Stopping" "ac_phase (sx_console s') = Back None"
  proof (cases "ac_phase (sx_console s)")
    case Looping
    with assms have "acceptStep (sx_console s) ((sx_console s)\<lparr>ac_phase := Back None\<rparr>)" by (intro acceptStep.ended)
    from that [OF r_into_rtranclp [of serviceStep, OF serviceStep.console [OF this]]] assms(1) show thesis by simp
  next
    case (Accepting h)
    with assms have "acceptStep (sx_console s) (closeInstance h (sx_console s)\<lparr>ac_phase := Back None\<rparr>)" by (intro acceptStep.interrupted)
    from that [OF r_into_rtranclp [of serviceStep, OF serviceStep.console [OF this]]] assms(1) show thesis by simp
  next
    case (Back err)
    with assms(1,3) that show thesis by (cases err) auto
  qed
  from serviceStep.stopped [OF s'(2,3)] have "serviceStep s' (s'\<lparr>sx_handler := Exited 0\<rparr>)" by (simp add: exitCode_def)
  with s'(1) show ?thesis by (intro exI [of _ "s'\<lparr>sx_handler := Exited 0\<rparr>"]) simp
qed

subsection \<open>Properties\<close>

text \<open>
  C28.  The service of the privileged host, whatever requests the service manager sends and however the accept loop,
  the clients and the handler interleave: an instance of the pipe is open only while a client is served on it or the loop
  waits on it; a process without system privileges never has one; the service ends with success only
  after it was told to stop and the loop is back; the answer to a stop is the last thing it reports;
  and from there, unless the loop has failed, it can always end with success.
\<close>

theorem service_lifecycle:
  assumes "serviceRun T rs s"
  shows "ac_open (sx_console s) = ac_handling (sx_console s) \<union> waiting (sx_console s) \<and>
    (\<not> HasSystemPrivileges T \<longrightarrow> ac_open (sx_console s) = {} \<and> sx_handler s \<noteq> Exited 0) \<and>
    (sx_handler s = Exited 0 \<longrightarrow> list_ex ends rs \<and> ac_phase (sx_console s) = Back None \<and> ac_open (sx_console s) = ac_handling (sx_console s)) \<and>
    (list_ex ends rs \<longrightarrow> toldToStop rs s) \<and>
    (sx_handler s = Stopping \<and> (\<forall>e. ac_phase (sx_console s) \<noteq> Back (Some e)) \<longrightarrow> (\<exists>t. serviceStep\<^sup>*\<^sup>* s t \<and> sx_handler t = Exited 0))"
proof -
  note inv = serviceRun_invariant [OF assms]
  have "sx_handler s = Exited 0 \<Longrightarrow> \<not> unprivileged s" using inv by (auto simp: handlerOK_def unprivileged_def)
  moreover have "sx_handler s = Stopping \<Longrightarrow> ac_cancelled (sx_console s)" using inv by (simp add: handlerOK_def)
  moreover have "list_ex ends rs \<longrightarrow> toldToStop rs s" using inv by (auto simp: handlerOK_def split: handler.splits if_splits)
  moreover have "toldToStop rs s \<Longrightarrow> list_ex ends rs" by (auto simp: toldToStop_def)
  ultimately show ?thesis using inv stop_ends
    by (auto simp: acceptorOK_def handlerOK_def waiting_def unprivileged_def)
qed

definition sampleToken :: tokenInfo where
  "sampleToken = \<lparr>tk_labelSize = (None, 28), tk_label = Inr [0x4000], tk_admin = Inr False, tk_elevated = False, tk_pid = 4\<rparr>"

definition sampleStopped :: service where
  "sampleStopped = handleRequest StopRequest (newService sampleToken\<lparr>sx_console := openInstance newAcceptor\<rparr>)"

theorem service_lifecycle_witness:
  "serviceRun sampleToken [StopRequest] sampleStopped \<and> ac_open (sx_console sampleStopped) = {0} \<and>
     (\<exists>t. serviceStep\<^sup>*\<^sup>* sampleStopped t \<and> sx_handler t = Exited 0)"
proof -
  have console: "sx_console (newService sampleToken) = newAcceptor"
    by (simp add: newService_def RunAppHostConsole_def HasSystemPrivileges_def integrityLevel_def sampleToken_def rbind_def ensure_def)
  have "createAppHostPipe (Inr ()) (\<lambda>_. Inr ()) = Inr 8" by (simp add: createAppHostPipe_def rbind_def map_err_def)
  then have "acceptStep newAcceptor (openInstance newAcceptor)" by (intro acceptStep.created) (simp_all add: newAcceptor_def)
  with console have "serviceStep (newService sampleToken) (newService sampleToken\<lparr>sx_console := openInstance newAcceptor\<rparr>)"
    by (metis serviceStep.console)
  from serviceRun.request [OF serviceRun.inside [OF serviceRun.begins this], of StopRequest]
  have run: "serviceRun sampleToken [StopRequest] sampleStopped" by (simp add: newService_def sampleStopped_def)
  have "sx_handler sampleStopped = Stopping" "ac_phase (sx_console sampleStopped) = Accepting 0" "ac_handling (sx_console sampleStopped) = {}"
    by (simp_all add: sampleStopped_def handleRequest_def openInstance_def newAcceptor_def)
  with service_lifecycle [OF run] run show ?thesis by (simp add: waiting_def)
qed

end
