(* ===== verification/AppHostCommands.thy ===== *)
theory AppHostCommands
  imports ServiceHost
begin

section \<open>Reaching and managing the privileged host\<close>

text \<open>
  \<^verbatim>\<open>internal/privilege/privilege_windows.go\<close>: the loop that opens the pipe, the token of a request and the report
  on the service; \<^verbatim>\<open>internal/privilege/privilege_other.go\<close>: what there is instead on other systems; and
  the command \<^verbatim>\<open>apphost\<close> of \<^verbatim>\<open>cmd/steam-accelerator/main.go\<close>.
\<close>

subsection \<open>Opening the pipe\<close>

text \<open>The context of the call, with a time limit of its own.\<close>

definition limitedErr :: "'w scm \<Rightarrow> nat \<Rightarrow> 'w \<Rightarrow> svcErr option" where
  "limitedErr S limit w =
     (case sm_ctxErr S w of
        Some e \<Rightarrow> Some e
      | None \<Rightarrow> if limit \<le> sm_now S w then Some (svcError ''context deadline exceeded'') else None)"

text \<open>\<^verbatim>\<open>ERROR_FILE_NOT_FOUND\<close>, \<^verbatim>\<open>ERROR_PATH_NOT_FOUND\<close>, \<^verbatim>\<open>ERROR_PIPE_BUSY\<close>: there may be an instance later.\<close>

definition pipeMayCome :: "svcErr \<Rightarrow> bool" where
  "pipeMayCome e \<longleftrightarrow> sv_code e \<in> {2, 3, 231}"

definition openRound ::
    "'w scm \<Rightarrow> ('w, 'h) svcProc \<Rightarrow> nat \<Rightarrow> svcErr option \<times> 'w \<Rightarrow> (svcErr, 'h) result option \<times> (svcErr option \<times> 'w)" where
  "openRound S create limit w =
     (case w of (lastErr, v) \<Rightarrow>
      (case limitedErr S limit v of
         Some e \<Rightarrow>
           (Some (Inl (case lastErr of None \<Rightarrow> e | Some l \<Rightarrow> e\<lparr>sv_text := sv_text e @ '': '' @ sv_text l\<rparr>)), w)
       | None \<Rightarrow>
           (case create v of
              (Inr h, v') \<Rightarrow> (Some (Inr h), (lastErr, v'))
            | (Inl e, v') \<Rightarrow> if pipeMayCome e then (None, (Some e, v')) else (Some (Inl e), (Some e, v')))))"

definition openRounds :: "nat \<Rightarrow> nat" where
  "openRounds timeout = timeout div 100 + 2"

definition openAppHostPipe :: "'w scm \<Rightarrow> ('w, 'h) svcProc \<Rightarrow> nat \<Rightarrow> ('w, 'h) svcProc" where
  "openAppHostPipe S create timeout w =
     (case poll (openRounds timeout) (apsnd (sm_sleep S 100)) (openRound S create (sm_now S w + timeout)) (Inl (svcError ''no time'')) (None, w) of
        (r, (_, w')) \<Rightarrow> (r, w'))"

text \<open>The loop as written returns, within these rounds, when opening a file takes no negative time and sleeping takes as long as asked.\<close>

lemma openRound_goes_on:
  assumes "\<And>v. sm_now S v \<le> sm_now S (snd (create v))" and "openRound S create limit w = (None, w')"
  shows "sm_now S (snd w) \<le> sm_now S (snd w') \<and> sm_now S (snd w) \<le> limit"
proof -
  obtain l v where w: "w = (l, v)" by (cases w)
  obtain e v' where "create v = (Inl e, v')" "w' = (Some e, v')" "sm_now S v < limit"
    using assms(2) by (auto simp: w openRound_def limitedErr_def split: option.splits prod.splits sum.splits if_splits)
  with assms(1) [of v] show ?thesis by (simp add: w)
qed

lemma openAppHostPipe_returns:
  assumes "\<And>v. sm_now S v \<le> sm_now S (snd (create v))" and "\<And>d v. sm_now S v + d \<le> sm_now S (sm_sleep S d v)"
  shows "pollLoop (apsnd (sm_sleep S 100)) (openRound S create (sm_now S w + timeout)) (None, w) =
    Some (poll (openRounds timeout) (apsnd (sm_sleep S 100)) (openRound S create (sm_now S w + timeout)) (Inl (svcError ''no time'')) (None, w))"
proof (rule pollLoop_returns [where now = "sm_now S \<circ> snd" and deadline = "sm_now S w + timeout" and d = 100])
  have "timeout < (timeout div 100 + 1) * 100" by simp
  then show "sm_now S w + timeout + 100 < (sm_now S \<circ> snd) (None, w) + openRounds timeout * 100" by (simp add: openRounds_def)
qed (use assms openRound_goes_on [OF assms(1)] in \<open>auto simp: openRounds_def\<close>)

text \<open>A connection is one that Windows gave, and a host that is there is reached at once.\<close>

lemma poll_first: "0 < n \<Longrightarrow> round w = (Some r, w') \<Longrightarrow> poll n sleep round out w = (r, w')"
  by (cases n) simp_all

lemma openAppHostPipe_connects:
  assumes "limitedErr S (sm_now S w + timeout) w = None" and "create w = (Inr h, w')"
  shows "openAppHostPipe S create timeout w = (Inr h, w')"
proof -
  have "openRound S create (sm_now S w + timeout) (None, w) = (Some (Inr h), (None, w'))" using assms by (simp add: openRound_def)
  then show ?thesis by (simp add: openAppHostPipe_def openRounds_def poll_first)
qed

definition randomToken :: "(nat \<Rightarrow> (svcErr, 8 word list) result) \<Rightarrow> (svcErr, string) result" where
  "randomToken rand =
     map_result (\<lambda>bs. concat (map (\<lambda>b. [hexDigit (unat b div 16), hexDigit (unat b mod 16)]) bs))
       (map_err (svcWrap ''generate helper token'') (rand 16))"

subsection \<open>The report on the service\<close>

definition compactStatusDetail :: "string \<Rightarrow> string" where
  "compactStatusDetail detail =
     (let detail = ReplaceAll (ReplaceAll (TrimSpace detail) [CHR 0x0D] '' '') [LF] '' '' in
      if 160 < length detail then take 157 detail @ ''...'' else detail)"

lemma compactStatusDetail_short: "length (compactStatusDetail detail) \<le> 160"
  by (simp add: compactStatusDetail_def Let_def)

definition AppHostServiceStatus :: "golib \<Rightarrow> ('p, 'os, 'w) link \<Rightarrow> ('p, 'os, 'w, string) clientProc" where
  "AppHostServiceStatus E K =
     pthen (onSvc (openAppHost (lk_scm K)))
    (pbind (failing (svcWrap ''query apphost service'') (onSvc (sm_Query (lk_scm K)))) (\<lambda>query.
     handling (onSvc (sm_Config (lk_scm K)))
       (\<lambda>_. preturn (serviceStateName (st_State query)))
       (\<lambda>cfg.
          let status = serviceStateName (st_State query) @ '' start_type='' @ serviceStartTypeName (vc_StartType cfg) @
                '' delayed_auto_start='' @ formatFlag (vc_DelayedAutoStart cfg) @ '' pid='' @ Itoa (int (st_ProcessId query))
          in if st_State query = Running
             then handling (appHostHealth E K)
                    (\<lambda>e. preturn (status @ '' health=failed:'' @ compactStatusDetail (sv_text e)))
                    (\<lambda>_. preturn (status @ '' health=ok''))
             else preturn status)))"

subsection \<open>Other systems\<close>

definition errHelperNotAvailable :: svcErr where
  "errHelperNotAvailable = svcError ''elevated helper is not available on this platform''"

text \<open>The operations of \<^verbatim>\<open>privilege_other.go\<close> that return an error.\<close>

definition notAvailable :: "('w, svcErr, 'a) proc" where
  "notAvailable = praise errHelperNotAvailable"

text \<open>A change that needs privileges fails there without being tried.\<close>

lemma notAvailable_changes_nothing: "failing (\<lambda>e. newErr (sv_text e)) notAvailable m = (Inl (newErr (sv_text errHelperNotAvailable)), m)"
  by (simp add: failing_def notAvailable_def praise_def map_err_def)

subsection \<open>The command\<close>

text \<open>
  \<open>console\<close> is \<^verbatim>\<open>RunAppHostConsole\<close>; the result is the line the command prints, if any.
\<close>

definition runAppHost ::
    "golib \<Rightarrow> ('p, 'os, 'w) link \<Rightarrow> ('p, 'os, 'w, unit) clientProc \<Rightarrow> string list \<Rightarrow> ('p, 'os, 'w, string list) clientProc" where
  "runAppHost E K console args =
     (case args of
        [] \<Rightarrow> praise (svcError ''apphost subcommand is required'')
      | sub # _ \<Rightarrow>
          if sub = ''install'' then pthen (onSvc (InstallAppHostService E (lk_scm K))) (preturn [''apphost installed and started''])
          else if sub = ''uninstall'' then pthen (onSvc (UninstallAppHostService E (lk_scm K))) (preturn [''apphost uninstalled''])
          else if sub = ''start'' then pthen (onSvc (StartAppHostService E (lk_scm K))) (preturn [''apphost started''])
          else if sub = ''stop'' then pthen (onSvc (StopAppHostService E (lk_scm K))) (preturn [''apphost stopped''])
          else if sub = ''status'' then pbind (AppHostServiceStatus E K) (\<lambda>status. preturn [''apphost: '' @ status])
          else if sub = ''run'' then pthen console (preturn [])
          else praise (svcError (''unsupported apphost subcommand '' @ sub)))"

end
