(* ===== verification/Tunnel.thy ===== *)
theory Tunnel
  imports Prelude "HOL-Library.Sublist"
begin

section \<open>The tunnel of a CONNECT request\<close>

text \<open>
  \<open>tunnel\<close>, \<open>copyAndCloseWrite\<close> and \<open>closeWrite\<close> of \<^verbatim>\<open>internal/proxy/server.go\<close>.  Two goroutines copy, one in each
  direction, and \<open>tunnel\<close> waits for the first of them to end, closes both connections and waits for
  the other.  A connection has the bytes that arrived and were not read, whether its peer has
  closed, the bytes written to it, and whether it was closed here; a copier is named after the side it reads.  \<open>tn_sent\<close> has everything a peer sent.
\<close>

datatype side = Client | Remote

fun other :: "side \<Rightarrow> side" where
  "other Client = Remote"
| "other Remote = Client"

lemma other_other [simp]: "other (other s) = s" "other s \<noteq> s" "s \<noteq> other s"
  by (cases s; simp)+

lemma side_neq [simp]: "s \<noteq> t \<longleftrightarrow> s = other t"
  by (cases s; cases t) simp_all

datatype waits = First | Second | Neither

record tunnel =
  tn_sent :: "side \<Rightarrow> string"
  tn_unread :: "side \<Rightarrow> string"
  tn_eof :: "side \<Rightarrow> bool"
  tn_written :: "side \<Rightarrow> string"
  tn_closed :: "side \<Rightarrow> bool"
  tn_ended :: "side \<Rightarrow> bool"
  tn_waits :: waits

definition newTunnel :: tunnel where
  "newTunnel = \<lparr>tn_sent = (\<lambda>_. []), tn_unread = (\<lambda>_. []), tn_eof = (\<lambda>_. False), tn_written = (\<lambda>_. []), tn_closed = (\<lambda>_. False),
     tn_ended = (\<lambda>_. False), tn_waits = First\<rparr>"

text \<open>\<open>closeWrite\<close>: a TCP connection stays open for reading, any other is closed.\<close>

definition closeWrite :: "(side \<Rightarrow> bool) \<Rightarrow> side \<Rightarrow> tunnel \<Rightarrow> tunnel" where
  "closeWrite tcp dst t = (if tcp dst then t else t\<lparr>tn_closed := (tn_closed t)(dst := True)\<rparr>)"

definition copierEnds :: "(side \<Rightarrow> bool) \<Rightarrow> side \<Rightarrow> tunnel \<Rightarrow> tunnel" where
  "copierEnds tcp src t = (closeWrite tcp (other src) t)\<lparr>tn_ended := (tn_ended t)(src := True)\<rparr>"

text \<open>A copier ends at the end of the stream (\<open>finished\<close>), or with an error: its connections were closed here, or the network failed.\<close>

inductive tunnelStep :: "(side \<Rightarrow> bool) \<Rightarrow> tunnel \<Rightarrow> tunnel \<Rightarrow> bool"
  for tcp :: "side \<Rightarrow> bool" where
  arrives: "\<not> tn_eof t s \<Longrightarrow>
    tunnelStep tcp t (t\<lparr>tn_sent := (tn_sent t)(s := tn_sent t s @ bs), tn_unread := (tn_unread t)(s := tn_unread t s @ bs)\<rparr>)"
| peer_closes: "tunnelStep tcp t (t\<lparr>tn_eof := (tn_eof t)(s := True)\<rparr>)"
| copies: "\<not> tn_ended t s \<Longrightarrow> \<not> tn_closed t s \<Longrightarrow> \<not> tn_closed t (other s) \<Longrightarrow> tn_unread t s = bs @ rest \<Longrightarrow>
    tunnelStep tcp t (t\<lparr>tn_unread := (tn_unread t)(s := rest), tn_written := (tn_written t)(other s := tn_written t (other s) @ bs)\<rparr>)"
| finished: "\<not> tn_ended t s \<Longrightarrow> tn_eof t s \<Longrightarrow> tn_unread t s = [] \<Longrightarrow> tunnelStep tcp t (copierEnds tcp s t)"
| fails: "\<not> tn_ended t s \<Longrightarrow> tunnelStep tcp t (copierEnds tcp s t)"
| closes_both: "tn_waits t = First \<Longrightarrow> tn_ended t s \<Longrightarrow> tunnelStep tcp t (t\<lparr>tn_waits := Second, tn_closed := (\<lambda>_. True)\<rparr>)"
| returns: "tn_waits t = Second \<Longrightarrow> (\<And>s. tn_ended t s) \<Longrightarrow> tunnelStep tcp t (t\<lparr>tn_waits := Neither\<rparr>)"

inductive_cases tunnelStepE: "tunnelStep tcp t u"

abbreviation tunnelRun :: "(side \<Rightarrow> bool) \<Rightarrow> tunnel \<Rightarrow> tunnel \<Rightarrow> bool" where
  "tunnelRun tcp \<equiv> (tunnelStep tcp)\<^sup>*\<^sup>*"

text \<open>Nothing is lost between reading and writing, and the connections are closed once \<open>tunnel\<close> has seen the first end.\<close>

definition tunnelOK :: "tunnel \<Rightarrow> bool" where
  "tunnelOK t \<longleftrightarrow>
     (\<forall>s. tn_sent t s = tn_written t (other s) @ tn_unread t s) \<and>
     (tn_waits t \<noteq> First \<longrightarrow> (\<forall>s. tn_closed t s)) \<and> (tn_waits t = Neither \<longrightarrow> (\<forall>s. tn_ended t s))"

lemma ends_fields [simp]:
  "tn_sent (copierEnds tcp s t) = tn_sent t" "tn_written (copierEnds tcp s t) = tn_written t" "tn_unread (copierEnds tcp s t) = tn_unread t"
  "tn_waits (copierEnds tcp s t) = tn_waits t" "tn_ended (copierEnds tcp s t) = (tn_ended t)(s := True)" "tn_eof (copierEnds tcp s t) = tn_eof t"
  "tn_closed t x \<Longrightarrow> tn_closed (copierEnds tcp s t) x"
  by (auto simp: copierEnds_def closeWrite_def)

lemma tunnelOK_new: "tunnelOK newTunnel"
  by (simp add: tunnelOK_def newTunnel_def)

lemma tunnelOK_step: "tunnelStep tcp t u \<Longrightarrow> tunnelOK t \<Longrightarrow> tunnelOK u"
proof (induction rule: tunnelStep.induct)
  case (copies t s bs rest)
  have "x = s \<or> x = other s" for x by (cases x; cases s) simp_all
  with copies show ?case by (auto simp: tunnelOK_def)
qed (auto simp: tunnelOK_def)

lemma tunnelOK_run: "tunnelRun tcp newTunnel t \<Longrightarrow> tunnelOK t"
  by (induction rule: rtranclp_induct) (auto intro: tunnelOK_new tunnelOK_step)

text \<open>Whatever state the connections are in, once one copier has ended the tunnel can return.\<close>

lemma copier_ends: "\<exists>u. tunnelRun tcp t u \<and> tn_ended u s \<and> tn_waits u = tn_waits t \<and> (\<forall>x. tn_ended t x \<longrightarrow> tn_ended u x)"
proof (cases "tn_ended t s")
  case False
  from tunnelStep.fails [of t s tcp, OF this] have "tunnelRun tcp t (copierEnds tcp s t)" by simp
  then show ?thesis by (intro exI [of _ "copierEnds tcp s t"]) auto
qed auto

lemma tunnel_can_return:
  assumes "tn_ended t s" and "tn_waits t = First"
  shows "\<exists>u. tunnelRun tcp t u \<and> tn_waits u = Neither"
proof -
  let ?v = "t\<lparr>tn_waits := Second, tn_closed := (\<lambda>_. True)\<rparr>"
  have closed: "tunnelStep tcp t ?v" by (rule tunnelStep.closes_both [OF assms(2,1)])
  obtain u where u: "tunnelRun tcp ?v u" "tn_ended u (other s)" "tn_waits u = Second" "tn_ended u s"
    using copier_ends [of tcp ?v "other s"] assms(1) by auto
  have "tn_ended u x" for x using u(2,4) by (cases "x = s") simp_all
  with u(3) have "tunnelStep tcp u (u\<lparr>tn_waits := Neither\<rparr>)" by (intro tunnelStep.returns) simp_all
  with closed u(1) have "tunnelRun tcp t (u\<lparr>tn_waits := Neither\<rparr>)" by (meson converse_rtranclp_into_rtranclp rtranclp.rtrancl_into_rtrancl)
  then show ?thesis by (intro exI [of _ "u\<lparr>tn_waits := Neither\<rparr>"]) simp
qed

subsection \<open>Properties\<close>


text \<open>
  The first end closes both connections, so a peer that only closes its sending direction, as
  \<open>CloseWrite\<close> passes on, does not get the rest of the answer: it arrives and is never written.
\<close>

lemma answer_after_half_close_lost:
  "\<exists>t. tunnelRun tcp newTunnel t \<and> tn_sent t Client = ''q'' \<and> tn_written t Remote = ''q'' \<and> tn_sent t Remote = ''answer'' \<and>
     (\<forall>u. tunnelRun tcp t u \<longrightarrow> tn_written u Client = [])"
proof -
  define a where "a = newTunnel\<lparr>tn_sent := (\<lambda>_. [])(Client := ''q''), tn_unread := (\<lambda>_. [])(Client := ''q'')\<rparr>"
  define b where "b = a\<lparr>tn_eof := (\<lambda>_. False)(Client := True)\<rparr>"
  define c where "c = b\<lparr>tn_unread := (\<lambda>_. []), tn_written := (\<lambda>_. [])(Remote := ''q'')\<rparr>"
  define d where "d = copierEnds tcp Client c"
  define e where "e = d\<lparr>tn_waits := Second, tn_closed := (\<lambda>_. True)\<rparr>"
  define f where "f = e\<lparr>tn_sent := (tn_sent e)(Remote := ''answer''), tn_unread := (tn_unread e)(Remote := ''answer'')\<rparr>"
  note states = a_def b_def c_def d_def e_def newTunnel_def
  have "tunnelStep tcp newTunnel a" using tunnelStep.arrives [of newTunnel Client tcp "''q''"] by (simp add: states fun_upd_def)
  moreover have "tunnelStep tcp a b" using tunnelStep.peer_closes [of tcp a Client] by (simp add: states)
  moreover have "tunnelStep tcp b c"
    using tunnelStep.copies [of b Client "''q''" "[]" tcp] by (simp add: states fun_upd_def if_distrib cong: if_cong)
  moreover have "tunnelStep tcp c d" unfolding d_def by (intro tunnelStep.finished) (simp_all add: states)
  moreover have "tunnelStep tcp d e" unfolding e_def by (intro tunnelStep.closes_both [where s = Client]) (simp_all add: states)
  moreover have "tn_sent e Remote = []" "tn_unread e Remote = []" "\<not> tn_eof e Remote" by (simp_all add: states)
  then have "tunnelStep tcp e f" using tunnelStep.arrives [of e Remote tcp "''answer''"] by (simp add: f_def)
  ultimately have run: "tunnelRun tcp newTunnel f"
    by (intro converse_rtranclp_into_rtranclp [of "tunnelStep tcp" newTunnel a] converse_rtranclp_into_rtranclp [of "tunnelStep tcp" a b]
        converse_rtranclp_into_rtranclp [of "tunnelStep tcp" b c] converse_rtranclp_into_rtranclp [of "tunnelStep tcp" c d]
        converse_rtranclp_into_rtranclp [of "tunnelStep tcp" d e] r_into_rtranclp [of "tunnelStep tcp" e f])
  have "tn_written u Client = [] \<and> (\<forall>s. tn_closed u s)" if "tunnelRun tcp f u" for u
    using that
  proof induction
    case (step u v)
    then show ?case by (auto simp: copierEnds_def closeWrite_def elim!: tunnelStepE)
  qed (simp add: f_def states)
  with run show ?thesis by (intro exI [of _ f]) (auto simp: f_def states)
qed


end
